(* ===== verification/Prelude.thy ===== *)
theory Prelude
  imports Main "HOL-Library.Sublist"
begin

text \<open>
  Shared ground of the development: the outcome type that every fallible
  operation of the Rust sources is translated into, the casts between machine
  integers, the collections of simplification rules the component theories add
  to, and the list lemmas several components use.
\<close>

section \<open>Rule collections\<close>

named_theorems outcome_simps \<open>binding and inspecting outcomes\<close>
named_theorems str_simps \<open>string operations on literal-headed strings\<close>
named_theorems doc_defs \<open>definitions of document operations, for evaluation\<close>

section \<open>Outcomes: success, an error value, or a panic\<close>

text \<open>
  A Rust function returning \<open>Result<T, E>\<close> has three ways to end: \<open>Ok\<close>, \<open>Err\<close>, or
  a panic (an out-of-bounds index, a byte slice off a character boundary).  A
  function that returns a plain value can still panic; it has an outcome whose
  \<open>Err\<close> branch is never taken.
\<close>

datatype ('a, 'e) outcome = Ok 'a | Err 'e | Panic

fun bind_out :: "('a, 'e) outcome \<Rightarrow> ('a \<Rightarrow> ('b, 'e) outcome) \<Rightarrow> ('b, 'e) outcome" where
  "bind_out (Ok x) f = f x"
| "bind_out (Err e) f = Err e"
| "bind_out Panic f = Panic"

fun map_out :: "('a \<Rightarrow> 'b) \<Rightarrow> ('a, 'e) outcome \<Rightarrow> ('b, 'e) outcome" where
  "map_out f (Ok x) = Ok (f x)"
| "map_out f (Err e) = Err e"
| "map_out f Panic = Panic"

fun map_err :: "('e \<Rightarrow> 'f) \<Rightarrow> ('a, 'e) outcome \<Rightarrow> ('a, 'f) outcome" where
  "map_err f (Ok x) = Ok x"
| "map_err f (Err e) = Err (f e)"
| "map_err f Panic = Panic"

definition ok_or :: "'e \<Rightarrow> 'a option \<Rightarrow> ('a, 'e) outcome" where
  "ok_or e x = (case x of None \<Rightarrow> Err e | Some y \<Rightarrow> Ok y)"

definition is_ok :: "('a, 'e) outcome \<Rightarrow> bool" where
  "is_ok r = (case r of Ok _ \<Rightarrow> True | _ \<Rightarrow> False)"

lemma is_ok_simps [simp]: "is_ok (Ok x)" "\<not> is_ok (Err e)" "\<not> is_ok Panic"
  by (simp_all add: is_ok_def)

lemma bind_out_Ok_iff [outcome_simps]:
  "bind_out m f = Ok y \<longleftrightarrow> (\<exists>x. m = Ok x \<and> f x = Ok y)"
  by (cases m) auto

lemma bind_out_Panic_iff [outcome_simps]:
  "bind_out m f = Panic \<longleftrightarrow> m = Panic \<or> (\<exists>x. m = Ok x \<and> f x = Panic)"
  by (cases m) auto

lemma bind_out_Err_iff [outcome_simps]:
  "bind_out m f = Err e \<longleftrightarrow> m = Err e \<or> (\<exists>x. m = Ok x \<and> f x = Err e)"
  by (cases m) auto

lemma map_out_Ok_iff [outcome_simps]: "map_out f m = Ok y \<longleftrightarrow> (\<exists>x. m = Ok x \<and> y = f x)"
  by (cases m) auto

lemma map_out_Panic_iff [outcome_simps]: "map_out f m = Panic \<longleftrightarrow> m = Panic"
  by (cases m) auto

lemma map_out_Err_iff [outcome_simps]: "map_out f m = Err e \<longleftrightarrow> m = Err e"
  by (cases m) auto

lemma map_err_Ok_iff [outcome_simps]: "map_err f m = Ok x \<longleftrightarrow> m = Ok x"
  by (cases m) auto

lemma ok_or_Ok_iff [outcome_simps]: "ok_or e x = Ok y \<longleftrightarrow> x = Some y"
  by (cases x) (auto simp: ok_or_def)

lemma ok_or_not_Panic [simp]: "ok_or e x \<noteq> Panic"
  by (cases x) (auto simp: ok_or_def)

lemma ok_or_simps [simp]: "ok_or e (Some y) = Ok y" "ok_or e None = Err e"
  by (simp_all add: ok_or_def)

lemma bind_out_assoc: "bind_out (bind_out m f) g = bind_out m (\<lambda>x. bind_out (f x) g)"
  by (cases m) simp_all

section \<open>Integer casts\<close>

text \<open>
  \<open>usize\<close> values are naturals; \<open>as u32\<close> keeps the low 32 bits.  The remainder is
  taken on \<open>int\<close>, whose numerals are binary when the kernel evaluates.
\<close>

definition as_u32 :: "nat \<Rightarrow> nat" where
  "as_u32 n = nat (int n mod 4294967296)"

lemma as_u32_id: "n < 4294967296 \<Longrightarrow> as_u32 n = n"
  by (simp add: as_u32_def)

text \<open>Two's complement reading of the low 64 bits: what \<open>i64\<close> arithmetic wraps to.\<close>

definition wrap_i64 :: "int \<Rightarrow> int" where
  "wrap_i64 x = (x + 9223372036854775808) mod 18446744073709551616 - 9223372036854775808"

lemma wrap_i64_id: "- 9223372036854775808 \<le> x \<Longrightarrow> x < 9223372036854775808 \<Longrightarrow> wrap_i64 x = x"
  by (simp add: wrap_i64_def)

lemma wrap_i64_range:
  "- 9223372036854775808 \<le> wrap_i64 x" "wrap_i64 x < 9223372036854775808"
  by (simp_all add: wrap_i64_def)

text \<open>\<open>Ord::clamp\<close>, with \<open>lo \<le> hi\<close> at every call.\<close>

definition clamp :: "nat \<Rightarrow> nat \<Rightarrow> nat \<Rightarrow> nat" where
  "clamp lo hi n = max lo (min hi n)"

lemma clamp_bounds: "lo \<le> hi \<Longrightarrow> lo \<le> clamp lo hi n \<and> clamp lo hi n \<le> hi"
  by (auto simp: clamp_def)

section \<open>Lists\<close>

text \<open>\<open>Vec::insert\<close>, \<open>Vec::remove\<close>, \<open>splice\<close> and \<open>drain\<close> at indices the callers keep in range.\<close>

definition splice_at :: "nat \<Rightarrow> 'a list \<Rightarrow> 'a list \<Rightarrow> 'a list" where
  "splice_at i new xs = take i xs @ new @ drop i xs"

definition remove_range :: "nat \<Rightarrow> nat \<Rightarrow> 'a list \<Rightarrow> 'a list" where
  "remove_range i j xs = take i xs @ drop j xs"

definition remove_at :: "nat \<Rightarrow> 'a list \<Rightarrow> 'a list" where
  "remove_at i xs = take i xs @ drop (Suc i) xs"

definition get_opt :: "'a list \<Rightarrow> nat \<Rightarrow> 'a option" where
  "get_opt xs i = (if i < length xs then Some (xs ! i) else None)"

text \<open>First index in \<open>[i, j)\<close> whose element satisfies a predicate.\<close>

function find_index_from :: "('a \<Rightarrow> bool) \<Rightarrow> nat \<Rightarrow> nat \<Rightarrow> 'a list \<Rightarrow> nat option" where
  "find_index_from P i j xs =
     (if i < j \<and> i < length xs then (if P (xs ! i) then Some i else find_index_from P (Suc i) j xs)
      else None)"
  by pat_completeness auto
termination by (relation "measure (\<lambda>(P, i, j, xs). j - i)") auto

declare find_index_from.simps [simp del]

text \<open>Advance an index while the element there satisfies a predicate.\<close>

function skip_while_from :: "('a \<Rightarrow> bool) \<Rightarrow> nat \<Rightarrow> 'a list \<Rightarrow> nat" where
  "skip_while_from P i xs =
     (if i < length xs \<and> P (xs ! i) then skip_while_from P (Suc i) xs else i)"
  by pat_completeness auto
termination by (relation "measure (\<lambda>(P, i, xs). length xs - i)") auto

declare skip_while_from.simps [simp del]

lemma length_splice_at [simp]:
  "i \<le> length xs \<Longrightarrow> length (splice_at i new xs) = length xs + length new"
  by (simp add: splice_at_def)

lemma splice_at_same [simp]: "splice_at i [] xs = xs"
  by (simp add: splice_at_def)

lemma remove_splice_at: "i \<le> length xs \<Longrightarrow> remove_range i (i + length new) (splice_at i new xs) = xs"
  by (simp add: splice_at_def remove_range_def)

lemma get_opt_Some_iff [simp]: "get_opt xs i = Some x \<longleftrightarrow> i < length xs \<and> xs ! i = x"
  by (simp add: get_opt_def)

lemma get_opt_None_iff [simp]: "get_opt xs i = None \<longleftrightarrow> length xs \<le> i"
  by (simp add: get_opt_def)

lemma find_index_from_Some_iff:
  "find_index_from P i j xs = Some k \<longleftrightarrow>
     i \<le> k \<and> k < j \<and> k < length xs \<and> P (xs ! k) \<and> (\<forall>m. i \<le> m \<and> m < k \<longrightarrow> \<not> P (xs ! m))"
proof (induction P i j xs rule: find_index_from.induct)
  case (1 P i j xs)
  show ?case
  proof (cases "i < j \<and> i < length xs \<and> \<not> P (xs ! i)")
    case True
    then have "find_index_from P i j xs = find_index_from P (Suc i) j xs"
      by (subst find_index_from.simps) simp
    with True "1.IH" show ?thesis
      by (simp, metis Suc_leD Suc_le_eq le_eq_less_or_eq not_less_eq_eq)
  next
    case False
    then have "find_index_from P i j xs = (if i < j \<and> i < length xs then Some i else None)"
      by (subst find_index_from.simps) auto
    with False show ?thesis
      by (auto simp: le_less)
  qed
qed

lemma find_index_from_None_iff:
  "find_index_from P i j xs = None \<longleftrightarrow> (\<forall>m. i \<le> m \<and> m < j \<and> m < length xs \<longrightarrow> \<not> P (xs ! m))"
proof (induction P i j xs rule: find_index_from.induct)
  case (1 P i j xs)
  show ?case
  proof (cases "i < j \<and> i < length xs \<and> \<not> P (xs ! i)")
    case True
    then have "find_index_from P i j xs = find_index_from P (Suc i) j xs"
      by (subst find_index_from.simps) simp
    with True "1.IH" show ?thesis
      by (simp, metis Suc_leD Suc_le_eq le_eq_less_or_eq)
  next
    case False
    then have "find_index_from P i j xs = (if i < j \<and> i < length xs then Some i else None)"
      by (subst find_index_from.simps) auto
    with False show ?thesis
      by auto
  qed
qed

lemma find_index_from_SomeD:
  assumes "find_index_from P i j xs = Some k"
  shows "i \<le> k" "k < j" "k < length xs" "P (xs ! k)" "\<And>m. i \<le> m \<Longrightarrow> m < k \<Longrightarrow> \<not> P (xs ! m)"
  using assms by (auto simp: find_index_from_Some_iff)

lemma skip_while_from_ge: "i \<le> skip_while_from P i xs"
proof (induction P i xs rule: skip_while_from.induct)
  case (1 P i xs)
  then show ?case by (subst skip_while_from.simps) auto
qed

lemma skip_while_from_le: "i \<le> length xs \<Longrightarrow> skip_while_from P i xs \<le> length xs"
proof (induction P i xs rule: skip_while_from.induct)
  case (1 P i xs)
  then show ?case by (subst skip_while_from.simps) auto
qed

lemma skip_while_from_stop:
  "skip_while_from P i xs < length xs \<Longrightarrow> \<not> P (xs ! skip_while_from P i xs)"
proof (induction P i xs rule: skip_while_from.induct)
  case (1 P i xs)
  show ?case
  proof (cases "i < length xs \<and> P (xs ! i)")
    case True
    then have "skip_while_from P i xs = skip_while_from P (Suc i) xs"
      by (subst skip_while_from.simps) simp
    with 1 True show ?thesis by simp
  next
    case False
    then have "skip_while_from P i xs = i"
      by (subst skip_while_from.simps) auto
    with 1 False show ?thesis by auto
  qed
qed

lemma skip_while_from_skips: "i \<le> m \<Longrightarrow> m < skip_while_from P i xs \<Longrightarrow> P (xs ! m)"
proof (induction P i xs rule: skip_while_from.induct)
  case (1 P i xs)
  show ?case
  proof (cases "i < length xs \<and> P (xs ! i)")
    case True
    then have e: "skip_while_from P i xs = skip_while_from P (Suc i) xs"
      by (subst skip_while_from.simps) simp
    show ?thesis
    proof (cases "m = i")
      case True
      with \<open>i < length xs \<and> P (xs ! i)\<close> show ?thesis by simp
    next
      case False
      with 1 True e show ?thesis by auto
    qed
  next
    case False
    then have "skip_while_from P i xs = i"
      by (subst skip_while_from.simps) auto
    with 1 show ?thesis by simp
  qed
qed

section \<open>First occurrences\<close>

text \<open>
  Several loops of the sources keep a vector of values and push one only when no
  kept value is the same, under equality or under ASCII case folding.
\<close>

definition dedup_push :: "('a \<Rightarrow> 'a \<Rightarrow> bool) \<Rightarrow> 'a list \<Rightarrow> 'a \<Rightarrow> 'a list" where
  "dedup_push same kept x = (if \<exists>y \<in> set kept. same y x then kept else kept @ [x])"

locale similarity =
  fixes same :: "'a \<Rightarrow> 'a \<Rightarrow> bool"
  assumes same_refl: "same x x"
    and same_trans: "same x y \<Longrightarrow> same y z \<Longrightarrow> same x z"
begin

lemma dedup_extends: "\<exists>new. foldl (dedup_push same) kept xs = kept @ new \<and> set new \<subseteq> set xs"
proof (induction xs arbitrary: kept)
  case (Cons x xs)
  obtain new where "foldl (dedup_push same) (dedup_push same kept x) xs = dedup_push same kept x @ new"
      and "set new \<subseteq> set xs"
    using Cons by blast
  moreover have "\<exists>mid. dedup_push same kept x = kept @ mid \<and> set mid \<subseteq> {x}"
    by (auto simp: dedup_push_def)
  ultimately show ?case by fastforce
qed simp

lemma dedup_subset: "set (foldl (dedup_push same) kept xs) \<subseteq> set kept \<union> set xs"
  using dedup_extends [of kept xs] by auto

lemma dedup_keeps: "set kept \<subseteq> set (foldl (dedup_push same) kept xs)"
  using dedup_extends [of kept xs] by auto

lemma dedup_covers: "x \<in> set xs \<Longrightarrow> \<exists>y \<in> set (foldl (dedup_push same) kept xs). same y x"
proof (induction xs arbitrary: kept)
  case (Cons z zs)
  show ?case
  proof (cases "x = z")
    case True
    have "\<exists>y \<in> set (dedup_push same kept z). same y z"
      by (auto simp: dedup_push_def intro: same_refl)
    with True dedup_keeps [of "dedup_push same kept z" zs] show ?thesis by auto
  next
    case False
    with Cons show ?thesis by simp
  qed
qed simp

lemma dedup_distinct:
  "sorted_wrt (\<lambda>a b. \<not> same a b) kept \<Longrightarrow>
   sorted_wrt (\<lambda>a b. \<not> same a b) (foldl (dedup_push same) kept xs)"
proof (induction xs arbitrary: kept)
  case (Cons x xs)
  then have "sorted_wrt (\<lambda>a b. \<not> same a b) (dedup_push same kept x)"
    by (auto simp: dedup_push_def sorted_wrt_append)
  with Cons.IH show ?case by simp
qed simp

lemma dedup_stable:
  "sorted_wrt (\<lambda>a b. \<not> same a b) (kept @ xs) \<Longrightarrow> foldl (dedup_push same) kept xs = kept @ xs"
proof (induction xs arbitrary: kept)
  case (Cons x xs)
  then have "dedup_push same kept x = kept @ [x]"
    by (auto simp: dedup_push_def sorted_wrt_append)
  with Cons show ?case by simp
qed simp

end

interpretation equal_values: similarity "(=)"
  by unfold_locales auto

lemma sorted_wrt_neq_distinct: "sorted_wrt (\<lambda>a b. a \<noteq> b) xs \<longleftrightarrow> distinct xs"
  by (induction xs) auto

section \<open>Loops over numbered lines\<close>

text \<open>
  A pass over a source handles one line at a time, with its index and the lines
  after it at hand.  A property that the start state has and every step keeps holds
  at the end, with the index advanced by the number of lines.
\<close>

fun scan_fold :: "(nat \<Rightarrow> 'l \<Rightarrow> 'l list \<Rightarrow> 's \<Rightarrow> 's) \<Rightarrow> nat \<Rightarrow> 'l list \<Rightarrow> 's \<Rightarrow> 's" where
  "scan_fold step index [] st = st"
| "scan_fold step index (line # rest) st =
     scan_fold step (index + 1) rest (step index line rest st)"

locale scan_invariant =
  fixes step :: "nat \<Rightarrow> 'l \<Rightarrow> 'l list \<Rightarrow> 's \<Rightarrow> 's"
    and inv :: "nat \<Rightarrow> 's \<Rightarrow> bool"
  assumes step_inv: "inv index st \<Longrightarrow> inv (Suc index) (step index line rest st)"
begin

lemma fold_inv: "inv index st \<Longrightarrow> inv (index + length lines) (scan_fold step index lines st)"
proof (induction lines arbitrary: index st)
  case (Cons line rest)
  from Cons.IH [OF step_inv [OF Cons.prems]] show ?case by simp
qed simp

end

text \<open>
  A weaker contract is enough when the property speaks of the lines themselves: the
  step is only taken on the line that the source holds at the index.
\<close>

locale source_scan =
  fixes step :: "nat \<Rightarrow> 'l \<Rightarrow> 'l list \<Rightarrow> 's \<Rightarrow> 's"
    and lines :: "'l list"
    and inv :: "nat \<Rightarrow> 's \<Rightarrow> bool"
  assumes step_at: "drop index lines = line # rest \<Longrightarrow> inv index st \<Longrightarrow>
    inv (Suc index) (step index line rest st)"
begin

lemma fold_from:
  "drop index lines = rest \<Longrightarrow> inv index st \<Longrightarrow>
   inv (index + length rest) (scan_fold step index rest st)"
proof (induction rest arbitrary: index st)
  case (Cons line rest)
  have "drop (Suc index) lines = rest"
    using Cons.prems(1) by (metis drop_Suc drop_tl list.sel(3))
  from Cons.IH [OF this step_at [OF Cons.prems]] show ?case by simp
qed simp

lemma fold_all: "inv 0 st \<Longrightarrow> inv (length lines) (scan_fold step 0 lines st)"
  using fold_from [of 0 lines st] by simp

end

sublocale scan_invariant \<subseteq> source_scan step lines inv for lines
  by unfold_locales (rule step_inv)

end
