(* ===== verification/RustStr.thy ===== *)
theory RustStr
  imports Prelude
begin

text \<open>
  The operations of Rust's \<open>str\<close> that the sources use.  A \<open>str\<close> is the sequence of
  its UTF-8 bytes, so it is a \<open>string\<close> whose \<open>char\<close>s are bytes: lengths, slices,
  prefix tests and searches for ASCII patterns are the byte operations Rust
  performs.  Operations that look at Unicode scalar values (\<open>trim\<close>,
  \<open>split_whitespace\<close>, \<open>chars().count()\<close>) recognise the UTF-8 encodings themselves.
  Slicing off a character boundary panics, and is an outcome here.
\<close>

section \<open>Bytes\<close>

abbreviation code :: "char \<Rightarrow> nat" where
  "code c \<equiv> of_char c"

abbreviation NL :: char where "NL \<equiv> CHR 0x0A"
abbreviation CR :: char where "CR \<equiv> CHR 0x0D"
abbreviation TAB :: char where "TAB \<equiv> CHR 0x09"
abbreviation SP :: char where "SP \<equiv> CHR '' ''"

definition is_ascii :: "char \<Rightarrow> bool" where
  "is_ascii c \<longleftrightarrow> code c < 128"

definition is_ascii_digit :: "char \<Rightarrow> bool" where
  "is_ascii_digit c \<longleftrightarrow> 48 \<le> code c \<and> code c \<le> 57"

definition is_ascii_upper :: "char \<Rightarrow> bool" where
  "is_ascii_upper c \<longleftrightarrow> 65 \<le> code c \<and> code c \<le> 90"

definition is_ascii_lower :: "char \<Rightarrow> bool" where
  "is_ascii_lower c \<longleftrightarrow> 97 \<le> code c \<and> code c \<le> 122"

definition is_ascii_alphanumeric :: "char \<Rightarrow> bool" where
  "is_ascii_alphanumeric c \<longleftrightarrow> is_ascii_digit c \<or> is_ascii_upper c \<or> is_ascii_lower c"

text \<open>\<open>to_ascii_lowercase\<close> and \<open>to_ascii_uppercase\<close> set and clear bit 5 of a letter.\<close>

definition ascii_lower :: "char \<Rightarrow> char" where
  "ascii_lower c = (if is_ascii_upper c
     then (case c of Char b0 b1 b2 b3 b4 b5 b6 b7 \<Rightarrow> Char b0 b1 b2 b3 b4 True b6 b7) else c)"

definition ascii_upper :: "char \<Rightarrow> char" where
  "ascii_upper c = (if is_ascii_lower c
     then (case c of Char b0 b1 b2 b3 b4 b5 b6 b7 \<Rightarrow> Char b0 b1 b2 b3 b4 False b6 b7) else c)"

definition lower_str :: "string \<Rightarrow> string" where
  "lower_str s = map ascii_lower s"

definition eq_ignore_case :: "string \<Rightarrow> string \<Rightarrow> bool" where
  "eq_ignore_case a b \<longleftrightarrow> lower_str a = lower_str b"

section \<open>Character boundaries and slices\<close>

definition is_cont :: "char \<Rightarrow> bool" where
  "is_cont c \<longleftrightarrow> 128 \<le> code c \<and> code c < 192"

definition is_boundary :: "string \<Rightarrow> nat \<Rightarrow> bool" where
  "is_boundary s i \<longleftrightarrow> i = 0 \<or> i = length s \<or> (i < length s \<and> \<not> is_cont (s ! i))"

text \<open>\<open>s.get(..n)\<close> and \<open>s.get(n..)\<close> return \<open>None\<close> where the indexing form panics.\<close>

definition str_get_to :: "string \<Rightarrow> nat \<Rightarrow> string option" where
  "str_get_to s n = (if is_boundary s n then Some (take n s) else None)"

definition str_get_from :: "string \<Rightarrow> nat \<Rightarrow> string option" where
  "str_get_from s n = (if is_boundary s n then Some (drop n s) else None)"

definition slice_to :: "string \<Rightarrow> nat \<Rightarrow> (string, 'e) outcome" where
  "slice_to s n = (if is_boundary s n then Ok (take n s) else Panic)"

definition slice_from :: "string \<Rightarrow> nat \<Rightarrow> (string, 'e) outcome" where
  "slice_from s n = (if is_boundary s n then Ok (drop n s) else Panic)"

definition char_count :: "string \<Rightarrow> nat" where
  "char_count s = length (filter (\<lambda>c. \<not> is_cont c) s)"

section \<open>White space\<close>

definition is_ascii_ws :: "char \<Rightarrow> bool" where
  "is_ascii_ws c \<longleftrightarrow> (9 \<le> code c \<and> code c \<le> 13) \<or> code c = 32"

text \<open>
  The characters with Unicode property White\_Space beyond ASCII: U+0085 and
  U+00A0 in two bytes; U+1680, U+2000--U+200A, U+2028, U+2029, U+202F, U+205F and
  U+3000 in three.
\<close>

definition ws_pair :: "char \<Rightarrow> char \<Rightarrow> bool" where
  "ws_pair a b \<longleftrightarrow> code a = 0xC2 \<and> (code b = 0x85 \<or> code b = 0xA0)"

definition ws_triple :: "char \<Rightarrow> char \<Rightarrow> char \<Rightarrow> bool" where
  "ws_triple a b c \<longleftrightarrow>
     (code a = 0xE1 \<and> code b = 0x9A \<and> code c = 0x80) \<or>
     (code a = 0xE2 \<and> code b = 0x80 \<and>
        ((0x80 \<le> code c \<and> code c \<le> 0x8A) \<or> code c = 0xA8 \<or> code c = 0xA9 \<or> code c = 0xAF)) \<or>
     (code a = 0xE2 \<and> code b = 0x81 \<and> code c = 0x9F) \<or>
     (code a = 0xE3 \<and> code b = 0x80 \<and> code c = 0x80)"

text \<open>Byte length of the white-space character at the head, 0 if there is none.\<close>

fun ws_len :: "string \<Rightarrow> nat" where
  "ws_len [] = 0"
| "ws_len (a # s) =
     (if is_ascii a then (if is_ascii_ws a then 1 else 0)
      else (case s of [] \<Rightarrow> 0
            | b # t \<Rightarrow> if ws_pair a b then 2
                else (case t of [] \<Rightarrow> 0 | c # _ \<Rightarrow> if ws_triple a b c then 3 else 0)))"

text \<open>The same, for the character at the end; the argument is the reversed string.\<close>

fun ws_len_rev :: "string \<Rightarrow> nat" where
  "ws_len_rev [] = 0"
| "ws_len_rev (z # s) =
     (if is_ascii z then (if is_ascii_ws z then 1 else 0)
      else (case s of [] \<Rightarrow> 0
            | y # t \<Rightarrow> if ws_pair y z then 2
                else (case t of [] \<Rightarrow> 0 | x # _ \<Rightarrow> if ws_triple x y z then 3 else 0)))"

lemma ws_len_le: "ws_len s \<le> length s"
  by (cases s rule: ws_len.cases) (auto split: list.splits)

lemma ws_len_rev_le: "ws_len_rev s \<le> length s"
  by (cases s rule: ws_len_rev.cases) (auto split: list.splits)

lemma ws_len_drop_less: "ws_len s \<noteq> 0 \<Longrightarrow> length (drop (ws_len s) s) < length s"
  by (cases s) auto

lemma ws_len_rev_drop_less: "ws_len_rev s \<noteq> 0 \<Longrightarrow> length (drop (ws_len_rev s) s) < length s"
  by (cases s) auto

function trim_start :: "string \<Rightarrow> string" where
  "trim_start s = (if ws_len s = 0 then s else trim_start (drop (ws_len s) s))"
  by pat_completeness auto
termination
proof (relation "measure length")
  fix s
  assume "ws_len s \<noteq> 0"
  then show "(drop (ws_len s) s, s) \<in> measure length"
    unfolding in_measure by (rule ws_len_drop_less)
qed simp

function trim_start_rev :: "string \<Rightarrow> string" where
  "trim_start_rev s = (if ws_len_rev s = 0 then s else trim_start_rev (drop (ws_len_rev s) s))"
  by pat_completeness auto
termination
proof (relation "measure length")
  fix s
  assume "ws_len_rev s \<noteq> 0"
  then show "(drop (ws_len_rev s) s, s) \<in> measure length"
    unfolding in_measure by (rule ws_len_rev_drop_less)
qed simp

declare trim_start.simps [simp del] trim_start_rev.simps [simp del]

definition trim_end :: "string \<Rightarrow> string" where
  "trim_end s = rev (trim_start_rev (rev s))"

definition trim :: "string \<Rightarrow> string" where
  "trim s = trim_end (trim_start s)"

text \<open>\<open>chars().any(char::is_whitespace)\<close>.\<close>

fun has_ws :: "string \<Rightarrow> bool" where
  "has_ws [] = False"
| "has_ws (c # s) = (ws_len (c # s) \<noteq> 0 \<or> has_ws s)"

text \<open>The bytes up to the first white-space character, and the rest.\<close>

fun span_non_ws :: "string \<Rightarrow> string \<times> string" where
  "span_non_ws [] = ([], [])"
| "span_non_ws (c # s) =
     (if ws_len (c # s) \<noteq> 0 then ([], c # s)
      else (case span_non_ws s of (w, r) \<Rightarrow> (c # w, r)))"

lemma trim_start_length: "length (trim_start s) \<le> length s"
proof (induction s rule: trim_start.induct)
  case (1 s)
  show ?case
  proof (cases "ws_len s = 0")
    case True
    then show ?thesis by (subst trim_start.simps) simp
  next
    case False
    then have "trim_start s = trim_start (drop (ws_len s) s)"
      by (subst trim_start.simps) simp
    with 1 False show ?thesis by simp
  qed
qed

lemma span_non_ws_append: "span_non_ws s = (w, r) \<Longrightarrow> s = w @ r"
  by (induction s arbitrary: w r) (auto split: if_splits prod.splits)

lemma ws_len_trim_start: "ws_len (trim_start s) = 0"
proof (induction s rule: trim_start.induct)
  case (1 s)
  show ?case
  proof (cases "ws_len s = 0")
    case True
    then show ?thesis by (subst trim_start.simps) simp
  next
    case False
    then have "trim_start s = trim_start (drop (ws_len s) s)"
      by (subst trim_start.simps) simp
    with 1 False show ?thesis by simp
  qed
qed

function split_ws :: "string \<Rightarrow> string list" where
  "split_ws s =
     (case span_non_ws (trim_start s) of (w, r) \<Rightarrow> if w = [] then [] else w # split_ws r)"
  by pat_completeness auto
termination
proof (relation "measure length")
  fix s w r
  assume "(w, r) = span_non_ws (trim_start s)" and "w \<noteq> []"
  then have "trim_start s = w @ r" by (metis span_non_ws_append)
  with \<open>w \<noteq> []\<close> have "length r < length (trim_start s)" by simp
  then show "(r, s) \<in> measure length"
    using trim_start_length [of s] by simp
qed simp

declare split_ws.simps [simp del]

section \<open>Prefixes, searching, splitting\<close>

definition strip_prefix_str :: "string \<Rightarrow> string \<Rightarrow> string option" where
  "strip_prefix_str p s = (if prefix p s then Some (drop (length p) s) else None)"

definition strip_suffix_str :: "string \<Rightarrow> string \<Rightarrow> string option" where
  "strip_suffix_str p s = (if suffix p s then Some (take (length s - length p) s) else None)"

fun find_sub :: "string \<Rightarrow> string \<Rightarrow> nat option" where
  "find_sub p [] = (if p = [] then Some 0 else None)"
| "find_sub p (c # s) = (if prefix p (c # s) then Some 0 else map_option Suc (find_sub p s))"

fun rfind_sub :: "string \<Rightarrow> string \<Rightarrow> nat option" where
  "rfind_sub p [] = (if p = [] then Some 0 else None)"
| "rfind_sub p (c # s) =
     (case rfind_sub p s of Some i \<Rightarrow> Some (Suc i)
      | None \<Rightarrow> if prefix p (c # s) then Some 0 else None)"

definition split_once :: "string \<Rightarrow> string \<Rightarrow> (string \<times> string) option" where
  "split_once p s = (case find_sub p s of None \<Rightarrow> None
     | Some i \<Rightarrow> Some (take i s, drop (i + length p) s))"

definition rsplit_once :: "string \<Rightarrow> string \<Rightarrow> (string \<times> string) option" where
  "rsplit_once p s = (case rfind_sub p s of None \<Rightarrow> None
     | Some i \<Rightarrow> Some (take i s, drop (i + length p) s))"

text \<open>\<open>split\<close> on a set of ASCII separators; the result is never empty.\<close>

fun split_on :: "(char \<Rightarrow> bool) \<Rightarrow> string \<Rightarrow> string list" where
  "split_on P [] = [[]]"
| "split_on P (c # s) =
     (if P c then [] # split_on P s
      else (case split_on P s of [] \<Rightarrow> [[c]] | w # ws \<Rightarrow> (c # w) # ws))"

fun join_str :: "string \<Rightarrow> string list \<Rightarrow> string" where
  "join_str sep [] = []"
| "join_str sep [x] = x"
| "join_str sep (x # y # ys) = x @ sep @ join_str sep (y # ys)"

text \<open>
  \<open>str::lines\<close>: each piece ends at a line feed, which is removed together with one
  carriage return before it; a last piece without a line feed is kept as it is.
\<close>

definition strip_cr :: "string \<Rightarrow> string" where
  "strip_cr l = (if l \<noteq> [] \<and> last l = CR then butlast l else l)"

function lines_of :: "string \<Rightarrow> string list" where
  "lines_of s =
     (if s = [] then []
      else (case dropWhile (\<lambda>c. c \<noteq> NL) s of
              [] \<Rightarrow> [s]
            | _ # rest \<Rightarrow> strip_cr (takeWhile (\<lambda>c. c \<noteq> NL) s) # lines_of rest))"
  by pat_completeness auto
termination
proof (relation "measure length")
  fix s :: string and c rest
  assume "dropWhile (\<lambda>c. c \<noteq> NL) s = c # rest"
  then have "length (c # rest) \<le> length s"
    by (metis length_dropWhile_le)
  then show "(rest, s) \<in> measure length" by simp
qed simp

declare lines_of.simps [simp del]

definition star_str :: "nat \<Rightarrow> string" where
  "star_str n = replicate n (CHR ''*'')"

section \<open>Decimal numbers\<close>

definition digit_char :: "nat \<Rightarrow> char" where
  "digit_char d = ''0123456789'' ! (d mod 10)"

fun show_nat :: "nat \<Rightarrow> string" where
  "show_nat n = (if n < 10 then [digit_char n] else show_nat (n div 10) @ [digit_char n])"

declare show_nat.simps [simp del]

definition show_int :: "int \<Rightarrow> string" where
  "show_int i = (if i < 0 then CHR ''-'' # show_nat (nat (- i)) else show_nat (nat i))"

definition digit_val :: "char \<Rightarrow> nat" where
  "digit_val c = code c - 48"

definition digits_value :: "string \<Rightarrow> nat" where
  "digits_value s = foldl (\<lambda>n c. 10 * n + digit_val c) 0 s"

definition parse_digits :: "string \<Rightarrow> nat option" where
  "parse_digits s = (if s \<noteq> [] \<and> list_all is_ascii_digit s then Some (digits_value s) else None)"

text \<open>\<open>parse::<usize>\<close> (64 bits): an optional plus sign, digits, no overflow.\<close>

definition parse_usize :: "string \<Rightarrow> nat option" where
  "parse_usize s =
     (case parse_digits (case s of c # t \<Rightarrow> if c = CHR ''+'' then t else s | [] \<Rightarrow> []) of
        None \<Rightarrow> None
      | Some n \<Rightarrow> if int n < 18446744073709551616 then Some n else None)"

text \<open>\<open>parse::<i64>\<close>: an optional sign, digits, no overflow.\<close>

definition parse_i64 :: "string \<Rightarrow> int option" where
  "parse_i64 s =
     (case s of [] \<Rightarrow> None
      | c # t \<Rightarrow>
          (case parse_digits (if c = CHR ''+'' \<or> c = CHR ''-'' then t else s) of
             None \<Rightarrow> None
           | Some n \<Rightarrow>
               let v = (if c = CHR ''-'' then - int n else int n)
               in if - 9223372036854775808 \<le> v \<and> v < 9223372036854775808 then Some v else None))"

text \<open>\<open>{:04}\<close> and \<open>{:02}\<close>: zero-padded to a width, the sign counted in it.\<close>

definition pad_int :: "nat \<Rightarrow> int \<Rightarrow> string" where
  "pad_int w i =
     (if i < 0 then let d = show_nat (nat (- i)) in CHR ''-'' # replicate (w - 1 - length d) (CHR ''0'') @ d
      else let d = show_nat (nat i) in replicate (w - length d) (CHR ''0'') @ d)"

end
