(* ===== verification/CoreModel.thy ===== *)
theory CoreModel
  imports RustStr
begin

text \<open>
  The data model of \<open>crates/slipbox-core\<close> that the indexer and the writer share:
  node kinds, the node record in its indexed, anchor and note forms, links,
  occurrence documents and indexed files (\<open>nodes.rs\<close>, \<open>diagnostics.rs\<close>), and the
  generation identity of \<open>generation.rs\<close>.  Each record field is named as in the
  source, after a short prefix.
\<close>

section \<open>Node kinds\<close>

datatype NodeKind = FileNode | HeadingNode

definition node_kind_as_str :: "NodeKind \<Rightarrow> string" where
  "node_kind_as_str k = (case k of FileNode \<Rightarrow> ''file'' | HeadingNode \<Rightarrow> ''heading'')"

definition node_kind_from_str :: "string \<Rightarrow> NodeKind option" where
  "node_kind_from_str s =
     (if s = ''file'' then Some FileNode else if s = ''heading'' then Some HeadingNode else None)"

lemma node_kind_roundtrip: "node_kind_from_str (node_kind_as_str k) = Some k"
  by (cases k) (simp_all add: node_kind_as_str_def node_kind_from_str_def)

section \<open>Node records\<close>

text \<open>
  \<open>PreviewNodeRecord\<close> is exactly the group of fields all node records share;
  \<open>IndexedNode\<close> adds the body, \<open>AnchorRecord\<close> and \<open>NodeRecord\<close> add the
  same three store-computed fields and so share one type here.
\<close>

record PreviewNodeRecord =
  nd_node_key :: string
  nd_explicit_id :: "string option"
  nd_file_path :: string
  nd_title :: string
  nd_outline_path :: string
  nd_aliases :: "string list"
  nd_tags :: "string list"
  nd_refs :: "string list"
  nd_todo_keyword :: "string option"
  nd_scheduled_for :: "string option"
  nd_deadline_for :: "string option"
  nd_closed_at :: "string option"
  nd_glossary :: bool
  nd_glossary_status :: "string option"
  nd_sr_due :: "string option"
  nd_sr_ease :: "string option"
  nd_sr_interval :: "string option"
  nd_sr_reps :: "string option"
  nd_sr_last :: "string option"
  nd_level :: nat
  nd_line :: nat
  nd_kind :: NodeKind

record IndexedNode = PreviewNodeRecord +
  nd_body :: string

record AnchorRecord = PreviewNodeRecord +
  nd_file_mtime_ns :: int
  nd_backlink_count :: nat
  nd_forward_link_count :: nat

type_synonym NodeRecord = AnchorRecord

text \<open>\<open>impl From<IndexedNode> for PreviewNodeRecord\<close> and \<open>for NodeRecord\<close>.\<close>

definition preview_of_indexed :: "IndexedNode \<Rightarrow> PreviewNodeRecord" where
  "preview_of_indexed n = PreviewNodeRecord.truncate n"

definition node_of_indexed :: "IndexedNode \<Rightarrow> NodeRecord" where
  "node_of_indexed n =
     PreviewNodeRecord.extend (PreviewNodeRecord.truncate n)
       (AnchorRecord.fields 0 0 0)"

definition is_note :: "AnchorRecord \<Rightarrow> bool" where
  "is_note a \<longleftrightarrow> nd_kind a = FileNode \<or> nd_explicit_id a \<noteq> None"

text \<open>\<open>impl TryFrom<AnchorRecord> for NodeRecord\<close>: an anchor that is not a note comes back as the error.\<close>

definition node_try_from_anchor :: "AnchorRecord \<Rightarrow> (NodeRecord, AnchorRecord) outcome" where
  "node_try_from_anchor a = (if is_note a then Ok a else Err a)"

definition anchor_of_node :: "NodeRecord \<Rightarrow> AnchorRecord" where
  "anchor_of_node n = n"

section \<open>Links, occurrence documents, indexed files\<close>

record IndexedLink =
  ln_source_node_key :: string
  ln_destination_explicit_id :: string
  ln_line :: nat
  ln_column :: nat
  ln_preview :: string

record IndexedOccurrenceDocument =
  od_file_path :: string
  od_search_text :: string
  od_line_rows :: "nat list"

record IndexedFile =
  if_file_path :: string
  if_title :: string
  if_mtime_ns :: int
  if_nodes :: "IndexedNode list"
  if_links :: "IndexedLink list"
  if_occurrence_document :: "IndexedOccurrenceDocument option"

record IndexStats =
  st_files_indexed :: nat
  st_nodes_indexed :: nat
  st_links_indexed :: nat

definition accumulate :: "IndexStats \<Rightarrow> IndexStats \<Rightarrow> IndexStats" where
  "accumulate s other =
     \<lparr>st_files_indexed = st_files_indexed s + st_files_indexed other,
      st_nodes_indexed = st_nodes_indexed s + st_nodes_indexed other,
      st_links_indexed = st_links_indexed s + st_links_indexed other\<rparr>"

text \<open>The keys the indexer and the writer give nodes.\<close>

definition file_key :: "string \<Rightarrow> string" where
  "file_key file_path = ''file:'' @ file_path"

definition heading_key :: "string \<Rightarrow> nat \<Rightarrow> string" where
  "heading_key file_path line = ''heading:'' @ file_path @ '':'' @ show_nat line"

section \<open>Generation identities\<close>

text \<open>\<open>generation.rs\<close>: 1 to 64 characters of a closed ASCII alphabet.\<close>

datatype GenerationIdError = GenEmpty | GenLength nat | GenCharset

definition MAX_GENERATION_CHARS :: nat where "MAX_GENERATION_CHARS = 64"

definition generation_char :: "char \<Rightarrow> bool" where
  "generation_char c \<longleftrightarrow> is_ascii_alphanumeric c \<or> c = CHR ''.'' \<or> c = CHR ''-'' \<or> c = CHR ''_''"

definition generation_parse :: "string \<Rightarrow> (string, GenerationIdError) outcome" where
  "generation_parse value =
     (let found = char_count value in
      if found = 0 then Err GenEmpty
      else if MAX_GENERATION_CHARS < found then Err (GenLength found)
      else if \<not> list_all generation_char value then Err GenCharset
      else Ok value)"

lemma anchor_node_roundtrip:
  "is_note a \<Longrightarrow> node_try_from_anchor a = Ok n \<Longrightarrow> anchor_of_node n = a"
  by (simp add: node_try_from_anchor_def anchor_of_node_def)

end
