(* ===== verification/References.thy ===== *)
theory References
  imports CoreModel
begin

text \<open>
  Reference and string-list normalisation of \<open>crates/slipbox-core/src/validation.rs\<close>
  and the capture parameters of \<open>write.rs\<close>: how links, citations and plain
  references become the keys that the index stores and searches.
\<close>

section \<open>Citation keys\<close>

text \<open>\<open>trim_start_matches\<close> with a string pattern removes it as often as it occurs at the head.\<close>

function trim_start_pat :: "string \<Rightarrow> string \<Rightarrow> string" where
  "trim_start_pat p s = (if p \<noteq> [] \<and> prefix p s then trim_start_pat p (drop (length p) s) else s)"
  by pat_completeness auto
termination
proof (relation "measure (\<lambda>(p, s). length s)")
  fix p s :: string
  assume "p \<noteq> [] \<and> prefix p s"
  then obtain t where "s = p @ t" and "p \<noteq> []"
    by (auto elim: prefixE)
  then show "((p, drop (length p) s), p, s) \<in> measure (\<lambda>(p, s). length s)"
    by simp
qed simp

declare trim_start_pat.simps [simp del]

definition cite_key_of_part :: "string \<Rightarrow> string option" where
  "cite_key_of_part part =
     (let key = trim (trim_start_pat ''cite:'' (dropWhile (\<lambda>c. c = CHR ''@'') (trim part))) in
      if key = [] then None else Some (CHR ''@'' # key))"

definition normalize_cite_keys :: "string \<Rightarrow> string list" where
  "normalize_cite_keys input =
     List.map_filter cite_key_of_part (split_on (\<lambda>c. c = CHR '','' \<or> c = CHR '';'') input)"

definition is_cite_key_char :: "char \<Rightarrow> bool" where
  "is_cite_key_char c \<longleftrightarrow>
     is_ascii_alphanumeric c \<or> c = CHR ''_'' \<or> c = CHR ''-'' \<or> c = CHR '':'' \<or> c = CHR ''.''"

text \<open>
  The loop of \<open>extract_org_cite_keys\<close>: the references found so far, the key being
  collected, and whether one is.  Citation key characters and the at sign are
  ASCII, so the loop over characters is a loop over bytes.
\<close>

fun cite_scan :: "string list \<Rightarrow> string \<Rightarrow> bool \<Rightarrow> string \<Rightarrow> string list \<times> string \<times> bool" where
  "cite_scan found current collecting [] = (found, current, collecting)"
| "cite_scan found current collecting (c # s) =
     (if collecting \<and> is_cite_key_char c then cite_scan found (current @ [c]) True s
      else
        let found' = (if collecting \<and> current \<noteq> [] then found @ [CHR ''@'' # current] else found);
            current' = (if collecting then [] else current)
        in cite_scan found' current' (c = CHR ''@'') s)"

definition extract_org_cite_keys :: "string \<Rightarrow> string list" where
  "extract_org_cite_keys input =
     (case cite_scan [] [] False input of (found, current, collecting) \<Rightarrow>
        let refs = (if collecting \<and> current \<noteq> [] then found @ [CHR ''@'' # current] else found)
        in if refs = [] then normalize_cite_keys input else refs)"

section \<open>References\<close>

definition strip_both :: "string \<Rightarrow> string \<Rightarrow> string \<Rightarrow> string option" where
  "strip_both p q s = (case strip_prefix_str p s of None \<Rightarrow> None | Some t \<Rightarrow> strip_suffix_str q t)"

definition link_target :: "string \<Rightarrow> string" where
  "link_target inner = (case split_once '']['' inner of None \<Rightarrow> inner | Some (path, _) \<Rightarrow> path)"

lemma trim_start_rev_length: "length (trim_start_rev s) \<le> length s"
proof (induction s rule: trim_start_rev.induct)
  case (1 s)
  show ?case
  proof (cases "ws_len_rev s = 0")
    case True
    then show ?thesis by (subst trim_start_rev.simps) simp
  next
    case False
    then have "trim_start_rev s = trim_start_rev (drop (ws_len_rev s) s)"
      by (subst trim_start_rev.simps) simp
    with 1 False show ?thesis by simp
  qed
qed

lemma trim_length: "length (trim s) \<le> length s"
  using trim_start_rev_length [of "rev (trim_start s)"] trim_start_length [of s]
  by (simp add: trim_def trim_end_def)

lemma strip_both_length: "strip_both p q s = Some t \<Longrightarrow> length t + length p \<le> length s"
  by (auto simp: strip_both_def strip_prefix_str_def strip_suffix_str_def prefix_length_le
        split: if_splits option.splits dest!: prefix_length_le)

lemma link_target_length: "length (link_target s) \<le> length s"
  by (auto simp: link_target_def split_once_def split: option.splits)

function normalize_reference :: "string \<Rightarrow> string list" where
  "normalize_reference input =
     (let trimmed = trim input in
      if trimmed = [] then []
      else case strip_both ''[['' '']]'' trimmed of
        Some inner \<Rightarrow> normalize_reference (link_target inner)
      | None \<Rightarrow>
        (case strip_prefix_str ''@'' trimmed of
           Some key \<Rightarrow> normalize_cite_keys key
         | None \<Rightarrow>
           (case strip_both ''[cite:'' '']'' trimmed of
              Some inner \<Rightarrow> extract_org_cite_keys inner
            | None \<Rightarrow>
              (case strip_prefix_str ''cite:'' trimmed of
                 Some path \<Rightarrow> normalize_cite_keys path
               | None \<Rightarrow> [trimmed]))))"
  by pat_completeness auto
termination
proof (relation "measure length")
  fix input trimmed inner
  assume "trimmed = trim input" and "strip_both ''[['' '']]'' trimmed = Some inner"
  then have "length inner + 2 \<le> length input"
    using strip_both_length [of "''[[''" "'']]''" trimmed inner] trim_length [of input] by simp
  then show "(link_target inner, input) \<in> measure length"
    using link_target_length [of inner] by simp
qed simp

declare normalize_reference.simps [simp del]

section \<open>String lists\<close>

text \<open>\<open>normalize_string_values\<close>: trimmed, non-empty, first occurrences only.\<close>

definition same_value :: "bool \<Rightarrow> string \<Rightarrow> string \<Rightarrow> bool" where
  "same_value nocase a b = (if nocase then eq_ignore_case a b else a = b)"

definition push_value :: "bool \<Rightarrow> string list \<Rightarrow> string \<Rightarrow> string list" where
  "push_value nocase normalized value =
     (let trimmed = trim value in
      if trimmed = [] \<or> (\<exists>existing \<in> set normalized. same_value nocase existing trimmed)
      then normalized else normalized @ [trimmed])"

definition normalize_string_values :: "string list \<Rightarrow> bool \<Rightarrow> string list" where
  "normalize_string_values values nocase = foldl (push_value nocase) [] values"

text \<open>The loop shared by \<open>CaptureNodeParams\<close>, \<open>CaptureTemplateParams\<close> and \<open>UpdateNodeMetadataParams\<close>.\<close>

definition push_ref :: "string list \<Rightarrow> string \<Rightarrow> string list" where
  "push_ref refs normalized =
     (if normalized = [] \<or> (\<exists>existing \<in> set refs. eq_ignore_case existing normalized)
      then refs else refs @ [normalized])"

definition normalized_refs :: "string list \<Rightarrow> string list" where
  "normalized_refs references =
     foldl (\<lambda>refs reference. foldl push_ref refs (normalize_reference reference)) [] references"

end
