(* ===== verification/RustPath.thy ===== *)
theory RustPath
  imports RustStr
begin

text \<open>
  What the sources use of \<open>std::path\<close> on a Unix host, over paths that are valid
  UTF-8: the component iterator (repeated separators and inner dots disappear, a
  leading dot stays), the file name, its stem and extension, and the parent.
\<close>

datatype component = RootDir | CurDir | ParentDir | NormalComp string

definition is_slash :: "char \<Rightarrow> bool" where
  "is_slash c \<longleftrightarrow> c = CHR ''/''"

definition component_of_part :: "string \<Rightarrow> component" where
  "component_of_part p = (if p = ''..'' then ParentDir else NormalComp p)"

definition components :: "string \<Rightarrow> component list" where
  "components s =
     (let parts = split_on is_slash s;
          body = map component_of_part (filter (\<lambda>p. p \<noteq> [] \<and> p \<noteq> ''.'') parts)
      in if prefix ''/'' s then RootDir # body
         else if hd parts = ''.'' then CurDir # body
         else body)"

definition file_name :: "string \<Rightarrow> string option" where
  "file_name s = (case components s of [] \<Rightarrow> None
     | cs \<Rightarrow> (case last cs of NormalComp n \<Rightarrow> Some n | _ \<Rightarrow> None))"

text \<open>A name splits at its last dot, unless that dot is its first character.\<close>

definition split_name :: "string \<Rightarrow> string \<times> string option" where
  "split_name n = (case rsplit_once ''.'' n of
      None \<Rightarrow> (n, None)
    | Some (before, after) \<Rightarrow> if before = [] then (n, None) else (before, Some after))"

definition file_stem :: "string \<Rightarrow> string option" where
  "file_stem s = map_option (fst \<circ> split_name) (file_name s)"

definition extension :: "string \<Rightarrow> string option" where
  "extension s = Option.bind (file_name s) (snd \<circ> split_name)"

definition component_str :: "component \<Rightarrow> string" where
  "component_str c = (case c of RootDir \<Rightarrow> [] | CurDir \<Rightarrow> ''.'' | ParentDir \<Rightarrow> ''..'' | NormalComp n \<Rightarrow> n)"

text \<open>\<open>parent\<close>: \<open>None\<close> for the empty path and for the root.\<close>

definition parent_components :: "string \<Rightarrow> component list option" where
  "parent_components s = (case components s of [] \<Rightarrow> None
     | cs \<Rightarrow> if last cs = RootDir then None else Some (butlast cs))"

text \<open>Both slashes replaced: \<open>replace('\\', "/")\<close>.\<close>

definition forward_slashes :: "string \<Rightarrow> string" where
  "forward_slashes s = map (\<lambda>c. if c = CHR 0x5C then CHR ''/'' else c) s"

lemma forward_slashes_id: "CHR 0x5C \<notin> set s \<Longrightarrow> forward_slashes s = s"
  by (auto simp: forward_slashes_def intro: map_idI)

lemma forward_slashes_no_backslash: "CHR 0x5C \<notin> set (forward_slashes s)"
  by (auto simp: forward_slashes_def)

end
