(* ===== verification/OrgIndex.thy ===== *)
theory OrgIndex
  imports References RustPath
begin

text \<open>
  The Org indexer, \<open>crates/slipbox-index/src/lib.rs\<close>: one pass over the lines of a
  source produces the nodes, ID links and searchable lines of a file.  Definitions
  follow the file: keyword and heading recognition, drawers and planning lines,
  tags and quoted values, links, then the document loop and the outline scan.
\<close>

section \<open>Keywords and headings\<close>

definition strip_keyword :: "string \<Rightarrow> string \<Rightarrow> string option" where
  "strip_keyword line keyword =
     (case str_get_to line (length keyword) of None \<Rightarrow> None
      | Some pre \<Rightarrow> if eq_ignore_case pre keyword then Some (drop (length keyword) line) else None)"

definition looks_like_todo_keyword :: "string \<Rightarrow> bool" where
  "looks_like_todo_keyword token \<longleftrightarrow>
     token \<in> set [''TODO'', ''DONE'', ''NEXT'', ''WAITING'', ''STARTED'', ''CANCELLED'', ''HOLD'']"

definition unique_strings :: "string list \<Rightarrow> string list" where
  "unique_strings values =
     foldl (\<lambda>unique value. if value \<noteq> [] \<and> value \<notin> set unique then unique @ [value] else unique)
       [] values"

definition parse_colon_tags :: "string \<Rightarrow> string list" where
  "parse_colon_tags input =
     (let trimmed = trim input in
      if \<not> prefix '':'' trimmed \<or> \<not> suffix '':'' trimmed then []
      else filter (\<lambda>part. \<not> has_ws part)
             (filter (\<lambda>part. part \<noteq> []) (split_on (\<lambda>c. c = CHR '':'') trimmed)))"

definition split_heading_tags :: "string \<Rightarrow> string \<times> string list" where
  "split_heading_tags input =
     (case rfind_sub '' :'' input of
        None \<Rightarrow> (trim input, [])
      | Some position \<Rightarrow>
          let title = take position input;
              tags = parse_colon_tags (drop (position + 1) input)
          in if tags = [] then (trim input, []) else (trim_end title, unique_strings tags))"

definition split_todo_keyword :: "string \<Rightarrow> string option \<times> string" where
  "split_todo_keyword input =
     (case split_once '' '' input of
        None \<Rightarrow> (None, input)
      | Some (first, rest) \<Rightarrow>
          if looks_like_todo_keyword first then (Some first, trim_start rest) else (None, input))"

definition star_count :: "string \<Rightarrow> nat" where
  "star_count line = length (takeWhile (\<lambda>c. c = CHR ''*'') line)"

definition parse_heading :: "string \<Rightarrow> (nat \<times> string option \<times> string \<times> string list) option" where
  "parse_heading line =
     (let level = star_count line in
      if level = 0 \<or> \<not> prefix '' '' (drop level line) then None
      else
        (case split_heading_tags (trim (drop (level + 1) line)) of (title, tags) \<Rightarrow>
         case split_todo_keyword title of (todo_keyword, title) \<Rightarrow>
           if title = [] then None else Some (level, todo_keyword, title, tags)))"

section \<open>Aliases, references and exclusion\<close>

datatype NodeExclusionDirective = Inherit | Exclude | Include

definition resolve :: "NodeExclusionDirective \<Rightarrow> bool \<Rightarrow> bool" where
  "resolve d inherited = (case d of Inherit \<Rightarrow> inherited | Exclude \<Rightarrow> True | Include \<Rightarrow> False)"

text \<open>
  The character loop of \<open>parse_quoted_values\<close>.  A white-space character that is kept
  (inside quotes or brackets) is pushed byte by byte; its continuation bytes match
  none of the special cases.
\<close>

function quoted_scan ::
  "string list \<Rightarrow> string \<Rightarrow> bool \<Rightarrow> nat \<Rightarrow> string \<Rightarrow> string list \<times> string" where
  "quoted_scan vals current in_quotes depth [] = (vals, current)"
| "quoted_scan vals current in_quotes depth (c # s) =
     (if c = CHR 0x22 then
        (if in_quotes then
           quoted_scan (if current \<noteq> [] then vals @ [current] else vals) [] False depth s
         else if trim current \<noteq> [] then
           quoted_scan (vals @ split_ws current) [] True depth s
         else quoted_scan vals current True depth s)
      else if c = CHR ''['' \<and> \<not> in_quotes then
        quoted_scan vals (current @ [c]) in_quotes (depth + 1) s
      else if c = CHR '']'' \<and> \<not> in_quotes then
        quoted_scan vals (current @ [c]) in_quotes (depth - 1) s
      else if ws_len (c # s) \<noteq> 0 \<and> \<not> in_quotes \<and> depth = 0 then
        quoted_scan (if current \<noteq> [] then vals @ [current] else vals) [] in_quotes depth
          (drop (ws_len (c # s) - 1) s)
      else quoted_scan vals (current @ [c]) in_quotes depth s)"
  by pat_completeness auto
termination by (relation "measure (\<lambda>(_, _, _, _, s). length s)") auto

definition parse_quoted_values :: "string \<Rightarrow> string list" where
  "parse_quoted_values input =
     (case quoted_scan [] [] False 0 input of (vals, current) \<Rightarrow>
        if trim current \<noteq> [] then vals @ [trim current] else vals)"

definition parse_aliases :: "string \<Rightarrow> string list" where
  "parse_aliases input = unique_strings (parse_quoted_values input)"

definition parse_refs :: "string \<Rightarrow> string list" where
  "parse_refs input = unique_strings (concat (map normalize_reference (parse_quoted_values input)))"

definition parse_roam_exclude :: "string \<Rightarrow> NodeExclusionDirective" where
  "parse_roam_exclude input = (if eq_ignore_case (trim input) ''nil'' then Include else Exclude)"

section \<open>File-level metadata\<close>

record NodeProperties =
  np_explicit_id :: "string option"
  np_aliases :: "string list"
  np_refs :: "string list"
  np_roam_exclude :: NodeExclusionDirective
  np_glossary_status :: "string option"
  np_sr_due :: "string option"
  np_sr_ease :: "string option"
  np_sr_interval :: "string option"
  np_sr_reps :: "string option"
  np_sr_last :: "string option"

definition default_properties :: NodeProperties where
  "default_properties =
     \<lparr>np_explicit_id = None, np_aliases = [], np_refs = [], np_roam_exclude = Inherit,
      np_glossary_status = None, np_sr_due = None, np_sr_ease = None, np_sr_interval = None,
      np_sr_reps = None, np_sr_last = None\<rparr>"

definition drawer_value :: "string \<Rightarrow> string option" where
  "drawer_value value = (let trimmed = trim value in if trimmed = [] then None else Some trimmed)"

text \<open>\<open>if let Some(value) = strip_keyword(trimmed, key) { ... }\<close>.\<close>

definition on_key :: "string \<Rightarrow> string \<Rightarrow> (string \<Rightarrow> 'a \<Rightarrow> 'a) \<Rightarrow> 'a \<Rightarrow> 'a" where
  "on_key trimmed key update st =
     (case strip_keyword trimmed key of None \<Rightarrow> st | Some value \<Rightarrow> update value st)"

definition set_id :: "(string \<Rightarrow> 'a) \<Rightarrow> string \<Rightarrow> 'a \<Rightarrow> 'a" where
  "set_id set_field value st = (let id = trim value in if id \<noteq> [] then set_field id else st)"

definition drawer_line :: "string \<Rightarrow> NodeProperties \<Rightarrow> NodeProperties" where
  "drawer_line trimmed p0 =
     (let p1 = on_key trimmed '':ID:'' (\<lambda>v p. set_id (\<lambda>id. p\<lparr>np_explicit_id := Some id\<rparr>) v p) p0;
          p2 = on_key trimmed '':ROAM_ALIASES:'' (\<lambda>v p. p\<lparr>np_aliases := parse_aliases v\<rparr>) p1;
          p3 = on_key trimmed '':ROAM_REFS:'' (\<lambda>v p. p\<lparr>np_refs := parse_refs v\<rparr>) p2;
          p4 = on_key trimmed '':ROAM_EXCLUDE:'' (\<lambda>v p. p\<lparr>np_roam_exclude := parse_roam_exclude v\<rparr>) p3;
          p5 = on_key trimmed '':GLOSSARY_STATUS:'' (\<lambda>v p. p\<lparr>np_glossary_status := drawer_value v\<rparr>) p4;
          p6 = on_key trimmed '':SR_DUE:'' (\<lambda>v p. p\<lparr>np_sr_due := drawer_value v\<rparr>) p5;
          p7 = on_key trimmed '':SR_EASE:'' (\<lambda>v p. p\<lparr>np_sr_ease := drawer_value v\<rparr>) p6;
          p8 = on_key trimmed '':SR_INTERVAL:'' (\<lambda>v p. p\<lparr>np_sr_interval := drawer_value v\<rparr>) p7;
          p9 = on_key trimmed '':SR_REPS:'' (\<lambda>v p. p\<lparr>np_sr_reps := drawer_value v\<rparr>) p8
      in on_key trimmed '':SR_LAST:'' (\<lambda>v p. p\<lparr>np_sr_last := drawer_value v\<rparr>) p9)"

fun drawer_loop :: "NodeProperties \<Rightarrow> string list \<Rightarrow> NodeProperties" where
  "drawer_loop p [] = p"
| "drawer_loop p (line # rest) =
     (if eq_ignore_case (trim line) '':END:'' then p
      else drawer_loop (drawer_line (trim line) p) rest)"

definition parse_property_drawer :: "string list \<Rightarrow> nat \<Rightarrow> NodeProperties" where
  "parse_property_drawer lines start_index =
     drawer_loop default_properties (drop (start_index + 1) lines)"

fun file_properties_from :: "nat \<Rightarrow> string list \<Rightarrow> string list \<Rightarrow> NodeProperties" where
  "file_properties_from index lines [] = default_properties"
| "file_properties_from index lines (line # rest) =
     (let trimmed = trim line in
      if trimmed = [] \<or> prefix ''#+'' trimmed then file_properties_from (index + 1) lines rest
      else if eq_ignore_case trimmed '':PROPERTIES:'' then parse_property_drawer lines index
      else default_properties)"

definition parse_file_properties :: "string list \<Rightarrow> NodeProperties" where
  "parse_file_properties lines = file_properties_from 0 lines lines"

fun find_map :: "('a \<Rightarrow> 'b option) \<Rightarrow> 'a list \<Rightarrow> 'b option" where
  "find_map f [] = None"
| "find_map f (x # xs) = (case f x of Some y \<Rightarrow> Some y | None \<Rightarrow> find_map f xs)"

definition parse_file_title :: "string list \<Rightarrow> string option" where
  "parse_file_title lines =
     find_map (\<lambda>line. case strip_keyword line ''#+title:'' of None \<Rightarrow> None
       | Some value \<Rightarrow> if trim value \<noteq> [] then Some (trim value) else None) lines"

definition parse_glossary_marker :: "string list \<Rightarrow> bool" where
  "parse_glossary_marker lines \<longleftrightarrow>
     list_ex (\<lambda>line. case strip_keyword line ''#+glossary:'' of None \<Rightarrow> False
       | Some value \<Rightarrow> trim value \<noteq> [] \<and> \<not> eq_ignore_case (trim value) ''nil'') lines"

definition parse_filetags :: "string list \<Rightarrow> string list" where
  "parse_filetags lines =
     (case find_map (\<lambda>line. map_option parse_colon_tags
             (case strip_keyword line ''#+filetags:'' of Some v \<Rightarrow> Some v
              | None \<Rightarrow> strip_keyword line ''#+FILETAGS:'')) lines of
        None \<Rightarrow> [] | Some tags \<Rightarrow> unique_strings tags)"

definition envelope_extension :: "string \<Rightarrow> string option" where
  "envelope_extension path = map_option lower_str (extension path)"

definition default_file_stem :: "string \<Rightarrow> string option" where
  "default_file_stem path =
     (if envelope_extension path \<in> {Some ''gpg'', Some ''age''}
      then Option.bind (file_stem path) file_stem
      else file_stem path)"

definition default_file_title :: "string \<Rightarrow> string" where
  "default_file_title file_path =
     (case default_file_stem file_path of Some stem \<Rightarrow> stem | None \<Rightarrow> file_path)"

section \<open>Planning lines\<close>

definition parse_org_timestamp :: "string \<Rightarrow> string option" where
  "parse_org_timestamp value =
     (case split_ws value of [] \<Rightarrow> None
      | date # _ \<Rightarrow>
          if length date = 10 \<and>
             (\<forall>i \<in> set [0..<length date].
                if i = 4 \<or> i = 7 then date ! i = CHR ''-'' else is_ascii_digit (date ! i))
          then Some (date @ ''T00:00:00'') else None)"

definition extract_planning_timestamp :: "string \<Rightarrow> string \<Rightarrow> string option" where
  "extract_planning_timestamp line keyword =
     (case find_sub keyword line of None \<Rightarrow> None
      | Some position \<Rightarrow>
          let value = trim_start (drop (position + length keyword) line);
              closing = (if prefix ''<'' value then Some ''>''
                         else if prefix ''['' value then Some '']'' else None)
          in (case closing of None \<Rightarrow> None
              | Some close \<Rightarrow>
                  (case find_sub close value of None \<Rightarrow> None
                   | Some end \<Rightarrow> parse_org_timestamp (drop 1 (take end value)))))"

definition is_planning_line :: "string \<Rightarrow> bool" where
  "is_planning_line line \<longleftrightarrow>
     list_ex (\<lambda>keyword. extract_planning_timestamp line keyword \<noteq> None)
       [''SCHEDULED:'', ''DEADLINE:'', ''CLOSED:'']"

section \<open>Heading metadata\<close>

record HeadingMetadata =
  hm_explicit_id :: "string option"
  hm_aliases :: "string list"
  hm_refs :: "string list"
  hm_roam_exclude :: NodeExclusionDirective
  hm_scheduled_for :: "string option"
  hm_deadline_for :: "string option"
  hm_closed_at :: "string option"

definition default_metadata :: HeadingMetadata where
  "default_metadata =
     \<lparr>hm_explicit_id = None, hm_aliases = [], hm_refs = [], hm_roam_exclude = Inherit,
      hm_scheduled_for = None, hm_deadline_for = None, hm_closed_at = None\<rparr>"

text \<open>\<open>parse_planning_line\<close> returns whether the line matched and the updated metadata.\<close>

definition parse_planning_line :: "string \<Rightarrow> HeadingMetadata \<Rightarrow> bool \<times> HeadingMetadata" where
  "parse_planning_line line m0 =
     (let s = extract_planning_timestamp line ''SCHEDULED:'';
          d = extract_planning_timestamp line ''DEADLINE:'';
          c = extract_planning_timestamp line ''CLOSED:'';
          m1 = (if s \<noteq> None then m0\<lparr>hm_scheduled_for := s\<rparr> else m0);
          m2 = (if d \<noteq> None then m1\<lparr>hm_deadline_for := d\<rparr> else m1);
          m3 = (if c \<noteq> None then m2\<lparr>hm_closed_at := c\<rparr> else m2)
      in (s \<noteq> None \<or> d \<noteq> None \<or> c \<noteq> None, m3))"

definition heading_drawer_line :: "string \<Rightarrow> HeadingMetadata \<Rightarrow> HeadingMetadata" where
  "heading_drawer_line trimmed m0 =
     (let m1 = on_key trimmed '':ID:'' (\<lambda>v m. set_id (\<lambda>id. m\<lparr>hm_explicit_id := Some id\<rparr>) v m) m0;
          m2 = on_key trimmed '':ROAM_ALIASES:'' (\<lambda>v m. m\<lparr>hm_aliases := parse_aliases v\<rparr>) m1;
          m3 = on_key trimmed '':ROAM_REFS:'' (\<lambda>v m. m\<lparr>hm_refs := parse_refs v\<rparr>) m2
      in on_key trimmed '':ROAM_EXCLUDE:'' (\<lambda>v m. m\<lparr>hm_roam_exclude := parse_roam_exclude v\<rparr>) m3)"

fun metadata_loop :: "bool \<Rightarrow> HeadingMetadata \<Rightarrow> string list \<Rightarrow> HeadingMetadata" where
  "metadata_loop in_drawer m [] = m"
| "metadata_loop in_drawer m (line # rest) =
     (let trimmed = trim line in
      if parse_heading line \<noteq> None then m
      else if in_drawer then
        (if eq_ignore_case trimmed '':END:'' then metadata_loop False m rest
         else metadata_loop True (heading_drawer_line trimmed m) rest)
      else if eq_ignore_case trimmed '':PROPERTIES:'' then metadata_loop True m rest
      else (case parse_planning_line trimmed m of (matched, m') \<Rightarrow>
              if matched \<or> trimmed = [] then metadata_loop False m' rest else m'))"

definition parse_heading_metadata :: "string list \<Rightarrow> nat \<Rightarrow> HeadingMetadata" where
  "parse_heading_metadata lines start_index =
     metadata_loop False default_metadata (drop start_index lines)"

fun exclusion_loop :: "bool \<Rightarrow> string list \<Rightarrow> NodeExclusionDirective" where
  "exclusion_loop in_drawer [] = Inherit"
| "exclusion_loop in_drawer (line # rest) =
     (let trimmed = trim line in
      if parse_heading line \<noteq> None then Inherit
      else if in_drawer then
        (if eq_ignore_case trimmed '':END:'' then Inherit
         else (case strip_keyword trimmed '':ROAM_EXCLUDE:'' of
                 Some value \<Rightarrow> parse_roam_exclude value
               | None \<Rightarrow> exclusion_loop True rest))
      else if eq_ignore_case trimmed '':PROPERTIES:'' then exclusion_loop True rest
      else if trimmed = [] \<or> is_planning_line trimmed then exclusion_loop False rest
      else Inherit)"

definition parse_heading_exclusion :: "string list \<Rightarrow> nat \<Rightarrow> NodeExclusionDirective" where
  "parse_heading_exclusion lines start_index = exclusion_loop False (drop start_index lines)"

section \<open>Body lines and links\<close>

definition body_line :: "string \<Rightarrow> bool \<Rightarrow> string option \<times> bool" where
  "body_line line in_drawer =
     (let trimmed = trim line in
      if in_drawer then (None, \<not> eq_ignore_case trimmed '':END:'')
      else if eq_ignore_case trimmed '':PROPERTIES:'' then (None, True)
      else if trimmed = [] \<or> prefix ''#+'' trimmed \<or> is_planning_line trimmed then (None, False)
      else (Some trimmed, False))"

definition column_number :: "string \<Rightarrow> nat \<Rightarrow> nat" where
  "column_number line byte_offset = as_u32 (as_u32 (char_count (take byte_offset line)) + 1)"

definition preview_snippet :: "string \<Rightarrow> string" where
  "preview_snippet line = trim line"

definition link_destination :: "string \<Rightarrow> string option" where
  "link_destination inner =
     (case map_option trim (strip_prefix_str ''id:'' (trim (link_target inner))) of
        None \<Rightarrow> None
      | Some destination_id \<Rightarrow> if destination_id \<noteq> [] then Some destination_id else None)"

lemma find_sub_length: "find_sub p s = Some i \<Longrightarrow> i + length p \<le> length s"
  by (induction s arbitrary: i) (auto split: if_splits dest: prefix_length_le)

function links_loop :: "string \<Rightarrow> string \<Rightarrow> nat \<Rightarrow> nat \<Rightarrow> IndexedLink list" where
  "links_loop line source_node_key row offset =
     (case find_sub ''[['' (drop offset line) of None \<Rightarrow> []
      | Some relative_start \<Rightarrow>
          let start = offset + relative_start; suffix = drop (start + 2) line in
          (case find_sub '']]'' suffix of None \<Rightarrow> []
           | Some end \<Rightarrow>
               (case link_destination (take end suffix) of None \<Rightarrow> []
                | Some destination_id \<Rightarrow>
                    [\<lparr>ln_source_node_key = source_node_key,
                      ln_destination_explicit_id = destination_id,
                      ln_line = row, ln_column = column_number line start,
                      ln_preview = preview_snippet line\<rparr>])
               @ links_loop line source_node_key row (start + 2 + end + 2)))"
  by pat_completeness auto
termination
proof (relation "measure (\<lambda>(line, _, _, offset). length line - offset)")
  fix line :: string and source_node_key :: string and row offset relative_start start :: nat
    and suffix "end"
  assume "find_sub ''[['' (drop offset line) = Some relative_start"
  then have "offset < length line"
    using find_sub_length [of "''[[''" "drop offset line" relative_start] by simp
  then show "((line, source_node_key, row, start + 2 + end + 2), line, source_node_key, row, offset)
      \<in> measure (\<lambda>(line, _, _, offset). length line - offset)"
    if "start = offset + relative_start"
    using that by simp
qed simp

declare links_loop.simps [simp del]

definition extract_id_links :: "string \<Rightarrow> string \<Rightarrow> nat \<Rightarrow> IndexedLink list" where
  "extract_id_links line source_node_key row = links_loop line source_node_key row 0"

end
