(* ===== verification/IndexScan.thy ===== *)
theory IndexScan
  imports OrgIndex
begin

text \<open>
  The two passes of the indexer over a whole source, \<open>parse_document\<close> and
  \<open>parse_outline_nodes\<close> of \<open>crates/slipbox-index/src/lib.rs\<close>, as folds of one step
  per line over an explicit loop state.
\<close>

section \<open>The document loop\<close>

record DocState =
  ds_nodes :: "IndexedNode list"
  ds_links :: "IndexedLink list"
  ds_line_rows :: "nat list"
  ds_search_lines :: "string list"
  ds_bodies :: "string \<rightharpoonup> string"
  ds_in_drawer :: bool
  ds_source_key :: "string option"
  ds_outline_stack :: "string list"
  ds_exclusion_stack :: "bool list"
  ds_excluded_ids :: "string set"

definition last_or :: "'a \<Rightarrow> 'a list \<Rightarrow> 'a" where
  "last_or d xs = (if xs = [] then d else last xs)"

definition insert_id :: "string option \<Rightarrow> string set \<Rightarrow> string set" where
  "insert_id i ids = (case i of None \<Rightarrow> ids | Some x \<Rightarrow> insert x ids)"

text \<open>The node a heading line adds.\<close>

definition heading_node ::
  "string \<Rightarrow> string list \<Rightarrow> nat \<Rightarrow> nat \<Rightarrow> string option \<Rightarrow> string \<Rightarrow> string list \<Rightarrow>
   string \<Rightarrow> HeadingMetadata \<Rightarrow> IndexedNode" where
  "heading_node file_path file_tags index level todo_keyword title heading_tags outline_path m =
     \<lparr>nd_node_key = heading_key file_path (index + 1),
      nd_explicit_id = hm_explicit_id m, nd_file_path = file_path, nd_title = title,
      nd_outline_path = outline_path, nd_aliases = hm_aliases m,
      nd_tags = unique_strings (file_tags @ heading_tags), nd_refs = hm_refs m,
      nd_todo_keyword = todo_keyword, nd_scheduled_for = hm_scheduled_for m,
      nd_deadline_for = hm_deadline_for m, nd_closed_at = hm_closed_at m,
      nd_glossary = False, nd_glossary_status = None, nd_sr_due = None, nd_sr_ease = None,
      nd_sr_interval = None, nd_sr_reps = None, nd_sr_last = None,
      nd_level = as_u32 level, nd_line = as_u32 (index + 1), nd_kind = HeadingNode, nd_body = []\<rparr>"

text \<open>First half of the loop body: what a heading line does to the state.\<close>

definition heading_step ::
  "string \<Rightarrow> string list \<Rightarrow> bool \<Rightarrow> nat \<Rightarrow> string list \<Rightarrow>
   nat \<times> string option \<times> string \<times> string list \<Rightarrow> DocState \<Rightarrow> DocState" where
  "heading_step file_path file_tags file_excluded index rest h st =
     (case h of (level, todo_keyword, title, heading_tags) \<Rightarrow>
        let outline = take (level - 1) (ds_outline_stack st) @ [title];
            excl = take (level - 1) (ds_exclusion_stack st);
            m = metadata_loop False default_metadata rest;
            excluded = resolve (hm_roam_exclude m) (last_or file_excluded excl);
            st1 = st\<lparr>ds_outline_stack := outline, ds_exclusion_stack := excl @ [excluded],
                     ds_in_drawer := False\<rparr>
        in if excluded then
             st1\<lparr>ds_excluded_ids := insert_id (hm_explicit_id m) (ds_excluded_ids st),
                 ds_source_key := None\<rparr>
           else
             st1\<lparr>ds_source_key := Some (heading_key file_path (index + 1)),
                 ds_nodes := ds_nodes st @
                   [heading_node file_path file_tags index level todo_keyword title heading_tags
                      (join_str '' / '' outline) m]\<rparr>)"

definition append_body :: "string \<Rightarrow> string \<Rightarrow> (string \<rightharpoonup> string) \<Rightarrow> (string \<rightharpoonup> string)" where
  "append_body key text bodies =
     bodies(key \<mapsto> (case bodies key of None \<Rightarrow> text
                     | Some body \<Rightarrow> if body = [] then text else body @ [NL] @ text))"

text \<open>Second half: searchable lines, links and body text of the current source node.\<close>

definition content_step :: "nat \<Rightarrow> string \<Rightarrow> bool \<Rightarrow> DocState \<Rightarrow> DocState" where
  "content_step index line is_heading st =
     (case ds_source_key st of None \<Rightarrow> st
      | Some key \<Rightarrow>
          let st1 = (if trim line \<noteq> [] then
                       st\<lparr>ds_line_rows := ds_line_rows st @ [as_u32 (index + 1)],
                          ds_search_lines := ds_search_lines st @ [line]\<rparr> else st);
              st2 = st1\<lparr>ds_links := ds_links st1 @ extract_id_links line key (as_u32 (index + 1))\<rparr>
          in if is_heading then st2
             else (case body_line line (ds_in_drawer st2) of (text, in_drawer) \<Rightarrow>
                     let st3 = st2\<lparr>ds_in_drawer := in_drawer\<rparr> in
                     (case text of None \<Rightarrow> st3
                      | Some t \<Rightarrow> st3\<lparr>ds_bodies := append_body key t (ds_bodies st3)\<rparr>)))"

definition doc_step ::
  "string \<Rightarrow> string list \<Rightarrow> bool \<Rightarrow> nat \<Rightarrow> string \<Rightarrow> string list \<Rightarrow> DocState \<Rightarrow> DocState" where
  "doc_step file_path file_tags file_excluded index line rest st =
     (case parse_heading line of
        None \<Rightarrow> content_step index line False st
      | Some h \<Rightarrow>
          content_step index line True (heading_step file_path file_tags file_excluded index rest h st))"

fun doc_loop ::
  "string \<Rightarrow> string list \<Rightarrow> bool \<Rightarrow> nat \<Rightarrow> string list \<Rightarrow> DocState \<Rightarrow> DocState" where
  "doc_loop file_path file_tags file_excluded index [] st = st"
| "doc_loop file_path file_tags file_excluded index (line # rest) st =
     doc_loop file_path file_tags file_excluded (index + 1) rest
       (doc_step file_path file_tags file_excluded index line rest st)"

text \<open>The state before the first line: the file node, unless the file is excluded.\<close>

definition file_node :: "string \<Rightarrow> string list \<Rightarrow> IndexedNode" where
  "file_node file_path lines =
     (let p = parse_file_properties lines; g = parse_glossary_marker lines;
          marked = (\<lambda>v. if g then v else None)
      in \<lparr>nd_node_key = file_key file_path,
          nd_explicit_id = np_explicit_id p, nd_file_path = file_path,
          nd_title = (case parse_file_title lines of Some t \<Rightarrow> t | None \<Rightarrow> default_file_title file_path),
          nd_outline_path = [], nd_aliases = np_aliases p, nd_tags = parse_filetags lines,
          nd_refs = np_refs p, nd_todo_keyword = None, nd_scheduled_for = None,
          nd_deadline_for = None, nd_closed_at = None, nd_glossary = g,
          nd_glossary_status = marked (np_glossary_status p), nd_sr_due = marked (np_sr_due p),
          nd_sr_ease = marked (np_sr_ease p), nd_sr_interval = marked (np_sr_interval p),
          nd_sr_reps = marked (np_sr_reps p), nd_sr_last = marked (np_sr_last p),
          nd_level = 0, nd_line = 1, nd_kind = FileNode, nd_body = []\<rparr>)"

definition file_is_excluded :: "string list \<Rightarrow> bool" where
  "file_is_excluded lines = resolve (np_roam_exclude (parse_file_properties lines)) False"

definition initial_state :: "string \<Rightarrow> string list \<Rightarrow> DocState" where
  "initial_state file_path lines =
     (let file_excluded = file_is_excluded lines in
      \<lparr>ds_nodes = (if file_excluded then [] else [file_node file_path lines]),
       ds_links = [], ds_line_rows = [], ds_search_lines = [], ds_bodies = Map.empty,
       ds_in_drawer = False,
       ds_source_key = (if file_excluded then None else Some (file_key file_path)),
       ds_outline_stack = [], ds_exclusion_stack = [],
       ds_excluded_ids = (if file_excluded
          then insert_id (np_explicit_id (parse_file_properties lines)) {} else {})\<rparr>)"

text \<open>Each node takes its body out of the table, so a key is used once.\<close>

fun assign_bodies :: "(string \<rightharpoonup> string) \<Rightarrow> IndexedNode list \<Rightarrow> IndexedNode list" where
  "assign_bodies bodies [] = []"
| "assign_bodies bodies (n # ns) =
     (case bodies (nd_node_key n) of
        None \<Rightarrow> n # assign_bodies bodies ns
      | Some body \<Rightarrow> n\<lparr>nd_body := body\<rparr> # assign_bodies (bodies(nd_node_key n := None)) ns)"

definition finish_document :: "string \<Rightarrow> int \<Rightarrow> string list \<Rightarrow> DocState \<Rightarrow> IndexedFile" where
  "finish_document file_path mtime_ns lines st =
     \<lparr>if_file_path = file_path,
      if_title = (case parse_file_title lines of Some t \<Rightarrow> t | None \<Rightarrow> default_file_title file_path),
      if_mtime_ns = mtime_ns,
      if_nodes = assign_bodies (ds_bodies st) (ds_nodes st),
      if_links = filter (\<lambda>l. ln_destination_explicit_id l \<notin> ds_excluded_ids st) (ds_links st),
      if_occurrence_document =
        (if ds_search_lines st = [] then None
         else Some \<lparr>od_file_path = file_path, od_search_text = join_str [NL] (ds_search_lines st),
                    od_line_rows = ds_line_rows st\<rparr>)\<rparr>"

definition parse_document :: "string \<Rightarrow> int \<Rightarrow> string \<Rightarrow> IndexedFile" where
  "parse_document file_path mtime_ns source =
     (let lines = lines_of source in
      finish_document file_path mtime_ns lines
        (doc_loop file_path (parse_filetags lines) (file_is_excluded lines) 0 lines
           (initial_state file_path lines)))"

definition scan_source :: "string \<Rightarrow> string \<Rightarrow> IndexedFile" where
  "scan_source file_path source = parse_document file_path 0 source"

section \<open>The outline scan\<close>

record OutlineNode =
  on_node_key :: string
  on_line :: nat
  on_level :: nat
  on_kind :: NodeKind
  on_excluded :: bool

fun outline_loop ::
  "string \<Rightarrow> bool \<Rightarrow> nat \<Rightarrow> bool list \<Rightarrow> string list \<Rightarrow> OutlineNode list" where
  "outline_loop file_path file_excluded index excl [] = []"
| "outline_loop file_path file_excluded index excl (line # rest) =
     (case parse_heading line of
        None \<Rightarrow> outline_loop file_path file_excluded (index + 1) excl rest
      | Some (level, _) \<Rightarrow>
          let kept = take (level - 1) excl;
              excluded = resolve (exclusion_loop False rest) (last_or file_excluded kept)
          in \<lparr>on_node_key = heading_key file_path (index + 1), on_line = as_u32 (index + 1),
              on_level = as_u32 level, on_kind = HeadingNode, on_excluded = excluded\<rparr>
             # outline_loop file_path file_excluded (index + 1) (kept @ [excluded]) rest)"

definition parse_outline_nodes :: "string \<Rightarrow> string list \<Rightarrow> OutlineNode list" where
  "parse_outline_nodes file_path lines =
     (let file_excluded = file_is_excluded lines in
      \<lparr>on_node_key = file_key file_path, on_line = 1, on_level = 0, on_kind = FileNode,
       on_excluded = file_excluded\<rparr>
      # outline_loop file_path file_excluded 0 [] lines)"

definition scan_source_outline :: "string \<Rightarrow> string \<Rightarrow> OutlineNode list" where
  "scan_source_outline file_path source = parse_outline_nodes file_path (lines_of source)"

end
