(* ===== verification/RustStrFacts.thy ===== *)
theory RustStrFacts
  imports RustStr
begin

text \<open>
  Facts about the string operations: decimal printing is injective and parses back,
  trimming is idempotent and leaves strings with solid ends alone, lines and joins
  invert each other, searches find the first match.
\<close>

section \<open>Decimal numbers\<close>

lemma digit_char_code: "d < 10 \<Longrightarrow> code (digit_char d) = 48 + d"
  by (cases "d = 0"; cases "d = 1"; cases "d = 2"; cases "d = 3"; cases "d = 4"; cases "d = 5";
      cases "d = 6"; cases "d = 7"; cases "d = 8"; cases "d = 9")
    (simp_all add: digit_char_def)

lemma digit_char_is_digit: "d < 10 \<Longrightarrow> is_ascii_digit (digit_char d)"
  by (simp add: is_ascii_digit_def digit_char_code)

lemma digit_val_digit_char: "d < 10 \<Longrightarrow> digit_val (digit_char d) = d"
  by (simp add: digit_val_def digit_char_code)

lemma digit_char_mod: "digit_char (n mod 10) = digit_char n"
  by (simp add: digit_char_def)

lemma digit_char_digit: "is_ascii_digit (digit_char n)"
  using digit_char_is_digit [of "n mod 10"] by (simp add: digit_char_mod)

lemma show_nat_digits: "list_all is_ascii_digit (show_nat n)"
proof (induction n rule: show_nat.induct)
  case (1 n)
  then show ?case
    by (subst show_nat.simps) (simp add: digit_char_digit)
qed

lemma show_nat_nonempty [simp]: "show_nat n \<noteq> []"
  by (subst show_nat.simps) simp

lemma digits_value_append: "digits_value (s @ [c]) = 10 * digits_value s + digit_val c"
  by (simp add: digits_value_def)

lemma digits_value_show_nat: "digits_value (show_nat n) = n"
proof (induction n rule: show_nat.induct)
  case (1 n)
  show ?case
  proof (cases "n < 10")
    case True
    then show ?thesis
      by (subst show_nat.simps) (simp add: digits_value_def digit_val_digit_char)
  next
    case False
    have "digit_val (digit_char n) = n mod 10"
      using digit_val_digit_char [of "n mod 10"] by (simp add: digit_char_mod)
    with False 1 show ?thesis
      by (subst show_nat.simps) (simp add: digits_value_append)
  qed
qed

lemma parse_digits_show_nat: "parse_digits (show_nat n) = Some n"
  by (simp add: parse_digits_def show_nat_digits digits_value_show_nat)

lemma show_nat_inj: "show_nat m = show_nat n \<longleftrightarrow> m = n"
  by (metis digits_value_show_nat)

lemma digit_not: "is_ascii_digit c \<Longrightarrow> c \<noteq> CHR ''+'' \<and> c \<noteq> CHR ''-'' \<and> c \<noteq> CHR '':''"
  by (auto simp: is_ascii_digit_def)

lemma show_nat_set: "c \<in> set (show_nat n) \<Longrightarrow> is_ascii_digit c"
  using show_nat_digits [of n] by (simp add: list_all_iff)

lemma parse_usize_show_nat: "int n < 18446744073709551616 \<Longrightarrow> parse_usize (show_nat n) = Some n"
proof -
  assume n: "int n < 18446744073709551616"
  obtain c t where ct: "show_nat n = c # t" by (cases "show_nat n") auto
  then have "c \<noteq> CHR ''+''"
    using show_nat_set [of c n] digit_not by auto
  with ct n show ?thesis
    using parse_digits_show_nat [of n] by (simp add: parse_usize_def)
qed

lemma parse_i64_show_int:
  assumes "- 9223372036854775808 \<le> i" and "i < 9223372036854775808"
  shows "parse_i64 (show_int i) = Some i"
proof (cases "i < 0")
  case True
  with assms show ?thesis
    by (simp add: parse_i64_def show_int_def parse_digits_show_nat)
next
  case False
  obtain c t where ct: "show_nat (nat i) = c # t" by (cases "show_nat (nat i)") auto
  then have "c \<noteq> CHR ''+''" "c \<noteq> CHR ''-''"
    using show_nat_set [of c "nat i"] digit_not by auto
  with ct False assms show ?thesis
    using parse_digits_show_nat [of "nat i"] by (simp add: parse_i64_def show_int_def Let_def)
qed

section \<open>Trimming\<close>

lemma ws_len_ascii [str_simps]:
  "is_ascii c \<Longrightarrow> ws_len (c # s) = (if is_ascii_ws c then 1 else 0)"
  by simp

lemma ws_len_prefix: "ws_len p \<noteq> 0 \<Longrightarrow> ws_len (p @ q) = ws_len p"
  by (cases p rule: ws_len.cases) (auto split: list.splits if_splits)

lemma trim_start_solid [str_simps]: "ws_len s = 0 \<Longrightarrow> trim_start s = s"
  by (subst trim_start.simps) simp

lemma trim_start_rev_solid: "ws_len_rev s = 0 \<Longrightarrow> trim_start_rev s = s"
  by (subst trim_start_rev.simps) simp

lemma trim_end_solid [str_simps]: "ws_len_rev (rev s) = 0 \<Longrightarrow> trim_end s = s"
  by (simp add: trim_end_def trim_start_rev_solid)

lemma trim_start_idem [simp]: "trim_start (trim_start s) = trim_start s"
  by (simp add: trim_start_solid ws_len_trim_start)

lemma ws_len_rev_trim_start_rev: "ws_len_rev (trim_start_rev s) = 0"
proof (induction s rule: trim_start_rev.induct)
  case (1 s)
  show ?case
  proof (cases "ws_len_rev s = 0")
    case True
    then show ?thesis by (simp add: trim_start_rev_solid)
  next
    case False
    then have "trim_start_rev s = trim_start_rev (drop (ws_len_rev s) s)"
      by (subst trim_start_rev.simps) simp
    with 1 False show ?thesis by simp
  qed
qed

lemma trim_end_idem [simp]: "trim_end (trim_end s) = trim_end s"
  by (simp add: trim_end_def trim_start_rev_solid ws_len_rev_trim_start_rev)

lemma trim_start_rev_suffix: "\<exists>p. s = p @ trim_start_rev s"
proof (induction s rule: trim_start_rev.induct)
  case (1 s)
  show ?case
  proof (cases "ws_len_rev s = 0")
    case True
    then show ?thesis by (simp add: trim_start_rev_solid)
  next
    case False
    then have e: "trim_start_rev s = trim_start_rev (drop (ws_len_rev s) s)"
      by (subst trim_start_rev.simps) simp
    from 1 False obtain p where "drop (ws_len_rev s) s = p @ trim_start_rev (drop (ws_len_rev s) s)"
      by blast
    then have "s = (take (ws_len_rev s) s @ p) @ trim_start_rev s"
      by (metis append.assoc append_take_drop_id e)
    then show ?thesis by blast
  qed
qed

lemma trim_end_prefix: "\<exists>q. s = trim_end s @ q"
proof -
  obtain p where "rev s = p @ trim_start_rev (rev s)" using trim_start_rev_suffix by blast
  then have "s = rev (trim_start_rev (rev s)) @ rev p"
    by (metis rev_append rev_rev_ident)
  then show ?thesis unfolding trim_end_def by blast
qed

lemma trim_start_suffix: "\<exists>p. s = p @ trim_start s"
proof (induction s rule: trim_start.induct)
  case (1 s)
  show ?case
  proof (cases "ws_len s = 0")
    case True
    then show ?thesis by (simp add: trim_start_solid)
  next
    case False
    then have e: "trim_start s = trim_start (drop (ws_len s) s)"
      by (subst trim_start.simps) simp
    from 1 False obtain p where "drop (ws_len s) s = p @ trim_start (drop (ws_len s) s)"
      by blast
    then have "s = (take (ws_len s) s @ p) @ trim_start s"
      by (metis append.assoc append_take_drop_id e)
    then show ?thesis by blast
  qed
qed

lemma ws_len_trim_end: "ws_len s = 0 \<Longrightarrow> ws_len (trim_end s) = 0"
  using trim_end_prefix [of s] by (metis ws_len_prefix)

lemma trim_idem [simp]: "trim (trim s) = trim s"
  by (simp add: trim_def trim_start_solid ws_len_trim_end ws_len_trim_start)

lemma ws_len_trim: "ws_len (trim s) = 0"
  by (simp add: trim_def ws_len_trim_end ws_len_trim_start)

lemma ws_len_rev_trim: "ws_len_rev (rev (trim s)) = 0"
  by (simp add: trim_def trim_end_def ws_len_rev_trim_start_rev)

lemma trim_solid [str_simps]: "ws_len s = 0 \<Longrightarrow> ws_len_rev (rev s) = 0 \<Longrightarrow> trim s = s"
  by (simp add: trim_def trim_start_solid trim_end_solid)

lemma trim_eq_self_iff: "trim s = s \<longleftrightarrow> ws_len s = 0 \<and> ws_len_rev (rev s) = 0"
  by (metis trim_solid ws_len_rev_trim ws_len_trim)

lemma trim_Nil [simp]: "trim [] = []"
  by (simp add: trim_solid)

lemma trim_start_Nil [simp]: "trim_start [] = []"
  by (simp add: trim_start_solid)

lemma trim_start_ws [str_simps]: "is_ascii c \<Longrightarrow> is_ascii_ws c \<Longrightarrow> trim_start (c # s) = trim_start s"
  by (subst trim_start.simps) simp

lemma trim_set: "set (trim s) \<subseteq> set s"
proof -
  obtain p where "s = p @ trim_start s" using trim_start_suffix by blast
  moreover obtain q where "trim_start s = trim s @ q"
    using trim_end_prefix [of "trim_start s"] by (auto simp: trim_def)
  ultimately have "set s = set p \<union> set (trim s) \<union> set q"
    by (metis set_append sup_assoc)
  then show ?thesis by blast
qed

section \<open>Searching\<close>

lemma find_sub_Some:
  "find_sub p s = Some i \<Longrightarrow> i + length p \<le> length s \<and> take (length p) (drop i s) = p"
  by (induction s arbitrary: i) (auto split: if_splits dest: prefix_length_le elim: prefixE)

lemma find_sub_Some_split: "find_sub p s = Some i \<Longrightarrow> s = take i s @ p @ drop (i + length p) s"
  by (metis add.commute append_take_drop_id drop_drop find_sub_Some)

lemma rfind_sub_Some:
  "rfind_sub p s = Some i \<Longrightarrow> i + length p \<le> length s \<and> take (length p) (drop i s) = p"
  by (induction s arbitrary: i)
    (auto split: if_splits option.splits dest: prefix_length_le elim: prefixE)

lemma find_sub_hd_notin: "p \<noteq> [] \<Longrightarrow> hd p \<notin> set s \<Longrightarrow> find_sub p s = None"
  by (induction s) (auto simp: prefix_def neq_Nil_conv)

lemma rfind_sub_None_if_notin: "p \<noteq> [] \<Longrightarrow> hd p \<notin> set s \<Longrightarrow> rfind_sub p s = None"
  by (induction s) (auto simp: prefix_def neq_Nil_conv)

section \<open>Lines and joins\<close>

lemma split_on_not_Nil [simp]: "split_on P s \<noteq> []"
  by (induction s) (auto split: list.splits)

lemma split_on_none: "(\<And>c. c \<in> set s \<Longrightarrow> \<not> P c) \<Longrightarrow> split_on P s = [s]"
  by (induction s) auto

lemma split_on_append: "(\<And>c. c \<in> set a \<Longrightarrow> \<not> P c) \<Longrightarrow> P x \<Longrightarrow> split_on P (a @ x # b) = a # split_on P b"
  by (induction a) auto

lemma split_on_join:
  assumes "xs \<noteq> []" and "\<And>x c. x \<in> set xs \<Longrightarrow> c \<in> set x \<Longrightarrow> \<not> P c" and "P d"
  shows "split_on P (join_str [d] xs) = xs"
  using assms
proof (induction "[d]" xs rule: join_str.induct)
  case (3 x y ys)
  then have "split_on P (x @ d # join_str [d] (y # ys)) = x # split_on P (join_str [d] (y # ys))"
    by (intro split_on_append) auto
  moreover have "split_on P (join_str [d] (y # ys)) = y # ys"
    by (rule 3) (use 3 in auto)
  ultimately show ?case by simp
qed (auto intro: split_on_none)

lemma lines_of_Nil [simp]: "lines_of [] = []"
  by (subst lines_of.simps) simp

lemma lines_of_NL: "NL \<notin> set l \<Longrightarrow> lines_of (l @ NL # rest) = strip_cr l # lines_of rest"
proof -
  assume "NL \<notin> set l"
  then have d: "dropWhile (\<lambda>c. c \<noteq> NL) (l @ NL # rest) = NL # rest"
    and t: "takeWhile (\<lambda>c. c \<noteq> NL) (l @ NL # rest) = l"
    by (induction l) auto
  show ?thesis by (subst lines_of.simps) (simp add: d t)
qed

lemma lines_of_no_NL: "NL \<notin> set l \<Longrightarrow> l \<noteq> [] \<Longrightarrow> lines_of l = [l]"
proof -
  assume "NL \<notin> set l" "l \<noteq> []"
  then have "dropWhile (\<lambda>c. c \<noteq> NL) l = []" by (induction l) auto
  with \<open>l \<noteq> []\<close> show ?thesis by (subst lines_of.simps) (simp only: list.case if_False)
qed

lemma strip_cr_set: "set (strip_cr l) \<subseteq> set l"
  by (auto simp: strip_cr_def dest: in_set_butlastD)

lemma strip_cr_id: "last l \<noteq> CR \<Longrightarrow> strip_cr l = l"
  by (simp add: strip_cr_def)

lemma lines_of_no_newline: "l \<in> set (lines_of s) \<Longrightarrow> NL \<notin> set l"
proof (induction s arbitrary: l rule: lines_of.induct)
  case (1 s)
  show ?case
  proof (cases "s = []")
    case True
    with 1 show ?thesis by simp
  next
    case False
    show ?thesis
    proof (cases "dropWhile (\<lambda>c. c \<noteq> NL) s")
      case Nil
      then have "lines_of s = [s]" using False by (subst lines_of.simps) (simp only: list.case if_False)
      with Nil "1.prems" show ?thesis by (auto simp: dropWhile_eq_Nil_conv)
    next
      case (Cons c rest)
      then have e: "lines_of s = strip_cr (takeWhile (\<lambda>c. c \<noteq> NL) s) # lines_of rest"
        using False by (subst lines_of.simps) simp
      from "1.prems" e consider "l = strip_cr (takeWhile (\<lambda>c. c \<noteq> NL) s)" | "l \<in> set (lines_of rest)"
        by auto
      then show ?thesis
      proof cases
        case 1
        then show ?thesis using strip_cr_set [of "takeWhile (\<lambda>c. c \<noteq> NL) s"]
          by (auto dest: set_takeWhileD)
      next
        case 2
        with "1.IH" False Cons show ?thesis by blast
      qed
    qed
  qed
qed

text \<open>A list of lines printed with a final line feed is read back as it is.\<close>

definition plain_line :: "string \<Rightarrow> bool" where
  "plain_line l \<longleftrightarrow> NL \<notin> set l \<and> (l \<noteq> [] \<longrightarrow> last l \<noteq> CR)"

lemma plain_line_strip_cr: "plain_line l \<Longrightarrow> strip_cr l = l"
  by (auto simp: plain_line_def strip_cr_def)

lemma lines_of_join_NL:
  "list_all plain_line ls \<Longrightarrow> ls \<noteq> [] \<Longrightarrow> lines_of (join_str [NL] ls @ [NL]) = ls"
proof (induction "[NL]" ls rule: join_str.induct)
  case (2 x)
  then show ?case
    using lines_of_NL [of x "[]"] by (simp add: plain_line_strip_cr plain_line_def)
next
  case (3 x y ys)
  then show ?case
    using lines_of_NL [of x "join_str [NL] (y # ys) @ [NL]"]
    by (simp add: plain_line_strip_cr plain_line_def)
qed simp

section \<open>Case folding\<close>

lemma ascii_lower_not_upper: "\<not> is_ascii_upper (ascii_lower c)"
proof (cases c)
  case (Char b0 b1 b2 b3 b4 b5 b6 b7)
  then show ?thesis
    by (cases b0; cases b1; cases b2; cases b3; cases b4; cases b5; cases b6; cases b7)
      (simp_all add: ascii_lower_def is_ascii_upper_def)
qed

lemma ascii_lower_idem [simp]: "ascii_lower (ascii_lower c) = ascii_lower c"
  using ascii_lower_not_upper [of c] by (simp add: ascii_lower_def [of "ascii_lower c"])

lemma lower_str_idem [simp]: "lower_str (lower_str s) = lower_str s"
  by (simp add: lower_str_def)

lemma lower_str_length [simp]: "length (lower_str s) = length s"
  by (simp add: lower_str_def)

lemma lower_str_append: "lower_str (a @ b) = lower_str a @ lower_str b"
  by (simp add: lower_str_def)

lemma eq_ignore_case_length: "eq_ignore_case a b \<Longrightarrow> length a = length b"
  unfolding eq_ignore_case_def by (metis lower_str_length)

lemma eq_ignore_case_refl [simp]: "eq_ignore_case a a"
  by (simp add: eq_ignore_case_def)

section \<open>Counting characters and splitting at one\<close>

lemma show_nat_length_le: "n < 10 ^ k \<Longrightarrow> 0 < k \<Longrightarrow> length (show_nat n) \<le> k"
proof (induction n arbitrary: k rule: show_nat.induct)
  case (1 n)
  show ?case
  proof (cases "n < 10")
    case True
    then show ?thesis using 1(3) by (subst show_nat.simps) simp
  next
    case False
    then obtain j where k: "k = Suc j" "0 < j" 
      using 1(2,3) by (cases k; cases "k = 1") auto
    have "n div 10 < 10 ^ j"
      using 1(2) k by (simp add: less_mult_imp_div_less mult.commute)
    with 1(1) [OF False this k(2)] False k show ?thesis
      by (subst show_nat.simps) simp
  qed
qed

lemma digits_value_less: "list_all is_ascii_digit d \<Longrightarrow> digits_value d < 10 ^ length d"
proof (induction d rule: rev_induct)
  case (snoc c d)
  then have "digit_val c < 10" by (auto simp: is_ascii_digit_def digit_val_def)
  moreover have "digits_value d + 1 \<le> 10 ^ length d" using snoc by simp
  then have "10 * (digits_value d + 1) \<le> 10 * 10 ^ length d" by (rule mult_le_mono2)
  ultimately show ?case by (simp add: digits_value_append)
qed (simp add: digits_value_def)

lemma show_nat_hd: "0 < n \<Longrightarrow> hd (show_nat n) \<noteq> CHR ''0''"
proof (induction n rule: show_nat.induct)
  case (1 n)
  show ?case
  proof (cases "n < 10")
    case True
    have "code (digit_char n) = 48 + n" using True by (rule digit_char_code)
    moreover have "code (CHR ''0'') = (48::nat)" by simp
    ultimately have "digit_char n \<noteq> CHR ''0''" using 1(2) by auto
    with True show ?thesis by (subst show_nat.simps) simp
  next
    case False
    with 1 show ?thesis by (subst show_nat.simps) simp
  qed
qed

lemma char_count_append [simp]: "char_count (a @ b) = char_count a + char_count b"
  by (simp add: char_count_def)
lemma is_cont_lower [simp]: "is_cont (ascii_lower c) = is_cont c"
proof (cases c)
  case (Char b0 b1 b2 b3 b4 b5 b6 b7)
  then show ?thesis
    by (cases b0; cases b1; cases b2; cases b3; cases b4; cases b5; cases b6; cases b7)
      (simp_all add: ascii_lower_def is_ascii_upper_def is_cont_def)
qed

lemma char_count_lower [simp]: "char_count (lower_str s) = char_count s"
  by (induction s) (simp_all add: char_count_def lower_str_def)

lemma char_count_le_length: "char_count s \<le> length s"
  by (simp add: char_count_def)

lemma not_cont_ascii: "is_ascii c \<Longrightarrow> \<not> is_cont c"
  by (simp add: is_ascii_def is_cont_def)

lemma char_count_ascii: "list_all is_ascii s \<Longrightarrow> char_count s = length s"
  by (induction s) (simp_all add: char_count_def not_cont_ascii)

lemma alphanumeric_ascii: "is_ascii_alphanumeric c \<Longrightarrow> is_ascii c"
  by (auto simp: is_ascii_alphanumeric_def is_ascii_digit_def is_ascii_upper_def is_ascii_lower_def is_ascii_def)

lemma lower_alphanumeric: "is_ascii_alphanumeric (ascii_lower c) \<longleftrightarrow> is_ascii_alphanumeric c"
proof (cases c)
  case (Char b0 b1 b2 b3 b4 b5 b6 b7)
  then show ?thesis
    by (cases b0; cases b1; cases b2; cases b3; cases b4; cases b5; cases b6; cases b7)
      (simp_all add: ascii_lower_def is_ascii_upper_def is_ascii_alphanumeric_def is_ascii_digit_def is_ascii_lower_def)
qed

lemma prefix_singleton: "prefix [c] s \<longleftrightarrow> s \<noteq> [] \<and> hd s = c"
  by (cases s) auto

lemma find_sub_char:
  "c \<notin> set a \<Longrightarrow> find_sub [c] (a @ c # b) = Some (length a)"
  by (induction a) auto

lemma find_sub_char_Some:
  "find_sub [c] s = Some i \<Longrightarrow> i < length s \<and> s ! i = c \<and> c \<notin> set (take i s)"
  by (induction s arbitrary: i) (auto split: if_splits)

lemma split_once_char: "c \<notin> set a \<Longrightarrow> split_once [c] (a @ c # b) = Some (a, b)"
  by (simp add: split_once_def find_sub_char)

lemma split_once_none: "c \<notin> set s \<Longrightarrow> split_once [c] s = None"
  by (simp add: split_once_def find_sub_hd_notin)

lemma split_once_charD:
  assumes "split_once [c] s = Some (a, b)"
  shows "s = a @ c # b" "c \<notin> set a"
proof -
  obtain i where i: "find_sub [c] s = Some i" and ab: "a = take i s" "b = drop (Suc i) s"
    using assms by (auto simp: split_once_def split: option.splits)
  from find_sub_char_Some [OF i] ab show "s = a @ c # b" "c \<notin> set a"
    by (auto simp: id_take_nth_drop [symmetric])
qed

lemma split_once_NoneD: "split_once [c] s = None \<Longrightarrow> c \<notin> set s"
proof (rule ccontr)
  assume n: "split_once [c] s = None" and "\<not> c \<notin> set s"
  then obtain a b where "s = a @ c # b" "c \<notin> set a" by (meson split_list_first)
  with n show False by (simp add: split_once_char)
qed

lemma split_once_Some_eq: "split_once p s = Some (a, b) \<Longrightarrow> s = a @ p @ b"
  unfolding split_once_def using find_sub_Some_split by (auto split: option.splits)

lemma split_on_concat_set: "x \<in> set (split_on P s) \<Longrightarrow> set x \<subseteq> set s"
proof (induction s arbitrary: x)
  case (Cons c s)
  then show ?case
    by (cases "split_on P s") (fastforce split: if_splits)+
qed simp

lemma split_on_covers: "c \<in> set s \<Longrightarrow> P c \<or> (\<exists>x \<in> set (split_on P s). c \<in> set x)"
  by (induction s) (auto split: list.splits)

lemma split_on_snoc: "P c \<Longrightarrow> split_on P (s @ [c]) = split_on P s @ [[]]"
  by (induction s) (auto split: list.splits simp: append_eq_Cons_conv Cons_eq_append_conv)

lemma split_on_last_Nil: "s \<noteq> [] \<Longrightarrow> P (last s) \<Longrightarrow> [] \<in> set (split_on P s)"
  using split_on_snoc [of P "last s" "butlast s"] by simp

lemma trim_solid_ascii:
  assumes "s \<noteq> []" "is_ascii (hd s)" "\<not> is_ascii_ws (hd s)" "is_ascii (last s)" "\<not> is_ascii_ws (last s)"
  shows "trim s = s"
proof (rule trim_solid)
  show "ws_len s = 0" using assms by (cases s) auto
  obtain z zs where "rev s = z # zs" "z = last s"
    using assms(1) by (cases "rev s") (auto simp: hd_rev [symmetric])
  then show "ws_len_rev (rev s) = 0" using assms by (simp del: rev_swap rev_eq_Cons_iff)
qed

end
