(* ===== verification/IndexFacts.thy ===== *)
theory IndexFacts
  imports IndexScan RustStrFacts
begin

text \<open>
  Correctness of the indexing pass: invariants of the document loop (keys, line
  numbers, links, bodies and occurrence rows) and what they give for a scanned
  source.
\<close>

section \<open>The loop as a scan\<close>

lemma doc_loop_scan:
  "doc_loop fp tags excl index lines st = scan_fold (doc_step fp tags excl) index lines st"
  by (induction lines arbitrary: index st) simp_all

lemma parse_document_alt:
  "parse_document fp mtime source =
     finish_document fp mtime (lines_of source)
       (scan_fold (doc_step fp (parse_filetags (lines_of source)) (file_is_excluded (lines_of source)))
          0 (lines_of source) (initial_state fp (lines_of source)))"
  by (simp add: parse_document_def Let_def doc_loop_scan)

section \<open>Node keys and line numbers\<close>

lemma heading_key_inj: "heading_key fp m = heading_key fp n \<longleftrightarrow> m = n"
  by (simp add: heading_key_def show_nat_inj)

lemma file_key_not_heading: "file_key fp \<noteq> heading_key fp' n"
  by (simp add: file_key_def heading_key_def)

text \<open>The headings indexed so far, as a ghost list of their line numbers.\<close>

definition rows_inv :: "string \<Rightarrow> bool \<Rightarrow> nat \<Rightarrow> IndexedNode list \<Rightarrow> bool" where
  "rows_inv fp excl index nodes \<longleftrightarrow>
     (\<exists>rows. sorted_wrt (<) rows \<and> (\<forall>r \<in> set rows. 1 \<le> r \<and> r \<le> index) \<and>
        map nd_node_key nodes = (if excl then [] else [file_key fp]) @ map (heading_key fp) rows \<and>
        map nd_line nodes = (if excl then [] else [1]) @ map as_u32 rows)"

text \<open>Links, bodies and the current source node refer to indexed nodes only.\<close>

definition refs_inv :: "DocState \<Rightarrow> bool" where
  "refs_inv st \<longleftrightarrow>
     (let keys = nd_node_key ` set (ds_nodes st) in
      set_option (ds_source_key st) \<subseteq> keys \<and> ln_source_node_key ` set (ds_links st) \<subseteq> keys \<and>
      dom (ds_bodies st) \<subseteq> keys)"

definition keys_inv :: "string \<Rightarrow> bool \<Rightarrow> nat \<Rightarrow> DocState \<Rightarrow> bool" where
  "keys_inv fp excl index st \<longleftrightarrow> rows_inv fp excl index (ds_nodes st) \<and> refs_inv st"

lemma links_loop_source:
  "l \<in> set (links_loop line key row offset) \<Longrightarrow> ln_source_node_key l = key \<and> ln_line l = row"
proof (induction line key row offset rule: links_loop.induct)
  case (1 line key row offset)
  show ?case
  proof (cases "find_sub ''[['' (drop offset line)")
    case None
    with "1.prems" show ?thesis by (subst (asm) links_loop.simps) simp
  next
    case a: (Some a)
    show ?thesis
    proof (cases "find_sub '']]'' (drop (offset + a + 2) line)")
      case None
      with "1.prems" a show ?thesis by (subst (asm) links_loop.simps) simp
    next
      case b: (Some b)
      from "1.prems" a b consider
        "l \<in> set (links_loop line key row (offset + a + 2 + b + 2))"
        | "ln_source_node_key l = key \<and> ln_line l = row"
        by (subst (asm) links_loop.simps) (auto simp: Let_def split: option.splits)
      then show ?thesis using "1.IH" [OF a refl refl b] by blast
    qed
  qed
qed

lemma extract_id_links_source:
  "l \<in> set (extract_id_links line key row) \<Longrightarrow> ln_source_node_key l = key \<and> ln_line l = row"
  unfolding extract_id_links_def by (rule links_loop_source)

lemma content_step_nodes [simp]:
  "ds_nodes (content_step index line h st) = ds_nodes st"
  "ds_source_key (content_step index line h st) = ds_source_key st"
  "ds_outline_stack (content_step index line h st) = ds_outline_stack st"
  "ds_exclusion_stack (content_step index line h st) = ds_exclusion_stack st"
  "ds_excluded_ids (content_step index line h st) = ds_excluded_ids st"
  by (auto simp: content_step_def Let_def split: option.splits prod.splits)

lemma content_step_links:
  "ds_links (content_step index line h st) =
     (case ds_source_key st of None \<Rightarrow> ds_links st
      | Some key \<Rightarrow> ds_links st @ extract_id_links line key (as_u32 (index + 1)))"
  by (auto simp: content_step_def Let_def split: option.splits prod.splits)

lemma content_step_bodies:
  "dom (ds_bodies (content_step index line h st)) \<subseteq> dom (ds_bodies st) \<union> set_option (ds_source_key st)"
  by (auto simp: content_step_def append_body_def Let_def split: option.splits prod.splits if_splits)

lemma extract_id_links_keys: "ln_source_node_key ` set (extract_id_links line key row) \<subseteq> {key}"
  by (auto dest: extract_id_links_source)

lemma content_step_refs_inv:
  assumes "refs_inv st"
  shows "refs_inv (content_step i line h st)"
proof (cases "ds_source_key st")
  case None
  have "dom (ds_bodies (content_step i line h st)) \<subseteq> dom (ds_bodies st)"
    using content_step_bodies [of i line h st] None by simp
  also have "\<dots> \<subseteq> nd_node_key ` set (ds_nodes st)"
    using assms by (simp add: refs_inv_def Let_def)
  finally show ?thesis
    using None assms by (simp add: refs_inv_def Let_def content_step_links)
next
  case (Some key)
  have key: "key \<in> nd_node_key ` set (ds_nodes st)"
    using assms Some by (simp add: refs_inv_def Let_def)
  have "dom (ds_bodies (content_step i line h st)) \<subseteq> dom (ds_bodies st) \<union> {key}"
    using content_step_bodies [of i line h st] Some by simp
  also have "\<dots> \<subseteq> nd_node_key ` set (ds_nodes st)"
    using assms key by (simp add: refs_inv_def Let_def)
  finally have bodies: "dom (ds_bodies (content_step i line h st)) \<subseteq> nd_node_key ` set (ds_nodes st)" .
  have "ln_source_node_key ` set (extract_id_links line key (as_u32 (i + 1))) \<subseteq> nd_node_key ` set (ds_nodes st)"
    using subset_trans [OF extract_id_links_keys] key by simp
  with bodies Some assms show ?thesis
    by (simp add: refs_inv_def Let_def content_step_links image_Un)
qed

lemma content_step_keys_inv: "keys_inv fp excl index st \<Longrightarrow> keys_inv fp excl index (content_step i line h st)"
  by (simp add: keys_inv_def content_step_refs_inv)

lemma rows_inv_Suc: "rows_inv fp excl index nodes \<Longrightarrow> rows_inv fp excl (Suc index) nodes"
  unfolding rows_inv_def by (metis le_SucI)

lemma keys_inv_Suc: "keys_inv fp excl index st \<Longrightarrow> keys_inv fp excl (Suc index) st"
  by (simp add: keys_inv_def rows_inv_Suc)

text \<open>The exclusion verdict on a heading, and the fields its step touches.\<close>

definition heading_excluded :: "bool \<Rightarrow> nat \<Rightarrow> string list \<Rightarrow> DocState \<Rightarrow> bool" where
  "heading_excluded excl level rest st =
     resolve (hm_roam_exclude (metadata_loop False default_metadata rest))
       (last_or excl (take (level - 1) (ds_exclusion_stack st)))"

definition step_node ::
  "string \<Rightarrow> string list \<Rightarrow> nat \<Rightarrow> string list \<Rightarrow> nat \<times> string option \<times> string \<times> string list \<Rightarrow>
   DocState \<Rightarrow> IndexedNode" where
  "step_node fp tags index rest h st =
     (case h of (level, todo, title, htags) \<Rightarrow>
        heading_node fp tags index level todo title htags
          (join_str '' / '' (take (level - 1) (ds_outline_stack st) @ [title]))
          (metadata_loop False default_metadata rest))"

lemma heading_step_fields:
  fixes fp tags excl index rest h and st :: DocState
  defines "st' \<equiv> heading_step fp tags excl index rest h st"
  shows "ds_links st' = ds_links st" "ds_bodies st' = ds_bodies st"
    "ds_line_rows st' = ds_line_rows st" "ds_search_lines st' = ds_search_lines st"
    "ds_nodes st' = (if heading_excluded excl (fst h) rest st then ds_nodes st
        else ds_nodes st @ [step_node fp tags index rest h st])"
    "ds_source_key st' = (if heading_excluded excl (fst h) rest st then None
        else Some (heading_key fp (Suc index)))"
    "ds_exclusion_stack st' = take (fst h - 1) (ds_exclusion_stack st) @ [heading_excluded excl (fst h) rest st]"
    "ds_outline_stack st' = take (fst h - 1) (ds_outline_stack st) @ [fst (snd (snd h))]"
    "ds_excluded_ids st' = (if heading_excluded excl (fst h) rest st
        then insert_id (hm_explicit_id (metadata_loop False default_metadata rest)) (ds_excluded_ids st)
        else ds_excluded_ids st)"
  by (simp_all add: st'_def heading_step_def heading_excluded_def step_node_def Let_def split: prod.splits)

lemma step_node_fields [simp]:
  "nd_node_key (step_node fp tags index rest h st) = heading_key fp (Suc index)"
  "nd_line (step_node fp tags index rest h st) = as_u32 (Suc index)"
  "nd_level (step_node fp tags index rest h st) = as_u32 (fst h)"
  "nd_kind (step_node fp tags index rest h st) = HeadingNode"
  "nd_glossary (step_node fp tags index rest h st) = False"
  by (simp_all add: step_node_def heading_node_def split: prod.splits)

lemma rows_inv_snoc:
  assumes "rows_inv fp excl index nodes" and "nd_node_key n = heading_key fp (Suc index)"
    and "nd_line n = as_u32 (Suc index)"
  shows "rows_inv fp excl (Suc index) (nodes @ [n])"
proof -
  obtain rows where "sorted_wrt (<) rows" "\<forall>r \<in> set rows. 1 \<le> r \<and> r \<le> index"
      "map nd_node_key nodes = (if excl then [] else [file_key fp]) @ map (heading_key fp) rows"
      "map nd_line nodes = (if excl then [] else [1]) @ map as_u32 rows"
    using assms(1) unfolding rows_inv_def by blast
  with assms(2,3) show ?thesis
    unfolding rows_inv_def
    by (intro exI [of _ "rows @ [Suc index]"]) (auto simp: sorted_wrt_append)
qed

lemma heading_step_keys_inv:
  assumes "keys_inv fp excl index st"
  shows "keys_inv fp excl (Suc index) (heading_step fp tags excl index rest h st)"
proof (cases "heading_excluded excl (fst h) rest st")
  case True
  with keys_inv_Suc [OF assms] show ?thesis
    by (simp add: keys_inv_def refs_inv_def heading_step_fields Let_def)
next
  case False
  have "rows_inv fp excl (Suc index) (ds_nodes st @ [step_node fp tags index rest h st])"
    using assms by (intro rows_inv_snoc) (simp_all add: keys_inv_def)
  with assms False show ?thesis
    by (simp add: keys_inv_def refs_inv_def heading_step_fields Let_def) blast
qed

interpretation keys: scan_invariant "doc_step fp tags excl" "keys_inv fp excl" for fp tags excl
proof
  fix index st line rest
  assume inv: "keys_inv fp excl index st"
  show "keys_inv fp excl (Suc index) (doc_step fp tags excl index line rest st)"
    using content_step_keys_inv [OF keys_inv_Suc [OF inv]]
      content_step_keys_inv [OF heading_step_keys_inv [OF inv]]
    by (auto simp: doc_step_def split: option.splits)
qed

lemma initial_state_keys_inv: "keys_inv fp (file_is_excluded lines) 0 (initial_state fp lines)"
  by (auto simp: keys_inv_def rows_inv_def refs_inv_def initial_state_def file_node_def Let_def
      intro!: exI [of _ "[]"])

abbreviation final_state :: "string \<Rightarrow> string list \<Rightarrow> DocState" where
  "final_state fp lines \<equiv>
     scan_fold (doc_step fp (parse_filetags lines) (file_is_excluded lines)) 0 lines (initial_state fp lines)"

lemma final_keys_inv: "keys_inv fp (file_is_excluded lines) (length lines) (final_state fp lines)"
  using keys.fold_inv [OF initial_state_keys_inv [of fp lines], where lines = lines] by simp

lemma assign_bodies_keys [simp]:
  "map nd_node_key (assign_bodies b ns) = map nd_node_key ns"
  "map nd_line (assign_bodies b ns) = map nd_line ns"
  "map nd_level (assign_bodies b ns) = map nd_level ns"
  "map nd_kind (assign_bodies b ns) = map nd_kind ns"
  by (induction ns arbitrary: b) (simp_all split: option.splits)

lemma assign_bodies_key_set [simp]: "nd_node_key ` set (assign_bodies b ns) = nd_node_key ` set ns"
  using assign_bodies_keys(1) [of b ns] by (metis list.set_map)

lemma scan_source_nodes:
  "if_nodes (scan_source fp source) =
     assign_bodies (ds_bodies (final_state fp (lines_of source))) (ds_nodes (final_state fp (lines_of source)))"
  by (simp add: scan_source_def parse_document_alt finish_document_def)

lemma scan_source_links:
  "if_links (scan_source fp source) =
     filter (\<lambda>l. ln_destination_explicit_id l \<notin> ds_excluded_ids (final_state fp (lines_of source)))
       (ds_links (final_state fp (lines_of source)))"
  by (simp add: scan_source_def parse_document_alt finish_document_def)

end
