(* ===== verification/IndexTrace.thy ===== *)
theory IndexTrace
  imports IndexFacts
begin

text \<open>
  What the rows of a scanned source say about its lines: the heading a node comes
  from, the line and owner of a link, the lines behind the searchable text.
\<close>

lemma drop_Cons_nth: "drop i xs = y # ys \<Longrightarrow> i < length xs \<and> xs ! i = y \<and> drop (Suc i) xs = ys"
  by (metis Cons_nth_drop_Suc drop_eq_Nil2 leI list.distinct(1) list.inject)

section \<open>Nodes\<close>

text \<open>Heading node \<open>n\<close> is the one that line \<open>i\<close> and the lines after it describe.\<close>

definition node_of_line :: "string \<Rightarrow> string list \<Rightarrow> string list \<Rightarrow> nat \<Rightarrow> IndexedNode \<Rightarrow> bool" where
  "node_of_line fp tags lines i n \<longleftrightarrow> i < length lines \<and>
     (case parse_heading (lines ! i) of None \<Rightarrow> False
      | Some (level, todo, title, htags) \<Rightarrow>
          (let m = parse_heading_metadata lines (i + 1) in
           nd_node_key n = heading_key fp (i + 1) \<and> nd_line n = as_u32 (i + 1) \<and>
           nd_level n = as_u32 level \<and> nd_title n = title \<and> nd_todo_keyword n = todo \<and>
           nd_tags n = unique_strings (tags @ htags) \<and> nd_file_path n = fp \<and>
           nd_explicit_id n = hm_explicit_id m \<and> nd_aliases n = hm_aliases m \<and>
           nd_refs n = hm_refs m \<and> nd_scheduled_for n = hm_scheduled_for m \<and>
           nd_deadline_for n = hm_deadline_for m \<and> nd_closed_at n = hm_closed_at m \<and>
           \<not> nd_glossary n \<and> nd_glossary_status n = None \<and> nd_sr_due n = None \<and>
           nd_sr_ease n = None \<and> nd_sr_interval n = None \<and> nd_sr_reps n = None \<and>
           nd_sr_last n = None))"

definition trace_inv :: "string \<Rightarrow> string list \<Rightarrow> string list \<Rightarrow> nat \<Rightarrow> DocState \<Rightarrow> bool" where
  "trace_inv fp tags lines index st \<longleftrightarrow>
     (\<forall>n \<in> set (ds_nodes st). nd_kind n = HeadingNode \<longrightarrow> (\<exists>i<index. node_of_line fp tags lines i n))"

lemma step_node_of_line:
  assumes "drop i lines = line # rest" and "parse_heading line = Some h"
  shows "node_of_line fp tags lines i (step_node fp tags i rest h st)"
  using assms drop_Cons_nth [OF assms(1)]
  by (cases h) (simp add: node_of_line_def step_node_def heading_node_def parse_heading_metadata_def Let_def)

lemma trace_inv_Suc: "trace_inv fp tags lines i st \<Longrightarrow> trace_inv fp tags lines (Suc i) st"
  unfolding trace_inv_def by (meson less_SucI)

interpretation trace: source_scan "doc_step fp tags excl" lines "trace_inv fp tags lines"
  for fp tags excl lines
proof
  fix index line rest st
  assume at: "drop index lines = line # rest" and inv: "trace_inv fp tags lines index st"
  show "trace_inv fp tags lines (Suc index) (doc_step fp tags excl index line rest st)"
  proof (cases "parse_heading line")
    case None
    with trace_inv_Suc [OF inv] show ?thesis by (simp add: doc_step_def trace_inv_def)
  next
    case (Some h)
    with trace_inv_Suc [OF inv] step_node_of_line [OF at Some] show ?thesis
      by (auto simp: doc_step_def trace_inv_def heading_step_fields)
  qed
qed

lemma initial_trace: "trace_inv fp tags lines 0 (initial_state fp lines)"
  by (simp add: trace_inv_def initial_state_def file_node_def Let_def)

lemma assign_bodies_member: "n \<in> set (assign_bodies b ns) \<Longrightarrow> \<exists>n' \<in> set ns. \<exists>t. n = n'\<lparr>nd_body := t\<rparr>"
proof (induction ns arbitrary: b)
  case (Cons m ns)
  show ?case
  proof (cases "b (nd_node_key m)")
    case None
    with Cons have "n = m \<or> n \<in> set (assign_bodies b ns)" by simp
    moreover have "m = m\<lparr>nd_body := nd_body m\<rparr>" by simp
    ultimately show ?thesis using Cons.IH by (metis list.set_intros)
  next
    case (Some t)
    with Cons show ?thesis by fastforce
  qed
qed simp

lemma node_of_line_body [simp]:
  "node_of_line fp tags lines i (n\<lparr>nd_body := t\<rparr>) = node_of_line fp tags lines i n"
  by (simp add: node_of_line_def Let_def split: option.splits prod.splits)

section \<open>Links\<close>

text \<open>The node that owns the lines below \<open>index\<close> up to the last of them.\<close>

definition owner_before :: "string \<Rightarrow> string list \<Rightarrow> nat \<Rightarrow> string \<Rightarrow> bool" where
  "owner_before fp lines index key \<longleftrightarrow>
     (key = file_key fp \<and> (\<forall>k<index. parse_heading (lines ! k) = None)) \<or>
     (\<exists>j<index. key = heading_key fp (Suc j) \<and> parse_heading (lines ! j) \<noteq> None \<and>
        (\<forall>k. j < k \<and> k < index \<longrightarrow> parse_heading (lines ! k) = None))"

definition link_of_line :: "string \<Rightarrow> string list \<Rightarrow> nat \<Rightarrow> IndexedLink \<Rightarrow> bool" where
  "link_of_line fp lines i l \<longleftrightarrow> i < length lines \<and>
     l \<in> set (extract_id_links (lines ! i) (ln_source_node_key l) (as_u32 (Suc i))) \<and>
     owner_before fp lines (Suc i) (ln_source_node_key l)"

definition link_inv :: "string \<Rightarrow> string list \<Rightarrow> nat \<Rightarrow> DocState \<Rightarrow> bool" where
  "link_inv fp lines index st \<longleftrightarrow>
     (\<forall>key. ds_source_key st = Some key \<longrightarrow> owner_before fp lines index key) \<and>
     (\<forall>l \<in> set (ds_links st). \<exists>i<index. link_of_line fp lines i l)"

lemma owner_heading:
  "i < length lines \<Longrightarrow> parse_heading (lines ! i) \<noteq> None \<Longrightarrow>
   owner_before fp lines (Suc i) (heading_key fp (Suc i))"
  unfolding owner_before_def by auto

lemma owner_plain:
  "owner_before fp lines i key \<Longrightarrow> parse_heading (lines ! i) = None \<Longrightarrow>
   owner_before fp lines (Suc i) key"
  unfolding owner_before_def by (metis less_Suc_eq)

lemma content_link_inv:
  assumes "i < length lines"
    and "\<And>key. ds_source_key st = Some key \<Longrightarrow> owner_before fp lines (Suc i) key"
    and "\<And>l. l \<in> set (ds_links st) \<Longrightarrow> \<exists>i'<i. link_of_line fp lines i' l"
  shows "link_inv fp lines (Suc i) (content_step i (lines ! i) h st)"
proof -
  have "\<exists>i'<Suc i. link_of_line fp lines i' l"
    if new: "ds_source_key st = Some key" "l \<in> set (extract_id_links (lines ! i) key (as_u32 (Suc i)))" for l key
  proof -
    have "ln_source_node_key l = key" using extract_id_links_source [OF new(2)] by simp
    with new assms(1,2) show ?thesis by (auto simp: link_of_line_def)
  qed
  moreover have "\<exists>i'<Suc i. link_of_line fp lines i' l" if "l \<in> set (ds_links st)" for l
    using assms(3) [OF that] by (meson less_SucI)
  ultimately show ?thesis
    using assms(2) by (auto simp: link_inv_def content_step_links split: option.splits)
qed

interpretation links: source_scan "doc_step fp tags excl" lines "link_inv fp lines"
  for fp tags excl lines
proof
  fix index line rest st
  assume at: "drop index lines = line # rest" and inv: "link_inv fp lines index st"
  have line: "index < length lines" "line = lines ! index" using drop_Cons_nth [OF at] by simp_all
  show "link_inv fp lines (Suc index) (doc_step fp tags excl index line rest st)"
  proof (cases "parse_heading line")
    case None
    have "link_inv fp lines (Suc index) (content_step index (lines ! index) False st)"
      using inv None line by (intro content_link_inv) (auto simp: link_inv_def intro: owner_plain)
    with None line show ?thesis by (simp add: doc_step_def)
  next
    case (Some h)
    have "link_inv fp lines (Suc index)
        (content_step index (lines ! index) True (heading_step fp tags excl index rest h st))"
      using inv Some line
      by (intro content_link_inv)
        (auto simp: link_inv_def heading_step_fields split: if_splits intro: owner_heading)
    with Some line show ?thesis by (simp add: doc_step_def)
  qed
qed

lemma initial_links: "link_inv fp lines 0 (initial_state fp lines)"
  by (simp add: link_inv_def initial_state_def owner_before_def Let_def)

section \<open>Excluded identities\<close>

text \<open>
  An identity of something the scan left out, read off the source and the keys of the
  indexed nodes: the id of the file when the file is not indexed, or the id in the
  metadata of a heading line that is not.
\<close>

definition left_out_identity :: "string \<Rightarrow> string list \<Rightarrow> string set \<Rightarrow> string \<Rightarrow> bool" where
  "left_out_identity fp lines keys x \<longleftrightarrow>
     file_key fp \<notin> keys \<and> np_explicit_id (parse_file_properties lines) = Some x \<or>
     (\<exists>j<length lines. parse_heading (lines ! j) \<noteq> None \<and> heading_key fp (Suc j) \<notin> keys \<and>
        hm_explicit_id (parse_heading_metadata lines (Suc j)) = Some x)"

text \<open>Line \<open>j\<close> is a heading whose node is missing, although its id is not recorded.\<close>

definition unrecorded :: "string \<Rightarrow> string list \<Rightarrow> DocState \<Rightarrow> nat \<Rightarrow> bool" where
  "unrecorded fp lines st j \<longleftrightarrow> parse_heading (lines ! j) \<noteq> None \<and>
     heading_key fp (Suc j) \<notin> nd_node_key ` set (ds_nodes st) \<and>
     (\<exists>x. hm_explicit_id (parse_heading_metadata lines (Suc j)) = Some x \<and> x \<notin> ds_excluded_ids st)"

definition recorded_inv :: "string \<Rightarrow> string list \<Rightarrow> nat \<Rightarrow> DocState \<Rightarrow> bool" where
  "recorded_inv fp lines index st \<longleftrightarrow> (\<forall>j<index. \<not> unrecorded fp lines st j) \<and>
     (\<forall>x. file_key fp \<notin> nd_node_key ` set (ds_nodes st) \<longrightarrow>
        np_explicit_id (parse_file_properties lines) = Some x \<longrightarrow> x \<in> ds_excluded_ids st)"

lemma doc_step_grows:
  "nd_node_key ` set (ds_nodes st) \<subseteq> nd_node_key ` set (ds_nodes (doc_step fp tags excl index line rest st))"
  "ds_excluded_ids st \<subseteq> ds_excluded_ids (doc_step fp tags excl index line rest st)"
  by (auto simp: doc_step_def heading_step_fields insert_id_def split: option.splits)

lemma unrecorded_grows:
  assumes "unrecorded fp lines (doc_step fp tags excl index line rest st) j"
  shows "unrecorded fp lines st j"
proof -
  obtain x where x: "hm_explicit_id (parse_heading_metadata lines (Suc j)) = Some x"
    and new: "x \<notin> ds_excluded_ids (doc_step fp tags excl index line rest st)"
      "heading_key fp (Suc j) \<notin> nd_node_key ` set (ds_nodes (doc_step fp tags excl index line rest st))"
    and heading: "parse_heading (lines ! j) \<noteq> None"
    using assms unfolding unrecorded_def by (elim conjE exE)
  show ?thesis
    unfolding unrecorded_def
    using heading x contra_subsetD [OF doc_step_grows(2) new(1)] contra_subsetD [OF doc_step_grows(1) new(2)]
    by (intro conjI exI)
qed

lemma heading_recorded:
  assumes "drop index lines = line # rest"
  shows "\<not> unrecorded fp lines (doc_step fp tags excl index line rest st) index"
proof (cases "parse_heading line")
  case None
  with drop_Cons_nth [OF assms] show ?thesis by (simp add: unrecorded_def)
next
  case (Some h)
  then have step: "doc_step fp tags excl index line rest st =
      content_step index line True (heading_step fp tags excl index rest h st)"
    by (simp add: doc_step_def)
  have below: "parse_heading_metadata lines (Suc index) = metadata_loop False default_metadata rest"
    using drop_Cons_nth [OF assms] by (simp add: parse_heading_metadata_def)
  show ?thesis
    unfolding unrecorded_def step below content_step_nodes
    by (cases "heading_excluded excl (fst h) rest st") (simp_all add: heading_step_fields insert_id_def split: option.split)
qed

interpretation exclusions: source_scan "doc_step fp tags excl" lines "recorded_inv fp lines"
  for fp tags excl lines
proof
  fix index line rest st
  assume at: "drop index lines = line # rest" and inv: "recorded_inv fp lines index st"
  have "\<not> unrecorded fp lines (doc_step fp tags excl index line rest st) j" if "j < Suc index" for j
  proof (cases "j = index")
    case True
    with heading_recorded [OF at] show ?thesis by simp
  next
    case False
    with that have "j < index" by simp
    with inv have "\<not> unrecorded fp lines st j" unfolding recorded_inv_def by blast
    then show ?thesis using unrecorded_grows by blast
  qed
  moreover have "x \<in> ds_excluded_ids (doc_step fp tags excl index line rest st)"
    if "file_key fp \<notin> nd_node_key ` set (ds_nodes (doc_step fp tags excl index line rest st))"
      "np_explicit_id (parse_file_properties lines) = Some x" for x
  proof -
    have "file_key fp \<notin> nd_node_key ` set (ds_nodes st)" using that(1) doc_step_grows(1) by (rule contra_subsetD [rotated])
    with that(2) inv have "x \<in> ds_excluded_ids st" unfolding recorded_inv_def by blast
    with doc_step_grows(2) show ?thesis by (rule subsetD)
  qed
  ultimately show "recorded_inv fp lines (Suc index) (doc_step fp tags excl index line rest st)"
    unfolding recorded_inv_def by blast
qed

lemma initial_recorded: "recorded_inv fp lines 0 (initial_state fp lines)"
  by (simp add: recorded_inv_def initial_state_def file_node_def insert_id_def Let_def)

lemma left_out_recorded:
  assumes "left_out_identity fp lines (nd_node_key ` set (ds_nodes (final_state fp lines))) x"
  shows "x \<in> ds_excluded_ids (final_state fp lines)"
proof -
  have "recorded_inv fp lines (length lines) (final_state fp lines)"
    by (rule exclusions.fold_all [OF initial_recorded])
  with assms show ?thesis
    unfolding left_out_identity_def recorded_inv_def unrecorded_def by blast
qed

section \<open>Searchable lines\<close>

definition rows_of :: "string list \<Rightarrow> nat \<Rightarrow> DocState \<Rightarrow> bool" where
  "rows_of lines index st \<longleftrightarrow>
     (\<exists>rows. sorted_wrt (<) rows \<and> (\<forall>r \<in> set rows. r < index \<and> r < length lines) \<and>
        ds_line_rows st = map (\<lambda>r. as_u32 (Suc r)) rows \<and>
        ds_search_lines st = map (\<lambda>r. lines ! r) rows)"

lemma rows_of_Suc: "rows_of lines i st \<Longrightarrow> rows_of lines (Suc i) st"
  unfolding rows_of_def by (meson less_SucI)

lemma content_rows:
  "ds_line_rows (content_step i line h st) =
     ds_line_rows st @ (if ds_source_key st \<noteq> None \<and> trim line \<noteq> [] then [as_u32 (Suc i)] else [])"
  "ds_search_lines (content_step i line h st) =
     ds_search_lines st @ (if ds_source_key st \<noteq> None \<and> trim line \<noteq> [] then [line] else [])"
  by (auto simp: content_step_def Let_def split: option.splits prod.splits)

lemma content_rows_of:
  assumes "rows_of lines i st" and "i < length lines"
  shows "rows_of lines (Suc i) (content_step i (lines ! i) h st)"
proof -
  obtain rows where rows: "sorted_wrt (<) rows" "\<forall>r \<in> set rows. r < i \<and> r < length lines"
      "ds_line_rows st = map (\<lambda>r. as_u32 (Suc r)) rows" "ds_search_lines st = map (\<lambda>r. lines ! r) rows"
    using assms(1) unfolding rows_of_def by blast
  let ?new = "if ds_source_key st \<noteq> None \<and> trim (lines ! i) \<noteq> [] then [i] else []"
  show ?thesis
    unfolding rows_of_def using rows assms(2)
    by (intro exI [of _ "rows @ ?new"])
      (auto simp: content_rows sorted_wrt_append intro: less_SucI)
qed

interpretation occurrences: source_scan "doc_step fp tags excl" lines "rows_of lines"
  for fp tags excl lines
proof
  fix index line rest st
  assume at: "drop index lines = line # rest" and inv: "rows_of lines index st"
  have line: "index < length lines" "line = lines ! index" using drop_Cons_nth [OF at] by simp_all
  have "rows_of lines index (heading_step fp tags excl index rest h st)" for h
    using inv by (simp add: rows_of_def heading_step_fields)
  with line inv show "rows_of lines (Suc index) (doc_step fp tags excl index line rest st)"
    by (auto simp: doc_step_def intro: content_rows_of split: option.splits)
qed

lemma initial_rows: "rows_of lines 0 (initial_state fp lines)"
  by (simp add: rows_of_def initial_state_def Let_def)

end
