(* ===== verification/IndexProps.thy ===== *)
theory IndexProps
  imports IndexTrace
begin

text \<open>
  The properties of the indexer: one node per heading line, distinct keys, links
  and searchable text that trace back to their lines, agreement of the outline scan
  with the document scan, and nesting of exclusion.
\<close>

section \<open>A document for the witnesses\<close>

definition sample_source :: string where
  "sample_source = join_str [NL] [''* A'', '':PROPERTIES:'', '':ID: x'', '':END:'', ''[[id:y]]'']"

lemma sample_lines:
  "lines_of sample_source = [''* A'', '':PROPERTIES:'', '':ID: x'', '':END:'', ''[[id:y]]'']"
  by code_simp

definition summary :: "IndexedFile \<Rightarrow> (NodeKind \<times> string) list \<times> string list \<times> bool" where
  "summary f = (map (\<lambda>n. (nd_kind n, nd_title n)) (if_nodes f),
     map ln_destination_explicit_id (if_links f), if_occurrence_document f = None)"

lemma sample_summary:
  "summary (scan_source ''a.org'' sample_source) =
     ([(FileNode, ''a''), (HeadingNode, ''A'')], [''y''], False)"
  by code_simp

lemma sample_node: "\<exists>n \<in> set (if_nodes (scan_source ''a.org'' sample_source)). nd_kind n = HeadingNode \<and> nd_title n = ''A''"
  and sample_link: "\<exists>l \<in> set (if_links (scan_source ''a.org'' sample_source)). ln_destination_explicit_id l = ''y''"
  and sample_occurrences: "if_occurrence_document (scan_source ''a.org'' sample_source) \<noteq> None"
  using sample_summary by (auto simp: summary_def map_eq_Cons_conv)

text \<open>A heading excludes itself and what is below it; a later heading links to it.\<close>

definition excluding_source :: string where
  "excluding_source = join_str [NL]
     [''* A'', '':PROPERTIES:'', '':ID: a'', '':ROAM_EXCLUDE: t'', '':END:'', ''** B'', ''* C'', ''[[id:a]] [[id:y]]'']"

section \<open>Keys and line numbers\<close>

lemma final_rows:
  "\<exists>rows. sorted_wrt (<) rows \<and> (\<forall>r \<in> set rows. 1 \<le> r \<and> r \<le> length (lines_of source)) \<and>
     map nd_node_key (if_nodes (scan_source fp source)) =
       (if file_is_excluded (lines_of source) then [] else [file_key fp]) @ map (heading_key fp) rows \<and>
     map nd_line (if_nodes (scan_source fp source)) =
       (if file_is_excluded (lines_of source) then [] else [1]) @ map as_u32 rows"
  using final_keys_inv [of fp "lines_of source"]
  by (simp add: keys_inv_def rows_inv_def scan_source_nodes)

lemma distinct_heading_keys: "distinct rows \<Longrightarrow> distinct (map (heading_key fp) rows)"
  by (simp add: distinct_map inj_on_def heading_key_inj)

text \<open>C19. No two nodes of a scanned source share a node key: the keys under which a
  file's nodes are stored identify them, whatever the source.\<close>

theorem scan_source_keys_distinct:
  "distinct (map nd_node_key (if_nodes (scan_source fp source)))"
proof -
  obtain rows where "sorted_wrt (<) rows"
      and keys: "map nd_node_key (if_nodes (scan_source fp source)) =
        (if file_is_excluded (lines_of source) then [] else [file_key fp]) @ map (heading_key fp) rows"
    using final_rows by blast
  then have "distinct (map (heading_key fp) rows)"
    by (intro distinct_heading_keys) (simp add: strict_sorted_iff)
  then show ?thesis
    unfolding keys by (auto simp: file_key_not_heading file_key_not_heading [symmetric])
qed

text \<open>C31. In a file of fewer than 4294967296 lines the heading nodes come in the order of
  their lines, each with a line number of its own; the file node, when there is one,
  stands before them.\<close>

theorem scan_source_line_order:
  assumes "length (lines_of source) < 4294967296"
  shows "\<exists>file rows. map nd_line (if_nodes (scan_source fp source)) = file @ rows \<and>
           file = (if file_is_excluded (lines_of source) then [] else [1]) \<and>
           sorted_wrt (<) rows \<and> set rows \<subseteq> {1..length (lines_of source)}"
proof -
  obtain rows where rows: "sorted_wrt (<) rows" "\<forall>r \<in> set rows. 1 \<le> r \<and> r \<le> length (lines_of source)"
      and eq: "map nd_line (if_nodes (scan_source fp source)) =
        (if file_is_excluded (lines_of source) then [] else [1]) @ map as_u32 rows"
    using final_rows by blast
  from rows(2) assms have "map as_u32 rows = rows" by (intro map_idI as_u32_id) auto
  with rows eq show ?thesis by auto
qed

theorem scan_source_line_order_witness:
  "\<exists>file rows. map nd_line (if_nodes (scan_source ''a.org'' sample_source)) = file @ rows \<and>
     file = (if file_is_excluded (lines_of sample_source) then [] else [1]) \<and>
     sorted_wrt (<) rows \<and> set rows \<subseteq> {1..length (lines_of sample_source)}"
  by (rule scan_source_line_order) (simp add: sample_lines)

section \<open>Rows trace back to lines\<close>

text \<open>C16. Every heading node of a scanned source is what one heading line and the
  drawer and planning lines below it say: key, line, level, title, keyword, tags,
  identity, aliases, references and dates, and no glossary or review state.\<close>

theorem scan_source_heading_sound:
  assumes "n \<in> set (if_nodes (scan_source fp source))" and "nd_kind n = HeadingNode"
  shows "\<exists>i. node_of_line fp (parse_filetags (lines_of source)) (lines_of source) i n"
proof -
  let ?st = "final_state fp (lines_of source)"
  obtain n' t where n': "n' \<in> set (ds_nodes ?st)" "n = n'\<lparr>nd_body := t\<rparr>"
    using assms(1) assign_bodies_member unfolding scan_source_nodes by blast
  have "trace_inv fp (parse_filetags (lines_of source)) (lines_of source) (length (lines_of source)) ?st"
    by (rule trace.fold_all [OF initial_trace])
  with n' assms(2) show ?thesis unfolding trace_inv_def by fastforce
qed

text \<open>C10. Every link row of a scanned source was extracted from one line, starts at the
  node whose text that line belongs to (the nearest heading at or above it, or the
  file before the first heading), that node is indexed, and its destination is not the
  identity of anything the scan left out: neither of a heading line for which there is
  no node, nor of the file when it has none.\<close>

theorem scan_source_link_sound:
  assumes "l \<in> set (if_links (scan_source fp source))"
  shows "(\<exists>i. link_of_line fp (lines_of source) i l) \<and>
         ln_source_node_key l \<in> nd_node_key ` set (if_nodes (scan_source fp source)) \<and>
         \<not> left_out_identity fp (lines_of source) (nd_node_key ` set (if_nodes (scan_source fp source)))
             (ln_destination_explicit_id l)"
proof -
  let ?st = "final_state fp (lines_of source)"
  have l: "l \<in> set (ds_links ?st)" "ln_destination_explicit_id l \<notin> ds_excluded_ids ?st"
    using assms by (simp_all add: scan_source_links)
  moreover have "link_inv fp (lines_of source) (length (lines_of source)) ?st"
    by (rule links.fold_all [OF initial_links])
  moreover have "ln_source_node_key ` set (ds_links ?st) \<subseteq> nd_node_key ` set (ds_nodes ?st)"
    using final_keys_inv [of fp "lines_of source"] by (simp add: keys_inv_def refs_inv_def Let_def)
  ultimately show ?thesis
    using left_out_recorded unfolding link_inv_def scan_source_nodes assign_bodies_key_set by blast
qed

text \<open>C20. The searchable text of a file is exactly the lines its row table names: split
  at line feeds it is the list of those lines, in order, so a match in the text can be
  mapped back to its line.\<close>

theorem scan_source_occurrence_rows:
  assumes "if_occurrence_document (scan_source fp source) = Some d"
    and "length (lines_of source) < 4294967296"
  shows "split_on (\<lambda>c. c = NL) (od_search_text d) =
           map (\<lambda>r. lines_of source ! (r - 1)) (od_line_rows d) \<and>
         sorted_wrt (<) (od_line_rows d) \<and> set (od_line_rows d) \<subseteq> {1..length (lines_of source)}"
proof -
  let ?lines = "lines_of source" and ?st = "final_state fp (lines_of source)"
  have d: "ds_search_lines ?st \<noteq> []" "od_search_text d = join_str [NL] (ds_search_lines ?st)"
      "od_line_rows d = ds_line_rows ?st"
    using assms(1) by (auto simp: scan_source_def parse_document_alt finish_document_def split: if_splits)
  have "rows_of ?lines (length ?lines) ?st"
    by (rule occurrences.fold_all [OF initial_rows])
  then obtain rows where rows: "sorted_wrt (<) rows" "\<forall>r \<in> set rows. r < length ?lines"
      "ds_line_rows ?st = map (\<lambda>r. as_u32 (Suc r)) rows" "ds_search_lines ?st = map ((!) ?lines) rows"
    unfolding rows_of_def by blast
  have ids: "ds_line_rows ?st = map Suc rows"
    unfolding rows(3) using rows(2) assms(2) by (intro map_cong refl as_u32_id) auto
  have "split_on (\<lambda>c. c = NL) (join_str [NL] (ds_search_lines ?st)) = ds_search_lines ?st"
    using d(1) rows(2) by (intro split_on_join) (auto simp: rows(4) dest: lines_of_no_newline nth_mem)
  with d ids rows show ?thesis by (auto simp: sorted_wrt_map)
qed

theorem scan_source_heading_sound_witness:
  "\<exists>n. nd_title n = ''A'' \<and>
     (\<exists>i. node_of_line ''a.org'' (parse_filetags (lines_of sample_source)) (lines_of sample_source) i n)"
  using sample_node scan_source_heading_sound by blast

theorem scan_source_link_sound_witness:
  "map ln_destination_explicit_id (if_links (scan_source ''a.org'' excluding_source)) = [''y''] \<and>
   left_out_identity ''a.org'' (lines_of excluding_source)
     (nd_node_key ` set (if_nodes (scan_source ''a.org'' excluding_source))) ''a'' \<and>
   \<not> left_out_identity ''a.org'' (lines_of excluding_source)
     (nd_node_key ` set (if_nodes (scan_source ''a.org'' excluding_source))) ''y''"
proof (intro conjI)
  show links: "map ln_destination_explicit_id (if_links (scan_source ''a.org'' excluding_source)) = [''y'']"
    by code_simp
  show "left_out_identity ''a.org'' (lines_of excluding_source)
      (nd_node_key ` set (if_nodes (scan_source ''a.org'' excluding_source))) ''a''"
    unfolding left_out_identity_def by (rule disjI2, rule exI [of _ 0]) code_simp
  obtain l where "l \<in> set (if_links (scan_source ''a.org'' excluding_source))" "ln_destination_explicit_id l = ''y''"
    using links by (auto simp: map_eq_Cons_conv)
  from scan_source_link_sound [OF this(1)] this(2)
  show "\<not> left_out_identity ''a.org'' (lines_of excluding_source)
      (nd_node_key ` set (if_nodes (scan_source ''a.org'' excluding_source))) ''y''" by simp
qed

theorem scan_source_occurrence_rows_witness:
  "\<exists>d. if_occurrence_document (scan_source ''a.org'' sample_source) = Some d \<and>
     split_on (\<lambda>c. c = NL) (od_search_text d) =
       map (\<lambda>r. lines_of sample_source ! (r - 1)) (od_line_rows d)"
proof -
  have "length (lines_of sample_source) < 4294967296" by (simp add: sample_lines)
  with sample_occurrences scan_source_occurrence_rows show ?thesis by blast
qed

section \<open>The outline scan and the document scan\<close>

type_synonym position = "string \<times> nat \<times> nat \<times> NodeKind"

definition node_position :: "IndexedNode \<Rightarrow> position" where
  "node_position n = (nd_node_key n, nd_line n, nd_level n, nd_kind n)"

definition outline_position :: "OutlineNode \<Rightarrow> position" where
  "outline_position n = (on_node_key n, on_line n, on_level n, on_kind n)"

text \<open>
  What decides that the two readers of a heading's metadata find the same directive: in
  the lines below a heading, up to the next heading, at most one opens a property drawer
  and at most one is a ROAM_EXCLUDE line.
\<close>

definition opens_drawer :: "string \<Rightarrow> bool" where
  "opens_drawer line \<longleftrightarrow> eq_ignore_case (trim line) '':PROPERTIES:''"

definition states_exclusion :: "string \<Rightarrow> bool" where
  "states_exclusion line \<longleftrightarrow> strip_keyword (trim line) '':ROAM_EXCLUDE:'' \<noteq> None"

lemma states_no_exclusion: "\<not> states_exclusion line \<Longrightarrow> strip_keyword (trim line) '':ROAM_EXCLUDE:'' = None"
  by (simp add: states_exclusion_def)

definition section_of :: "string list \<Rightarrow> string list" where
  "section_of below = takeWhile (\<lambda>line. parse_heading line = None) below"

definition unambiguous :: "string list \<Rightarrow> bool" where
  "unambiguous lines \<longleftrightarrow>
     list_all (\<lambda>i. parse_heading (lines ! i) = None \<or>
         length (filter opens_drawer (section_of (drop (Suc i) lines))) \<le> 1 \<and>
         length (filter states_exclusion (section_of (drop (Suc i) lines))) \<le> 1)
       [0..<length lines]"

lemma section_of_simps [simp]:
  "section_of [] = []"
  "section_of (line # rest) = (if parse_heading line = None then line # section_of rest else [])"
  by (simp_all add: section_of_def)

lemma heading_drawer_line_exclude:
  "hm_roam_exclude (heading_drawer_line (trim line) m) =
     (case strip_keyword (trim line) '':ROAM_EXCLUDE:'' of None \<Rightarrow> hm_roam_exclude m | Some v \<Rightarrow> parse_roam_exclude v)"
  by (simp add: heading_drawer_line_def on_key_def set_id_def Let_def split: option.split)

lemma planning_line_exclude:
  "hm_roam_exclude (snd (parse_planning_line line m)) = hm_roam_exclude m"
  "fst (parse_planning_line line m) = is_planning_line line"
  by (simp_all add: parse_planning_line_def is_planning_line_def Let_def)

lemma metadata_loop_step:
  assumes "parse_heading line = None"
  shows "metadata_loop False m (line # rest) =
      (if opens_drawer line then metadata_loop True m rest
       else if is_planning_line (trim line) \<or> trim line = []
       then metadata_loop False (snd (parse_planning_line (trim line) m)) rest
       else snd (parse_planning_line (trim line) m))"
    and "metadata_loop True m (line # rest) =
      (if eq_ignore_case (trim line) '':END:'' then metadata_loop False m rest
       else metadata_loop True (heading_drawer_line (trim line) m) rest)"
  using assms planning_line_exclude(2) [of "trim line" m]
  by (auto simp: opens_drawer_def Let_def split: prod.split)

lemma metadata_loop_quiet:
  "filter states_exclusion (section_of lines) = [] \<Longrightarrow>
   hm_roam_exclude (metadata_loop in_drawer m lines) = hm_roam_exclude m"
proof (induction lines arbitrary: in_drawer m)
  case (Cons line rest)
  show ?case
  proof (cases "parse_heading line")
    case None
    with Cons.prems have quiet: "filter states_exclusion (section_of rest) = []" "\<not> states_exclusion line"
      by (auto split: if_splits)
    show ?thesis
      by (cases in_drawer) (simp_all add: metadata_loop_step [OF None] Cons.IH [OF quiet(1)] planning_line_exclude
        heading_drawer_line_exclude states_no_exclusion [OF quiet(2)] del: metadata_loop.simps)
  qed simp
qed simp

lemma metadata_loop_closed:
  "filter opens_drawer (section_of lines) = [] \<Longrightarrow>
   hm_roam_exclude (metadata_loop False m lines) = hm_roam_exclude m"
proof (induction lines arbitrary: m)
  case (Cons line rest)
  show ?case
  proof (cases "parse_heading line")
    case None
    with Cons.prems have closed: "filter opens_drawer (section_of rest) = []" "\<not> opens_drawer line"
      by (auto split: if_splits)
    then show ?thesis
      by (simp add: metadata_loop_step [OF None] Cons.IH planning_line_exclude del: metadata_loop.simps)
  qed simp
qed simp

lemma drawer_agrees:
  "filter opens_drawer (section_of lines) = [] \<Longrightarrow> length (filter states_exclusion (section_of lines)) \<le> 1 \<Longrightarrow>
   hm_roam_exclude m = Inherit \<Longrightarrow> exclusion_loop True lines = hm_roam_exclude (metadata_loop True m lines)"
proof (induction lines arbitrary: m)
  case (Cons line rest)
  show ?case
  proof (cases "parse_heading line")
    case None
    with Cons.prems have closed: "filter opens_drawer (section_of rest) = []" by (simp split: if_splits)
    show ?thesis
    proof (cases "eq_ignore_case (trim line) '':END:''")
      case True
      with None Cons.prems(3) show ?thesis
        by (simp add: metadata_loop_step [OF None] metadata_loop_closed [OF closed] del: metadata_loop.simps)
    next
      case inside: False
      show ?thesis
      proof (cases "strip_keyword (trim line) '':ROAM_EXCLUDE:''")
        case missing: None
        then have "\<not> states_exclusion line" by (simp add: states_exclusion_def)
        with None Cons.prems(2) have "length (filter states_exclusion (section_of rest)) \<le> 1" by simp
        from Cons.IH [OF closed this, of "heading_drawer_line (trim line) m"] missing inside None Cons.prems(3)
        show ?thesis
          by (simp add: metadata_loop_step [OF None] heading_drawer_line_exclude del: metadata_loop.simps)
      next
        case (Some v)
        then have "states_exclusion line" by (simp add: states_exclusion_def)
        with None Cons.prems(2) have "filter states_exclusion (section_of rest) = []" by simp
        from metadata_loop_quiet [OF this] Some inside None
        show ?thesis
          by (simp add: metadata_loop_step [OF None] heading_drawer_line_exclude del: metadata_loop.simps)
      qed
    qed
  qed (use Cons.prems in simp)
qed simp

lemma directives_agree:
  "length (filter opens_drawer (section_of lines)) \<le> 1 \<Longrightarrow> length (filter states_exclusion (section_of lines)) \<le> 1 \<Longrightarrow>
   hm_roam_exclude m = Inherit \<Longrightarrow> exclusion_loop False lines = hm_roam_exclude (metadata_loop False m lines)"
proof (induction lines arbitrary: m)
  case (Cons line rest)
  show ?case
  proof (cases "parse_heading line")
    case None
    with Cons.prems have one: "length (filter states_exclusion (section_of rest)) \<le> 1"
      by (simp split: if_splits)
    show ?thesis
    proof (cases "opens_drawer line")
      case True
      with None Cons.prems(1) have "filter opens_drawer (section_of rest) = []" by simp
      from drawer_agrees [OF this one Cons.prems(3)] True None show ?thesis
        by (simp add: metadata_loop_step [OF None] opens_drawer_def [symmetric] del: metadata_loop.simps)
    next
      case False
      with None Cons.prems(1) have "length (filter opens_drawer (section_of rest)) \<le> 1" by simp
      note ih = Cons.IH [OF this one, of "snd (parse_planning_line (trim line) m)"]
      show ?thesis
        using False None Cons.prems(3) ih
        by (simp add: metadata_loop_step [OF None] opens_drawer_def [symmetric] planning_line_exclude
            del: metadata_loop.simps)
    qed
  qed (use Cons.prems in simp)
qed simp

lemma doc_step_positions:
  "map node_position (ds_nodes (doc_step fp tags excl index line rest st)) =
     map node_position (ds_nodes st) @
     (case parse_heading line of None \<Rightarrow> []
      | Some h \<Rightarrow> if heading_excluded excl (fst h) rest st then []
          else [(heading_key fp (Suc index), as_u32 (Suc index), as_u32 (fst h), HeadingNode)])"
  by (auto simp: doc_step_def heading_step_fields node_position_def split: option.splits)

lemma doc_step_stack:
  "ds_exclusion_stack (doc_step fp tags excl index line rest st) =
     (case parse_heading line of None \<Rightarrow> ds_exclusion_stack st
      | Some h \<Rightarrow> take (fst h - 1) (ds_exclusion_stack st) @ [heading_excluded excl (fst h) rest st])"
  by (auto simp: doc_step_def heading_step_fields split: option.splits)

lemma outline_simulation:
  assumes "\<And>i. i < length lines \<Longrightarrow> parse_heading (lines ! i) \<noteq> None \<Longrightarrow>
    exclusion_loop False (drop (Suc i) lines) =
      hm_roam_exclude (metadata_loop False default_metadata (drop (Suc i) lines))"
  shows "map node_position (ds_nodes (scan_fold (doc_step fp tags excl) index lines st)) =
    map node_position (ds_nodes st) @
    map outline_position
      (filter (\<lambda>n. \<not> on_excluded n) (outline_loop fp excl index (ds_exclusion_stack st) lines))"
  using assms
proof (induction lines arbitrary: index st)
  case (Cons line rest)
  have here: "exclusion_loop False rest = hm_roam_exclude (metadata_loop False default_metadata rest)"
    if "parse_heading line \<noteq> None" using Cons.prems [of 0] that by simp
  have "exclusion_loop False (drop (Suc i) rest) =
      hm_roam_exclude (metadata_loop False default_metadata (drop (Suc i) rest))"
    if "i < length rest" "parse_heading (rest ! i) \<noteq> None" for i
    using Cons.prems [of "Suc i"] that by simp
  from Cons.IH [OF this] show ?case
    by (auto simp: doc_step_positions doc_step_stack heading_excluded_def here Let_def outline_position_def
        split: option.splits)
qed simp

lemma initial_positions:
  "map node_position (ds_nodes (initial_state fp lines)) =
     (if file_is_excluded lines then [] else [(file_key fp, 1, 0, FileNode)])"
  "ds_exclusion_stack (initial_state fp lines) = []"
  by (simp_all add: initial_state_def node_position_def file_node_def Let_def)

lemma assign_bodies_positions [simp]:
  "map node_position (assign_bodies b ns) = map node_position ns"
  by (induction ns arbitrary: b) (simp_all add: node_position_def split: option.splits)

text \<open>C15. The light outline scan and the full document scan see the same nodes: when no
  heading has two property drawers or two ROAM_EXCLUDE lines before the next heading,
  the nodes of \<open>scan_source\<close> are the entries of \<open>scan_source_outline\<close> that are not
  excluded, with the same keys, lines, levels and kinds in the same order.\<close>

theorem outline_matches_document:
  assumes "unambiguous (lines_of source)"
  shows "map node_position (if_nodes (scan_source fp source)) =
    map outline_position (filter (\<lambda>n. \<not> on_excluded n) (scan_source_outline fp source))"
proof -
  have "exclusion_loop False (drop (Suc i) (lines_of source)) =
      hm_roam_exclude (metadata_loop False default_metadata (drop (Suc i) (lines_of source)))"
    if i: "i < length (lines_of source)" "parse_heading (lines_of source ! i) \<noteq> None" for i
  proof -
    from i(1) have "i \<in> set [0..<length (lines_of source)]" by simp
    from assms [unfolded unambiguous_def list_all_iff, THEN bspec, OF this] i(2)
    show ?thesis by (intro directives_agree) (simp_all add: default_metadata_def)
  qed
  from outline_simulation [of "lines_of source" fp "parse_filetags (lines_of source)"
      "file_is_excluded (lines_of source)" 0 "initial_state fp (lines_of source)", OF this]
  show ?thesis
    by (simp add: scan_source_nodes initial_positions scan_source_outline_def parse_outline_nodes_def
        Let_def outline_position_def)
qed

theorem outline_matches_document_witness:
  "map on_excluded (scan_source_outline ''a.org'' excluding_source) = [False, True, True, False] \<and>
   map node_position (if_nodes (scan_source ''a.org'' excluding_source)) =
     map outline_position (filter (\<lambda>n. \<not> on_excluded n) (scan_source_outline ''a.org'' excluding_source))"
proof
  show "map on_excluded (scan_source_outline ''a.org'' excluding_source) = [False, True, True, False]" by code_simp
  have "unambiguous (lines_of excluding_source)" by code_simp
  then show "map node_position (if_nodes (scan_source ''a.org'' excluding_source)) =
      map outline_position (filter (\<lambda>n. \<not> on_excluded n) (scan_source_outline ''a.org'' excluding_source))"
    by (rule outline_matches_document)
qed

definition split_verdict :: string where
  "split_verdict = join_str [NL]
     [''* A'', '':PROPERTIES:'', '':ROAM_EXCLUDE: t'', '':ROAM_EXCLUDE: nil'', '':END:'']"

text \<open>The two scans can disagree: a heading drawer with two ROAM_EXCLUDE lines is
  decided by the first in the outline scan and by the last in the document scan, so
  the heading is excluded for one and indexed by the other.\<close>

lemma outline_and_document_can_disagree:
  "map on_excluded (scan_source_outline ''a.org'' split_verdict) = [False, True] \<and>
   map nd_title (if_nodes (scan_source ''a.org'' split_verdict)) = [''a'', ''A'']"
proof (rule conjI)
  show "map on_excluded (scan_source_outline ''a.org'' split_verdict) = [False, True]" by code_simp
  show "map nd_title (if_nodes (scan_source ''a.org'' split_verdict)) = [''a'', ''A'']" by code_simp
qed

section \<open>Nesting of exclusion\<close>

text \<open>
  The specification keeps the open ancestors with their levels: a heading closes
  every open heading of its own level or deeper, and inherits from the innermost
  one that stays open.  The code keeps verdicts only and cuts the stack by position.
\<close>

fun spec_outline ::
  "string \<Rightarrow> bool \<Rightarrow> nat \<Rightarrow> (nat \<times> bool) list \<Rightarrow> string list \<Rightarrow> OutlineNode list" where
  "spec_outline fp excl index open [] = []"
| "spec_outline fp excl index open (line # rest) =
     (case parse_heading line of None \<Rightarrow> spec_outline fp excl (index + 1) open rest
      | Some (level, _) \<Rightarrow>
          let kept = filter (\<lambda>a. fst a < level) open;
              excluded = resolve (exclusion_loop False rest) (last_or excl (map snd kept))
          in \<lparr>on_node_key = heading_key fp (index + 1), on_line = as_u32 (index + 1),
              on_level = as_u32 level, on_kind = HeadingNode, on_excluded = excluded\<rparr>
             # spec_outline fp excl (index + 1) (kept @ [(level, excluded)]) rest)"

text \<open>No heading is more than one level below the heading before it.\<close>

fun well_nested :: "nat \<Rightarrow> string list \<Rightarrow> bool" where
  "well_nested depth [] = True"
| "well_nested depth (line # rest) =
     (case parse_heading line of None \<Rightarrow> well_nested depth rest
      | Some (level, _) \<Rightarrow> level \<le> Suc depth \<and> well_nested level rest)"

lemma parse_heading_level: "parse_heading line = Some (level, x) \<Longrightarrow> 0 < level"
  by (auto simp: parse_heading_def Let_def split: if_splits prod.splits)

lemma filter_levels:
  assumes "map fst open = [1..<Suc depth]"
  shows "filter (\<lambda>a. fst a < level) open = take (level - 1) open"
proof -
  let ?k = "level - 1"
  have len: "length open = depth" using assms by (metis diff_Suc_1 length_map length_upt)
  have nth: "fst (open ! i) = Suc i" if "i < depth" for i
    using assms that len by (metis One_nat_def add.commute length_map nth_map nth_upt plus_1_eq_Suc Suc_less_eq)
  have low: "filter (\<lambda>a. fst a < level) (take ?k open) = take ?k open"
    using nth by (fastforce simp: filter_id_conv in_set_conv_nth len)
  have "\<not> fst a < level" if a: "a \<in> set (drop ?k open)" for a
  proof -
    obtain i where "i < length (drop ?k open)" "a = drop ?k open ! i"
      using a unfolding in_set_conv_nth by blast
    then have "a = open ! (?k + i)" "?k + i < depth" by (simp_all add: len)
    with nth show ?thesis by simp
  qed
  then have high: "filter (\<lambda>a. fst a < level) (drop ?k open) = []"
    by (simp add: filter_empty_conv)
  have "filter (\<lambda>a. fst a < level) (take ?k open @ drop ?k open) = take ?k open"
    unfolding filter_append low high by simp
  then show ?thesis by (simp only: append_take_drop_id)
qed

lemma outline_loop_spec:
  "map fst open = [1..<Suc depth] \<Longrightarrow> well_nested depth lines \<Longrightarrow>
   outline_loop fp excl index (map snd open) lines = spec_outline fp excl index open lines"
proof (induction lines arbitrary: index depth "open")
  case (Cons line rest)
  show ?case
  proof (cases "parse_heading line")
    case None
    with Cons show ?thesis by simp
  next
    case (Some h)
    obtain level x where h: "h = (level, x)" by (cases h)
    with Some have pos: "0 < level" using parse_heading_level by blast
    from Cons.prems(2) Some h have level: "level \<le> Suc depth" "well_nested level rest" by simp_all
    define kept where "kept = take (level - 1) open"
    have kept: "filter (\<lambda>a. fst a < level) open = kept"
      using filter_levels [OF Cons.prems(1)] by (simp add: kept_def)
    have "map fst kept = take (level - 1) [1..<Suc depth]"
      by (simp only: kept_def take_map [symmetric] Cons.prems(1))
    also have "\<dots> = [1..<level]" using level(1) pos by (subst take_upt) simp_all
    finally have levels: "map fst (kept @ [(level, b)]) = [1..<Suc level]" for b using pos by simp
    have "outline_loop fp excl (index + 1) (map snd (kept @ [(level, b)])) rest =
        spec_outline fp excl (index + 1) (kept @ [(level, b)]) rest" for b
      by (rule Cons.IH [OF levels level(2)])
    with Some h kept show ?thesis by (simp add: Let_def kept_def take_map)
  qed
qed simp

text \<open>C18. On a document in which no heading skips a level, the position-indexed stack of
  the outline scan implements inheritance from the nearest enclosing heading.\<close>

theorem exclusion_follows_ancestors:
  assumes "well_nested 0 (lines_of source)"
  shows "tl (scan_source_outline fp source) =
    spec_outline fp (file_is_excluded (lines_of source)) 0 [] (lines_of source)"
  using outline_loop_spec [of "[]" 0 "lines_of source" fp "file_is_excluded (lines_of source)" 0] assms
  by (simp add: scan_source_outline_def parse_outline_nodes_def Let_def)

theorem exclusion_follows_ancestors_witness:
  "tl (scan_source_outline ''a.org'' sample_source) =
    spec_outline ''a.org'' (file_is_excluded (lines_of sample_source)) 0 [] (lines_of sample_source)"
  by (rule exclusion_follows_ancestors, unfold sample_lines) code_simp

definition skipping_source :: string where
  "skipping_source = join_str [NL]
     [''* A'', ''*** B'', '':PROPERTIES:'', '':ROAM_EXCLUDE: t'', '':END:'', ''*** C'']"

text \<open>When a level is skipped the implementation loses the level: in \<open>* A\<close>,
  \<open>*** B\<close> (excluded), \<open>*** C\<close> the heading C is a sibling of B, yet the scan lets it
  inherit B's exclusion, and indexes neither.\<close>

lemma skipped_level_excludes_sibling:
  "map on_excluded (tl (scan_source_outline ''a.org'' skipping_source)) = [False, True, True] \<and>
   map on_excluded (spec_outline ''a.org'' False 0 [] (lines_of skipping_source)) = [False, True, False] \<and>
   map nd_title (if_nodes (scan_source ''a.org'' skipping_source)) = [''a'', ''A'']"
proof (intro conjI)
  show "map on_excluded (tl (scan_source_outline ''a.org'' skipping_source)) = [False, True, True]"
    by code_simp
  show "map on_excluded (spec_outline ''a.org'' False 0 [] (lines_of skipping_source)) = [False, True, False]"
    by code_simp
  show "map nd_title (if_nodes (scan_source ''a.org'' skipping_source)) = [''a'', ''A'']" by code_simp
qed

end
