(* ===== verification/Discovery.thy ===== *)
theory Discovery
  imports OrgIndex RustStrFacts
begin

text \<open>
  Which files the index covers and what it may run to read them,
  \<open>crates/slipbox-index/src/discovery.rs\<close> and \<open>platform.rs\<close>.  Regular expressions are
  opaque: \<open>compile\<close> is \<open>Regex::new\<close>, \<open>matches\<close> is \<open>is_match\<close>.  The directory walk is the
  list of the entries it yields.
\<close>

section \<open>Extensions\<close>

lemma split_on_length: "p \<in> set (split_on P s) \<Longrightarrow> length p \<le> length s"
proof (induction s arbitrary: p)
  case (Cons c s)
  then show ?case by (cases "split_on P s") (fastforce split: if_splits)+
qed simp

lemma file_name_length: "file_name path = Some n \<Longrightarrow> length n \<le> length path"
proof -
  assume name: "file_name path = Some n"
  then have "NormalComp n \<in> set (components path)"
  proof (cases "components path")
    case (Cons c cs)
    with name have "last (components path) = NormalComp n"
      unfolding file_name_def by (cases "last (components path)") simp_all
    with Cons show ?thesis by (metis last_in_set list.distinct(1))
  qed (simp add: file_name_def)
  then have "n \<in> set (split_on is_slash path)"
    by (auto simp: components_def component_of_part_def Let_def split: if_splits)
  then show ?thesis by (rule split_on_length)
qed

lemma file_stem_shorter:
  assumes "extension path = Some e" and "file_stem path = Some stem"
  shows "length stem < length path"
proof -
  obtain n where n: "file_name path = Some n" "snd (split_name n) = Some e" "fst (split_name n) = stem"
    using assms by (cases "file_name path") (simp_all add: extension_def file_stem_def)
  obtain i where i: "rfind_sub ''.'' n = Some i"
    using n(2) by (cases "rfind_sub ''.'' n") (simp_all add: split_name_def rsplit_once_def)
  with n(2,3) have "stem = take i n"
    by (cases "take i n = []") (simp_all add: split_name_def rsplit_once_def)
  moreover have "i < length n" using rfind_sub_Some [OF i] by simp
  ultimately show ?thesis using file_name_length [OF n(1)] by simp
qed

function base_extension :: "string \<Rightarrow> string option" where
  "base_extension path =
     (case extension path of None \<Rightarrow> None
      | Some ext \<Rightarrow>
          if eq_ignore_case ext ''gpg'' \<or> eq_ignore_case ext ''age'' then
            (case file_stem path of None \<Rightarrow> None | Some stem \<Rightarrow> base_extension stem)
          else Some (lower_str ext))"
  by pat_completeness auto
termination by (relation "measure length") (auto intro: file_stem_shorter)

declare base_extension.simps [simp del]

definition trim_dots :: "string \<Rightarrow> string" where
  "trim_dots s = dropWhile (\<lambda>c. c = CHR ''.'') s"

definition push_extension :: "string list \<Rightarrow> string \<Rightarrow> string list" where
  "push_extension normalized raw =
     (let ext = trim_dots (trim raw) in
      if ext = [] \<or> list_ex (\<lambda>candidate. eq_ignore_case candidate ext) normalized then normalized
      else normalized @ [lower_str ext])"

definition normalize_extensions :: "string list \<Rightarrow> string list" where
  "normalize_extensions extensions = foldl push_extension [] extensions"

section \<open>Policy\<close>

record 'r DiscoveryPolicy =
  dp_file_extensions :: "string list"
  dp_exclude_regexps :: "'r list"

fun compile_all :: "(string \<Rightarrow> 'r option) \<Rightarrow> string list \<Rightarrow> ('r list, string) outcome" where
  "compile_all compile [] = Ok []"
| "compile_all compile (p # ps) =
     (case compile p of None \<Rightarrow> Err p
      | Some r \<Rightarrow> map_out (\<lambda>rs. r # rs) (compile_all compile ps))"

definition discovery_policy_new ::
  "(string \<Rightarrow> 'r option) \<Rightarrow> string list \<Rightarrow> string list \<Rightarrow> ('r DiscoveryPolicy, string) outcome" where
  "discovery_policy_new compile extensions patterns =
     map_out (\<lambda>rs. \<lparr>dp_file_extensions = normalize_extensions extensions, dp_exclude_regexps = rs\<rparr>)
       (compile_all compile (filter (\<lambda>p. p \<noteq> []) (map trim patterns)))"

text \<open>\<open>path.strip_prefix(root)\<close>, component by component.\<close>

definition relative_path :: "string \<Rightarrow> string \<Rightarrow> string option" where
  "relative_path root path =
     (let rc = components root; pc = components path in
      if prefix rc pc then
        Some (forward_slashes (join_str ''/'' (map component_str (drop (length rc) pc))))
      else None)"

definition matches_path :: "('r \<Rightarrow> string \<Rightarrow> bool) \<Rightarrow> 'r DiscoveryPolicy \<Rightarrow> string \<Rightarrow> string \<Rightarrow> bool" where
  "matches_path matches policy root path =
     (case relative_path root path of None \<Rightarrow> False
      | Some relative \<Rightarrow>
          (case base_extension path of None \<Rightarrow> False
           | Some ext \<Rightarrow>
               list_ex (\<lambda>candidate. eq_ignore_case candidate ext) (dp_file_extensions policy) \<and>
               \<not> list_ex (\<lambda>r. matches r relative) (dp_exclude_regexps policy)))"

text \<open>An entry of the walk: an error, or a path and whether it is a regular file.
  \<open>order\<close> sorts the paths.\<close>

fun collect_files ::
  "('r \<Rightarrow> string \<Rightarrow> bool) \<Rightarrow> 'r DiscoveryPolicy \<Rightarrow> string \<Rightarrow> (string \<times> bool) option list \<Rightarrow> string list option" where
  "collect_files matches policy root [] = Some []"
| "collect_files matches policy root (None # es) = None"
| "collect_files matches policy root (Some (path, is_file) # es) =
     (if is_file \<and> matches_path matches policy root path
      then map_option (\<lambda>ps. path # ps) (collect_files matches policy root es)
      else collect_files matches policy root es)"

definition walk_files ::
  "(string list \<Rightarrow> string list) \<Rightarrow> ('r \<Rightarrow> string \<Rightarrow> bool) \<Rightarrow> 'r DiscoveryPolicy \<Rightarrow> string \<Rightarrow>
   (string \<times> bool) option list \<Rightarrow> string list option" where
  "walk_files order matches policy root entries =
     map_option order (collect_files matches policy root entries)"

section \<open>External programs\<close>

datatype ExternalProgram = Gpg | Age

record PlatformPolicy =
  pp_external_programs :: bool

definition headless :: PlatformPolicy where
  "headless = \<lparr>pp_external_programs = False\<rparr>"

definition desktop :: PlatformPolicy where
  "desktop = \<lparr>pp_external_programs = True\<rparr>"

definition allows :: "PlatformPolicy \<Rightarrow> ExternalProgram \<Rightarrow> bool" where
  "allows policy program = (case program of Gpg \<Rightarrow> pp_external_programs policy | Age \<Rightarrow> pp_external_programs policy)"

definition source_program :: "string \<Rightarrow> ExternalProgram option" where
  "source_program path =
     (if envelope_extension path = Some ''gpg'' then Some Gpg
      else if envelope_extension path = Some ''age'' then Some Age
      else None)"

record UnsupportedCapability =
  uc_path :: string
  uc_program :: ExternalProgram

definition authorize_source ::
  "PlatformPolicy \<Rightarrow> string \<Rightarrow> (ExternalProgram option, UnsupportedCapability) outcome" where
  "authorize_source policy path =
     (case source_program path of
        None \<Rightarrow> Ok None
      | Some program \<Rightarrow>
          if allows policy program then Ok (Some program)
          else Err \<lparr>uc_path = path, uc_program = program\<rparr>)"

text \<open>
  Reading a source: plain files in process, envelopes through an authorised program.
  \<open>read_plain\<close> is \<open>fs::read_to_string\<close>; \<open>decrypt\<close> runs the named helper.
\<close>

datatype read_error = Refused UnsupportedCapability | ReadError string

definition read_source_with_platform ::
  "(string \<Rightarrow> (string, string) outcome) \<Rightarrow> (ExternalProgram \<Rightarrow> string \<Rightarrow> (string, string) outcome) \<Rightarrow>
   PlatformPolicy \<Rightarrow> string \<Rightarrow> (string, read_error) outcome" where
  "read_source_with_platform read_plain decrypt policy path =
     (case authorize_source policy path of
        Err refusal \<Rightarrow> Err (Refused refusal)
      | Panic \<Rightarrow> Panic
      | Ok program \<Rightarrow>
          (case (case program of None \<Rightarrow> read_plain path | Some p \<Rightarrow> decrypt p path) of
             Ok text \<Rightarrow> Ok text | Err e \<Rightarrow> Err (ReadError e) | Panic \<Rightarrow> Panic))"

end
