(* ===== verification/Glossary.thy ===== *)
theory Glossary
  imports CoreModel
begin

text \<open>
  Glossary terms and their spaced-repetition schedule,
  \<open>crates/slipbox-core/src/glossary.rs\<close>.  A finite \<open>f64\<close> is a dyadic number, mantissa
  and exponent, and every operation rounds to nearest, ties to even, at 53 bits; the
  sign of a zero is not kept.  \<open>i64\<close> additions wrap, as in a release build.  Parsing and
  printing an \<open>f64\<close> in decimal are parameters.
\<close>

section \<open>Binary floating point\<close>

datatype f64 = NaN | PosInf | NegInf | Dyadic int int

text \<open>Halve \<open>k\<close> times, rounding to nearest, ties to even.\<close>

definition round_shift :: "int \<Rightarrow> nat \<Rightarrow> int" where
  "round_shift m k =
     (let p = 2 ^ k; q = m div p; r = m mod p
      in if 2 * r < p then q else if p < 2 * r then q + 1 else if q mod 2 = 0 then q else q + 1)"

fun bit_count :: "nat \<Rightarrow> int \<Rightarrow> nat" where
  "bit_count 0 m = 0"
| "bit_count (Suc n) m = (if m \<le> 0 then 0 else Suc (bit_count n (m div 2)))"

definition f64_round :: "int \<Rightarrow> int \<Rightarrow> f64" where
  "f64_round m e =
     (let bits = bit_count 2200 \<bar>m\<bar>;
          over = max (int bits - 53) (- 1074 - e);
          m' = (if 0 < over then round_shift m (nat over) else m);
          e' = (if 0 < over then e + over else e)
      in if m' \<noteq> 0 \<and> 1024 < int (bit_count 2200 \<bar>m'\<bar>) + e' then (if 0 < m' then PosInf else NegInf)
         else Dyadic m' e')"

definition f64_of_int :: "int \<Rightarrow> f64" where
  "f64_of_int i = f64_round i 0"

fun f64_neg :: "f64 \<Rightarrow> f64" where
  "f64_neg NaN = NaN"
| "f64_neg PosInf = NegInf"
| "f64_neg NegInf = PosInf"
| "f64_neg (Dyadic m e) = Dyadic (- m) e"

fun f64_add :: "f64 \<Rightarrow> f64 \<Rightarrow> f64" where
  "f64_add NaN y = NaN"
| "f64_add x NaN = NaN"
| "f64_add PosInf NegInf = NaN"
| "f64_add NegInf PosInf = NaN"
| "f64_add PosInf y = PosInf"
| "f64_add NegInf y = NegInf"
| "f64_add x PosInf = PosInf"
| "f64_add x NegInf = NegInf"
| "f64_add (Dyadic m e) (Dyadic n f) =
     (let g = min e f in f64_round (m * 2 ^ nat (e - g) + n * 2 ^ nat (f - g)) g)"

definition f64_sub :: "f64 \<Rightarrow> f64 \<Rightarrow> f64" where
  "f64_sub x y = f64_add x (f64_neg y)"

definition f64_sign_inf :: "int \<Rightarrow> f64" where
  "f64_sign_inf s = (if s = 0 then NaN else if 0 < s then PosInf else NegInf)"

fun f64_mul :: "f64 \<Rightarrow> f64 \<Rightarrow> f64" where
  "f64_mul NaN y = NaN"
| "f64_mul x NaN = NaN"
| "f64_mul PosInf PosInf = PosInf"
| "f64_mul PosInf NegInf = NegInf"
| "f64_mul NegInf PosInf = NegInf"
| "f64_mul NegInf NegInf = PosInf"
| "f64_mul PosInf (Dyadic m e) = f64_sign_inf m"
| "f64_mul NegInf (Dyadic m e) = f64_sign_inf (- m)"
| "f64_mul (Dyadic m e) PosInf = f64_sign_inf m"
| "f64_mul (Dyadic m e) NegInf = f64_sign_inf (- m)"
| "f64_mul (Dyadic m e) (Dyadic n f) = f64_round (m * n) (e + f)"

text \<open>\<open><\<close> is false where either side is not a number.\<close>

fun f64_less :: "f64 \<Rightarrow> f64 \<Rightarrow> bool" where
  "f64_less NaN y = False"
| "f64_less x NaN = False"
| "f64_less NegInf y = (y \<noteq> NegInf)"
| "f64_less x NegInf = False"
| "f64_less PosInf y = False"
| "f64_less x PosInf = True"
| "f64_less (Dyadic m e) (Dyadic n f) =
     (let g = min e f in m * 2 ^ nat (e - g) < n * 2 ^ nat (f - g))"

text \<open>Division of \<open>i64\<close> rounds toward zero.\<close>

definition tdiv :: "int \<Rightarrow> int \<Rightarrow> int" where
  "tdiv a b = (if 0 \<le> a then a div b else - (- a div b))"

definition i64_min :: int where "i64_min = - 9223372036854775808"
definition i64_max :: int where "i64_max = 9223372036854775807"

text \<open>\<open>as i64\<close>: toward zero, saturating, zero for what is not a number.\<close>

fun f64_to_i64 :: "f64 \<Rightarrow> int" where
  "f64_to_i64 NaN = 0"
| "f64_to_i64 PosInf = i64_max"
| "f64_to_i64 NegInf = i64_min"
| "f64_to_i64 (Dyadic m e) =
     (let v = (if 0 \<le> e then m * 2 ^ nat e else tdiv m (2 ^ nat (- e)))
      in max i64_min (min i64_max v))"

text \<open>The literals 2.5, 1.3, 0.1, 0.08, 0.02 and 0.5 as the nearest doubles.\<close>

definition DEFAULT_EASE :: f64 where "DEFAULT_EASE = Dyadic 5 (- 1)"
definition MIN_EASE :: f64 where "MIN_EASE = Dyadic 5854679515581645 (- 52)"
definition f64_0_1 :: f64 where "f64_0_1 = Dyadic 7205759403792794 (- 56)"
definition f64_0_08 :: f64 where "f64_0_08 = Dyadic 5764607523034235 (- 56)"
definition f64_0_02 :: f64 where "f64_0_02 = Dyadic 5764607523034235 (- 58)"
definition f64_half :: f64 where "f64_half = Dyadic 1 (- 1)"

section \<open>Dates\<close>

definition days_from_civil :: "int \<Rightarrow> int \<Rightarrow> int \<Rightarrow> int" where
  "days_from_civil year0 month day =
     (let year = (if month \<le> 2 then year0 - 1 else year0);
          era = tdiv (if 0 \<le> year then year else year - 399) 400;
          year_of_era = year - era * 400;
          month_index = (if 2 < month then month - 3 else month + 9);
          day_of_year = tdiv (153 * month_index + 2) 5 + day - 1;
          day_of_era = year_of_era * 365 + tdiv year_of_era 4 - tdiv year_of_era 100 + day_of_year
      in era * 146097 + day_of_era - 719468)"

definition civil_from_days :: "int \<Rightarrow> int \<times> int \<times> int" where
  "civil_from_days serial0 =
     (let serial = wrap_i64 (serial0 + 719468);
          era = tdiv (if 0 \<le> serial then serial else wrap_i64 (serial - 146096)) 146097;
          day_of_era = serial - era * 146097;
          year_of_era = tdiv (day_of_era - tdiv day_of_era 1460 + tdiv day_of_era 36524
                                - tdiv day_of_era 146096) 365;
          year = year_of_era + era * 400;
          day_of_year = day_of_era - (365 * year_of_era + tdiv year_of_era 4 - tdiv year_of_era 100);
          month_index = tdiv (5 * day_of_year + 2) 153;
          day = day_of_year - tdiv (153 * month_index + 2) 5 + 1;
          month = (if month_index < 10 then month_index + 3 else month_index - 9)
      in (if month \<le> 2 then year + 1 else year, month, day))"

definition str_get :: "string \<Rightarrow> nat \<Rightarrow> nat \<Rightarrow> string option" where
  "str_get s i j = (if is_boundary s i \<and> is_boundary s j then Some (take (j - i) (drop i s)) else None)"

definition parse_iso :: "string \<Rightarrow> (int \<times> int \<times> int) option" where
  "parse_iso date =
     (if length date \<noteq> 10 \<or> date ! 4 \<noteq> CHR ''-'' \<or> date ! 7 \<noteq> CHR ''-'' then None
      else
        (case (Option.bind (str_get date 0 4) parse_i64, Option.bind (str_get date 5 7) parse_i64,
               Option.bind (str_get date 8 10) parse_i64) of
           (Some year, Some month, Some day) \<Rightarrow>
             if month < 1 \<or> 12 < month \<or> day < 1 \<or> 31 < day then None else Some (year, month, day)
         | _ \<Rightarrow> None))"

definition format_date :: "int \<times> int \<times> int \<Rightarrow> string" where
  "format_date c = (case c of (y, m, d) \<Rightarrow> pad_int 4 y @ ''-'' @ pad_int 2 m @ ''-'' @ pad_int 2 d)"

definition add_days :: "string \<Rightarrow> int \<Rightarrow> string" where
  "add_days date days =
     (case parse_iso date of
        Some (year, month, day) \<Rightarrow>
          format_date (civil_from_days (wrap_i64 (days_from_civil year month day + days)))
      | None \<Rightarrow> date)"

section \<open>Status and schedule\<close>

datatype GlossaryStatus = Stub | Confirmed

definition status_as_str :: "GlossaryStatus \<Rightarrow> string" where
  "status_as_str s = (case s of Stub \<Rightarrow> ''stub'' | Confirmed \<Rightarrow> ''confirmed'')"

definition status_from_str :: "string \<Rightarrow> GlossaryStatus option" where
  "status_from_str v = (if v = ''stub'' then Some Stub else if v = ''confirmed'' then Some Confirmed else None)"

record SrState =
  sr_ease :: f64
  sr_interval :: int
  sr_reps :: int
  sr_due :: "string option"
  sr_last :: "string option"

definition sr_default :: SrState where
  "sr_default = \<lparr>sr_ease = DEFAULT_EASE, sr_interval = 0, sr_reps = 0, sr_due = None, sr_last = None\<rparr>"

definition parse_field :: "(string \<Rightarrow> 'a option) \<Rightarrow> string option \<Rightarrow> 'a \<Rightarrow> 'a" where
  "parse_field parse value fallback =
     (case Option.bind value (\<lambda>raw. parse (trim raw)) of Some v \<Rightarrow> v | None \<Rightarrow> fallback)"

text \<open>\<open>parse_f64\<close> is \<open>str::parse::<f64>\<close>.\<close>

definition sr_from_record :: "(string \<Rightarrow> f64 option) \<Rightarrow> NodeRecord \<Rightarrow> SrState" where
  "sr_from_record parse_f64 n =
     \<lparr>sr_ease = parse_field parse_f64 (nd_sr_ease n) (sr_ease sr_default),
      sr_interval = parse_field parse_i64 (nd_sr_interval n) (sr_interval sr_default),
      sr_reps = parse_field parse_i64 (nd_sr_reps n) (sr_reps sr_default),
      sr_due = nd_sr_due n, sr_last = nd_sr_last n\<rparr>"

text \<open>Strings compare byte by byte.\<close>

fun str_le :: "string \<Rightarrow> string \<Rightarrow> bool" where
  "str_le [] t = True"
| "str_le (c # s) [] = False"
| "str_le (c # s) (d # t) = (code c < code d \<or> (c = d \<and> str_le s t))"

definition is_due :: "SrState \<Rightarrow> string \<Rightarrow> bool" where
  "is_due s today =
     (if sr_reps s = 0 then True
      else (case sr_due s of Some due \<Rightarrow> str_le due today | None \<Rightarrow> True))"

text \<open>\<open>show_f64\<close> is the formatting \<open>{:.2}\<close>.\<close>

definition ease_string :: "(f64 \<Rightarrow> string) \<Rightarrow> SrState \<Rightarrow> string" where
  "ease_string show_f64 s = show_f64 (sr_ease s)"

definition interval_string :: "SrState \<Rightarrow> string" where
  "interval_string s = show_int (sr_interval s)"

definition reps_string :: "SrState \<Rightarrow> string" where
  "reps_string s = show_int (sr_reps s)"

definition next_interval :: "SrState \<Rightarrow> int" where
  "next_interval s =
     (if sr_reps s = 0 then 1 else if sr_reps s = 1 then 6
      else f64_to_i64 (f64_add (f64_mul (f64_of_int (sr_interval s)) (sr_ease s)) f64_half))"

definition next_ease :: "f64 \<Rightarrow> int \<Rightarrow> f64" where
  "next_ease ease quality =
     (let miss = f64_of_int (5 - quality);
          adjusted = f64_add ease (f64_sub f64_0_1
            (f64_mul miss (f64_add f64_0_08 (f64_mul miss f64_0_02))))
      in if f64_less adjusted MIN_EASE then MIN_EASE else adjusted)"

definition sm2_schedule :: "SrState \<Rightarrow> int \<Rightarrow> string \<Rightarrow> SrState" where
  "sm2_schedule s quality0 today =
     (let quality = max 0 (min 5 quality0);
          reps = (if quality < 3 then 0 else wrap_i64 (sr_reps s + 1));
          interval = (if quality < 3 then 1 else next_interval s)
      in \<lparr>sr_ease = next_ease (sr_ease s) quality, sr_interval = interval, sr_reps = reps,
          sr_due = Some (add_days today interval), sr_last = Some today\<rparr>)"

section \<open>Request parameters\<close>

definition glossary_limit :: "nat \<Rightarrow> nat" where
  "glossary_limit limit = clamp 1 200 limit"

definition normalized_position :: "string option \<Rightarrow> string option" where
  "normalized_position after = map_option trim after"

definition normalized_query :: "string option \<Rightarrow> string option" where
  "normalized_query query =
     (case map_option trim query of Some q \<Rightarrow> if q \<noteq> [] then Some q else None | None \<Rightarrow> None)"

end
