(* ===== verification/FileSystem.thy ===== *)
theory FileSystem
  imports CoreModel
begin

text \<open>
  The writer's surroundings: its error values, and the file system it works on as an
  explicit state with a schedule of faults.  Every system call that can fail consults
  the schedule, so a statement over all schedules covers every interleaving of
  successes and failures of those calls.
\<close>

section \<open>Errors\<close>

text \<open>A path is the list of its component names below the file-system root.\<close>

type_synonym path = "string list"

text \<open>One constructor per message of the writer's \<open>bail!\<close>, \<open>context\<close> and \<open>with_context\<close> calls.\<close>

datatype WriteError =
    SubtreeWithoutHeading | SubtreeWithoutTitle
  | CannotPromoteShape | CannotPromoteTitle
  | HeadingLineInvalid | HeadingOutOfRange nat | NotAHeading nat | HeadingNotUnique nat string
  | EmptyFileHead
  | EmptyCaptureTitle | EmptyCaptureHeading
  | AbsolutePath | PathOutsideRoot | EmptyPath | NotOrgPath
  | CrossesSymlink path | InspectFailed path | NoFileName | NoExtension
  | DuplicateWrite path | DuplicateRemoval path | WriteAndRemove path
  | ReadOnlyTarget path | CreateDirFailed path | StageFailed path | NoTemporaryPath path
  | TargetNamesNoFile | NotStaged | ReplaceFailed path | RemoveFailed path
  | ReadFailed path | NotFileNode string
  | SameNode | TargetInsideSubtree | EmptyRegion | TargetInsideRegion
  | OnlyHeadings | SameFile | TargetExists path
  | LineIndexOutOfRange nat | PositionNotOneBased | PositionOutOfRange nat | RegionOffset
  | ListTypeUnsupported | TablePreparation | TableLineSpec string
  | UnsupportedNodeKey string

type_synonym 'a result = "('a, WriteError) outcome"

section \<open>Worlds\<close>

text \<open>
  A regular file holds its content and its permission bits; a symbolic link is known
  by what following it finds: nothing, or a file with given permission bits.
\<close>

datatype entry = FileEntry string nat | DirEntry | LinkEntry "nat option"

text \<open>A fault of a write may happen after some bytes have reached the file.\<close>

datatype fault = NoFault | Fault nat

record world =
  w_fs :: "path \<rightharpoonup> entry"
  w_faults :: "fault list"
  w_counter :: nat
  w_default_mode :: nat

type_synonym 'a io = "world \<Rightarrow> 'a result \<times> world"

definition return_io :: "'a \<Rightarrow> 'a io" where
  "return_io x w = (Ok x, w)"

definition fail_io :: "WriteError \<Rightarrow> 'a io" where
  "fail_io e w = (Err e, w)"

definition lift_io :: "'a result \<Rightarrow> 'a io" where
  "lift_io r w = (r, w)"

definition bind_io :: "'a io \<Rightarrow> ('a \<Rightarrow> 'b io) \<Rightarrow> 'b io" where
  "bind_io m f w = (case m w of
     (Ok x, w') \<Rightarrow> f x w' | (Err e, w') \<Rightarrow> (Err e, w') | (Panic, w') \<Rightarrow> (Panic, w'))"

lemma bind_io_return [simp]: "bind_io (return_io x) f = f x"
  by (simp add: bind_io_def return_io_def fun_eq_iff)

lemma bind_io_Ok_iff [outcome_simps]:
  "bind_io m f w = (Ok y, w'') \<longleftrightarrow> (\<exists>x w'. m w = (Ok x, w') \<and> f x w' = (Ok y, w''))"
  by (auto simp: bind_io_def split: prod.splits outcome.splits)

definition take_fault :: "world \<Rightarrow> fault \<times> world" where
  "take_fault w = (case w_faults w of [] \<Rightarrow> (NoFault, w) | f # fs \<Rightarrow> (f, w\<lparr>w_faults := fs\<rparr>))"

lemma take_fault_fs [simp]:
  "w_fs (snd (take_fault w)) = w_fs w"
  "w_counter (snd (take_fault w)) = w_counter w"
  "w_default_mode (snd (take_fault w)) = w_default_mode w"
  by (simp_all add: take_fault_def split: list.splits)

lemma take_fault_none [simp]: "w_faults w = [] \<Longrightarrow> take_fault w = (NoFault, w)"
  by (simp add: take_fault_def)

text \<open>A call that either fails, leaving the files alone, or goes on.\<close>

definition may_fail :: "WriteError \<Rightarrow> 'a io \<Rightarrow> 'a io" where
  "may_fail e m w = (case take_fault w of (NoFault, w') \<Rightarrow> m w' | (Fault _, w') \<Rightarrow> (Err e, w'))"

section \<open>System calls\<close>

text \<open>No write bit set: \<open>Permissions::readonly\<close> on Unix.\<close>

definition readonly_mode :: "nat \<Rightarrow> bool" where
  "readonly_mode mode \<longleftrightarrow> mode div 2 mod 2 = 0 \<and> mode div 16 mod 2 = 0 \<and> mode div 128 mod 2 = 0"

text \<open>\<open>fs::metadata\<close> follows links; \<open>None\<close> is the error kind \<open>NotFound\<close>.\<close>

definition sys_mode :: "WriteError \<Rightarrow> path \<Rightarrow> nat option io" where
  "sys_mode e p = may_fail e (\<lambda>w. (Ok (case w_fs w p of
       Some (FileEntry _ mode) \<Rightarrow> Some mode
     | Some DirEntry \<Rightarrow> Some 493
     | Some (LinkEntry target) \<Rightarrow> target
     | None \<Rightarrow> None), w))"

text \<open>\<open>Path::exists\<close> is false where the query fails.\<close>

definition sys_exists :: "path \<Rightarrow> world \<Rightarrow> bool" where
  "sys_exists p w = (case w_fs w p of None \<Rightarrow> False
     | Some (LinkEntry target) \<Rightarrow> target \<noteq> None | Some _ \<Rightarrow> True)"

definition sys_read :: "path \<Rightarrow> string io" where
  "sys_read p = may_fail (ReadFailed p) (\<lambda>w. case w_fs w p of
     Some (FileEntry content _) \<Rightarrow> (Ok content, w) | _ \<Rightarrow> (Err (ReadFailed p), w))"

text \<open>
  All ancestors that are missing become directories; a file in the way is an error.  A
  symbolic link among the ancestors is an error too: the host would follow one that leads
  to a directory, but a \<open>LinkEntry\<close> does not say where it leads beyond a file's content.
\<close>

fun make_dirs :: "path \<Rightarrow> path \<Rightarrow> (path \<rightharpoonup> entry) \<Rightarrow> (path \<rightharpoonup> entry) option" where
  "make_dirs done [] fs = Some fs"
| "make_dirs done (name # rest) fs =
     (let p = done @ [name] in
      case fs p of
        None \<Rightarrow> make_dirs p rest (fs(p \<mapsto> DirEntry))
      | Some DirEntry \<Rightarrow> make_dirs p rest fs
      | Some (FileEntry _ _) \<Rightarrow> None
      | Some (LinkEntry _) \<Rightarrow> None)"

definition sys_create_dir_all :: "path \<Rightarrow> unit io" where
  "sys_create_dir_all p = may_fail (CreateDirFailed p) (\<lambda>w.
     case make_dirs [] p (w_fs w) of None \<Rightarrow> (Err (CreateDirFailed p), w)
     | Some fs \<Rightarrow> (Ok (), w\<lparr>w_fs := fs\<rparr>))"

text \<open>\<open>create_new\<close>: \<open>False\<close> is the error kind \<open>AlreadyExists\<close>.\<close>

definition sys_create_new :: "WriteError \<Rightarrow> path \<Rightarrow> bool io" where
  "sys_create_new e p = may_fail e (\<lambda>w.
     if w_fs w p \<noteq> None then (Ok False, w)
     else (Ok True, w\<lparr>w_fs := (w_fs w)(p \<mapsto> FileEntry [] (w_default_mode w))\<rparr>))"

definition sys_write_all :: "WriteError \<Rightarrow> path \<Rightarrow> string \<Rightarrow> unit io" where
  "sys_write_all e p content w =
     (case take_fault w of (f, w') \<Rightarrow>
        let set_content = (\<lambda>c. w'\<lparr>w_fs := (w_fs w')(p := (case w_fs w' p of
              Some (FileEntry _ mode) \<Rightarrow> Some (FileEntry c mode) | other \<Rightarrow> other))\<rparr>)
        in (case f of NoFault \<Rightarrow> (Ok (), set_content content)
            | Fault n \<Rightarrow> (Err e, set_content (take n content))))"

definition sys_set_mode :: "WriteError \<Rightarrow> path \<Rightarrow> nat \<Rightarrow> unit io" where
  "sys_set_mode e p mode = may_fail e (\<lambda>w.
     (Ok (), w\<lparr>w_fs := (w_fs w)(p := (case w_fs w p of
        Some (FileEntry c _) \<Rightarrow> Some (FileEntry c mode) | other \<Rightarrow> other))\<rparr>))"

definition sys_flush :: "WriteError \<Rightarrow> unit io" where
  "sys_flush e = may_fail e (return_io ())"

definition sys_rename :: "WriteError \<Rightarrow> path \<Rightarrow> path \<Rightarrow> unit io" where
  "sys_rename e from target = may_fail e (\<lambda>w.
     case (w_fs w from, w_fs w target) of
       (None, _) \<Rightarrow> (Err e, w)
     | (Some _, Some DirEntry) \<Rightarrow> (Err e, w)
     | (Some x, _) \<Rightarrow> (Ok (), w\<lparr>w_fs := (w_fs w)(from := None, target := Some x)\<rparr>))"

definition sys_remove_file :: "WriteError \<Rightarrow> path \<Rightarrow> unit io" where
  "sys_remove_file e p = may_fail e (\<lambda>w.
     case w_fs w p of None \<Rightarrow> (Err e, w) | Some DirEntry \<Rightarrow> (Err e, w)
     | Some _ \<Rightarrow> (Ok (), w\<lparr>w_fs := (w_fs w)(p := None)\<rparr>))"

text \<open>\<open>let _ = fs::remove_file(..)\<close>.\<close>

definition sys_remove_quietly :: "path \<Rightarrow> world \<Rightarrow> world" where
  "sys_remove_quietly p w = snd (sys_remove_file (RemoveFailed p) p w)"

text \<open>\<open>fs::symlink_metadata\<close>: whether the entry itself is a link, \<open>None\<close> when it is not there.\<close>

definition sys_is_symlink :: "WriteError \<Rightarrow> path \<Rightarrow> bool option io" where
  "sys_is_symlink e p = may_fail e (\<lambda>w. (Ok (case w_fs w p of
       None \<Rightarrow> None | Some (LinkEntry _) \<Rightarrow> Some True | Some _ \<Rightarrow> Some False), w))"

end
