(* ===== verification/Transaction.thy ===== *)
theory Transaction
  imports FileSystem
begin

text \<open>
  The writer's only way to the files, \<open>crates/slipbox-write/src/transaction.rs\<close>: every
  write is staged in a temporary file beside its target before the first target is
  replaced, and removals come last.  Temporary files that are left when the
  transaction is dropped are removed, errors ignored.
\<close>

section \<open>Paths\<close>

definition parent_dir :: "path \<Rightarrow> path option" where
  "parent_dir p = (if p = [] then None else Some (butlast p))"

text \<open>\<open>pid\<close> is \<open>std::process::id()\<close>; the counter is the static \<open>TEMPORARY_PATH_COUNTER\<close>.\<close>

definition temporary_name :: "nat \<Rightarrow> string \<Rightarrow> nat \<Rightarrow> string" where
  "temporary_name pid file n =
     ''.'' @ file @ ''.org-slipbox-'' @ show_nat pid @ ''-'' @ show_nat n @ ''.tmp''"

definition temporary_path_for :: "nat \<Rightarrow> path \<Rightarrow> path io" where
  "temporary_path_for pid p w =
     (if p = [] then (Err TargetNamesNoFile, w)
      else (Ok (butlast p @ [temporary_name pid (last p) (w_counter w)]),
            w\<lparr>w_counter := w_counter w + 1\<rparr>))"

section \<open>The transaction\<close>

record FileRewrite =
  fr_path :: path
  fr_content :: string
  fr_temporary_path :: "path option"

record FileRewriteTransaction =
  tx_writes :: "FileRewrite list"
  tx_removals :: "path list"

definition tx_new :: FileRewriteTransaction where
  "tx_new = \<lparr>tx_writes = [], tx_removals = []\<rparr>"

definition tx_write :: "path \<Rightarrow> string \<Rightarrow> FileRewriteTransaction \<Rightarrow> FileRewriteTransaction" where
  "tx_write p content t =
     t\<lparr>tx_writes := tx_writes t @ [\<lparr>fr_path = p, fr_content = content, fr_temporary_path = None\<rparr>]\<rparr>"

definition tx_remove :: "path \<Rightarrow> FileRewriteTransaction \<Rightarrow> FileRewriteTransaction" where
  "tx_remove p t = t\<lparr>tx_removals := tx_removals t @ [p]\<rparr>"

fun check_writes :: "path set \<Rightarrow> FileRewrite list \<Rightarrow> path set result" where
  "check_writes seen [] = Ok seen"
| "check_writes seen (x # xs) =
     (if fr_path x \<in> seen then Err (DuplicateWrite (fr_path x))
      else check_writes (insert (fr_path x) seen) xs)"

fun check_removals :: "path set \<Rightarrow> path set \<Rightarrow> path list \<Rightarrow> unit result" where
  "check_removals written seen [] = Ok ()"
| "check_removals written seen (p # ps) =
     (if p \<in> seen then Err (DuplicateRemoval p)
      else if p \<in> written then Err (WriteAndRemove p)
      else check_removals written (insert p seen) ps)"

definition validate :: "FileRewriteTransaction \<Rightarrow> unit result" where
  "validate t = bind_out (check_writes {} (tx_writes t)) (\<lambda>written. check_removals written {} (tx_removals t))"

definition replacement_permissions :: "path \<Rightarrow> nat option io" where
  "replacement_permissions p =
     bind_io (sys_mode (InspectFailed p) p) (\<lambda>mode.
       case mode of None \<Rightarrow> return_io None
       | Some m \<Rightarrow> if readonly_mode m then fail_io (ReadOnlyTarget p) else return_io (Some m))"

text \<open>The closure that fills a freshly created temporary file.\<close>

definition fill_temporary :: "path \<Rightarrow> path \<Rightarrow> string \<Rightarrow> nat option \<Rightarrow> unit io" where
  "fill_temporary p temporary content permissions =
     bind_io (sys_write_all (StageFailed p) temporary content) (\<lambda>_.
     bind_io (case permissions of None \<Rightarrow> return_io ()
              | Some mode \<Rightarrow> sys_set_mode (StageFailed p) temporary mode) (\<lambda>_.
     sys_flush (StageFailed p)))"

text \<open>The loop \<open>for _ in 0..16\<close>; its result is the temporary path that was filled.\<close>

fun stage_attempts :: "nat \<Rightarrow> nat \<Rightarrow> path \<Rightarrow> string \<Rightarrow> nat option \<Rightarrow> path io" where
  "stage_attempts pid 0 p content permissions w = (Err (NoTemporaryPath p), w)"
| "stage_attempts pid (Suc n) p content permissions w =
     bind_io (temporary_path_for pid p) (\<lambda>temporary.
       bind_io (sys_create_new (StageFailed p) temporary) (\<lambda>created.
         if \<not> created then stage_attempts pid n p content permissions
         else (\<lambda>w'. case fill_temporary p temporary content permissions w' of
                 (Ok _, w'') \<Rightarrow> (Ok temporary, w'')
               | (Err e, w'') \<Rightarrow> (Err e, sys_remove_quietly temporary w'')
               | (Panic, w'') \<Rightarrow> (Panic, w'')))) w"

definition stage :: "nat \<Rightarrow> FileRewrite \<Rightarrow> path io" where
  "stage pid x =
     bind_io (replacement_permissions (fr_path x)) (\<lambda>permissions.
     bind_io (case parent_dir (fr_path x) of None \<Rightarrow> return_io ()
              | Some parent \<Rightarrow> sys_create_dir_all parent) (\<lambda>_.
     stage_attempts pid 16 (fr_path x) (fr_content x) permissions))"

definition replace_file :: "path \<Rightarrow> path \<Rightarrow> unit io" where
  "replace_file temporary target = sys_rename (ReplaceFailed target) temporary target"

definition commit_write :: "FileRewrite \<Rightarrow> unit io" where
  "commit_write x = (case fr_temporary_path x of None \<Rightarrow> fail_io NotStaged
     | Some temporary \<Rightarrow> replace_file temporary (fr_path x))"

text \<open>The three loops of \<open>commit\<close>; the writes come back with their temporary paths.\<close>

fun stage_all :: "nat \<Rightarrow> FileRewrite list \<Rightarrow> world \<Rightarrow> unit result \<times> FileRewrite list \<times> world" where
  "stage_all pid [] w = (Ok (), [], w)"
| "stage_all pid (x # xs) w =
     (case stage pid x w of
        (Ok temporary, w') \<Rightarrow>
          (case stage_all pid xs w' of (r, ys, w'') \<Rightarrow> (r, x\<lparr>fr_temporary_path := Some temporary\<rparr> # ys, w''))
      | (Err e, w') \<Rightarrow> (Err e, x # xs, w')
      | (Panic, w') \<Rightarrow> (Panic, x # xs, w'))"

fun commit_all :: "FileRewrite list \<Rightarrow> world \<Rightarrow> unit result \<times> FileRewrite list \<times> world" where
  "commit_all [] w = (Ok (), [], w)"
| "commit_all (x # xs) w =
     (case commit_write x w of
        (Ok _, w') \<Rightarrow>
          (case commit_all xs w' of (r, ys, w'') \<Rightarrow> (r, x\<lparr>fr_temporary_path := None\<rparr> # ys, w''))
      | (Err e, w') \<Rightarrow> (Err e, x # xs, w')
      | (Panic, w') \<Rightarrow> (Panic, x # xs, w'))"

fun remove_all_files :: "path list \<Rightarrow> unit io" where
  "remove_all_files [] w = (Ok (), w)"
| "remove_all_files (p # ps) w =
     bind_io (sys_remove_file (RemoveFailed p) p) (\<lambda>_. remove_all_files ps) w"

text \<open>\<open>impl Drop for FileRewrite\<close>, over the vector.\<close>

fun drop_rewrites :: "FileRewrite list \<Rightarrow> world \<Rightarrow> world" where
  "drop_rewrites [] w = w"
| "drop_rewrites (x # xs) w =
     drop_rewrites xs (case fr_temporary_path x of None \<Rightarrow> w | Some p \<Rightarrow> sys_remove_quietly p w)"

definition commit :: "nat \<Rightarrow> FileRewriteTransaction \<Rightarrow> unit io" where
  "commit pid t w =
     (case validate t of
        Err e \<Rightarrow> (Err e, drop_rewrites (tx_writes t) w)
      | Panic \<Rightarrow> (Panic, w)
      | Ok _ \<Rightarrow>
          (case stage_all pid (tx_writes t) w of (staged, xs, w1) \<Rightarrow>
             if staged \<noteq> Ok () then (staged, drop_rewrites xs w1)
             else
               (case commit_all xs w1 of (committed, ys, w2) \<Rightarrow>
                  if committed \<noteq> Ok () then (committed, drop_rewrites ys w2)
                  else (case remove_all_files (tx_removals t) w2 of (r, w3) \<Rightarrow> (r, drop_rewrites ys w3)))))"

text \<open>One file rewritten: the common shape of the callers.\<close>

definition write_one :: "nat \<Rightarrow> path \<Rightarrow> string \<Rightarrow> unit io" where
  "write_one pid p content = commit pid (tx_write p content tx_new)"

end
