(* ===== verification/TransactionFacts.thy ===== *)
theory TransactionFacts
  imports Transaction RustStrFacts
begin

text \<open>
  What a transaction does to the files, for every fault schedule: staging only adds
  temporary files and directories, committing moves whole files into place, and
  removals run only after every write is in place.
\<close>

section \<open>Temporary paths\<close>

definition temporary :: "path \<Rightarrow> bool" where
  "temporary p \<longleftrightarrow> p \<noteq> [] \<and> suffix ''.tmp'' (last p)"

lemma temporary_name_temporary: "temporary (butlast p @ [temporary_name pid f n])"
proof -
  have "temporary_name pid f n = (''.'' @ f @ ''.org-slipbox-'' @ show_nat pid @ ''-'' @ show_nat n) @ ''.tmp''"
    by (simp add: temporary_name_def)
  then show ?thesis unfolding temporary_def suffix_def by (metis last_snoc snoc_eq_iff_butlast)
qed

section \<open>Staging only adds\<close>

definition staged_ext :: "world \<Rightarrow> world \<Rightarrow> bool" where
  "staged_ext w w' \<longleftrightarrow>
     (\<forall>p e. w_fs w p = Some e \<longrightarrow> w_fs w' p = Some e) \<and>
     (\<forall>p. w_fs w p = None \<longrightarrow> w_fs w' p = None \<or> w_fs w' p = Some DirEntry \<or> temporary p) \<and>
     w_default_mode w' = w_default_mode w"

lemma staged_ext_refl [simp]: "staged_ext w w"
  by (simp add: staged_ext_def)

lemma staged_ext_trans: "staged_ext w w' \<Longrightarrow> staged_ext w' w'' \<Longrightarrow> staged_ext w w''"
  unfolding staged_ext_def by (metis not_None_eq)

lemma staged_ext_same_fs:
  "w_fs w' = w_fs w \<Longrightarrow> w_default_mode w' = w_default_mode w \<Longrightarrow> staged_ext w w'"
  by (simp add: staged_ext_def)

lemma may_fail_cases:
  assumes "may_fail e m w = (r, w')"
  obtains (fault) "r = Err e" "w_fs w' = w_fs w" "w_default_mode w' = w_default_mode w"
  | (runs) w1 where "m w1 = (r, w')" "w_fs w1 = w_fs w" "w_default_mode w1 = w_default_mode w"
proof -
  obtain f w1 where tf: "take_fault w = (f, w1)" by (cases "take_fault w")
  with take_fault_fs [of w] have same: "w_fs w1 = w_fs w" "w_default_mode w1 = w_default_mode w" by simp_all
  show thesis
  proof (cases f)
    case NoFault
    with assms tf runs [OF _ same] show thesis by (simp add: may_fail_def)
  next
    case (Fault n)
    with assms tf fault same show thesis by (simp add: may_fail_def)
  qed
qed

lemma make_dirs_ext:
  "make_dirs acc rest fs = Some fs' \<Longrightarrow>
     (\<forall>p e. fs p = Some e \<longrightarrow> fs' p = Some e) \<and> (\<forall>p. fs p = None \<longrightarrow> fs' p = None \<or> fs' p = Some DirEntry)"
proof (induction acc rest fs rule: make_dirs.induct)
  case (2 acc name rest fs)
  let ?p = "acc @ [name]"
  show ?case
  proof (cases "fs ?p")
    case None
    with "2.prems" have "make_dirs ?p rest (fs(?p \<mapsto> DirEntry)) = Some fs'" by (simp add: Let_def)
    note ih = "2.IH"(1) [OF refl None this]
    show ?thesis
    proof (intro conjI allI impI)
      fix q e
      assume "fs q = Some e"
      with None have "(fs(?p \<mapsto> DirEntry)) q = Some e" by auto
      with ih show "fs' q = Some e" by blast
    next
      fix q
      assume "fs q = None"
      show "fs' q = None \<or> fs' q = Some DirEntry"
      proof (cases "q = ?p")
        case True
        then have "(fs(?p \<mapsto> DirEntry)) q = Some DirEntry" by simp
        with ih show ?thesis by blast
      next
        case False
        with \<open>fs q = None\<close> have "(fs(?p \<mapsto> DirEntry)) q = None" by simp
        with ih show ?thesis by blast
      qed
    qed
  next
    case (Some e)
    with "2.prems" have "e = DirEntry" and made: "make_dirs ?p rest fs = Some fs'"
      by (cases e; simp add: Let_def)+
    with Some have "fs ?p = Some DirEntry" by simp
    from "2.IH"(2) [OF refl this refl made] show ?thesis .
  qed
qed simp

text \<open>Outside a set of paths only directories appear.\<close>

definition adds_only :: "path set \<Rightarrow> world \<Rightarrow> world \<Rightarrow> bool" where
  "adds_only S w w' \<longleftrightarrow>
     (\<forall>p. p \<notin> S \<longrightarrow> w_fs w p = None \<longrightarrow> w_fs w' p = None \<or> w_fs w' p = Some DirEntry)"

lemma adds_only_trans:
  "adds_only S w w1 \<Longrightarrow> adds_only T w1 w' \<Longrightarrow> staged_ext w1 w' \<Longrightarrow> adds_only (S \<union> T) w w'"
  unfolding adds_only_def staged_ext_def by (metis UnCI)

lemma adds_only_same_fs: "w_fs w' = w_fs w \<Longrightarrow> adds_only S w w'"
  by (simp add: adds_only_def)

lemma create_dir_all_ext: "sys_create_dir_all p w = (r, w') \<Longrightarrow> staged_ext w w' \<and> adds_only {} w w'"
  unfolding sys_create_dir_all_def
proof (erule may_fail_cases)
  fix w1
  assume same: "w_fs w1 = w_fs w" "w_default_mode w1 = w_default_mode w"
    and made: "(case make_dirs [] p (w_fs w1) of None \<Rightarrow> (Err (CreateDirFailed p), w1)
      | Some fs \<Rightarrow> (Ok (), w1\<lparr>w_fs := fs\<rparr>)) = (r, w')"
  show "staged_ext w w' \<and> adds_only {} w w'"
  proof (cases "make_dirs [] p (w_fs w1)")
    case None
    with same made show ?thesis by (auto intro: staged_ext_same_fs adds_only_same_fs)
  next
    case (Some fs')
    with same made have "w_fs w' = fs'" "w_default_mode w' = w_default_mode w" by auto
    with make_dirs_ext [OF Some] same show ?thesis unfolding staged_ext_def adds_only_def by metis
  qed
qed (auto intro: staged_ext_same_fs adds_only_same_fs)

lemma sys_mode_same: "sys_mode e p w = (r, w') \<Longrightarrow> w_fs w' = w_fs w \<and> w_default_mode w' = w_default_mode w"
  unfolding sys_mode_def by (erule may_fail_cases) auto

definition target_mode :: "world \<Rightarrow> path \<Rightarrow> nat" where
  "target_mode w p = (case w_fs w p of
     None \<Rightarrow> w_default_mode w
   | Some (FileEntry _ m) \<Rightarrow> m
   | Some DirEntry \<Rightarrow> 493
   | Some (LinkEntry t) \<Rightarrow> (case t of None \<Rightarrow> w_default_mode w | Some m \<Rightarrow> m))"

lemma replacement_permissions_spec:
  assumes "replacement_permissions p w = (r, w')"
  shows "w_fs w' = w_fs w \<and> w_default_mode w' = w_default_mode w \<and>
    (\<forall>m. r = Ok m \<longrightarrow> target_mode w p = (case m of None \<Rightarrow> w_default_mode w | Some k \<Rightarrow> k))"
proof -
  obtain r1 w1 where mode: "sys_mode (InspectFailed p) p w = (r1, w1)" by (cases "sys_mode (InspectFailed p) p w")
  note same = sys_mode_same [OF mode]
  have found: "target_mode w p = (case m of None \<Rightarrow> w_default_mode w | Some k \<Rightarrow> k)" if "r1 = Ok m" for m
    using mode that unfolding sys_mode_def
    by (elim may_fail_cases) (auto simp: target_mode_def split: option.splits entry.splits)
  from assms mode have "w' = w1" "\<And>m. r = Ok m \<Longrightarrow> r1 = Ok m"
    by (auto simp: replacement_permissions_def bind_io_def return_io_def fail_io_def
        split: outcome.splits option.splits if_splits)
  with same found show ?thesis by simp
qed

section \<open>Filling a temporary file\<close>

text \<open>Calls on one path leave every other path alone.\<close>

definition only_at :: "path \<Rightarrow> world \<Rightarrow> world \<Rightarrow> bool" where
  "only_at t w w' \<longleftrightarrow> (\<forall>p. p \<noteq> t \<longrightarrow> w_fs w' p = w_fs w p) \<and> w_default_mode w' = w_default_mode w"

lemma only_at_trans: "only_at t w w' \<Longrightarrow> only_at t w' w'' \<Longrightarrow> only_at t w w''"
  by (simp add: only_at_def)

lemma write_all_spec:
  assumes "sys_write_all e t content w = (r, w')"
  shows "only_at t w w' \<and> r \<noteq> Panic \<and>
    (\<forall>c m. r = Ok () \<longrightarrow> w_fs w t = Some (FileEntry c m) \<longrightarrow> w_fs w' t = Some (FileEntry content m))"
  using assms take_fault_fs [of w]
  by (cases "take_fault w")
    (auto simp: sys_write_all_def only_at_def Let_def split: fault.splits)

lemma set_mode_spec:
  "sys_set_mode e t mode w = (r, w') \<Longrightarrow> only_at t w w' \<and> r \<noteq> Panic \<and>
    (\<forall>c m. r = Ok () \<longrightarrow> w_fs w t = Some (FileEntry c m) \<longrightarrow> w_fs w' t = Some (FileEntry c mode))"
  unfolding sys_set_mode_def by (erule may_fail_cases) (auto simp: only_at_def)

lemma flush_spec: "sys_flush e w = (r, w') \<Longrightarrow> w_fs w' = w_fs w \<and> w_default_mode w' = w_default_mode w \<and> r \<noteq> Panic"
  unfolding sys_flush_def by (erule may_fail_cases) (auto simp: return_io_def)

lemma bind_io_cases:
  assumes "bind_io m f w = (r, w')"
  obtains (err) e where "m w = (Err e, w')" "r = Err e"
  | (panic) "m w = (Panic, w')" "r = Panic"
  | (ok) x w1 where "m w = (Ok x, w1)" "f x w1 = (r, w')"
  using assms by (auto simp: bind_io_def split: prod.splits outcome.splits)

lemma fill_temporary_spec:
  assumes "fill_temporary p t content permissions w = (r, w')" and "w_fs w t = Some (FileEntry [] m)"
  shows "only_at t w w' \<and> r \<noteq> Panic \<and>
    (r = Ok () \<longrightarrow> w_fs w' t = Some (FileEntry content (case permissions of None \<Rightarrow> m | Some k \<Rightarrow> k)))"
proof -
  obtain r1 w1 where wrote: "sys_write_all (StageFailed p) t content w = (r1, w1)"
    by (cases "sys_write_all (StageFailed p) t content w")
  note s1 = write_all_spec [OF wrote]
  show ?thesis
  proof (cases r1)
    case (Ok u)
    with s1 assms(2) have stored: "w_fs w1 t = Some (FileEntry content m)" by simp
    obtain r2 w2 where perms: "(case permissions of None \<Rightarrow> return_io ()
        | Some mode \<Rightarrow> sys_set_mode (StageFailed p) t mode) w1 = (r2, w2)"
      by (cases "(case permissions of None \<Rightarrow> return_io ()
        | Some mode \<Rightarrow> sys_set_mode (StageFailed p) t mode) w1")
    have s2: "only_at t w1 w2" "r2 \<noteq> Panic"
        "r2 = Ok () \<Longrightarrow> w_fs w2 t = Some (FileEntry content (case permissions of None \<Rightarrow> m | Some k \<Rightarrow> k))"
      using perms stored set_mode_spec [of "StageFailed p" t _ w1 r2 w2]
      by (auto simp: return_io_def only_at_def split: option.splits)
    obtain r3 w3 where flush: "sys_flush (StageFailed p) w2 = (r3, w3)"
      by (cases "sys_flush (StageFailed p) w2")
    note s3 = flush_spec [OF flush]
    have only: "only_at t w w1" "only_at t w w2" "only_at t w w3"
      using s1 s2(1) s3 by (auto simp: only_at_def)
    from assms(1) wrote Ok perms flush only s2 s3 show ?thesis
      by (cases r2) (auto simp: fill_temporary_def bind_io_def)
  qed (use assms wrote s1 in \<open>auto simp: fill_temporary_def bind_io_def\<close>)
qed

lemma remove_file_spec:
  assumes "sys_remove_file e t w = (r, w')"
  shows "only_at t w w' \<and> r \<noteq> Panic \<and> (w_fs w' t = w_fs w t \<or> w_fs w' t = None) \<and>
    (r = Ok () \<longrightarrow> w_fs w' t = None) \<and> (\<forall>e'. r = Err e' \<longrightarrow> e' = e)"
  using assms unfolding sys_remove_file_def
  by (elim may_fail_cases) (auto simp: only_at_def split: option.splits entry.splits)

lemma remove_quietly_spec:
  "only_at t w (sys_remove_quietly t w) \<and>
   (w_fs (sys_remove_quietly t w) t = w_fs w t \<or> w_fs (sys_remove_quietly t w) t = None)"
  unfolding sys_remove_quietly_def
  using remove_file_spec [of "RemoveFailed t" t w] by (metis prod.collapse)

section \<open>Staging one write\<close>

definition staged_at :: "path \<Rightarrow> string \<Rightarrow> nat \<Rightarrow> world \<Rightarrow> world \<Rightarrow> bool" where
  "staged_at t content mode w w' \<longleftrightarrow>
     temporary t \<and> w_fs w t = None \<and> w_fs w' t = Some (FileEntry content mode)"

lemma only_at_new:
  assumes "only_at t w w'" and "w_fs w t = None" and "temporary t"
  shows "staged_ext w w' \<and> adds_only {t} w w'"
  using assms unfolding only_at_def staged_ext_def adds_only_def by (metis option.distinct(1) singletonI)

text \<open>The name is drawn, the file created, filled, and removed again when that fails.\<close>

lemma stage_attempt_spec:
  assumes attempt: "(case fill_temporary p t content permissions w1 of
        (Ok _, w'') \<Rightarrow> (Ok t, w'')
      | (Err e, w'') \<Rightarrow> (Err e, sys_remove_quietly t w'')
      | (Panic, w'') \<Rightarrow> (Panic, w'')) = (r, w')"
    and created: "w_fs w1 = (w_fs w)(t \<mapsto> FileEntry [] (w_default_mode w))"
      "w_default_mode w1 = w_default_mode w" and new: "w_fs w t = None" "temporary t"
  shows "staged_ext w w' \<and> r \<noteq> Panic \<and>
    (\<forall>u. r = Ok u \<longrightarrow> adds_only {u} w w' \<and>
       staged_at u content (case permissions of None \<Rightarrow> w_default_mode w | Some k \<Rightarrow> k) w w')"
proof -
  obtain r1 w2 where fill: "fill_temporary p t content permissions w1 = (r1, w2)"
    by (cases "fill_temporary p t content permissions w1")
  have "w_fs w1 t = Some (FileEntry [] (w_default_mode w))" using created(1) by simp
  note spec = fill_temporary_spec [OF fill this]
  have at1: "only_at t w w1" using created by (simp add: only_at_def)
  with spec have at2: "only_at t w w2" using only_at_trans by blast
  show ?thesis
  proof (cases r1)
    case (Ok u)
    with attempt fill have "r = Ok t" "w' = w2" by simp_all
    with spec Ok at2 new only_at_new show ?thesis by (auto simp: staged_at_def)
  next
    case (Err e)
    with attempt fill have r: "r = Err e" "w' = sys_remove_quietly t w2" by simp_all
    then have "only_at t w w'" using remove_quietly_spec [of t w2] at2 only_at_trans by blast
    with r new only_at_new show ?thesis by auto
  qed (use spec in simp)
qed

lemma create_new_spec:
  assumes "sys_create_new e t w = (r, w')"
  shows "(r = Ok True \<and> w_fs w t = None \<and> w_fs w' = (w_fs w)(t \<mapsto> FileEntry [] (w_default_mode w)) \<and>
      w_default_mode w' = w_default_mode w) \<or>
    (r = Ok False \<and> w_fs w' = w_fs w \<and> w_default_mode w' = w_default_mode w) \<or>
    (r = Err e \<and> w_fs w' = w_fs w \<and> w_default_mode w' = w_default_mode w)"
  using assms unfolding sys_create_new_def by (elim may_fail_cases) (auto split: if_splits)

lemma temporary_path_spec:
  "temporary_path_for pid p w = (r, w') \<Longrightarrow> w_fs w' = w_fs w \<and> w_default_mode w' = w_default_mode w \<and>
    (r = Err TargetNamesNoFile \<or> (\<exists>t. r = Ok t \<and> temporary t))"
  by (auto simp: temporary_path_for_def temporary_name_temporary split: if_splits)

lemma stage_attempts_spec:
  "stage_attempts pid n p content permissions w = (r, w') \<Longrightarrow> staged_ext w w' \<and> r \<noteq> Panic \<and>
    (\<forall>u. r = Ok u \<longrightarrow> adds_only {u} w w' \<and>
       staged_at u content (case permissions of None \<Rightarrow> w_default_mode w | Some k \<Rightarrow> k) w w')"
proof (induction n arbitrary: w)
  case (Suc n)
  obtain r1 w1 where path: "temporary_path_for pid p w = (r1, w1)" by (cases "temporary_path_for pid p w")
  note s1 = temporary_path_spec [OF path]
  show ?case
  proof (cases r1)
    case (Ok t)
    with s1 have t: "temporary t" by simp
    obtain r2 w2 where create: "sys_create_new (StageFailed p) t w1 = (r2, w2)"
      by (cases "sys_create_new (StageFailed p) t w1")
    from create_new_spec [OF create] show ?thesis
    proof (elim disjE conjE)
      assume new: "r2 = Ok True" "w_fs w1 t = None"
        "w_fs w2 = (w_fs w1)(t \<mapsto> FileEntry [] (w_default_mode w1))" "w_default_mode w2 = w_default_mode w1"
      have "(case fill_temporary p t content permissions w2 of
          (Ok _, w'') \<Rightarrow> (Ok t, w'')
        | (Err e, w'') \<Rightarrow> (Err e, sys_remove_quietly t w'')
        | (Panic, w'') \<Rightarrow> (Panic, w'')) = (r, w')"
        using Suc.prems path Ok create new(1) by (simp add: bind_io_def)
      from stage_attempt_spec [OF this, of w] show ?thesis using new s1 t by simp
    next
      assume again: "r2 = Ok False" "w_fs w2 = w_fs w1" "w_default_mode w2 = w_default_mode w1"
      then have "stage_attempts pid n p content permissions w2 = (r, w')"
        using Suc.prems path Ok create by (simp add: bind_io_def)
      have same: "w_fs w2 = w_fs w" "w_default_mode w2 = w_default_mode w" using again s1 by simp_all
      from Suc.IH [OF \<open>stage_attempts pid n p content permissions w2 = (r, w')\<close>] show ?thesis
        unfolding staged_ext_def staged_at_def adds_only_def same .
    next
      assume "r2 = Err (StageFailed p)" "w_fs w2 = w_fs w1" "w_default_mode w2 = w_default_mode w1"
      with Suc.prems path Ok create s1 show ?thesis
        by (auto simp: bind_io_def intro: staged_ext_same_fs)
    qed
  next
    case (Err e)
    with Suc.prems path s1 show ?thesis by (auto simp: bind_io_def intro: staged_ext_same_fs)
  qed (use s1 in simp)
qed auto

lemma staged_at_ext:
  assumes "staged_ext w w1" and "staged_at t content m w1 w'"
  shows "staged_at t content m w w'"
  using assms unfolding staged_ext_def staged_at_def by (metis not_None_eq)

lemma stage_spec:
  assumes "stage pid x w = (r, w')"
  shows "staged_ext w w' \<and> r \<noteq> Panic \<and>
    (\<forall>t. r = Ok t \<longrightarrow> adds_only {t} w w' \<and> staged_at t (fr_content x) (target_mode w (fr_path x)) w w')"
proof -
  obtain r1 w1 where perms: "replacement_permissions (fr_path x) w = (r1, w1)"
    by (cases "replacement_permissions (fr_path x) w")
  note s1 = replacement_permissions_spec [OF perms]
  then have ext1: "staged_ext w w1" "adds_only {} w w1" by (simp_all add: staged_ext_same_fs adds_only_same_fs)
  show ?thesis
  proof (cases r1)
    case (Ok m)
    let ?dirs = "case parent_dir (fr_path x) of None \<Rightarrow> return_io () | Some parent \<Rightarrow> sys_create_dir_all parent"
    obtain r2 w2 where dirs: "?dirs w1 = (r2, w2)" by (cases "?dirs w1")
    then have ext2: "staged_ext w1 w2" "adds_only {} w1 w2"
      by (cases "parent_dir (fr_path x)"; auto simp: return_io_def adds_only_same_fs dest: create_dir_all_ext)+
    have ext: "staged_ext w w2" "adds_only {} w w2"
      using staged_ext_trans [OF ext1(1) ext2(1)] adds_only_trans [OF ext1(2) ext2(2) ext2(1)] by simp_all
    have "r2 \<noteq> Panic" using dirs
      by (auto simp: return_io_def sys_create_dir_all_def may_fail_def
          split: option.splits prod.splits fault.splits)
    then show ?thesis
    proof (cases r2)
      case (Ok u)
      then have "stage_attempts pid 16 (fr_path x) (fr_content x) m w2 = (r, w')"
        using assms perms \<open>r1 = Ok m\<close> dirs by (simp add: stage_def bind_io_def)
      note s3 = stage_attempts_spec [OF this]
      have "w_default_mode w2 = w_default_mode w" using ext by (simp add: staged_ext_def)
      with s1 \<open>r1 = Ok m\<close> have mode: "(case m of None \<Rightarrow> w_default_mode w2 | Some k \<Rightarrow> k) = target_mode w (fr_path x)"
        by (cases m) simp_all
      have "adds_only {u} w w'" if "adds_only {u} w2 w'" "staged_ext w2 w'" for u
        using adds_only_trans [OF ext(2) that] by simp
      with s3 [unfolded mode] staged_at_ext [OF ext(1)] staged_ext_trans [OF ext(1)]
      show ?thesis by blast
    next
      case (Err e)
      with assms perms \<open>r1 = Ok m\<close> dirs ext show ?thesis
        by (auto simp: stage_def bind_io_def)
    qed simp
  next
    case (Err e)
    with assms perms ext1 show ?thesis by (auto simp: stage_def bind_io_def)
  next
    case Panic
    with perms show ?thesis
      by (auto simp: replacement_permissions_def sys_mode_def may_fail_def bind_io_def return_io_def
          fail_io_def split: prod.splits fault.splits option.splits if_splits outcome.splits)
  qed
qed

section \<open>The three loops\<close>

definition temps :: "FileRewrite list \<Rightarrow> path list" where
  "temps xs = concat (map (\<lambda>x. case fr_temporary_path x of None \<Rightarrow> [] | Some t \<Rightarrow> [t]) xs)"

text \<open>Every write has its content waiting in a temporary file of its own.\<close>

definition all_staged :: "world \<Rightarrow> world \<Rightarrow> FileRewrite list \<Rightarrow> bool" where
  "all_staged w w' xs \<longleftrightarrow> (\<forall>x \<in> set xs. \<exists>t. fr_temporary_path x = Some t \<and>
     staged_at t (fr_content x) (target_mode w (fr_path x)) w w')"

lemma staged_at_later: "staged_at t c m w w1 \<Longrightarrow> staged_ext w1 w' \<Longrightarrow> staged_at t c m w w'"
  unfolding staged_ext_def staged_at_def by blast

lemma target_mode_ext:
  "staged_ext w w' \<Longrightarrow> w_fs w p \<noteq> None \<Longrightarrow> target_mode w' p = target_mode w p"
  unfolding staged_ext_def target_mode_def by (metis not_None_eq)

lemma target_mode_absent:
  assumes "staged_ext w w'" "\<not> temporary p" "w_fs w' p \<noteq> Some DirEntry"
  shows "target_mode w' p = target_mode w p"
proof (cases "w_fs w p")
  case None
  with assms have "w_fs w' p = None" "w_default_mode w' = w_default_mode w"
    unfolding staged_ext_def by blast+
  with None show ?thesis by (simp add: target_mode_def)
qed (use assms(1) target_mode_ext in blast)

lemma stage_all_spec:
  assumes "stage_all pid xs w = (r, ys, w')"
    and "\<forall>x \<in> set xs. fr_temporary_path x = None"
  shows "staged_ext w w' \<and> r \<noteq> Panic \<and> map fr_path ys = map fr_path xs \<and>
    map fr_content ys = map fr_content xs \<and> distinct (temps ys) \<and>
    (\<forall>t \<in> set (temps ys). temporary t \<and> w_fs w t = None \<and> w_fs w' t \<noteq> None) \<and>
    (r = Ok () \<longrightarrow> adds_only (set (temps ys)) w w' \<and> (\<forall>y \<in> set ys. \<exists>t m. fr_temporary_path y = Some t \<and>
        w_fs w' t = Some (FileEntry (fr_content y) m) \<and>
        (w_fs w (fr_path y) \<noteq> None \<longrightarrow> m = target_mode w (fr_path y))))"
  using assms
proof (induction xs arbitrary: w r ys w')
  case Nil
  then show ?case by (auto simp: temps_def adds_only_def)
next
  case (Cons x xs)
  obtain r1 w1 where stg: "stage pid x w = (r1, w1)" by (cases "stage pid x w")
  note s = stage_spec [OF stg]
  have unstaged: "temps (x # xs) = []" using Cons.prems(2) by (simp add: temps_def)
  show ?case
  proof (cases r1)
    case (Ok t)
    obtain r2 zs where rest: "stage_all pid xs w1 = (r2, zs, w')" and
        eqs: "r = r2" "ys = x\<lparr>fr_temporary_path := Some t\<rparr> # zs"
      using Cons.prems(1) stg Ok by (auto split: prod.splits)
    note ih = Cons.IH [OF rest]
    have ih': "staged_ext w1 w'" "r \<noteq> Panic" "map fr_path zs = map fr_path xs"
        "map fr_content zs = map fr_content xs" "distinct (temps zs)"
        "\<forall>u \<in> set (temps zs). temporary u \<and> w_fs w1 u = None \<and> w_fs w' u \<noteq> None"
        "r = Ok () \<Longrightarrow> \<forall>y \<in> set zs. \<exists>t m. fr_temporary_path y = Some t \<and>
           w_fs w' t = Some (FileEntry (fr_content y) m) \<and>
           (w_fs w1 (fr_path y) \<noteq> None \<longrightarrow> m = target_mode w1 (fr_path y))"
        "r = Ok () \<Longrightarrow> adds_only (set (temps zs)) w1 w'"
      using ih Cons.prems(2) eqs by simp_all
    have adds: "adds_only (set (temps ys)) w w'" if "r = Ok ()"
      using adds_only_trans [of "{t}" w w1 "set (temps zs)" w'] s Ok ih'(1) ih'(8) [OF that]
      by (simp add: temps_def eqs)
    have ext: "staged_ext w w'" using staged_ext_trans s ih'(1) by blast
    have here: "staged_at t (fr_content x) (target_mode w (fr_path x)) w w1" using s Ok by simp
    then have t: "temporary t" "w_fs w t = None" "w_fs w1 t \<noteq> None"
        "w_fs w' t = Some (FileEntry (fr_content x) (target_mode w (fr_path x)))"
      using staged_at_later [OF here ih'(1)] by (auto simp: staged_at_def)
    have "u \<noteq> t \<and> w_fs w u = None" if "u \<in> set (temps zs)" for u
    proof -
      have "w_fs w1 u = None" using ih'(6) that by blast
      with t(3) s show ?thesis unfolding staged_ext_def by (metis not_None_eq)
    qed
    with t ih'(5,6) have tps: "distinct (temps ys)"
        "\<forall>u \<in> set (temps ys). temporary u \<and> w_fs w u = None \<and> w_fs w' u \<noteq> None"
      by (auto simp: temps_def eqs)
    have "\<exists>u m. fr_temporary_path y = Some u \<and> w_fs w' u = Some (FileEntry (fr_content y) m) \<and>
        (w_fs w (fr_path y) \<noteq> None \<longrightarrow> m = target_mode w (fr_path y))" if done_ok: "r = Ok ()" and y: "y \<in> set ys" for y
    proof (cases "y \<in> set zs")
      case True
      then obtain u m where "fr_temporary_path y = Some u" "w_fs w' u = Some (FileEntry (fr_content y) m)"
          "w_fs w1 (fr_path y) \<noteq> None \<longrightarrow> m = target_mode w1 (fr_path y)"
        using ih'(7) [OF done_ok] by blast
      moreover have "w_fs w1 (fr_path y) \<noteq> None \<and> target_mode w1 (fr_path y) = target_mode w (fr_path y)"
        if "w_fs w (fr_path y) \<noteq> None"
        using that s target_mode_ext [of w w1] unfolding staged_ext_def by auto
      ultimately show ?thesis by metis
    next
      case False
      with y t(4) show ?thesis by (simp add: eqs)
    qed
    with ext ih' tps eqs adds show ?thesis by simp
  next
    case (Err e)
    with Cons.prems(1) stg have "r = Err e" "ys = x # xs" "w' = w1" by simp_all
    with s unstaged show ?thesis by simp
  qed (use s in simp)
qed

lemma rename_spec:
  assumes "sys_rename e t p w = (r, w')" and "t \<noteq> p"
  shows "(r = Ok () \<and> w_fs w' p = w_fs w t \<and> w_fs w' t = None \<and> w_fs w t \<noteq> None \<and>
      (\<forall>q. q \<noteq> p \<longrightarrow> q \<noteq> t \<longrightarrow> w_fs w' q = w_fs w q)) \<or> (r = Err e \<and> w_fs w' = w_fs w)"
  using assms unfolding sys_rename_def
  by (elim may_fail_cases) (auto split: option.splits entry.splits)

definition ready :: "world \<Rightarrow> FileRewrite list \<Rightarrow> bool" where
  "ready w ys \<longleftrightarrow> distinct (map fr_path ys) \<and> distinct (temps ys) \<and>
     (\<forall>y \<in> set ys. \<not> temporary (fr_path y)) \<and> (\<forall>t \<in> set (temps ys). temporary t) \<and>
     (\<forall>y \<in> set ys. fr_temporary_path y \<noteq> None)"

lemma commit_all_spec:
  assumes "commit_all ys w = (r, zs, w')" and "ready w ys"
  shows "(r = Ok () \<or> (\<exists>p. r = Err (ReplaceFailed p))) \<and>
    (\<forall>q. q \<notin> fr_path ` set ys \<longrightarrow> q \<notin> set (temps ys) \<longrightarrow> w_fs w' q = w_fs w q) \<and>
    (\<forall>y \<in> set ys. w_fs w' (fr_path y) = w_fs w (fr_path y) \<or>
       w_fs w' (fr_path y) = w_fs w (the (fr_temporary_path y))) \<and>
    set (temps zs) \<subseteq> set (temps ys) \<and>
    (\<forall>t \<in> set (temps ys). w_fs w' t = None \<or> t \<in> set (temps zs) \<and> w_fs w' t = w_fs w t) \<and>
    (r = Ok () \<longrightarrow> temps zs = [] \<and>
      (\<forall>y \<in> set ys. w_fs w' (fr_path y) = w_fs w (the (fr_temporary_path y))))"
  using assms
proof (induction ys arbitrary: w r zs w')
  case Nil
  then show ?case by (simp add: temps_def)
next
  case (Cons y ys)
  obtain t where t: "fr_temporary_path y = Some t" using Cons.prems(2) by (auto simp: ready_def)
  obtain r1 w1 where ren: "sys_rename (ReplaceFailed (fr_path y)) t (fr_path y) w = (r1, w1)"
    by (cases "sys_rename (ReplaceFailed (fr_path y)) t (fr_path y) w")
  have tps: "temps (y # ys) = t # temps ys" using t by (simp add: temps_def)
  with Cons.prems(2) have fresh: "t \<notin> set (temps ys)" "temporary t" "\<not> temporary (fr_path y)"
      "fr_path y \<notin> fr_path ` set ys" "ready w1 ys"
      "\<forall>z \<in> set ys. \<not> temporary (fr_path z)" "\<forall>u \<in> set (temps ys). temporary u"
    by (auto simp: ready_def)
  then have neq: "t \<noteq> fr_path y" "t \<notin> fr_path ` set ys" "fr_path y \<notin> set (temps ys)" by auto
  from rename_spec [OF ren neq(1)] show ?case
  proof (elim disjE conjE)
    assume ok: "r1 = Ok ()" "w_fs w1 (fr_path y) = w_fs w t" "w_fs w1 t = None"
      "\<forall>q. q \<noteq> fr_path y \<longrightarrow> q \<noteq> t \<longrightarrow> w_fs w1 q = w_fs w q"
    obtain r2 vs where rest: "commit_all ys w1 = (r2, vs, w')" and
        eqs: "r = r2" "zs = y\<lparr>fr_temporary_path := None\<rparr> # vs"
      using Cons.prems(1) t ren ok(1) by (auto simp: commit_write_def replace_file_def split: prod.splits)
    note ih = Cons.IH [OF rest fresh(5)]
    have zs: "temps zs = temps vs" by (simp add: eqs temps_def)
    have head: "w_fs w' (fr_path y) = w_fs w t" "w_fs w' t = None"
      using ih fresh(1,4) neq ok(2,3) by simp_all
    have temp_in: "the (fr_temporary_path z) \<in> set (temps ys)" if "z \<in> set ys" for z
    proof -
      have "fr_temporary_path z \<noteq> None" using that fresh(5) by (simp add: ready_def)
      with that show ?thesis by (force simp: temps_def)
    qed
    have same: "w_fs w1 (fr_path z) = w_fs w (fr_path z)"
        "w_fs w1 (the (fr_temporary_path z)) = w_fs w (the (fr_temporary_path z))" if "z \<in> set ys" for z
      using ok(4) that fresh neq temp_in [OF that] by (metis imageI)+
    have same_temps: "w_fs w1 u = w_fs w u" if "u \<in> set (temps ys)" for u
      using ok(4) that fresh(1) neq(3) by metis
    show ?thesis
      unfolding zs tps eqs(1)
      using ih head same same_temps ok(4) t by auto
  next
    assume err: "r1 = Err (ReplaceFailed (fr_path y))" "w_fs w1 = w_fs w"
    then have "r = Err (ReplaceFailed (fr_path y))" "zs = y # ys" "w' = w1"
      using Cons.prems(1) t ren by (simp_all add: commit_write_def replace_file_def)
    with err show ?thesis by simp
  qed
qed

end
