(* ===== verification/TransactionProps.thy ===== *)
theory TransactionProps
  imports TransactionFacts
begin

text \<open>
  The contract of a file transaction: success means every write and removal took
  place and nothing else did; whatever fails, no file is left half written and
  nothing is removed before every write is in place.
\<close>

lemma check_writes_Ok:
  "check_writes seen xs = Ok paths \<Longrightarrow>
     distinct (map fr_path xs) \<and> fr_path ` set xs \<inter> seen = {} \<and> paths = seen \<union> fr_path ` set xs"
  by (induction seen xs rule: check_writes.induct) (auto split: if_splits)

lemma check_removals_Ok:
  "check_removals written seen ps = Ok () \<Longrightarrow> distinct ps \<and> set ps \<inter> seen = {} \<and> set ps \<inter> written = {}"
  by (induction written seen ps rule: check_removals.induct) (auto split: if_splits)

lemma check_writes_no_panic: "check_writes seen xs \<noteq> Panic"
  by (induction seen xs rule: check_writes.induct) auto

lemma check_removals_no_panic: "check_removals written seen ps \<noteq> Panic"
  by (induction written seen ps rule: check_removals.induct) auto

lemma validate_Ok:
  "validate t = Ok () \<Longrightarrow> distinct (map fr_path (tx_writes t)) \<and> distinct (tx_removals t) \<and>
     set (tx_removals t) \<inter> fr_path ` set (tx_writes t) = {}"
  by (auto simp: validate_def outcome_simps dest!: check_writes_Ok check_removals_Ok)

lemma validate_no_panic: "validate t \<noteq> Panic"
  by (auto simp: validate_def outcome_simps check_writes_no_panic check_removals_no_panic)

lemma remove_all_spec:
  assumes "remove_all_files ps w = (r, w')"
  shows "(\<forall>q. q \<notin> set ps \<longrightarrow> w_fs w' q = w_fs w q) \<and>
    (\<forall>q. w_fs w' q = w_fs w q \<or> w_fs w' q = None) \<and>
    (r = Ok () \<longrightarrow> (\<forall>p \<in> set ps. w_fs w' p = None)) \<and> (r = Ok () \<or> (\<exists>p. r = Err (RemoveFailed p)))"
  using assms
proof (induction ps arbitrary: w)
  case (Cons p ps)
  obtain r1 w1 where rem: "sys_remove_file (RemoveFailed p) p w = (r1, w1)"
    by (cases "sys_remove_file (RemoveFailed p) p w")
  note s = remove_file_spec [OF rem]
  show ?case
  proof (cases r1)
    case (Ok u)
    with Cons.prems rem have "remove_all_files ps w1 = (r, w')" by (simp add: bind_io_def)
    note ih = Cons.IH [OF this]
    have q: "w_fs w1 q = w_fs w q \<or> w_fs w1 q = None" for q
      using s unfolding only_at_def by metis
    have "w_fs w1 p = None" using s Ok by simp
    with ih have "w_fs w' p = None" by metis
    moreover have "w_fs w' q = w_fs w q" if "q \<notin> set (p # ps)" for q
      using ih s that unfolding only_at_def by (metis list.set_intros)
    moreover have "w_fs w' q = w_fs w q \<or> w_fs w' q = None" for q
      using ih q [of q] by metis
    ultimately show ?thesis using ih by simp
  next
    case (Err e)
    with Cons.prems rem s have "r = Err (RemoveFailed p)" "w' = w1" by (auto simp: bind_io_def)
    with s show ?thesis unfolding only_at_def by (metis list.set_intros(1) outcome.distinct(1))
  qed (use s in simp)
qed auto

lemma drop_rewrites_spec:
  "(\<forall>q. q \<notin> set (temps xs) \<longrightarrow> w_fs (drop_rewrites xs w) q = w_fs w q) \<and>
   (\<forall>q. w_fs (drop_rewrites xs w) q = w_fs w q \<or> w_fs (drop_rewrites xs w) q = None)"
proof (induction xs arbitrary: w)
  case (Cons x xs)
  define w1 where "w1 = (case fr_temporary_path x of None \<Rightarrow> w | Some p \<Rightarrow> sys_remove_quietly p w)"
  have one: "q \<notin> set (temps [x]) \<Longrightarrow> w_fs w1 q = w_fs w q" "w_fs w1 q = w_fs w q \<or> w_fs w1 q = None" for q
  proof -
    show "q \<notin> set (temps [x]) \<Longrightarrow> w_fs w1 q = w_fs w q"
      using remove_quietly_spec [of _ w] by (cases "fr_temporary_path x") (auto simp: w1_def temps_def only_at_def)
    show "w_fs w1 q = w_fs w q \<or> w_fs w1 q = None"
    proof (cases "fr_temporary_path x")
      case (Some t)
      then show ?thesis
        using remove_quietly_spec [of t w] by (cases "q = t") (auto simp: w1_def only_at_def)
    qed (simp add: w1_def)
  qed
  have step: "drop_rewrites (x # xs) w = drop_rewrites xs w1" by (simp add: w1_def)
  have both: "set (temps (x # xs)) = set (temps [x]) \<union> set (temps xs)" by (simp add: temps_def)
  show ?case
  proof (intro conjI allI impI)
    fix q
    assume "q \<notin> set (temps (x # xs))"
    with both have "q \<notin> set (temps [x])" "q \<notin> set (temps xs)" by simp_all
    with Cons.IH [of w1] one(1) [of q] show "w_fs (drop_rewrites (x # xs) w) q = w_fs w q"
      unfolding step by metis
  next
    fix q
    show "w_fs (drop_rewrites (x # xs) w) q = w_fs w q \<or> w_fs (drop_rewrites (x # xs) w) q = None"
      using Cons.IH [of w1] one(2) [of q] unfolding step by metis
  qed
qed simp

lemma drop_rewrites_none: "temps xs = [] \<Longrightarrow> drop_rewrites xs w = w"
  by (induction xs) (auto simp: temps_def split: option.splits)

text \<open>The transactions the writer builds: fresh writes to files that are not temporary files.\<close>

definition proper :: "FileRewriteTransaction \<Rightarrow> bool" where
  "proper t \<longleftrightarrow> (\<forall>x \<in> set (tx_writes t). fr_temporary_path x = None \<and> \<not> temporary (fr_path x)) \<and>
     (\<forall>p \<in> set (tx_removals t). \<not> temporary p)"

text \<open>The four ways a commit can go.\<close>

lemma commit_cases:
  assumes "commit pid t w = (r, w')" and "proper t"
  obtains (invalid) e where "validate t = Err e" "r = Err e" "w' = w"
  | (unstaged) e w1 ys where "validate t = Ok ()" "stage_all pid (tx_writes t) w = (Err e, ys, w1)"
      "r = Err e" "w' = drop_rewrites ys w1"
  | (uncommitted) e w1 ys w2 zs where "validate t = Ok ()"
      "stage_all pid (tx_writes t) w = (Ok (), ys, w1)" "commit_all ys w1 = (Err e, zs, w2)"
      "r = Err e" "w' = drop_rewrites zs w2"
  | (committed) w1 ys w2 zs where "validate t = Ok ()"
      "stage_all pid (tx_writes t) w = (Ok (), ys, w1)" "commit_all ys w1 = (Ok (), zs, w2)"
      "remove_all_files (tx_removals t) w2 = (r, w')" "temps zs = []"
proof -
  have none: "temps (tx_writes t) = []" using assms(2) by (auto simp: proper_def temps_def)
  obtain s ys w1 where st: "stage_all pid (tx_writes t) w = (s, ys, w1)" by (cases "stage_all pid (tx_writes t) w")
  obtain c zs w2 where co: "commit_all ys w1 = (c, zs, w2)" by (cases "commit_all ys w1")
  obtain m w3 where rm: "remove_all_files (tx_removals t) w2 = (m, w3)" by (cases "remove_all_files (tx_removals t) w2")
  note stage = stage_all_spec [OF st]
  have fresh: "\<forall>x \<in> set (tx_writes t). fr_temporary_path x = None" using assms(2) by (simp add: proper_def)
  show thesis
  proof (cases "validate t")
    case (Err e)
    with assms(1) none invalid [OF Err] show thesis by (simp add: commit_def drop_rewrites_none)
  next
    case (Ok u)
    then have valid: "validate t = Ok ()" by simp
    show thesis
    proof (cases s)
      case (Err e)
      with assms(1) st valid have "r = Err e" "w' = drop_rewrites ys w1" by (simp_all add: commit_def)
      with st Err unstaged [OF valid] show thesis by blast
    next
      case (Ok u)
      then have s: "s = Ok ()" by simp
      have rdy: "ready w1 ys"
        using stage [OF fresh] validate_Ok [OF valid] assms(2) s
        unfolding ready_def proper_def by (metis (no_types, lifting) in_set_conv_nth length_map nth_map option.distinct(1))
      note commit = commit_all_spec [OF co rdy]
      show thesis
      proof (cases c)
        case (Err e)
        with assms(1) st co valid s have "r = Err e" "w' = drop_rewrites zs w2" by (simp_all add: commit_def)
        with st co s Err uncommitted [OF valid] show thesis by blast
      next
        case (Ok u)
        then have "temps zs = []" using commit by simp
        moreover from this assms(1) st co rm valid s Ok have "(r, w') = (m, w3)"
          by (simp add: commit_def drop_rewrites_none)
        ultimately show thesis using st co rm s Ok committed [OF valid] by simp
      qed (use commit in simp)
    qed (use stage fresh in simp)
  qed (simp add: validate_no_panic)
qed

section \<open>Success\<close>

lemma ready_after_staging:
  assumes "stage_all pid (tx_writes t) w = (Ok (), ys, w1)" "proper t" "validate t = Ok ()"
  shows "ready w1 ys"
proof -
  have fresh: "\<forall>x \<in> set (tx_writes t). fr_temporary_path x = None" using assms(2) by (simp add: proper_def)
  note stage = stage_all_spec [OF assms(1) fresh]
  have "fr_path ` set ys = fr_path ` set (tx_writes t)" using stage by (metis list.set_map)
  with assms(2) have "\<forall>y \<in> set ys. \<not> temporary (fr_path y)" unfolding proper_def by (metis image_iff)
  with stage validate_Ok [OF assms(3)] show ?thesis unfolding ready_def by auto
qed

lemma map_pair_eq:
  "map f ys = map f xs \<Longrightarrow> map g ys = map g xs \<Longrightarrow>
   (\<lambda>x. (f x, g x)) ` set ys = (\<lambda>x. (f x, g x)) ` set xs"
proof (induction ys arbitrary: xs)
  case (Cons y ys)
  obtain z zs where xs: "xs = z # zs" using Cons.prems(1) by (cases xs) simp_all
  have "(\<lambda>x. (f x, g x)) ` set ys = (\<lambda>x. (f x, g x)) ` set zs"
    using Cons.IH [of zs] Cons.prems xs by simp
  moreover have "f y = f z" "g y = g z" using Cons.prems xs by simp_all
  ultimately show ?case by (simp add: xs)
qed simp

lemma written_paths:
  assumes "stage_all pid xs w = (r, ys, w1)" and "\<forall>x \<in> set xs. fr_temporary_path x = None"
  shows "(\<lambda>x. (fr_path x, fr_content x)) ` set ys = (\<lambda>x. (fr_path x, fr_content x)) ` set xs"
    "fr_path ` set ys = fr_path ` set xs"
proof -
  note stage = stage_all_spec [OF assms]
  then show "(\<lambda>x. (fr_path x, fr_content x)) ` set ys = (\<lambda>x. (fr_path x, fr_content x)) ` set xs"
    by (intro map_pair_eq) simp_all
  from stage show "fr_path ` set ys = fr_path ` set xs" by (metis list.set_map)
qed

lemma written_by:
  assumes "stage_all pid xs w = (r, ys, w1)" "\<forall>x \<in> set xs. fr_temporary_path x = None" "x \<in> set xs"
  obtains y where "y \<in> set ys" "fr_path y = fr_path x" "fr_content y = fr_content x"
proof -
  have "(fr_path x, fr_content x) \<in> (\<lambda>x. (fr_path x, fr_content x)) ` set ys"
    using assms(3) unfolding written_paths(1) [OF assms(1,2)] by simp
  with that show thesis by auto
qed

lemma temp_member: "y \<in> set ys \<Longrightarrow> fr_temporary_path y = Some u \<Longrightarrow> u \<in> set (temps ys)"
  by (force simp: temps_def)

text \<open>A write is in place: the whole content, under the permissions the file had.\<close>

definition in_place :: "world \<Rightarrow> world \<Rightarrow> FileRewrite \<Rightarrow> bool" where
  "in_place w w' x \<longleftrightarrow> (\<exists>m. w_fs w' (fr_path x) = Some (FileEntry (fr_content x) m) \<and>
     (w_fs w (fr_path x) \<noteq> None \<longrightarrow> m = target_mode w (fr_path x)))"

lemma committed_in_place:
  assumes st: "stage_all pid (tx_writes t) w = (Ok (), ys, w1)" and co: "commit_all ys w1 = (Ok (), zs, w2)"
    and t: "proper t" "validate t = Ok ()" and x: "x \<in> set (tx_writes t)"
  shows "in_place w w2 x"
proof -
  have fresh: "\<forall>x \<in> set (tx_writes t). fr_temporary_path x = None" using t by (simp add: proper_def)
  note stage = stage_all_spec [OF st fresh] and commit = commit_all_spec [OF co ready_after_staging [OF st t]]
  obtain y where y: "y \<in> set ys" "fr_path y = fr_path x" "fr_content y = fr_content x"
    using written_by [OF st fresh x] by blast
  then obtain u m where "fr_temporary_path y = Some u" "w_fs w1 u = Some (FileEntry (fr_content y) m)"
      "w_fs w (fr_path y) \<noteq> None \<longrightarrow> m = target_mode w (fr_path y)"
    using stage by blast
  moreover have "w_fs w2 (fr_path y) = w_fs w1 (the (fr_temporary_path y))" using commit y(1) by blast
  ultimately show ?thesis using y by (auto simp: in_place_def)
qed

lemma committed_elsewhere:
  assumes st: "stage_all pid (tx_writes t) w = (Ok (), ys, w1)" and co: "commit_all ys w1 = (Ok (), zs, w2)"
    and t: "proper t" "validate t = Ok ()" and p: "p \<notin> fr_path ` set (tx_writes t)"
  shows "w_fs w2 p = w_fs w p \<or> w_fs w p = None \<and> w_fs w2 p = Some DirEntry"
proof -
  have fresh: "\<forall>x \<in> set (tx_writes t). fr_temporary_path x = None" using t by (simp add: proper_def)
  note stage = stage_all_spec [OF st fresh] and commit = commit_all_spec [OF co ready_after_staging [OF st t]]
  have p': "p \<notin> fr_path ` set ys" using written_paths(2) [OF st fresh] p by simp
  show ?thesis
  proof (cases "p \<in> set (temps ys)")
    case True
    then have "w_fs w p = None" "w_fs w2 p = None" using stage commit by auto
    then show ?thesis by simp
  next
    case False
    with commit p' have same: "w_fs w2 p = w_fs w1 p" by blast
    show ?thesis
    proof (cases "w_fs w p")
      case None
      with stage False have "w_fs w1 p = None \<or> w_fs w1 p = Some DirEntry" by (simp add: adds_only_def)
      with None same show ?thesis by auto
    next
      case (Some e)
      with stage have "w_fs w1 p = Some e" by (simp add: staged_ext_def)
      with Some same show ?thesis by simp
    qed
  qed
qed

lemma commit_done:
  assumes "commit pid t w = (Ok (), w')" and "proper t"
  shows "(\<forall>x \<in> set (tx_writes t). in_place w w' x) \<and>
    (\<forall>p \<in> set (tx_removals t). w_fs w' p = None) \<and>
    (\<forall>p. p \<notin> fr_path ` set (tx_writes t) \<longrightarrow> p \<notin> set (tx_removals t) \<longrightarrow>
       w_fs w' p = w_fs w p \<or> w_fs w p = None \<and> w_fs w' p = Some DirEntry)"
  using assms
proof (cases rule: commit_cases)
  case (committed w1 ys w2 zs)
  note rm = remove_all_spec [OF committed(4)]
  have "in_place w w' x" if "x \<in> set (tx_writes t)" for x
  proof -
    have "fr_path x \<notin> set (tx_removals t)" using validate_Ok [OF committed(1)] that by blast
    with rm have "w_fs w' (fr_path x) = w_fs w2 (fr_path x)" by blast
    with committed_in_place [OF committed(2,3) assms(2) committed(1) that]
    show ?thesis by (simp add: in_place_def)
  qed
  moreover have "w_fs w' p = w_fs w p \<or> w_fs w p = None \<and> w_fs w' p = Some DirEntry"
    if "p \<notin> fr_path ` set (tx_writes t)" "p \<notin> set (tx_removals t)" for p
  proof -
    have "w_fs w' p = w_fs w2 p" using rm that(2) by blast
    with committed_elsewhere [OF committed(2,3) assms(2) committed(1) that(1)] show ?thesis by simp
  qed
  ultimately show ?thesis using rm by blast
qed simp_all

text \<open>C5. A transaction that reports success has done exactly what it was asked: every
  file it writes holds the whole new content, with the permissions it had before,
  every file it removes is gone, and every other path, temporary files included, is
  as before, directories created on the way to a target apart.\<close>

theorem commit_success:
  assumes "commit pid t w = (Ok (), w')" and "proper t"
  shows "(\<forall>x \<in> set (tx_writes t). in_place w w' x) \<and>
    (\<forall>p \<in> set (tx_removals t). w_fs w' p = None) \<and>
    (\<forall>p. p \<notin> fr_path ` set (tx_writes t) \<longrightarrow> p \<notin> set (tx_removals t) \<longrightarrow>
       w_fs w' p = w_fs w p \<or> w_fs w p = None \<and> w_fs w' p = Some DirEntry)"
  using assms by (rule commit_done)

section \<open>Failure\<close>

text \<open>What a path may hold after a commit that could have stopped anywhere.\<close>

definition safe_change :: "FileRewriteTransaction \<Rightarrow> world \<Rightarrow> world \<Rightarrow> path \<Rightarrow> bool" where
  "safe_change t w w' p \<longleftrightarrow>
     w_fs w' p = w_fs w p \<or>
     w_fs w p = None \<and> w_fs w' p = Some DirEntry \<or>
     (\<exists>x \<in> set (tx_writes t). fr_path x = p \<and> in_place w w' x) \<or>
     p \<in> set (tx_removals t) \<and> w_fs w' p = None \<and> (\<forall>x \<in> set (tx_writes t). in_place w w' x)"

lemma staged_change:
  "staged_ext w w1 \<Longrightarrow> \<not> temporary p \<Longrightarrow> w_fs w1 p = w_fs w p \<or> w_fs w p = None \<and> w_fs w1 p = Some DirEntry"
  unfolding staged_ext_def by (metis not_None_eq)

lemma uncommitted_change:
  assumes st: "stage_all pid (tx_writes t) w = (Ok (), ys, w1)" and co: "commit_all ys w1 = (c, zs, w2)"
    and t: "proper t" "validate t = Ok ()" and p: "\<not> temporary p" and same: "w_fs w' p = w_fs w2 p"
  shows "safe_change t w w' p"
proof -
  have fresh: "\<forall>x \<in> set (tx_writes t). fr_temporary_path x = None" using t by (simp add: proper_def)
  note stage = stage_all_spec [OF st fresh] and rdy = ready_after_staging [OF st t]
  note commit = commit_all_spec [OF co rdy]
  have not_temp: "p \<notin> set (temps ys)" using rdy p by (auto simp: ready_def)
  show ?thesis
  proof (cases "w_fs w2 p = w_fs w1 p")
    case True
    with staged_change [of w w1 p] stage p same show ?thesis by (auto simp: safe_change_def)
  next
    case False
    with commit not_temp obtain y where
        moved: "y \<in> set ys" "fr_path y = p" "w_fs w2 p = w_fs w1 (the (fr_temporary_path y))"
      by (metis (no_types, lifting) imageE)
    then obtain u m where u: "fr_temporary_path y = Some u" "w_fs w1 u = Some (FileEntry (fr_content y) m)"
        "w_fs w (fr_path y) \<noteq> None \<longrightarrow> m = target_mode w (fr_path y)"
      using stage by blast
    have "(fr_path y, fr_content y) \<in> (\<lambda>x. (fr_path x, fr_content x)) ` set (tx_writes t)"
      using moved(1) unfolding written_paths(1) [OF st fresh, symmetric] by simp
    then obtain x where "x \<in> set (tx_writes t)" "fr_path x = p" "fr_content x = fr_content y"
      using moved(2) by auto
    with u moved same show ?thesis by (auto simp: safe_change_def in_place_def)
  qed
qed

text \<open>C1. Wherever a commit stops, every file that is not a temporary file of the
  transaction is untouched, or was a target and holds its whole new content, or was to
  be removed and is gone, which happens only when every write is in place; the one
  other change is a directory created for a target.  No fault leaves a target half
  written or loses text that was to be moved.\<close>

theorem commit_crash_safe:
  assumes "commit pid t w = (r, w')" and "proper t" and "\<not> temporary p"
  shows "safe_change t w w' p"
  using assms(1,2)
proof (cases rule: commit_cases)
  case (unstaged e w1 ys)
  have fresh: "\<forall>x \<in> set (tx_writes t). fr_temporary_path x = None" using assms(2) by (simp add: proper_def)
  note stage = stage_all_spec [OF unstaged(2) fresh]
  have "p \<notin> set (temps ys)" using stage assms(3) by blast
  with drop_rewrites_spec [of ys w1] unstaged(4) have "w_fs w' p = w_fs w1 p" by simp
  with staged_change [of w w1 p] stage assms(3) show ?thesis by (auto simp: safe_change_def)
next
  case (uncommitted e w1 ys w2 zs)
  have "set (temps zs) \<subseteq> set (temps ys)" "\<forall>u \<in> set (temps ys). temporary u"
    using commit_all_spec [OF uncommitted(3)] ready_after_staging [OF uncommitted(2) assms(2) uncommitted(1)]
    by (auto simp: ready_def)
  with assms(3) have "p \<notin> set (temps zs)" by blast
  with drop_rewrites_spec [of zs w2] uncommitted(5) have "w_fs w' p = w_fs w2 p" by simp
  with uncommitted_change [OF uncommitted(2,3) assms(2) uncommitted(1) assms(3)] show ?thesis by blast
next
  case (committed w1 ys w2 zs)
  note rm = remove_all_spec [OF committed(4)]
  have placed: "in_place w w' x" if "x \<in> set (tx_writes t)" for x
  proof -
    have "fr_path x \<notin> set (tx_removals t)" using validate_Ok [OF committed(1)] that by blast
    with rm have "w_fs w' (fr_path x) = w_fs w2 (fr_path x)" by blast
    with committed_in_place [OF committed(2,3) assms(2) committed(1) that]
    show ?thesis by (simp add: in_place_def)
  qed
  show ?thesis
  proof (cases "w_fs w' p = w_fs w2 p")
    case True
    from uncommitted_change [OF committed(2,3) assms(2) committed(1) assms(3) True] show ?thesis .
  next
    case False
    with rm have "p \<in> set (tx_removals t)" "w_fs w' p = None" by blast+
    with placed show ?thesis by (auto simp: safe_change_def)
  qed
qed (simp add: safe_change_def)

text \<open>C23. Unless the failure is that of replacing or removing a file, which can only come
  after every write was staged, a failed commit has left every file of the slipbox
  exactly as it was; at most directories were created.\<close>

theorem commit_staging_failure_untouched:
  assumes "commit pid t w = (Err e, w')" and "proper t" and "\<not> temporary p"
    and "\<And>q. e \<noteq> ReplaceFailed q" and "\<And>q. e \<noteq> RemoveFailed q"
  shows "w_fs w' p = w_fs w p \<or> w_fs w p = None \<and> w_fs w' p = Some DirEntry"
  using assms(1,2)
proof (cases rule: commit_cases)
  case (unstaged e' w1 ys)
  have fresh: "\<forall>x \<in> set (tx_writes t). fr_temporary_path x = None" using assms(2) by (simp add: proper_def)
  note stage = stage_all_spec [OF unstaged(2) fresh]
  have "p \<notin> set (temps ys)" using stage assms(3) by blast
  with drop_rewrites_spec [of ys w1] unstaged(4) have "w_fs w' p = w_fs w1 p" by simp
  with staged_change [of w w1 p] stage assms(3) show ?thesis by simp
next
  case (uncommitted e' w1 ys w2 zs)
  have "Err e' = Ok () \<or> (\<exists>q. Err e' = Err (ReplaceFailed q))"
    using commit_all_spec [OF uncommitted(3) ready_after_staging [OF uncommitted(2) assms(2) uncommitted(1)]]
    by blast
  with uncommitted(4) assms(4) show ?thesis by auto
next
  case (committed w1 ys w2 zs)
  with remove_all_spec [OF committed(4)] assms(5) show ?thesis by auto
qed simp

section \<open>Witnesses\<close>

definition move_world :: "fault list \<Rightarrow> world" where
  "move_world faults = \<lparr>w_fs = [[''r''] \<mapsto> DirEntry, [''r'', ''a.org''] \<mapsto> FileEntry ''x'' 384],
     w_faults = faults, w_counter = 0, w_default_mode = 420\<rparr>"

definition move_tx :: FileRewriteTransaction where
  "move_tx = tx_remove [''r'', ''a.org''] (tx_write [''r'', ''b.org''] ''x'' tx_new)"

lemma move_tx_proper: "proper move_tx"
  by (simp add: proper_def move_tx_def tx_remove_def tx_write_def tx_new_def temporary_def suffix_def)

definition final_files :: "(unit result \<times> world) \<Rightarrow> unit result \<times> entry option \<times> entry option" where
  "final_files r = (fst r, w_fs (snd r) [''r'', ''a.org''], w_fs (snd r) [''r'', ''b.org''])"

lemma move_runs: "final_files (commit 7 move_tx (move_world [])) = (Ok (), None, Some (FileEntry ''x'' 420))"
  by code_simp

lemma move_fails:
  "final_files (commit 7 move_tx (move_world [NoFault, NoFault, NoFault, Fault 0])) =
     (Err (StageFailed [''r'', ''b.org'']), Some (FileEntry ''x'' 384), None)"
  by code_simp

theorem commit_success_witness:
  "in_place (move_world []) (snd (commit 7 move_tx (move_world [])))
     \<lparr>fr_path = [''r'', ''b.org''], fr_content = ''x'', fr_temporary_path = None\<rparr>"
proof -
  obtain w' where run: "commit 7 move_tx (move_world []) = (Ok (), w')"
    using move_runs by (cases "commit 7 move_tx (move_world [])") (simp add: final_files_def)
  from commit_success [OF run move_tx_proper] show ?thesis
    by (simp add: run) (simp add: move_tx_def tx_remove_def tx_write_def tx_new_def)
qed

theorem commit_crash_safe_witness:
  "safe_change move_tx (move_world [NoFault, NoFault, NoFault, Fault 0])
     (snd (commit 7 move_tx (move_world [NoFault, NoFault, NoFault, Fault 0]))) [''r'', ''a.org'']"
  by (rule commit_crash_safe [OF prod.collapse [symmetric] move_tx_proper]) (simp add: temporary_def suffix_def)

theorem commit_staging_failure_untouched_witness:
  "w_fs (snd (commit 7 move_tx (move_world [NoFault, NoFault, NoFault, Fault 0]))) [''r'', ''a.org''] =
     w_fs (move_world [NoFault, NoFault, NoFault, Fault 0]) [''r'', ''a.org''] \<or>
   w_fs (move_world [NoFault, NoFault, NoFault, Fault 0]) [''r'', ''a.org''] = None \<and>
   w_fs (snd (commit 7 move_tx (move_world [NoFault, NoFault, NoFault, Fault 0]))) [''r'', ''a.org''] =
     Some DirEntry"
proof -
  let ?w = "move_world [NoFault, NoFault, NoFault, Fault 0]"
  have "commit 7 move_tx ?w = (Err (StageFailed [''r'', ''b.org'']), snd (commit 7 move_tx ?w))"
    using move_fails by (cases "commit 7 move_tx ?w") (simp add: final_files_def)
  from commit_staging_failure_untouched [OF this move_tx_proper, of "[''r'', ''a.org'']"]
  show ?thesis by (simp add: temporary_def suffix_def)
qed

end
