(* ===== verification/WritePath.thy ===== *)
theory WritePath
  imports FileSystem RustPath RustStrFacts
begin

text \<open>
  Paths of the writer, \<open>crates/slipbox-write/src/path.rs\<close> on Unix: normalisation of
  file paths relative to the slipbox root, the search for a free name, slugs and
  default titles.
\<close>

definition normalized_title :: "string \<Rightarrow> string result" where
  "normalized_title title = (if trim title = [] then Err EmptyCaptureTitle else Ok (trim title))"

fun normal_parts :: "component list \<Rightarrow> string list result" where
  "normal_parts [] = Ok []"
| "normal_parts (c # cs) =
     (case c of
        CurDir \<Rightarrow> normal_parts cs
      | NormalComp part \<Rightarrow> map_out (\<lambda>parts. part # parts) (normal_parts cs)
      | ParentDir \<Rightarrow> Err PathOutsideRoot
      | RootDir \<Rightarrow> Err PathOutsideRoot)"

definition normalize_relative_org_path :: "string \<Rightarrow> string result" where
  "normalize_relative_org_path file_path =
     (if prefix ''/'' file_path then Err AbsolutePath
      else bind_out (normal_parts (components file_path)) (\<lambda>parts.
        let normalized = forward_slashes (join_str ''/'' parts) in
        if normalized = [] then Err EmptyPath
        else if \<not> suffix ''.org'' normalized then Err NotOrgPath
        else Ok normalized))"

text \<open>\<open>root.join(relative)\<close> as component names.\<close>

definition join_root :: "path \<Rightarrow> string \<Rightarrow> path" where
  "join_root root relative = root @ map component_str (components relative)"

fun reject_symlinks :: "path \<Rightarrow> component list \<Rightarrow> unit io" where
  "reject_symlinks absolute [] = return_io ()"
| "reject_symlinks absolute (c # cs) =
     (case c of
        NormalComp part \<Rightarrow>
          bind_io (sys_is_symlink (InspectFailed (absolute @ [part])) (absolute @ [part])) (\<lambda>link.
            case link of
              Some True \<Rightarrow> fail_io (CrossesSymlink (absolute @ [part]))
            | Some False \<Rightarrow> reject_symlinks (absolute @ [part]) cs
            | None \<Rightarrow> return_io ())
      | _ \<Rightarrow> reject_symlinks absolute cs)"

definition reject_symlink_components :: "path \<Rightarrow> string \<Rightarrow> unit io" where
  "reject_symlink_components root relative = reject_symlinks root (components relative)"

definition checked_absolute_org_path :: "path \<Rightarrow> string \<Rightarrow> (string \<times> path) io" where
  "checked_absolute_org_path root file_path =
     bind_io (lift_io (normalize_relative_org_path file_path)) (\<lambda>relative.
       bind_io (reject_symlink_components root relative) (\<lambda>_.
         return_io (relative, join_root root relative)))"

text \<open>
  The search \<open>for suffix in 0..\<close>: the first number whose name is free.  The counter is an
  \<open>i32\<close>; its step is written with the wrap-around of a build without overflow checks (with
  them the loop panics where the counter would wrap), which needs 2147483647 taken names
  to be reached.  \<open>fuel\<close> bounds the number of names tried.
\<close>

definition I32_MAX :: int where
  "I32_MAX = 2147483647"

definition next_i32 :: "int \<Rightarrow> int" where
  "next_i32 k = (if k = I32_MAX then - I32_MAX - 1 else k + 1)"

fun first_free :: "(int \<Rightarrow> bool) \<Rightarrow> nat \<Rightarrow> int \<Rightarrow> int option" where
  "first_free taken 0 k = None"
| "first_free taken (Suc fuel) k =
     (if taken k then first_free taken fuel (next_i32 k) else Some k)"

definition numbered_name :: "string \<Rightarrow> string \<Rightarrow> int \<Rightarrow> string" where
  "numbered_name stem ext n =
     (if n = 0 then stem @ ''.'' @ ext else stem @ ''-'' @ show_int n @ ''.'' @ ext)"

definition next_available_path :: "nat \<Rightarrow> path \<Rightarrow> string \<Rightarrow> world \<Rightarrow> string option" where
  "next_available_path fuel root slug w =
     map_option (numbered_name slug ''org'')
       (first_free (\<lambda>n. sys_exists (join_root root (numbered_name slug ''org'' n)) w) fuel 0)"

definition parent_prefix :: "string \<Rightarrow> string" where
  "parent_prefix relative =
     (case parent_components relative of None \<Rightarrow> [] | Some [] \<Rightarrow> []
      | Some cs \<Rightarrow> join_str ''/'' (map component_str cs) @ ''/'')"

text \<open>Running out of fuel is the outcome of a search that does not end; see \<open>first_free\<close>.\<close>

definition next_available_relative_path :: "nat \<Rightarrow> path \<Rightarrow> string \<Rightarrow> string option io" where
  "next_available_relative_path fuel root file_path =
     bind_io (lift_io (normalize_relative_org_path file_path)) (\<lambda>normalized.
     bind_io (reject_symlink_components root normalized) (\<lambda>_.
     bind_io (lift_io (ok_or NoFileName (file_stem normalized))) (\<lambda>stem.
     bind_io (lift_io (ok_or NoExtension (extension normalized))) (\<lambda>ext. \<lambda>w.
       let name = (\<lambda>n. parent_prefix normalized @ numbered_name stem ext n) in
       (Ok (map_option (\<lambda>n. forward_slashes (name n))
          (first_free (\<lambda>n. sys_exists (join_root root (name n)) w) fuel 0)), w)))))"

section \<open>Slugs and titles\<close>

text \<open>
  A character outside ASCII is not alphanumeric here and becomes one dash; its bytes
  after the first add none, the dash being already there.
\<close>

fun slug_chars :: "bool \<Rightarrow> string \<Rightarrow> string" where
  "slug_chars previous_dash [] = []"
| "slug_chars previous_dash (c # s) =
     (if is_ascii_alphanumeric (ascii_lower c) then ascii_lower c # slug_chars False s
      else if previous_dash then slug_chars True s
      else CHR ''-'' # slug_chars True s)"

definition trim_dashes :: "string \<Rightarrow> string" where
  "trim_dashes s = rev (dropWhile (\<lambda>c. c = CHR ''-'') (rev (dropWhile (\<lambda>c. c = CHR ''-'') s)))"

definition slugify :: "string \<Rightarrow> string" where
  "slugify title =
     (let trimmed = trim_dashes (slug_chars False title) in
      if trimmed = [] then ''note'' else trimmed)"

definition default_capture_file_title :: "string \<Rightarrow> string \<Rightarrow> string" where
  "default_capture_file_title relative_path title =
     (if trim title \<noteq> [] then trim title
      else (case map_option (map (\<lambda>c. if c = CHR ''-'' then SP else c)) (file_stem relative_path) of
              Some stem \<Rightarrow> if trim stem \<noteq> [] then stem else ''Note''
            | None \<Rightarrow> ''Note''))"

definition normalized_head_source :: "string option \<Rightarrow> string" where
  "normalized_head_source head =
     (case head of
        Some h \<Rightarrow> if trim h \<noteq> [] then (if suffix [NL] h then h else h @ [NL]) else []
      | None \<Rightarrow> [])"

section \<open>Paths stay below the root\<close>

definition is_normal :: "component \<Rightarrow> bool" where
  "is_normal c = (case c of NormalComp _ \<Rightarrow> True | _ \<Rightarrow> False)"

lemma split_on_pieces: "\<forall>p \<in> set (split_on P s). \<forall>c \<in> set p. \<not> P c"
  by (induction s) (auto split: list.splits)

lemma split_on_pieces_subset: "p \<in> set (split_on P s) \<Longrightarrow> set p \<subseteq> set s"
proof (induction s arbitrary: p)
  case (Cons x s)
  then show ?case by (cases "split_on P s") (fastforce split: if_splits)+
qed simp

lemma normal_parts_components:
  "normal_parts cs = Ok parts \<Longrightarrow> p \<in> set parts \<Longrightarrow> NormalComp p \<in> set cs"
proof (induction cs arbitrary: parts)
  case (Cons c cs)
  then show ?case by (cases c) (auto simp: outcome_simps)
qed simp

lemma NormalComp_components:
  "NormalComp p \<in> set (components s) \<Longrightarrow>
   p \<in> set (split_on is_slash s) \<and> p \<noteq> [] \<and> p \<noteq> ''.'' \<and> p \<noteq> ''..''"
  by (auto simp: components_def component_of_part_def Let_def split: if_splits)

lemma components_of_join:
  assumes "parts \<noteq> []"
    and "\<And>p. p \<in> set parts \<Longrightarrow> p \<noteq> [] \<and> p \<noteq> ''.'' \<and> p \<noteq> ''..'' \<and> CHR ''/'' \<notin> set p"
  shows "components (join_str ''/'' parts) = map NormalComp parts"
proof -
  have split: "split_on is_slash (join_str ''/'' parts) = parts"
    using assms by (intro split_on_join) (auto simp: is_slash_def)
  obtain p ps where "parts = p # ps" using assms(1) by (cases parts) auto
  with assms(2) [of p] have "\<not> prefix ''/'' (join_str ''/'' parts)"
    by (cases p; cases ps) auto
  moreover have "hd parts \<noteq> ''.''" using assms by (cases parts) auto
  moreover have "filter (\<lambda>p. p \<noteq> [] \<and> p \<noteq> ''.'') parts = parts"
    using assms(2) by (auto intro: filter_True)
  moreover have "map component_of_part parts = map NormalComp parts"
    using assms(2) by (auto simp: component_of_part_def)
  ultimately show ?thesis
    unfolding components_def split Let_def by simp
qed

lemma normal_parts_join:
  assumes "normal_parts (components s) = Ok parts" and "parts \<noteq> []"
  shows "components (join_str ''/'' parts) = map NormalComp parts"
proof (rule components_of_join [OF assms(2)])
  fix p
  assume "p \<in> set parts"
  then have "p \<in> set (split_on is_slash s)" "p \<noteq> [] \<and> p \<noteq> ''.'' \<and> p \<noteq> ''..''"
    using normal_parts_components [OF assms(1)] NormalComp_components by blast+
  with split_on_pieces [of is_slash s] show "p \<noteq> [] \<and> p \<noteq> ''.'' \<and> p \<noteq> ''..'' \<and> CHR ''/'' \<notin> set p"
    by (auto simp: is_slash_def)
qed

lemma set_join_str: "set (join_str sep xs) \<subseteq> set sep \<union> \<Union> (set ` set xs)"
  by (induction sep xs rule: join_str.induct) auto

lemma normal_parts_chars:
  assumes "normal_parts (components s) = Ok parts"
  shows "set (join_str ''/'' parts) \<subseteq> insert (CHR ''/'') (set s)"
proof -
  have "set p \<subseteq> set s" if "p \<in> set parts" for p
    using that normal_parts_components [OF assms] NormalComp_components split_on_pieces_subset by blast
  then show ?thesis using set_join_str [of "''/''" parts] by fastforce
qed

definition plain_name :: "string \<Rightarrow> bool" where
  "plain_name n \<longleftrightarrow> n \<noteq> [] \<and> n \<noteq> ''.'' \<and> n \<noteq> ''..'' \<and> CHR ''/'' \<notin> set n"

text \<open>C22. A file path without backslashes that the writer accepts names a file below the
  slipbox root: joined to the root it only descends, through at least one name and
  never through a parent or root component, and it ends in \<open>.org\<close>.\<close>

theorem accepted_path_stays_below_root:
  assumes "normalize_relative_org_path file_path = Ok relative" and "CHR 0x5C \<notin> set file_path"
  shows "\<exists>names. names \<noteq> [] \<and> components relative = map NormalComp names \<and>
           join_root root relative = root @ names \<and> list_all plain_name names \<and>
           suffix ''.org'' relative"
proof -
  obtain parts where parts: "normal_parts (components file_path) = Ok parts"
      and ok: "forward_slashes (join_str ''/'' parts) = relative" "relative \<noteq> []" "suffix ''.org'' relative"
    using assms(1) by (auto simp: normalize_relative_org_path_def outcome_simps Let_def split: if_splits)
  have "CHR 0x5C \<notin> set (join_str ''/'' parts)"
    using normal_parts_chars [OF parts] assms(2) by auto
  with ok(1) have rel: "relative = join_str ''/'' parts" by (simp add: forward_slashes_id)
  with ok(2) have "parts \<noteq> []" by auto
  have comps: "components relative = map NormalComp parts"
    unfolding rel by (rule normal_parts_join [OF parts \<open>parts \<noteq> []\<close>])
  have "plain_name n" if "n \<in> set parts" for n
  proof -
    have "n \<in> set (split_on is_slash file_path)" "n \<noteq> [] \<and> n \<noteq> ''.'' \<and> n \<noteq> ''..''"
      using that normal_parts_components [OF parts] NormalComp_components by blast+
    with split_on_pieces [of is_slash file_path] show ?thesis by (auto simp: is_slash_def plain_name_def)
  qed
  with comps \<open>parts \<noteq> []\<close> ok(3) show ?thesis
    by (intro exI [of _ parts]) (simp add: join_root_def component_str_def comp_def list_all_iff)
qed

theorem accepted_path_stays_below_root_witness:
  "\<exists>names. names \<noteq> [] \<and> components ''a/b.org'' = map NormalComp names \<and>
     join_root [''r''] ''a/b.org'' = [''r''] @ names \<and> list_all plain_name names \<and>
     suffix ''.org'' ''a/b.org''"
proof (rule accepted_path_stays_below_root)
  show "normalize_relative_org_path ''./a/b.org'' = Ok ''a/b.org''" by code_simp
  show "CHR 0x5C \<notin> set ''./a/b.org''" by simp
qed

text \<open>The check runs before backslashes become slashes: on Unix the single file name
  \<open>..\x.org\<close> is accepted and turned into \<open>../x.org\<close>, which leaves the slipbox root, and
  the symlink check skips the parent component.\<close>

lemma backslash_path_leaves_root:
  "normalize_relative_org_path (''..'' @ [CHR 0x5C] @ ''x.org'') = Ok ''../x.org'' \<and>
   components ''../x.org'' = [ParentDir, NormalComp ''x.org''] \<and>
   fst (checked_absolute_org_path [''r''] (''..'' @ [CHR 0x5C] @ ''x.org'')
     \<lparr>w_fs = Map.empty, w_faults = [], w_counter = 0, w_default_mode = 420\<rparr>) =
   Ok (''../x.org'', [''r'', ''..'', ''x.org''])"
proof (intro conjI)
  show "normalize_relative_org_path (''..'' @ [CHR 0x5C] @ ''x.org'') = Ok ''../x.org''" by code_simp
  show "components ''../x.org'' = [ParentDir, NormalComp ''x.org'']" by code_simp
  show "fst (checked_absolute_org_path [''r''] (''..'' @ [CHR 0x5C] @ ''x.org'')
     \<lparr>w_fs = Map.empty, w_faults = [], w_counter = 0, w_default_mode = 420\<rparr>) =
   Ok (''../x.org'', [''r'', ''..'', ''x.org''])" by code_simp
qed

section \<open>Free names\<close>

lemma first_free_reaches:
  "(\<forall>m. k \<le> m \<and> m < k + int j \<longrightarrow> taken m) \<Longrightarrow> \<not> taken (k + int j) \<Longrightarrow> k + int j \<le> I32_MAX \<Longrightarrow>
   first_free taken (Suc j) k = Some (k + int j)"
proof (induction j arbitrary: k)
  case (Suc j)
  from Suc.prems have here: "taken k" and room: "k \<noteq> I32_MAX" by auto
  have "first_free taken (Suc j) (k + 1) = Some (k + 1 + int j)"
    by (rule Suc.IH) (use Suc.prems in \<open>auto simp: algebra_simps\<close>)
  with here room show ?case by (simp add: next_i32_def algebra_simps)
qed simp

lemma numbered_name_inj:
  "0 \<le> m \<Longrightarrow> 0 \<le> n \<Longrightarrow> numbered_name stem ext m = numbered_name stem ext n \<longleftrightarrow> m = n"
proof -
  assume nonneg: "0 \<le> m" "0 \<le> n"
  have "stem @ CHR ''.'' # ext \<noteq> stem @ CHR ''-'' # show_nat k @ CHR ''.'' # ext" for k by simp
  with nonneg show ?thesis by (auto simp: numbered_name_def show_int_def show_nat_inj)
qed

lemma show_int_no_slash: "CHR ''/'' \<notin> set (show_int n)"
  using show_nat_set [of "CHR ''/''"] by (auto simp: show_int_def is_ascii_digit_def)

lemma components_single: "plain_name s \<Longrightarrow> components s = [NormalComp s]"
  using components_of_join [of "[s]"] by (simp add: plain_name_def)

lemma numbered_name_plain: "CHR ''/'' \<notin> set slug \<Longrightarrow> plain_name (numbered_name slug ''org'' n)"
  using show_int_no_slash by (auto simp: plain_name_def numbered_name_def append_eq_Cons_conv)

lemma exists_domain: "sys_exists p w \<Longrightarrow> p \<in> dom (w_fs w)"
  by (auto simp: sys_exists_def split: option.splits)

text \<open>Different numbers name different files, so not all of the first names are taken.\<close>

lemma some_name_free:
  assumes "finite (dom (w_fs w))" and "CHR ''/'' \<notin> set slug"
  shows "\<exists>j\<le>card (dom (w_fs w)). \<not> sys_exists (join_root root (numbered_name slug ''org'' (int j))) w"
proof (rule ccontr)
  let ?path = "\<lambda>j. join_root root (numbered_name slug ''org'' (int j))"
  assume none: "\<not> ?thesis"
  have "?path j = root @ [numbered_name slug ''org'' (int j)]" for j
    by (simp add: join_root_def components_single [OF numbered_name_plain [OF assms(2)]] component_str_def)
  then have "inj_on ?path {..card (dom (w_fs w))}"
    by (simp add: inj_on_def numbered_name_inj)
  moreover have "?path ` {..card (dom (w_fs w))} \<subseteq> dom (w_fs w)"
    using none exists_domain by blast
  ultimately have "card {..card (dom (w_fs w))} \<le> card (dom (w_fs w))"
    by (rule card_inj_on_le [OF _ _ assms(1)])
  then show False by simp
qed

text \<open>C29. On a file system with fewer than 2147483647 entries (the \<open>i32\<close> counter cannot
  overflow) the search for a free file name ends, and it returns the name with the least
  number that is not taken.\<close>

theorem next_available_path_finds_free:
  assumes "finite (dom (w_fs w))" and "card (dom (w_fs w)) < 2147483647" and "CHR ''/'' \<notin> set slug"
  shows "\<exists>fuel n. 0 \<le> n \<and> n < I32_MAX \<and>
     next_available_path fuel root slug w = Some (numbered_name slug ''org'' n) \<and>
     \<not> sys_exists (join_root root (numbered_name slug ''org'' n)) w \<and>
     (\<forall>m. 0 \<le> m \<and> m < n \<longrightarrow> sys_exists (join_root root (numbered_name slug ''org'' m)) w)"
proof -
  let ?taken = "\<lambda>n. sys_exists (join_root root (numbered_name slug ''org'' n)) w"
  obtain k where k: "k \<le> card (dom (w_fs w))" "\<not> ?taken (int k)"
    using some_name_free [OF assms(1,3)] by blast
  define j where "j = (LEAST j. \<not> ?taken (int j))"
  have first: "\<not> ?taken (int j)" unfolding j_def by (rule LeastI) (rule k(2))
  have bound: "j \<le> card (dom (w_fs w))"
    using Least_le [of "\<lambda>j. \<not> ?taken (int j)", OF k(2)] k(1) unfolding j_def by (rule le_trans)
  have below: "?taken (int i)" if "i < j" for i
    using not_less_Least [OF that [unfolded j_def]] by simp
  have before: "\<forall>m. 0 \<le> m \<and> m < int j \<longrightarrow> ?taken m"
    using below by (auto elim: nonneg_int_cases)
  have small: "int j < I32_MAX" using bound assms(2) by (simp add: I32_MAX_def)
  have "first_free ?taken (Suc j) 0 = Some (int j)"
    using first_free_reaches [of 0 j ?taken] before first small by simp
  then have "next_available_path (Suc j) root slug w = Some (numbered_name slug ''org'' (int j))"
    by (simp add: next_available_path_def)
  with first before small show ?thesis by (intro exI [of _ "Suc j"] exI [of _ "int j"]) simp
qed

definition one_file_world :: world where
  "one_file_world = \<lparr>w_fs = [[''r'', ''a.org''] \<mapsto> FileEntry [] 420], w_faults = [], w_counter = 0,
     w_default_mode = 420\<rparr>"

theorem next_available_path_finds_free_witness:
  "\<exists>fuel n. next_available_path fuel [''r''] ''a'' one_file_world = Some (numbered_name ''a'' ''org'' n) \<and> 0 < n"
proof -
  have "\<exists>fuel n. 0 \<le> n \<and> n < I32_MAX \<and>
     next_available_path fuel [''r''] ''a'' one_file_world = Some (numbered_name ''a'' ''org'' n) \<and>
     \<not> sys_exists (join_root [''r''] (numbered_name ''a'' ''org'' n)) one_file_world \<and>
     (\<forall>m. 0 \<le> m \<and> m < n \<longrightarrow> sys_exists (join_root [''r''] (numbered_name ''a'' ''org'' m)) one_file_world)"
    by (rule next_available_path_finds_free) (simp_all add: one_file_world_def)
  moreover have "sys_exists (join_root [''r''] (numbered_name ''a'' ''org'' 0)) one_file_world" by code_simp
  ultimately show ?thesis by (metis order_le_less)
qed

section \<open>Slugs\<close>

definition slug_letter :: "char \<Rightarrow> bool" where
  "slug_letter c \<longleftrightarrow> is_ascii_alphanumeric c \<and> \<not> is_ascii_upper c"

fun slug_shape :: "bool \<Rightarrow> string \<Rightarrow> bool" where
  "slug_shape previous_dash [] = True"
| "slug_shape previous_dash (c # s) =
     (if c = CHR ''-'' then \<not> previous_dash \<and> slug_shape True s
      else slug_letter c \<and> slug_shape False s)"

text \<open>Lower-case words joined by single dashes.\<close>

definition is_slug :: "string \<Rightarrow> bool" where
  "is_slug s \<longleftrightarrow> s \<noteq> [] \<and> slug_shape True s \<and> last s \<noteq> CHR ''-''"

lemma dash_not_alphanumeric: "\<not> is_ascii_alphanumeric (CHR ''-'')" "ascii_lower (CHR ''-'') = CHR ''-''"
  by (simp_all add: is_ascii_alphanumeric_def is_ascii_digit_def is_ascii_upper_def is_ascii_lower_def
      ascii_lower_def)

lemma slug_letter_lower: "slug_letter c \<Longrightarrow> ascii_lower c = c"
  by (simp add: slug_letter_def ascii_lower_def)

lemma slug_chars_shape: "slug_shape b (slug_chars b s)"
  by (induction b s rule: slug_chars.induct)
    (auto simp: slug_letter_def ascii_lower_not_upper dash_not_alphanumeric)

lemma slug_chars_id: "slug_shape b s \<Longrightarrow> slug_chars b s = s"
  by (induction b s rule: slug_shape.induct)
    (auto simp: slug_letter_lower dash_not_alphanumeric slug_letter_def split: if_splits)

lemma slug_shape_weaken: "slug_shape True s \<Longrightarrow> slug_shape b s"
  by (cases s) (auto split: if_splits)

lemma slug_shape_append: "slug_shape b (x @ y) \<Longrightarrow> slug_shape b x"
  by (induction b x rule: slug_shape.induct) (auto split: if_splits)

lemma slug_shape_drop: "slug_shape b s \<Longrightarrow> slug_shape True (dropWhile (\<lambda>c. c = CHR ''-'') s)"
  by (induction b s rule: slug_shape.induct) auto

lemma trim_dashes_end: "trim_dashes s \<noteq> [] \<Longrightarrow> last (trim_dashes s) \<noteq> CHR ''-''"
  unfolding trim_dashes_def by (metis (full_types) hd_dropWhile last_rev rev_is_Nil_conv)

lemma trim_dashes_shape:
  assumes "slug_shape b s"
  shows "slug_shape True (trim_dashes s)"
proof -
  let ?front = "dropWhile (\<lambda>c. c = CHR ''-'') s"
  have "rev (rev ?front) = rev (dropWhile (\<lambda>c. c = CHR ''-'') (rev ?front)) @
      rev (takeWhile (\<lambda>c. c = CHR ''-'') (rev ?front))"
    by (metis rev_append takeWhile_dropWhile_id)
  with slug_shape_drop [OF assms] slug_shape_append show ?thesis
    unfolding trim_dashes_def by (metis rev_rev_ident)
qed

lemma trim_dashes_id: "is_slug s \<Longrightarrow> trim_dashes s = s"
proof -
  assume slug: "is_slug s"
  then have "hd s \<noteq> CHR ''-''" by (cases s) (auto simp: is_slug_def split: if_splits)
  with slug have front: "dropWhile (\<lambda>c. c = CHR ''-'') s = s"
    by (cases s) (auto simp: is_slug_def)
  from slug have "rev s \<noteq> []" "hd (rev s) \<noteq> CHR ''-''"
    by (simp_all add: is_slug_def hd_rev)
  then have "dropWhile (\<lambda>c. c = CHR ''-'') (rev s) = rev s"
    by (cases "rev s") auto
  with front show ?thesis by (simp add: trim_dashes_def)
qed

lemma slugify_cases:
  "slugify title = (if trim_dashes (slug_chars False title) = [] then ''note''
     else trim_dashes (slug_chars False title))"
  by (simp only: slugify_def Let_def)

lemma slugify_is_slug: "is_slug (slugify title)"
proof (cases "trim_dashes (slug_chars False title) = []")
  case True
  have "is_slug ''note''" by code_simp
  then show ?thesis unfolding slugify_cases if_P [OF True] .
next
  case False
  then show ?thesis
    unfolding slugify_cases if_not_P [OF False] is_slug_def
    using trim_dashes_shape [OF slug_chars_shape] trim_dashes_end by blast
qed

lemma slugify_fixed:
  assumes "is_slug s"
  shows "slugify s = s"
proof -
  have "slug_chars False s = s"
    using assms by (simp add: is_slug_def slug_chars_id [OF slug_shape_weaken])
  moreover have "s \<noteq> []" using assms by (simp add: is_slug_def)
  ultimately show ?thesis by (simp add: slugify_cases trim_dashes_id [OF assms])
qed

text \<open>C33. Whatever the title, its slug is a non-empty run of lower-case ASCII words joined
  by single dashes, with no dash at either end, and slugs are fixed points of
  \<open>slugify\<close>.\<close>

theorem slugify_shape: "is_slug (slugify title) \<and> slugify (slugify title) = slugify title"
  by (rule conjI [OF slugify_is_slug slugify_fixed [OF slugify_is_slug]])

end
