(* ===== verification/WriteOutline.thy ===== *)
theory WriteOutline
  imports OrgIndex FileSystem
begin

text \<open>
  The document model of the writer, \<open>crates/slipbox-write/src/document.rs\<close>,
  \<open>document/blocks.rs\<close> and \<open>document/outline.rs\<close>: a source as a vector of lines,
  its headings, subtrees, body bounds and outline paths.  Byte slices that can fall
  off a character boundary are outcomes with a \<open>Panic\<close> branch.
\<close>

section \<open>Headings\<close>

definition heading_level :: "string \<Rightarrow> nat option" where
  "heading_level line =
     (let trimmed = trim_start line; stars = star_count trimmed in
      if stars = 0 \<or> ws_len (drop stars trimmed) = 0 then None else Some stars)"

definition is_heading :: "string \<Rightarrow> bool" where
  "is_heading line \<longleftrightarrow> heading_level line \<noteq> None"

definition level_at_most :: "nat \<Rightarrow> string \<Rightarrow> bool" where
  "level_at_most level line = (case heading_level line of None \<Rightarrow> False | Some c \<Rightarrow> c \<le> level)"

definition level_above :: "nat \<Rightarrow> string \<Rightarrow> bool" where
  "level_above level line = (case heading_level line of None \<Rightarrow> False | Some c \<Rightarrow> level < c)"

definition doc_looks_like_todo_keyword :: "string \<Rightarrow> bool" where
  "doc_looks_like_todo_keyword token \<longleftrightarrow>
     token \<in> set [''TODO'', ''DONE'', ''NEXT'', ''WAITING'', ''STARTED'', ''CANCELLED'', ''HOLD'']"

definition doc_split_todo_keyword :: "string \<Rightarrow> string option \<times> string" where
  "doc_split_todo_keyword input =
     (case split_once '' '' input of
        None \<Rightarrow> (None, input)
      | Some (first, rest) \<Rightarrow>
          if doc_looks_like_todo_keyword first then (Some first, trim_start rest) else (None, input))"

definition doc_parse_colon_tags :: "string \<Rightarrow> string list" where
  "doc_parse_colon_tags input =
     (let trimmed = trim input in
      if \<not> prefix '':'' trimmed \<or> \<not> suffix '':'' trimmed then []
      else filter (\<lambda>part. \<not> has_ws part)
             (filter (\<lambda>part. part \<noteq> []) (split_on (\<lambda>c. c = CHR '':'') trimmed)))"

definition dedup_strings :: "string list \<Rightarrow> string list" where
  "dedup_strings values =
     foldl (\<lambda>unique value. if value \<noteq> [] \<and> value \<notin> set unique then unique @ [value] else unique)
       [] values"

definition doc_split_heading_tags :: "string \<Rightarrow> string \<times> string list" where
  "doc_split_heading_tags input =
     (case rfind_sub '' :'' input of
        None \<Rightarrow> (trim input, [])
      | Some position \<Rightarrow>
          let title = take position input;
              tags = doc_parse_colon_tags (drop (position + 1) input)
          in if tags = [] then (trim input, []) else (trim_end title, dedup_strings tags))"

definition format_colon_tags :: "string list \<Rightarrow> string" where
  "format_colon_tags values = '':'' @ join_str '':'' values @ '':''"

definition format_heading_line :: "nat \<Rightarrow> string \<Rightarrow> string list \<Rightarrow> string" where
  "format_heading_line level title tags =
     (if tags = [] then star_str level @ '' '' @ title
      else star_str level @ '' '' @ title @ '' '' @ format_colon_tags tags)"

text \<open>\<open>trimmed[level + 1..].trim()\<close>: what follows the stars and one byte of white space.\<close>

definition heading_text :: "string \<Rightarrow> nat \<Rightarrow> string result" where
  "heading_text line level = map_out trim (slice_from (trim_start line) (level + 1))"

definition heading_title :: "string \<Rightarrow> string option result" where
  "heading_title line =
     (case heading_level line of None \<Rightarrow> Ok None
      | Some level \<Rightarrow>
          bind_out (heading_text line level) (\<lambda>text.
            let title = trim (snd (doc_split_todo_keyword (fst (doc_split_heading_tags text))))
            in Ok (if title = [] then None else Some title)))"

definition is_heading_planning_line :: "string \<Rightarrow> bool" where
  "is_heading_planning_line line \<longleftrightarrow>
     prefix ''SCHEDULED:'' (trim_start line) \<or> prefix ''DEADLINE:'' (trim_start line) \<or>
     prefix ''CLOSED:'' (trim_start line)"

section \<open>Shifting levels\<close>

text \<open>The rewritten heading keeps everything after its stars.\<close>

definition with_level :: "(nat \<Rightarrow> nat) \<Rightarrow> string \<Rightarrow> string" where
  "with_level new line =
     (case heading_level line of None \<Rightarrow> line
      | Some level \<Rightarrow> star_str (new level) @ drop level (trim_start line))"

definition promote_subtree_lines :: "string list \<Rightarrow> string list" where
  "promote_subtree_lines lines = map (with_level (\<lambda>level. max (level - 1) 1)) lines"

definition demote_all_headings :: "string list \<Rightarrow> string list" where
  "demote_all_headings lines = map (with_level (\<lambda>level. level + 1)) lines"

definition shift_subtree_levels :: "string list \<Rightarrow> nat \<Rightarrow> string list result" where
  "shift_subtree_levels lines desired_root_level =
     (case (case lines of [] \<Rightarrow> None | line # _ \<Rightarrow> heading_level line) of
        None \<Rightarrow> Err SubtreeWithoutHeading
      | Some current_root_level \<Rightarrow>
          let delta = int desired_root_level - int current_root_level in
          Ok (map (with_level (\<lambda>level. nat (max (int level + delta) 1))) lines))"

section \<open>Documents\<close>

record OrgDocument =
  doc_lines :: "string list"
  had_trailing_newline :: bool

definition from_source :: "string \<Rightarrow> OrgDocument" where
  "from_source source =
     \<lparr>doc_lines = lines_of source, had_trailing_newline = suffix [NL] source\<rparr>"

definition render_lines :: "string list \<Rightarrow> bool \<Rightarrow> string" where
  "render_lines lines had_newline =
     (let rendered = join_str [NL] lines in
      if (had_newline \<or> \<not> suffix [NL] rendered) \<and> rendered \<noteq> [] then rendered @ [NL] else rendered)"

definition render :: "OrgDocument \<Rightarrow> string" where
  "render d = (if doc_lines d = [] then [] else render_lines (doc_lines d) (had_trailing_newline d))"

definition has_meaningful_content :: "OrgDocument \<Rightarrow> bool" where
  "has_meaningful_content d \<longleftrightarrow> list_ex (\<lambda>line. trim line \<noteq> []) (doc_lines d)"

section \<open>Blocks\<close>

fun blanks_at_head :: "string list \<Rightarrow> nat" where
  "blanks_at_head [] = 0"
| "blanks_at_head (line # rest) = (if trim line = [] then Suc (blanks_at_head rest) else 0)"

definition count_blank_lines_before :: "string list \<Rightarrow> nat \<Rightarrow> nat" where
  "count_blank_lines_before lines index = blanks_at_head (rev (take index lines))"

definition count_blank_lines_after :: "string list \<Rightarrow> nat \<Rightarrow> nat" where
  "count_blank_lines_after lines index = blanks_at_head (drop index lines)"

text \<open>Returns the line number of the block's first line; an index past the end panics.\<close>

definition insert_block ::
  "OrgDocument \<Rightarrow> nat \<Rightarrow> string list \<Rightarrow> nat \<Rightarrow> nat \<Rightarrow> (OrgDocument \<times> nat) result" where
  "insert_block d index block blank_lines_before blank_lines_after =
     (if length (doc_lines d) < index then Panic
      else
        let add_before = blank_lines_before - count_blank_lines_before (doc_lines d) index;
            add_after = blank_lines_after - count_blank_lines_after (doc_lines d) index;
            insertion = replicate add_before [] @ block @ replicate add_after []
        in Ok (d\<lparr>doc_lines := splice_at index insertion (doc_lines d)\<rparr>, index + add_before + 1))"

definition remove_lines :: "OrgDocument \<Rightarrow> nat \<Rightarrow> nat \<Rightarrow> OrgDocument result" where
  "remove_lines d start end =
     (if end < start \<or> length (doc_lines d) < end then Panic
      else Ok (d\<lparr>doc_lines := remove_range start end (doc_lines d)\<rparr>))"

definition insert_subtree :: "OrgDocument \<Rightarrow> nat \<Rightarrow> NodeKind \<Rightarrow> string list \<Rightarrow> OrgDocument result" where
  "insert_subtree d index target_kind subtree =
     (let needs_blank = (target_kind = FileNode \<and> 0 < index \<and>
            (case get_opt (doc_lines d) (index - 1) of None \<Rightarrow> False | Some line \<Rightarrow> trim line \<noteq> []));
          block = (if needs_blank then [] # subtree else subtree)
      in if length (doc_lines d) < index then Panic
         else Ok (d\<lparr>doc_lines := splice_at index block (doc_lines d)\<rparr>))"

section \<open>Subtrees and body bounds\<close>

definition heading_index :: "string list \<Rightarrow> nat \<Rightarrow> nat result" where
  "heading_index lines line_number =
     (if line_number = 0 \<or> length lines < line_number then Err (HeadingOutOfRange line_number)
      else if \<not> is_heading (lines ! (line_number - 1)) then Err (NotAHeading line_number)
      else Ok (line_number - 1))"

definition subtree_end_from :: "string list \<Rightarrow> nat \<Rightarrow> nat \<Rightarrow> nat" where
  "subtree_end_from lines start level =
     (case find_index_from (level_at_most level) (start + 1) (length lines) lines of
        None \<Rightarrow> length lines | Some index \<Rightarrow> index)"

definition subtree_range :: "string list \<Rightarrow> nat \<Rightarrow> (nat \<times> nat) result" where
  "subtree_range lines line_number =
     bind_out (heading_index lines line_number) (\<lambda>start.
       bind_out (ok_or HeadingLineInvalid (heading_level (lines ! start))) (\<lambda>level.
         Ok (start, subtree_end_from lines start level)))"

definition insertion_index :: "string list \<Rightarrow> NodeRecord \<Rightarrow> nat result" where
  "insertion_index lines target =
     (case nd_kind target of
        FileNode \<Rightarrow> Ok (length lines)
      | HeadingNode \<Rightarrow>
          bind_out (heading_index lines (nd_line target)) (\<lambda>start.
            Ok (subtree_end_from lines start (nd_level target))))"

definition is_drawer_start :: "string \<Rightarrow> bool" where
  "is_drawer_start line \<longleftrightarrow> eq_ignore_case (trim line) '':PROPERTIES:''"

definition is_drawer_end :: "string \<Rightarrow> bool" where
  "is_drawer_end line \<longleftrightarrow> eq_ignore_case (trim line) '':END:''"

definition is_blank :: "string \<Rightarrow> bool" where
  "is_blank line \<longleftrightarrow> trim line = []"

definition is_keyword_line :: "string \<Rightarrow> bool" where
  "is_keyword_line line \<longleftrightarrow> prefix ''#+'' (trim_start line)"

definition heading_body_start_index :: "string list \<Rightarrow> nat \<Rightarrow> nat result" where
  "heading_body_start_index lines line_number =
     bind_out (heading_index lines line_number) (\<lambda>heading.
       let start = heading + 1;
           after_drawer =
             (if start < length lines \<and> is_drawer_start (lines ! start) then
                let close = skip_while_from (\<lambda>l. \<not> is_drawer_end l) (start + 1) lines
                in if close < length lines then close + 1 else close
              else start);
           after_planning = skip_while_from is_heading_planning_line after_drawer lines
       in Ok (skip_while_from is_blank after_planning lines))"

definition heading_body_bounds :: "string list \<Rightarrow> nat \<Rightarrow> nat \<Rightarrow> (nat \<times> nat) result" where
  "heading_body_bounds lines line_number level =
     bind_out (heading_body_start_index lines line_number) (\<lambda>start.
       bind_out (subtree_range lines line_number) (\<lambda>(subtree_start, subtree_end).
         let search_start = max start (subtree_start + 1) in
         Ok (start, case find_index_from (level_above level) search_start subtree_end lines of
                      None \<Rightarrow> subtree_end | Some index \<Rightarrow> index)))"

definition heading_entry_insert_index :: "string list \<Rightarrow> nat \<Rightarrow> nat \<Rightarrow> bool \<Rightarrow> nat result" where
  "heading_entry_insert_index lines line_number level prepend =
     bind_out (subtree_range lines line_number) (\<lambda>(_, subtree_end).
       if \<not> prepend then Ok subtree_end
       else bind_out (heading_body_bounds lines line_number level) (\<lambda>(body_start, _).
         Ok (case find_index_from (level_above level) body_start subtree_end lines of
               None \<Rightarrow> subtree_end | Some index \<Rightarrow> index)))"

section \<open>Outline paths\<close>

definition insert_outline_heading :: "string list \<Rightarrow> nat \<Rightarrow> nat \<Rightarrow> string \<Rightarrow> string list \<times> nat" where
  "insert_outline_heading lines index level title =
     (let needs_blank = (0 < index \<and>
            (case get_opt lines (index - 1) of None \<Rightarrow> False | Some line \<Rightarrow> trim line \<noteq> []));
          heading = format_heading_line level title []
      in (splice_at index (if needs_blank then [[], heading] else [heading]) lines,
          index + (if needs_blank then 1 else 0)))"

fun scan_children ::
  "string list \<Rightarrow> nat \<Rightarrow> string \<Rightarrow> nat list \<Rightarrow> nat option \<Rightarrow> nat option result" where
  "scan_children lines wanted heading [] found = Ok found"
| "scan_children lines wanted heading (i # is) found =
     (if heading_level (lines ! i) = Some wanted then
        bind_out (heading_title (lines ! i)) (\<lambda>title.
          if title = Some heading then
            (if found \<noteq> None then Err (HeadingNotUnique wanted heading)
             else scan_children lines wanted heading is (Some i))
          else scan_children lines wanted heading is found)
      else scan_children lines wanted heading is found)"

fun outline_path_loop ::
  "string list \<Rightarrow> nat \<Rightarrow> nat \<Rightarrow> nat \<Rightarrow> (nat \<times> nat) option \<Rightarrow> string list \<Rightarrow>
   (string list \<times> (nat \<times> nat) option) result" where
  "outline_path_loop lines parent_start parent_end parent_level current [] = Ok (lines, current)"
| "outline_path_loop lines parent_start parent_end parent_level current (heading # path) =
     bind_out (scan_children lines (parent_level + 1) heading
         [parent_start..<min parent_end (length lines)] None) (\<lambda>found.
       case (case found of Some index \<Rightarrow> (lines, index)
             | None \<Rightarrow> insert_outline_heading lines parent_end (parent_level + 1) heading) of
         (lines', index) \<Rightarrow>
           bind_out (subtree_range lines' (index + 1)) (\<lambda>(_, subtree_end).
             outline_path_loop lines' index subtree_end (parent_level + 1)
               (Some (index + 1, parent_level + 1)) path))"

definition ensure_outline_path ::
  "string list \<Rightarrow> string list \<Rightarrow> (string list \<times> (nat \<times> nat) option) result" where
  "ensure_outline_path lines outline_path =
     (if outline_path = [] then Ok (lines, None)
      else outline_path_loop lines 0 (length lines) 0 None outline_path)"

section \<open>Promotable buffers\<close>

definition h1_count :: "string list \<Rightarrow> nat" where
  "h1_count lines = length (filter (\<lambda>line. heading_level line = Some 1) lines)"

definition buffer_promoteable_p :: "string list \<Rightarrow> bool" where
  "buffer_promoteable_p lines \<longleftrightarrow>
     h1_count lines = 1 \<and> (case lines of [] \<Rightarrow> False | line # _ \<Rightarrow> heading_level line = Some 1)"

end
