(* ===== verification/WriteProperties.thy ===== *)
theory WriteProperties
  imports WriteOutline WritePath
begin

text \<open>
  Property drawers and file keywords of a document,
  \<open>crates/slipbox-write/src/document/properties.rs\<close>, and the whole-document
  operations of \<open>document.rs\<close> that use them.  The search for a key runs over the lines
  in order and panics at the first line whose prefix of the key's length ends inside
  a character.
\<close>

section \<open>Keys\<close>

definition write_strip_keyword :: "string \<Rightarrow> string \<Rightarrow> string option result" where
  "write_strip_keyword line keyword =
     (if length line < length keyword then Ok None
      else bind_out (slice_to line (length keyword)) (\<lambda>pre.
        if eq_ignore_case pre keyword then map_out Some (slice_from line (length keyword))
        else Ok None))"

definition property_line :: "string \<Rightarrow> string \<Rightarrow> string" where
  "property_line property value = '':'' @ property @ '': '' @ value"

definition property_key :: "string \<Rightarrow> string" where
  "property_key property = '':'' @ property @ '':''"

definition keyword_key :: "string \<Rightarrow> string" where
  "keyword_key keyword = ''#+'' @ keyword @ '':''"

definition keyword_line :: "string \<Rightarrow> string \<Rightarrow> string" where
  "keyword_line keyword value = ''#+'' @ lower_str keyword @ '': '' @ value"

text \<open>The first of the indices whose line carries the key, with the rest of that line.\<close>

fun find_key ::
  "(string \<Rightarrow> string) \<Rightarrow> string list \<Rightarrow> string \<Rightarrow> nat list \<Rightarrow> (nat \<times> string) option result" where
  "find_key norm lines key [] = Ok None"
| "find_key norm lines key (i # is) =
     bind_out (write_strip_keyword (norm (lines ! i)) key) (\<lambda>found.
       case found of Some value \<Rightarrow> Ok (Some (i, value)) | None \<Rightarrow> find_key norm lines key is)"

section \<open>Positions in the file's metadata\<close>

definition drawer_bounds_at :: "string list \<Rightarrow> nat \<Rightarrow> (nat \<times> nat) option" where
  "drawer_bounds_at lines index =
     (if index < length lines \<and> is_drawer_start (lines ! index) then
        (case find_index_from is_drawer_end (index + 1) (length lines) lines of
           None \<Rightarrow> None | Some end \<Rightarrow> Some (index, end + 1))
      else None)"

definition file_property_insert_index :: "string list \<Rightarrow> nat" where
  "file_property_insert_index lines = skip_while_from is_blank 0 lines"

definition file_keyword_insert_index :: "string list \<Rightarrow> nat" where
  "file_keyword_insert_index lines =
     (let index = file_property_insert_index lines;
          after = (case drawer_bounds_at lines index of None \<Rightarrow> index
                   | Some (_, end) \<Rightarrow> skip_while_from is_blank end lines)
      in skip_while_from is_keyword_line after lines)"

definition file_property_drawer_bounds :: "string list \<Rightarrow> (nat \<times> nat) option" where
  "file_property_drawer_bounds lines =
     (case drawer_bounds_at lines (file_property_insert_index lines) of
        Some bounds \<Rightarrow> Some bounds
      | None \<Rightarrow> drawer_bounds_at lines
                  (skip_while_from is_blank (file_keyword_insert_index lines) lines))"

definition file_metadata_end_index :: "string list \<Rightarrow> nat" where
  "file_metadata_end_index lines =
     (let i0 = file_property_insert_index lines;
          i1 = (case drawer_bounds_at lines i0 of None \<Rightarrow> i0 | Some (_, end) \<Rightarrow> end);
          i2 = skip_while_from is_blank i1 lines;
          i3 = skip_while_from is_keyword_line i2 lines;
          i4 = skip_while_from is_blank i3 lines
      in (case drawer_bounds_at lines i4 of None \<Rightarrow> i4
          | Some (_, end) \<Rightarrow> skip_while_from is_blank end lines))"

definition file_keyword_limit :: "string list \<Rightarrow> nat" where
  "file_keyword_limit lines =
     (case find_index_from is_heading 0 (length lines) lines of None \<Rightarrow> length lines | Some i \<Rightarrow> i)"

definition heading_property_drawer_bounds :: "string list \<Rightarrow> nat \<Rightarrow> (nat \<times> nat) option" where
  "heading_property_drawer_bounds lines heading = drawer_bounds_at lines (heading + 1)"

section \<open>Reading\<close>

definition drawer_find :: "string list \<Rightarrow> nat \<times> nat \<Rightarrow> string \<Rightarrow> (nat \<times> string) option result" where
  "drawer_find lines bounds property =
     find_key trim lines (property_key property) [fst bounds + 1..<snd bounds - 1]"

definition file_property_value :: "string list \<Rightarrow> string \<Rightarrow> string option result" where
  "file_property_value lines property =
     (case file_property_drawer_bounds lines of None \<Rightarrow> Ok None
      | Some bounds \<Rightarrow> map_out (map_option (\<lambda>h. trim (snd h))) (drawer_find lines bounds property))"

definition heading_property_value_at :: "string list \<Rightarrow> nat \<Rightarrow> string \<Rightarrow> string option result" where
  "heading_property_value_at lines heading property =
     (case heading_property_drawer_bounds lines heading of None \<Rightarrow> Ok None
      | Some bounds \<Rightarrow> map_out (map_option (\<lambda>h. trim (snd h))) (drawer_find lines bounds property))"

definition heading_property_value :: "string list \<Rightarrow> nat \<Rightarrow> string \<Rightarrow> string option result" where
  "heading_property_value lines line_number property =
     bind_out (heading_index lines line_number)
       (\<lambda>heading. heading_property_value_at lines heading property)"

definition file_keyword_value :: "string list \<Rightarrow> string \<Rightarrow> string option result" where
  "file_keyword_value lines keyword =
     map_out (map_option (\<lambda>h. trim (snd h)))
       (find_key trim_start lines (keyword_key keyword) [0..<file_keyword_limit lines])"

definition filetags :: "string list \<Rightarrow> string list result" where
  "filetags lines =
     map_out (\<lambda>v. case v of None \<Rightarrow> [] | Some value \<Rightarrow> doc_parse_colon_tags value)
       (file_keyword_value lines ''filetags'')"

section \<open>Writing\<close>

text \<open>
  Inside an existing drawer: replace the value, remove the line (and the drawer, when
  that was its only line), or add a line before the end of the drawer.
\<close>

definition drawer_set ::
  "string list \<Rightarrow> nat \<times> nat \<Rightarrow> string \<Rightarrow> string option \<Rightarrow> string list result" where
  "drawer_set lines bounds property value =
     map_out (\<lambda>found. case (found, value) of
         (Some (i, _), Some v) \<Rightarrow> lines[i := property_line property v]
       | (Some (i, _), None) \<Rightarrow>
           let rest = remove_at i lines in
           if fst bounds + 1 = snd bounds - 2 then remove_range (fst bounds) (fst bounds + 2) rest
           else rest
       | (None, Some v) \<Rightarrow> splice_at (snd bounds - 1) [property_line property v] lines
       | (None, None) \<Rightarrow> lines)
       (drawer_find lines bounds property)"

definition new_drawer :: "string \<Rightarrow> string \<Rightarrow> string list" where
  "new_drawer property v = ['':PROPERTIES:'', property_line property v, '':END:'']"

definition set_file_property :: "string list \<Rightarrow> string \<Rightarrow> string option \<Rightarrow> string list result" where
  "set_file_property lines property value =
     (case file_property_drawer_bounds lines of
        Some bounds \<Rightarrow> drawer_set lines bounds property value
      | None \<Rightarrow>
          (case value of None \<Rightarrow> Ok lines
           | Some v \<Rightarrow>
               let index = file_property_insert_index lines;
                   pad = (index = length lines \<or>
                     (\<not> is_blank (lines ! index) \<and> \<not> is_keyword_line (lines ! index)))
               in Ok (splice_at index (new_drawer property v @ (if pad then [[]] else [])) lines)))"

definition ensure_heading_property_value ::
  "string list \<Rightarrow> nat \<Rightarrow> string \<Rightarrow> string option \<Rightarrow> string list result" where
  "ensure_heading_property_value lines heading property value =
     (if length lines \<le> heading \<or> \<not> is_heading (lines ! heading)
      then Err (HeadingOutOfRange (heading + 1))
      else
        (case heading_property_drawer_bounds lines heading of
           Some bounds \<Rightarrow> drawer_set lines bounds property value
         | None \<Rightarrow>
             (case value of None \<Rightarrow> Ok lines
              | Some v \<Rightarrow> Ok (splice_at (heading + 1) (new_drawer property v) lines))))"

definition set_heading_property ::
  "string list \<Rightarrow> nat \<Rightarrow> string \<Rightarrow> string option \<Rightarrow> string list result" where
  "set_heading_property lines line_number property value =
     bind_out (heading_index lines line_number)
       (\<lambda>heading. ensure_heading_property_value lines heading property value)"

definition set_file_keyword :: "string list \<Rightarrow> string \<Rightarrow> string option \<Rightarrow> string list result" where
  "set_file_keyword lines keyword value =
     map_out (\<lambda>found. case (found, value) of
         (Some (i, _), Some v) \<Rightarrow> lines[i := keyword_line keyword v]
       | (Some (i, _), None) \<Rightarrow> remove_at i lines
       | (None, Some v) \<Rightarrow> splice_at (file_keyword_insert_index lines) [keyword_line keyword v] lines
       | (None, None) \<Rightarrow> lines)
       (find_key trim_start lines (keyword_key keyword) [0..<file_keyword_limit lines])"

definition remove_file_keyword :: "string list \<Rightarrow> string \<Rightarrow> string list result" where
  "remove_file_keyword lines keyword =
     map_out (\<lambda>found. case found of Some (i, _) \<Rightarrow> remove_at i lines | None \<Rightarrow> lines)
       (find_key trim_start lines (keyword_key keyword) [0..<file_keyword_limit lines])"

definition set_heading_tags :: "string list \<Rightarrow> nat \<Rightarrow> string list \<Rightarrow> string list result" where
  "set_heading_tags lines line_number tags =
     bind_out (heading_index lines line_number) (\<lambda>index.
       bind_out (ok_or HeadingLineInvalid (heading_level (lines ! index))) (\<lambda>level.
         bind_out (heading_text (lines ! index) level) (\<lambda>text.
           Ok (lines[index := format_heading_line level (fst (doc_split_heading_tags text)) tags]))))"

section \<open>Property values\<close>

text \<open>
  \<open>format!("{value:?}")\<close>: quotes, backslashes and the usual control characters are
  escaped, other control characters and the white-space characters beyond ASCII become
  hexadecimal escapes.  The remaining characters beyond ASCII are taken as printable.
\<close>

definition hex_digit :: "nat \<Rightarrow> char" where
  "hex_digit d = ''0123456789abcdef'' ! (d mod 16)"

fun show_hex :: "nat \<Rightarrow> string" where
  "show_hex n = (if n < 16 then [hex_digit n] else show_hex (n div 16) @ [hex_digit n])"

declare show_hex.simps [simp del]

definition unicode_escape :: "nat \<Rightarrow> string" where
  "unicode_escape n = [CHR 0x5C, CHR ''u'', CHR 0x7B] @ show_hex n @ [CHR 0x7D]"

definition escape_ascii :: "char \<Rightarrow> string" where
  "escape_ascii c =
     (if c = CHR 0x22 \<or> c = CHR 0x5C then [CHR 0x5C, c]
      else if c = TAB then [CHR 0x5C, CHR ''t'']
      else if c = CR then [CHR 0x5C, CHR ''r'']
      else if c = NL then [CHR 0x5C, CHR ''n'']
      else if c = CHR 0x00 then [CHR 0x5C, CHR ''0'']
      else if code c < 32 \<or> code c = 127 then unicode_escape (code c)
      else [c])"

function escape_debug :: "string \<Rightarrow> string" where
  "escape_debug [] = []"
| "escape_debug (c # s) =
     (if is_ascii c then escape_ascii c @ escape_debug s
      else if ws_len (c # s) = 2 then
        unicode_escape (64 * (code c mod 32) + code (s ! 0) mod 64) @ escape_debug (drop 1 s)
      else if ws_len (c # s) = 3 then
        unicode_escape (4096 * (code c mod 16) + 64 * (code (s ! 0) mod 64) + code (s ! 1) mod 64)
          @ escape_debug (drop 2 s)
      else c # escape_debug s)"
  by pat_completeness auto
termination by (relation "measure length") auto

definition format_property_value :: "string \<Rightarrow> string" where
  "format_property_value value =
     (if has_ws value \<or> CHR 0x22 \<in> set value then [CHR 0x22] @ escape_debug value @ [CHR 0x22]
      else value)"

definition format_property_values :: "string list \<Rightarrow> string" where
  "format_property_values values = join_str '' '' (map format_property_value values)"

definition property_value :: "string list \<Rightarrow> string option" where
  "property_value values = (if values = [] then None else Some (format_property_values values))"

definition keyword_value :: "string list \<Rightarrow> string option" where
  "keyword_value values = (if values = [] then None else Some (format_colon_tags values))"

section \<open>Body bounds of the file\<close>

definition file_body_bounds :: "string list \<Rightarrow> nat \<times> nat" where
  "file_body_bounds lines =
     (let start = file_metadata_end_index lines in
      (start, case find_index_from is_heading start (length lines) lines of
                None \<Rightarrow> length lines | Some index \<Rightarrow> index))"

definition file_entry_insert_index :: "string list \<Rightarrow> bool \<Rightarrow> nat" where
  "file_entry_insert_index lines prepend =
     (if \<not> prepend then length lines
      else (case find_index_from is_heading (snd (file_body_bounds lines)) (length lines) lines of
              None \<Rightarrow> length lines | Some index \<Rightarrow> index))"

section \<open>Whole-document operations\<close>

text \<open>\<open>fresh\<close> is the identifier \<open>Uuid::new_v4\<close> returns where one is needed.\<close>

definition ensure_file_identity_with_refs ::
  "string \<Rightarrow> OrgDocument \<Rightarrow> string list \<Rightarrow> OrgDocument result" where
  "ensure_file_identity_with_refs fresh d refs =
     bind_out (file_property_value (doc_lines d) ''ID'') (\<lambda>id.
       bind_out (if id = None then set_file_property (doc_lines d) ''ID'' (Some fresh)
                 else Ok (doc_lines d)) (\<lambda>lines.
         bind_out (if refs \<noteq> [] then set_file_property lines ''ROAM_REFS'' (property_value refs)
                   else Ok lines) (\<lambda>lines'.
           if render (d\<lparr>doc_lines := lines'\<rparr>) = [] then Err EmptyFileHead
           else Ok (d\<lparr>doc_lines := lines'\<rparr>))))"

definition ensure_file_identity :: "string \<Rightarrow> OrgDocument \<Rightarrow> OrgDocument result" where
  "ensure_file_identity fresh d = ensure_file_identity_with_refs fresh d []"

definition from_extracted_subtree :: "string list \<Rightarrow> string \<Rightarrow> OrgDocument result" where
  "from_extracted_subtree subtree explicit_id =
     (case subtree of [] \<Rightarrow> Err SubtreeWithoutHeading
      | root # rest \<Rightarrow>
          bind_out (ok_or SubtreeWithoutHeading (heading_level root)) (\<lambda>level.
          bind_out (heading_text root level) (\<lambda>text.
            (case doc_split_heading_tags text of (title_text, tags) \<Rightarrow>
               let title = trim (snd (doc_split_todo_keyword title_text)) in
               if title = [] then Err SubtreeWithoutTitle
               else
                 map_out (\<lambda>lines. \<lparr>doc_lines = lines, had_trailing_newline = True\<rparr>)
                   (set_file_property
                      ([''#+title: '' @ title] @
                       (if tags = [] then [] else [''#+filetags: '' @ format_colon_tags tags]) @
                       promote_subtree_lines rest)
                      ''ID'' (Some explicit_id))))))"

definition demote_entire_file :: "string \<Rightarrow> OrgDocument \<Rightarrow> OrgDocument result" where
  "demote_entire_file relative_path d =
     bind_out (file_keyword_value (doc_lines d) ''title'') (\<lambda>title.
     bind_out (filetags (doc_lines d)) (\<lambda>tags.
     bind_out (set_file_keyword (doc_lines d) ''title'' None) (\<lambda>l1.
     bind_out (set_file_keyword l1 ''filetags'' None) (\<lambda>l2.
       let default_title = default_capture_file_title relative_path [];
           shown = (case title of Some v \<Rightarrow> if trim v \<noteq> [] then v else default_title
                    | None \<Rightarrow> default_title)
       in Ok (d\<lparr>doc_lines := format_heading_line 1 shown tags # demote_all_headings l2\<rparr>)))))"

definition promote_entire_file :: "OrgDocument \<Rightarrow> OrgDocument result" where
  "promote_entire_file d =
     (if \<not> buffer_promoteable_p (doc_lines d) then Err CannotPromoteShape
      else
        bind_out (map_out trim (slice_from (trim_start (hd (doc_lines d))) 2)) (\<lambda>text.
          (case doc_split_heading_tags text of (title_text, tags) \<Rightarrow>
             let title = trim (snd (doc_split_todo_keyword title_text)) in
             if title = [] then Err CannotPromoteTitle
             else
               bind_out (set_file_keyword (promote_subtree_lines (tl (doc_lines d))) ''title'' (Some title))
                 (\<lambda>l1. map_out (\<lambda>l2. d\<lparr>doc_lines := l2\<rparr>)
                   (set_file_keyword l1 ''filetags'' (keyword_value tags))))))"

definition subtree_lines ::
  "string \<Rightarrow> OrgDocument \<Rightarrow> AnchorRecord \<Rightarrow> (string list \<times> string) result" where
  "subtree_lines fresh d node =
     (let explicit_id = (case nd_explicit_id node of Some i \<Rightarrow> i | None \<Rightarrow> fresh) in
      bind_out
        (case nd_kind node of
           HeadingNode \<Rightarrow>
             map_out (\<lambda>(start, end). take (end - start) (drop start (doc_lines d)))
               (subtree_range (doc_lines d) (nd_line node))
         | FileNode \<Rightarrow>
             bind_out (remove_file_keyword (doc_lines d) ''title'') (\<lambda>l1.
             map_out (\<lambda>l2. format_heading_line 1 (nd_title node) (nd_tags node) # demote_all_headings l2)
               (remove_file_keyword l1 ''filetags'')))
        (\<lambda>lines. map_out (\<lambda>lines'. (lines', explicit_id))
           (ensure_heading_property_value lines 0 ''ID'' (Some explicit_id))))"

end
