(* ===== verification/Metadata.thy ===== *)
theory Metadata
  imports WriteProperties Transaction
begin

text \<open>
  Metadata edits of one note, \<open>crates/slipbox-write/src/metadata.rs\<close>: identities,
  aliases, references and tags, and the glossary keys.  Each edit is a document
  transformation between reading a file and committing a one-file transaction.
\<close>

section \<open>Reading, editing, committing\<close>

text \<open>The fixed frame \<open>edit_file_document\<close> of an edit; the result is the file's path.\<close>

definition edit_file_document ::
  "nat \<Rightarrow> path \<Rightarrow> string \<Rightarrow> (OrgDocument \<Rightarrow> OrgDocument result) \<Rightarrow> path io" where
  "edit_file_document pid root file_path edit =
     bind_io (checked_absolute_org_path root file_path) (\<lambda>(_, absolute).
     bind_io (sys_read absolute) (\<lambda>source.
     bind_io (lift_io (edit (from_source source))) (\<lambda>document.
     bind_io (write_one pid absolute (render document)) (\<lambda>_. return_io absolute))))"

section \<open>Identities\<close>

definition insert_file_id :: "string \<Rightarrow> string \<Rightarrow> string result" where
  "insert_file_id source explicit_id =
     (let d = from_source source in
      map_out (\<lambda>lines. render (d\<lparr>doc_lines := lines\<rparr>))
        (set_file_property (doc_lines d) ''ID'' (Some explicit_id)))"

definition insert_heading_id :: "string \<Rightarrow> nat \<Rightarrow> string \<Rightarrow> string result" where
  "insert_heading_id source line_number explicit_id =
     (let d = from_source source in
      map_out (\<lambda>lines. render (d\<lparr>doc_lines := lines\<rparr>))
        (set_heading_property (doc_lines d) line_number ''ID'' (Some explicit_id)))"

definition ensure_node_id_with_value :: "nat \<Rightarrow> string \<Rightarrow> path \<Rightarrow> AnchorRecord \<Rightarrow> (path \<times> string) io" where
  "ensure_node_id_with_value pid fresh root node =
     bind_io (checked_absolute_org_path root (nd_file_path node)) (\<lambda>(_, absolute).
       case nd_explicit_id node of
         Some explicit_id \<Rightarrow> return_io (absolute, explicit_id)
       | None \<Rightarrow>
           bind_io (sys_read absolute) (\<lambda>source.
           bind_io (lift_io (case nd_kind node of
               FileNode \<Rightarrow> insert_file_id source fresh
             | HeadingNode \<Rightarrow> insert_heading_id source (nd_line node) fresh)) (\<lambda>updated.
           bind_io (write_one pid absolute updated) (\<lambda>_. return_io (absolute, fresh)))))"

definition ensure_node_id :: "nat \<Rightarrow> string \<Rightarrow> path \<Rightarrow> AnchorRecord \<Rightarrow> path io" where
  "ensure_node_id pid fresh root node =
     bind_io (ensure_node_id_with_value pid fresh root node) (\<lambda>(absolute, _). return_io absolute)"

section \<open>Aliases, references, tags\<close>

record MetadataUpdate =
  mu_aliases :: "string list option"
  mu_refs :: "string list option"
  mu_tags :: "string list option"

text \<open>\<open>if let Some(values) = &update.field { ... }\<close>.\<close>

definition when_some :: "'a option \<Rightarrow> ('a \<Rightarrow> 'b \<Rightarrow> 'b result) \<Rightarrow> 'b \<Rightarrow> 'b result" where
  "when_some x f lines = (case x of None \<Rightarrow> Ok lines | Some v \<Rightarrow> f v lines)"

definition apply_update :: "NodeRecord \<Rightarrow> MetadataUpdate \<Rightarrow> string list \<Rightarrow> string list result" where
  "apply_update node update lines =
     (case nd_kind node of
        FileNode \<Rightarrow>
          bind_out (when_some (mu_aliases update)
            (\<lambda>v ls. set_file_property ls ''ROAM_ALIASES'' (property_value v)) lines) (\<lambda>l1.
          bind_out (when_some (mu_refs update)
            (\<lambda>v ls. set_file_property ls ''ROAM_REFS'' (property_value v)) l1) (\<lambda>l2.
          when_some (mu_tags update)
            (\<lambda>v ls. set_file_keyword ls ''filetags'' (keyword_value v)) l2))
      | HeadingNode \<Rightarrow>
          bind_out (when_some (mu_aliases update)
            (\<lambda>v ls. set_heading_property ls (nd_line node) ''ROAM_ALIASES'' (property_value v)) lines) (\<lambda>l1.
          bind_out (when_some (mu_refs update)
            (\<lambda>v ls. set_heading_property ls (nd_line node) ''ROAM_REFS'' (property_value v)) l1) (\<lambda>l2.
          when_some (mu_tags update) (\<lambda>v ls. set_heading_tags ls (nd_line node) v) l2)))"

definition on_lines :: "(string list \<Rightarrow> string list result) \<Rightarrow> OrgDocument \<Rightarrow> OrgDocument result" where
  "on_lines f d = map_out (\<lambda>lines. d\<lparr>doc_lines := lines\<rparr>) (f (doc_lines d))"

definition update_node_metadata :: "nat \<Rightarrow> path \<Rightarrow> NodeRecord \<Rightarrow> MetadataUpdate \<Rightarrow> path io" where
  "update_node_metadata pid root node update =
     bind_io (checked_absolute_org_path root (nd_file_path node)) (\<lambda>(_, absolute).
     bind_io (sys_read absolute) (\<lambda>source.
     bind_io (lift_io (on_lines (apply_update node update) (from_source source))) (\<lambda>document.
     bind_io (write_one pid absolute (render document)) (\<lambda>_. return_io absolute))))"

section \<open>Glossary terms\<close>

definition require_file_node :: "NodeRecord \<Rightarrow> unit result" where
  "require_file_node node = (if nd_kind node = FileNode then Ok () else Err (NotFileNode (nd_node_key node)))"

definition mark_glossary_term :: "nat \<Rightarrow> path \<Rightarrow> NodeRecord \<Rightarrow> path io" where
  "mark_glossary_term pid root node =
     bind_io (lift_io (require_file_node node)) (\<lambda>_.
       edit_file_document pid root (nd_file_path node)
         (on_lines (\<lambda>ls. set_file_keyword ls ''glossary'' (Some ''t''))))"

text \<open>\<open>status\<close> is \<open>GlossaryStatus::as_str\<close>.\<close>

definition set_glossary_status :: "nat \<Rightarrow> path \<Rightarrow> NodeRecord \<Rightarrow> string \<Rightarrow> path io" where
  "set_glossary_status pid root node status =
     bind_io (lift_io (require_file_node node)) (\<lambda>_.
       edit_file_document pid root (nd_file_path node)
         (on_lines (\<lambda>ls. set_file_property ls ''GLOSSARY_STATUS'' (Some status))))"

text \<open>The five review keys, from the strings \<open>SrState\<close> formats.\<close>

record ReviewStrings =
  rs_due :: "string option"
  rs_ease :: string
  rs_interval :: string
  rs_reps :: string
  rs_last :: "string option"

definition write_schedule :: "ReviewStrings \<Rightarrow> string list \<Rightarrow> string list result" where
  "write_schedule s l0 =
     bind_out (set_file_property l0 ''SR_DUE'' (rs_due s)) (\<lambda>l1.
     bind_out (set_file_property l1 ''SR_EASE'' (Some (rs_ease s))) (\<lambda>l2.
     bind_out (set_file_property l2 ''SR_INTERVAL'' (Some (rs_interval s))) (\<lambda>l3.
     bind_out (set_file_property l3 ''SR_REPS'' (Some (rs_reps s))) (\<lambda>l4.
     set_file_property l4 ''SR_LAST'' (rs_last s)))))"

definition set_glossary_schedule :: "nat \<Rightarrow> path \<Rightarrow> NodeRecord \<Rightarrow> ReviewStrings \<Rightarrow> path io" where
  "set_glossary_schedule pid root node s =
     bind_io (lift_io (require_file_node node)) (\<lambda>_.
       edit_file_document pid root (nd_file_path node) (on_lines (write_schedule s)))"

end
