(* ===== verification/Rewrite.thy ===== *)
theory Rewrite
  imports WriteProperties Transaction
begin

text \<open>
  Moving text between places, \<open>crates/slipbox-write/src/rewrite.rs\<close>: refiling a
  subtree or a region, extracting a subtree into a file, and promoting and demoting a
  whole file.  Unsigned subtractions that underflow panic in a debug build; in a
  release build the wrapped offset is out of range and the slice that follows panics.
\<close>

section \<open>Outcomes\<close>

record RewriteOutcome =
  ro_changed_paths :: "path list"
  ro_removed_paths :: "path list"
  ro_explicit_id :: string

record RegionRewriteOutcome =
  rr_changed_paths :: "path list"
  rr_removed_paths :: "path list"

record CaptureOutcome =
  co_absolute_path :: path
  co_node_key :: string

section \<open>Offsets in a source\<close>

text \<open>The character loop of \<open>line_index_byte_offset\<close>: final line count, and the offset if it returned.\<close>

fun line_offset_loop :: "nat \<Rightarrow> nat \<Rightarrow> nat \<Rightarrow> string \<Rightarrow> nat \<times> nat option" where
  "line_offset_loop wanted current offset [] = (current, None)"
| "line_offset_loop wanted current offset (c # s) =
     (if current = wanted then (current, Some offset)
      else if c = NL then
        (if current + 1 = wanted then (current + 1, Some (offset + 1))
         else line_offset_loop wanted (current + 1) (offset + 1) s)
      else line_offset_loop wanted current (offset + 1) s)"

definition line_index_byte_offset :: "string \<Rightarrow> nat \<Rightarrow> nat result" where
  "line_index_byte_offset source line_index =
     (if line_index = 0 then Ok 0
      else (case line_offset_loop line_index 0 0 source of
              (_, Some offset) \<Rightarrow> Ok offset
            | (current, None) \<Rightarrow>
                if current = line_index \<or> length (lines_of source) \<le> line_index then Ok (length source)
                else Err (LineIndexOutOfRange line_index)))"

text \<open>Byte offset of the character with the given number.\<close>

fun nth_char_offset :: "nat \<Rightarrow> nat \<Rightarrow> string \<Rightarrow> nat option" where
  "nth_char_offset wanted offset [] = None"
| "nth_char_offset wanted offset (c # s) =
     (if is_cont c then nth_char_offset wanted (offset + 1) s
      else if wanted = 0 then Some offset
      else nth_char_offset (wanted - 1) (offset + 1) s)"

definition byte_offset_for_char_position :: "string \<Rightarrow> nat \<Rightarrow> nat result" where
  "byte_offset_for_char_position source position =
     (if position = 0 then Err PositionNotOneBased
      else
        let wanted = position - 1 in
        if char_count source < wanted then Err (PositionOutOfRange position)
        else if wanted = char_count source then Ok (length source)
        else ok_or RegionOffset (nth_char_offset wanted 0 source))"

definition insertion_byte_offset :: "string \<Rightarrow> NodeRecord \<Rightarrow> nat result" where
  "insertion_byte_offset source target =
     bind_out (insertion_index (doc_lines (from_source source)) target) (line_index_byte_offset source)"

definition insert_region_text :: "string \<Rightarrow> nat \<Rightarrow> string \<Rightarrow> string result" where
  "insert_region_text source insert_offset region =
     (if \<not> is_boundary source insert_offset then Panic
      else if 0 < insert_offset \<and> \<not> suffix [NL] (take insert_offset source) \<and> region \<noteq> []
      then Ok (take insert_offset source @ [NL] @ region @ drop insert_offset source)
      else Ok (take insert_offset source @ region @ drop insert_offset source))"

section \<open>Levels of a region\<close>

definition heading_levels :: "string list \<Rightarrow> nat list" where
  "heading_levels lines = map the (filter (\<lambda>l. l \<noteq> None) (map heading_level lines))"

definition shift_region_heading_levels :: "string list \<Rightarrow> nat \<Rightarrow> string list" where
  "shift_region_heading_levels lines desired_root_level =
     (case heading_levels lines of [] \<Rightarrow> lines
      | l # ls \<Rightarrow>
          let delta = int desired_root_level - int (fold min ls l)
          in map (with_level (\<lambda>level. nat (max (int level + delta) 1))) lines)"

definition normalize_region_for_target :: "string \<Rightarrow> nat \<Rightarrow> string" where
  "normalize_region_for_target region desired_root_level =
     (let rendered = join_str [NL] (shift_region_heading_levels (lines_of region) desired_root_level)
      in if suffix [NL] region \<and> \<not> suffix [NL] rendered then rendered @ [NL] else rendered)"

definition target_root_level :: "NodeRecord \<Rightarrow> nat" where
  "target_root_level target = (case nd_kind target of FileNode \<Rightarrow> 1 | HeadingNode \<Rightarrow> nd_level target + 1)"

section \<open>Refiling a subtree\<close>

text \<open>Source and target in one file: the document after the move.\<close>

definition refile_within ::
  "OrgDocument \<Rightarrow> AnchorRecord \<Rightarrow> NodeRecord \<Rightarrow> string list \<Rightarrow> OrgDocument result" where
  "refile_within d source target subtree =
     (if nd_kind source \<noteq> HeadingNode then Err TargetInsideSubtree
      else
        bind_out (subtree_range (doc_lines d) (nd_line source)) (\<lambda>(start, end).
          if nd_kind target = HeadingNode \<and> 0 < nd_line target \<and>
             start \<le> nd_line target - 1 \<and> nd_line target - 1 < end
          then Err TargetInsideSubtree
          else
            bind_out (insertion_index (doc_lines d) target) (\<lambda>index.
            bind_out (remove_lines d start end) (\<lambda>d'.
              let adjusted = (if start < index then index - (end - start) else index)
              in insert_subtree d' adjusted (nd_kind target) subtree))))"

definition refile_into :: "string \<Rightarrow> NodeRecord \<Rightarrow> string list \<Rightarrow> OrgDocument result" where
  "refile_into target_source target subtree =
     (let d = from_source target_source in
      bind_out (insertion_index (doc_lines d) target)
        (\<lambda>index. insert_subtree d index (nd_kind target) subtree))"

definition without_subtree :: "OrgDocument \<Rightarrow> nat \<Rightarrow> OrgDocument result" where
  "without_subtree d line_number =
     bind_out (subtree_range (doc_lines d) line_number) (\<lambda>(start, end). remove_lines d start end)"

text \<open>What becomes of the source file: gone with a file node or when nothing is left.\<close>

definition source_after_refile ::
  "path \<Rightarrow> AnchorRecord \<Rightarrow> OrgDocument \<Rightarrow> string option result" where
  "source_after_refile source_path source d =
     (if nd_kind source = FileNode then Ok None
      else map_out (\<lambda>d'. if has_meaningful_content d' then Some (render d') else None)
             (without_subtree d (nd_line source)))"

definition commit_move ::
  "nat \<Rightarrow> path \<Rightarrow> string \<Rightarrow> path \<Rightarrow> string option \<Rightarrow> (path list \<times> path list) io" where
  "commit_move pid target_path target_text source_path source_text =
     (let t = tx_write target_path target_text tx_new in
      case source_text of
        None \<Rightarrow> bind_io (commit pid (tx_remove source_path t))
                  (\<lambda>_. return_io ([target_path], [source_path]))
      | Some text \<Rightarrow> bind_io (commit pid (tx_write source_path text t))
                       (\<lambda>_. return_io ([target_path, source_path], [])))"

definition refile_subtree ::
  "nat \<Rightarrow> string \<Rightarrow> path \<Rightarrow> AnchorRecord \<Rightarrow> NodeRecord \<Rightarrow> RewriteOutcome io" where
  "refile_subtree pid fresh root source target =
     (if nd_node_key source = nd_node_key target then fail_io SameNode
      else
        bind_io (checked_absolute_org_path root (nd_file_path source)) (\<lambda>(_, source_path).
        bind_io (checked_absolute_org_path root (nd_file_path target)) (\<lambda>(_, target_path).
        if nd_kind source = FileNode \<and> source_path = target_path then fail_io TargetInsideSubtree
        else
          bind_io (sys_read source_path) (\<lambda>source_text.
          bind_io (if source_path = target_path then return_io [] else sys_read target_path) (\<lambda>target_text.
          let d = from_source source_text in
          bind_io (lift_io (subtree_lines fresh d source)) (\<lambda>(lines, explicit_id).
          bind_io (lift_io (shift_subtree_levels lines (target_root_level target))) (\<lambda>subtree.
          if source_path = target_path then
            bind_io (lift_io (refile_within d source target subtree)) (\<lambda>d'.
            bind_io (write_one pid source_path (render d')) (\<lambda>_.
            return_io \<lparr>ro_changed_paths = [source_path], ro_removed_paths = [],
                       ro_explicit_id = explicit_id\<rparr>))
          else
            bind_io (lift_io (refile_into target_text target subtree)) (\<lambda>target_document.
            bind_io (lift_io (source_after_refile source_path source d)) (\<lambda>source_after.
            bind_io (commit_move pid target_path (render target_document) source_path source_after)
              (\<lambda>(changed, removed).
            return_io \<lparr>ro_changed_paths = changed, ro_removed_paths = removed,
                       ro_explicit_id = explicit_id\<rparr>))))))))))"

section \<open>Refiling a region\<close>

text \<open>Target in the source file.  An insertion point inside the region makes the
  adjusted offset smaller than the region's start, or underflow.\<close>

definition refile_region_within ::
  "string \<Rightarrow> nat \<Rightarrow> nat \<Rightarrow> NodeRecord \<Rightarrow> string \<Rightarrow> string result" where
  "refile_region_within source selection_start selection_end target region =
     bind_out (insertion_byte_offset source target) (\<lambda>target_insert.
     bind_out (if nd_kind target = HeadingNode then
                 bind_out (line_index_byte_offset source (nd_line target - 1)) (\<lambda>heading_start.
                   if selection_start \<le> heading_start \<and> heading_start < selection_end
                   then Err TargetInsideRegion else Ok ())
               else Ok ()) (\<lambda>_.
       let rest = take selection_start source @ drop selection_end source;
           len = selection_end - selection_start
       in if selection_start < target_insert then
            (if target_insert < len then Panic else insert_region_text rest (target_insert - len) region)
          else insert_region_text rest target_insert region))"

text \<open>The selected region with its bounds, cut out at character boundaries.\<close>

definition select_region :: "string \<Rightarrow> nat \<Rightarrow> nat \<Rightarrow> (nat \<times> nat \<times> string) result" where
  "select_region source start end =
     bind_out (byte_offset_for_char_position source start) (\<lambda>selection_start.
     bind_out (byte_offset_for_char_position source end) (\<lambda>selection_end.
       if selection_end \<le> selection_start then Err EmptyRegion
       else Ok (selection_start, selection_end,
                take (selection_end - selection_start) (drop selection_start source))))"

definition refile_region ::
  "nat \<Rightarrow> path \<Rightarrow> string \<Rightarrow> nat \<Rightarrow> nat \<Rightarrow> NodeRecord \<Rightarrow> RegionRewriteOutcome io" where
  "refile_region pid root source_file_path start end target =
     (if start = end then fail_io EmptyRegion
      else
        bind_io (checked_absolute_org_path root source_file_path) (\<lambda>(_, source_path).
        bind_io (checked_absolute_org_path root (nd_file_path target)) (\<lambda>(_, target_path).
        bind_io (sys_read source_path) (\<lambda>source.
        bind_io (if source_path = target_path then return_io [] else sys_read target_path) (\<lambda>target_text.
        bind_io (lift_io (select_region source start end)) (\<lambda>(selection_start, selection_end, selected).
        let region = normalize_region_for_target selected (target_root_level target) in
        if source_path = target_path then
          bind_io (lift_io (refile_region_within source selection_start selection_end target region))
            (\<lambda>rewritten.
          bind_io (write_one pid source_path rewritten) (\<lambda>_.
          return_io \<lparr>rr_changed_paths = [source_path], rr_removed_paths = []\<rparr>))
        else
          bind_io (lift_io (insertion_byte_offset target_text target)) (\<lambda>target_insert.
          bind_io (lift_io (insert_region_text target_text target_insert region)) (\<lambda>rewritten_target.
          let rest = take selection_start source @ drop selection_end source in
          bind_io (commit_move pid target_path rewritten_target source_path
              (if trim rest = [] then None else Some rest)) (\<lambda>(changed, removed).
          return_io \<lparr>rr_changed_paths = changed, rr_removed_paths = removed\<rparr>)))))))))"

section \<open>Extracting a subtree\<close>

definition extract_subtree ::
  "nat \<Rightarrow> string \<Rightarrow> path \<Rightarrow> AnchorRecord \<Rightarrow> string \<Rightarrow> RewriteOutcome io" where
  "extract_subtree pid fresh root source file_path =
     (if nd_kind source \<noteq> HeadingNode then fail_io OnlyHeadings
      else
        bind_io (checked_absolute_org_path root file_path) (\<lambda>(_, target_path).
        bind_io (checked_absolute_org_path root (nd_file_path source)) (\<lambda>(_, source_path).
        if source_path = target_path then fail_io SameFile
        else (\<lambda>w. if sys_exists target_path w then (Err (TargetExists target_path), w)
        else
          bind_io (sys_read source_path) (\<lambda>source_text.
          let d = from_source source_text in
          bind_io (lift_io (subtree_lines fresh d source)) (\<lambda>(lines, explicit_id).
          bind_io (lift_io (from_extracted_subtree lines explicit_id)) (\<lambda>target_document.
          bind_io (lift_io (without_subtree d (nd_line source))) (\<lambda>d'.
          bind_io (commit pid (tx_write source_path (render d')
              (tx_write target_path (render target_document) tx_new))) (\<lambda>_.
          return_io \<lparr>ro_changed_paths = [source_path, target_path], ro_removed_paths = [],
                     ro_explicit_id = explicit_id\<rparr>))))) w))))"

section \<open>Whole files\<close>

definition demote_file :: "nat \<Rightarrow> path \<Rightarrow> string \<Rightarrow> CaptureOutcome io" where
  "demote_file pid root file_path =
     bind_io (checked_absolute_org_path root file_path) (\<lambda>(relative, absolute).
     bind_io (sys_read absolute) (\<lambda>source.
     bind_io (lift_io (demote_entire_file relative (from_source source))) (\<lambda>d.
     bind_io (write_one pid absolute (render d)) (\<lambda>_.
     return_io \<lparr>co_absolute_path = absolute,
                co_node_key = ''heading:'' @ forward_slashes relative @ '':1''\<rparr>))))"

definition promote_file :: "nat \<Rightarrow> path \<Rightarrow> string \<Rightarrow> CaptureOutcome io" where
  "promote_file pid root file_path =
     bind_io (checked_absolute_org_path root file_path) (\<lambda>(relative, absolute).
     bind_io (sys_read absolute) (\<lambda>source.
     bind_io (lift_io (promote_entire_file (from_source source))) (\<lambda>d.
     bind_io (write_one pid absolute (render d)) (\<lambda>_.
     return_io \<lparr>co_absolute_path = absolute,
                co_node_key = ''file:'' @ forward_slashes relative\<rparr>))))"

end
