(* ===== verification/CaptureContent.thy ===== *)
theory CaptureContent
  imports WriteProperties
begin

text \<open>
  The content of a capture, \<open>crates/slipbox-write/src/capture_content.rs\<close>: an entry, a
  plain block, a list item or a table row placed in a document at a capture target.
\<close>

section \<open>Targets and content\<close>

datatype CaptureContentType = Plain | Entry | Item | Checkitem | TableLine

datatype CaptureTargetSelection =
    FileTarget string string
  | HeadingTarget string nat nat string

fun capture_target_node_key :: "CaptureTargetSelection \<Rightarrow> string" where
  "capture_target_node_key (FileTarget relative key) = key"
| "capture_target_node_key (HeadingTarget relative line level key) = key"

fun capture_target_relative_path :: "CaptureTargetSelection \<Rightarrow> string" where
  "capture_target_relative_path (FileTarget relative key) = relative"
| "capture_target_relative_path (HeadingTarget relative line level key) = relative"

text \<open>Blank lines dropped at both ends.\<close>

definition trimmed_capture_lines :: "string \<Rightarrow> string list" where
  "trimmed_capture_lines content =
     rev (dropWhile is_blank (rev (dropWhile is_blank (lines_of content))))"

section \<open>Entries\<close>

definition heading_of :: "nat \<Rightarrow> string \<Rightarrow> string" where
  "heading_of level title = star_str level @ '' '' @ title"

definition entry_capture_lines :: "string \<Rightarrow> string \<Rightarrow> nat \<Rightarrow> string list result" where
  "entry_capture_lines content title desired_level =
     bind_out (normalized_title title) (\<lambda>normalized.
       case trimmed_capture_lines content of
         [] \<Rightarrow> Ok [heading_of desired_level normalized]
       | first # rest \<Rightarrow>
           (case heading_level first of
              None \<Rightarrow> Ok (heading_of desired_level normalized # first # rest)
            | Some current_level \<Rightarrow>
                let delta = int desired_level - int current_level;
                    shift = with_level (\<lambda>level. nat (max (int level + delta) 1));
                    first' = shift first;
                    first'' = (case heading_level first' of
                       None \<Rightarrow> first'
                     | Some level \<Rightarrow> if trim (drop level first') = [] then heading_of level normalized else first')
                in Ok (first'' # map shift rest)))"

definition capture_entry ::
  "OrgDocument \<Rightarrow> CaptureTargetSelection \<Rightarrow> string \<Rightarrow> string \<Rightarrow> bool \<Rightarrow> nat \<Rightarrow> nat \<Rightarrow>
   (OrgDocument \<times> string) result" where
  "capture_entry d target content title prepend before after =
     bind_out (entry_capture_lines content title
         (case target of FileTarget _ _ \<Rightarrow> 1 | HeadingTarget _ _ level _ \<Rightarrow> level + 1)) (\<lambda>block.
     bind_out (case target of
           FileTarget _ _ \<Rightarrow> Ok (file_entry_insert_index (doc_lines d) prepend)
         | HeadingTarget _ line level _ \<Rightarrow> heading_entry_insert_index (doc_lines d) line level prepend) (\<lambda>index.
     map_out (\<lambda>(d', line_number).
         (d', ''heading:'' @ forward_slashes (capture_target_relative_path target) @ '':'' @ show_nat line_number))
       (insert_block d index block before after)))"

section \<open>Plain text\<close>

definition is_org_comment_line :: "string \<Rightarrow> bool" where
  "is_org_comment_line line \<longleftrightarrow> prefix ''# '' line \<or> prefix (''#'' @ [TAB]) line"

definition is_horizontal_rule :: "string \<Rightarrow> bool" where
  "is_horizontal_rule line \<longleftrightarrow> 5 \<le> length (trim line) \<and> list_all (\<lambda>c. c = CHR ''-'') (trim line)"

definition starts_comment :: "string \<Rightarrow> bool" where
  "starts_comment line \<longleftrightarrow>
     prefix ''#+begin_comment'' (trim_start line) \<or> prefix ''#+BEGIN_COMMENT'' (trim_start line)"

definition ends_comment :: "string \<Rightarrow> bool" where
  "ends_comment line \<longleftrightarrow>
     prefix ''#+end_comment'' (trim_start line) \<or> prefix ''#+END_COMMENT'' (trim_start line)"

text \<open>Past a block that opened before \<open>index\<close>: up to and including its closing line.\<close>

definition past_block :: "(string \<Rightarrow> bool) \<Rightarrow> string list \<Rightarrow> nat \<Rightarrow> nat" where
  "past_block closes lines index =
     (let close = skip_while_from (\<lambda>l. \<not> closes l) index lines
      in if close < length lines then close + 1 else close)"

text \<open>One round of the loop: \<open>Inl\<close> returns, \<open>Inr\<close> continues.\<close>

definition plain_prepend_step :: "string list \<Rightarrow> nat \<Rightarrow> nat + nat" where
  "plain_prepend_step lines index0 =
     (let index = skip_while_from is_blank index0 lines in
      if length lines \<le> index then Inl index
      else
        let line = lines ! index; trimmed = trim_start line in
        if starts_comment line then Inr (past_block ends_comment lines (index + 1))
        else if is_keyword_line line \<or> is_org_comment_line trimmed \<or> is_horizontal_rule trimmed
        then Inr (index + 1)
        else if eq_ignore_case trimmed '':PROPERTIES:'' then Inr (past_block is_drawer_end lines (index + 1))
        else Inl index)"

lemma past_block_ge: "index \<le> past_block closes lines index"
  unfolding past_block_def Let_def
  using skip_while_from_ge [of index "\<lambda>l. \<not> closes l" lines] by simp

lemma plain_prepend_step_less:
  assumes "plain_prepend_step lines i = Inr j"
  shows "i < j \<and> i < length lines"
proof -
  let ?k = "skip_while_from is_blank i lines"
  have "i \<le> ?k" by (rule skip_while_from_ge)
  moreover have "?k < length lines" "Suc ?k \<le> j"
    using assms past_block_ge [of "Suc ?k" _ lines]
    by (auto simp: plain_prepend_step_def Let_def split: if_splits)
  ultimately show ?thesis by simp
qed

function plain_prepend_loop :: "string list \<Rightarrow> nat \<Rightarrow> nat" where
  "plain_prepend_loop lines index =
     (case plain_prepend_step lines index of Inl i \<Rightarrow> i | Inr i \<Rightarrow> plain_prepend_loop lines i)"
  by pat_completeness auto
termination
proof (relation "measure (\<lambda>(lines, index). length lines - index)")
  fix lines index i
  assume "plain_prepend_step lines index = Inr i"
  then show "((lines, i), lines, index) \<in> measure (\<lambda>(lines, index). length lines - index)"
    by (auto dest!: plain_prepend_step_less)
qed simp

declare plain_prepend_loop.simps [simp del]

definition file_plain_prepend_index :: "string list \<Rightarrow> nat" where
  "file_plain_prepend_index lines = plain_prepend_loop lines 0"

definition capture_plain ::
  "OrgDocument \<Rightarrow> CaptureTargetSelection \<Rightarrow> string \<Rightarrow> bool \<Rightarrow> nat \<Rightarrow> nat \<Rightarrow> (OrgDocument \<times> string) result" where
  "capture_plain d target content prepend before after =
     (let block = trimmed_capture_lines content in
      if block = [] then Ok (d, capture_target_node_key target)
      else
        bind_out (case target of
            FileTarget _ _ \<Rightarrow>
              Ok (if prepend then file_plain_prepend_index (doc_lines d) else length (doc_lines d))
          | HeadingTarget _ line level _ \<Rightarrow>
              map_out (\<lambda>(body_start, body_end). if prepend then body_start else body_end)
                (heading_body_bounds (doc_lines d) line level)) (\<lambda>index.
        map_out (\<lambda>(d', _). (d', capture_target_node_key target))
          (insert_block d index block before after)))"

section \<open>Lists\<close>

text \<open>A numeric marker is a \<open>usize\<close>, an alphabetic one the code point of a lower-case letter.\<close>

datatype OrderedMarkerValue = Numeric nat | Alpha nat bool

datatype ListStyle = Unordered char | Ordered OrderedMarkerValue char

record ListContext =
  lc_start :: nat
  lc_end :: nat
  lc_indent :: nat
  lc_style :: ListStyle

definition leading_spaces :: "string \<Rightarrow> nat" where
  "leading_spaces line = length (takeWhile (\<lambda>c. c = SP) line)"

definition trim_end_cr :: "string \<Rightarrow> string" where
  "trim_end_cr s = rev (dropWhile (\<lambda>c. c = CR) (rev s))"

text \<open>Second component: how many bytes the box takes.\<close>

definition parse_checkbox_prefix :: "string \<Rightarrow> bool \<times> nat" where
  "parse_checkbox_prefix text =
     (if 4 \<le> length text \<and> text ! 0 = CHR ''['' \<and> text ! 2 = CHR '']'' \<and> text ! 3 = SP then (True, 4)
      else if 3 \<le> length text \<and> text ! 0 = CHR ''['' \<and> text ! 2 = CHR '']'' then (True, 3)
      else (False, 0))"

definition is_ascii_letter :: "char \<Rightarrow> bool" where
  "is_ascii_letter c \<longleftrightarrow> is_ascii_upper c \<or> is_ascii_lower c"

text \<open>
  Indentation, style, check box, byte offset of the content.  The character after the
  delimiter may be any white space; its first byte ends the marker only when it is
  one byte long, since \<open>get(marker_len + 2..)\<close> fails inside a character.
\<close>

definition parse_list_item_prefix :: "string \<Rightarrow> (nat \<times> ListStyle \<times> bool \<times> nat) option" where
  "parse_list_item_prefix line =
     (let indent = leading_spaces line; trimmed = trim_end_cr (drop indent line) in
      case trimmed of [] \<Rightarrow> None
      | first # tail \<Rightarrow>
          if first = CHR ''-'' \<or> first = CHR ''+'' \<or> first = CHR ''*'' then
            (if first = CHR ''*'' \<and> indent = 0 then None
             else if \<not> prefix '' '' tail then None
             else (case parse_checkbox_prefix (dropWhile (\<lambda>c. c = SP) tail) of (checkbox, consumed) \<Rightarrow>
                     Some (indent, Unordered first, checkbox, indent + 1 + 1 + consumed)))
          else if is_ascii_digit first \<or> is_ascii_letter first then
            (let marker_len = (if is_ascii_digit first then length (takeWhile is_ascii_digit trimmed) else 1);
                 after = drop marker_len trimmed in
             case after of [] \<Rightarrow> None
             | delimiter # spaced \<Rightarrow>
                 if delimiter \<noteq> CHR ''.'' \<and> delimiter \<noteq> CHR '')'' then None
                 else if ws_len spaced = 0 then None
                 else (case str_get_from trimmed (marker_len + 2) of None \<Rightarrow> None
                   | Some rest \<Rightarrow>
                       (case parse_checkbox_prefix rest of (checkbox, consumed) \<Rightarrow>
                          let style = (if is_ascii_digit first
                                then map_option (\<lambda>n. Ordered (Numeric n) delimiter)
                                       (parse_usize (take marker_len trimmed))
                                else Some (Ordered (Alpha (code (ascii_lower first)) (is_ascii_upper first))
                                       delimiter))
                          in map_option (\<lambda>s. (indent, s, checkbox, indent + marker_len + 2 + consumed)) style)))
          else None)"

text \<open>End of the list that starts before \<open>cursor\<close>.\<close>

fun list_end :: "string list \<Rightarrow> nat \<Rightarrow> nat \<Rightarrow> nat list \<Rightarrow> nat option" where
  "list_end lines indent end [] = Some end"
| "list_end lines indent end (cursor # cs) =
     (if length lines \<le> cursor then None
      else
        let line = lines ! cursor in
        if trim_start line = [] then Some cursor
        else if parse_list_item_prefix line \<noteq> None \<or> indent < leading_spaces line \<or> prefix [TAB] line
        then list_end lines indent end cs
        else Some cursor)"

fun find_list_from :: "string list \<Rightarrow> nat \<Rightarrow> nat list \<Rightarrow> ListContext option" where
  "find_list_from lines end [] = None"
| "find_list_from lines end (index # is) =
     (case (if index < length lines then parse_list_item_prefix (lines ! index) else None) of
        None \<Rightarrow> find_list_from lines end is
      | Some (indent, style, _, _) \<Rightarrow>
          (case list_end lines indent end [index + 1..<end] of
             None \<Rightarrow> find_list_from lines end is
           | Some end_index \<Rightarrow>
               Some \<lparr>lc_start = index, lc_end = end_index, lc_indent = indent, lc_style = style\<rparr>))"

definition find_list_context :: "string list \<Rightarrow> nat \<Rightarrow> nat \<Rightarrow> ListContext option" where
  "find_list_context lines start end = find_list_from lines end [start..<end]"

text \<open>UTF-8 of a code point; surrogates and values past the last one are no characters.\<close>

definition utf8_encode :: "nat \<Rightarrow> string option" where
  "utf8_encode n =
     (let i = int n in
      if i < 128 then Some [char_of n]
      else if i < 2048 then Some [char_of (192 + n div 64), char_of (128 + n mod 64)]
      else if 55296 \<le> i \<and> i < 57344 then None
      else if i < 65536 then
        Some [char_of (224 + n div 4096), char_of (128 + n div 64 mod 64), char_of (128 + n mod 64)]
      else if i < 1114112 then
        Some [char_of (240 + n div 262144), char_of (128 + n div 4096 mod 64),
              char_of (128 + n div 64 mod 64), char_of (128 + n mod 64)]
      else None)"

fun ordered_marker_text :: "OrderedMarkerValue \<Rightarrow> string" where
  "ordered_marker_text (Numeric number) = show_nat number"
| "ordered_marker_text (Alpha codepoint uppercase) =
     (case utf8_encode codepoint of None \<Rightarrow> ''a''
      | Some s \<Rightarrow> if uppercase then map ascii_upper s else s)"

text \<open>The counters are machine integers that wrap in a release build.\<close>

fun advance_ordered_marker :: "OrderedMarkerValue \<Rightarrow> OrderedMarkerValue" where
  "advance_ordered_marker (Numeric number) = Numeric (nat ((int number + 1) mod 18446744073709551616))"
| "advance_ordered_marker (Alpha codepoint uppercase) = Alpha (as_u32 (codepoint + 1)) uppercase"

definition list_marker_prefix :: "ListStyle \<Rightarrow> CaptureContentType \<Rightarrow> string" where
  "list_marker_prefix style capture_type =
     (case style of
        Unordered bullet \<Rightarrow> if capture_type = Checkitem then [bullet] @ '' [ ]'' else [bullet]
      | Ordered start delimiter \<Rightarrow>
          ordered_marker_text start @ [delimiter] @ (if capture_type = Checkitem then '' [ ]'' else []))"

definition spaces :: "nat \<Rightarrow> string" where
  "spaces n = replicate n SP"

definition format_list_line :: "nat \<Rightarrow> string \<Rightarrow> string \<Rightarrow> string" where
  "format_list_line indent marker text =
     (if text = [] then spaces indent @ marker @ '' '' else spaces indent @ marker @ '' '' @ text)"

definition strip_list_marker :: "string \<Rightarrow> string" where
  "strip_list_marker line =
     (case parse_list_item_prefix line of
        Some (_, _, _, content_offset) \<Rightarrow>
          trim_start (case str_get_from line content_offset of Some s \<Rightarrow> s | None \<Rightarrow> [])
      | None \<Rightarrow> trim_start line)"

definition list_capture_lines ::
  "string \<Rightarrow> CaptureContentType \<Rightarrow> ListContext option \<Rightarrow> string list result" where
  "list_capture_lines content capture_type existing =
     (let lines = (case trimmed_capture_lines content of [] \<Rightarrow> [[]] | ls \<Rightarrow> ls);
          first_text = strip_list_marker (hd lines) in
      bind_out
        (case existing of
           Some list \<Rightarrow> Ok (list_marker_prefix (lc_style list) capture_type, lc_indent list)
         | None \<Rightarrow>
             (case capture_type of
                Checkitem \<Rightarrow> Ok (''- [ ]'', 0)
              | Item \<Rightarrow> Ok (''-'', 0)
              | _ \<Rightarrow> Err ListTypeUnsupported))
        (\<lambda>(marker, indent).
           let continuation_width = indent + char_count marker + 1
           in Ok (format_list_line indent marker first_text
                  # map (\<lambda>line. spaces continuation_width @ line) (tl lines))))"

fun renumber_loop ::
  "nat \<Rightarrow> char \<Rightarrow> string list \<Rightarrow> nat list \<Rightarrow> OrderedMarkerValue \<Rightarrow> string list" where
  "renumber_loop indent delimiter lines [] current = lines"
| "renumber_loop indent delimiter lines (index # is) current =
     (case parse_list_item_prefix (lines ! index) of
        Some (line_indent, Ordered _ _, checkbox, content_offset) \<Rightarrow>
          if line_indent \<noteq> indent then renumber_loop indent delimiter lines is current
          else
            let text = trim_start (case str_get_from (lines ! index) content_offset of Some s \<Rightarrow> s | None \<Rightarrow> []);
                marker = ordered_marker_text current @ [delimiter] @ (if checkbox then '' [ ]'' else [])
            in renumber_loop indent delimiter (lines[index := format_list_line indent marker text]) is
                 (advance_ordered_marker current)
      | _ \<Rightarrow> renumber_loop indent delimiter lines is current)"

definition renumber_ordered_list ::
  "string list \<Rightarrow> nat \<Rightarrow> OrderedMarkerValue \<Rightarrow> char \<Rightarrow> string list" where
  "renumber_ordered_list lines start_index ordered_start delimiter =
     (case find_list_context lines start_index (length lines) of
        None \<Rightarrow> lines
      | Some list \<Rightarrow>
          (case lc_style list of
             Unordered _ \<Rightarrow> lines
           | Ordered _ _ \<Rightarrow>
               renumber_loop (lc_indent list) delimiter lines [lc_start list..<lc_end list] ordered_start))"

definition list_search_bounds ::
  "string list \<Rightarrow> CaptureTargetSelection \<Rightarrow> bool \<Rightarrow> (nat \<times> nat \<times> nat) result" where
  "list_search_bounds lines target prepend =
     (case target of
        FileTarget _ _ \<Rightarrow> Ok (0, length lines, if prepend then 0 else length lines)
      | HeadingTarget _ line level _ \<Rightarrow>
          map_out (\<lambda>(body_start, body_end). (body_start, body_end, if prepend then body_start else body_end))
            (heading_body_bounds lines line level))"

definition capture_list_item ::
  "OrgDocument \<Rightarrow> CaptureTargetSelection \<Rightarrow> string \<Rightarrow> CaptureContentType \<Rightarrow> bool \<Rightarrow> nat \<Rightarrow> nat \<Rightarrow>
   (OrgDocument \<times> string) result" where
  "capture_list_item d target content capture_type prepend before after =
     bind_out (list_search_bounds (doc_lines d) target prepend) (\<lambda>(search_start, search_end, fallback).
       let context_of = find_list_context (doc_lines d) search_start search_end;
           place = (case context_of of
               Some list \<Rightarrow> (if prepend then lc_start list else lc_end list,
                 if prepend then 0 else min before 1, if prepend then min after 1 else 0)
             | None \<Rightarrow> (fallback, before, after))
       in case place of (index, blank_before, blank_after) \<Rightarrow>
         bind_out (list_capture_lines content capture_type context_of) (\<lambda>block.
         bind_out (insert_block d index block blank_before blank_after) (\<lambda>(d', _).
           let lines' = (case context_of of
                 Some list \<Rightarrow> (case lc_style list of
                     Ordered ordered_start delimiter \<Rightarrow>
                       renumber_ordered_list (doc_lines d') (min (lc_start list) index) ordered_start delimiter
                   | Unordered _ \<Rightarrow> doc_lines d')
               | None \<Rightarrow> doc_lines d')
           in Ok (d'\<lparr>doc_lines := lines'\<rparr>, capture_target_node_key target))))"

section \<open>Tables\<close>

record TableContext =
  tc_start :: nat
  tc_end :: nat
  tc_hlines :: "nat list"
  tc_data_lines :: "nat list"

definition is_table_line :: "string \<Rightarrow> bool" where
  "is_table_line line \<longleftrightarrow> prefix ''|'' (trim_start line)"

definition is_table_hline :: "string \<Rightarrow> bool" where
  "is_table_hline line =
     (case Option.bind (strip_prefix_str ''|'' (trim line)) (strip_suffix_str ''|'') of
        None \<Rightarrow> False
      | Some stripped \<Rightarrow>
          trim stripped \<noteq> [] \<and> list_all (\<lambda>c. c \<in> set ''-+: '') (trim stripped) \<and>
          CHR ''-'' \<in> set (trim stripped))"

text \<open>The rows of a table from its start: \<open>None\<close> past the end of the document.\<close>

fun table_rows ::
  "string list \<Rightarrow> nat \<Rightarrow> nat list \<Rightarrow> nat list \<Rightarrow> nat list \<Rightarrow> (nat \<times> nat list \<times> nat list) option" where
  "table_rows lines end [] hlines data = Some (end, hlines, data)"
| "table_rows lines end (index # is) hlines data =
     (if length lines \<le> index then None
      else if \<not> is_table_line (lines ! index) then Some (index, hlines, data)
      else if is_table_hline (lines ! index) then table_rows lines end is (hlines @ [index]) data
      else table_rows lines end is hlines (data @ [index]))"

fun table_start_from :: "string list \<Rightarrow> nat list \<Rightarrow> nat option" where
  "table_start_from lines [] = None"
| "table_start_from lines (index # is) =
     (if length lines \<le> index then None
      else if is_table_line (lines ! index) then Some index
      else table_start_from lines is)"

definition find_table_context :: "string list \<Rightarrow> nat \<Rightarrow> nat \<Rightarrow> TableContext option" where
  "find_table_context lines start end =
     (case table_start_from lines [start..<end] of
        None \<Rightarrow> None
      | Some first \<Rightarrow>
          (case table_rows lines end [first..<end] [] [] of
             None \<Rightarrow> None
           | Some (end_index, hlines, data) \<Rightarrow>
               Some \<lparr>tc_start = first, tc_end = end_index, tc_hlines = hlines, tc_data_lines = data\<rparr>))"

definition count_I :: "string \<Rightarrow> nat" where
  "count_I spec = length (takeWhile (\<lambda>c. c = CHR ''I'') spec)"

definition table_line_position_index :: "TableContext \<Rightarrow> string \<Rightarrow> nat result" where
  "table_line_position_index table spec =
     (let hline_count = count_I spec; bad = TableLineSpec spec in
      if hline_count = 0 then Err bad
      else
        bind_out (ok_or bad (parse_i64 (drop hline_count spec))) (\<lambda>delta.
        bind_out (ok_or bad (get_opt (tc_hlines table) (hline_count - 1))) (\<lambda>hline.
          let relative = (if delta < 0 then delta + 1 else delta);
              index = wrap_i64 (int hline + relative)
          in if index < int (tc_start table) \<or> int (tc_end table) < index then Err bad
             else Ok (nat index))))"

definition table_insertion_index :: "TableContext \<Rightarrow> bool \<Rightarrow> string option \<Rightarrow> nat result" where
  "table_insertion_index table prepend table_line_pos =
     (case table_line_pos of
        Some spec \<Rightarrow> table_line_position_index table spec
      | None \<Rightarrow>
          Ok (if \<not> prepend then tc_end table
              else (case tc_hlines table of
                  first_hline # _ \<Rightarrow>
                    (case filter (\<lambda>line. first_hline < line) (tc_data_lines table) of
                       line # _ \<Rightarrow> line | [] \<Rightarrow> tc_end table)
                | [] \<Rightarrow> tc_start table)))"

definition table_capture_line :: "string \<Rightarrow> string" where
  "table_capture_line content =
     (let line = (case trimmed_capture_lines content of [] \<Rightarrow> [] | l # _ \<Rightarrow> l) in
      if prefix ''|'' (trim_start line) then line
      else if trim line = [] then ''|  |''
      else ''| '' @ trim line @ '' |'')"

definition table_search_bounds :: "string list \<Rightarrow> CaptureTargetSelection \<Rightarrow> (nat \<times> nat) result" where
  "table_search_bounds lines target =
     (case target of
        FileTarget _ _ \<Rightarrow> Ok (0, length lines)
      | HeadingTarget _ line level _ \<Rightarrow> heading_body_bounds lines line level)"

definition capture_table_line ::
  "OrgDocument \<Rightarrow> CaptureTargetSelection \<Rightarrow> string \<Rightarrow> bool \<Rightarrow> string option \<Rightarrow>
   (OrgDocument \<times> string) result" where
  "capture_table_line d target content prepend table_line_pos =
     bind_out (table_search_bounds (doc_lines d) target) (\<lambda>(search_start, search_end).
     bind_out (case find_table_context (doc_lines d) search_start search_end of
         Some table \<Rightarrow> Ok (d, table)
       | None \<Rightarrow>
           bind_out (insert_block d search_end [''|   |'', ''|---|''] 0 0) (\<lambda>(d', _).
             map_out (\<lambda>table. (d', table))
               (ok_or TablePreparation
                  (find_table_context (doc_lines d') search_end (length (doc_lines d')))))) (\<lambda>(d1, table).
     bind_out (table_insertion_index table prepend table_line_pos) (\<lambda>index.
     map_out (\<lambda>(d2, _). (d2, capture_target_node_key target))
       (insert_block d1 index [table_capture_line content] 0 0))))"

end
