(* ===== verification/Capture.thy ===== *)
theory Capture
  imports CaptureContent Rewrite
begin

text \<open>
  Notes and captures, \<open>crates/slipbox-write/src/capture_note.rs\<close> and
  \<open>capture_pipeline.rs\<close>, with the request parameters of
  \<open>crates/slipbox-core/src/write.rs\<close> they take.  \<open>fresh\<close> stands for the identifier
  \<open>Uuid::new_v4\<close> draws; \<open>fuel\<close> bounds the search for a free file name.
\<close>

section \<open>Appending a heading\<close>

definition append_heading_to_source :: "string \<Rightarrow> string \<Rightarrow> nat \<Rightarrow> string \<times> nat" where
  "append_heading_to_source source heading level =
     (let lines = lines_of source;
          padded = (if lines \<noteq> [] \<and> \<not> is_blank (last lines) then lines @ [[]] else lines)
      in (render_lines (padded @ [heading_of level heading]) (suffix [NL] source), length padded + 1))"

definition append_heading_under_node :: "string \<Rightarrow> nat \<Rightarrow> nat \<Rightarrow> string \<Rightarrow> (string \<times> nat) result" where
  "append_heading_under_node source line_number level heading =
     (let lines = lines_of source in
      if line_number = 0 \<or> length lines < line_number then Err (HeadingOutOfRange line_number)
      else
        let index = subtree_end_from lines (line_number - 1) level;
            blank = (0 < index \<and> \<not> is_blank (lines ! (index - 1)));
            padded = (if blank then splice_at index [[]] lines else lines);
            at = (if blank then index + 1 else index)
        in Ok (render_lines (splice_at at [heading_of (level + 1) heading] padded) (suffix [NL] source), at + 1))"

section \<open>File notes\<close>

definition note_content :: "string \<Rightarrow> string \<Rightarrow> string list \<Rightarrow> string" where
  "note_content explicit_id title refs =
     '':PROPERTIES:'' @ [NL] @ '':ID: '' @ explicit_id @ [NL] @
     (if refs = [] then [] else '':ROAM_REFS: '' @ format_property_values refs @ [NL]) @
     '':END:'' @ [NL] @ ''#+title: '' @ title @ [NL]"

definition write_file_note :: "nat \<Rightarrow> string \<Rightarrow> path \<Rightarrow> string \<Rightarrow> string list \<Rightarrow> unit io" where
  "write_file_note pid fresh p title refs =
     bind_io (case parent_dir p of None \<Rightarrow> return_io () | Some parent \<Rightarrow> sys_create_dir_all parent) (\<lambda>_.
     write_one pid p (note_content fresh title refs))"

definition create_file_note ::
  "nat \<Rightarrow> string \<Rightarrow> path \<Rightarrow> string \<Rightarrow> string \<Rightarrow> string list \<Rightarrow> CaptureOutcome io" where
  "create_file_note pid fresh root file_path title refs =
     bind_io (checked_absolute_org_path root file_path) (\<lambda>(relative, absolute).
     bind_io (write_file_note pid fresh absolute title refs) (\<lambda>_.
     return_io \<lparr>co_absolute_path = absolute, co_node_key = ''file:'' @ forward_slashes relative\<rparr>))"

text \<open>A search that runs out of fuel has no result.\<close>

definition with_found :: "'a option \<Rightarrow> ('a \<Rightarrow> 'b io) \<Rightarrow> 'b option io" where
  "with_found x f = (case x of None \<Rightarrow> return_io None | Some y \<Rightarrow> bind_io (f y) (\<lambda>r. return_io (Some r)))"

definition capture_file_note_with_refs ::
  "nat \<Rightarrow> nat \<Rightarrow> string \<Rightarrow> path \<Rightarrow> string \<Rightarrow> string list \<Rightarrow> CaptureOutcome option io" where
  "capture_file_note_with_refs fuel pid fresh root title refs =
     bind_io (sys_create_dir_all root) (\<lambda>_.
     bind_io (lift_io (normalized_title title)) (\<lambda>title. \<lambda>w.
     with_found (next_available_path fuel root (slugify title) w)
       (\<lambda>relative. create_file_note pid fresh root relative title refs) w))"

definition capture_file_note_at_with_refs ::
  "nat \<Rightarrow> nat \<Rightarrow> string \<Rightarrow> path \<Rightarrow> string \<Rightarrow> string \<Rightarrow> string list \<Rightarrow> CaptureOutcome option io" where
  "capture_file_note_at_with_refs fuel pid fresh root file_path title refs =
     bind_io (sys_create_dir_all root) (\<lambda>_.
     bind_io (lift_io (normalized_title title)) (\<lambda>title.
     bind_io (next_available_relative_path fuel root file_path) (\<lambda>found.
     with_found found (\<lambda>relative. create_file_note pid fresh root relative title refs))))"

definition ensure_file_note ::
  "nat \<Rightarrow> string \<Rightarrow> path \<Rightarrow> string \<Rightarrow> string \<Rightarrow> CaptureOutcome io" where
  "ensure_file_note pid fresh root file_path title =
     bind_io (sys_create_dir_all root) (\<lambda>_.
     bind_io (lift_io (normalized_title title)) (\<lambda>title.
     bind_io (checked_absolute_org_path root file_path) (\<lambda>(relative, absolute).
     bind_io (\<lambda>w. if sys_exists absolute w then (Ok (), w)
                  else write_file_note pid fresh absolute title [] w) (\<lambda>_.
     return_io \<lparr>co_absolute_path = absolute, co_node_key = ''file:'' @ forward_slashes relative\<rparr>))))"

text \<open>\<open>trim_start_matches("file:")\<close> strips every leading occurrence.\<close>

definition strip_file_prefix :: "string \<Rightarrow> string" where
  "strip_file_prefix key = trim_start_pat ''file:'' key"

definition append_heading ::
  "nat \<Rightarrow> string \<Rightarrow> path \<Rightarrow> string \<Rightarrow> string \<Rightarrow> string \<Rightarrow> nat \<Rightarrow> CaptureOutcome io" where
  "append_heading pid fresh root file_path title heading level =
     (if trim heading = [] then fail_io EmptyCaptureHeading
      else
        bind_io (ensure_file_note pid fresh root file_path title) (\<lambda>file_note.
        bind_io (sys_read (co_absolute_path file_note)) (\<lambda>source.
        case append_heading_to_source source (trim heading) (max level 1) of (updated, line_number) \<Rightarrow>
          bind_io (write_one pid (co_absolute_path file_note) updated) (\<lambda>_.
          return_io \<lparr>co_absolute_path = co_absolute_path file_note,
            co_node_key = ''heading:'' @ strip_file_prefix (co_node_key file_note) @ '':'' @ show_nat line_number\<rparr>))))"

definition append_heading_to_node :: "nat \<Rightarrow> path \<Rightarrow> NodeRecord \<Rightarrow> string \<Rightarrow> CaptureOutcome io" where
  "append_heading_to_node pid root node heading =
     (if trim heading = [] then fail_io EmptyCaptureHeading
      else
        bind_io (checked_absolute_org_path root (nd_file_path node)) (\<lambda>(_, absolute).
        bind_io (sys_read absolute) (\<lambda>source.
        bind_io (lift_io (case nd_kind node of
            FileNode \<Rightarrow> Ok (append_heading_to_source source (trim heading) 1)
          | HeadingNode \<Rightarrow> append_heading_under_node source (nd_line node) (nd_level node) (trim heading)))
          (\<lambda>(updated, line_number).
        bind_io (write_one pid absolute updated) (\<lambda>_.
        return_io \<lparr>co_absolute_path = absolute,
          co_node_key = ''heading:'' @ nd_file_path node @ '':'' @ show_nat line_number\<rparr>)))))"

definition append_at_outline :: "OrgDocument \<Rightarrow> string list \<Rightarrow> string \<Rightarrow> (string \<times> nat) result" where
  "append_at_outline d outline_path heading =
     bind_out (ensure_outline_path (doc_lines d) outline_path) (\<lambda>(lines, place).
       let rendered = render (d\<lparr>doc_lines := lines\<rparr>) in
       case place of
         Some (line_number, level) \<Rightarrow> append_heading_under_node rendered line_number level heading
       | None \<Rightarrow> Ok (append_heading_to_source rendered heading 1))"

definition append_heading_at_outline_path ::
  "nat \<Rightarrow> path \<Rightarrow> string \<Rightarrow> string \<Rightarrow> string list \<Rightarrow> string option \<Rightarrow> CaptureOutcome io" where
  "append_heading_at_outline_path pid root file_path heading outline_path head =
     (if trim heading = [] then fail_io EmptyCaptureHeading
      else
        bind_io (sys_create_dir_all root) (\<lambda>_.
        bind_io (checked_absolute_org_path root file_path) (\<lambda>(relative, absolute).
        bind_io (\<lambda>w. if sys_exists absolute w then sys_read absolute w
                     else (Ok (normalized_head_source head), w)) (\<lambda>source.
        bind_io (lift_io (append_at_outline (from_source source) outline_path (trim heading)))
          (\<lambda>(rendered, line_number).
        bind_io (write_one pid absolute rendered) (\<lambda>_.
        return_io \<lparr>co_absolute_path = absolute,
          co_node_key = ''heading:'' @ forward_slashes relative @ '':'' @ show_nat line_number\<rparr>))))))"

definition capture_file_note_at_with_head_and_refs ::
  "nat \<Rightarrow> nat \<Rightarrow> string \<Rightarrow> path \<Rightarrow> string \<Rightarrow> string \<Rightarrow> string \<Rightarrow> string list \<Rightarrow> CaptureOutcome option io" where
  "capture_file_note_at_with_head_and_refs fuel pid fresh root file_path title head refs =
     bind_io (sys_create_dir_all root) (\<lambda>_.
     bind_io (lift_io (normalized_title title)) (\<lambda>_.
     bind_io (next_available_relative_path fuel root file_path) (\<lambda>found.
     with_found found (\<lambda>relative.
       bind_io (lift_io (ensure_file_identity_with_refs fresh
           (from_source (normalized_head_source (Some head))) refs)) (\<lambda>d.
       bind_io (write_one pid (join_root root relative) (render d)) (\<lambda>_.
       return_io \<lparr>co_absolute_path = join_root root relative,
                  co_node_key = ''file:'' @ forward_slashes relative\<rparr>))))))"

section \<open>Capture templates\<close>

record CaptureTemplateParams =
  cp_title :: string
  cp_file_path :: "string option"
  cp_node_key :: "string option"
  cp_head :: "string option"
  cp_outline_path :: "string list"
  cp_capture_type :: CaptureContentType
  cp_content :: string
  cp_refs :: "string list"
  cp_prepend :: bool
  cp_empty_lines_before :: nat
  cp_empty_lines_after :: nat
  cp_table_line_pos :: "string option"

definition normalized_outline_path :: "CaptureTemplateParams \<Rightarrow> string list" where
  "normalized_outline_path p = normalize_string_values (cp_outline_path p) False"

definition template_refs :: "CaptureTemplateParams \<Rightarrow> string list" where
  "template_refs p = normalized_refs (cp_refs p)"

definition normalized_empty_lines_before :: "CaptureTemplateParams \<Rightarrow> nat" where
  "normalized_empty_lines_before p = min (cp_empty_lines_before p) 8"

definition normalized_empty_lines_after :: "CaptureTemplateParams \<Rightarrow> nat" where
  "normalized_empty_lines_after p = min (cp_empty_lines_after p) 8"

definition normalized_table_line_pos :: "CaptureTemplateParams \<Rightarrow> string option" where
  "normalized_table_line_pos p =
     (case cp_table_line_pos p of None \<Rightarrow> None
      | Some value \<Rightarrow> if trim value \<noteq> [] then Some (trim value) else None)"

definition resolve_template_relative_path ::
  "nat \<Rightarrow> path \<Rightarrow> NodeRecord option \<Rightarrow> CaptureTemplateParams \<Rightarrow> world \<Rightarrow> string option result" where
  "resolve_template_relative_path fuel root target_node p w =
     (case target_node of
        Some target \<Rightarrow> Ok (Some (nd_file_path target))
      | None \<Rightarrow>
          (case cp_file_path p of
             Some file_path \<Rightarrow> map_out Some (normalize_relative_org_path file_path)
           | None \<Rightarrow>
               Ok (next_available_path fuel root
                     (if trim (cp_title p) = [] then ''note'' else slugify (trim (cp_title p))) w)))"

definition resolve_capture_target ::
  "OrgDocument \<Rightarrow> string \<Rightarrow> NodeRecord option \<Rightarrow> CaptureTemplateParams \<Rightarrow>
   (OrgDocument \<times> CaptureTargetSelection) result" where
  "resolve_capture_target d relative target_node p =
     (case target_node of
        Some target \<Rightarrow>
          Ok (d, case nd_kind target of
              FileNode \<Rightarrow> FileTarget relative (nd_node_key target)
            | HeadingNode \<Rightarrow> HeadingTarget relative (nd_line target) (nd_level target) (nd_node_key target))
      | None \<Rightarrow>
          map_out (\<lambda>(lines, place). (d\<lparr>doc_lines := lines\<rparr>,
              case place of
                Some (line_number, level) \<Rightarrow>
                  HeadingTarget relative line_number level
                    (''heading:'' @ forward_slashes relative @ '':'' @ show_nat line_number)
              | None \<Rightarrow> FileTarget relative (''file:'' @ forward_slashes relative)))
            (ensure_outline_path (doc_lines d) (normalized_outline_path p)))"

definition capture_content ::
  "OrgDocument \<Rightarrow> CaptureTargetSelection \<Rightarrow> CaptureTemplateParams \<Rightarrow> (OrgDocument \<times> string) result" where
  "capture_content d target p =
     (let before = normalized_empty_lines_before p; after = normalized_empty_lines_after p in
      case cp_capture_type p of
        Entry \<Rightarrow> capture_entry d target (cp_content p) (cp_title p) (cp_prepend p) before after
      | Plain \<Rightarrow> capture_plain d target (cp_content p) (cp_prepend p) before after
      | Item \<Rightarrow> capture_list_item d target (cp_content p) Item (cp_prepend p) before after
      | Checkitem \<Rightarrow> capture_list_item d target (cp_content p) Checkitem (cp_prepend p) before after
      | TableLine \<Rightarrow> capture_table_line d target (cp_content p) (cp_prepend p) (normalized_table_line_pos p))"

definition capture_heading_line_number :: "string \<Rightarrow> nat option" where
  "capture_heading_line_number node_key =
     (case Option.bind (strip_prefix_str ''heading:'' node_key) (rsplit_once '':'') of
        None \<Rightarrow> None | Some (_, line_number) \<Rightarrow> parse_usize line_number)"

definition ensure_capture_node_identity :: "string \<Rightarrow> OrgDocument \<Rightarrow> string \<Rightarrow> OrgDocument result" where
  "ensure_capture_node_identity fresh d node_key =
     (if prefix ''file:'' node_key then ensure_file_identity fresh d
      else
        (case capture_heading_line_number node_key of
           None \<Rightarrow> Err (UnsupportedNodeKey node_key)
         | Some line_number \<Rightarrow>
             bind_out (heading_property_value (doc_lines d) line_number ''ID'') (\<lambda>existing.
             map_out (\<lambda>lines. d\<lparr>doc_lines := lines\<rparr>)
               (set_heading_property (doc_lines d) line_number ''ID''
                  (Some (case existing of Some i \<Rightarrow> i | None \<Rightarrow> fresh))))))"

text \<open>From a source text to the captured document: everything after the file was read.\<close>

definition capture_document ::
  "string \<Rightarrow> string \<Rightarrow> NodeRecord option \<Rightarrow> CaptureTemplateParams \<Rightarrow> bool \<Rightarrow> bool \<Rightarrow> string \<Rightarrow> string \<Rightarrow>
   (OrgDocument \<times> string) result" where
  "capture_document fresh fresh2 target_node p is_new ensure_node_id relative source =
     (let d0 = from_source source in
      bind_out
        (if is_new then
           bind_out (if cp_head p = None then
               set_file_keyword (doc_lines d0) ''title''
                 (Some (default_capture_file_title relative (cp_title p)))
             else Ok (doc_lines d0)) (\<lambda>lines.
           ensure_file_identity_with_refs fresh (d0\<lparr>doc_lines := lines\<rparr>) (template_refs p))
         else Ok d0) (\<lambda>d1.
      bind_out (resolve_capture_target d1 relative target_node p) (\<lambda>(d2, target).
      bind_out (capture_content d2 target p) (\<lambda>(d3, node_key).
      if ensure_node_id then map_out (\<lambda>d4. (d4, node_key)) (ensure_capture_node_identity fresh2 d3 node_key)
      else Ok (d3, node_key)))))"

record PreparedCapture =
  pc_absolute_path :: path
  pc_relative_path :: string
  pc_document :: OrgDocument
  pc_node_key :: string

definition prepare_capture_template ::
  "nat \<Rightarrow> string \<Rightarrow> string \<Rightarrow> path \<Rightarrow> NodeRecord option \<Rightarrow> CaptureTemplateParams \<Rightarrow> string option \<Rightarrow> bool \<Rightarrow>
   PreparedCapture option io" where
  "prepare_capture_template fuel fresh fresh2 root target_node p source_override ensure_node_id =
     bind_io (sys_create_dir_all root) (\<lambda>_.
     bind_io (\<lambda>w. (resolve_template_relative_path fuel root target_node p w, w)) (\<lambda>found.
     with_found found (\<lambda>resolved.
       bind_io (checked_absolute_org_path root resolved) (\<lambda>(relative, absolute). \<lambda>w.
         let existed = sys_exists absolute w in
         bind_io (case source_override of
             Some source \<Rightarrow> return_io source
           | None \<Rightarrow> if existed then sys_read absolute else return_io (normalized_head_source (cp_head p))) (\<lambda>source.
         bind_io (lift_io (capture_document fresh fresh2 target_node p
             (\<not> existed \<and> source_override = None) ensure_node_id relative source)) (\<lambda>(d, node_key).
         return_io \<lparr>pc_absolute_path = absolute, pc_relative_path = relative, pc_document = d,
                    pc_node_key = node_key\<rparr>)) w))))"

definition capture_template ::
  "nat \<Rightarrow> nat \<Rightarrow> string \<Rightarrow> string \<Rightarrow> path \<Rightarrow> NodeRecord option \<Rightarrow> CaptureTemplateParams \<Rightarrow>
   CaptureOutcome option io" where
  "capture_template fuel pid fresh fresh2 root target_node p =
     bind_io (prepare_capture_template fuel fresh fresh2 root target_node p None False) (\<lambda>found.
     with_found found (\<lambda>prepared.
       bind_io (write_one pid (pc_absolute_path prepared) (render (pc_document prepared))) (\<lambda>_.
       return_io \<lparr>co_absolute_path = pc_absolute_path prepared, co_node_key = pc_node_key prepared\<rparr>)))"

record CapturePreviewOutcome =
  cv_absolute_path :: path
  cv_relative_path :: string
  cv_node_key :: string
  cv_content :: string

definition preview_capture_template ::
  "nat \<Rightarrow> string \<Rightarrow> string \<Rightarrow> path \<Rightarrow> NodeRecord option \<Rightarrow> CaptureTemplateParams \<Rightarrow> string option \<Rightarrow> bool \<Rightarrow>
   CapturePreviewOutcome option io" where
  "preview_capture_template fuel fresh fresh2 root target_node p source_override ensure_node_id =
     bind_io (prepare_capture_template fuel fresh fresh2 root target_node p source_override ensure_node_id) (\<lambda>found.
     with_found found (\<lambda>prepared.
       return_io \<lparr>cv_absolute_path = pc_absolute_path prepared, cv_relative_path = pc_relative_path prepared,
                  cv_node_key = pc_node_key prepared, cv_content = render (pc_document prepared)\<rparr>))"

end
