(* ===== verification/SourceIdentity.thy ===== *)
theory SourceIdentity
  imports CoreModel RustStrFacts "HOL-Library.Word"
begin

text \<open>
  The identities and the configuration of a source,
  \<open>crates/slipbox-core/src/source_identity.rs\<close>: the validated string types, the remote
  URL and its normal form, the branch and notes-folder grammars, keys scoped to a
  source, the source record and the changes it admits.  A validated newtype is the
  string it wraps; its \<open>parse\<close> is the only way to obtain one.  Display texts are
  left out.
\<close>

unbundle bit_operations_syntax

section \<open>Source identities\<close>

type_synonym SourceId = string

definition SOURCE_ID_ENTROPY_BYTES :: nat where "SOURCE_ID_ENTROPY_BYTES = 16"
definition SOURCE_ID_CHARS :: nat where "SOURCE_ID_CHARS = SOURCE_ID_ENTROPY_BYTES * 2"

definition hex_digit :: "8 word \<Rightarrow> char" where
  "hex_digit d = ''0123456789abcdef'' ! unat d"

definition mint :: "8 word list \<Rightarrow> SourceId" where
  "mint entropy = concat (map (\<lambda>byte. [hex_digit (drop_bit 4 byte), hex_digit (byte AND 0x0f)]) entropy)"

datatype SourceIdError = SourceIdLength nat | SourceIdCharset

definition is_lower_hex :: "char \<Rightarrow> bool" where
  "is_lower_hex c \<longleftrightarrow> is_ascii_digit c \<or> (97 \<le> code c \<and> code c \<le> 102)"

definition source_id_parse :: "string \<Rightarrow> (SourceId, SourceIdError) outcome" where
  "source_id_parse value =
     (let found = char_count value in
      if found \<noteq> SOURCE_ID_CHARS then Err (SourceIdLength found)
      else if \<not> list_all is_lower_hex value then Err SourceIdCharset
      else Ok value)"

section \<open>Providers, visibility, scopes\<close>

datatype SourceProvider = GenericHttps | GitHub

definition provider_as_str :: "SourceProvider \<Rightarrow> string" where
  "provider_as_str p = (case p of GenericHttps \<Rightarrow> ''generic_https'' | GitHub \<Rightarrow> ''github'')"

definition supports_private_access :: "SourceProvider \<Rightarrow> bool" where
  "supports_private_access p = (case p of GenericHttps \<Rightarrow> False | GitHub \<Rightarrow> True)"

definition provider_authority :: "SourceProvider \<Rightarrow> string option" where
  "provider_authority p = (case p of GenericHttps \<Rightarrow> None | GitHub \<Rightarrow> Some ''github.com'')"

datatype SourceVisibility = Public | Private

datatype SourceScope = NoteScope | FileScope | AssetScope | ReadingReferenceScope

definition scope_as_str :: "SourceScope \<Rightarrow> string" where
  "scope_as_str s = (case s of NoteScope \<Rightarrow> ''note'' | FileScope \<Rightarrow> ''file''
     | AssetScope \<Rightarrow> ''asset'' | ReadingReferenceScope \<Rightarrow> ''reading_reference'')"

definition scope_from_token :: "string \<Rightarrow> SourceScope option" where
  "scope_from_token t =
     (if t = ''note'' then Some NoteScope
      else if t = ''file'' then Some FileScope
      else if t = ''asset'' then Some AssetScope
      else if t = ''reading_reference'' then Some ReadingReferenceScope
      else None)"

lemma scope_roundtrip [simp]: "scope_from_token (scope_as_str s) = Some s"
  by (cases s) (simp_all add: scope_as_str_def scope_from_token_def)

text \<open>The derived order is the order of declaration.\<close>

definition scope_rank :: "SourceScope \<Rightarrow> nat" where
  "scope_rank s = (case s of NoteScope \<Rightarrow> 0 | FileScope \<Rightarrow> 1 | AssetScope \<Rightarrow> 2 | ReadingReferenceScope \<Rightarrow> 3)"

instantiation SourceScope :: linorder
begin

definition less_eq_SourceScope :: "SourceScope \<Rightarrow> SourceScope \<Rightarrow> bool" where
  "less_eq_SourceScope a b \<longleftrightarrow> scope_rank a \<le> scope_rank b"

definition less_SourceScope :: "SourceScope \<Rightarrow> SourceScope \<Rightarrow> bool" where
  "less_SourceScope a b \<longleftrightarrow> scope_rank a < scope_rank b"

instance
proof
  fix a b :: SourceScope
  assume "a \<le> b" and "b \<le> a"
  then have "scope_rank a = scope_rank b"
    by (simp add: less_eq_SourceScope_def)
  then show "a = b"
    by (cases a; cases b) (simp_all add: scope_rank_def)
qed (auto simp: less_eq_SourceScope_def less_SourceScope_def)

end

section \<open>Validated text\<close>

datatype SourceTextReason = TextEmpty | TextTooLong nat | TextCharset | CredentialLike

record SourceTextError =
  te_field :: string
  te_reason :: SourceTextReason

datatype TextCharset = AsciiGraphic | PrintableUnicode

definition is_ascii_graphic :: "char \<Rightarrow> bool" where
  "is_ascii_graphic c \<longleftrightarrow> 33 \<le> code c \<and> code c \<le> 126"

text \<open>\<open>char::is_control\<close>: U+0000--U+001F, U+007F, and U+0080--U+009F in two bytes.\<close>

fun control_at :: "string \<Rightarrow> bool" where
  "control_at [] = False"
| "control_at (a # s) =
     (code a < 32 \<or> code a = 127 \<or>
      (code a = 0xC2 \<and> (case s of [] \<Rightarrow> False | b # _ \<Rightarrow> 128 \<le> code b \<and> code b \<le> 159)))"

fun has_control :: "string \<Rightarrow> bool" where
  "has_control [] = False"
| "has_control (c # s) = (control_at (c # s) \<or> has_control s)"

text \<open>White space other than the plain space.\<close>

fun has_ws_not_space :: "string \<Rightarrow> bool" where
  "has_ws_not_space [] = False"
| "has_ws_not_space (c # s) = ((ws_len (c # s) \<noteq> 0 \<and> c \<noteq> SP) \<or> has_ws_not_space s)"

definition admitted_text :: "TextCharset \<Rightarrow> string \<Rightarrow> bool" where
  "admitted_text charset value =
     (case charset of AsciiGraphic \<Rightarrow> list_all is_ascii_graphic value
      | PrintableUnicode \<Rightarrow> \<not> has_control value \<and> trim value = value \<and> \<not> has_ws_not_space value)"

definition parse_text :: "string \<Rightarrow> string \<Rightarrow> nat \<Rightarrow> TextCharset \<Rightarrow> (string, SourceTextError) outcome" where
  "parse_text field value limit charset =
     (if value = [] then Err \<lparr>te_field = field, te_reason = TextEmpty\<rparr>
      else if limit < char_count value then Err \<lparr>te_field = field, te_reason = TextTooLong limit\<rparr>
      else if \<not> admitted_text charset value then Err \<lparr>te_field = field, te_reason = TextCharset\<rparr>
      else Ok value)"

definition MAX_DISPLAY_NAME_CHARS :: nat where "MAX_DISPLAY_NAME_CHARS = 100"
definition MAX_PROVIDER_TEXT_CHARS :: nat where "MAX_PROVIDER_TEXT_CHARS = 128"

definition display_name_parse :: "string \<Rightarrow> (string, SourceTextError) outcome" where
  "display_name_parse value =
     parse_text ''a source display name'' (trim value) MAX_DISPLAY_NAME_CHARS PrintableUnicode"

definition repository_id_parse :: "string \<Rightarrow> (string, SourceTextError) outcome" where
  "repository_id_parse value =
     parse_text ''a provider repository identity'' value MAX_PROVIDER_TEXT_CHARS AsciiGraphic"

definition account_id_parse :: "string \<Rightarrow> (string, SourceTextError) outcome" where
  "account_id_parse value =
     parse_text ''a provider account identity'' value MAX_PROVIDER_TEXT_CHARS AsciiGraphic"

definition CREDENTIAL_TOKEN_PREFIXES :: "string list" where
  "CREDENTIAL_TOKEN_PREFIXES = [''ghp_'', ''gho_'', ''ghu_'', ''ghs_'', ''ghr_'', ''github_pat_'']"

definition credential_parse :: "string \<Rightarrow> (string, SourceTextError) outcome" where
  "credential_parse value =
     bind_out (parse_text ''a credential reference'' value MAX_PROVIDER_TEXT_CHARS AsciiGraphic) (\<lambda>handle.
       if list_ex (\<lambda>p. prefix p (lower_str handle)) CREDENTIAL_TOKEN_PREFIXES
       then Err \<lparr>te_field = ''a credential reference'', te_reason = CredentialLike\<rparr>
       else Ok handle)"

section \<open>Remote URLs\<close>

datatype RemoteUrlError =
    UnsupportedScheme | CredentialInAuthority | QueryOrFragment | MissingHost | InvalidHost
  | InvalidPort | MissingPath | InvalidPath | RemoteTooLong nat

definition MAX_REMOTE_URL_CHARS :: nat where "MAX_REMOTE_URL_CHARS = 512"
definition MAX_HOST_CHARS :: nat where "MAX_HOST_CHARS = 253"
definition MAX_HOST_LABEL_CHARS :: nat where "MAX_HOST_LABEL_CHARS = 63"
definition DEFAULT_HTTPS_PORT :: nat where "DEFAULT_HTTPS_PORT = 443"

text \<open>\<open>parse::<u16>\<close>: an optional plus sign, digits, no overflow.\<close>

definition parse_u16 :: "string \<Rightarrow> nat option" where
  "parse_u16 s =
     (case parse_digits (case s of c # t \<Rightarrow> if c = CHR ''+'' then t else s | [] \<Rightarrow> []) of
        None \<Rightarrow> None
      | Some n \<Rightarrow> if int n < 65536 then Some n else None)"

definition parse_port :: "string \<Rightarrow> (nat, RemoteUrlError) outcome" where
  "parse_port port =
     (if port = [] \<or> CHR '':'' \<in> set port \<or> (1 < length port \<and> prefix ''0'' port) then Err InvalidPort
      else (case parse_u16 port of None \<Rightarrow> Err InvalidPort
            | Some n \<Rightarrow> if n = 0 then Err InvalidPort else Ok n))"

definition host_label_ok :: "string \<Rightarrow> bool" where
  "host_label_ok label \<longleftrightarrow>
     label \<noteq> [] \<and> char_count label \<le> MAX_HOST_LABEL_CHARS \<and> \<not> prefix ''-'' label \<and> \<not> suffix ''-'' label \<and>
     list_all (\<lambda>c. is_ascii_alphanumeric c \<or> c = CHR ''-'') label"

definition parse_authority :: "string \<Rightarrow> (string \<times> nat option, RemoteUrlError) outcome" where
  "parse_authority authority =
     (if prefix ''['' authority \<or> CHR '']'' \<in> set authority then Err InvalidHost
      else
        let (host, port) = (case split_once '':'' authority of Some (h, p) \<Rightarrow> (h, Some p)
                            | None \<Rightarrow> (authority, None)) in
        bind_out (case port of None \<Rightarrow> Ok None | Some p \<Rightarrow> map_out Some (parse_port p)) (\<lambda>port.
          if host = [] then Err MissingHost
          else
            let host = lower_str host in
            if MAX_HOST_CHARS < char_count host then Err InvalidHost
            else if \<not> list_all host_label_ok (split_on (\<lambda>c. c = CHR ''.'') host) then Err InvalidHost
            else Ok (host, port)))"

definition is_url_slash :: "char \<Rightarrow> bool" where
  "is_url_slash c \<longleftrightarrow> c = CHR ''/''"

definition url_path_byte :: "char \<Rightarrow> bool" where
  "url_path_byte c \<longleftrightarrow> is_ascii_alphanumeric c \<or> c = CHR ''-'' \<or> c = CHR ''_'' \<or> c = CHR ''.'' \<or> c = CHR ''~''"

definition url_segment_ok :: "string \<Rightarrow> bool" where
  "url_segment_ok seg \<longleftrightarrow> seg \<noteq> [] \<and> seg \<noteq> ''.'' \<and> seg \<noteq> ''..'' \<and> list_all url_path_byte seg"

definition strip_trailing_slash :: "string \<Rightarrow> string" where
  "strip_trailing_slash s = (case strip_suffix_str ''/'' s of Some t \<Rightarrow> t | None \<Rightarrow> s)"

definition normalize_remote_path :: "string \<Rightarrow> (string, RemoteUrlError) outcome" where
  "normalize_remote_path p =
     (let p = strip_trailing_slash p in
      if p = [] then Err MissingPath
      else if \<not> list_all url_segment_ok (split_on is_url_slash p) then Err InvalidPath
      else Ok (CHR ''/'' # p))"

definition remote_text :: "string \<Rightarrow> nat option \<Rightarrow> string \<Rightarrow> string" where
  "remote_text host port p =
     ''https://'' @ host @
     (case port of None \<Rightarrow> [] | Some n \<Rightarrow> if n = DEFAULT_HTTPS_PORT then [] else CHR '':'' # show_nat n) @ p"

definition remote_parse :: "string \<Rightarrow> (string, RemoteUrlError) outcome" where
  "remote_parse value =
     (let value = trim value in
      if MAX_REMOTE_URL_CHARS < char_count value then Err (RemoteTooLong MAX_REMOTE_URL_CHARS)
      else (case split_once ''://'' value of
          None \<Rightarrow> Err UnsupportedScheme
        | Some (scheme, rest) \<Rightarrow>
            if \<not> eq_ignore_case scheme ''https'' then Err UnsupportedScheme
            else if CHR ''?'' \<in> set rest \<or> CHR ''#'' \<in> set rest then Err QueryOrFragment
            else (case split_once ''/'' rest of
                None \<Rightarrow> Err MissingPath
              | Some (authority, p) \<Rightarrow>
                  if CHR ''@'' \<in> set authority then Err CredentialInAuthority
                  else
                    bind_out (parse_authority authority) (\<lambda>(host, port).
                    bind_out (normalize_remote_path p) (\<lambda>p.
                      Ok (remote_text host port p))))))"

definition remote_parts :: "string \<Rightarrow> string \<times> string" where
  "remote_parts url =
     (let rest = (case strip_prefix_str ''https://'' url of Some r \<Rightarrow> r | None \<Rightarrow> [])
      in (case find_sub ''/'' rest of Some i \<Rightarrow> (take i rest, drop i rest) | None \<Rightarrow> (rest, [])))"

definition remote_host :: "string \<Rightarrow> string" where
  "remote_host url =
     (let authority = fst (remote_parts url)
      in case split_once '':'' authority of Some (host, _) \<Rightarrow> host | None \<Rightarrow> authority)"

definition remote_port :: "string \<Rightarrow> nat option" where
  "remote_port url = Option.bind (split_once '':'' (fst (remote_parts url))) (\<lambda>(_, port). parse_u16 port)"

definition remote_path :: "string \<Rightarrow> string" where
  "remote_path url = snd (remote_parts url)"

section \<open>Branches and notes folders\<close>

datatype GitBranchError =
    BranchEmpty | BranchTooLong nat | BranchInvalidCharacter | BranchInvalidComponent
  | BranchReservedSequence | BranchReservedName

definition MAX_BRANCH_CHARS :: nat where "MAX_BRANCH_CHARS = 255"

definition branch_char_refused :: "char \<Rightarrow> bool" where
  "branch_char_refused c \<longleftrightarrow>
     c \<in> {SP, CHR ''~'', CHR ''^'', CHR '':'', CHR ''?'', CHR ''*'', CHR ''['', CHR 0x5C, CHR 0x7F}"

definition contains_str :: "string \<Rightarrow> string \<Rightarrow> bool" where
  "contains_str p s \<longleftrightarrow> find_sub p s \<noteq> None"

definition branch_parse :: "string \<Rightarrow> (string, GitBranchError) outcome" where
  "branch_parse value =
     (let value = trim value in
      if value = [] then Err BranchEmpty
      else if MAX_BRANCH_CHARS < char_count value then Err (BranchTooLong MAX_BRANCH_CHARS)
      else if has_control value \<or> list_ex branch_char_refused value then Err BranchInvalidCharacter
      else if value = ''HEAD'' \<or> value = ''@'' then Err BranchReservedName
      else if contains_str ''..'' value \<or> contains_str [CHR ''@'', CHR ''{''] value then Err BranchReservedSequence
      else if prefix ''-'' value \<or> prefix ''/'' value \<or> suffix ''/'' value \<or> suffix ''.'' value
              \<or> contains_str ''//'' value then Err BranchInvalidComponent
      else if list_ex (\<lambda>component. component = [] \<or> prefix ''.'' component \<or> suffix ''.lock'' component)
                (split_on is_url_slash value) then Err BranchInvalidComponent
      else Ok value)"

datatype NotesFolderError =
    FolderAbsolute | FolderTraversal | FolderEmptySegment | FolderReservedSegment
  | FolderInvalidCharacter | FolderTooLong nat

definition MAX_NOTES_FOLDER_CHARS :: nat where "MAX_NOTES_FOLDER_CHARS = 512"

fun check_segments :: "string list \<Rightarrow> (unit, NotesFolderError) outcome" where
  "check_segments [] = Ok ()"
| "check_segments (seg # rest) =
     (if seg = [] then Err FolderEmptySegment
      else if seg = ''..'' then Err FolderTraversal
      else if seg = ''.'' \<or> seg = ''.git'' then Err FolderReservedSegment
      else check_segments rest)"

definition notes_folder_root :: string where "notes_folder_root = []"

definition notes_folder_parse :: "string \<Rightarrow> (string, NotesFolderError) outcome" where
  "notes_folder_parse value =
     (let value = trim value in
      if value = [] \<or> value = ''.'' then Ok notes_folder_root
      else if MAX_NOTES_FOLDER_CHARS < char_count value then Err (FolderTooLong MAX_NOTES_FOLDER_CHARS)
      else if prefix ''/'' value then Err FolderAbsolute
      else if has_control value \<or> CHR 0x5C \<in> set value \<or> CHR '':'' \<in> set value then Err FolderInvalidCharacter
      else
        let value = strip_trailing_slash value in
        bind_out (check_segments (split_on is_url_slash value)) (\<lambda>_. Ok value))"

definition folder_is_root :: "string \<Rightarrow> bool" where
  "folder_is_root f \<longleftrightarrow> f = []"

section \<open>Keys scoped to a source\<close>

datatype SourceScopedKeyError =
    ScopedKeyText SourceTextError | ScopedKeySource SourceIdError | ScopedKeyMalformed | ScopedKeyUnknownScope

record SourceScopedKey =
  sk_source :: SourceId
  sk_scope :: SourceScope
  sk_key :: string

definition MAX_SCOPED_KEY_CHARS :: nat where "MAX_SCOPED_KEY_CHARS = 1024"

definition scoped_key_new ::
  "SourceId \<Rightarrow> SourceScope \<Rightarrow> string \<Rightarrow> (SourceScopedKey, SourceScopedKeyError) outcome" where
  "scoped_key_new source scope key =
     bind_out (map_err ScopedKeyText (parse_text ''a source-scoped key'' key MAX_SCOPED_KEY_CHARS PrintableUnicode))
       (\<lambda>key. Ok \<lparr>sk_source = source, sk_scope = scope, sk_key = key\<rparr>)"

definition storage_key :: "SourceScopedKey \<Rightarrow> string" where
  "storage_key k = sk_source k @ '':'' @ scope_as_str (sk_scope k) @ '':'' @ sk_key k"

definition parse_storage_key :: "string \<Rightarrow> (SourceScopedKey, SourceScopedKeyError) outcome" where
  "parse_storage_key value =
     (case split_once '':'' value of None \<Rightarrow> Err ScopedKeyMalformed
      | Some (source, rest) \<Rightarrow>
          (case split_once '':'' rest of None \<Rightarrow> Err ScopedKeyMalformed
           | Some (scope, key) \<Rightarrow>
               bind_out (map_err ScopedKeySource (source_id_parse source)) (\<lambda>source.
                 case scope_from_token scope of None \<Rightarrow> Err ScopedKeyUnknownScope
                 | Some scope \<Rightarrow> scoped_key_new source scope key)))"

section \<open>Source records\<close>

text \<open>\<open>SourceConfiguration\<close> and \<open>SourceRecord\<close> have the same fields; the record is the validated one.\<close>

record SourceConfiguration =
  sc_id :: SourceId
  sc_display_name :: string
  sc_provider :: SourceProvider
  sc_visibility :: SourceVisibility
  sc_provider_repository_id :: "string option"
  sc_account :: "string option"
  sc_remote :: string
  sc_branch :: string
  sc_notes_folder :: string
  sc_credential :: "string option"

type_synonym SourceRecord = SourceConfiguration

datatype SourceRecordError =
    UnsupportedPrivateProvider SourceProvider | UnsupportedProviderAuthority SourceProvider
  | UnsupportedProviderRepositoryPath SourceProvider | UnsupportedProviderRepositoryId SourceProvider
  | MissingRepositoryIdentity | MissingAccountIdentity | MissingCredentialReference
  | UnexpectedAccountIdentity | UnexpectedCredentialReference

definition validate_provider_remote :: "SourceProvider \<Rightarrow> string \<Rightarrow> (unit, SourceRecordError) outcome" where
  "validate_provider_remote provider remote =
     (case provider_authority provider of None \<Rightarrow> Ok ()
      | Some authority \<Rightarrow>
          if remote_host remote \<noteq> authority \<or> remote_port remote \<noteq> None
          then Err (UnsupportedProviderAuthority provider)
          else
            let p = (case strip_prefix_str ''/'' (remote_path remote) of Some r \<Rightarrow> r | None \<Rightarrow> []);
                segments = split_on is_url_slash p;
                owner = (case segments of [] \<Rightarrow> [] | s # _ \<Rightarrow> s);
                repository = (case segments of _ # s # _ \<Rightarrow> s | _ \<Rightarrow> []);
                repository = (case strip_suffix_str ''.git'' repository of Some r \<Rightarrow> r | None \<Rightarrow> repository)
            in if 2 < length segments \<or> owner = [] \<or> repository = []
               then Err (UnsupportedProviderRepositoryPath provider) else Ok ())"

definition source_record_new :: "SourceConfiguration \<Rightarrow> (SourceRecord, SourceRecordError) outcome" where
  "source_record_new c =
     bind_out (validate_provider_remote (sc_provider c) (sc_remote c)) (\<lambda>_.
     bind_out (case sc_visibility c of
         Private \<Rightarrow>
           if \<not> supports_private_access (sc_provider c) then Err (UnsupportedPrivateProvider (sc_provider c))
           else if sc_provider_repository_id c = None then Err MissingRepositoryIdentity
           else if sc_account c = None then Err MissingAccountIdentity
           else if sc_credential c = None then Err MissingCredentialReference
           else Ok ()
       | Public \<Rightarrow>
           if sc_account c \<noteq> None then Err UnexpectedAccountIdentity
           else if sc_credential c \<noteq> None then Err UnexpectedCredentialReference
           else Ok ()) (\<lambda>_.
     if provider_authority (sc_provider c) = None \<and> sc_provider_repository_id c \<noteq> None
     then Err (UnsupportedProviderRepositoryId (sc_provider c))
     else Ok c))"

definition is_private :: "SourceRecord \<Rightarrow> bool" where
  "is_private r \<longleftrightarrow> sc_visibility r = Private"

definition has_same_import_configuration :: "SourceRecord \<Rightarrow> SourceRecord \<Rightarrow> bool" where
  "has_same_import_configuration a b \<longleftrightarrow>
     sc_id a = sc_id b \<and> sc_provider a = sc_provider b \<and> sc_visibility a = sc_visibility b \<and>
     sc_provider_repository_id a = sc_provider_repository_id b \<and> sc_account a = sc_account b \<and>
     sc_remote a = sc_remote b \<and> sc_branch a = sc_branch b \<and> sc_notes_folder a = sc_notes_folder b \<and>
     sc_credential a = sc_credential b"

section \<open>Changes of a source\<close>

record RepositoryEvidence =
  ev_provider :: SourceProvider
  ev_repository :: string
  ev_remote :: string
  ev_account :: "string option"

definition evidence_public :: "SourceProvider \<Rightarrow> string \<Rightarrow> string \<Rightarrow> RepositoryEvidence" where
  "evidence_public provider repository remote =
     \<lparr>ev_provider = provider, ev_repository = repository, ev_remote = remote, ev_account = None\<rparr>"

definition evidence_authorized :: "SourceProvider \<Rightarrow> string \<Rightarrow> string \<Rightarrow> string \<Rightarrow> RepositoryEvidence" where
  "evidence_authorized provider repository remote account =
     \<lparr>ev_provider = provider, ev_repository = repository, ev_remote = remote, ev_account = Some account\<rparr>"

datatype SourceChange =
    Relabel string
  | TrackBranch string
  | TrackNotesFolder string
  | Relocate string RepositoryEvidence
  | Reauthorize string string

datatype RetainedSourceState = Everything | IdentityAndReadingState | IdentityOnly

datatype SourceChangeError =
    DifferentRepository | DifferentProvider | UnobservedRemote | DifferentAuthorization
  | UnprovableRepository | UnsupportedRemote SourceRecordError | NotAuthorized

record SourceTransition =
  tr_record :: SourceRecord
  tr_retained :: RetainedSourceState

definition apply_change :: "SourceRecord \<Rightarrow> SourceChange \<Rightarrow> (SourceTransition, SourceChangeError) outcome" where
  "apply_change r change =
     (case change of
        Relabel display_name \<Rightarrow>
          Ok \<lparr>tr_record = r\<lparr>sc_display_name := display_name\<rparr>, tr_retained = Everything\<rparr>
      | TrackBranch branch \<Rightarrow>
          Ok \<lparr>tr_record = r\<lparr>sc_branch := branch\<rparr>,
              tr_retained = (if branch = sc_branch r then Everything else IdentityAndReadingState)\<rparr>
      | TrackNotesFolder notes_folder \<Rightarrow>
          Ok \<lparr>tr_record = r\<lparr>sc_notes_folder := notes_folder\<rparr>,
              tr_retained = (if notes_folder = sc_notes_folder r then Everything else IdentityAndReadingState)\<rparr>
      | Relocate remote evidence \<Rightarrow>
          (case sc_provider_repository_id r of None \<Rightarrow> Err UnprovableRepository
           | Some repository \<Rightarrow>
               if ev_provider evidence \<noteq> sc_provider r then Err DifferentProvider
               else if ev_repository evidence \<noteq> repository then Err DifferentRepository
               else if ev_remote evidence \<noteq> remote then Err UnobservedRemote
               else if ev_account evidence \<noteq> sc_account r then Err DifferentAuthorization
               else bind_out (map_err UnsupportedRemote (validate_provider_remote (sc_provider r) remote)) (\<lambda>_.
                      Ok \<lparr>tr_record = r\<lparr>sc_remote := remote\<rparr>, tr_retained = Everything\<rparr>))
      | Reauthorize account credential \<Rightarrow>
          if \<not> is_private r then Err NotAuthorized
          else Ok \<lparr>tr_record = r\<lparr>sc_account := Some account, sc_credential := Some credential\<rparr>,
                   tr_retained = (if sc_account r = Some account then Everything else IdentityOnly)\<rparr>)"

end
