(* ===== verification/SourceProps.thy ===== *)
theory SourceProps
  imports SourceIdentity RustPath
begin

text \<open>
  Properties of source identities and configurations: the texts that are stored are
  fixed points of their parsers, minted identities are accepted and distinct, storage
  keys decode to what was encoded, and no change of a record leaves the rules that
  admitted it.
\<close>

section \<open>Remote URLs in normal form\<close>

text \<open>The bytes a normalised URL is made of, after its scheme.\<close>

definition remote_byte :: "char \<Rightarrow> bool" where
  "remote_byte c \<longleftrightarrow> url_path_byte c \<or> c = CHR ''/'' \<or> c = CHR '':''"

lemma url_path_byte_ascii: "url_path_byte c \<Longrightarrow> is_ascii c \<and> \<not> is_ascii_ws c"
  by (auto simp: url_path_byte_def is_ascii_alphanumeric_def is_ascii_digit_def is_ascii_upper_def
      is_ascii_lower_def is_ascii_def is_ascii_ws_def)

lemma url_path_byte_not:
  "\<not> url_path_byte (CHR ''?'')" "\<not> url_path_byte (CHR ''#'')" "\<not> url_path_byte (CHR ''@'')"
  "\<not> url_path_byte (CHR ''/'')" "\<not> url_path_byte (CHR '':'')" "\<not> url_path_byte (CHR ''['')"
  "\<not> url_path_byte (CHR '']'')"
  by (simp_all add: url_path_byte_def is_ascii_alphanumeric_def is_ascii_digit_def is_ascii_upper_def
      is_ascii_lower_def)

text \<open>The parsed pieces of an accepted authority and path.\<close>

definition host_ok :: "string \<Rightarrow> bool" where
  "host_ok host \<longleftrightarrow> host \<noteq> [] \<and> lower_str host = host \<and> char_count host \<le> MAX_HOST_CHARS \<and>
     list_all host_label_ok (split_on (\<lambda>c. c = CHR ''.'') host)"

definition port_ok :: "nat option \<Rightarrow> bool" where
  "port_ok port \<longleftrightarrow> (case port of None \<Rightarrow> True | Some n \<Rightarrow> 0 < n \<and> n < 65536)"

definition path_ok :: "string \<Rightarrow> bool" where
  "path_ok p \<longleftrightarrow> p \<noteq> [] \<and> list_all url_segment_ok (split_on is_url_slash p)"

lemma host_ok_bytes:
  assumes "host_ok host" and "c \<in> set host"
  shows "url_path_byte c"
proof -
  from split_on_covers [OF assms(2), of "\<lambda>c. c = CHR ''.''"] consider "c = CHR ''.''"
    | x where "x \<in> set (split_on (\<lambda>c. c = CHR ''.'') host)" "c \<in> set x" by blast
  then show ?thesis
  proof cases
    case 2
    with assms(1) have "is_ascii_alphanumeric c \<or> c = CHR ''-''"
      by (auto simp: host_ok_def list_all_iff host_label_ok_def)
    then show ?thesis by (auto simp: url_path_byte_def)
  qed (simp add: url_path_byte_def)
qed

lemma path_ok_bytes:
  assumes "path_ok p" and "c \<in> set p"
  shows "url_path_byte c \<or> c = CHR ''/''"
proof -
  from split_on_covers [OF assms(2), of is_url_slash] consider "is_url_slash c"
    | x where "x \<in> set (split_on is_url_slash p)" "c \<in> set x" by blast
  then show ?thesis
    by cases (use assms(1) in \<open>auto simp: is_url_slash_def path_ok_def list_all_iff url_segment_ok_def\<close>)
qed

lemma path_ok_last: "path_ok p \<Longrightarrow> last p \<noteq> CHR ''/''"
  using split_on_last_Nil [of p is_url_slash]
  by (auto simp: path_ok_def is_url_slash_def list_all_iff url_segment_ok_def)

lemma normalize_remote_path_Ok:
  assumes "normalize_remote_path p = Ok q"
  obtains p' where "q = CHR ''/'' # p'" "path_ok p'" "length p' \<le> length p" "char_count p' \<le> char_count p"
proof -
  let ?p = "strip_trailing_slash p"
  from assms have "q = CHR ''/'' # ?p" "path_ok ?p"
    by (auto simp: normalize_remote_path_def path_ok_def Let_def split: if_splits)
  moreover have "\<exists>r. p = ?p @ r"
    by (auto simp: strip_trailing_slash_def strip_suffix_str_def suffix_def split: option.splits)
  then obtain r where "p = ?p @ r" ..
  then have "char_count p = char_count ?p + char_count r" "length p = length ?p + length r"
    by (metis char_count_append, metis length_append)
  ultimately show thesis using that by auto
qed

lemma strip_trailing_slash_id: "s = [] \<or> last s \<noteq> CHR ''/'' \<Longrightarrow> strip_trailing_slash s = s"
  by (auto simp: strip_trailing_slash_def strip_suffix_str_def suffix_def)

lemma normalize_remote_path_ok: "path_ok p \<Longrightarrow> normalize_remote_path p = Ok (CHR ''/'' # p)"
  using path_ok_last [of p] by (simp add: normalize_remote_path_def strip_trailing_slash_id path_ok_def)

text \<open>The bytes between the host and the path.\<close>

definition port_text :: "nat option \<Rightarrow> string" where
  "port_text port = (case port of None \<Rightarrow> [] | Some n \<Rightarrow> if n = DEFAULT_HTTPS_PORT then [] else CHR '':'' # show_nat n)"

lemma remote_text_eq: "remote_text host port p = ''https://'' @ host @ port_text port @ p"
  by (simp add: remote_text_def port_text_def)

lemma digit_path_byte: "is_ascii_digit c \<Longrightarrow> url_path_byte c"
  by (simp add: url_path_byte_def is_ascii_alphanumeric_def)

lemma port_text_bytes: "c \<in> set (port_text port) \<Longrightarrow> remote_byte c"
  by (auto simp: port_text_def remote_byte_def digit_path_byte show_nat_set split: option.splits if_splits)

lemma parse_u16_show_nat: "n < 65536 \<Longrightarrow> parse_u16 (show_nat n) = Some n"
proof -
  assume n: "n < 65536"
  obtain c t where s: "show_nat n = c # t" by (cases "show_nat n") simp
  then have "c \<noteq> CHR ''+''" using digit_not [OF show_nat_set, of c n] by simp
  then show ?thesis
    using n parse_digits_show_nat [of n] by (simp add: parse_u16_def s)
qed

lemma parse_port_show_nat: "0 < n \<Longrightarrow> n < 65536 \<Longrightarrow> parse_port (show_nat n) = Ok n"
  using show_nat_hd [of n] show_nat_set [of "CHR '':''" n] digit_not [of "CHR '':''"]
  by (auto simp: parse_port_def parse_u16_show_nat prefix_singleton)

lemma parse_port_Ok:
  assumes "parse_port port = Ok n"
  shows "0 < n" "n < 65536" "length (show_nat n) \<le> char_count port" "CHR '':'' \<notin> set port"
proof -
  from assms have u: "parse_u16 port = Some n" and "n \<noteq> 0" and c: "CHR '':'' \<notin> set port"
    by (auto simp: parse_port_def split: if_splits option.splits)
  then show "0 < n" "n < 65536" "CHR '':'' \<notin> set port"
    by (auto simp: parse_u16_def split: option.splits if_splits)
  obtain d sign where port: "port = sign @ d" and d: "list_all is_ascii_digit d" "d \<noteq> []" "n = digits_value d"
    using u unfolding parse_u16_def parse_digits_def
    by (cases port) (auto split: if_splits option.splits intro: that [of "[hd port]" "tl port"] that [of "[]" port])
  have "length (show_nat n) \<le> length d"
    using digits_value_less [OF d(1)] d(2,3) by (intro show_nat_length_le) auto
  also have "length d = char_count d"
    using d(1) by (subst char_count_ascii) (auto simp: list_all_iff is_ascii_digit_def is_ascii_def)
  also have "\<dots> \<le> char_count port" using port by simp
  finally show "length (show_nat n) \<le> char_count port" .
qed

lemma lower_str_Nil_iff [simp]: "lower_str s = [] \<longleftrightarrow> s = []"
  by (simp add: lower_str_def)

lemma parse_authority_Ok:
  assumes "parse_authority authority = Ok (host, port)"
  shows "host_ok host" "port_ok port" "char_count host + length (port_text port) \<le> char_count authority"
proof -
  obtain h q where hq: "(case split_once '':'' authority of Some (h, p) \<Rightarrow> (h, Some p)
                            | None \<Rightarrow> (authority, None)) = (h, q)"
    by (metis surj_pair)
  with assms have port: "(case q of None \<Rightarrow> Ok None | Some p \<Rightarrow> map_out Some (parse_port p)) = Ok port"
    and ok: "host_ok host" and host: "host = lower_str h"
    by (auto simp: parse_authority_def Let_def host_ok_def outcome_simps lower_str_Nil_iff split: if_splits)
  show "host_ok host" by (rule ok)
  show "port_ok port"
    using port by (auto simp: port_ok_def outcome_simps parse_port_Ok split: option.splits)
  have au: "authority = h @ (case q of None \<Rightarrow> [] | Some p \<Rightarrow> CHR '':'' # p)"
    using hq split_once_Some_eq [of "'':''" authority] by (auto split: option.splits)
  have "length (port_text port) \<le> char_count (case q of None \<Rightarrow> [] | Some p \<Rightarrow> CHR '':'' # p)"
  proof (cases q)
    case None
    with port show ?thesis by (simp add: port_text_def)
  next
    case (Some p)
    with port obtain n where "port = Some n" "parse_port p = Ok n" by (auto simp: outcome_simps)
    with Some parse_port_Ok(3) [of p n] show ?thesis
      by (simp add: port_text_def char_count_def is_cont_def)
  qed
  with au host show "char_count host + length (port_text port) \<le> char_count authority"
    by (simp del: char_count_append) (simp add: char_count_append)
qed

lemma parse_authority_ok:
  assumes "host_ok host" and "port_ok port"
  shows "parse_authority (host @ port_text port) =
           Ok (host, case port of None \<Rightarrow> None | Some n \<Rightarrow> if n = DEFAULT_HTTPS_PORT then None else Some n)"
proof -
  let ?a = "host @ port_text port"
  have hb: "\<And>c. c \<in> set host \<Longrightarrow> url_path_byte c" using host_ok_bytes [OF assms(1)] .
  have hne: "host \<noteq> []" using assms(1) by (simp add: host_ok_def)
  have "hd host \<noteq> CHR ''[''" using hb [OF hd_in_set [OF hne]] url_path_byte_not by auto
  then have nb: "CHR '']'' \<notin> set ?a" "\<not> prefix ''['' ?a"
    using hb port_text_bytes [of _ port] url_path_byte_not hne
    by (auto simp: remote_byte_def prefix_singleton)
  have nc: "CHR '':'' \<notin> set host" using hb url_path_byte_not by auto
  show ?thesis
  proof (cases "port_text port = []")
    case True
    then have "(case port of None \<Rightarrow> None | Some n \<Rightarrow> if n = DEFAULT_HTTPS_PORT then None else Some n) = None"
      by (auto simp: port_text_def split: option.splits if_splits)
    with True nb nc assms(1) show ?thesis
      by (simp add: parse_authority_def split_once_none host_ok_def Let_def)
  next
    case False
    then obtain n where n: "port = Some n" "n \<noteq> DEFAULT_HTTPS_PORT" "port_text port = CHR '':'' # show_nat n"
      by (auto simp: port_text_def split: option.splits if_splits)
    with assms(2) have "parse_port (show_nat n) = Ok n"
      by (simp add: port_ok_def parse_port_show_nat)
    with n nb nc assms(1) show ?thesis
      by (simp add: parse_authority_def split_once_char host_ok_def Let_def)
  qed
qed

lemma remote_parse_parts:
  assumes "host_ok host" and "port_ok port" and "path_ok p"
    and size: "8 + char_count host + length (port_text port) + 1 + char_count p \<le> MAX_REMOTE_URL_CHARS"
  shows "remote_parse (remote_text host port (CHR ''/'' # p)) = Ok (remote_text host port (CHR ''/'' # p))"
    (is "remote_parse ?r = Ok ?r")
proof -
  let ?a = "host @ port_text port"
  let ?rest = "?a @ CHR ''/'' # p"
  have r: "?r = ''https'' @ ''://'' @ ?rest" by (simp add: remote_text_eq)
  have hb: "\<And>c. c \<in> set host \<Longrightarrow> url_path_byte c" using host_ok_bytes [OF assms(1)] .
  have pb: "\<And>c. c \<in> set p \<Longrightarrow> url_path_byte c \<or> c = CHR ''/''" using path_ok_bytes [OF assms(3)] .
  have bytes: "\<And>c. c \<in> set ?rest \<Longrightarrow> remote_byte c"
    using hb pb port_text_bytes by (auto simp: remote_byte_def)
  have no: "CHR ''?'' \<notin> set ?rest" "CHR ''#'' \<notin> set ?rest" "CHR ''@'' \<notin> set ?a" "CHR ''/'' \<notin> set ?a"
    using bytes hb url_path_byte_not
    by (auto simp: remote_byte_def port_text_def digit_path_byte show_nat_set dest: show_nat_set
        split: option.splits if_splits dest!: digit_path_byte)
  have pl: "p \<noteq> []" using assms(3) by (simp add: path_ok_def)
  have "remote_byte (last ?r)" using pl bytes [of "last p"] by (simp add: r)
  then have "is_ascii (last ?r)" "\<not> is_ascii_ws (last ?r)"
    using url_path_byte_ascii [of "last ?r"] by (auto simp: remote_byte_def is_ascii_def is_ascii_ws_def)
  then have "trim ?r = ?r"
    by (intro trim_solid_ascii) (simp_all add: r is_ascii_def is_ascii_ws_def)
  moreover have "char_count ?r \<le> MAX_REMOTE_URL_CHARS"
  proof -
    have "char_count ''https://'' = 8" "char_count ''/'' = 1"
      by (simp_all add: char_count_def is_cont_def)
    then have "char_count ?r = 8 + char_count host + char_count (port_text port) + 1 + char_count p"
      by (simp add: r char_count_def is_cont_def)
    with size char_count_le_length [of "port_text port"] show ?thesis by linarith
  qed
  moreover have "split_once ''://'' ?r = Some (''https'', ?rest)"
    by (simp add: split_once_def r)
  moreover have "split_once ''/'' ?rest = Some (?a, p)"
    using split_once_char [OF no(4)] by simp
  moreover note parse_authority_ok [OF assms(1,2)] normalize_remote_path_ok [OF assms(3)] no
  moreover have "remote_text host (case port of None \<Rightarrow> None
      | Some n \<Rightarrow> if n = DEFAULT_HTTPS_PORT then None else Some n) q = remote_text host port q" for q
    by (auto simp: remote_text_def split: option.splits)
  ultimately show ?thesis
    unfolding remote_parse_def by (simp del: append_assoc add: Let_def)
qed

lemma eq_ignore_case_count: "eq_ignore_case a b \<Longrightarrow> char_count a = char_count b"
  unfolding eq_ignore_case_def by (metis char_count_lower)

lemma remote_parse_Ok:
  assumes "remote_parse s = Ok r"
  obtains host port p where "host_ok host" "port_ok port" "path_ok p"
    "r = remote_text host port (CHR ''/'' # p)"
    "8 + char_count host + length (port_text port) + 1 + char_count p \<le> MAX_REMOTE_URL_CHARS"
proof -
  let ?v = "trim s"
  from assms obtain scheme rest authority p0 host port q where
      size: "char_count ?v \<le> MAX_REMOTE_URL_CHARS"
      and s1: "split_once ''://'' ?v = Some (scheme, rest)" and https: "eq_ignore_case scheme ''https''"
      and s2: "split_once ''/'' rest = Some (authority, p0)"
      and a: "parse_authority authority = Ok (host, port)" and n: "normalize_remote_path p0 = Ok q"
      and r: "r = remote_text host port q"
    by (auto simp: remote_parse_def Let_def outcome_simps split: if_splits option.splits prod.splits)
  obtain p where q: "q = CHR ''/'' # p" "path_ok p" "char_count p \<le> char_count p0"
    using normalize_remote_path_Ok [OF n] by metis
  have "?v = scheme @ ''://'' @ authority @ ''/'' @ p0"
    using split_once_Some_eq [OF s1] split_once_Some_eq [OF s2] by simp
  moreover have "char_count scheme = 5"
    using eq_ignore_case_count [OF https] by (simp add: char_count_def is_cont_def)
  moreover have "char_count ''://'' = 3" "char_count ''/'' = 1"
    by (simp_all add: char_count_def is_cont_def)
  ultimately have "char_count ?v = 9 + char_count authority + char_count p0"
    by (simp only: char_count_append)
  with size q(3) parse_authority_Ok(3) [OF a]
  have "8 + char_count host + length (port_text port) + 1 + char_count p \<le> MAX_REMOTE_URL_CHARS"
    by linarith
  with that parse_authority_Ok(1,2) [OF a] q r show thesis by blast
qed

text \<open>C24. A remote URL that is accepted is stored in a normal form: parsing the stored
  text gives the stored text again, it starts with the literal scheme, and every byte
  after it is a letter, a digit, one of the four unreserved marks, a colon or a slash,
  so that no user information, query or fragment is ever stored.\<close>

theorem remote_parse_normal_form:
  "remote_parse s = Ok r \<Longrightarrow>
   remote_parse r = Ok r \<and> take 8 r = ''https://'' \<and> list_all remote_byte (drop 8 r)"
proof -
  assume "remote_parse s = Ok r"
  then obtain host port p where ok: "host_ok host" "port_ok port" "path_ok p"
    and r: "r = remote_text host port (CHR ''/'' # p)"
    and size: "8 + char_count host + length (port_text port) + 1 + char_count p \<le> MAX_REMOTE_URL_CHARS"
    by (rule remote_parse_Ok)
  have "list_all remote_byte (host @ port_text port @ CHR ''/'' # p)"
    using host_ok_bytes [OF ok(1)] path_ok_bytes [OF ok(3)] port_text_bytes [of _ port]
    by (auto simp: list_all_iff remote_byte_def)
  then show ?thesis
    using remote_parse_parts [OF ok size] by (simp add: r remote_text_eq)
qed

theorem remote_parse_normal_form_witness:
  "remote_parse ''HTTPS://GitHub.com:0443/Owner/Repo.git'' = Err InvalidPort \<and>
   remote_parse ''HTTPS://GitHub.com:443/Owner/Repo.git/'' = Ok ''https://github.com/Owner/Repo.git'' \<and>
   remote_parse ''https://github.com/Owner/Repo.git'' = Ok ''https://github.com/Owner/Repo.git''"
proof -
  have e: "remote_parse ''HTTPS://GitHub.com:443/Owner/Repo.git/'' = Ok ''https://github.com/Owner/Repo.git''"
    by code_simp
  moreover have "remote_parse ''HTTPS://GitHub.com:0443/Owner/Repo.git'' = Err InvalidPort" by code_simp
  ultimately show ?thesis using remote_parse_normal_form [OF e] by simp
qed

section \<open>Minted identities and storage keys\<close>

lemma hex_digit_code:
  "x < 16 \<Longrightarrow> is_lower_hex (''0123456789abcdef'' ! x) \<and> is_ascii (''0123456789abcdef'' ! x)"
proof -
  have "list_all (\<lambda>x. is_lower_hex (''0123456789abcdef'' ! x) \<and> is_ascii (''0123456789abcdef'' ! x)) [0..<16]"
    by code_simp
  then show "x < 16 \<Longrightarrow> ?thesis" by (simp add: list_all_iff)
qed

lemma hex_digit_inj: "x < 16 \<Longrightarrow> y < 16 \<Longrightarrow> ''0123456789abcdef'' ! x = ''0123456789abcdef'' ! y \<Longrightarrow> x = y"
proof -
  have "distinct ''0123456789abcdef''" by code_simp
  then show "x < 16 \<Longrightarrow> y < 16 \<Longrightarrow> ''0123456789abcdef'' ! x = ''0123456789abcdef'' ! y \<Longrightarrow> x = y"
    by (simp add: nth_eq_iff_index_eq del: nth_Cons_numeral)
qed

lemma byte_nibbles:
  fixes b :: "8 word"
  shows "unat (drop_bit 4 b) = unat b div 16" "unat (b AND 0x0f) = unat b mod 16"
proof -
  have "b AND 0x0f = take_bit 4 b" by (simp add: take_bit_eq_mask mask_numeral)
  then show "unat (b AND 0x0f) = unat b mod 16"
    by (simp only: unsigned_take_bit_eq) (simp add: take_bit_eq_mod)
  show "unat (drop_bit 4 b) = unat b div 16"
    using unsigned_less [of b, where 'a = nat]
    by (simp only: unsigned_drop_bit_eq) (simp add: drop_bit_eq_div take_bit_eq_mod)
qed

lemma nibble_less:
  fixes b :: "8 word"
  shows "unat (drop_bit 4 b) < 16" "unat (b AND 0x0f) < 16"
proof -
  have "unat b < 256" using unsigned_less [of b, where 'a = nat] by simp
  then show "unat (drop_bit 4 b) < 16" "unat (b AND 0x0f) < 16" by (simp_all add: byte_nibbles)
qed

lemma mint_Cons: "mint (b # e) = hex_digit (drop_bit 4 b) # hex_digit (b AND 0x0f) # mint e"
  by (simp add: mint_def)

lemma mint_shape:
  "length (mint e) = 2 * length e \<and> list_all is_lower_hex (mint e) \<and> list_all is_ascii (mint e)"
  by (induction e)
    (simp_all add: mint_Cons hex_digit_def hex_digit_code nibble_less, simp add: mint_def)

lemma mint_inj: "length e = length e' \<Longrightarrow> mint e = mint e' \<Longrightarrow> e = e'"
proof (induction e e' rule: list_induct2)
  case (Cons b e b' e')
  then have "unat b div 16 = unat b' div 16" "unat b mod 16 = unat b' mod 16"
    using hex_digit_inj [OF nibble_less(1) nibble_less(1), of b b']
      hex_digit_inj [OF nibble_less(2) nibble_less(2), of b b']
    by (simp_all add: mint_Cons hex_digit_def byte_nibbles)
  then have "unat b = unat b'" by (metis div_mult_mod_eq)
  with Cons show ?case by (simp add: mint_Cons unsigned_word_eqI)
qed simp

text \<open>C32. An identity minted from sixteen random bytes is accepted by the parser as it
  is, and different bytes never mint the same identity.\<close>

theorem mint_parses_and_is_injective:
  "length e = SOURCE_ID_ENTROPY_BYTES \<Longrightarrow>
   source_id_parse (mint e) = Ok (mint e) \<and>
   (\<forall>e'. length e' = SOURCE_ID_ENTROPY_BYTES \<longrightarrow> mint e' = mint e \<longrightarrow> e' = e)"
proof (intro conjI allI impI)
  assume e: "length e = SOURCE_ID_ENTROPY_BYTES"
  show "source_id_parse (mint e) = Ok (mint e)"
    using mint_shape [of e] e by (simp add: source_id_parse_def SOURCE_ID_CHARS_def char_count_ascii)
  fix e' :: "8 word list"
  assume "length e' = SOURCE_ID_ENTROPY_BYTES" and "mint e' = mint e"
  with e show "e' = e" by (auto intro: mint_inj)
qed

theorem mint_parses_and_is_injective_witness:
  "source_id_parse (mint (replicate 16 7)) = Ok (mint (replicate 16 7)) \<and>
   mint (replicate 16 7) = concat (replicate 16 ''07'')"
proof -
  have "length (replicate 16 (7 :: 8 word)) = SOURCE_ID_ENTROPY_BYTES"
    by (simp add: SOURCE_ID_ENTROPY_BYTES_def)
  from mint_parses_and_is_injective [OF this]
  have "source_id_parse (mint (replicate 16 7)) = Ok (mint (replicate 16 7))" ..
  moreover have "mint (replicate 16 7) = concat (replicate 16 ''07'')" by code_simp
  ultimately show ?thesis ..
qed

text \<open>Identities and scopes never contain the separator.\<close>

lemma source_id_parse_Ok: "source_id_parse s = Ok t \<Longrightarrow> t = s \<and> CHR '':'' \<notin> set s"
  by (auto simp: source_id_parse_def Let_def list_all_iff is_lower_hex_def is_ascii_digit_def split: if_splits)

lemma scope_no_colon: "CHR '':'' \<notin> set (scope_as_str s)"
  by (cases s) (simp_all add: scope_as_str_def)

lemma scoped_key_new_Ok:
  "scoped_key_new source scope key = Ok k \<longleftrightarrow>
   k = \<lparr>sk_source = source, sk_scope = scope, sk_key = key\<rparr> \<and> key \<noteq> [] \<and>
   char_count key \<le> MAX_SCOPED_KEY_CHARS \<and> admitted_text PrintableUnicode key"
  by (auto simp: scoped_key_new_def parse_text_def outcome_simps)

text \<open>C27. A scoped key is recovered from its storage key, whatever separators the inner
  key contains, and decoding a stored string gives a key that encodes to that string:
  the encoding is a bijection between keys and accepted storage strings.\<close>

theorem storage_key_roundtrip:
  "(source_id_parse source = Ok source \<and> scoped_key_new source scope key = Ok k \<longrightarrow>
      parse_storage_key (storage_key k) = Ok k) \<and>
   (parse_storage_key stored = Ok k' \<longrightarrow> storage_key k' = stored)"
proof (intro conjI impI)
  assume a: "source_id_parse source = Ok source \<and> scoped_key_new source scope key = Ok k"
  then have "storage_key k = source @ CHR '':'' # scope_as_str scope @ CHR '':'' # key"
    by (simp add: storage_key_def scoped_key_new_Ok)
  with a scope_no_colon [of scope] source_id_parse_Ok [of source source]
  show "parse_storage_key (storage_key k) = Ok k"
    by (simp add: parse_storage_key_def split_once_char)
next
  assume "parse_storage_key stored = Ok k'"
  then obtain source rest scope key where s1: "split_once '':'' stored = Some (source, rest)"
    and s2: "split_once '':'' rest = Some (scope, key)" and id: "source_id_parse source = Ok source"
    and sc: "\<exists>sc. scope_from_token scope = Some sc \<and> scoped_key_new source sc key = Ok k'"
    unfolding parse_storage_key_def
    by (auto simp: outcome_simps split: option.splits) (metis source_id_parse_Ok)
  then obtain s where "scope_from_token scope = Some s" "scoped_key_new source s key = Ok k'" by blast
  moreover have "scope_from_token scope = Some s \<Longrightarrow> scope_as_str s = scope"
    by (auto simp: scope_from_token_def scope_as_str_def split: if_splits)
  ultimately show "storage_key k' = stored"
    using split_once_Some_eq [OF s1] split_once_Some_eq [OF s2]
    by (simp add: storage_key_def scoped_key_new_Ok)
qed

text \<open>A concrete key with separators of its own.\<close>

definition sample_source :: SourceId where
  "sample_source = concat (replicate 16 ''0a'')"

theorem storage_key_roundtrip_witness:
  "parse_storage_key (sample_source @ '':note:heading:a.org:3'') =
     Ok \<lparr>sk_source = sample_source, sk_scope = NoteScope, sk_key = ''heading:a.org:3''\<rparr>"
proof -
  let ?k = "\<lparr>sk_source = sample_source, sk_scope = NoteScope, sk_key = ''heading:a.org:3''\<rparr>"
  have "source_id_parse sample_source = Ok sample_source"
    "scoped_key_new sample_source NoteScope ''heading:a.org:3'' = Ok ?k"
    by code_simp+
  with storage_key_roundtrip [of sample_source NoteScope "''heading:a.org:3''" ?k]
  show ?thesis by (simp add: storage_key_def scope_as_str_def)
qed

section \<open>Records and their changes\<close>

text \<open>What an accepted record satisfies; the configuration itself is unchanged by acceptance.\<close>

definition source_record_valid :: "SourceRecord \<Rightarrow> bool" where
  "source_record_valid r \<longleftrightarrow>
     validate_provider_remote (sc_provider r) (sc_remote r) = Ok () \<and>
     (case sc_visibility r of
        Private \<Rightarrow> sc_provider r = GitHub \<and> sc_provider_repository_id r \<noteq> None \<and> sc_account r \<noteq> None \<and>
                   sc_credential r \<noteq> None
      | Public \<Rightarrow> sc_account r = None \<and> sc_credential r = None) \<and>
     (sc_provider r = GenericHttps \<longrightarrow> sc_provider_repository_id r = None)"

lemma source_record_new_Ok: "source_record_new c = Ok r \<longleftrightarrow> r = c \<and> source_record_valid c"
  unfolding source_record_new_def source_record_valid_def
  by (cases "sc_visibility c"; cases "sc_provider c")
    (auto simp: outcome_simps supports_private_access_def provider_authority_def split: if_splits)

lemma valid_record_updates:
  assumes "source_record_valid r"
  shows "source_record_valid (r\<lparr>sc_display_name := n\<rparr>)" "source_record_valid (r\<lparr>sc_branch := b\<rparr>)"
    "source_record_valid (r\<lparr>sc_notes_folder := f\<rparr>)"
    "validate_provider_remote (sc_provider r) u = Ok () \<Longrightarrow> source_record_valid (r\<lparr>sc_remote := u\<rparr>)"
    "is_private r \<Longrightarrow> source_record_valid (r\<lparr>sc_account := Some a, sc_credential := Some c\<rparr>)"
  using assms by (auto simp: source_record_valid_def is_private_def split: SourceVisibility.splits)

text \<open>C25. A change that is accepted turns a validated record into a record the constructor
  accepts again, of the same source, provider, visibility and repository; every cached
  state is kept only when the branch, the folder and the account stayed the same, and a
  new account keeps the identity alone.\<close>

theorem apply_change_keeps_record_valid:
  "source_record_new r = Ok r \<Longrightarrow> apply_change r change = Ok t \<Longrightarrow>
   source_record_new (tr_record t) = Ok (tr_record t) \<and>
   sc_id (tr_record t) = sc_id r \<and> sc_provider (tr_record t) = sc_provider r \<and>
   sc_visibility (tr_record t) = sc_visibility r \<and>
   sc_provider_repository_id (tr_record t) = sc_provider_repository_id r \<and>
   (tr_retained t = Everything \<longleftrightarrow>
      sc_branch (tr_record t) = sc_branch r \<and> sc_notes_folder (tr_record t) = sc_notes_folder r \<and>
      sc_account (tr_record t) = sc_account r) \<and>
   (tr_retained t = IdentityOnly \<longleftrightarrow> sc_account (tr_record t) \<noteq> sc_account r)"
proof (cases change)
  case (Relocate remote evidence)
  assume "source_record_new r = Ok r" and "apply_change r change = Ok t"
  with Relocate show ?thesis
    by (auto simp: apply_change_def outcome_simps source_record_new_Ok valid_record_updates
        split: option.splits if_splits)
qed (auto simp: apply_change_def source_record_new_Ok valid_record_updates split: if_splits)

definition sample_record :: SourceRecord where
  "sample_record = \<lparr>sc_id = sample_source, sc_display_name = ''Notes'', sc_provider = GitHub,
     sc_visibility = Private, sc_provider_repository_id = Some ''R1'', sc_account = Some ''A1'',
     sc_remote = ''https://github.com/o/r.git'', sc_branch = ''main'', sc_notes_folder = ''notes'',
     sc_credential = Some ''c1''\<rparr>"

theorem apply_change_keeps_record_valid_witness:
  "source_record_new (sample_record\<lparr>sc_account := Some ''A2'', sc_credential := Some ''c2''\<rparr>) =
     Ok (sample_record\<lparr>sc_account := Some ''A2'', sc_credential := Some ''c2''\<rparr>)"
proof -
  have "source_record_new sample_record = Ok sample_record"
    by (simp add: source_record_new_Ok) code_simp
  moreover have "apply_change sample_record (Reauthorize ''A2'' ''c2'') =
      Ok \<lparr>tr_record = sample_record\<lparr>sc_account := Some ''A2'', sc_credential := Some ''c2''\<rparr>,
          tr_retained = IdentityOnly\<rparr>"
    by (simp add: apply_change_def sample_record_def is_private_def)
  ultimately show ?thesis
    using apply_change_keeps_record_valid [of sample_record "Reauthorize ''A2'' ''c2''"] by simp
qed

section \<open>Notes folders\<close>

lemma check_segments_Ok:
  "check_segments segs = Ok () \<longleftrightarrow> list_all (\<lambda>s. s \<noteq> [] \<and> s \<noteq> ''..'' \<and> s \<noteq> ''.'' \<and> s \<noteq> ''.git'') segs"
  by (induction segs) auto

text \<open>C26. An accepted notes folder is a relative path of ordinary names: none of its
  components is the root, the current or the parent directory, or the repository's own
  metadata directory, so joining it to a checkout stays below that checkout.\<close>

theorem notes_folder_stays_inside:
  "notes_folder_parse s = Ok f \<Longrightarrow> c \<in> set (components f) \<Longrightarrow>
   \<exists>n. c = NormalComp n \<and> n \<noteq> [] \<and> n \<noteq> ''..'' \<and> n \<noteq> ''.'' \<and> n \<noteq> ''.git''"
proof (cases "f = []")
  assume "c \<in> set (components f)"
  moreover case True
  ultimately show ?thesis by (simp add: components_def)
next
  case False
  assume f: "notes_folder_parse s = Ok f" and c: "c \<in> set (components f)"
  from f False have segs: "list_all (\<lambda>s. s \<noteq> [] \<and> s \<noteq> ''..'' \<and> s \<noteq> ''.'' \<and> s \<noteq> ''.git'') (split_on is_slash f)"
    by (auto simp: notes_folder_parse_def Let_def outcome_simps check_segments_Ok notes_folder_root_def
        is_url_slash_def [abs_def] is_slash_def [abs_def] split: if_splits)
  then have rel: "\<not> prefix ''/'' f" by (cases f) (auto simp: is_slash_def)
  from segs have "hd (split_on is_slash f) \<noteq> ''.''"
    using hd_in_set [of "split_on is_slash f"] by (auto simp: list_all_iff)
  with rel c have "c \<in> component_of_part ` set (split_on is_slash f)"
    by (auto simp: components_def Let_def)
  with segs show ?thesis
    by (auto simp: list_all_iff component_of_part_def)
qed

theorem notes_folder_stays_inside_witness:
  "\<exists>n. NormalComp ''b'' = NormalComp n \<and> n \<noteq> [] \<and> n \<noteq> ''..'' \<and> n \<noteq> ''.'' \<and> n \<noteq> ''.git''"
proof (rule notes_folder_stays_inside)
  show "notes_folder_parse '' a/b/ '' = Ok ''a/b''" by code_simp
  show "NormalComp ''b'' \<in> set (components ''a/b'')" by code_simp
qed

text \<open>
  The trailing slash is removed after the surrounding white space, so a space before it
  stays: the accepted folder is not accepted as itself.
\<close>

text \<open>The text stored for a notes folder is not always a fixed point of its parser: a
  space before a trailing slash survives acceptance, and reading the stored text back
  names another folder.\<close>

lemma notes_folder_reparse_differs:
  "notes_folder_parse ''notes /'' = Ok ''notes '' \<and> notes_folder_parse ''notes '' = Ok ''notes''"
  by code_simp

end
