(* ===== verification/OrderedMap.thy ===== *)
theory OrderedMap
  imports Prelude "HOL-Library.Char_ord" "HOL-Library.List_Lexorder"
begin

text \<open>
  Rust's \<open>BTreeMap\<close> and \<open>BTreeSet\<close> as association lists in key order, and the
  contract of a keyed store, proved once in a locale and used by every component that
  reads back what it has put under a key.  Byte strings are ordered lexicographically
  by byte, as Rust orders \<open>str\<close>.
\<close>

section \<open>Keyed stores\<close>

text \<open>
  A store answers lookups; a put is seen under its own key and nowhere else.  The
  laws may depend on the state being well formed and on the key and value being
  admissible.
\<close>

locale keyed_store =
  fixes get :: "'s \<Rightarrow> 'k \<Rightarrow> 'v option"
    and put :: "'k \<Rightarrow> 'v \<Rightarrow> 's \<Rightarrow> 's"
    and well :: "'s \<Rightarrow> bool"
    and admits :: "'k \<Rightarrow> 'v \<Rightarrow> bool"
  assumes get_put: "well s \<Longrightarrow> admits k v \<Longrightarrow> get (put k v s) k = Some v"
    and get_other: "well s \<Longrightarrow> admits k v \<Longrightarrow> k' \<noteq> k \<Longrightarrow> get (put k v s) k' = get s k'"
    and well_put: "well s \<Longrightarrow> admits k v \<Longrightarrow> well (put k v s)"
begin

text \<open>Putting a list of pairs, in order.\<close>

definition put_all :: "('k \<times> 'v) list \<Rightarrow> 's \<Rightarrow> 's" where
  "put_all kvs s = fold (\<lambda>(k, v). put k v) kvs s"

lemma put_all_simps [simp]: "put_all [] s = s" "put_all ((k, v) # kvs) s = put_all kvs (put k v s)"
  by (simp_all add: put_all_def)

lemma well_put_all: "well s \<Longrightarrow> list_all (\<lambda>(k, v). admits k v) kvs \<Longrightarrow> well (put_all kvs s)"
  by (induction kvs arbitrary: s) (auto simp: well_put)

lemma get_put_all_other:
  "well s \<Longrightarrow> list_all (\<lambda>(k, v). admits k v) kvs \<Longrightarrow> k' \<notin> fst ` set kvs \<Longrightarrow>
   get (put_all kvs s) k' = get s k'"
  by (induction kvs arbitrary: s) (auto simp: well_put get_other)

lemma get_put_all:
  "well s \<Longrightarrow> list_all (\<lambda>(k, v). admits k v) kvs \<Longrightarrow> distinct (map fst kvs) \<Longrightarrow> (k, v) \<in> set kvs \<Longrightarrow>
   get (put_all kvs s) k = Some v"
proof (induction kvs arbitrary: s)
  case (Cons kv kvs)
  obtain k0 v0 where kv: "kv = (k0, v0)" by (cases kv)
  show ?case
  proof (cases "(k, v) = kv")
    case True
    with Cons.prems kv have "k \<notin> fst ` set kvs" by auto
    with Cons.prems kv True show ?thesis
      by (simp add: get_put_all_other well_put get_put)
  next
    case False
    with Cons kv show ?thesis by (auto simp: well_put)
  qed
qed simp

end

section \<open>Ordered maps\<close>

type_synonym ('k, 'v) btree = "('k \<times> 'v) list"

definition bt_get :: "('k, 'v) btree \<Rightarrow> 'k \<Rightarrow> 'v option" where
  "bt_get m k = map_of m k"

fun bt_insert :: "'k::linorder \<Rightarrow> 'v \<Rightarrow> ('k, 'v) btree \<Rightarrow> ('k, 'v) btree" where
  "bt_insert k v [] = [(k, v)]"
| "bt_insert k v ((k', v') # m) =
     (if k < k' then (k, v) # (k', v') # m
      else if k = k' then (k, v) # m
      else (k', v') # bt_insert k v m)"

definition bt_remove :: "'k \<Rightarrow> ('k, 'v) btree \<Rightarrow> ('k, 'v) btree" where
  "bt_remove k m = filter (\<lambda>(k', _). k' \<noteq> k) m"

definition bt_retain :: "('k \<Rightarrow> 'v \<Rightarrow> bool) \<Rightarrow> ('k, 'v) btree \<Rightarrow> ('k, 'v) btree" where
  "bt_retain P m = filter (\<lambda>(k, v). P k v) m"

definition bt_well :: "('k::linorder, 'v) btree \<Rightarrow> bool" where
  "bt_well m \<longleftrightarrow> sorted_wrt (<) (map fst m)"

text \<open>A set is the map of its elements.\<close>

type_synonym 'k bset = "'k list"

fun bset_insert :: "'k::linorder \<Rightarrow> 'k bset \<Rightarrow> 'k bset" where
  "bset_insert k [] = [k]"
| "bset_insert k (k' # s) =
     (if k < k' then k # k' # s else if k = k' then k' # s else k' # bset_insert k s)"

lemma bset_insert_set [simp]: "set (bset_insert k s) = insert k (set s)"
  by (induction s) auto

lemma bset_insert_sorted: "sorted_wrt (<) s \<Longrightarrow> sorted_wrt (<) (bset_insert (k :: 'k::linorder) s)"
  by (induction s) auto

lemma fold_bset_insert_set: "set (fold bset_insert ks s) = set ks \<union> set s"
  by (induction ks arbitrary: s) auto

lemma bt_insert_keys: "fst ` set (bt_insert k v m) = insert k (fst ` set m)"
proof (induction m)
  case (Cons kv m)
  obtain k' v' where "kv = (k', v')" by (cases kv)
  with Cons show ?case by (simp add: insert_commute)
qed simp

lemma bt_well_distinct: "bt_well m \<Longrightarrow> distinct (map fst m)"
  unfolding bt_well_def by (induction m) (auto simp: image_iff)

lemma bt_well_Nil [simp]: "bt_well []"
  by (simp add: bt_well_def)

lemma bt_well_insert [simp]: "bt_well m \<Longrightarrow> bt_well (bt_insert k v m)"
  unfolding bt_well_def
proof (induction m)
  case (Cons kv m)
  obtain k' v' where kv: "kv = (k', v')" by (cases kv)
  have keys: "x \<in> set (map fst (bt_insert k v m)) \<Longrightarrow> x = k \<or> x \<in> set (map fst m)" for x
    using bt_insert_keys [of k v m] by auto
  from Cons kv keys show ?case by (fastforce simp del: set_map)
qed simp

lemma bt_well_filter: "bt_well m \<Longrightarrow> bt_well (filter P m)"
  unfolding bt_well_def by (induction m) (auto simp: image_iff)

lemma bt_well_remove [simp]: "bt_well m \<Longrightarrow> bt_well (bt_remove k m)"
  by (simp add: bt_remove_def bt_well_filter)

lemma bt_well_retain [simp]: "bt_well m \<Longrightarrow> bt_well (bt_retain P m)"
  by (simp add: bt_retain_def bt_well_filter)

lemma bt_get_insert: "bt_well m \<Longrightarrow> bt_get (bt_insert k v m) = (bt_get m)(k \<mapsto> v)"
  unfolding bt_well_def bt_get_def
proof (induction m)
  case (Cons kv m)
  obtain k' v' where kv: "kv = (k', v')" by (cases kv)
  show ?case
  proof (cases "k < k'")
    case True
    with kv show ?thesis by (simp add: fun_eq_iff)
  next
    case False
    with Cons kv show ?thesis by (auto simp: fun_eq_iff)
  qed
qed (simp add: fun_eq_iff)

lemma bt_get_remove: "bt_get (bt_remove k m) = (bt_get m)(k := None)"
  by (induction m) (auto simp: bt_get_def bt_remove_def fun_eq_iff)

lemma bt_get_retain:
  "bt_well m \<Longrightarrow> bt_get (bt_retain P m) k = (case bt_get m k of None \<Rightarrow> None
     | Some v \<Rightarrow> if P k v then Some v else None)"
proof (induction m)
  case (Cons kv m)
  obtain k' v' where kv: "kv = (k', v')" by (cases kv)
  have w: "bt_well m" using Cons.prems by (simp add: bt_well_def)
  have "k = k' \<Longrightarrow> bt_get m k = None"
    using bt_well_distinct [OF Cons.prems] kv by (auto simp: bt_get_def map_of_eq_None_iff)
  with Cons.IH [OF w] kv show ?case
    by (auto simp: bt_get_def bt_retain_def split: option.splits)
qed (simp add: bt_get_def bt_retain_def)

lemma bt_get_in: "bt_well m \<Longrightarrow> bt_get m k = Some v \<longleftrightarrow> (k, v) \<in> set m"
  using bt_well_distinct [of m] by (auto simp: bt_get_def dest: map_of_SomeD)

lemma bt_insert_length:
  "bt_well m \<Longrightarrow> length (bt_insert k v m) = (if bt_get m k = None then Suc (length m) else length m)"
proof (induction m)
  case (Cons kv m)
  obtain k' v' where kv: "kv = (k', v')" by (cases kv)
  have w: "bt_well m" using Cons.prems by (simp add: bt_well_def)
  have "k < k' \<Longrightarrow> bt_get m k = None"
    using Cons.prems kv by (fastforce simp: bt_well_def bt_get_def map_of_eq_None_iff)
  with Cons.IH [OF w] kv show ?case by (auto simp: bt_get_def)
qed (simp add: bt_get_def)

lemma bt_remove_length: "length (bt_remove k m) \<le> length m"
  by (simp add: bt_remove_def)

interpretation bt: keyed_store bt_get bt_insert bt_well "\<lambda>_ _. True"
  by unfold_locales (simp_all add: bt_get_insert)

end
