(* ===== verification/Refresh.thy ===== *)
theory Refresh
  imports SourceIdentity RustPath OrderedMap
begin

text \<open>
  The refresh coordinator, \<open>crates/slipbox-sync/src/refresh.rs\<close>: admission of
  refresh requests, coalescing and superseding, cancellation, activation under a
  mutex, completion and retirement.  Threads interleave at the boundaries of critical
  sections: one step is one critical section of the coordinator's state mutex, of a
  flight's lifecycle mutex, or of its activation mutex; the activation mutex is the
  only one held across steps.  The work closure of the leader is arbitrary: it may
  report, activate, finish or panic in any order.
\<close>

section \<open>Requests and results\<close>

definition MAX_CONCURRENT_REFRESHES :: nat where "MAX_CONCURRENT_REFRESHES = 8"
definition MAX_REFRESH_ATTEMPTS :: nat where "MAX_REFRESH_ATTEMPTS = 3"
definition MAX_REFRESH_PATH_BYTES :: nat where "MAX_REFRESH_PATH_BYTES = 4096"

datatype RefreshFailureReason =
    RequestRefused | OperationConflict | OperationsExhausted | AuthorizationRequired
  | AuthorizationFailed | TransportFailed | RepositoryInvalid | BranchUnavailable
  | NotesFolderUnavailable | UnsafeSource | InputExhausted | RebuildRequired | StorageFailed
  | PublicationConflict | Superseded | Cancelled | Panicked

datatype RefreshRetry = NeverRetry | ReauthorizeRetry | Backoff nat | FreeStorage | Rebuild

record RefreshFailure =
  rf_reason :: RefreshFailureReason
  rf_retry :: RefreshRetry

definition never :: "RefreshFailureReason \<Rightarrow> RefreshFailure" where
  "never reason = \<lparr>rf_reason = reason, rf_retry = NeverRetry\<rparr>"

definition with_retry :: "RefreshFailureReason \<Rightarrow> RefreshRetry \<Rightarrow> RefreshFailure" where
  "with_retry reason retry = \<lparr>rf_reason = reason, rf_retry = retry\<rparr>"

record RefreshContext =
  rc_operation :: int
  rc_attempt :: nat
  rc_source :: SourceRecord
  rc_repository :: string
  rc_store :: string

definition admitted_path :: "string \<Rightarrow> bool" where
  "admitted_path p \<longleftrightarrow>
     prefix ''/'' p \<and> p \<noteq> [] \<and> length p \<le> MAX_REFRESH_PATH_BYTES \<and> parent_components p \<noteq> None \<and>
     list_all (\<lambda>c. case c of RootDir \<Rightarrow> True | NormalComp _ \<Rightarrow> True | _ \<Rightarrow> False) (components p)"

text \<open>Paths are compared by their components.\<close>

definition refresh_context_new ::
  "int \<Rightarrow> nat \<Rightarrow> SourceRecord \<Rightarrow> string \<Rightarrow> string \<Rightarrow> (RefreshContext, RefreshFailure) outcome" where
  "refresh_context_new operation attempt source repository store =
     (if operation \<le> 0 \<or> MAX_REFRESH_ATTEMPTS \<le> attempt \<or> \<not> admitted_path repository \<or> \<not> admitted_path store
         \<or> components repository = components store \<or> parent_components repository \<noteq> parent_components store
      then Err (never RequestRefused)
      else Ok \<lparr>rc_operation = operation, rc_attempt = attempt, rc_source = source,
               rc_repository = repository, rc_store = store\<rparr>)"

definition same_import :: "RefreshContext \<Rightarrow> RefreshContext \<Rightarrow> bool" where
  "same_import a b \<longleftrightarrow>
     has_same_import_configuration (rc_source a) (rc_source b) \<and>
     components (rc_repository a) = components (rc_repository b) \<and>
     components (rc_store a) = components (rc_store b)"

datatype RefreshState =
    Recovering | Fetching | Comparing | Materializing | Indexing | Publishing
  | ReadyState | FailedState | CancelledState

datatype RefreshProgressUnit = NoUnit | Objects | Entries | Files | Steps

record RefreshProgress =
  rp_completed :: nat
  rp_total :: nat
  rp_unit :: RefreshProgressUnit

definition progress_none :: RefreshProgress where
  "progress_none = \<lparr>rp_completed = 0, rp_total = 0, rp_unit = NoUnit\<rparr>"

record RefreshStatus =
  rs_source :: SourceRecord
  rs_operation :: int
  rs_state :: RefreshState
  rs_fetched_revision :: "string option"
  rs_ready_revision :: "string option"
  rs_ready_generation :: "string option"
  rs_progress :: RefreshProgress
  rs_failure :: "RefreshFailure option"

datatype RefreshDisposition = Started | Coalesced | RefusedDisposition

record CoordinatedRefresh =
  cr_disposition :: RefreshDisposition
  cr_status :: RefreshStatus

record RefreshCompletion =
  rk_fetched_revision :: string
  rk_ready_revision :: string
  rk_ready_generation :: string

text \<open>Failures by cancellation are reported in their own state.\<close>

definition failure_state :: "RefreshFailure \<Rightarrow> RefreshState" where
  "failure_state failure =
     (if rf_reason failure = Cancelled \<or> rf_reason failure = Superseded then CancelledState else FailedState)"

definition failed_status :: "RefreshContext \<Rightarrow> RefreshFailure \<Rightarrow> RefreshStatus" where
  "failed_status context failure =
     \<lparr>rs_source = rc_source context, rs_operation = rc_operation context,
      rs_state = failure_state failure, rs_fetched_revision = None, rs_ready_revision = None,
      rs_ready_generation = None, rs_progress = progress_none, rs_failure = Some failure\<rparr>"

section \<open>Flights\<close>

text \<open>The activation mutex is the identity of the thread holding it, if any.\<close>

record Flight =
  fl_context :: RefreshContext
  fl_cancelled :: bool
  fl_superseded :: bool
  fl_committed :: bool
  fl_activation :: "nat option"
  fl_status :: RefreshStatus
  fl_complete :: bool

definition flight_new :: "RefreshContext \<Rightarrow> Flight" where
  "flight_new context =
     \<lparr>fl_context = context, fl_cancelled = False, fl_superseded = False, fl_committed = False,
      fl_activation = None,
      fl_status = \<lparr>rs_source = rc_source context, rs_operation = rc_operation context,
        rs_state = Recovering, rs_fetched_revision = None, rs_ready_revision = None,
        rs_ready_generation = None, rs_progress = progress_none, rs_failure = None\<rparr>,
      fl_complete = False\<rparr>"

definition finished_status :: "(RefreshCompletion, RefreshFailure) outcome \<Rightarrow> RefreshStatus \<Rightarrow> RefreshStatus" where
  "finished_status result status =
     (case result of
        Ok completion \<Rightarrow>
          status\<lparr>rs_state := ReadyState,
                 rs_fetched_revision := Some (rk_fetched_revision completion),
                 rs_ready_revision := Some (rk_ready_revision completion),
                 rs_ready_generation := Some (rk_ready_generation completion),
                 rs_failure := None\<rparr>
      | Err failure \<Rightarrow>
          status\<lparr>rs_state := failure_state failure, rs_failure := Some failure\<rparr>
      | Panic \<Rightarrow> status)"

text \<open>A panic of the work closure is caught and finishes the flight with its own reason.\<close>

definition flight_finish :: "(RefreshCompletion, RefreshFailure) outcome \<Rightarrow> Flight \<Rightarrow> Flight" where
  "flight_finish result f =
     (let result = (case result of Panic \<Rightarrow> Err (never Panicked) | r \<Rightarrow> r)
      in f\<lparr>fl_status := finished_status result (fl_status f), fl_complete := True\<rparr>)"

definition flight_cancel :: "Flight \<Rightarrow> bool \<times> Flight" where
  "flight_cancel f =
     (if fl_committed f \<or> fl_complete f then (False, f) else (True, f\<lparr>fl_cancelled := True\<rparr>))"

definition flight_supersede :: "Flight \<Rightarrow> Flight" where
  "flight_supersede f =
     (if \<not> fl_committed f \<and> \<not> fl_complete f then f\<lparr>fl_superseded := True, fl_cancelled := True\<rparr> else f)"

definition control_check :: "Flight \<Rightarrow> (unit, RefreshFailure) outcome" where
  "control_check f =
     (if fl_superseded f then Err (never Superseded)
      else if fl_cancelled f then Err (never Cancelled) else Ok ())"

record Report =
  re_state :: RefreshState
  re_progress :: RefreshProgress
  re_fetched_revision :: "string option"
  re_ready_revision :: "string option"
  re_ready_generation :: "string option"

definition or_keep :: "'a option \<Rightarrow> 'a option \<Rightarrow> 'a option" where
  "or_keep new old = (case new of None \<Rightarrow> old | Some x \<Rightarrow> Some x)"

text \<open>
  The check of the flag and the update of the status are one step here.  A cancellation
  that comes between them in the code sets the flag alone, which the update neither reads
  nor writes, so it has the effect of one that comes after the step.
\<close>

definition control_report :: "Report \<Rightarrow> Flight \<Rightarrow> (unit, RefreshFailure) outcome \<times> Flight" where
  "control_report r f =
     (case control_check f of
        Ok _ \<Rightarrow> (Ok (), f\<lparr>fl_status := (fl_status f)\<lparr>rs_state := re_state r, rs_progress := re_progress r,
            rs_fetched_revision := or_keep (re_fetched_revision r) (rs_fetched_revision (fl_status f)),
            rs_ready_revision := or_keep (re_ready_revision r) (rs_ready_revision (fl_status f)),
            rs_ready_generation := or_keep (re_ready_generation r) (rs_ready_generation (fl_status f))\<rparr>\<rparr>)
      | Err e \<Rightarrow> (Err e, f)
      | Panic \<Rightarrow> (Panic, f))"

text \<open>What a follower is answered once the flight is complete.\<close>

definition status_for :: "RefreshContext \<Rightarrow> Flight \<Rightarrow> RefreshStatus" where
  "status_for context f =
     (fl_status f)\<lparr>rs_source := rc_source context, rs_operation := rc_operation context\<rparr>"

section \<open>The coordinator and its threads\<close>

record Coordinator =
  co_active :: "(SourceId, nat) btree"
  co_operations :: "(int, nat) btree"
  co_last :: "(SourceId, RefreshStatus) btree"

text \<open>Where a thread stands between two critical sections.\<close>

datatype Phase =
    Requesting RefreshContext
  | Superseding RefreshContext nat
  | Waiting RefreshContext nat
  | Leading RefreshContext nat
  | Activating RefreshContext nat
  | Retiring RefreshContext nat bool
  | Following RefreshContext nat
  | CancelRequested int
  | CancelFound nat
  | Answered CoordinatedRefresh
  | Unwound
  | CancelAnswered bool

record System =
  sy_co :: Coordinator
  sy_flights :: "Flight list"
  sy_threads :: "Phase list"

definition initial_system :: System where
  "initial_system = \<lparr>sy_co = \<lparr>co_active = [], co_operations = [], co_last = []\<rparr>, sy_flights = [], sy_threads = []\<rparr>"

definition source_of :: "RefreshContext \<Rightarrow> SourceId" where
  "source_of context = sc_id (rc_source context)"

definition refused :: "RefreshContext \<Rightarrow> RefreshFailureReason \<Rightarrow> Phase" where
  "refused context reason =
     Answered \<lparr>cr_disposition = RefusedDisposition, cr_status = failed_status context (never reason)\<rparr>"

text \<open>One pass of the admission loop while it holds the state mutex.\<close>

definition admit :: "RefreshContext \<Rightarrow> System \<Rightarrow> Phase \<times> System" where
  "admit context s =
     (let co = sy_co s in
      if bt_get (co_operations co) (rc_operation context) \<noteq> None then (refused context OperationConflict, s)
      else
        (case bt_get (co_active co) (source_of context) of
           Some f \<Rightarrow>
             if same_import (fl_context (sy_flights s ! f)) context
             then (Following context f,
                   s\<lparr>sy_co := co\<lparr>co_operations := bt_insert (rc_operation context) f (co_operations co)\<rparr>\<rparr>)
             else (Superseding context f, s)
         | None \<Rightarrow>
             if MAX_CONCURRENT_REFRESHES \<le> length (co_active co) then (refused context OperationsExhausted, s)
             else
               let f = length (sy_flights s) in
               (Leading context f,
                s\<lparr>sy_co := co\<lparr>co_active := bt_insert (source_of context) f (co_active co),
                              co_operations := bt_insert (rc_operation context) f (co_operations co)\<rparr>,
                  sy_flights := sy_flights s @ [flight_new context]\<rparr>)))"

definition retire :: "RefreshContext \<Rightarrow> nat \<Rightarrow> RefreshStatus \<Rightarrow> Coordinator \<Rightarrow> Coordinator" where
  "retire context f status co =
     co\<lparr>co_active := (if bt_get (co_active co) (source_of context) = Some f
                      then bt_remove (source_of context) (co_active co) else co_active co),
        co_operations := bt_retain (\<lambda>_ g. g \<noteq> f) (co_operations co),
        co_last := bt_insert (source_of context) status (co_last co)\<rparr>"

definition coordinator_status :: "SourceId \<Rightarrow> System \<Rightarrow> RefreshStatus option" where
  "coordinator_status source s =
     (case bt_get (co_active (sy_co s)) source of
        Some f \<Rightarrow> Some (fl_status (sy_flights s ! f))
      | None \<Rightarrow> bt_get (co_last (sy_co s)) source)"

text \<open>Updates of one flight and of one thread.\<close>

definition upd_flight :: "nat \<Rightarrow> (Flight \<Rightarrow> Flight) \<Rightarrow> System \<Rightarrow> System" where
  "upd_flight f g s = s\<lparr>sy_flights := (sy_flights s)[f := g (sy_flights s ! f)]\<rparr>"

definition set_phase :: "nat \<Rightarrow> Phase \<Rightarrow> System \<Rightarrow> System" where
  "set_phase t p s = s\<lparr>sy_threads := (sy_threads s)[t := p]\<rparr>"

definition mutex_free :: "nat \<Rightarrow> System \<Rightarrow> bool" where
  "mutex_free f s \<longleftrightarrow> fl_activation (sy_flights s ! f) = None"

text \<open>
  What thread \<open>t\<close> can do next.  The choices left open are the leader's: a report, an
  activation, the end of an activation, the result of the work.
\<close>

datatype Choice =
    Proceed
  | DoReport Report
  | BeginActivation
  | EndActivation bool
  | Finish "(RefreshCompletion, RefreshFailure) outcome"

definition thread_step :: "nat \<Rightarrow> Choice \<Rightarrow> System \<Rightarrow> System option" where
  "thread_step t choice s =
     (if length (sy_threads s) \<le> t then None
      else (case (sy_threads s ! t, choice) of
        (Requesting context, Proceed) \<Rightarrow>
          (case admit context s of (p, s') \<Rightarrow> Some (set_phase t p s'))
      | (Superseding context f, Proceed) \<Rightarrow>
          if mutex_free f s then Some (set_phase t (Waiting context f) (upd_flight f flight_supersede s)) else None
      | (Waiting context f, Proceed) \<Rightarrow>
          if bt_get (co_active (sy_co s)) (source_of context) \<noteq> Some f
          then Some (set_phase t (Requesting context) s) else None
      | (Leading context f, DoReport r) \<Rightarrow> Some (upd_flight f (snd \<circ> control_report r) s)
      | (Activating context f, DoReport r) \<Rightarrow> Some (upd_flight f (snd \<circ> control_report r) s)
      | (Leading context f, BeginActivation) \<Rightarrow>
          if mutex_free f s \<and> control_check (sy_flights s ! f) = Ok ()
          then Some (set_phase t (Activating context f) (upd_flight f (\<lambda>x. x\<lparr>fl_activation := Some t\<rparr>) s))
          else None
      | (Activating context f, EndActivation ok) \<Rightarrow>
          Some (set_phase t (Leading context f)
            (upd_flight f (\<lambda>x. x\<lparr>fl_committed := fl_committed x \<or> ok, fl_activation := None\<rparr>) s))
      | (Leading context f, Finish result) \<Rightarrow>
          Some (set_phase t (Retiring context f (result = Panic)) (upd_flight f (flight_finish result) s))
      | (Retiring context f unwinding, Proceed) \<Rightarrow>
          let status = fl_status (sy_flights s ! f) in
          Some (set_phase t (if unwinding then Unwound
                             else Answered \<lparr>cr_disposition = Started, cr_status = status\<rparr>)
                 (s\<lparr>sy_co := retire context f status (sy_co s)\<rparr>))
      | (Following context f, Proceed) \<Rightarrow>
          if fl_complete (sy_flights s ! f)
          then Some (set_phase t (Answered \<lparr>cr_disposition = Coalesced,
                 cr_status = status_for context (sy_flights s ! f)\<rparr>) s)
          else None
      | (CancelRequested operation, Proceed) \<Rightarrow>
          Some (set_phase t (case bt_get (co_operations (sy_co s)) operation of
              None \<Rightarrow> CancelAnswered False | Some f \<Rightarrow> CancelFound f) s)
      | (CancelFound f, Proceed) \<Rightarrow>
          if mutex_free f s
          then Some (set_phase t (CancelAnswered (fst (flight_cancel (sy_flights s ! f))))
                 (upd_flight f (snd \<circ> flight_cancel) s))
          else None
      | _ \<Rightarrow> None))"

text \<open>A step of the system: a thread moves on, or a client calls \<open>coordinate\<close> or \<open>cancel\<close>.\<close>

inductive coord_step :: "System \<Rightarrow> System \<Rightarrow> bool" where
  move: "thread_step t choice s = Some s' \<Longrightarrow> coord_step s s'"
| call: "coord_step s (s\<lparr>sy_threads := sy_threads s @ [Requesting context]\<rparr>)"
| call_cancel: "coord_step s (s\<lparr>sy_threads := sy_threads s @ [CancelRequested operation]\<rparr>)"

inductive reachable :: "System \<Rightarrow> bool" where
  start: "reachable initial_system"
| step: "reachable s \<Longrightarrow> coord_step s s' \<Longrightarrow> reachable s'"

text \<open>Steps that are not calls of new clients.\<close>

inductive moves :: "System \<Rightarrow> System \<Rightarrow> bool" where
  moves_refl: "moves s s"
| moves_step: "thread_step t choice s = Some s' \<Longrightarrow> moves s' s'' \<Longrightarrow> moves s s''"

end
