(* ===== verification/RefreshProps.thy ===== *)
theory RefreshProps
  imports Refresh SourceProps
begin

text \<open>
  The invariant of the refresh coordinator, its preservation by every step, and what it
  gives: one worker per source, at most eight flights, cancellation and commitment
  exclusive, coalesced answers equal to the leader's, and that every request can be
  answered from every reachable state.
\<close>

section \<open>The invariant\<close>

definition worker_of :: "Phase \<Rightarrow> nat option" where
  "worker_of p = (case p of Leading _ f \<Rightarrow> Some f | Activating _ f \<Rightarrow> Some f | Retiring _ f _ \<Rightarrow> Some f
     | _ \<Rightarrow> None)"

lemma worker_of_simps [simp]:
  "worker_of (Leading c f) = Some f" "worker_of (Activating c f) = Some f"
  "worker_of (Retiring c f u) = Some f" "worker_of (Requesting c) = None"
  "worker_of (Superseding c f) = None" "worker_of (Waiting c f) = None"
  "worker_of (Following c f) = None" "worker_of (CancelRequested i) = None"
  "worker_of (CancelFound f) = None" "worker_of (Answered r) = None" "worker_of Unwound = None"
  "worker_of (CancelAnswered b) = None"
  by (simp_all add: worker_of_def)

abbreviation flight_at :: "System \<Rightarrow> nat \<Rightarrow> Flight" where
  "flight_at s f \<equiv> sy_flights s ! f"

abbreviation active_of :: "System \<Rightarrow> SourceId \<Rightarrow> nat option" where
  "active_of s src \<equiv> bt_get (co_active (sy_co s)) src"

definition led :: "System \<Rightarrow> RefreshContext \<Rightarrow> nat \<Rightarrow> bool" where
  "led s c f \<longleftrightarrow> f < length (sy_flights s) \<and> fl_context (flight_at s f) = c \<and> active_of s (source_of c) = Some f"

definition phase_ok :: "System \<Rightarrow> nat \<Rightarrow> Phase \<Rightarrow> bool" where
  "phase_ok s t p = (case p of
      Superseding _ f \<Rightarrow> f < length (sy_flights s)
    | Waiting _ f \<Rightarrow> f < length (sy_flights s)
    | CancelFound f \<Rightarrow> f < length (sy_flights s)
    | Following c f \<Rightarrow> f < length (sy_flights s) \<and> same_import (fl_context (flight_at s f)) c
    | Leading c f \<Rightarrow> led s c f \<and> \<not> fl_complete (flight_at s f)
    | Activating c f \<Rightarrow> led s c f \<and> \<not> fl_complete (flight_at s f) \<and> fl_activation (flight_at s f) = Some t
    | Retiring c f _ \<Rightarrow> led s c f \<and> fl_complete (flight_at s f)
    | _ \<Rightarrow> True)"

definition flight_ok :: "Flight \<Rightarrow> bool" where
  "flight_ok x \<longleftrightarrow>
     (fl_superseded x \<longrightarrow> fl_cancelled x) \<and> \<not> (fl_cancelled x \<and> fl_committed x) \<and>
     (fl_activation x \<noteq> None \<longrightarrow> \<not> fl_cancelled x)"

definition flight_live :: "System \<Rightarrow> nat \<Rightarrow> bool" where
  "flight_live s f \<longleftrightarrow>
     flight_ok (flight_at s f) \<and>
     (\<not> fl_complete (flight_at s f) \<longrightarrow> active_of s (source_of (fl_context (flight_at s f))) = Some f) \<and>
     (active_of s (source_of (fl_context (flight_at s f))) = Some f \<longrightarrow>
        (\<exists>t < length (sy_threads s). worker_of (sy_threads s ! t) = Some f)) \<and>
     (\<forall>t. fl_activation (flight_at s f) = Some t \<longrightarrow>
        t < length (sy_threads s) \<and> (\<exists>c. sy_threads s ! t = Activating c f))"

definition maps_ok :: "System \<Rightarrow> bool" where
  "maps_ok s \<longleftrightarrow>
     bt_well (co_active (sy_co s)) \<and> bt_well (co_operations (sy_co s)) \<and>
     length (co_active (sy_co s)) \<le> MAX_CONCURRENT_REFRESHES"

definition active_ok :: "System \<Rightarrow> bool" where
  "active_ok s \<longleftrightarrow> (\<forall>src f. active_of s src = Some f \<longrightarrow>
     f < length (sy_flights s) \<and> source_of (fl_context (flight_at s f)) = src)"

definition operations_ok :: "System \<Rightarrow> bool" where
  "operations_ok s \<longleftrightarrow> (\<forall>i f. bt_get (co_operations (sy_co s)) i = Some f \<longrightarrow>
     f < length (sy_flights s) \<and> active_of s (source_of (fl_context (flight_at s f))) = Some f)"

definition phases_ok :: "System \<Rightarrow> bool" where
  "phases_ok s \<longleftrightarrow> (\<forall>t < length (sy_threads s). phase_ok s t (sy_threads s ! t))"

definition single_worker :: "System \<Rightarrow> bool" where
  "single_worker s \<longleftrightarrow> (\<forall>t < length (sy_threads s). \<forall>t' < length (sy_threads s). \<forall>f.
     worker_of (sy_threads s ! t) = Some f \<longrightarrow> worker_of (sy_threads s ! t') = Some f \<longrightarrow> t = t')"

definition flights_live :: "System \<Rightarrow> bool" where
  "flights_live s \<longleftrightarrow> (\<forall>f < length (sy_flights s). flight_live s f)"

definition sys_inv :: "System \<Rightarrow> bool" where
  "sys_inv s \<longleftrightarrow> maps_ok s \<and> active_ok s \<and> operations_ok s \<and> phases_ok s \<and> single_worker s \<and> flights_live s"

lemmas inv_defs = maps_ok_def active_ok_def operations_ok_def phases_ok_def single_worker_def flights_live_def

lemma sys_invD:
  assumes "sys_inv s"
  shows "maps_ok s" "active_ok s" "operations_ok s" "phases_ok s" "single_worker s" "flights_live s"
  using assms by (simp_all add: sys_inv_def)

lemma phase_okD: "sys_inv s \<Longrightarrow> t < length (sy_threads s) \<Longrightarrow> phase_ok s t (sy_threads s ! t)"
  by (simp add: sys_inv_def phases_ok_def)

lemma single_workerD:
  "sys_inv s \<Longrightarrow> t < length (sy_threads s) \<Longrightarrow> t' < length (sy_threads s) \<Longrightarrow>
   worker_of (sy_threads s ! t) = Some f \<Longrightarrow> worker_of (sy_threads s ! t') = Some f \<Longrightarrow> t = t'"
  unfolding sys_inv_def single_worker_def by blast

lemma flight_liveD: "sys_inv s \<Longrightarrow> f < length (sy_flights s) \<Longrightarrow> flight_live s f"
  by (simp add: sys_inv_def flights_live_def)

lemma initial_inv: "sys_inv initial_system"
  by (simp add: sys_inv_def inv_defs initial_system_def bt_get_def)

section \<open>Frames\<close>

text \<open>A flight update that keeps what the other components look at.\<close>

lemma upd_flight_inv:
  assumes inv: "sys_inv s" and f: "f < length (sy_flights s)"
    and keep: "fl_context (g (flight_at s f)) = fl_context (flight_at s f)"
      "fl_complete (g (flight_at s f)) = fl_complete (flight_at s f)"
      "fl_activation (g (flight_at s f)) = fl_activation (flight_at s f)"
    and ok: "flight_ok (g (flight_at s f))"
  shows "sys_inv (upd_flight f g s)"
proof -
  let ?s = "upd_flight f g s"
  have at: "fl_context (flight_at ?s h) = fl_context (flight_at s h)"
      "fl_complete (flight_at ?s h) = fl_complete (flight_at s h)"
      "fl_activation (flight_at ?s h) = fl_activation (flight_at s h)" for h
    using keep f by (auto simp: upd_flight_def nth_list_update)
  have same: "sy_co ?s = sy_co s" "sy_threads ?s = sy_threads s" "length (sy_flights ?s) = length (sy_flights s)"
    by (simp_all add: upd_flight_def)
  have "phase_ok ?s t p = phase_ok s t p" for t p
    by (simp add: phase_ok_def led_def at same split: Phase.splits)
  moreover have "flight_live ?s h" if "h < length (sy_flights s)" for h
  proof -
    have "flight_ok (flight_at ?s h)"
      using ok flight_liveD [OF inv that] f
      by (cases "h = f") (auto simp: upd_flight_def flight_live_def)
    with flight_liveD [OF inv that] show ?thesis
      by (simp add: flight_live_def at same)
  qed
  ultimately show ?thesis
    using inv by (simp add: sys_inv_def inv_defs at same)
qed

text \<open>A thread that works on no flight before and after.\<close>

lemma set_phase_inv:
  assumes inv: "sys_inv s" and t: "t < length (sy_threads s)"
    and idle: "worker_of (sy_threads s ! t) = None" "worker_of p = None" and ok: "phase_ok s t p"
  shows "sys_inv (set_phase t p s)"
proof -
  let ?s = "set_phase t p s"
  have same: "sy_co ?s = sy_co s" "sy_flights ?s = sy_flights s" "length (sy_threads ?s) = length (sy_threads s)"
    by (simp_all add: set_phase_def)
  have at: "sy_threads ?s ! u = (if u = t then p else sy_threads s ! u)" if "u < length (sy_threads s)" for u
    using that by (simp add: set_phase_def nth_list_update)
  have w: "worker_of (sy_threads ?s ! u) = worker_of (sy_threads s ! u)" if "u < length (sy_threads s)" for u
    using at [OF that] idle by simp
  have ph: "phase_ok ?s u q = phase_ok s u q" for u q
    by (simp add: phase_ok_def led_def same split: Phase.splits)
  have "flight_live ?s h" if h: "h < length (sy_flights s)" for h
  proof -
    have "sy_threads s ! t \<noteq> Activating c h" for c using idle by auto
    then have "u < length (sy_threads s) \<Longrightarrow> (\<exists>c. sy_threads s ! u = Activating c h) \<Longrightarrow>
        (\<exists>c. sy_threads ?s ! u = Activating c h)" for u
      using at [of u] by auto
    with flight_liveD [OF inv h] w show ?thesis
      unfolding flight_live_def same by metis
  qed
  then show ?thesis
    using inv ok w unfolding sys_inv_def inv_defs same ph by (auto simp: at)
qed

text \<open>An operation registered for an active flight.\<close>

lemma register_inv:
  assumes inv: "sys_inv s" and f: "active_of s src = Some f"
  shows "sys_inv (s\<lparr>sy_co := (sy_co s)\<lparr>co_operations := bt_insert i f (co_operations (sy_co s))\<rparr>\<rparr>)"
    (is "sys_inv ?s")
proof -
  have ph: "phase_ok ?s u q = phase_ok s u q" for u q
    by (simp add: phase_ok_def led_def split: Phase.splits)
  have fl: "flight_live ?s h = flight_live s h" for h
    by (simp add: flight_live_def)
  have "f < length (sy_flights s)" "source_of (fl_context (flight_at s f)) = src"
    using sys_invD(2) [OF inv] f by (auto simp: active_ok_def)
  with inv f show ?thesis
    unfolding sys_inv_def inv_defs ph fl by (auto simp: bt_get_insert)
qed

text \<open>A client that arrives.\<close>

lemma call_inv:
  assumes inv: "sys_inv s" and idle: "worker_of p = None" and ok: "\<And>s t. phase_ok s t p"
  shows "sys_inv (s\<lparr>sy_threads := sy_threads s @ [p]\<rparr>)" (is "sys_inv ?s")
proof -
  have ph: "phase_ok ?s u q = phase_ok s u q" for u q
    by (simp add: phase_ok_def led_def split: Phase.splits)
  have at: "u < Suc (length (sy_threads s)) \<Longrightarrow>
      sy_threads ?s ! u = (if u = length (sy_threads s) then p else sy_threads s ! u)" for u
    by (auto simp: nth_append)
  have live: "flight_live ?s h" if h: "h < length (sy_flights s)" for h
    using flight_liveD [OF inv h] unfolding flight_live_def
    by (auto simp: nth_append intro: less_SucI)
  have "phases_ok ?s"
    using sys_invD(4) [OF inv] ok unfolding phases_ok_def ph by (auto simp: nth_append)
  moreover have "single_worker ?s"
    using sys_invD(5) [OF inv] idle unfolding single_worker_def by (auto simp: at less_Suc_eq nth_append)
  moreover have "maps_ok ?s" "active_ok ?s" "operations_ok ?s"
    using sys_invD(1-3) [OF inv] by (simp_all add: inv_defs)
  ultimately show ?thesis
    using live by (simp add: sys_inv_def flights_live_def)
qed

text \<open>A worker that goes on with its flight.\<close>

lemma work_inv:
  assumes inv: "sys_inv s" and t: "t < length (sy_threads s)"
    and mine: "worker_of (sy_threads s ! t) = Some f" "worker_of p = Some f"
    and keep: "fl_context (g (flight_at s f)) = fl_context (flight_at s f)"
    and ok: "flight_ok (g (flight_at s f))"
    and act: "\<And>u. fl_activation (g (flight_at s f)) = Some u \<Longrightarrow> u = t \<and> (\<exists>c. p = Activating c f)"
    and phase: "phase_ok (upd_flight f g s) t p"
  shows "sys_inv (set_phase t p (upd_flight f g s))" (is "sys_inv ?s")
proof -
  have led: "f < length (sy_flights s)" "active_of s (source_of (fl_context (flight_at s f))) = Some f"
    using phase_okD [OF inv t] mine(1)
    by (auto simp: worker_of_def phase_ok_def led_def split: Phase.splits)
  have same: "sy_co ?s = sy_co s" "length (sy_flights ?s) = length (sy_flights s)"
      "length (sy_threads ?s) = length (sy_threads s)"
    by (simp_all add: set_phase_def upd_flight_def)
  have thr: "sy_threads ?s ! u = (if u = t then p else sy_threads s ! u)" if "u < length (sy_threads s)" for u
    using that by (simp add: set_phase_def upd_flight_def nth_list_update)
  have w: "worker_of (sy_threads ?s ! u) = worker_of (sy_threads s ! u)" if "u < length (sy_threads s)" for u
    using thr [OF that] mine by simp
  have fl: "flight_at ?s h = (if h = f then g (flight_at s f) else flight_at s h)"
    if "h < length (sy_flights s)" for h
    using that by (simp add: set_phase_def upd_flight_def nth_list_update)
  have ctx: "fl_context (flight_at ?s h) = fl_context (flight_at s h)" for h
    using keep led(1) by (auto simp: set_phase_def upd_flight_def nth_list_update)
  have "phase_ok ?s u (sy_threads ?s ! u)" if u: "u < length (sy_threads s)" for u
  proof (cases "u = t")
    case True
    with phase thr [OF t] show ?thesis
      by (simp add: phase_ok_def led_def set_phase_def split: Phase.splits)
  next
    case False
    then have "worker_of (sy_threads s ! u) \<noteq> Some f"
      using single_workerD [OF inv u t] mine(1) by auto
    with phase_okD [OF inv u] thr [OF u] False show ?thesis
      by (auto simp: phase_ok_def led_def same ctx fl split: Phase.splits)
  qed
  moreover have "flight_live ?s h" if h: "h < length (sy_flights s)" for h
  proof (cases "h = f")
    case True
    moreover have "\<exists>u < length (sy_threads ?s). worker_of (sy_threads ?s ! u) = Some f"
      using t mine(1) w same(3) by auto
    ultimately show ?thesis
      using ok act keep led t thr by (auto simp: flight_live_def same fl)
  next
    case False
    have eq: "flight_at ?s h = flight_at s h" using fl [OF h] False by simp
    have "sy_threads s ! t \<noteq> Activating c h" for c
      using mine(1) False by (auto simp: worker_of_def)
    then have "u < length (sy_threads s) \<Longrightarrow> \<exists>c. sy_threads s ! u = Activating c h \<Longrightarrow>
        \<exists>c. sy_threads ?s ! u = Activating c h" for u
      using thr [of u] by auto
    with flight_liveD [OF inv h] w show ?thesis
      unfolding flight_live_def eq same by metis
  qed
  ultimately show ?thesis
    using inv w unfolding sys_inv_def inv_defs same ctx by auto
qed

text \<open>A request that becomes the leader of a new flight.\<close>

definition lead_state :: "RefreshContext \<Rightarrow> System \<Rightarrow> System" where
  "lead_state context s =
     s\<lparr>sy_co := (sy_co s)\<lparr>co_active := bt_insert (source_of context) (length (sy_flights s)) (co_active (sy_co s)),
         co_operations := bt_insert (rc_operation context) (length (sy_flights s)) (co_operations (sy_co s))\<rparr>,
       sy_flights := sy_flights s @ [flight_new context]\<rparr>"

lemma flight_new_simps [simp]:
  "fl_context (flight_new c) = c" "\<not> fl_complete (flight_new c)" "fl_activation (flight_new c) = None"
  "flight_ok (flight_new c)"
  by (simp_all add: flight_new_def flight_ok_def)

lemma lead_inv:
  assumes inv: "sys_inv s" and t: "t < length (sy_threads s)" and idle: "worker_of (sy_threads s ! t) = None"
    and free: "active_of s (source_of c) = None" and room: "length (co_active (sy_co s)) < MAX_CONCURRENT_REFRESHES"
  shows "sys_inv (set_phase t (Leading c (length (sy_flights s))) (lead_state c s))" (is "sys_inv ?s")
proof -
  let ?n = "length (sy_flights s)"
  have wells: "bt_well (co_active (sy_co s))" "bt_well (co_operations (sy_co s))"
    using sys_invD(1) [OF inv] by (simp_all add: maps_ok_def)
  have act: "active_of ?s src = (if src = source_of c then Some ?n else active_of s src)" for src
    using wells by (simp add: set_phase_def lead_state_def bt_get_insert)
  have ops: "bt_get (co_operations (sy_co ?s)) i =
      (if i = rc_operation c then Some ?n else bt_get (co_operations (sy_co s)) i)" for i
    using wells by (simp add: set_phase_def lead_state_def bt_get_insert)
  have fl: "flight_at ?s h = (if h = ?n then flight_new c else flight_at s h)" if "h \<le> ?n" for h
    using that by (auto simp: set_phase_def lead_state_def nth_append)
  have lens: "length (sy_flights ?s) = Suc ?n" "length (sy_threads ?s) = length (sy_threads s)"
    by (simp_all add: set_phase_def lead_state_def)
  have thr: "sy_threads ?s ! u = (if u = t then Leading c ?n else sy_threads s ! u)" if "u < length (sy_threads s)" for u
    using that by (simp add: set_phase_def lead_state_def nth_list_update)
  have other: "source_of (fl_context (flight_at s h)) \<noteq> source_of c"
    if "active_of s (source_of (fl_context (flight_at s h))) = Some h" for h
    using that free by auto
  have old: "worker_of (sy_threads s ! u) = Some h \<Longrightarrow> u < length (sy_threads s) \<Longrightarrow> h < ?n" for u h
    using phase_okD [OF inv, of u] by (auto simp: worker_of_def phase_ok_def led_def split: Phase.splits)
  have "maps_ok ?s"
    using sys_invD(1) [OF inv] room free
    by (simp add: maps_ok_def set_phase_def lead_state_def bt_insert_length)
  moreover have "active_ok ?s"
    unfolding active_ok_def act lens
  proof (intro allI impI)
    fix src f assume a: "(if src = source_of c then Some ?n else active_of s src) = Some f"
    show "f < Suc ?n \<and> source_of (fl_context (flight_at ?s f)) = src"
    proof (cases "src = source_of c")
      case False
      with a have "active_of s src = Some f" by simp
      then have "f < ?n \<and> source_of (fl_context (flight_at s f)) = src"
        using sys_invD(2) [OF inv] unfolding active_ok_def by blast
      with fl [of f] show ?thesis by simp
    next
      case True
      with a have "f = ?n" by simp
      with fl [of f] True show ?thesis by simp
    qed
  qed
  moreover have "operations_ok ?s"
    unfolding operations_ok_def ops
  proof (intro allI impI)
    fix i f assume a: "(if i = rc_operation c then Some ?n else bt_get (co_operations (sy_co s)) i) = Some f"
    show "f < length (sy_flights ?s) \<and> active_of ?s (source_of (fl_context (flight_at ?s f))) = Some f"
    proof (cases "i = rc_operation c")
      case False
      with a have "bt_get (co_operations (sy_co s)) i = Some f" by simp
      with sys_invD(3) [OF inv] have old: "f < ?n \<and> active_of s (source_of (fl_context (flight_at s f))) = Some f"
        unfolding operations_ok_def by blast
      then have "source_of (fl_context (flight_at s f)) \<noteq> source_of c" using other by blast
      with old fl [of f] act lens(1) show ?thesis by simp
    next
      case True
      with a have "f = ?n" by simp
      with fl [of ?n] act [of "source_of c"] lens(1) show ?thesis by simp
    qed
  qed
  moreover have "phases_ok ?s"
    unfolding phases_ok_def lens
  proof (intro allI impI)
    fix u assume u: "u < length (sy_threads s)"
    show "phase_ok ?s u (sy_threads ?s ! u)"
    proof (cases "u = t")
      case True
      with thr [OF t] show ?thesis by (simp add: phase_ok_def led_def lens fl act)
    next
      case False
      with phase_okD [OF inv u] thr [OF u] free show ?thesis
        by (auto simp: phase_ok_def led_def lens fl act less_SucI split: Phase.splits)
    qed
  qed
  moreover have "single_worker ?s"
    unfolding single_worker_def lens
  proof (intro allI impI)
    fix u u' h
    assume u: "u < length (sy_threads s)" "u' < length (sy_threads s)"
      and w: "worker_of (sy_threads ?s ! u) = Some h" "worker_of (sy_threads ?s ! u') = Some h"
    show "u = u'"
    proof (cases "h = ?n")
      case True
      with u w old show ?thesis by (force simp: thr split: if_splits)
    next
      case False
      with u w single_workerD [OF inv u] show ?thesis by (auto simp: thr split: if_splits)
    qed
  qed
  moreover have "flights_live ?s"
    unfolding flights_live_def lens
  proof (intro allI impI)
    fix h assume "h < Suc ?n"
    then consider "h = ?n" | "h < ?n" by linarith
    then show "flight_live ?s h"
    proof cases
      case 1
      have "\<exists>u < length (sy_threads ?s). worker_of (sy_threads ?s ! u) = Some ?n"
        using t thr [OF t] lens by auto
      with 1 show ?thesis by (simp add: flight_live_def fl act)
    next
      case 2
      have keepw: "\<exists>u < length (sy_threads s). worker_of (sy_threads s ! u) = Some h \<Longrightarrow>
          \<exists>u < length (sy_threads ?s). worker_of (sy_threads ?s ! u) = Some h"
        using idle thr lens by (metis option.distinct(1))
      have keepa: "u < length (sy_threads s) \<Longrightarrow> \<exists>d. sy_threads s ! u = Activating d h \<Longrightarrow>
          \<exists>d. sy_threads ?s ! u = Activating d h" for u
        using idle thr [of u] by auto
      have "active_of ?s (source_of (fl_context (flight_at s h))) = Some h \<Longrightarrow>
          active_of s (source_of (fl_context (flight_at s h))) = Some h"
        using 2 by (auto simp: act split: if_splits)
      moreover have "flight_at ?s h = flight_at s h" using 2 fl [of h] by simp
      moreover have "active_of s (source_of (fl_context (flight_at s h))) = Some h \<Longrightarrow>
          active_of ?s (source_of (fl_context (flight_at s h))) = Some h"
        using other [of h] act by simp
      ultimately show ?thesis
        using flight_liveD [OF inv 2] keepw keepa unfolding flight_live_def lens(2) by metis
    qed
  qed
  ultimately show ?thesis by (simp add: sys_inv_def)
qed

text \<open>A worker that leaves.\<close>

lemma retire_inv:
  assumes inv: "sys_inv s" and t: "t < length (sy_threads s)" and p: "sy_threads s ! t = Retiring c f u"
    and idle: "worker_of q = None" and ok: "\<And>s. phase_ok s t q"
  shows "sys_inv (set_phase t q (s\<lparr>sy_co := retire c f status (sy_co s)\<rparr>))" (is "sys_inv ?s")
proof -
  have led: "f < length (sy_flights s)" "fl_context (flight_at s f) = c" "active_of s (source_of c) = Some f"
      "fl_complete (flight_at s f)"
    using phase_okD [OF inv t] p by (simp_all add: phase_ok_def led_def)
  have wells: "bt_well (co_active (sy_co s))" "bt_well (co_operations (sy_co s))"
    using sys_invD(1) [OF inv] by (simp_all add: maps_ok_def)
  have act: "active_of ?s src = (if src = source_of c then None else active_of s src)" for src
    using led(3) by (simp add: set_phase_def retire_def bt_get_remove)
  have ops: "bt_get (co_operations (sy_co ?s)) i = Some g \<longleftrightarrow>
      bt_get (co_operations (sy_co s)) i = Some g \<and> g \<noteq> f" for i g
    using wells(2) by (auto simp: set_phase_def retire_def bt_get_retain split: option.splits)
  have same: "sy_flights ?s = sy_flights s" "length (sy_threads ?s) = length (sy_threads s)"
    by (simp_all add: set_phase_def)
  have thr: "sy_threads ?s ! v = (if v = t then q else sy_threads s ! v)" if "v < length (sy_threads s)" for v
    using that by (simp add: set_phase_def nth_list_update)
  have mine: "worker_of (sy_threads s ! t) = Some f" by (simp add: p)
  have src: "active_of s (source_of (fl_context (flight_at s h))) = Some h \<Longrightarrow> h \<noteq> f \<Longrightarrow>
      source_of (fl_context (flight_at s h)) \<noteq> source_of c" for h
    using led(3) by auto
  have "maps_ok ?s"
    using sys_invD(1) [OF inv] bt_remove_length [of "source_of c" "co_active (sy_co s)"]
    by (auto simp: maps_ok_def set_phase_def retire_def)
  moreover have "active_ok ?s"
    using sys_invD(2) [OF inv] unfolding active_ok_def act same by auto
  moreover have "operations_ok ?s"
  proof -
    have "g < length (sy_flights s) \<and> active_of ?s (source_of (fl_context (flight_at s g))) = Some g"
      if "bt_get (co_operations (sy_co s)) i = Some g" "g \<noteq> f" for i g
    proof -
      have "g < length (sy_flights s) \<and> active_of s (source_of (fl_context (flight_at s g))) = Some g"
        using sys_invD(3) [OF inv] that(1) unfolding operations_ok_def by blast
      with src [of g] that(2) act show ?thesis by simp
    qed
    then show ?thesis unfolding operations_ok_def ops same by blast
  qed
  moreover have "phases_ok ?s"
    unfolding phases_ok_def same
  proof (intro allI impI)
    fix v assume v: "v < length (sy_threads s)"
    show "phase_ok ?s v (sy_threads ?s ! v)"
    proof (cases "v = t")
      case True
      with thr [OF t] ok show ?thesis by simp
    next
      case False
      then have "worker_of (sy_threads s ! v) \<noteq> Some f"
        using single_workerD [OF inv v t] mine by auto
      with phase_okD [OF inv v] thr [OF v] False src show ?thesis
        by (auto simp: phase_ok_def led_def same act split: Phase.splits)
    qed
  qed
  moreover have "single_worker ?s"
    unfolding single_worker_def same
  proof (intro allI impI)
    fix v v' h
    assume v: "v < length (sy_threads s)" "v' < length (sy_threads s)"
      and w: "worker_of (sy_threads ?s ! v) = Some h" "worker_of (sy_threads ?s ! v') = Some h"
    from v w idle have "worker_of (sy_threads s ! v) = Some h" "worker_of (sy_threads s ! v') = Some h"
      by (auto simp: thr split: if_splits)
    with single_workerD [OF inv v] show "v = v'" by simp
  qed
  moreover have "flight_live ?s h" if h: "h < length (sy_flights s)" for h
  proof (cases "h = f")
    case True
    have "sy_threads s ! v \<noteq> Activating d f" if "v < length (sy_threads s)" for v d
      using single_workerD [OF inv that t] mine p by auto
    then have "fl_activation (flight_at s f) = None"
      using flight_liveD [OF inv led(1)] unfolding flight_live_def by (metis not_None_eq)
    with True flight_liveD [OF inv led(1)] led show ?thesis
      by (simp add: flight_live_def same act)
  next
    case False
    have kw: "\<exists>v < length (sy_threads s). worker_of (sy_threads s ! v) = Some h \<Longrightarrow>
        \<exists>v < length (sy_threads s). worker_of (sy_threads ?s ! v) = Some h"
      using mine False thr by (metis option.inject)
    have ka: "v < length (sy_threads s) \<and> (\<exists>d. sy_threads s ! v = Activating d h) \<Longrightarrow>
        v < length (sy_threads s) \<and> (\<exists>d. sy_threads ?s ! v = Activating d h)" for v
      using p thr [of v] by auto
    have a1: "active_of ?s (source_of (fl_context (flight_at s h))) = Some h \<longleftrightarrow>
        active_of s (source_of (fl_context (flight_at s h))) = Some h"
      using src [of h] False act by auto
    show ?thesis
      using flight_liveD [OF inv h] kw ka unfolding flight_live_def same a1 by metis
  qed
  ultimately show ?thesis
    by (simp add: sys_inv_def flights_live_def same)
qed

section \<open>Every step keeps the invariant\<close>

lemma flight_ok_updates:
  assumes "flight_ok x"
  shows "flight_ok (snd (control_report r x))" "flight_ok (flight_finish result x)"
    "fl_activation x = None \<Longrightarrow> flight_ok (flight_supersede x)"
    "fl_activation x = None \<Longrightarrow> flight_ok (snd (flight_cancel x))"
    "control_check x = Ok () \<Longrightarrow> flight_ok (x\<lparr>fl_activation := Some t\<rparr>)"
    "fl_activation x \<noteq> None \<Longrightarrow> flight_ok (x\<lparr>fl_committed := fl_committed x \<or> ok, fl_activation := None\<rparr>)"
  using assms
  by (auto simp: flight_ok_def control_report_def control_check_def flight_finish_def flight_supersede_def
      flight_cancel_def Let_def split: if_splits)

lemma update_keeps:
  "fl_context (snd (control_report r x)) = fl_context x"
  "fl_complete (snd (control_report r x)) = fl_complete x"
  "fl_activation (snd (control_report r x)) = fl_activation x"
  "fl_context (flight_supersede x) = fl_context x" "fl_complete (flight_supersede x) = fl_complete x"
  "fl_activation (flight_supersede x) = fl_activation x"
  "fl_context (snd (flight_cancel x)) = fl_context x" "fl_complete (snd (flight_cancel x)) = fl_complete x"
  "fl_activation (snd (flight_cancel x)) = fl_activation x"
  "fl_context (flight_finish result x) = fl_context x" "fl_complete (flight_finish result x)"
  "fl_activation (flight_finish result x) = fl_activation x"
  by (auto simp: control_report_def control_check_def flight_supersede_def flight_cancel_def flight_finish_def Let_def)

lemma upd_flight_at: "f < length (sy_flights s) \<Longrightarrow> flight_at (upd_flight f g s) f = g (flight_at s f)"
  by (simp add: upd_flight_def)

lemma upd_flight_rest [simp]:
  "sy_co (upd_flight f g s) = sy_co s" "sy_threads (upd_flight f g s) = sy_threads s"
  "length (sy_flights (upd_flight f g s)) = length (sy_flights s)"
  by (simp_all add: upd_flight_def)

lemma set_phase_rest [simp]:
  "sy_co (set_phase t p s) = sy_co s" "sy_flights (set_phase t p s) = sy_flights s"
  "length (sy_threads (set_phase t p s)) = length (sy_threads s)"
  by (simp_all add: set_phase_def)

lemma refused_idle: "worker_of (refused c r) = None" "phase_ok s t (refused c r)"
  by (simp_all add: refused_def phase_ok_def)

lemma admit_inv:
  assumes inv: "sys_inv s" and t: "t < length (sy_threads s)" and idle: "worker_of (sy_threads s ! t) = None"
    and a: "admit c s = (p, s')"
  shows "sys_inv (set_phase t p s')"
proof (cases "bt_get (co_operations (sy_co s)) (rc_operation c)")
  case (Some g)
  with a have "p = refused c OperationConflict" "s' = s" by (simp_all add: admit_def)
  with inv t idle show ?thesis by (simp add: set_phase_inv refused_idle)
next
  case noop: None
  show ?thesis
  proof (cases "active_of s (source_of c)")
    case (Some f)
    then have f: "f < length (sy_flights s)"
      using sys_invD(2) [OF inv] by (simp add: active_ok_def)
    show ?thesis
    proof (cases "same_import (fl_context (flight_at s f)) c")
      case True
      let ?r = "s\<lparr>sy_co := (sy_co s)\<lparr>co_operations := bt_insert (rc_operation c) f (co_operations (sy_co s))\<rparr>\<rparr>"
      have "p = Following c f" "s' = ?r"
        using a noop Some True by (simp_all add: admit_def Let_def)
      with register_inv [OF inv Some] t idle f True show ?thesis
        by (auto intro!: set_phase_inv simp: phase_ok_def)
    next
      case False
      with a noop Some have "p = Superseding c f" "s' = s" by (simp_all add: admit_def)
      with inv t idle f show ?thesis by (simp add: set_phase_inv phase_ok_def)
    qed
  next
    case None
    show ?thesis
    proof (cases "MAX_CONCURRENT_REFRESHES \<le> length (co_active (sy_co s))")
      case True
      with a noop None have "p = refused c OperationsExhausted" "s' = s" by (simp_all add: admit_def)
      with inv t idle show ?thesis by (simp add: set_phase_inv refused_idle)
    next
      case False
      with a noop None have "p = Leading c (length (sy_flights s))" "s' = lead_state c s"
        by (simp_all add: admit_def lead_state_def Let_def)
      with lead_inv [OF inv t idle None] False show ?thesis by simp
    qed
  qed
qed

lemma thread_step_bound: "thread_step t choice s = Some s' \<Longrightarrow> t < length (sy_threads s)"
  by (simp add: thread_step_def split: if_splits)

text \<open>What a move of a thread in each phase does.\<close>

lemma thread_step_phases:
  assumes "t < length (sy_threads s)"
  shows
    "sy_threads s ! t = Requesting c \<Longrightarrow> thread_step t choice s = (case choice of
       Proceed \<Rightarrow> (case admit c s of (p, s') \<Rightarrow> Some (set_phase t p s')) | _ \<Rightarrow> None)"
    "sy_threads s ! t = Superseding c f \<Longrightarrow> thread_step t choice s = (case choice of
       Proceed \<Rightarrow> if mutex_free f s then Some (set_phase t (Waiting c f) (upd_flight f flight_supersede s)) else None
     | _ \<Rightarrow> None)"
    "sy_threads s ! t = Waiting c f \<Longrightarrow> thread_step t choice s = (case choice of
       Proceed \<Rightarrow> if active_of s (source_of c) \<noteq> Some f then Some (set_phase t (Requesting c) s) else None
     | _ \<Rightarrow> None)"
    "sy_threads s ! t = Leading c f \<Longrightarrow> thread_step t choice s = (case choice of
       DoReport r \<Rightarrow> Some (upd_flight f (snd \<circ> control_report r) s)
     | BeginActivation \<Rightarrow>
         if mutex_free f s \<and> control_check (flight_at s f) = Ok ()
         then Some (set_phase t (Activating c f) (upd_flight f (\<lambda>x. x\<lparr>fl_activation := Some t\<rparr>) s)) else None
     | Finish result \<Rightarrow> Some (set_phase t (Retiring c f (result = Panic)) (upd_flight f (flight_finish result) s))
     | _ \<Rightarrow> None)"
    "sy_threads s ! t = Activating c f \<Longrightarrow> thread_step t choice s = (case choice of
       DoReport r \<Rightarrow> Some (upd_flight f (snd \<circ> control_report r) s)
     | EndActivation ok \<Rightarrow> Some (set_phase t (Leading c f)
         (upd_flight f (\<lambda>x. x\<lparr>fl_committed := fl_committed x \<or> ok, fl_activation := None\<rparr>) s))
     | _ \<Rightarrow> None)"
    "sy_threads s ! t = Retiring c f u \<Longrightarrow> thread_step t choice s = (case choice of
       Proceed \<Rightarrow> Some (set_phase t (if u then Unwound
            else Answered \<lparr>cr_disposition = Started, cr_status = fl_status (flight_at s f)\<rparr>)
          (s\<lparr>sy_co := retire c f (fl_status (flight_at s f)) (sy_co s)\<rparr>))
     | _ \<Rightarrow> None)"
    "sy_threads s ! t = Following c f \<Longrightarrow> thread_step t choice s = (case choice of
       Proceed \<Rightarrow> if fl_complete (flight_at s f)
         then Some (set_phase t (Answered \<lparr>cr_disposition = Coalesced,
                cr_status = status_for c (flight_at s f)\<rparr>) s) else None
     | _ \<Rightarrow> None)"
    "sy_threads s ! t = CancelRequested i \<Longrightarrow> thread_step t choice s = (case choice of
       Proceed \<Rightarrow> Some (set_phase t (case bt_get (co_operations (sy_co s)) i of
              None \<Rightarrow> CancelAnswered False | Some f \<Rightarrow> CancelFound f) s)
     | _ \<Rightarrow> None)"
    "sy_threads s ! t = CancelFound f \<Longrightarrow> thread_step t choice s = (case choice of
       Proceed \<Rightarrow> if mutex_free f s
         then Some (set_phase t (CancelAnswered (fst (flight_cancel (flight_at s f))))
                (upd_flight f (snd \<circ> flight_cancel) s)) else None
     | _ \<Rightarrow> None)"
    "sy_threads s ! t = Answered r \<Longrightarrow> thread_step t choice s = None"
    "sy_threads s ! t = Unwound \<Longrightarrow> thread_step t choice s = None"
    "sy_threads s ! t = CancelAnswered b \<Longrightarrow> thread_step t choice s = None"
  using assms by (cases choice; simp add: thread_step_def Let_def)+

lemma leading_idle:
  assumes inv: "sys_inv s" and t: "t < length (sy_threads s)" and p: "sy_threads s ! t = Leading c f"
    and f: "f < length (sy_flights s)"
  shows "fl_activation (flight_at s f) = None"
proof (rule ccontr)
  assume "fl_activation (flight_at s f) \<noteq> None"
  then obtain u d where u: "u < length (sy_threads s)" "sy_threads s ! u = Activating d f"
    using flight_liveD [OF inv f] unfolding flight_live_def by blast
  then have "u = t" using single_workerD [OF inv u(1) t] p by simp
  with u p show False by simp
qed

lemma leading_step_inv:
  assumes inv: "sys_inv s" and t: "t < length (sy_threads s)" and p: "sy_threads s ! t = Leading c f"
    and step: "thread_step t choice s = Some s'"
  shows "sys_inv s'"
proof -
  have led: "led s c f" "\<not> fl_complete (flight_at s f)" and f: "f < length (sy_flights s)"
    using phase_okD [OF inv t] p by (simp_all add: phase_ok_def led_def)
  note ok = flight_liveD [OF inv f, unfolded flight_live_def, THEN conjunct1]
  show ?thesis
  proof (cases choice)
    case (DoReport r)
    then have "s' = upd_flight f (snd \<circ> control_report r) s"
      using step by (simp add: thread_step_phases(4) [OF t p])
    with upd_flight_inv [OF inv f] ok show ?thesis by (simp add: update_keeps flight_ok_updates)
  next
    case BeginActivation
    then have chk: "control_check (flight_at s f) = Ok ()"
      and s': "s' = set_phase t (Activating c f) (upd_flight f (\<lambda>x. x\<lparr>fl_activation := Some t\<rparr>) s)"
      using step by (simp_all add: thread_step_phases(4) [OF t p] split: if_splits)
    show ?thesis
      unfolding s' using led ok chk p f
      by (intro work_inv [OF inv t]) (simp_all add: flight_ok_updates phase_ok_def led_def upd_flight_at)
  next
    case (Finish result)
    then have s': "s' = set_phase t (Retiring c f (result = Panic)) (upd_flight f (flight_finish result) s)"
      using step by (simp add: thread_step_phases(4) [OF t p])
    show ?thesis
      unfolding s' using led ok p f leading_idle [OF inv t p f]
      by (intro work_inv [OF inv t])
        (simp_all add: flight_ok_updates update_keeps phase_ok_def led_def upd_flight_at)
  qed (use step in \<open>simp_all add: thread_step_phases(4) [OF t p]\<close>)
qed

lemma activating_step_inv:
  assumes inv: "sys_inv s" and t: "t < length (sy_threads s)" and p: "sy_threads s ! t = Activating c f"
    and step: "thread_step t choice s = Some s'"
  shows "sys_inv s'"
proof -
  have led: "led s c f" "\<not> fl_complete (flight_at s f)" "fl_activation (flight_at s f) = Some t"
    and f: "f < length (sy_flights s)"
    using phase_okD [OF inv t] p by (simp_all add: phase_ok_def led_def)
  note ok = flight_liveD [OF inv f, unfolded flight_live_def, THEN conjunct1]
  show ?thesis
  proof (cases choice)
    case (DoReport r)
    then have "s' = upd_flight f (snd \<circ> control_report r) s"
      using step by (simp add: thread_step_phases(5) [OF t p])
    with upd_flight_inv [OF inv f] ok show ?thesis by (simp add: update_keeps flight_ok_updates)
  next
    case (EndActivation b)
    then have s': "s' = set_phase t (Leading c f)
        (upd_flight f (\<lambda>x. x\<lparr>fl_committed := fl_committed x \<or> b, fl_activation := None\<rparr>) s)"
      using step by (simp add: thread_step_phases(5) [OF t p])
    show ?thesis
      unfolding s' using led ok p f
      by (intro work_inv [OF inv t]) (simp_all add: flight_ok_updates phase_ok_def led_def upd_flight_at)
  qed (use step in \<open>simp_all add: thread_step_phases(5) [OF t p]\<close>)
qed

lemma supersede_step_inv:
  assumes inv: "sys_inv s" and t: "t < length (sy_threads s)" and p: "sy_threads s ! t = Superseding c f"
    and step: "thread_step t choice s = Some s'"
  shows "sys_inv s'"
proof -
  have f: "f < length (sy_flights s)" and free: "fl_activation (flight_at s f) = None"
    and s': "s' = set_phase t (Waiting c f) (upd_flight f flight_supersede s)"
    using phase_okD [OF inv t] step
    by (simp_all add: p phase_ok_def thread_step_phases(2) [OF t p] mutex_free_def split: Choice.splits if_splits)
  have "sys_inv (upd_flight f flight_supersede s)"
    using flight_liveD [OF inv f] free
    by (intro upd_flight_inv [OF inv f]) (simp_all add: update_keeps flight_ok_updates flight_live_def)
  with s' t p f show ?thesis by (simp add: set_phase_inv phase_ok_def)
qed

lemma cancel_step_inv:
  assumes inv: "sys_inv s" and t: "t < length (sy_threads s)" and p: "sy_threads s ! t = CancelFound f"
    and step: "thread_step t choice s = Some s'"
  shows "sys_inv s'"
proof -
  have f: "f < length (sy_flights s)" and free: "fl_activation (flight_at s f) = None"
    and s': "s' = set_phase t (CancelAnswered (fst (flight_cancel (flight_at s f))))
          (upd_flight f (snd \<circ> flight_cancel) s)"
    using phase_okD [OF inv t] step
    by (simp_all add: p phase_ok_def thread_step_phases(9) [OF t p] mutex_free_def split: Choice.splits if_splits)
  have "sys_inv (upd_flight f (snd \<circ> flight_cancel) s)"
    using flight_liveD [OF inv f] free
    by (intro upd_flight_inv [OF inv f]) (simp_all add: update_keeps flight_ok_updates flight_live_def)
  with s' t p f show ?thesis by (simp add: set_phase_inv phase_ok_def)
qed

lemma thread_step_inv:
  assumes inv: "sys_inv s" and step: "thread_step t choice s = Some s'"
  shows "sys_inv s'"
proof -
  note t = thread_step_bound [OF step]
  note steps = thread_step_phases [OF t]
  show ?thesis
  proof (cases "sy_threads s ! t")
    case (Requesting c)
    obtain p s1 where a: "admit c s = (p, s1)" by (cases "admit c s")
    then have "s' = set_phase t p s1"
      using step by (simp add: steps(1) [OF Requesting] split: Choice.splits)
    with admit_inv [OF inv t _ a] Requesting show ?thesis by simp
  next
    case (Waiting c f)
    then have "s' = set_phase t (Requesting c) s"
      using step by (simp add: steps(3) [OF Waiting] split: Choice.splits if_splits)
    with inv t Waiting show ?thesis by (simp add: set_phase_inv phase_ok_def)
  next
    case (Retiring c f u)
    then have "s' = set_phase t (if u then Unwound
        else Answered \<lparr>cr_disposition = Started, cr_status = fl_status (flight_at s f)\<rparr>)
        (s\<lparr>sy_co := retire c f (fl_status (flight_at s f)) (sy_co s)\<rparr>)"
      using step by (simp only: steps(6) [OF Retiring] split: Choice.splits) simp_all
    with retire_inv [OF inv t Retiring] show ?thesis by (simp add: phase_ok_def)
  next
    case (Following c f)
    then have "\<exists>r. s' = set_phase t (Answered r) s"
      using step by (auto simp: steps(7) [OF Following] split: Choice.splits if_splits)
    with inv t Following show ?thesis by (auto simp: set_phase_inv phase_ok_def)
  next
    case (CancelRequested i)
    have "bt_get (co_operations (sy_co s)) i = Some f \<Longrightarrow> f < length (sy_flights s)" for f
      using sys_invD(3) [OF inv] by (simp add: operations_ok_def)
    moreover have "s' = set_phase t (case bt_get (co_operations (sy_co s)) i of
        None \<Rightarrow> CancelAnswered False | Some f \<Rightarrow> CancelFound f) s"
      using step by (simp add: steps(8) [OF CancelRequested] split: Choice.splits)
    ultimately show ?thesis
      using inv t CancelRequested
      by (cases "bt_get (co_operations (sy_co s)) i") (simp_all add: set_phase_inv phase_ok_def)
  qed (use step steps(10-12) in \<open>auto intro: leading_step_inv [OF inv t] activating_step_inv [OF inv t]
      supersede_step_inv [OF inv t] cancel_step_inv [OF inv t]\<close>)
qed

inductive_cases coord_stepE: "coord_step s s'"

theorem reachable_inv: "reachable s \<Longrightarrow> sys_inv s"
proof (induction rule: reachable.induct)
  case (step s s')
  from step.hyps(2) step.IH show ?case
    by (cases rule: coord_step.cases) (auto intro: thread_step_inv call_inv simp: phase_ok_def)
qed (rule initial_inv)

section \<open>One worker per source, eight at most\<close>

lemma worker_led:
  assumes "sys_inv s" "t < length (sy_threads s)" "worker_of (sy_threads s ! t) = Some f"
  shows "f < length (sy_flights s)" "active_of s (source_of (fl_context (flight_at s f))) = Some f"
  using phase_okD [OF assms(1,2)] assms(3)
  by (auto simp: worker_of_def phase_ok_def led_def split: Phase.splits)

text \<open>C28. In every reachable state at most one thread works for a source: two threads that
  lead, activate or retire flights of the same source are the same thread, so two
  publications for one source never overlap.\<close>

theorem refresh_one_worker_per_source:
  "reachable s \<Longrightarrow> t < length (sy_threads s) \<Longrightarrow> t' < length (sy_threads s) \<Longrightarrow>
   worker_of (sy_threads s ! t) = Some f \<Longrightarrow> worker_of (sy_threads s ! t') = Some f' \<Longrightarrow>
   source_of (fl_context (flight_at s f)) = source_of (fl_context (flight_at s f')) \<Longrightarrow> t = t'"
proof -
  assume r: "reachable s" and t: "t < length (sy_threads s)" "t' < length (sy_threads s)"
    and w: "worker_of (sy_threads s ! t) = Some f" "worker_of (sy_threads s ! t') = Some f'"
    and same: "source_of (fl_context (flight_at s f)) = source_of (fl_context (flight_at s f'))"
  note inv = reachable_inv [OF r]
  have "f = f'"
    using worker_led(2) [OF inv t(1) w(1)] worker_led(2) [OF inv t(2) w(2)]
    unfolding same by (metis option.inject)
  with w show "t = t'" by (metis single_workerD [OF inv t])
qed

text \<open>C30. At most eight threads lead refreshes at the same time, whatever is requested.\<close>

theorem refresh_at_most_eight_workers:
  "reachable s \<Longrightarrow> card {t. t < length (sy_threads s) \<and> worker_of (sy_threads s ! t) \<noteq> None} \<le> 8"
proof -
  assume r: "reachable s"
  let ?T = "{t. t < length (sy_threads s) \<and> worker_of (sy_threads s ! t) \<noteq> None}"
  let ?w = "\<lambda>t. the (worker_of (sy_threads s ! t))"
  note inv = reachable_inv [OF r]
  have "inj_on ?w ?T"
  proof (rule inj_onI)
    fix t t' assume "t \<in> ?T" "t' \<in> ?T" "?w t = ?w t'"
    then show "t = t'" by (intro single_workerD [OF inv, of t t' "?w t"]) auto
  qed
  moreover have "?w ` ?T \<subseteq> snd ` set (co_active (sy_co s))"
  proof
    fix f assume "f \<in> ?w ` ?T"
    then obtain t where "t < length (sy_threads s)" "worker_of (sy_threads s ! t) = Some f" by auto
    from map_of_SomeD [OF worker_led(2) [OF inv this, unfolded bt_get_def]]
    show "f \<in> snd ` set (co_active (sy_co s))" by (metis image_eqI snd_conv)
  qed
  ultimately have "card ?T \<le> card (snd ` set (co_active (sy_co s)))"
    by (rule card_inj_on_le) simp
  also have "\<dots> \<le> length (co_active (sy_co s))"
    by (metis card_length length_map list.set_map)
  also have "\<dots> \<le> 8"
    using sys_invD(1) [OF inv] by (simp add: maps_ok_def MAX_CONCURRENT_REFRESHES_def)
  finally show ?thesis .
qed

section \<open>Cancellation and commitment\<close>

text \<open>No step forgets a cancellation or a flight.\<close>

definition keeps_cancelled :: "System \<Rightarrow> System \<Rightarrow> bool" where
  "keeps_cancelled s s' \<longleftrightarrow> length (sy_flights s) \<le> length (sy_flights s') \<and>
     (\<forall>f < length (sy_flights s). fl_cancelled (flight_at s f) \<longrightarrow> fl_cancelled (flight_at s' f))"

lemma keeps_upd: "(\<And>x. fl_cancelled x \<Longrightarrow> fl_cancelled (g x)) \<Longrightarrow> keeps_cancelled s (upd_flight f g s)"
  unfolding keeps_cancelled_def upd_flight_def
  by (simp, metis nth_list_update_eq nth_list_update_neq list_update_beyond not_le)

lemma keeps_set_phase [simp]: "keeps_cancelled s (set_phase t p s') = keeps_cancelled s s'"
  by (simp add: keeps_cancelled_def)

lemma keeps_refl [simp]: "keeps_cancelled s s" "keeps_cancelled s (s\<lparr>sy_co := co\<rparr>)"
  by (simp_all add: keeps_cancelled_def)

lemma keeps_admit: "keeps_cancelled s (snd (admit c s))"
  by (auto simp: admit_def Let_def keeps_cancelled_def nth_append split: option.splits)

lemma thread_step_keeps:
  assumes "thread_step t choice s = Some s'"
  shows "keeps_cancelled s s'"
proof -
  note t = thread_step_bound [OF assms]
  note keeps = keeps_upd [of "flight_finish _"] keeps_upd [of flight_supersede]
    keeps_upd [of "snd \<circ> flight_cancel"] keeps_upd [of "snd \<circ> control_report _"]
    keeps_upd [of "\<lambda>x. x\<lparr>fl_activation := Some t\<rparr>"]
    keeps_upd [of "\<lambda>x. x\<lparr>fl_committed := fl_committed x \<or> _, fl_activation := None\<rparr>"]
  have mono: "fl_cancelled x \<Longrightarrow> fl_cancelled (flight_finish r x)" "fl_cancelled x \<Longrightarrow> fl_cancelled (flight_supersede x)"
    "fl_cancelled x \<Longrightarrow> fl_cancelled (snd (flight_cancel x))"
    "fl_cancelled x \<Longrightarrow> fl_cancelled (snd (control_report q x))" for x r q
    by (auto simp: flight_finish_def flight_supersede_def flight_cancel_def control_report_def control_check_def Let_def)
  show ?thesis
  proof (cases "sy_threads s ! t")
    case (Requesting c)
    then have "\<exists>p. s' = set_phase t p (snd (admit c s))"
      using assms by (auto simp: thread_step_phases(1) [OF t] split: Choice.splits prod.splits)
    with keeps_admit show ?thesis by auto
  qed (use assms mono keeps in \<open>auto simp: thread_step_phases [OF t] Let_def split: Choice.splits if_splits\<close>)
qed

lemma coord_step_keeps: "coord_step s s' \<Longrightarrow> keeps_cancelled s s'"
proof (induction rule: coord_step.induct)
  case (move t choice s s')
  then show ?case by (rule thread_step_keeps)
qed (simp_all add: keeps_cancelled_def)

lemma coord_steps_keep: "coord_step\<^sup>*\<^sup>* s s' \<Longrightarrow> keeps_cancelled s s'"
proof (induction rule: rtranclp_induct)
  case (step s1 s2)
  from step.IH coord_step_keeps [OF step.hyps(2)] show ?case
    unfolding keeps_cancelled_def by (metis order.strict_trans2 order_trans)
qed simp

lemma reachable_steps: "reachable s \<Longrightarrow> coord_step\<^sup>*\<^sup>* s s' \<Longrightarrow> reachable s'"
  by (rotate_tac, induction rule: rtranclp_induct) (auto intro: reachable.step)

text \<open>C4. Cancellation and activation exclude each other: when a cancellation of a flight is
  answered with true, then in every continuation, whatever other threads and new clients
  do, that flight never commits and no thread activates it.\<close>

theorem refresh_cancelled_never_commits:
  "reachable s \<Longrightarrow> t < length (sy_threads s) \<Longrightarrow> sy_threads s ! t = CancelFound f \<Longrightarrow>
   thread_step t Proceed s = Some s' \<Longrightarrow> sy_threads s' ! t = CancelAnswered True \<Longrightarrow>
   coord_step\<^sup>*\<^sup>* s' s'' \<Longrightarrow>
   \<not> fl_committed (flight_at s'' f) \<and> fl_activation (flight_at s'' f) = None"
proof -
  assume r: "reachable s" and t: "t < length (sy_threads s)" and p: "sy_threads s ! t = CancelFound f"
    and step: "thread_step t Proceed s = Some s'" and yes: "sy_threads s' ! t = CancelAnswered True"
    and more: "coord_step\<^sup>*\<^sup>* s' s''"
  have f: "f < length (sy_flights s)"
    using phase_okD [OF reachable_inv [OF r] t] p by (simp add: phase_ok_def)
  have s': "s' = set_phase t (CancelAnswered (fst (flight_cancel (flight_at s f)))) (upd_flight f (snd \<circ> flight_cancel) s)"
    using step by (simp add: thread_step_phases(9) [OF t p] split: if_splits)
  with yes t have "fst (flight_cancel (flight_at s f))" by (simp add: set_phase_def upd_flight_def)
  then have "fl_cancelled (flight_at s' f)"
    using s' f by (simp add: flight_cancel_def set_phase_def upd_flight_def split: if_splits)
  moreover have "length (sy_flights s') = length (sy_flights s)" using s' by simp
  ultimately have "fl_cancelled (flight_at s'' f)" "f < length (sy_flights s'')"
    using coord_steps_keep [OF more] f by (auto simp: keeps_cancelled_def)
  moreover have "reachable s''"
    using r step more by (meson coord_step.move reachable.step reachable_steps)
  ultimately show ?thesis
    using flight_liveD [OF reachable_inv, of s'' f] by (auto simp: flight_live_def flight_ok_def)
qed

section \<open>Concrete runs\<close>

fun run :: "(nat \<times> Choice) list \<Rightarrow> System \<Rightarrow> System option" where
  "run [] s = Some s"
| "run ((t, choice) # rest) s = Option.bind (thread_step t choice s) (run rest)"

lemma run_reachable: "run cs s = Some s' \<Longrightarrow> reachable s \<Longrightarrow> reachable s'"
proof (induction cs s rule: run.induct)
  case (2 t choice rest s)
  then obtain s1 where "thread_step t choice s = Some s1" "run rest s1 = Some s'"
    by (auto simp: bind_eq_Some_conv)
  with 2 show ?case by (metis coord_step.move reachable.step)
qed simp

definition with_clients :: "Phase list \<Rightarrow> System" where
  "with_clients ps = initial_system\<lparr>sy_threads := ps\<rparr>"

lemma with_clients_reachable:
  "list_all (\<lambda>p. case p of Requesting _ \<Rightarrow> True | CancelRequested _ \<Rightarrow> True | _ \<Rightarrow> False) ps \<Longrightarrow>
   reachable (with_clients ps)"
proof (induction ps rule: rev_induct)
  case Nil
  have "with_clients [] = initial_system" by (simp add: with_clients_def initial_system_def)
  then show ?case by (simp add: reachable.start)
next
  case (snoc p ps)
  then have r: "reachable (with_clients ps)" by simp
  have e: "with_clients (ps @ [p]) = (with_clients ps)\<lparr>sy_threads := sy_threads (with_clients ps) @ [p]\<rparr>"
    by (simp add: with_clients_def initial_system_def)
  from snoc.prems have "coord_step (with_clients ps) (with_clients (ps @ [p]))"
    unfolding e by (cases p) (auto intro: coord_step.call coord_step.call_cancel)
  with r show ?case by (rule reachable.step)
qed

text \<open>Two equivalent requests and a cancellation of the first one's operation.\<close>

definition sample_request :: "int \<Rightarrow> RefreshContext" where
  "sample_request op = \<lparr>rc_operation = op, rc_attempt = 0, rc_source = sample_record,
     rc_repository = ''/s/repo'', rc_store = ''/s/store''\<rparr>"

definition sample_clients :: System where
  "sample_clients = with_clients [Requesting (sample_request 1), Requesting (sample_request 2), CancelRequested 2]"

lemma sample_clients_reachable: "reachable sample_clients"
  unfolding sample_clients_def by (rule with_clients_reachable) simp

definition sample_leading :: System where
  "sample_leading = the (run [(0, Proceed), (1, Proceed), (2, Proceed)] sample_clients)"

lemma sample_leading_run: "run [(0, Proceed), (1, Proceed), (2, Proceed)] sample_clients = Some sample_leading"
proof -
  have "run [(0, Proceed), (1, Proceed), (2, Proceed)] sample_clients \<noteq> None" by code_simp
  then show ?thesis by (auto simp: sample_leading_def)
qed

lemma sample_leading_facts:
  "sy_threads sample_leading =
     [Leading (sample_request 1) 0, Following (sample_request 2) 0, CancelFound 0] \<and>
   length (sy_flights sample_leading) = 1 \<and> fl_activation (flight_at sample_leading 0) = None \<and>
   \<not> fl_committed (flight_at sample_leading 0) \<and> \<not> fl_complete (flight_at sample_leading 0)"
  by code_simp

lemma sample_leading_reachable: "reachable sample_leading"
  by (rule run_reachable [OF sample_leading_run sample_clients_reachable])

theorem refresh_one_worker_per_source_witness: "(0::nat) = 0 \<and> reachable sample_leading"
  using refresh_one_worker_per_source [OF sample_leading_reachable, of 0 0 0 0] sample_leading_facts
    sample_leading_reachable
  by simp

theorem refresh_at_most_eight_workers_witness:
  "card {t. t < length (sy_threads sample_leading) \<and> worker_of (sy_threads sample_leading ! t) \<noteq> None} \<le> 8"
  by (rule refresh_at_most_eight_workers [OF sample_leading_reachable])

definition sample_cancelled :: System where
  "sample_cancelled = the (thread_step 2 Proceed sample_leading)"

lemma sample_cancelled_step: "thread_step 2 Proceed sample_leading = Some sample_cancelled"
proof -
  have "thread_step 2 Proceed sample_leading \<noteq> None" by code_simp
  then show ?thesis by (auto simp: sample_cancelled_def)
qed

theorem refresh_cancelled_never_commits_witness: "\<not> fl_committed (flight_at sample_cancelled 0)"
proof -
  have a: "sy_threads sample_cancelled ! 2 = CancelAnswered True" by code_simp
  have b: "2 < length (sy_threads sample_leading)" "sy_threads sample_leading ! 2 = CancelFound 0"
    using sample_leading_facts by simp_all
  from refresh_cancelled_never_commits [OF sample_leading_reachable b sample_cancelled_step a rtranclp.rtrancl_refl]
  show ?thesis ..
qed

section \<open>Coalesced answers\<close>

text \<open>C17. A coalesced request is answered only after its flight is complete, for a flight
  with the same import configuration, and the answer is the flight's final status under
  the follower's own source record and operation.\<close>

theorem refresh_coalesced_answer:
  "reachable s \<Longrightarrow> t < length (sy_threads s) \<Longrightarrow> sy_threads s ! t = Following c f \<Longrightarrow>
   thread_step t choice s = Some s' \<Longrightarrow>
   fl_complete (flight_at s f) \<and> same_import (fl_context (flight_at s f)) c \<and>
   (\<exists>r. sy_threads s' ! t = Answered r \<and> cr_disposition r = Coalesced \<and>
      cr_status r = (fl_status (flight_at s f))\<lparr>rs_source := rc_source c, rs_operation := rc_operation c\<rparr>)"
proof -
  assume r: "reachable s" and t: "t < length (sy_threads s)" and p: "sy_threads s ! t = Following c f"
    and step: "thread_step t choice s = Some s'"
  have "same_import (fl_context (flight_at s f)) c"
    using phase_okD [OF reachable_inv [OF r] t] p by (simp add: phase_ok_def)
  with step t show ?thesis
    by (auto simp: thread_step_phases(7) [OF t p] status_for_def set_phase_def split: Choice.splits if_splits)
qed

definition sample_finished :: System where
  "sample_finished = the (run [(0, Finish (Ok \<lparr>rk_fetched_revision = ''f'', rk_ready_revision = ''r'',
     rk_ready_generation = ''g''\<rparr>))] sample_leading)"

theorem refresh_coalesced_answer_witness: "same_import (fl_context (flight_at sample_finished 0)) (sample_request 2)"
proof -
  have "run [(0, Finish (Ok \<lparr>rk_fetched_revision = ''f'', rk_ready_revision = ''r'',
     rk_ready_generation = ''g''\<rparr>))] sample_leading \<noteq> None" by code_simp
  then have "run [(0, Finish (Ok \<lparr>rk_fetched_revision = ''f'', rk_ready_revision = ''r'',
     rk_ready_generation = ''g''\<rparr>))] sample_leading = Some sample_finished"
    by (auto simp: sample_finished_def)
  then have r: "reachable sample_finished"
    by (rule run_reachable [OF _ sample_leading_reachable])
  have t: "1 < length (sy_threads sample_finished)" "sy_threads sample_finished ! 1 = Following (sample_request 2) 0"
    by code_simp+
  have "thread_step 1 Proceed sample_finished \<noteq> None" by code_simp
  then obtain s' where s': "thread_step 1 Proceed sample_finished = Some s'" by auto
  from refresh_coalesced_answer [OF r t s'] show ?thesis by simp
qed

section \<open>Every request can be answered\<close>

definition settled :: "Phase \<Rightarrow> bool" where
  "settled p = (case p of Answered _ \<Rightarrow> True | Unwound \<Rightarrow> True | CancelAnswered _ \<Rightarrow> True | _ \<Rightarrow> False)"

text \<open>How far a thread is from its answer, once no other thread holds it up.\<close>

definition distance :: "Phase \<Rightarrow> nat" where
  "distance p = (case p of
      Superseding _ _ \<Rightarrow> 6 | Waiting _ _ \<Rightarrow> 5 | Requesting _ \<Rightarrow> 4 | Activating _ _ \<Rightarrow> 3 | Leading _ _ \<Rightarrow> 2
    | Retiring _ _ _ \<Rightarrow> 1 | Following _ _ \<Rightarrow> 1 | CancelRequested _ \<Rightarrow> 2 | CancelFound _ \<Rightarrow> 1 | _ \<Rightarrow> 0)"

definition total_distance :: "System \<Rightarrow> nat" where
  "total_distance s = sum_list (map distance (sy_threads s))"

lemma total_distance_set_phase:
  "t < length (sy_threads s) \<Longrightarrow> distance p < distance (sy_threads s ! t) \<Longrightarrow> sy_threads s' = sy_threads s \<Longrightarrow>
   total_distance (set_phase t p s') < total_distance s"
proof -
  assume t: "t < length (sy_threads s)" and d: "distance p < distance (sy_threads s ! t)"
    and e: "sy_threads s' = sy_threads s"
  have "sy_threads s = take t (sy_threads s) @ sy_threads s ! t # drop (Suc t) (sy_threads s)"
    using t by (rule id_take_nth_drop)
  then have "total_distance s = sum_list (map distance (take t (sy_threads s))) + distance (sy_threads s ! t)
      + sum_list (map distance (drop (Suc t) (sy_threads s)))"
    unfolding total_distance_def by (metis add.assoc list.simps(9) map_append sum_list.Cons sum_list.append)
  moreover have "total_distance (set_phase t p s') = sum_list (map distance (take t (sy_threads s))) + distance p
      + sum_list (map distance (drop (Suc t) (sy_threads s)))"
    using t by (simp add: total_distance_def set_phase_def e upd_conv_take_nth_drop)
  ultimately show ?thesis using d by simp
qed

text \<open>A worker can always move on, whatever the others do.\<close>

lemma worker_moves:
  assumes inv: "sys_inv s" and t: "t < length (sy_threads s)" and w: "worker_of (sy_threads s ! t) = Some f"
  shows "\<exists>choice s'. thread_step t choice s = Some s' \<and> total_distance s' < total_distance s"
proof (cases "sy_threads s ! t")
  case (Leading c g)
  then have "thread_step t (Finish (Err (never Cancelled))) s =
      Some (set_phase t (Retiring c g False) (upd_flight g (flight_finish (Err (never Cancelled))) s))"
    by (simp add: thread_step_phases(4) [OF t])
  with Leading t show ?thesis
    by (auto intro!: exI total_distance_set_phase simp: distance_def)
next
  case (Activating c g)
  then have "thread_step t (EndActivation False) s = Some (set_phase t (Leading c g)
      (upd_flight g (\<lambda>x. x\<lparr>fl_committed := fl_committed x \<or> False, fl_activation := None\<rparr>) s))"
    by (simp add: thread_step_phases(5) [OF t])
  with Activating t show ?thesis
    by (auto intro!: exI total_distance_set_phase simp: distance_def)
next
  case (Retiring c g u)
  then have "\<exists>p co. thread_step t Proceed s = Some (set_phase t p (s\<lparr>sy_co := co\<rparr>)) \<and> distance p = 0"
    by (auto simp: thread_step_phases(6) [OF t] Let_def distance_def)
  then obtain p co where e: "thread_step t Proceed s = Some (set_phase t p (s\<lparr>sy_co := co\<rparr>))" "distance p = 0"
    by blast
  have "total_distance (set_phase t p (s\<lparr>sy_co := co\<rparr>)) < total_distance s"
    using t e(2) Retiring by (intro total_distance_set_phase) (simp_all add: distance_def)
  with e(1) show ?thesis by blast
qed (use w in simp_all)

text \<open>Without workers nothing is active, every flight is complete and every mutex free.\<close>

lemma no_worker_idle:
  assumes inv: "sys_inv s" and none: "\<forall>t < length (sy_threads s). worker_of (sy_threads s ! t) = None"
  shows "active_of s src = None" "f < length (sy_flights s) \<Longrightarrow> fl_complete (flight_at s f)"
    "f < length (sy_flights s) \<Longrightarrow> mutex_free f s" "bt_get (co_operations (sy_co s)) i = None"
    "co_active (sy_co s) = []"
proof -
  have gone: "active_of s src = None" for src
  proof (rule ccontr)
    assume "active_of s src \<noteq> None"
    then obtain g where g: "active_of s src = Some g" by auto
    then have "g < length (sy_flights s)" "active_of s (source_of (fl_context (flight_at s g))) = Some g"
      using sys_invD(2) [OF inv] unfolding active_ok_def by (blast, metis)
    then have "\<exists>t < length (sy_threads s). worker_of (sy_threads s ! t) = Some g"
      using flight_liveD [OF inv] unfolding flight_live_def by blast
    with none show False by auto
  qed
  show "active_of s src = None" by (rule gone)
  show "f < length (sy_flights s) \<Longrightarrow> fl_complete (flight_at s f)"
    using flight_liveD [OF inv, of f] gone unfolding flight_live_def by auto
  show "f < length (sy_flights s) \<Longrightarrow> mutex_free f s"
  proof -
    assume f: "f < length (sy_flights s)"
    have "fl_activation (flight_at s f) \<noteq> Some t" for t
      using flight_liveD [OF inv f] none unfolding flight_live_def by (metis option.distinct(1) worker_of_simps(2))
    then show "mutex_free f s" unfolding mutex_free_def by auto
  qed
  show "bt_get (co_operations (sy_co s)) i = None"
  proof (rule ccontr)
    assume "bt_get (co_operations (sy_co s)) i \<noteq> None"
    then obtain g where "bt_get (co_operations (sy_co s)) i = Some g" by auto
    then have "active_of s (source_of (fl_context (flight_at s g))) = Some g"
      using sys_invD(3) [OF inv] unfolding operations_ok_def by blast
    with gone show False by simp
  qed
  show "co_active (sy_co s) = []"
  proof (cases "co_active (sy_co s)")
    case (Cons kv rest)
    then have "active_of s (fst kv) = Some (snd kv)" by (simp add: bt_get_def)
    with gone show ?thesis by simp
  qed simp
qed

lemma idle_moves:
  assumes inv: "sys_inv s" and none: "\<forall>t < length (sy_threads s). worker_of (sy_threads s ! t) = None"
    and t: "t < length (sy_threads s)" and p: "\<not> settled (sy_threads s ! t)"
  shows "\<exists>s'. thread_step t Proceed s = Some s' \<and> total_distance s' < total_distance s"
proof -
  note idle = no_worker_idle [OF inv none]
  have mv: "\<exists>s'. thread_step t Proceed s = Some s' \<and> total_distance s' < total_distance s"
    if "thread_step t Proceed s = Some (set_phase t q s1)" "distance q < distance (sy_threads s ! t)"
      "sy_threads s1 = sy_threads s" for q s1
    using that total_distance_set_phase [OF t that(2,3)] by blast
  show ?thesis
  proof (cases "sy_threads s ! t")
    case (Requesting c)
    have "admit c s = (Leading c (length (sy_flights s)), lead_state c s)"
      using idle by (simp add: admit_def lead_state_def Let_def MAX_CONCURRENT_REFRESHES_def)
    with Requesting show ?thesis
      by (intro mv [of "Leading c (length (sy_flights s))" "lead_state c s"])
        (simp_all add: thread_step_phases(1) [OF t] distance_def lead_state_def)
  next
    case (Superseding c f)
    then have "f < length (sy_flights s)" using phase_okD [OF inv t] by (simp add: phase_ok_def)
    with Superseding idle show ?thesis
      by (intro mv [of "Waiting c f" "upd_flight f flight_supersede s"])
        (simp_all add: thread_step_phases(2) [OF t] distance_def)
  next
    case (Waiting c f)
    with idle show ?thesis
      by (intro mv [of "Requesting c" s]) (simp_all add: thread_step_phases(3) [OF t] distance_def)
  next
    case (Following c f)
    then have "f < length (sy_flights s)" using phase_okD [OF inv t] by (simp add: phase_ok_def)
    with Following idle show ?thesis
      by (intro mv [of "Answered \<lparr>cr_disposition = Coalesced, cr_status = status_for c (flight_at s f)\<rparr>" s])
        (simp_all add: thread_step_phases(7) [OF t] distance_def)
  next
    case (CancelRequested i)
    with idle show ?thesis
      by (intro mv [of "CancelAnswered False" s]) (simp_all add: thread_step_phases(8) [OF t] distance_def)
  next
    case (CancelFound f)
    then have "f < length (sy_flights s)" using phase_okD [OF inv t] by (simp add: phase_ok_def)
    with CancelFound idle show ?thesis
      by (intro mv [of "CancelAnswered (fst (flight_cancel (flight_at s f)))" "upd_flight f (snd \<circ> flight_cancel) s"])
        (simp_all add: thread_step_phases(9) [OF t] distance_def)
  qed (use none t p in \<open>auto simp: settled_def dest!: spec [of _ t]\<close>)
qed

text \<open>C6. No request is ever stuck: from every reachable state, the threads that are already
  there can move, without any new client, to a state in which each of them has its
  answer; no combination of waiting, superseding, coalescing and cancelling deadlocks.\<close>

theorem refresh_requests_can_settle:
  "reachable s \<Longrightarrow> \<exists>s'. moves s s' \<and> list_all settled (sy_threads s')"
proof -
  assume "reachable s"
  then have "sys_inv s" by (rule reachable_inv)
  then show ?thesis
  proof (induction "total_distance s" arbitrary: s rule: less_induct)
    case less
    show ?case
    proof (cases "list_all settled (sy_threads s)")
      case True
      then show ?thesis using moves.moves_refl by blast
    next
      case False
      then obtain t where t: "t < length (sy_threads s)" "\<not> settled (sy_threads s ! t)"
        by (auto simp: list_all_length)
      have "\<exists>u choice s1. thread_step u choice s = Some s1 \<and> total_distance s1 < total_distance s"
        using worker_moves [OF less.prems] idle_moves [OF less.prems _ t] by (metis not_None_eq)
      then obtain u choice s1 where s1: "thread_step u choice s = Some s1" "total_distance s1 < total_distance s"
        by blast
      from less.hyps [OF s1(2) thread_step_inv [OF less.prems s1(1)]] s1(1) show ?thesis
        using moves.moves_step by blast
    qed
  qed
qed

theorem refresh_requests_can_settle_witness:
  "\<exists>s'. moves sample_leading s' \<and> list_all settled (sy_threads s')"
  by (rule refresh_requests_can_settle [OF sample_leading_reachable])

end
