(* ===== verification/StoreWorld.thy ===== *)
theory StoreWorld
  imports SourceIdentity RustPath OrderedMap
begin

text \<open>
  The surroundings of the generation store (\<open>crates/slipbox-sync/src/publication.rs\<close>):
  a directory tree, the locks other processes hold, the cancellation flag, and a
  schedule of faults that every fallible system call consults.  A statement over all
  schedules covers a crash at any call: from there on every call fails.  The bytes of
  manifests, the inspection of a snapshot and of a staged index, the order in which a
  directory is listed, the names of temporary files, free space and devices come from
  outside and are an environment argument.
\<close>

section \<open>Errors, outcomes of the earlier stages\<close>

datatype PublicationError =
    PubRequestRefused | StoreUnavailable | OwnershipMismatch | PublicationInProgress
  | RecoveryInProgress | CandidateUnavailable | CandidateMismatch | PubRebuildRequired
  | ActiveGenerationChanged | GenerationOccupied | PubCancelled | PubStorageFailed

datatype StageIndexError =
    SixRequestRefused | SixDestinationOccupied | SixSnapshotUnavailable | SixBaseUnavailable
  | SixBaseMismatch | SixRebuildRequired | SixInputInvalid | SixCancelled | SixIndexFailed
  | SixStorageFailed

datatype SnapshotDiagnosticReason =
    EncryptedOrg | UnsupportedEncoding | UnsupportedFormat | OversizedInput | Submodule
  | LfsPointer | ExternalFilter | SymlinkEscapes | SymlinkCycle | SymlinkUnavailable

datatype PublicationStage =
    PreparingStage | SourceSealed | IndexSealed | ManifestSealed | ActivatingStage | Retained | CompleteStage

type_synonym path = "string list"

record SnapshotOutcome =
  sn_source :: SourceId
  sn_revision :: string
  sn_notes_folder :: string
  sn_content_root :: path
  sn_entries :: nat
  sn_files :: nat
  sn_org_files :: nat
  sn_assets :: nat
  sn_bytes :: nat
  sn_diagnostics :: "(string \<times> SnapshotDiagnosticReason) list"

record StagedIndexOutcome =
  ix_source :: SourceId
  ix_revision :: string
  ix_previous_revision :: "string option"
  ix_notes_folder :: string
  ix_index_schema :: int
  ix_database :: path
  ix_stats :: IndexStats
  ix_parsed_org_files :: nat
  ix_removed_file_paths :: nat

record GenerationBinding =
  gb_source :: SourceId
  gb_generation :: string

record GenerationManifest =
  gm_version :: nat
  gm_source_record :: SourceRecord
  gm_binding :: GenerationBinding
  gm_expected_active :: "string option"
  gm_revision :: string
  gm_previous_revision :: "string option"
  gm_notes_folder :: string
  gm_snapshot_entries :: nat
  gm_snapshot_files :: nat
  gm_snapshot_org_files :: nat
  gm_snapshot_assets :: nat
  gm_snapshot_bytes :: nat
  gm_index_schema :: int
  gm_stats :: IndexStats

record GenerationStoreManifest =
  sm_version :: nat
  sm_source :: SourceId

section \<open>Directory trees\<close>

datatype snode = SFile string | SDir | SLink

text \<open>The newest entry of a path counts.\<close>

type_synonym tree = "(path \<times> snode) list"

definition tree_get :: "tree \<Rightarrow> path \<Rightarrow> snode option" where
  "tree_get = map_of"

definition tree_put :: "path \<Rightarrow> snode \<Rightarrow> tree \<Rightarrow> tree" where
  "tree_put p x t = (p, x) # t"

text \<open>Everything at and below a path.\<close>

definition tree_remove :: "path \<Rightarrow> tree \<Rightarrow> tree" where
  "tree_remove p t = filter (\<lambda>(q, _). \<not> prefix p q) t"

definition tree_rename :: "path \<Rightarrow> path \<Rightarrow> tree \<Rightarrow> tree" where
  "tree_rename a b t =
     map (\<lambda>(q, x). (if prefix a q then b @ drop (length a) q else q, x)) (filter (\<lambda>(q, _). \<not> prefix b q) t)"

definition tree_children :: "tree \<Rightarrow> path \<Rightarrow> string list" where
  "tree_children t p =
     remdups (map (\<lambda>(q, _). q ! length p) (filter (\<lambda>(q, _). prefix p q \<and> length q = Suc (length p)) t))"

lemma tree_get_put: "tree_get (tree_put p x t) = (tree_get t)(p \<mapsto> x)"
  by (simp add: tree_get_def tree_put_def)

lemma tree_get_remove: "tree_get (tree_remove p t) q = (if prefix p q then None else tree_get t q)"
  by (induction t) (auto simp: tree_get_def tree_remove_def)

lemma tree_get_rename:
  assumes "\<not> prefix a b" and "\<not> prefix b a"
  shows "tree_get (tree_rename a b t) q =
    (if prefix b q then tree_get t (a @ drop (length b) q) else if prefix a q then None else tree_get t q)"
proof (induction t)
  case (Cons e t)
  obtain p x where e: "e = (p, x)" by (cases e)
  have no: "\<not> (prefix a r \<and> prefix b r)" for r
    using assms prefix_same_cases [of a r b] by blast
  have pre: "prefix a p \<Longrightarrow> p = a @ drop (length a) p" "prefix b q \<Longrightarrow> q = b @ drop (length b) q"
    by (metis append_eq_conv_conj prefix_def)+
  have "prefix a p \<Longrightarrow> (b @ drop (length a) p = q) = (prefix b q \<and> p = a @ drop (length b) q)"
    using pre by (metis append_eq_conv_conj prefix_def)
  moreover have "\<not> prefix a p \<Longrightarrow> p \<noteq> a @ drop (length b) q" by (auto simp: prefix_def)
  ultimately show ?case
    using Cons no [of p] no [of q] e
    by (auto simp: tree_get_def tree_rename_def)
qed (simp add: tree_get_def tree_rename_def)

section \<open>Worlds\<close>

datatype held = Free | SharedByOthers | ExclusiveByOthers

record store_world =
  sw_tree :: tree
  sw_faults :: "bool list"
  sw_cancel :: "bool list"
  sw_stages :: "PublicationStage list"
  sw_names :: "string list"

record store_env =
  en_locks :: "path \<Rightarrow> held"
  en_device :: "path \<Rightarrow> nat"
  en_encode :: "GenerationManifest \<Rightarrow> string"
  en_decode :: "string \<Rightarrow> GenerationManifest option"
  en_encode_owner :: "GenerationStoreManifest \<Rightarrow> string"
  en_decode_owner :: "string \<Rightarrow> GenerationStoreManifest option"
  en_snapshot :: "tree \<Rightarrow> path \<Rightarrow> SnapshotOutcome option"
  en_index :: "tree \<Rightarrow> path \<Rightarrow> (StagedIndexOutcome, StageIndexError) outcome"
  en_order :: "string list \<Rightarrow> string list"
  en_survives :: "path \<Rightarrow> bool"
  en_link_length :: "path \<Rightarrow> nat"
  en_available :: "tree \<Rightarrow> nat option"

type_synonym 'a sio = "store_world \<Rightarrow> ('a, PublicationError) outcome \<times> store_world"

definition sreturn :: "'a \<Rightarrow> 'a sio" where
  "sreturn x w = (Ok x, w)"

definition sfail :: "PublicationError \<Rightarrow> 'a sio" where
  "sfail e w = (Err e, w)"

definition sbind :: "'a sio \<Rightarrow> ('a \<Rightarrow> 'b sio) \<Rightarrow> 'b sio" where
  "sbind m f w = (case m w of
     (Ok x, w') \<Rightarrow> f x w' | (Err e, w') \<Rightarrow> (Err e, w') | (Panic, w') \<Rightarrow> (Panic, w'))"

definition next_fault :: "store_world \<Rightarrow> bool \<times> store_world" where
  "next_fault w = (case sw_faults w of [] \<Rightarrow> (False, w) | b # fs \<Rightarrow> (b, w\<lparr>sw_faults := fs\<rparr>))"

text \<open>A call that either fails with its error, changing nothing, or does its work.\<close>

definition scall :: "PublicationError \<Rightarrow> 'a sio \<Rightarrow> 'a sio" where
  "scall e m w = (case next_fault w of (failed, w') \<Rightarrow> if failed then (Err e, w') else m w')"

text \<open>A value read from the tree.\<close>

definition sread :: "PublicationError \<Rightarrow> (tree \<Rightarrow> ('a, PublicationError) outcome) \<Rightarrow> 'a sio" where
  "sread e f = scall e (\<lambda>w. (f (sw_tree w), w))"

text \<open>The outcome of an operation as a value: \<open>.is_ok()\<close>, \<open>match\<close>, \<open>let _ =\<close>.\<close>

definition stry :: "'a sio \<Rightarrow> ('a, PublicationError) outcome sio" where
  "stry m w = (case m w of (r, w') \<Rightarrow> (Ok r, w'))"

definition swhen :: "bool \<Rightarrow> PublicationError \<Rightarrow> unit sio" where
  "swhen refused e = (if refused then sfail e else sreturn ())"

text \<open>\<open>map_err(|_| e)\<close>.\<close>

definition smap_err :: "PublicationError \<Rightarrow> 'a sio \<Rightarrow> 'a sio" where
  "smap_err e m w = (case m w of (Err _, w') \<Rightarrow> (Err e, w') | r \<Rightarrow> r)"

section \<open>System calls of the store\<close>

definition s_put :: "path \<Rightarrow> snode \<Rightarrow> unit sio" where
  "s_put p x w = (Ok (), w\<lparr>sw_tree := tree_put p x (sw_tree w)\<rparr>)"

definition s_present :: "path \<Rightarrow> bool sio" where
  "s_present p = sread PubStorageFailed (\<lambda>t. Ok (tree_get t p \<noteq> None))"

text \<open>No component of the path is a symbolic link: \<open>canonicalize\<close> gives the path itself.\<close>

definition canonical :: "tree \<Rightarrow> path \<Rightarrow> bool" where
  "canonical t p \<longleftrightarrow> list_all (\<lambda>n. tree_get t (take n p) \<noteq> Some SLink) [0..<Suc (length p)]"

definition path_bytes :: "path \<Rightarrow> nat" where
  "path_bytes p = sum_list (map (\<lambda>c. Suc (length c)) p)"

definition MAX_REPOSITORY_PATH_BYTES :: nat where "MAX_REPOSITORY_PATH_BYTES = 4096"

definition storage_path_is_admitted :: "path \<Rightarrow> bool" where
  "storage_path_is_admitted p \<longleftrightarrow> p \<noteq> [] \<and> path_bytes p \<le> MAX_REPOSITORY_PATH_BYTES"

definition validate_real_directory :: "path \<Rightarrow> unit sio" where
  "validate_real_directory p =
     (if \<not> storage_path_is_admitted p then sfail PubRequestRefused
      else sread StoreUnavailable (\<lambda>t.
        if tree_get t p = Some SDir \<and> canonical t p then Ok () else Err StoreUnavailable))"

definition validate_lock_file :: "path \<Rightarrow> unit sio" where
  "validate_lock_file p = sread StoreUnavailable (\<lambda>t.
     case tree_get t p of Some (SFile _) \<Rightarrow> Ok () | _ \<Rightarrow> Err StoreUnavailable)"

definition ensure_private_directory :: "path \<Rightarrow> unit sio" where
  "ensure_private_directory p = scall PubStorageFailed (\<lambda>w.
     if tree_get (sw_tree w) p = None
     then sbind (s_put p SDir) (\<lambda>_. scall PubStorageFailed (sreturn ())) w
     else smap_err StoreUnavailable (validate_real_directory p) w)"

definition ensure_private_lock_file :: "path \<Rightarrow> unit sio" where
  "ensure_private_lock_file p = scall PubStorageFailed (\<lambda>w.
     if tree_get (sw_tree w) p = None
     then sbind (s_put p (SFile [])) (\<lambda>_. scall PubStorageFailed (sreturn ())) w
     else validate_lock_file p w)"

definition MAX_GENERATION_MANIFEST_BYTES :: nat where "MAX_GENERATION_MANIFEST_BYTES = 65536"

definition decode_file :: "(string \<Rightarrow> 'm option) \<Rightarrow> tree \<Rightarrow> path \<Rightarrow> ('m, PublicationError) outcome" where
  "decode_file decode t p = (case tree_get t p of
     Some (SFile bytes) \<Rightarrow>
       if int MAX_GENERATION_MANIFEST_BYTES < int (length bytes) then Err StoreUnavailable
       else ok_or StoreUnavailable (decode bytes)
   | _ \<Rightarrow> Err StoreUnavailable)"

definition read_json :: "(string \<Rightarrow> 'm option) \<Rightarrow> path \<Rightarrow> 'm sio" where
  "read_json decode p = sread StoreUnavailable (\<lambda>t. decode_file decode t p)"

definition encoded_json :: "string \<Rightarrow> string sio" where
  "encoded_json bytes =
     (if int MAX_GENERATION_MANIFEST_BYTES < int (length bytes) then sfail PubStorageFailed else sreturn bytes)"

text \<open>A failing write leaves the new file with fewer bytes.\<close>

definition write_new_json :: "path \<Rightarrow> string \<Rightarrow> unit sio" where
  "write_new_json p encoded =
     sbind (encoded_json encoded) (\<lambda>bytes.
     sbind (scall PubStorageFailed (\<lambda>w.
        if tree_get (sw_tree w) p \<noteq> None then (Err PubStorageFailed, w) else s_put p (SFile []) w)) (\<lambda>_.
     sbind (scall PubStorageFailed (sreturn ())) (\<lambda>_.
     sbind (scall PubStorageFailed (s_put p (SFile bytes))) (\<lambda>_.
     scall PubStorageFailed (sreturn ())))))"

definition s_sync :: "unit sio" where
  "s_sync = scall PubStorageFailed (sreturn ())"

definition s_rename :: "path \<Rightarrow> path \<Rightarrow> unit sio" where
  "s_rename a b = scall PubStorageFailed (\<lambda>w.
     let t = sw_tree w in
     if tree_get t a = None \<or> prefix a b \<or> prefix b a \<or> tree_get t (butlast b) \<noteq> Some SDir
        \<or> tree_get t b = Some SDir \<or> (tree_get t a = Some SDir \<and> tree_get t b \<noteq> None)
     then (Err PubStorageFailed, w)
     else (Ok (), w\<lparr>sw_tree := tree_rename a b (sw_tree w)\<rparr>))"

text \<open>A temporary name that nothing has yet; the names are the generator's.\<close>

fun pick_name :: "tree \<Rightarrow> path \<Rightarrow> string \<Rightarrow> string list \<Rightarrow> (path \<times> string list) option" where
  "pick_name t parent p [] = None"
| "pick_name t parent p (n # ns) =
     (let q = parent @ [p @ n] in
      if tree_get t q = None \<and> CHR ''/'' \<notin> set n then Some (q, ns) else pick_name t parent p ns)"

definition s_create_temporary :: "path \<Rightarrow> string \<Rightarrow> snode \<Rightarrow> path sio" where
  "s_create_temporary parent p x = scall PubStorageFailed (\<lambda>w.
     case pick_name (sw_tree w) parent p (sw_names w) of
       None \<Rightarrow> (Err PubStorageFailed, w)
     | Some (q, ns) \<Rightarrow> (Ok q, w\<lparr>sw_tree := tree_put q x (sw_tree w), sw_names := ns\<rparr>))"

text \<open>
  Dropping a temporary directory or file removes it, errors ignored; a removal that
  fails may have removed some entries already.
\<close>

definition s_remove_quietly :: "store_env \<Rightarrow> path \<Rightarrow> store_world \<Rightarrow> store_world" where
  "s_remove_quietly env p w =
     (case next_fault w of (failed, w') \<Rightarrow>
        if failed then w'\<lparr>sw_tree := filter (\<lambda>(q, _). \<not> prefix p q \<or> en_survives env q) (sw_tree w')\<rparr>
        else w'\<lparr>sw_tree := tree_remove p (sw_tree w')\<rparr>)"

text \<open>A temporary that is dropped on failure and kept on success.\<close>

definition s_with_temporary :: "store_env \<Rightarrow> path \<Rightarrow> 'a sio \<Rightarrow> 'a sio" where
  "s_with_temporary env p m w = (case m w of
     (Ok x, w') \<Rightarrow> (Ok x, w')
   | (r, w') \<Rightarrow> (r, s_remove_quietly env p w'))"

text \<open>The flag as the next load sees it, and the progress callback.\<close>

definition load_cancelled :: "bool sio" where
  "load_cancelled w = (case sw_cancel w of [] \<Rightarrow> (Ok False, w) | b # bs \<Rightarrow> (Ok b, w\<lparr>sw_cancel := bs\<rparr>))"

definition report_stage :: "PublicationStage \<Rightarrow> unit sio" where
  "report_stage stage w = (Ok (), w\<lparr>sw_stages := sw_stages w @ [stage]\<rparr>)"

definition advance :: "PublicationStage \<Rightarrow> unit sio" where
  "advance stage =
     sbind load_cancelled (\<lambda>c.
     sbind (swhen c PubCancelled) (\<lambda>_.
     sbind (report_stage stage) (\<lambda>_.
     sbind load_cancelled (\<lambda>c. swhen c PubCancelled))))"

section \<open>Reasoning about operations\<close>

text \<open>
  A triple says what holds after an operation that returns a value and after one that
  ends in an error, from every world satisfying the precondition.
\<close>

named_theorems triple_rules \<open>triples of the basic operations\<close>

definition triple ::
  "(store_world \<Rightarrow> bool) \<Rightarrow> 'a sio \<Rightarrow> ('a \<Rightarrow> store_world \<Rightarrow> bool) \<Rightarrow> (store_world \<Rightarrow> bool) \<Rightarrow> bool" where
  "triple P m Q E \<longleftrightarrow> (\<forall>w. P w \<longrightarrow> (case m w of (Ok x, w') \<Rightarrow> Q x w' | (_, w') \<Rightarrow> E w'))"

lemma tripleI:
  "(\<And>w x w'. P w \<Longrightarrow> m w = (Ok x, w') \<Longrightarrow> Q x w') \<Longrightarrow>
   (\<And>w e w'. P w \<Longrightarrow> m w = (Err e, w') \<Longrightarrow> E w') \<Longrightarrow>
   (\<And>w w'. P w \<Longrightarrow> m w = (Panic, w') \<Longrightarrow> E w') \<Longrightarrow> triple P m Q E"
  unfolding triple_def by (auto split: prod.splits outcome.splits)

lemma triple_OkD: "triple P m Q E \<Longrightarrow> P w \<Longrightarrow> m w = (Ok x, w') \<Longrightarrow> Q x w'"
  by (fastforce simp: triple_def)

lemma triple_ErrD: "triple P m Q E \<Longrightarrow> P w \<Longrightarrow> m w = (r, w') \<Longrightarrow> (\<And>x. r \<noteq> Ok x) \<Longrightarrow> E w'"
  unfolding triple_def by (cases r) fastforce+

lemma triple_bind:
  "triple P m Q E \<Longrightarrow> (\<And>x. triple (Q x) (f x) R E) \<Longrightarrow> triple P (sbind m f) R E"
  unfolding triple_def sbind_def by (fastforce split: prod.splits outcome.splits)

lemma triple_conseq:
  "triple P m Q E \<Longrightarrow> (\<And>w. P' w \<Longrightarrow> P w) \<Longrightarrow> (\<And>x w. Q x w \<Longrightarrow> Q' x w) \<Longrightarrow> (\<And>w. E w \<Longrightarrow> E' w) \<Longrightarrow>
   triple P' m Q' E'"
  unfolding triple_def by (fastforce split: prod.splits outcome.splits)

lemma triple_return: "(\<And>w. P w \<Longrightarrow> Q x w) \<Longrightarrow> triple P (sreturn x) Q E"
  by (simp add: triple_def sreturn_def)

lemma triple_fail: "(\<And>w. P w \<Longrightarrow> E w) \<Longrightarrow> triple P (sfail e) Q E"
  by (simp add: triple_def sfail_def)

text \<open>Predicates that look at the tree only are not disturbed by the schedules.\<close>

definition on_tree :: "(tree \<Rightarrow> bool) \<Rightarrow> store_world \<Rightarrow> bool" where
  "on_tree P w \<longleftrightarrow> P (sw_tree w)"

lemma next_fault_tree: "next_fault w = (b, w') \<Longrightarrow> sw_tree w' = sw_tree w"
  by (auto simp: next_fault_def split: list.splits)

lemma triple_call:
  "triple (on_tree P) m Q E \<Longrightarrow> (\<And>w. on_tree P w \<Longrightarrow> E w) \<Longrightarrow> triple (on_tree P) (scall e m) Q E"
proof -
  assume m: "triple (on_tree P) m Q E" and e: "\<And>w. on_tree P w \<Longrightarrow> E w"
  show ?thesis
    unfolding triple_def
  proof (intro allI impI)
    fix w assume w: "on_tree P w"
    obtain b w1 where n: "next_fault w = (b, w1)" by (cases "next_fault w")
    have w1: "on_tree P w1" using next_fault_tree [OF n] w by (simp add: on_tree_def)
    with m have "case m w1 of (Ok x, w') \<Rightarrow> Q x w' | (_, w') \<Rightarrow> E w'" by (simp add: triple_def)
    with n e [OF w1] show "case scall e m w of (Ok x, w') \<Rightarrow> Q x w' | (_, w') \<Rightarrow> E w'"
      by (simp add: scall_def)
  qed
qed

text \<open>Operations that leave the tree alone.\<close>

definition keeps_tree :: "'a sio \<Rightarrow> bool" where
  "keeps_tree m \<longleftrightarrow> (\<forall>w. sw_tree (snd (m w)) = sw_tree w)"

lemma keeps_tree_triple: "keeps_tree m \<Longrightarrow> triple (on_tree P) m (\<lambda>_. on_tree P) (on_tree P)"
  unfolding triple_def on_tree_def keeps_tree_def
  by (simp add: case_prod_beta split: outcome.splits)

named_theorems keeps_intros \<open>operations that do not change the tree\<close>

lemma keeps_return [keeps_intros]: "keeps_tree (sreturn x)"
  by (simp add: keeps_tree_def sreturn_def)

lemma keeps_fail [keeps_intros]: "keeps_tree (sfail e)"
  by (simp add: keeps_tree_def sfail_def)

lemma keeps_bind [keeps_intros]: "keeps_tree m \<Longrightarrow> (\<And>x. keeps_tree (f x)) \<Longrightarrow> keeps_tree (sbind m f)"
proof -
  assume m: "keeps_tree m" and f: "\<And>x. keeps_tree (f x)"
  show ?thesis
    unfolding keeps_tree_def
  proof
    fix w
    obtain r w1 where mw: "m w = (r, w1)" by (cases "m w")
    then have "sw_tree w1 = sw_tree w" using m unfolding keeps_tree_def by (metis snd_conv)
    with mw f show "sw_tree (snd (sbind m f w)) = sw_tree w"
      by (cases r) (simp_all add: sbind_def keeps_tree_def)
  qed
qed

lemma keeps_call [keeps_intros]: "keeps_tree m \<Longrightarrow> keeps_tree (scall e m)"
  unfolding keeps_tree_def scall_def
  by (auto split: prod.splits dest: next_fault_tree)

lemma keeps_read [keeps_intros]: "keeps_tree (sread e f)"
  unfolding sread_def by (rule keeps_call) (simp add: keeps_tree_def)

lemma keeps_try [keeps_intros]: "keeps_tree m \<Longrightarrow> keeps_tree (stry m)"
  unfolding keeps_tree_def stry_def
  by (simp add: case_prod_beta)

lemma keeps_when [keeps_intros]: "keeps_tree (swhen c e)"
  by (simp add: swhen_def keeps_intros)

lemma keeps_map_err [keeps_intros]: "keeps_tree m \<Longrightarrow> keeps_tree (smap_err e m)"
  unfolding keeps_tree_def smap_err_def
  by (simp add: case_prod_beta split: outcome.splits)

lemma keeps_if [keeps_intros]: "keeps_tree a \<Longrightarrow> keeps_tree b \<Longrightarrow> keeps_tree (if c then a else b)"
  by simp

lemma keeps_load [keeps_intros]: "keeps_tree load_cancelled"
  by (simp add: keeps_tree_def load_cancelled_def split: list.splits)

lemma keeps_report [keeps_intros]: "keeps_tree (report_stage s)"
  by (simp add: keeps_tree_def report_stage_def)

lemma keeps_advance [keeps_intros]: "keeps_tree (advance s)"
  unfolding advance_def by (intro keeps_intros)

lemma keeps_present [keeps_intros]: "keeps_tree (s_present p)"
  unfolding s_present_def by (intro keeps_intros)

lemma keeps_sync [keeps_intros]: "keeps_tree s_sync"
  unfolding s_sync_def by (intro keeps_intros)

lemma keeps_read_json [keeps_intros]: "keeps_tree (read_json d p)"
  unfolding read_json_def by (intro keeps_intros)

lemma keeps_encoded [keeps_intros]: "keeps_tree (encoded_json b)"
  unfolding encoded_json_def by (intro keeps_intros)

lemma keeps_validate_lock [keeps_intros]: "keeps_tree (validate_lock_file p)"
  unfolding validate_lock_file_def by (intro keeps_intros)

lemma keeps_validate_directory [keeps_intros]: "keeps_tree (validate_real_directory p)"
  unfolding validate_real_directory_def by (intro keeps_intros)

lemma triple_seq:
  "keeps_tree m \<Longrightarrow> (\<And>x. triple (on_tree P) (f x) R (on_tree P)) \<Longrightarrow> triple (on_tree P) (sbind m f) R (on_tree P)"
  by (rule triple_bind [OF keeps_tree_triple])

end
