(* ===== verification/GenerationStore.thy ===== *)
theory GenerationStore
  imports StoreWorld
begin

text \<open>
  The generation store, \<open>crates/slipbox-sync/src/publication.rs\<close>: opening and
  initialising a store, leasing the active generation, inspecting a sealed one, and
  publishing: both candidates are moved below a staging directory, a manifest seals
  them, the directory is renamed to its generation, inspected again, and only then the
  active pointer is replaced by an atomic rename.
\<close>

section \<open>Names and constants\<close>

definition GENERATION_FORMAT_VERSION :: nat where "GENERATION_FORMAT_VERSION = 3"
definition GENERATION_STORE_FORMAT_VERSION :: nat where "GENERATION_STORE_FORMAT_VERSION = 1"
definition GENERATION_STORE_MANIFEST_FILE :: string where "GENERATION_STORE_MANIFEST_FILE = ''generation-store.json''"
definition GENERATIONS_DIRECTORY :: string where "GENERATIONS_DIRECTORY = ''generations''"
definition GENERATION_CANDIDATES_DIRECTORY :: string where "GENERATION_CANDIDATES_DIRECTORY = ''candidates''"
definition ACTIVE_GENERATION_FILE :: string where "ACTIVE_GENERATION_FILE = ''active-generation.json''"
definition RETAINED_GENERATION_FILE :: string where "RETAINED_GENERATION_FILE = ''retained-generation.json''"
definition GENERATION_MANIFEST_FILE :: string where "GENERATION_MANIFEST_FILE = ''generation.json''"
definition GENERATION_SOURCE_DIRECTORY :: string where "GENERATION_SOURCE_DIRECTORY = ''source''"
definition GENERATION_INDEX_DIRECTORY :: string where "GENERATION_INDEX_DIRECTORY = ''index''"
definition GENERATION_READER_LOCK_FILE :: string where "GENERATION_READER_LOCK_FILE = ''.generation-readers.lock''"
definition PUBLICATION_LOCK_FILE :: string where "PUBLICATION_LOCK_FILE = ''.generation-publication.lock''"
definition RECOVERY_LOCK_FILE :: string where "RECOVERY_LOCK_FILE = ''.generation-recovery.lock''"
definition GENERATION_STAGE_PREFIX :: string where "GENERATION_STAGE_PREFIX = ''.generation-stage-''"
definition SNAPSHOT_CONTENT_DIRECTORY :: string where "SNAPSHOT_CONTENT_DIRECTORY = ''content''"
definition STAGED_INDEX_DATABASE_FILE :: string where "STAGED_INDEX_DATABASE_FILE = ''index.sqlite3''"

record GenerationStore =
  gs_source :: SourceId
  gs_root :: path

record GenerationRecord =
  gr_binding :: GenerationBinding
  gr_source_record :: SourceRecord
  gr_revision :: string
  gr_previous_revision :: "string option"
  gr_notes_folder :: string
  gr_content_root :: path
  gr_index_directory :: path
  gr_database :: path
  gr_reader_lock :: path
  gr_index_schema :: int
  gr_stats :: IndexStats

text \<open>A lease is the record together with the shared reader lock it holds.\<close>

type_synonym GenerationLease = GenerationRecord

definition active_file :: "GenerationStore \<Rightarrow> path" where
  "active_file st = gs_root st @ [ACTIVE_GENERATION_FILE]"

definition retained_file :: "GenerationStore \<Rightarrow> path" where
  "retained_file st = gs_root st @ [RETAINED_GENERATION_FILE]"

definition generations_dir :: "GenerationStore \<Rightarrow> path" where
  "generations_dir st = gs_root st @ [GENERATIONS_DIRECTORY]"

definition candidates_root :: "GenerationStore \<Rightarrow> path" where
  "candidates_root st = gs_root st @ [GENERATION_CANDIDATES_DIRECTORY]"

definition generation_directory :: "GenerationStore \<Rightarrow> string \<Rightarrow> path" where
  "generation_directory st generation = generations_dir st @ [generation]"

section \<open>Admission\<close>

definition revision_is_admitted :: "string \<Rightarrow> bool" where
  "revision_is_admitted r \<longleftrightarrow> length r = 40 \<and> list_all is_lower_hex r"

definition admitted_revision :: "string \<Rightarrow> (string, PublicationError) outcome" where
  "admitted_revision r = (if revision_is_admitted r then Ok r else Err PubRequestRefused)"

definition is_normal :: "component \<Rightarrow> bool" where
  "is_normal c = (case c of NormalComp _ \<Rightarrow> True | _ \<Rightarrow> False)"

definition generation_id_is_admitted :: "string \<Rightarrow> bool" where
  "generation_id_is_admitted g \<longleftrightarrow> g \<noteq> ''.'' \<and> g \<noteq> ''..'' \<and> list_all is_normal (components g)"

definition MAX_SNAPSHOT_PATH_BYTES :: nat where "MAX_SNAPSHOT_PATH_BYTES = 1024"

definition validate_content_path :: "string \<Rightarrow> (unit, PublicationError) outcome" where
  "validate_content_path relative =
     (if relative = [] \<or> MAX_SNAPSHOT_PATH_BYTES < length relative \<or> CHR 0x5C \<in> set relative
         \<or> CHR '':'' \<in> set relative \<or> has_control relative \<or> prefix ''/'' relative
         \<or> \<not> list_all is_normal (components relative)
      then Err PubRequestRefused else Ok ())"

record PublishGenerationRequest =
  pr_source_record :: SourceRecord
  pr_binding :: GenerationBinding
  pr_expected_active :: "string option"
  pr_snapshot :: SnapshotOutcome
  pr_index :: StagedIndexOutcome

definition last_name :: "path \<Rightarrow> string option" where
  "last_name p = (if p = [] then None else Some (last p))"

definition opt_all :: "('a \<Rightarrow> bool) \<Rightarrow> 'a option \<Rightarrow> bool" where
  "opt_all P x = (case x of None \<Rightarrow> True | Some y \<Rightarrow> P y)"

definition publish_request_new ::
  "SourceRecord \<Rightarrow> GenerationBinding \<Rightarrow> string option \<Rightarrow> SnapshotOutcome \<Rightarrow> StagedIndexOutcome \<Rightarrow>
   (PublishGenerationRequest, PublicationError) outcome" where
  "publish_request_new source_record binding expected_active snapshot index =
     (if sc_id source_record \<noteq> gb_source binding \<or> \<not> generation_id_is_admitted (gb_generation binding)
         \<or> \<not> opt_all generation_id_is_admitted expected_active
      then Err PubRequestRefused
      else if gb_source binding \<noteq> sn_source snapshot \<or> gb_source binding \<noteq> ix_source index
         \<or> sc_notes_folder source_record \<noteq> sn_notes_folder snapshot
         \<or> sn_revision snapshot \<noteq> ix_revision index \<or> sn_notes_folder snapshot \<noteq> ix_notes_folder index
         \<or> \<not> revision_is_admitted (sn_revision snapshot)
         \<or> \<not> opt_all revision_is_admitted (ix_previous_revision index)
         \<or> last_name (sn_content_root snapshot) \<noteq> Some SNAPSHOT_CONTENT_DIRECTORY
         \<or> last_name (ix_database index) \<noteq> Some STAGED_INDEX_DATABASE_FILE
      then Err CandidateMismatch
      else Ok \<lparr>pr_source_record = source_record, pr_binding = binding, pr_expected_active = expected_active,
               pr_snapshot = snapshot, pr_index = index\<rparr>)"

definition manifest_from_request :: "PublishGenerationRequest \<Rightarrow> GenerationManifest" where
  "manifest_from_request r =
     \<lparr>gm_version = GENERATION_FORMAT_VERSION, gm_source_record = pr_source_record r, gm_binding = pr_binding r,
      gm_expected_active = pr_expected_active r, gm_revision = sn_revision (pr_snapshot r),
      gm_previous_revision = ix_previous_revision (pr_index r),
      gm_notes_folder = sn_notes_folder (pr_snapshot r), gm_snapshot_entries = sn_entries (pr_snapshot r),
      gm_snapshot_files = sn_files (pr_snapshot r), gm_snapshot_org_files = sn_org_files (pr_snapshot r),
      gm_snapshot_assets = sn_assets (pr_snapshot r), gm_snapshot_bytes = sn_bytes (pr_snapshot r),
      gm_index_schema = ix_index_schema (pr_index r), gm_stats = ix_stats (pr_index r)\<rparr>"

text \<open>\<open>checked_add\<close> on \<open>u64\<close>.\<close>

definition checked_add_u64 :: "nat \<Rightarrow> nat \<Rightarrow> nat option" where
  "checked_add_u64 a b = (if int a + int b < 18446744073709551616 then Some (a + b) else None)"

definition validate_generation_manifest ::
  "GenerationManifest \<Rightarrow> SourceId \<Rightarrow> (unit, PublicationError) outcome" where
  "validate_generation_manifest m source =
     (if gm_version m \<noteq> GENERATION_FORMAT_VERSION \<or> sc_id (gm_source_record m) \<noteq> source
         \<or> sc_notes_folder (gm_source_record m) \<noteq> gm_notes_folder m
         \<or> gb_source (gm_binding m) \<noteq> source
         \<or> \<not> generation_id_is_admitted (gb_generation (gm_binding m))
         \<or> \<not> opt_all generation_id_is_admitted (gm_expected_active m)
         \<or> \<not> revision_is_admitted (gm_revision m)
         \<or> \<not> opt_all revision_is_admitted (gm_previous_revision m)
         \<or> checked_add_u64 (gm_snapshot_org_files m) (gm_snapshot_assets m) \<noteq> Some (gm_snapshot_files m)
         \<or> gm_snapshot_entries m < gm_snapshot_files m
      then Err StoreUnavailable else Ok ())"

section \<open>Freshness\<close>

datatype InFlightGeneration =
    InFetching | InMaterializing string | InIndexing string | InPublishing string

definition in_flight_materializing :: "string \<Rightarrow> (InFlightGeneration, PublicationError) outcome" where
  "in_flight_materializing r = map_out InMaterializing (admitted_revision r)"

definition in_flight_indexing :: "string \<Rightarrow> (InFlightGeneration, PublicationError) outcome" where
  "in_flight_indexing r = map_out InIndexing (admitted_revision r)"

definition in_flight_publishing :: "string \<Rightarrow> (InFlightGeneration, PublicationError) outcome" where
  "in_flight_publishing r = map_out InPublishing (admitted_revision r)"

definition in_flight_is_admitted :: "InFlightGeneration \<Rightarrow> bool" where
  "in_flight_is_admitted s = (case s of InFetching \<Rightarrow> True | InMaterializing r \<Rightarrow> revision_is_admitted r
     | InIndexing r \<Rightarrow> revision_is_admitted r | InPublishing r \<Rightarrow> revision_is_admitted r)"

record SourceFreshness =
  fr_source :: SourceId
  fr_fetched_revision :: "string option"
  fr_ready_revision :: "string option"
  fr_ready_generation :: "string option"
  fr_in_flight :: "InFlightGeneration option"

section \<open>Inspecting a generation\<close>

datatype GenerationInspectionError = InsUnavailable | InsRebuildRequired

definition snapshot_agrees :: "SnapshotOutcome \<Rightarrow> GenerationManifest \<Rightarrow> bool" where
  "snapshot_agrees s m \<longleftrightarrow>
     sn_source s = gb_source (gm_binding m) \<and> sn_revision s = gm_revision m \<and>
     sn_notes_folder s = gm_notes_folder m \<and> sn_entries s = gm_snapshot_entries m \<and>
     sn_files s = gm_snapshot_files m \<and> sn_org_files s = gm_snapshot_org_files m \<and>
     sn_assets s = gm_snapshot_assets m \<and> sn_bytes s = gm_snapshot_bytes m"

definition index_agrees :: "StagedIndexOutcome \<Rightarrow> GenerationManifest \<Rightarrow> bool" where
  "index_agrees i m \<longleftrightarrow>
     ix_source i = gb_source (gm_binding m) \<and> ix_revision i = gm_revision m \<and>
     ix_previous_revision i = gm_previous_revision m \<and> ix_notes_folder i = gm_notes_folder m \<and>
     ix_index_schema i = gm_index_schema m \<and> ix_stats i = gm_stats m"

definition generation_record :: "path \<Rightarrow> GenerationManifest \<Rightarrow> SnapshotOutcome \<Rightarrow> StagedIndexOutcome \<Rightarrow> GenerationRecord" where
  "generation_record directory m s i =
     \<lparr>gr_binding = gm_binding m, gr_source_record = gm_source_record m, gr_revision = gm_revision m,
      gr_previous_revision = gm_previous_revision m, gr_notes_folder = gm_notes_folder m,
      gr_content_root = sn_content_root s, gr_index_directory = directory @ [GENERATION_INDEX_DIRECTORY],
      gr_database = ix_database i, gr_reader_lock = directory @ [GENERATION_READER_LOCK_FILE],
      gr_index_schema = gm_index_schema m, gr_stats = gm_stats m\<rparr>"

text \<open>What the inspection of a directory finds in a given tree, no call failing.\<close>

definition inspect_tree ::
  "store_env \<Rightarrow> SourceId \<Rightarrow> tree \<Rightarrow> path \<Rightarrow> string option \<Rightarrow>
   (GenerationManifest \<times> GenerationRecord, GenerationInspectionError) outcome" where
  "inspect_tree env source t directory expected =
     (if \<not> storage_path_is_admitted directory \<or> tree_get t directory \<noteq> Some SDir \<or> \<not> canonical t directory
      then Err InsUnavailable
      else case tree_get t (directory @ [GENERATION_READER_LOCK_FILE]) of
        Some (SFile _) \<Rightarrow>
          (case decode_file (en_decode env) t (directory @ [GENERATION_MANIFEST_FILE]) of
             Ok m \<Rightarrow>
               if validate_generation_manifest m source \<noteq> Ok () \<or>
                  \<not> opt_all (\<lambda>g. gb_generation (gm_binding m) = g) expected
               then Err InsUnavailable
               else
                 (case en_snapshot env t (directory @ [GENERATION_SOURCE_DIRECTORY]) of
                    None \<Rightarrow> Err InsUnavailable
                  | Some s \<Rightarrow>
                      (case en_index env t (directory @ [GENERATION_INDEX_DIRECTORY]) of
                         Ok i \<Rightarrow>
                           if snapshot_agrees s m \<and> index_agrees i m
                           then Ok (m, generation_record directory m s i) else Err InsUnavailable
                       | Err SixRebuildRequired \<Rightarrow> Err InsRebuildRequired
                       | _ \<Rightarrow> Err InsUnavailable))
           | _ \<Rightarrow> Err InsUnavailable)
      | _ \<Rightarrow> Err InsUnavailable)"

text \<open>A failing call makes the directory unavailable.\<close>

definition inspect_generation_directory ::
  "store_env \<Rightarrow> GenerationStore \<Rightarrow> path \<Rightarrow> string option \<Rightarrow>
   (GenerationManifest \<times> GenerationRecord, GenerationInspectionError) outcome sio" where
  "inspect_generation_directory env st directory expected w =
     (case next_fault w of (failed, w') \<Rightarrow>
        (Ok (if failed then Err InsUnavailable
             else inspect_tree env (gs_source st) (sw_tree w') directory expected), w'))"

definition unavailable :: "('a, 'e) outcome \<Rightarrow> 'a sio" where
  "unavailable r = (case r of Ok x \<Rightarrow> sreturn x | _ \<Rightarrow> sfail StoreUnavailable)"

definition inspect_generation :: "store_env \<Rightarrow> GenerationStore \<Rightarrow> string \<Rightarrow> (GenerationManifest \<times> GenerationRecord) sio" where
  "inspect_generation env st generation =
     sbind (inspect_generation_directory env st (generation_directory st generation) (Some generation)) unavailable"

section \<open>Locks and leases\<close>

definition open_lock :: "path \<Rightarrow> unit sio" where
  "open_lock p = sread StoreUnavailable (\<lambda>t. case tree_get t p of Some (SFile _) \<Rightarrow> Ok () | _ \<Rightarrow> Err StoreUnavailable)"

definition try_lock :: "bool \<Rightarrow> PublicationError \<Rightarrow> PublicationError \<Rightarrow> store_env \<Rightarrow> path \<Rightarrow> unit sio" where
  "try_lock refused busy failing env p =
     (if refused then sfail busy else scall failing (sreturn ()))"

definition publication_lock_acquire :: "store_env \<Rightarrow> GenerationStore \<Rightarrow> unit sio" where
  "publication_lock_acquire env st =
     (let p = gs_root st @ [PUBLICATION_LOCK_FILE] in
      sbind (open_lock p) (\<lambda>_. try_lock (en_locks env p \<noteq> Free) PublicationInProgress PubStorageFailed env p))"

definition recovery_lock_shared :: "store_env \<Rightarrow> GenerationStore \<Rightarrow> unit sio" where
  "recovery_lock_shared env st =
     (let p = gs_root st @ [RECOVERY_LOCK_FILE] in
      sbind (open_lock p) (\<lambda>_. try_lock (en_locks env p = ExclusiveByOthers) RecoveryInProgress PubStorageFailed env p))"

definition recovery_lock_exclusive :: "store_env \<Rightarrow> GenerationStore \<Rightarrow> unit sio" where
  "recovery_lock_exclusive env st =
     (let p = gs_root st @ [RECOVERY_LOCK_FILE] in
      sbind (open_lock p) (\<lambda>_. try_lock (en_locks env p \<noteq> Free) RecoveryInProgress PubStorageFailed env p))"

definition lease_record :: "store_env \<Rightarrow> GenerationRecord \<Rightarrow> GenerationLease sio" where
  "lease_record env r =
     sbind (validate_lock_file (gr_reader_lock r)) (\<lambda>_.
     sbind (open_lock (gr_reader_lock r)) (\<lambda>_.
     sbind (try_lock (en_locks env (gr_reader_lock r) = ExclusiveByOthers) RecoveryInProgress StoreUnavailable env
        (gr_reader_lock r)) (\<lambda>_. sreturn r)))"

section \<open>Opening a store\<close>

definition validate_store_manifest :: "store_env \<Rightarrow> path \<Rightarrow> SourceId \<Rightarrow> unit sio" where
  "validate_store_manifest env p source =
     sbind (read_json (en_decode_owner env) p) (\<lambda>m.
     sbind (swhen (sm_version m \<noteq> GENERATION_STORE_FORMAT_VERSION) StoreUnavailable) (\<lambda>_.
     swhen (sm_source m \<noteq> source) OwnershipMismatch))"

definition store_open :: "store_env \<Rightarrow> SourceId \<Rightarrow> path \<Rightarrow> GenerationStore sio" where
  "store_open env source root =
     (let st = \<lparr>gs_source = source, gs_root = root\<rparr> in
      sbind (smap_err StoreUnavailable (validate_real_directory root)) (\<lambda>_.
      sbind (validate_store_manifest env (root @ [GENERATION_STORE_MANIFEST_FILE]) source) (\<lambda>_.
      sbind (smap_err StoreUnavailable (validate_real_directory (generations_dir st))) (\<lambda>_.
      sbind (smap_err StoreUnavailable (validate_real_directory (candidates_root st))) (\<lambda>_.
      sbind (validate_lock_file (root @ [PUBLICATION_LOCK_FILE])) (\<lambda>_.
      sbind (validate_lock_file (root @ [RECOVERY_LOCK_FILE])) (\<lambda>_. sreturn st)))))))"

definition store_initialize :: "store_env \<Rightarrow> SourceId \<Rightarrow> path \<Rightarrow> GenerationStore sio" where
  "store_initialize env source root =
     (let owner = root @ [GENERATION_STORE_MANIFEST_FILE];
          st = \<lparr>gs_source = source, gs_root = root\<rparr> in
      sbind (smap_err StoreUnavailable (validate_real_directory root)) (\<lambda>_.
      sbind (s_present owner) (\<lambda>present.
      sbind (if present then validate_store_manifest env owner source
             else write_new_json owner (en_encode_owner env
                    \<lparr>sm_version = GENERATION_STORE_FORMAT_VERSION, sm_source = source\<rparr>)) (\<lambda>_.
      sbind (ensure_private_directory (generations_dir st)) (\<lambda>_.
      sbind (ensure_private_directory (candidates_root st)) (\<lambda>_.
      sbind (ensure_private_lock_file (root @ [PUBLICATION_LOCK_FILE])) (\<lambda>_.
      sbind (ensure_private_lock_file (root @ [RECOVERY_LOCK_FILE])) (\<lambda>_.
      sbind s_sync (\<lambda>_. store_open env source root)))))))))"

definition read_active_record :: "store_env \<Rightarrow> GenerationStore \<Rightarrow> GenerationRecord option sio" where
  "read_active_record env st =
     sbind (s_present (active_file st)) (\<lambda>present.
       if \<not> present then sreturn None
       else
         sbind (read_json (en_decode env) (active_file st)) (\<lambda>active.
         sbind (unavailable (validate_generation_manifest active (gs_source st))) (\<lambda>_.
         sbind (inspect_generation env st (gb_generation (gm_binding active))) (\<lambda>(sealed, r).
         sbind (swhen (sealed \<noteq> active) StoreUnavailable) (\<lambda>_. sreturn (Some r))))))"

definition lease :: "store_env \<Rightarrow> GenerationStore \<Rightarrow> GenerationLease option sio" where
  "lease env st =
     sbind (recovery_lock_shared env st) (\<lambda>_.
     sbind (read_active_record env st) (\<lambda>r. case r of
       None \<Rightarrow> sreturn None
     | Some r \<Rightarrow> sbind (lease_record env r) (\<lambda>l. sreturn (Some l))))"

definition lift_store :: "('a, PublicationError) outcome \<Rightarrow> 'a sio" where
  "lift_store r w = (r, w)"

definition freshness ::
  "store_env \<Rightarrow> GenerationStore \<Rightarrow> string option \<Rightarrow> InFlightGeneration option \<Rightarrow> SourceFreshness sio" where
  "freshness env st fetched in_flight =
     sbind (lift_store (case fetched of None \<Rightarrow> Ok None | Some r \<Rightarrow> map_out Some (admitted_revision r))) (\<lambda>fetched.
     sbind (swhen (\<not> opt_all in_flight_is_admitted in_flight) PubRequestRefused) (\<lambda>_.
     sbind (lease env st) (\<lambda>ready.
       sreturn \<lparr>fr_source = gs_source st, fr_fetched_revision = fetched,
         fr_ready_revision = map_option gr_revision ready,
         fr_ready_generation = map_option (gb_generation \<circ> gr_binding) ready,
         fr_in_flight = in_flight\<rparr>)))"

text \<open>Opening a file of a leased generation; what is returned is its path.\<close>

definition open_content :: "GenerationLease \<Rightarrow> string \<Rightarrow> path sio" where
  "open_content l relative =
     sbind (lift_store (validate_content_path relative)) (\<lambda>_.
       let p = gr_content_root l @ map (\<lambda>c. case c of NormalComp n \<Rightarrow> n | _ \<Rightarrow> []) (components relative) in
       sbind (sread StoreUnavailable (\<lambda>t. case tree_get t p of
           Some (SFile _) \<Rightarrow> if canonical t p then Ok () else Err StoreUnavailable
         | _ \<Rightarrow> Err StoreUnavailable)) (\<lambda>_.
       scall StoreUnavailable (sreturn p)))"

section \<open>Replacing a pointer\<close>

definition replace_manifest :: "store_env \<Rightarrow> GenerationStore \<Rightarrow> path \<Rightarrow> GenerationManifest \<Rightarrow> unit sio" where
  "replace_manifest env st p m =
     sbind (stry (sread StoreUnavailable (\<lambda>t. case tree_get t p of
         None \<Rightarrow> Ok () | Some (SFile _) \<Rightarrow> Ok () | _ \<Rightarrow> Err PubRequestRefused))) (\<lambda>kind.
     sbind (swhen (kind = Err PubRequestRefused) StoreUnavailable) (\<lambda>_.
     sbind (encoded_json (en_encode env m)) (\<lambda>bytes.
     sbind (scall PubStorageFailed (sreturn ())) (\<lambda>_.
     sbind (s_create_temporary (gs_root st) ''.tmp'' (SFile [])) (\<lambda>temporary.
     s_with_temporary env temporary (
       sbind (scall PubStorageFailed (sreturn ())) (\<lambda>_.
       sbind (scall PubStorageFailed (s_put temporary (SFile bytes))) (\<lambda>_.
       sbind s_sync (\<lambda>_. s_rename temporary p)))))))))"

definition activate_steps :: "store_env \<Rightarrow> GenerationStore \<Rightarrow> GenerationManifest \<Rightarrow> unit sio \<Rightarrow> unit sio" where
  "activate_steps env st m between =
     sbind (s_present (active_file st)) (\<lambda>present.
     sbind (if present then
              sbind (read_json (en_decode env) (active_file st)) (\<lambda>current.
              sbind (replace_manifest env st (retained_file st) current) (\<lambda>_. between))
            else sreturn ()) (\<lambda>_.
     replace_manifest env st (active_file st) m))"

text \<open>\<open>activate\<close> and \<open>activate_publication\<close> differ in the report between the two pointers.\<close>

definition activate :: "store_env \<Rightarrow> GenerationStore \<Rightarrow> GenerationManifest \<Rightarrow> unit sio" where
  "activate env st m = activate_steps env st m (sreturn ())"

definition activate_publication :: "store_env \<Rightarrow> GenerationStore \<Rightarrow> GenerationManifest \<Rightarrow> unit sio" where
  "activate_publication env st m = activate_steps env st m (advance Retained)"

definition activate_recovered :: "store_env \<Rightarrow> GenerationStore \<Rightarrow> GenerationManifest \<Rightarrow> unit sio" where
  "activate_recovered env st m = replace_manifest env st (active_file st) m"

section \<open>Publishing\<close>

definition snapshot_matches :: "SnapshotOutcome \<Rightarrow> SnapshotOutcome \<Rightarrow> bool" where
  "snapshot_matches a b \<longleftrightarrow> a = b"

definition staged_index_matches :: "StagedIndexOutcome \<Rightarrow> StagedIndexOutcome \<Rightarrow> bool" where
  "staged_index_matches a b \<longleftrightarrow> a = b"

definition validate_candidates :: "store_env \<Rightarrow> GenerationStore \<Rightarrow> PublishGenerationRequest \<Rightarrow> (path \<times> path) sio" where
  "validate_candidates env st r =
     (let source = butlast (sn_content_root (pr_snapshot r));
          index = butlast (ix_database (pr_index r));
          candidates = candidates_root st in
      if sn_content_root (pr_snapshot r) = [] \<or> ix_database (pr_index r) = []
         \<or> \<not> prefix candidates source \<or> \<not> prefix candidates index
         \<or> source = index \<or> prefix index source \<or> prefix source index
      then sfail CandidateUnavailable
      else
        sbind (sread CandidateUnavailable (\<lambda>t. ok_or CandidateUnavailable (en_snapshot env t source))) (\<lambda>snapshot.
        sbind (sread CandidateUnavailable (\<lambda>t. case en_index env t index of
            Ok i \<Rightarrow> Ok i | Err SixRebuildRequired \<Rightarrow> Err PubRebuildRequired | _ \<Rightarrow> Err CandidateUnavailable)) (\<lambda>staged.
        if \<not> snapshot_matches snapshot (pr_snapshot r) \<or> \<not> staged_index_matches staged (pr_index r)
        then sfail CandidateMismatch else sreturn (source, index))))"

definition ensure_same_filesystem :: "store_env \<Rightarrow> path \<Rightarrow> path \<Rightarrow> unit sio" where
  "ensure_same_filesystem env left right =
     sbind (sread PubStorageFailed (\<lambda>t. if tree_get t left = None then Err PubStorageFailed else Ok ())) (\<lambda>_.
     sbind (sread CandidateUnavailable (\<lambda>t. if tree_get t right = None then Err CandidateUnavailable else Ok ())) (\<lambda>_.
     swhen (en_device env left \<noteq> en_device env right) CandidateUnavailable))"

text \<open>Every directory below is synchronised; a symbolic link on the way is refused.\<close>

definition sync_tree_directories :: "path \<Rightarrow> unit sio" where
  "sync_tree_directories p = sread PubStorageFailed (\<lambda>t.
     if tree_get t p = Some SDir \<and> list_all (\<lambda>(q, _). strict_prefix p q \<longrightarrow> tree_get t q \<noteq> Some SLink) t
     then Ok () else Err PubStorageFailed)"

datatype PublicationDisposition = Published | ActivatedExisting | AlreadyActive

record PublicationOutcome =
  po_disposition :: PublicationDisposition
  po_generation :: GenerationLease

text \<open>From the created staging directory to its rename into place.\<close>

definition seal_staging ::
  "store_env \<Rightarrow> GenerationStore \<Rightarrow> path \<Rightarrow> path \<Rightarrow> path \<Rightarrow> GenerationManifest \<Rightarrow> path \<Rightarrow> unit sio" where
  "seal_staging env st staging source index m destination =
     (let staged_source = staging @ [GENERATION_SOURCE_DIRECTORY];
          staged_index = staging @ [GENERATION_INDEX_DIRECTORY] in
      sbind (ensure_private_lock_file (staging @ [GENERATION_READER_LOCK_FILE])) (\<lambda>_.
      sbind (s_rename source staged_source) (\<lambda>_.
      sbind (advance SourceSealed) (\<lambda>_.
      sbind (s_rename index staged_index) (\<lambda>_.
      sbind (advance IndexSealed) (\<lambda>_.
      sbind (sync_tree_directories staged_source) (\<lambda>_.
      sbind (sync_tree_directories staged_index) (\<lambda>_.
      sbind (sread PubStorageFailed (\<lambda>t. if tree_get t (staged_index @ [STAGED_INDEX_DATABASE_FILE]) = None
               then Err PubStorageFailed else Ok ())) (\<lambda>_.
      sbind (write_new_json (staging @ [GENERATION_MANIFEST_FILE]) (en_encode env m)) (\<lambda>_.
      sbind s_sync (\<lambda>_.
      sbind (advance ManifestSealed) (\<lambda>_.
      sbind (s_present destination) (\<lambda>present.
      sbind (swhen present GenerationOccupied) (\<lambda>_.
      s_rename staging destination))))))))))))))"

definition publish_new :: "store_env \<Rightarrow> GenerationStore \<Rightarrow> PublishGenerationRequest \<Rightarrow> PublicationOutcome sio" where
  "publish_new env st r =
     (let destination = generation_directory st (gb_generation (pr_binding r));
          m = manifest_from_request r in
      sbind (validate_candidates env st r) (\<lambda>(source, index).
      sbind (ensure_same_filesystem env (gs_root st) source) (\<lambda>_.
      sbind (ensure_same_filesystem env (gs_root st) index) (\<lambda>_.
      sbind (s_create_temporary (generations_dir st) GENERATION_STAGE_PREFIX SDir) (\<lambda>staging.
      sbind (s_with_temporary env staging (seal_staging env st staging source index m destination)) (\<lambda>_.
      sbind s_sync (\<lambda>_.
      sbind (inspect_generation env st (gb_generation (pr_binding r))) (\<lambda>(sealed, record).
      sbind (swhen (sealed \<noteq> m) StoreUnavailable) (\<lambda>_.
      sbind (lease_record env record) (\<lambda>generation.
      sbind (advance ActivatingStage) (\<lambda>_.
      sbind (activate_publication env st m) (\<lambda>_.
      sreturn \<lparr>po_disposition = Published, po_generation = generation\<rparr>))))))))))))"

definition publish_existing :: "store_env \<Rightarrow> GenerationStore \<Rightarrow> PublishGenerationRequest \<Rightarrow> PublicationOutcome sio" where
  "publish_existing env st r =
     sbind (inspect_generation env st (gb_generation (pr_binding r))) (\<lambda>(m, record).
     sbind (swhen (m \<noteq> manifest_from_request r) GenerationOccupied) (\<lambda>_.
     sbind (lease_record env record) (\<lambda>generation.
     sbind (advance ActivatingStage) (\<lambda>_.
     sbind (activate_publication env st m) (\<lambda>_.
     sreturn \<lparr>po_disposition = ActivatedExisting, po_generation = generation\<rparr>)))))"

definition already_active :: "store_env \<Rightarrow> GenerationStore \<Rightarrow> PublishGenerationRequest \<Rightarrow> GenerationLease \<Rightarrow> PublicationOutcome sio" where
  "already_active env st r active =
     sbind (read_json (en_decode env) (active_file st)) (\<lambda>m.
       if m = manifest_from_request r then
         sbind (report_stage CompleteStage) (\<lambda>_.
         sreturn \<lparr>po_disposition = AlreadyActive, po_generation = active\<rparr>)
       else sfail GenerationOccupied)"

definition publish_changed :: "store_env \<Rightarrow> GenerationStore \<Rightarrow> PublishGenerationRequest \<Rightarrow> string option \<Rightarrow> PublicationOutcome sio" where
  "publish_changed env st r current_id =
     sbind (swhen (current_id \<noteq> pr_expected_active r) ActiveGenerationChanged) (\<lambda>_.
     sbind (s_present (generation_directory st (gb_generation (pr_binding r)))) (\<lambda>present.
     sbind (if present then publish_existing env st r else publish_new env st r) (\<lambda>outcome.
     sbind (report_stage CompleteStage) (\<lambda>_. sreturn outcome))))"

definition publish :: "store_env \<Rightarrow> GenerationStore \<Rightarrow> PublishGenerationRequest \<Rightarrow> PublicationOutcome sio" where
  "publish env st r =
     sbind (swhen (gb_source (pr_binding r) \<noteq> gs_source st) OwnershipMismatch) (\<lambda>_.
     sbind (publication_lock_acquire env st) (\<lambda>_.
     sbind (advance PreparingStage) (\<lambda>_.
     sbind (lease env st) (\<lambda>current.
       case current of
         Some active \<Rightarrow>
           if gr_binding active = pr_binding r then already_active env st r active
           else publish_changed env st r (Some (gb_generation (gr_binding active)))
       | None \<Rightarrow> publish_changed env st r None))))"

end
