(* ===== verification/PublicationProps.thy ===== *)
theory PublicationProps
  imports GenerationStore SourceProps
begin

text \<open>
  Publication under every schedule of faults and cancellations: the active pointer is
  replaced only by the last call, by a manifest whose generation has been inspected in
  place, and no other file of the store's generations changes.
\<close>

section \<open>Replacing a pointer atomically\<close>

definition tmp_path :: "GenerationStore \<Rightarrow> path \<Rightarrow> bool" where
  "tmp_path st q \<longleftrightarrow> (\<exists>c rest. q = gs_root st @ c # rest \<and> prefix ''.tmp'' c)"

text \<open>The tree as a function away from a pointer and the temporary files beside it.\<close>

definition frame :: "GenerationStore \<Rightarrow> path \<Rightarrow> (path \<Rightarrow> snode option) \<Rightarrow> tree \<Rightarrow> bool" where
  "frame st p f t \<longleftrightarrow> (\<forall>q. \<not> prefix p q \<longrightarrow> \<not> tmp_path st q \<longrightarrow> tree_get t q = f q)"

definition pointing :: "GenerationStore \<Rightarrow> path \<Rightarrow> (path \<Rightarrow> snode option) \<Rightarrow> snode option \<Rightarrow> tree \<Rightarrow> bool" where
  "pointing st p f a t \<longleftrightarrow> frame st p f t \<and> tree_get t p = a"

lemma pick_name_Some:
  "pick_name t parent p ns = Some (q, rest) \<Longrightarrow> \<exists>n. q = parent @ [p @ n] \<and> tree_get t q = None"
  by (induction ns) (auto simp: Let_def split: if_splits)

lemma tmp_path_below: "q = gs_root st @ [''.tmp'' @ n] \<Longrightarrow> prefix q r \<Longrightarrow> tmp_path st r"
  unfolding tmp_path_def prefix_def by auto

lemma triple_with_temporary:
  assumes "triple P m Q E" and "\<And>w. E w \<Longrightarrow> E' (s_remove_quietly env p w)"
  shows "triple P (s_with_temporary env p m) Q E'"
  using assms unfolding triple_def s_with_temporary_def
  by (fastforce split: prod.splits outcome.splits)

lemma filter_get: "(\<And>x. (q, x) \<in> set t \<Longrightarrow> P (q, x)) \<Longrightarrow> tree_get (filter P t) q = tree_get t q"
  by (induction t) (auto simp: tree_get_def)

lemma remove_quietly_get:
  "\<not> prefix p q \<Longrightarrow> tree_get (sw_tree (s_remove_quietly env p w)) q = tree_get (sw_tree w) q"
proof -
  assume q: "\<not> prefix p q"
  obtain b w' where n: "next_fault w = (b, w')" by (cases "next_fault w")
  have "tree_get (sw_tree (s_remove_quietly env p w)) q = tree_get (sw_tree w') q"
    using q by (auto simp: s_remove_quietly_def n tree_get_remove intro: filter_get)
  with next_fault_tree [OF n] show ?thesis by simp
qed

lemma frame_put: "frame st p f t \<Longrightarrow> tmp_path st q \<Longrightarrow> frame st p f (tree_put q x t)"
  by (auto simp: frame_def tree_get_put)

lemma encoded_json_triple:
  "triple (on_tree P) (encoded_json b) (\<lambda>x w. x = b \<and> on_tree P w) (on_tree P)"
  by (auto simp: triple_def encoded_json_def sfail_def sreturn_def on_tree_def)

lemma create_temporary_triple:
  assumes "\<And>t n. P t \<Longrightarrow> tree_get t (parent @ [p @ n]) = None \<Longrightarrow> Q (parent @ [p @ n]) (tree_put (parent @ [p @ n]) x t)"
  shows "triple (on_tree P) (s_create_temporary parent p x) (\<lambda>q. on_tree (Q q)) (on_tree P)"
proof -
  have "triple (on_tree P) (\<lambda>w. case pick_name (sw_tree w) parent p (sw_names w) of
       None \<Rightarrow> (Err PubStorageFailed, w)
     | Some (q, ns) \<Rightarrow> (Ok q, w\<lparr>sw_tree := tree_put q x (sw_tree w), sw_names := ns\<rparr>))
     (\<lambda>q. on_tree (Q q)) (on_tree P)"
    using assms by (auto simp: triple_def on_tree_def split: option.splits dest!: pick_name_Some)
  then show ?thesis unfolding s_create_temporary_def by (rule triple_call) simp
qed

lemma put_triple:
  "(\<And>t. P t \<Longrightarrow> Q (tree_put p x t)) \<Longrightarrow> triple (on_tree P) (s_put p x) (\<lambda>_. on_tree Q) E"
  by (simp add: triple_def s_put_def on_tree_def)

lemma rename_triple:
  assumes "\<And>t. P t \<Longrightarrow> tree_get t a \<noteq> None \<Longrightarrow> \<not> prefix a b \<Longrightarrow> \<not> prefix b a \<Longrightarrow> Q (tree_rename a b t)"
  shows "triple (on_tree P) (s_rename a b) (\<lambda>_. on_tree Q) (on_tree P)"
  unfolding s_rename_def
proof (rule triple_call)
  show "triple (on_tree P) (\<lambda>w. let t = sw_tree w in
     if tree_get t a = None \<or> prefix a b \<or> prefix b a \<or> tree_get t (butlast b) \<noteq> Some SDir
        \<or> tree_get t b = Some SDir \<or> (tree_get t a = Some SDir \<and> tree_get t b \<noteq> None)
     then (Err PubStorageFailed, w)
     else (Ok (), w\<lparr>sw_tree := tree_rename a b (sw_tree w)\<rparr>)) (\<lambda>_. on_tree Q) (on_tree P)"
    using assms by (auto simp: triple_def on_tree_def Let_def)
qed

lemma replace_manifest_triple:
  assumes p: "p = gs_root st @ [c]" and c: "\<not> prefix ''.tmp'' c"
  shows "triple (on_tree (pointing st p f a)) (replace_manifest env st p m)
    (\<lambda>_. on_tree (pointing st p f (Some (SFile (en_encode env m))))) (on_tree (pointing st p f a))"
proof -
  have ptmp: "\<not> tmp_path st p" using p c by (auto simp: tmp_path_def)
  have notp: "p \<noteq> gs_root st @ [''.tmp'' @ n]" for n using p c by auto
  let ?P = "pointing st p f a"
  let ?bytes = "en_encode env m"
  let ?tmp = "\<lambda>q t. (\<exists>n. q = gs_root st @ [''.tmp'' @ n]) \<and> ?P t"
  have create: "triple (on_tree ?P) (s_create_temporary (gs_root st) ''.tmp'' (SFile []))
      (\<lambda>q. on_tree (?tmp q)) (on_tree ?P)"
  proof (rule create_temporary_triple)
    fix t n assume "?P t"
    moreover have "tmp_path st (gs_root st @ [''.tmp'' @ n])"
      by (auto simp: tmp_path_def)
    ultimately show "?tmp (gs_root st @ [''.tmp'' @ n]) (tree_put (gs_root st @ [''.tmp'' @ n]) (SFile []) t)"
      using notp by (auto simp: pointing_def frame_put tree_get_put)
  qed
  have body: "triple (on_tree (?tmp q))
      (s_with_temporary env q (sbind (scall PubStorageFailed (sreturn ())) (\<lambda>_.
         sbind (scall PubStorageFailed (s_put q (SFile ?bytes))) (\<lambda>_. sbind s_sync (\<lambda>_. s_rename q p)))))
      (\<lambda>_. on_tree (pointing st p f (Some (SFile ?bytes)))) (on_tree ?P)" for q
  proof (rule triple_with_temporary)
    let ?W = "\<lambda>t. ?tmp q t \<and> tree_get t q = Some (SFile ?bytes)"
    have put: "triple (on_tree (?tmp q)) (s_put q (SFile ?bytes)) (\<lambda>_. on_tree ?W) (on_tree (?tmp q))"
      by (rule put_triple) (use notp in \<open>auto simp: pointing_def frame_put tree_get_put tmp_path_below\<close>)
    have ren: "triple (on_tree ?W) (s_rename q p) (\<lambda>_. on_tree (pointing st p f (Some (SFile ?bytes)))) (on_tree ?W)"
    proof (rule rename_triple)
      fix t assume w: "?W t" and np: "\<not> prefix q p" "\<not> prefix p q"
      then have "tree_get (tree_rename q p t) p = Some (SFile ?bytes)"
        by (simp add: tree_get_rename)
      moreover have "frame st p f (tree_rename q p t)"
        using w np tmp_path_below by (fastforce simp: frame_def pointing_def tree_get_rename)
      ultimately show "pointing st p f (Some (SFile ?bytes)) (tree_rename q p t)"
        by (simp add: pointing_def)
    qed
    have ren': "triple (on_tree ?W) (s_rename q p) (\<lambda>_. on_tree (pointing st p f (Some (SFile ?bytes)))) (on_tree (?tmp q))"
      by (rule triple_conseq [OF ren]) (simp_all add: on_tree_def)
    have sync: "triple (on_tree ?W) s_sync (\<lambda>_. on_tree ?W) (on_tree (?tmp q))"
      by (rule triple_conseq [OF keeps_tree_triple [OF keeps_sync, where P = ?W]]) (auto simp: on_tree_def)
    show "triple (on_tree (?tmp q)) (sbind (scall PubStorageFailed (sreturn ())) (\<lambda>_.
         sbind (scall PubStorageFailed (s_put q (SFile ?bytes))) (\<lambda>_. sbind s_sync (\<lambda>_. s_rename q p))))
      (\<lambda>_. on_tree (pointing st p f (Some (SFile ?bytes)))) (on_tree (?tmp q))"
    proof (rule triple_seq)
      have put': "triple (on_tree (?tmp q)) (scall PubStorageFailed (s_put q (SFile ?bytes))) (\<lambda>_. on_tree ?W)
          (on_tree (?tmp q))"
        by (rule triple_call [OF put])
      show "triple (on_tree (?tmp q)) (sbind (scall PubStorageFailed (s_put q (SFile ?bytes)))
          (\<lambda>_. sbind s_sync (\<lambda>_. s_rename q p)))
          (\<lambda>_. on_tree (pointing st p f (Some (SFile ?bytes)))) (on_tree (?tmp q))"
        by (rule triple_bind [OF put' triple_bind [OF sync ren']])
    qed (intro keeps_intros)
    fix w assume w: "on_tree (?tmp q) w"
    then obtain n where q: "q = gs_root st @ [''.tmp'' @ n]" and P: "?P (sw_tree w)" by (auto simp: on_tree_def)
    have "\<not> prefix q p" using tmp_path_below [OF q, of p] ptmp by blast
    moreover have "\<not> tmp_path st r \<Longrightarrow> \<not> prefix q r" for r using tmp_path_below [OF q] by blast
    ultimately show "on_tree ?P (s_remove_quietly env q w)"
      using P by (simp add: on_tree_def pointing_def frame_def remove_quietly_get)
  qed
  show ?thesis
    unfolding replace_manifest_def
  proof (rule triple_seq, goal_cases)
    case (2 kind)
    show ?case
    proof (rule triple_seq, goal_cases)
      case (2 u)
      show ?case
      proof (rule triple_bind [OF encoded_json_triple])
        fix b
        show "triple (\<lambda>w. b = ?bytes \<and> on_tree ?P w)
          (sbind (scall PubStorageFailed (sreturn ())) (\<lambda>_.
           sbind (s_create_temporary (gs_root st) ''.tmp'' (SFile [])) (\<lambda>q.
           s_with_temporary env q (sbind (scall PubStorageFailed (sreturn ())) (\<lambda>_.
             sbind (scall PubStorageFailed (s_put q (SFile b))) (\<lambda>_. sbind s_sync (\<lambda>_. s_rename q p)))))))
          (\<lambda>_. on_tree (pointing st p f (Some (SFile ?bytes)))) (on_tree ?P)"
        proof (cases "b = ?bytes")
          case True
          have "triple (on_tree ?P) (sbind (s_create_temporary (gs_root st) ''.tmp'' (SFile [])) (\<lambda>q.
             s_with_temporary env q (sbind (scall PubStorageFailed (sreturn ())) (\<lambda>_.
               sbind (scall PubStorageFailed (s_put q (SFile ?bytes))) (\<lambda>_. sbind s_sync (\<lambda>_. s_rename q p))))))
            (\<lambda>_. on_tree (pointing st p f (Some (SFile ?bytes)))) (on_tree ?P)"
            by (rule triple_bind [OF create body])
          with True show ?thesis by (simp add: triple_seq keeps_intros)
        qed (simp add: triple_def)
      qed
    qed (intro keeps_intros)
  qed (intro keeps_intros)
qed

section \<open>Activation\<close>

text \<open>Nothing but the two pointers and temporary files beside them has changed.\<close>

definition beside :: "GenerationStore \<Rightarrow> tree \<Rightarrow> tree \<Rightarrow> bool" where
  "beside st t1 t \<longleftrightarrow> (\<forall>q. \<not> prefix (active_file st) q \<longrightarrow> \<not> prefix (retained_file st) q \<longrightarrow>
     \<not> tmp_path st q \<longrightarrow> tree_get t q = tree_get t1 q)"

lemma beside_refl [simp]: "beside st t t"
  by (simp add: beside_def)

lemma beside_trans: "beside st t1 t2 \<Longrightarrow> beside st t2 t3 \<Longrightarrow> beside st t1 t3"
  by (simp add: beside_def)

lemma pointer_names:
  "\<not> prefix ''.tmp'' ACTIVE_GENERATION_FILE" "\<not> prefix ''.tmp'' RETAINED_GENERATION_FILE"
  "ACTIVE_GENERATION_FILE \<noteq> RETAINED_GENERATION_FILE"
  by (simp_all add: ACTIVE_GENERATION_FILE_def RETAINED_GENERATION_FILE_def)

lemma active_not_tmp: "\<not> tmp_path st (active_file st)" "\<not> prefix (retained_file st) (active_file st)"
  using pointer_names by (auto simp: tmp_path_def active_file_def retained_file_def)

lemma frame_beside:
  "frame st (retained_file st) (tree_get t1) t \<Longrightarrow> beside st t1 t"
  "frame st (active_file st) (tree_get t1) t \<Longrightarrow> beside st t1 t"
  by (simp_all add: frame_def beside_def)

lemma triple_each_tree:
  "(\<And>t1. P t1 \<Longrightarrow> triple (on_tree ((=) t1)) m Q E) \<Longrightarrow> triple (on_tree P) m Q E"
  by (simp add: triple_def on_tree_def)

lemma replace_retained_triple:
  "triple (on_tree ((=) t1)) (replace_manifest env st (retained_file st) m)
     (\<lambda>_. on_tree (\<lambda>t. beside st t1 t \<and> tree_get t (active_file st) = tree_get t1 (active_file st)))
     (on_tree (\<lambda>t. beside st t1 t \<and> tree_get t (active_file st) = tree_get t1 (active_file st)))"
proof (rule triple_conseq [OF replace_manifest_triple
      [OF retained_file_def pointer_names(2), where f = "tree_get t1" and a = "tree_get t1 (retained_file st)"]])
  have "frame st (retained_file st) (tree_get t1) t \<Longrightarrow>
      tree_get t (active_file st) = tree_get t1 (active_file st)" for t
    using active_not_tmp by (simp add: frame_def)
  then have s: "pointing st (retained_file st) (tree_get t1) a t \<Longrightarrow>
      beside st t1 t \<and> tree_get t (active_file st) = tree_get t1 (active_file st)" for a t
    by (simp add: pointing_def frame_beside)
  show "on_tree ((=) t1) w \<Longrightarrow> on_tree (pointing st (retained_file st) (tree_get t1) (tree_get t1 (retained_file st))) w" for w
    by (auto simp: on_tree_def pointing_def frame_def)
qed (auto simp: on_tree_def pointing_def frame_beside frame_def active_not_tmp)

lemma replace_active_triple:
  "triple (on_tree ((=) t1)) (replace_manifest env st (active_file st) m)
     (\<lambda>_. on_tree (\<lambda>t. beside st t1 t \<and> tree_get t (active_file st) = Some (SFile (en_encode env m))))
     (on_tree (\<lambda>t. beside st t1 t \<and> tree_get t (active_file st) = tree_get t1 (active_file st)))"
  by (rule triple_conseq [OF replace_manifest_triple
      [OF active_file_def pointer_names(1), where f = "tree_get t1" and a = "tree_get t1 (active_file st)"]])
    (auto simp: on_tree_def pointing_def frame_def frame_beside)

lemma activate_triple:
  assumes between: "keeps_tree between"
  shows "triple (on_tree ((=) t1)) (activate_steps env st m between)
     (\<lambda>_. on_tree (\<lambda>t. beside st t1 t \<and> tree_get t (active_file st) = Some (SFile (en_encode env m))))
     (on_tree (\<lambda>t. beside st t1 t \<and> tree_get t (active_file st) = tree_get t1 (active_file st)))"
proof -
  let ?Mid = "\<lambda>t. beside st t1 t \<and> tree_get t (active_file st) = tree_get t1 (active_file st)"
  let ?New = "\<lambda>t. beside st t1 t \<and> tree_get t (active_file st) = Some (SFile (en_encode env m))"
  have last: "triple (on_tree ?Mid) (replace_manifest env st (active_file st) m) (\<lambda>_. on_tree ?New) (on_tree ?Mid)"
  proof (rule triple_each_tree)
    fix t2 assume "?Mid t2"
    then show "triple (on_tree ((=) t2)) (replace_manifest env st (active_file st) m) (\<lambda>_. on_tree ?New) (on_tree ?Mid)"
      by (intro triple_conseq [OF replace_active_triple [of t2]]) (auto simp: on_tree_def intro: beside_trans)
  qed
  have read: "triple (on_tree ((=) t1)) (read_json (en_decode env) (active_file st)) (\<lambda>_. on_tree ((=) t1)) (on_tree ?Mid)"
    by (rule triple_conseq [OF keeps_tree_triple [OF keeps_read_json, where P = "(=) t1"]]) (auto simp: on_tree_def)
  have first: "triple (on_tree ((=) t1)) (if present then
        sbind (read_json (en_decode env) (active_file st)) (\<lambda>current.
        sbind (replace_manifest env st (retained_file st) current) (\<lambda>_. between)) else sreturn ())
      (\<lambda>_. on_tree ?Mid) (on_tree ?Mid)" for present
  proof (cases present)
    case True
    have "triple (on_tree ((=) t1)) (sbind (read_json (en_decode env) (active_file st)) (\<lambda>current.
        sbind (replace_manifest env st (retained_file st) current) (\<lambda>_. between))) (\<lambda>_. on_tree ?Mid) (on_tree ?Mid)"
      by (rule triple_bind [OF read triple_bind [OF replace_retained_triple keeps_tree_triple [OF between]]])
    with True show ?thesis by simp
  next
    case False
    then show ?thesis by (simp add: triple_def sreturn_def on_tree_def)
  qed
  have present: "triple (on_tree ((=) t1)) (s_present (active_file st)) (\<lambda>_. on_tree ((=) t1)) (on_tree ?Mid)"
    by (rule triple_conseq [OF keeps_tree_triple [OF keeps_present, where P = "(=) t1"]]) (auto simp: on_tree_def)
  show ?thesis
    unfolding activate_steps_def by (rule triple_bind [OF present triple_bind [OF first last]])
qed

section \<open>Inspection looks below and above its directory only\<close>

definition near :: "path \<Rightarrow> path \<Rightarrow> bool" where
  "near d q \<longleftrightarrow> prefix d q \<or> prefix q d"

definition local_inspection :: "store_env \<Rightarrow> bool" where
  "local_inspection env \<longleftrightarrow> (\<forall>t t' d. (\<forall>q. near d q \<longrightarrow> tree_get t q = tree_get t' q) \<longrightarrow>
     en_snapshot env t d = en_snapshot env t' d \<and> en_index env t d = en_index env t' d)"

lemma near_below: "near (d @ [c]) q \<Longrightarrow> near d q"
  by (auto simp: near_def prefix_append) (metis prefix_def prefix_same_cases append_assoc)

lemma canonical_near: "(\<And>q. prefix q d \<Longrightarrow> tree_get t q = tree_get t' q) \<Longrightarrow> canonical t d = canonical t' d"
  by (simp add: canonical_def take_is_prefix list_all_iff)

lemma inspect_tree_near:
  assumes env: "local_inspection env" and same: "\<And>q. near d q \<Longrightarrow> tree_get t q = tree_get t' q"
  shows "inspect_tree env src t d ex = inspect_tree env src t' d ex"
proof -
  have "tree_get t (d @ x) = tree_get t' (d @ x)" "tree_get t d = tree_get t' d" for x
    using same [of "d @ x"] same [of d] by (auto simp: near_def)
  moreover have "canonical t d = canonical t' d"
    by (rule canonical_near) (simp add: same near_def)
  moreover have child: "en_snapshot env t (d @ [c]) = en_snapshot env t' (d @ [c]) \<and>
      en_index env t (d @ [c]) = en_index env t' (d @ [c])" for c
    using env same near_below unfolding local_inspection_def by blast
  moreover have manifest: "decode_file (en_decode env) t (d @ x) = decode_file (en_decode env) t' (d @ x)" for x
    by (simp add: decode_file_def calculation(1))
  ultimately show ?thesis
    unfolding inspect_tree_def child [THEN conjunct1] child [THEN conjunct2] manifest by simp
qed

lemma generation_near:
  assumes "near (generation_directory st g) q" and "beside st t1 t"
  shows "tree_get t q = tree_get t1 q"
proof -
  have "GENERATIONS_DIRECTORY \<noteq> ACTIVE_GENERATION_FILE" "GENERATIONS_DIRECTORY \<noteq> RETAINED_GENERATION_FILE"
    "\<not> prefix ''.tmp'' GENERATIONS_DIRECTORY"
    by (simp_all add: GENERATIONS_DIRECTORY_def ACTIVE_GENERATION_FILE_def RETAINED_GENERATION_FILE_def)
  then have names: "\<not> prefix ''.tmp'' GENERATIONS_DIRECTORY"
    "ACTIVE_GENERATION_FILE \<noteq> GENERATIONS_DIRECTORY" "RETAINED_GENERATION_FILE \<noteq> GENERATIONS_DIRECTORY" by simp_all
  have only: "q = gs_root st @ c # rest \<Longrightarrow> c = GENERATIONS_DIRECTORY" for c rest
    using assms(1) by (auto simp: near_def generation_directory_def generations_dir_def prefix_def append_eq_append_conv2
        append_eq_Cons_conv Cons_eq_append_conv)
  have "\<not> tmp_path st q"
    unfolding tmp_path_def using only names(1) by blast
  moreover have "\<not> prefix (gs_root st @ [c]) q" if "c \<noteq> GENERATIONS_DIRECTORY" for c
    using that only by (metis prefix_def append.assoc append_Cons append_Nil)
  then have "\<not> prefix (active_file st) q" "\<not> prefix (retained_file st) q"
    unfolding active_file_def retained_file_def using names(2,3) by blast+
  ultimately have "\<not> prefix (active_file st) q \<and> \<not> prefix (retained_file st) q \<and> \<not> tmp_path st q" by blast
  with assms(2) show ?thesis by (simp add: beside_def)
qed

section \<open>Footprints\<close>

text \<open>The paths outside \<open>Z\<close> are the same after the operation, however it ends.\<close>

definition within :: "(path \<Rightarrow> bool) \<Rightarrow> 'a sio \<Rightarrow> bool" where
  "within Z m \<longleftrightarrow> (\<forall>w q. \<not> Z q \<longrightarrow> tree_get (sw_tree (snd (m w))) q = tree_get (sw_tree w) q)"

named_theorems within_intros \<open>operations that change paths of a set only\<close>

lemma within_keeps [within_intros]: "keeps_tree m \<Longrightarrow> within Z m"
  by (simp add: within_def keeps_tree_def)

lemma within_bind_when:
  assumes m: "within Z m" and A: "\<And>w x w'. m w = (Ok x, w') \<Longrightarrow> A x" and f: "\<And>x. A x \<Longrightarrow> within Z (f x)"
  shows "within Z (sbind m f)"
  unfolding within_def
proof (intro allI impI)
  fix w q assume q: "\<not> Z q"
  obtain res w1 where mw: "m w = (res, w1)" by (cases "m w")
  have "tree_get (sw_tree w1) q = tree_get (sw_tree w) q"
    using m q mw unfolding within_def by (metis snd_conv)
  with mw q f A [of w] show "tree_get (sw_tree (snd (sbind m f w))) q = tree_get (sw_tree w) q"
    by (cases res) (simp_all add: sbind_def within_def)
qed

lemma within_bind [within_intros]: "within Z m \<Longrightarrow> (\<And>x. within Z (f x)) \<Longrightarrow> within Z (sbind m f)"
  by (rule within_bind_when [where A = "\<lambda>_. True"]) simp_all

lemma within_call [within_intros]: "within Z m \<Longrightarrow> within Z (scall e m)"
  unfolding within_def scall_def by (auto split: prod.splits dest: next_fault_tree)

lemma within_put: "Z p \<Longrightarrow> within Z (s_put p x)"
  by (auto simp: within_def s_put_def tree_get_put)

definition closed_below :: "(path \<Rightarrow> bool) \<Rightarrow> bool" where
  "closed_below Z \<longleftrightarrow> (\<forall>p q. Z p \<longrightarrow> prefix p q \<longrightarrow> Z q)"

lemma within_rename: "closed_below Z \<Longrightarrow> Z a \<Longrightarrow> Z b \<Longrightarrow> within Z (s_rename a b)"
  unfolding s_rename_def
  by (intro within_call) (auto simp: within_def Let_def tree_get_rename closed_below_def)

lemma within_with_temporary:
  assumes m: "within Z m" and Z: "closed_below Z" "Z p"
  shows "within Z (s_with_temporary env p m)"
  unfolding within_def
proof (intro allI impI)
  fix w q assume q: "\<not> Z q"
  obtain res w1 where mw: "m w = (res, w1)" by (cases "m w")
  have "tree_get (sw_tree w1) q = tree_get (sw_tree w) q"
    using m q mw unfolding within_def by (metis snd_conv)
  moreover have "\<not> prefix p q" using Z q by (auto simp: closed_below_def)
  ultimately show "tree_get (sw_tree (snd (s_with_temporary env p m w))) q = tree_get (sw_tree w) q"
    by (cases res) (simp_all add: s_with_temporary_def mw remove_quietly_get)
qed

lemma within_lock_file: "Z p \<Longrightarrow> within Z (ensure_private_lock_file p)"
proof -
  assume p: "Z p"
  have a: "within Z (sbind (s_put p (SFile [])) (\<lambda>_. scall PubStorageFailed (sreturn ())))"
    by (intro within_intros within_put keeps_intros p)
  have b: "within Z (validate_lock_file p)" by (intro within_intros keeps_intros)
  show ?thesis
    unfolding ensure_private_lock_file_def
    using a b by (intro within_call) (simp add: within_def)
qed

lemma within_new_json: "Z p \<Longrightarrow> within Z (write_new_json p b)"
proof -
  assume p: "Z p"
  have new: "within Z (\<lambda>w. if tree_get (sw_tree w) p \<noteq> None then (Err PubStorageFailed, w) else s_put p (SFile []) w)"
    using within_put [of Z p, OF p] by (simp add: within_def)
  show ?thesis
    unfolding write_new_json_def
    by (intro within_bind within_call within_put new p) (intro within_keeps keeps_intros)+
qed

lemma keeps_sync_tree [keeps_intros]: "keeps_tree (sync_tree_directories p)"
  unfolding sync_tree_directories_def by (rule keeps_read)

lemma within_seal_staging:
  assumes Z: "closed_below Z" and "Z staging" "Z source" "Z index" "Z destination"
  shows "within Z (seal_staging env st staging source index m destination)"
proof -
  have s: "Z (staging @ [c])" for c using assms unfolding closed_below_def by auto
  show ?thesis
    unfolding seal_staging_def Let_def
    by (intro within_bind within_lock_file within_rename within_new_json within_keeps keeps_intros s assms)
qed

lemma within_triple:
  "within Z m \<Longrightarrow> (\<And>q. G q \<Longrightarrow> \<not> Z q) \<Longrightarrow>
   triple (on_tree (\<lambda>t. \<forall>q. G q \<longrightarrow> tree_get t q = h q)) m
     (\<lambda>_. on_tree (\<lambda>t. \<forall>q. G q \<longrightarrow> tree_get t q = h q)) (on_tree (\<lambda>t. \<forall>q. G q \<longrightarrow> tree_get t q = h q))"
  unfolding triple_def within_def on_tree_def by (auto split: prod.splits outcome.splits) (metis snd_conv)+

section \<open>Publication\<close>

definition guarded :: "GenerationStore \<Rightarrow> tree \<Rightarrow> path \<Rightarrow> bool" where
  "guarded st t0 q \<longleftrightarrow> q = active_file st \<or>
     (\<exists>g. tree_get t0 (generation_directory st g) \<noteq> None \<and> prefix (generation_directory st g) q)"

definition same :: "GenerationStore \<Rightarrow> tree \<Rightarrow> tree \<Rightarrow> bool" where
  "same st t0 t \<longleftrightarrow> (\<forall>q. guarded st t0 q \<longrightarrow> tree_get t q = tree_get t0 q)"

text \<open>What a publication that activated leaves: the manifest in the pointer, its generation inspected.\<close>

definition activated ::
  "store_env \<Rightarrow> GenerationStore \<Rightarrow> tree \<Rightarrow> GenerationManifest \<Rightarrow> GenerationRecord \<Rightarrow> tree \<Rightarrow> bool" where
  "activated env st t0 m rec t \<longleftrightarrow>
     (\<forall>q. guarded st t0 q \<longrightarrow> q \<noteq> active_file st \<longrightarrow> tree_get t q = tree_get t0 q)
     \<and> tree_get t (active_file st) = Some (SFile (en_encode env m))
     \<and> inspect_tree env (gs_source st) t (generation_directory st (gb_generation (gm_binding m)))
          (Some (gb_generation (gm_binding m))) = Ok (m, rec)"

definition settled ::
  "store_env \<Rightarrow> GenerationStore \<Rightarrow> PublishGenerationRequest \<Rightarrow> tree \<Rightarrow> PublicationOutcome \<Rightarrow> tree \<Rightarrow> bool" where
  "settled env st r t0 out t \<longleftrightarrow>
     (if po_disposition out = AlreadyActive then same st t0 t
      else activated env st t0 (manifest_from_request r) (po_generation out) t)"

lemma same_refl [simp]: "same st t t"
  by (simp add: same_def)

lemma manifest_binding [simp]: "gm_binding (manifest_from_request r) = pr_binding r"
  by (simp add: manifest_from_request_def)

lemma store_names:
  "GENERATIONS_DIRECTORY \<noteq> ACTIVE_GENERATION_FILE" "GENERATION_CANDIDATES_DIRECTORY \<noteq> ACTIVE_GENERATION_FILE"
  "GENERATIONS_DIRECTORY \<noteq> GENERATION_CANDIDATES_DIRECTORY"
  by (simp_all add: GENERATIONS_DIRECTORY_def GENERATION_CANDIDATES_DIRECTORY_def ACTIVE_GENERATION_FILE_def)

lemma candidates_not_guarded: "prefix (candidates_root st) q \<Longrightarrow> \<not> guarded st t0 q"
  using store_names
  by (auto simp: guarded_def candidates_root_def generation_directory_def generations_dir_def active_file_def prefix_def)

lemma sibling_not_guarded:
  assumes "tree_get t0 (generations_dir st @ [c]) = None" and "prefix (generations_dir st @ [c]) q"
  shows "\<not> guarded st t0 q"
proof
  assume "guarded st t0 q"
  moreover have "q \<noteq> active_file st"
    using assms(2) store_names by (auto simp: generations_dir_def active_file_def prefix_def)
  ultimately obtain g where g: "tree_get t0 (generations_dir st @ [g]) \<noteq> None" "prefix (generations_dir st @ [g]) q"
    unfolding guarded_def generation_directory_def by blast
  with assms(2) have "g = c" by (auto simp: prefix_def)
  with g assms(1) show False by simp
qed

lemma guarded_directory: "tree_get t0 (generations_dir st @ [c]) \<noteq> None \<Longrightarrow> guarded st t0 (generations_dir st @ [c])"
  unfolding guarded_def generation_directory_def by blast

lemma candidates_below:
  "validate_candidates env st r w = (Ok (source, index), w') \<Longrightarrow>
   prefix (candidates_root st) source \<and> prefix (candidates_root st) index"
  unfolding validate_candidates_def Let_def
  by (auto simp: sbind_def sfail_def sreturn_def split: if_splits prod.splits outcome.splits)

lemma keeps_candidates [keeps_intros]: "keeps_tree (validate_candidates env st r)"
  unfolding validate_candidates_def Let_def by (intro keeps_intros)

lemma keeps_same_filesystem [keeps_intros]: "keeps_tree (ensure_same_filesystem env a b)"
  unfolding ensure_same_filesystem_def by (intro keeps_intros)

lemma keeps_unavailable [keeps_intros]: "keeps_tree (unavailable x)"
  unfolding unavailable_def by (cases x) (simp_all add: keeps_intros)

lemma keeps_inspect_directory [keeps_intros]: "keeps_tree (inspect_generation_directory env st d ex)"
  by (auto simp: keeps_tree_def inspect_generation_directory_def split: prod.splits dest: next_fault_tree)

lemma keeps_inspect [keeps_intros]: "keeps_tree (inspect_generation env st g)"
  unfolding inspect_generation_def by (intro keeps_intros)

lemma keeps_open_lock [keeps_intros]: "keeps_tree (open_lock p)"
  unfolding open_lock_def by (rule keeps_read)

lemma keeps_try_lock [keeps_intros]: "keeps_tree (try_lock c b f env p)"
  unfolding try_lock_def by (intro keeps_intros)

lemma keeps_locks [keeps_intros]:
  "keeps_tree (publication_lock_acquire env st)" "keeps_tree (recovery_lock_shared env st)"
  "keeps_tree (recovery_lock_exclusive env st)" "keeps_tree (lease_record env rec)"
  unfolding publication_lock_acquire_def recovery_lock_shared_def recovery_lock_exclusive_def lease_record_def Let_def
  by (intro keeps_intros)+

lemma keeps_active_record [keeps_intros]: "keeps_tree (read_active_record env st)"
  unfolding read_active_record_def
  by (intro keeps_intros) (simp add: keeps_intros split: prod.split)

lemma keeps_lease [keeps_intros]: "keeps_tree (lease env st)"
  unfolding lease_def by (intro keeps_intros) (simp add: keeps_intros split: option.split)

lemma keeps_already [keeps_intros]: "keeps_tree (already_active env st r l)"
  unfolding already_active_def by (intro keeps_intros)

lemma inspect_triple:
  "triple (on_tree P) (inspect_generation env st g)
     (\<lambda>(m, rec). on_tree (\<lambda>t. P t \<and>
        inspect_tree env (gs_source st) t (generation_directory st g) (Some g) = Ok (m, rec))) (on_tree P)"
proof -
  have "triple (on_tree P) (inspect_generation_directory env st (generation_directory st g) (Some g))
     (\<lambda>x. on_tree (\<lambda>t. P t \<and> (\<forall>y. x = Ok y \<longrightarrow>
        inspect_tree env (gs_source st) t (generation_directory st g) (Some g) = Ok y))) (on_tree P)"
    by (auto simp: triple_def on_tree_def inspect_generation_directory_def split: prod.splits dest: next_fault_tree)
  moreover have "triple (on_tree (\<lambda>t. P t \<and> (\<forall>y. x = Ok y \<longrightarrow> I t = Ok y))) (unavailable x)
     (\<lambda>y. on_tree (\<lambda>t. P t \<and> I t = Ok y)) (on_tree P)" for x :: "('y, 'x) outcome" and I :: "tree \<Rightarrow> ('y, 'x) outcome"
    by (cases x) (simp_all add: unavailable_def triple_def sreturn_def sfail_def on_tree_def)
  ultimately show ?thesis
    unfolding inspect_generation_def by (rule triple_conseq [OF triple_bind]) auto
qed

lemma bind_return [simp]: "sbind (sreturn x) f = f x"
  by (rule ext) (simp add: sbind_def sreturn_def)

lemma when_triple: "triple (on_tree P) (swhen c e) (\<lambda>_. on_tree (\<lambda>t. P t \<and> \<not> c)) (on_tree P)"
  by (simp add: triple_def swhen_def sfail_def sreturn_def on_tree_def)

lemma lease_record_returns: "lease_record env rec w = (Ok l, w') \<Longrightarrow> l = rec"
  unfolding lease_record_def by (auto simp: sbind_def sreturn_def split: prod.splits outcome.splits)

lemma lease_record_triple:
  "triple (on_tree P) (lease_record env rec) (\<lambda>l. on_tree (\<lambda>t. P t \<and> l = rec)) (on_tree P)"
proof (rule tripleI)
  fix w x w' e assume w: "on_tree P w"
  have "sw_tree (snd (lease_record env rec w)) = sw_tree w"
    using keeps_locks(4) [of env rec] by (simp add: keeps_tree_def)
  then have k: "lease_record env rec w = (r, w') \<Longrightarrow> on_tree P w'" for r
    using w by (simp add: on_tree_def)
  show "lease_record env rec w = (Ok x, w') \<Longrightarrow> on_tree (\<lambda>t. P t \<and> x = rec) w'"
    using k lease_record_returns [of env rec w x w'] by (simp add: on_tree_def)
  show "lease_record env rec w = (Err e, w') \<Longrightarrow> on_tree P w'"
    and "lease_record env rec w = (Panic, w') \<Longrightarrow> on_tree P w'"
    by (rule k, assumption)+
qed

text \<open>The last steps of every publication that activates.\<close>

lemma finish_triple:
  assumes env: "local_inspection env" and m: "m = manifest_from_request r" and d: "d \<noteq> AlreadyActive"
  shows "triple (on_tree (\<lambda>t. same st t0 t \<and>
       inspect_tree env (gs_source st) t (generation_directory st (gb_generation (pr_binding r)))
         (Some (gb_generation (pr_binding r))) = Ok (m, rec)))
    (sbind (lease_record env rec) (\<lambda>generation.
     sbind (advance ActivatingStage) (\<lambda>_.
     sbind (activate_publication env st m) (\<lambda>_.
     sreturn \<lparr>po_disposition = d, po_generation = generation\<rparr>))))
    (\<lambda>out. on_tree (settled env st r t0 out)) (on_tree (same st t0))"
proof -
  let ?D = "generation_directory st (gb_generation (pr_binding r))"
  let ?I = "\<lambda>t. inspect_tree env (gs_source st) t ?D (Some (gb_generation (pr_binding r)))"
  let ?P = "\<lambda>t. same st t0 t \<and> ?I t = Ok (m, rec)"
  have act: "triple (on_tree ?P) (activate_publication env st m)
      (\<lambda>_. on_tree (activated env st t0 m rec)) (on_tree (same st t0))"
  proof (rule triple_each_tree)
    fix t1 assume t1: "?P t1"
    have near: "beside st t1 t \<Longrightarrow> near (generation_directory st g) q \<Longrightarrow> tree_get t q = tree_get t1 q" for t g q
      by (rule generation_near)
    have kept: "tree_get t q = tree_get t0 q"
      if "guarded st t0 q" "q \<noteq> active_file st" "beside st t1 t" for q t
    proof -
      from that obtain g where "near (generation_directory st g) q" unfolding guarded_def near_def by blast
      with near that(3) have "tree_get t q = tree_get t1 q" by blast
      with t1 that(1) show ?thesis by (simp add: same_def)
    qed
    have old: "same st t0 t" if "beside st t1 t" "tree_get t (active_file st) = tree_get t1 (active_file st)" for t
      unfolding same_def
    proof (intro allI impI)
      fix q assume q: "guarded st t0 q"
      show "tree_get t q = tree_get t0 q"
      proof (cases "q = active_file st")
        case True
        with that(2) t1 q show ?thesis by (simp add: same_def)
      qed (use kept q that(1) in blast)
    qed
    have new: "activated env st t0 m rec t" if "beside st t1 t" "tree_get t (active_file st) = Some (SFile (en_encode env m))" for t
    proof -
      have "?I t = ?I t1" by (rule inspect_tree_near [OF env]) (rule near [OF that(1)])
      with t1 that kept [of _ t] m show ?thesis by (simp add: activated_def)
    qed
    show "triple (on_tree ((=) t1)) (activate_publication env st m)
      (\<lambda>_. on_tree (activated env st t0 m rec)) (on_tree (same st t0))"
      unfolding activate_publication_def
    proof (rule triple_conseq [OF activate_triple [OF keeps_advance]])
      fix w show "on_tree (\<lambda>t. beside st t1 t \<and> tree_get t (active_file st) = tree_get t1 (active_file st)) w \<Longrightarrow>
        on_tree (same st t0) w"
        using old unfolding on_tree_def by blast
    qed (use new in \<open>auto simp only: on_tree_def\<close>)
  qed
  have weaken: "on_tree ?P w \<Longrightarrow> on_tree (same st t0) w" for w by (simp add: on_tree_def)
  have tail: "triple (on_tree ?P) (sbind (advance ActivatingStage) (\<lambda>_.
     sbind (activate_publication env st m) (\<lambda>_. sreturn \<lparr>po_disposition = d, po_generation = rec\<rparr>)))
    (\<lambda>out. on_tree (settled env st r t0 out)) (on_tree (same st t0))"
  proof (rule triple_bind [where Q = "\<lambda>_. on_tree ?P"])
    show "triple (on_tree ?P) (advance ActivatingStage) (\<lambda>_. on_tree ?P) (on_tree (same st t0))"
      by (rule triple_conseq [OF keeps_tree_triple [OF keeps_advance, where P = ?P]]) (use weaken in auto)
    show "triple (on_tree ?P) (sbind (activate_publication env st m) (\<lambda>_. sreturn \<lparr>po_disposition = d, po_generation = rec\<rparr>))
       (\<lambda>out. on_tree (settled env st r t0 out)) (on_tree (same st t0))"
      by (rule triple_bind [OF act]) (use m d in \<open>auto simp: triple_def sreturn_def on_tree_def settled_def\<close>)
  qed
  show ?thesis
  proof (rule triple_bind [where Q = "\<lambda>l. on_tree (\<lambda>t. ?P t \<and> l = rec)"])
    show "triple (on_tree ?P) (lease_record env rec) (\<lambda>l. on_tree (\<lambda>t. ?P t \<and> l = rec)) (on_tree (same st t0))"
      by (rule triple_conseq [OF lease_record_triple [where P = ?P]]) (use weaken in auto)
    fix l
    show "triple (on_tree (\<lambda>t. ?P t \<and> l = rec)) (sbind (advance ActivatingStage) (\<lambda>_.
       sbind (activate_publication env st m) (\<lambda>_. sreturn \<lparr>po_disposition = d, po_generation = l\<rparr>)))
      (\<lambda>out. on_tree (settled env st r t0 out)) (on_tree (same st t0))"
    proof (cases "l = rec")
      case True
      with tail show ?thesis by simp
    qed (simp add: triple_def on_tree_def)
  qed
qed

lemma publish_existing_triple:
  assumes env: "local_inspection env"
  shows "triple (on_tree (same st t0)) (publish_existing env st r)
    (\<lambda>out. on_tree (settled env st r t0 out)) (on_tree (same st t0))"
  unfolding publish_existing_def
proof (rule triple_bind [OF inspect_triple])
  let ?D = "generation_directory st (gb_generation (pr_binding r))"
  fix x :: "GenerationManifest \<times> GenerationRecord"
  obtain m rec where x: "x = (m, rec)" by (cases x)
  let ?P = "\<lambda>t. same st t0 t \<and> inspect_tree env (gs_source st) t ?D (Some (gb_generation (pr_binding r))) = Ok (m, rec)"
  have "triple (on_tree ?P) (sbind (swhen (m \<noteq> manifest_from_request r) GenerationOccupied) (\<lambda>_.
     sbind (lease_record env rec) (\<lambda>generation.
     sbind (advance ActivatingStage) (\<lambda>_.
     sbind (activate_publication env st m) (\<lambda>_.
     sreturn \<lparr>po_disposition = ActivatedExisting, po_generation = generation\<rparr>)))))
    (\<lambda>out. on_tree (settled env st r t0 out)) (on_tree (same st t0))"
  proof (cases "m = manifest_from_request r")
    case True
    with finish_triple [OF env True, of ActivatedExisting st t0 rec] show ?thesis
      by (simp add: swhen_def)
  qed (simp add: triple_def swhen_def sfail_def sbind_def on_tree_def)
  then show "triple (case x of (m, rec) \<Rightarrow> on_tree (\<lambda>t. same st t0 t \<and>
       inspect_tree env (gs_source st) t ?D (Some (gb_generation (pr_binding r))) = Ok (m, rec)))
     (case x of (m, rec) \<Rightarrow> sbind (swhen (m \<noteq> manifest_from_request r) GenerationOccupied) (\<lambda>_.
     sbind (lease_record env rec) (\<lambda>generation.
     sbind (advance ActivatingStage) (\<lambda>_.
     sbind (activate_publication env st m) (\<lambda>_.
     sreturn \<lparr>po_disposition = ActivatedExisting, po_generation = generation\<rparr>)))))
    (\<lambda>out. on_tree (settled env st r t0 out)) (on_tree (same st t0))"
    by (simp only: x prod.case)
qed

section \<open>Publishing a new generation\<close>

definition reserved :: "GenerationStore \<Rightarrow> path \<Rightarrow> path \<Rightarrow> path \<Rightarrow> bool" where
  "reserved st staging destination q \<longleftrightarrow>
     prefix (candidates_root st) q \<or> prefix staging q \<or> prefix destination q"

lemma reserved_closed: "closed_below (reserved st staging destination)"
  unfolding closed_below_def reserved_def using prefix_order.trans by blast

lemma staging_triple:
  "triple (on_tree (same st t0)) (s_create_temporary (generations_dir st) c SDir)
     (\<lambda>staging. on_tree (\<lambda>t. same st t0 t \<and> (\<exists>n. staging = generations_dir st @ [c @ n]
        \<and> tree_get t0 (generations_dir st @ [c @ n]) = None))) (on_tree (same st t0))"
proof (rule create_temporary_triple)
  fix t n assume t: "same st t0 t" and free: "tree_get t (generations_dir st @ [c @ n]) = None"
  let ?s = "generations_dir st @ [c @ n]"
  have none: "tree_get t0 ?s = None"
    using t free guarded_directory [of t0 st "c @ n"] by (cases "tree_get t0 ?s") (auto simp: same_def)
  then have "\<not> guarded st t0 ?s" by (rule sibling_not_guarded) simp
  with t have "same st t0 (tree_put ?s SDir t)" by (auto simp: same_def tree_get_put)
  with none show "same st t0 (tree_put ?s SDir t) \<and> (\<exists>k. ?s = generations_dir st @ [c @ k]
      \<and> tree_get t0 (generations_dir st @ [c @ k]) = None)" by blast
qed

lemma seal_triple:
  assumes free: "tree_get t0 (generation_directory st g) = None"
    and source: "prefix (candidates_root st) source" and index: "prefix (candidates_root st) index"
  shows "triple (on_tree (\<lambda>t. same st t0 t \<and> (\<exists>n. staging = generations_dir st @ [c @ n]
        \<and> tree_get t0 (generations_dir st @ [c @ n]) = None)))
     (s_with_temporary env staging (seal_staging env st staging source index m (generation_directory st g)))
     (\<lambda>_. on_tree (same st t0)) (on_tree (same st t0))"
proof (cases "\<exists>n. staging = generations_dir st @ [c @ n] \<and> tree_get t0 (generations_dir st @ [c @ n]) = None")
  case True
  let ?Z = "reserved st staging (generation_directory st g)"
  have "\<not> ?Z q" if "guarded st t0 q" for q
    using that candidates_not_guarded [of st q t0] True sibling_not_guarded [of t0 st _ q] free
    unfolding reserved_def generation_directory_def by metis
  moreover have "?Z staging" "?Z source" "?Z index" "?Z (generation_directory st g)"
    using source index by (simp_all add: reserved_def)
  then have "within ?Z (s_with_temporary env staging
      (seal_staging env st staging source index m (generation_directory st g)))"
    by (intro within_with_temporary within_seal_staging reserved_closed)
  ultimately have "triple (on_tree (same st t0)) (s_with_temporary env staging
      (seal_staging env st staging source index m (generation_directory st g)))
     (\<lambda>_. on_tree (same st t0)) (on_tree (same st t0))"
    unfolding same_def by (intro within_triple)
  with True show ?thesis by simp
next
  case False
  then show ?thesis unfolding triple_def on_tree_def by blast
qed

lemma triple_seq_when:
  assumes "keeps_tree m" and "\<And>w x w'. m w = (Ok x, w') \<Longrightarrow> A x"
    and "\<And>x. A x \<Longrightarrow> triple (on_tree P) (f x) R (on_tree P)"
  shows "triple (on_tree P) (sbind m f) R (on_tree P)"
proof (rule triple_bind [where Q = "\<lambda>x w. A x \<and> on_tree P w"])
  show "triple (on_tree P) m (\<lambda>x w. A x \<and> on_tree P w) (on_tree P)"
  proof (rule tripleI)
    fix w x w' e assume "on_tree P w"
    moreover have "sw_tree (snd (m w)) = sw_tree w" using assms(1) by (simp add: keeps_tree_def)
    ultimately have "m w = (r, w') \<Longrightarrow> on_tree P w'" for r by (simp add: on_tree_def)
    then show "m w = (Ok x, w') \<Longrightarrow> A x \<and> on_tree P w'" "m w = (Err e, w') \<Longrightarrow> on_tree P w'"
      "m w = (Panic, w') \<Longrightarrow> on_tree P w'" using assms(2) by blast+
  qed
  show "triple (\<lambda>w. A x \<and> on_tree P w) (f x) R (on_tree P)" for x
    using assms(3) [of x] by (auto simp: triple_def)
qed

lemma publish_new_triple:
  assumes env: "local_inspection env"
    and free: "tree_get t0 (generation_directory st (gb_generation (pr_binding r))) = None"
  shows "triple (on_tree (same st t0)) (publish_new env st r)
    (\<lambda>out. on_tree (settled env st r t0 out)) (on_tree (same st t0))"
proof -
  let ?g = "gb_generation (pr_binding r)"
  let ?D = "generation_directory st ?g"
  let ?m = "manifest_from_request r"
  let ?S = "same st t0"
  let ?finish = "\<lambda>record. sbind (lease_record env record) (\<lambda>generation.
      sbind (advance ActivatingStage) (\<lambda>_.
      sbind (activate_publication env st ?m) (\<lambda>_.
      sreturn \<lparr>po_disposition = Published, po_generation = generation\<rparr>)))"
  let ?R = "\<lambda>out. on_tree (settled env st r t0 out)"
  have inspected: "triple (on_tree ?S) (sbind (inspect_generation env st ?g) (\<lambda>(sealed, record).
      sbind (swhen (sealed \<noteq> ?m) StoreUnavailable) (\<lambda>_. ?finish record))) ?R (on_tree ?S)"
  proof (rule triple_bind [OF inspect_triple])
    fix x :: "GenerationManifest \<times> GenerationRecord"
    obtain sealed rec where x: "x = (sealed, rec)" by (cases x)
    let ?P = "\<lambda>t. ?S t \<and> inspect_tree env (gs_source st) t ?D (Some ?g) = Ok (sealed, rec)"
    have "triple (on_tree ?P) (sbind (swhen (sealed \<noteq> ?m) StoreUnavailable) (\<lambda>_. ?finish rec)) ?R (on_tree ?S)"
    proof (cases "sealed = ?m")
      case True
      with finish_triple [OF env True, of Published st t0 rec] show ?thesis by (simp add: swhen_def)
    qed (simp add: triple_def swhen_def sfail_def sbind_def on_tree_def)
    then show "triple (case x of (m, rec) \<Rightarrow> on_tree (\<lambda>t. ?S t \<and>
        inspect_tree env (gs_source st) t ?D (Some ?g) = Ok (m, rec)))
      (case x of (sealed, record) \<Rightarrow>
        sbind (swhen (sealed \<noteq> ?m) StoreUnavailable) (\<lambda>_. ?finish record)) ?R (on_tree ?S)"
      by (simp only: x prod.case)
  qed
  have sealed: "triple (on_tree ?S)
      (sbind (s_create_temporary (generations_dir st) GENERATION_STAGE_PREFIX SDir) (\<lambda>staging.
       sbind (s_with_temporary env staging (seal_staging env st staging source index ?m ?D)) (\<lambda>_.
       sbind s_sync (\<lambda>_. sbind (inspect_generation env st ?g) (\<lambda>(sealed, record).
         sbind (swhen (sealed \<noteq> ?m) StoreUnavailable) (\<lambda>_. ?finish record)))))) ?R (on_tree ?S)"
    if "prefix (candidates_root st) source \<and> prefix (candidates_root st) index" for source index
    by (rule triple_bind [OF staging_triple triple_bind [OF seal_triple [OF free] triple_seq [OF keeps_sync inspected]]])
      (use that in simp_all)
  show ?thesis
    unfolding publish_new_def Let_def
    by (rule triple_seq_when [OF keeps_candidates,
          where A = "\<lambda>(a, b). prefix (candidates_root st) a \<and> prefix (candidates_root st) b"])
      (use candidates_below in \<open>auto intro!: triple_seq [OF keeps_same_filesystem] sealed\<close>)
qed

text \<open>What a request expects to be absent is read from the tree.\<close>

lemma present_triple:
  "triple (on_tree ((=) t0)) (s_present p) (\<lambda>b. on_tree (\<lambda>t. t = t0 \<and> b = (tree_get t0 p \<noteq> None))) (on_tree ((=) t0))"
proof -
  have "triple (on_tree ((=) t0)) (\<lambda>w. (Ok (tree_get (sw_tree w) p \<noteq> None), w))
      (\<lambda>b. on_tree (\<lambda>t. t = t0 \<and> b = (tree_get t0 p \<noteq> None))) (on_tree ((=) t0))"
    by (simp add: triple_def on_tree_def)
  then show ?thesis unfolding s_present_def sread_def by (rule triple_call)
qed

lemma triple_same:
  "triple (on_tree (same st t0)) m Q (on_tree (same st t0)) \<Longrightarrow> triple (on_tree ((=) t0)) m Q (on_tree (same st t0))"
  by (erule triple_conseq) (auto simp: on_tree_def)

lemma triple_seq_same:
  assumes m: "keeps_tree m" and f: "\<And>x. triple (on_tree ((=) t0)) (f x) R (on_tree (same st t0))"
  shows "triple (on_tree ((=) t0)) (sbind m f) R (on_tree (same st t0))"
proof (rule triple_bind [where Q = "\<lambda>_. on_tree ((=) t0)"])
  show "triple (on_tree ((=) t0)) m (\<lambda>_. on_tree ((=) t0)) (on_tree (same st t0))"
    by (rule triple_conseq [OF keeps_tree_triple [OF m, where P = "(=) t0"]]) (auto simp: on_tree_def)
qed (rule f)

lemma publish_changed_triple:
  assumes env: "local_inspection env"
  shows "triple (on_tree ((=) t0)) (publish_changed env st r current)
    (\<lambda>out. on_tree (settled env st r t0 out)) (on_tree (same st t0))"
proof -
  let ?D = "generation_directory st (gb_generation (pr_binding r))"
  let ?R = "\<lambda>out. on_tree (settled env st r t0 out)"
  let ?E = "on_tree (same st t0)"
  have guard: "triple (on_tree ((=) t0)) (swhen c e) (\<lambda>_. on_tree ((=) t0)) ?E" for c e
    by (rule triple_conseq [OF keeps_tree_triple [OF keeps_when, where P = "(=) t0"]]) (auto simp: on_tree_def)
  have present: "triple (on_tree ((=) t0)) (s_present ?D) (\<lambda>b. on_tree (\<lambda>t. t = t0 \<and> b = (tree_get t0 ?D \<noteq> None))) ?E"
    by (rule triple_conseq [OF present_triple]) (auto simp: on_tree_def)
  have work: "triple (on_tree (\<lambda>t. t = t0 \<and> b = (tree_get t0 ?D \<noteq> None)))
      (if b then publish_existing env st r else publish_new env st r) ?R ?E" for b
  proof (cases "b = (tree_get t0 ?D \<noteq> None)")
    case True
    have "triple (on_tree ((=) t0)) (if b then publish_existing env st r else publish_new env st r) ?R ?E"
    proof (cases b)
      case present: True
      show ?thesis using present triple_same [OF publish_existing_triple [OF env]] by simp
    next
      case absent: False
      then have "tree_get t0 ?D = None" using True by simp
      then show ?thesis using absent triple_same [OF publish_new_triple [OF env]] by simp
    qed
    then show ?thesis by (rule triple_conseq) (auto simp: on_tree_def)
  qed (auto simp: triple_def on_tree_def)
  have report: "triple (?R out) (sbind (report_stage CompleteStage) (\<lambda>_. sreturn out)) ?R ?E" for out
    by (simp add: triple_def sbind_def report_stage_def sreturn_def on_tree_def)
  show ?thesis
    unfolding publish_changed_def
    by (rule triple_bind [OF guard triple_bind [OF present triple_bind [OF work report]]])
qed

lemma already_active_disposition:
  "already_active env st r l w = (Ok out, w') \<Longrightarrow> po_disposition out = AlreadyActive"
  by (auto simp: already_active_def sbind_def sfail_def sreturn_def split: prod.splits outcome.splits if_splits)

lemma publish_triple:
  assumes env: "local_inspection env"
  shows "triple (on_tree ((=) t0)) (publish env st r)
    (\<lambda>out. on_tree (settled env st r t0 out)) (on_tree (same st t0))"
proof -
  let ?R = "\<lambda>out. on_tree (settled env st r t0 out)"
  let ?E = "on_tree (same st t0)"
  have already: "triple (on_tree ((=) t0)) (already_active env st r l) ?R ?E" for l
  proof (rule tripleI)
    fix w out w' e assume w: "on_tree ((=) t0) w"
    have "sw_tree (snd (already_active env st r l w)) = sw_tree w"
      using keeps_already [of env st r l] unfolding keeps_tree_def by blast
    with w have t: "already_active env st r l w = (res, w') \<Longrightarrow> sw_tree w' = t0" for res by (simp add: on_tree_def)
    then show "already_active env st r l w = (Err e, w') \<Longrightarrow> ?E w'"
      "already_active env st r l w = (Panic, w') \<Longrightarrow> ?E w'" by (simp_all add: on_tree_def)
    show "already_active env st r l w = (Ok out, w') \<Longrightarrow> ?R out w'"
      using t [of "Ok out"] already_active_disposition [of env st r l w out w'] by (simp add: on_tree_def settled_def)
  qed
  have work: "triple (on_tree ((=) t0)) (case current of
         Some active \<Rightarrow>
           if gr_binding active = pr_binding r then already_active env st r active
           else publish_changed env st r (Some (gb_generation (gr_binding active)))
       | None \<Rightarrow> publish_changed env st r None) ?R ?E" for current
    by (cases current) (simp_all add: already publish_changed_triple [OF env])
  show ?thesis
    unfolding publish_def
    by (intro triple_seq_same keeps_when keeps_locks keeps_advance keeps_lease) (rule work)
qed

text \<open>C2. Publication is crash safe and never activates an uninspected generation.  Under
  every schedule of faults, cancellations and temporary names, a publication that ends in
  an error leaves the active pointer and every generation that was in the store before
  exactly as they were.  One that succeeds has either changed none of them (the manifest
  was already active), or the active pointer is the request's manifest, and inspecting
  that generation in the final tree gives this manifest and the record it returned; the
  other generations are as they were.\<close>

theorem publish_activates_only_inspected:
  "local_inspection env \<Longrightarrow> publish env st r w = (res, w') \<Longrightarrow>
   (case res of
      Ok out \<Rightarrow> settled env st r (sw_tree w) out (sw_tree w')
    | _ \<Rightarrow> same st (sw_tree w) (sw_tree w'))"
  using publish_triple [of env "sw_tree w" st r]
  by (cases res) (auto simp: triple_def on_tree_def split: prod.splits)

section \<open>An environment and a store\<close>

definition sample_snapshot :: "path \<Rightarrow> SnapshotOutcome" where
  "sample_snapshot d =
     \<lparr>sn_source = sample_source, sn_revision = replicate 40 (CHR ''a''), sn_notes_folder = ''notes'',
      sn_content_root = d @ [SNAPSHOT_CONTENT_DIRECTORY], sn_entries = 2, sn_files = 1, sn_org_files = 1,
      sn_assets = 0, sn_bytes = 10, sn_diagnostics = []\<rparr>"

definition sample_index :: "path \<Rightarrow> StagedIndexOutcome" where
  "sample_index d =
     \<lparr>ix_source = sample_source, ix_revision = replicate 40 (CHR ''a''), ix_previous_revision = None,
      ix_notes_folder = ''notes'', ix_index_schema = 1, ix_database = d @ [STAGED_INDEX_DATABASE_FILE],
      ix_stats = \<lparr>st_files_indexed = 1, st_nodes_indexed = 1, st_links_indexed = 0\<rparr>,
      ix_parsed_org_files = 1, ix_removed_file_paths = 0\<rparr>"

definition sample_store :: GenerationStore where
  "sample_store = \<lparr>gs_source = sample_source, gs_root = [''s'']\<rparr>"

definition sample_request :: PublishGenerationRequest where
  "sample_request =
     \<lparr>pr_source_record = sample_record,
      pr_binding = \<lparr>gb_source = sample_source, gb_generation = ''g1''\<rparr>, pr_expected_active = None,
      pr_snapshot = sample_snapshot [''s'', ''candidates'', ''a''], pr_index = sample_index [''s'', ''candidates'', ''b'']\<rparr>"

definition sample_env :: store_env where
  "sample_env =
     \<lparr>en_locks = (\<lambda>_. Free), en_device = (\<lambda>_. 0), en_encode = (\<lambda>m. gb_generation (gm_binding m)),
      en_decode = (\<lambda>b. if b = ''g1'' then Some (manifest_from_request sample_request) else None),
      en_encode_owner = (\<lambda>_. ''o''),
      en_decode_owner = (\<lambda>_. Some \<lparr>sm_version = 1, sm_source = sample_source\<rparr>),
      en_snapshot = (\<lambda>t d. if tree_get t d = Some SDir then Some (sample_snapshot d) else None),
      en_index = (\<lambda>t d. if tree_get t d = Some SDir then Ok (sample_index d) else Err SixStorageFailed),
      en_order = (\<lambda>ns. ns), en_survives = (\<lambda>_. False), en_link_length = (\<lambda>_. 0), en_available = (\<lambda>_. None)\<rparr>"

text \<open>The generation is in the store, nothing is active yet.\<close>

definition sample_tree :: tree where
  "sample_tree =
     [([''s''], SDir), ([''s'', PUBLICATION_LOCK_FILE], SFile []), ([''s'', RECOVERY_LOCK_FILE], SFile []),
      ([''s'', GENERATIONS_DIRECTORY], SDir), ([''s'', GENERATIONS_DIRECTORY, ''g1''], SDir),
      ([''s'', GENERATIONS_DIRECTORY, ''g1'', GENERATION_READER_LOCK_FILE], SFile []),
      ([''s'', GENERATIONS_DIRECTORY, ''g1'', GENERATION_MANIFEST_FILE], SFile ''g1''),
      ([''s'', GENERATIONS_DIRECTORY, ''g1'', GENERATION_SOURCE_DIRECTORY], SDir),
      ([''s'', GENERATIONS_DIRECTORY, ''g1'', GENERATION_INDEX_DIRECTORY], SDir)]"

definition sample_world :: "PublicationStage list \<Rightarrow> store_world" where
  "sample_world stages =
     \<lparr>sw_tree = sample_tree, sw_faults = [], sw_cancel = [], sw_stages = stages, sw_names = [''x'']\<rparr>"

definition sample_generation :: GenerationRecord where
  "sample_generation =
     (let d = generation_directory sample_store ''g1'' in
      generation_record d (manifest_from_request sample_request)
        (sample_snapshot (d @ [GENERATION_SOURCE_DIRECTORY])) (sample_index (d @ [GENERATION_INDEX_DIRECTORY])))"

abbreviation sample_manifest :: GenerationManifest where
  "sample_manifest \<equiv> manifest_from_request sample_request"

abbreviation sample_directory :: path where
  "sample_directory \<equiv> generation_directory sample_store ''g1''"

lemma sample_lookups:
  "tree_get sample_tree sample_directory = Some SDir" "canonical sample_tree sample_directory"
  "storage_path_is_admitted sample_directory"
  "tree_get sample_tree (sample_directory @ [GENERATION_READER_LOCK_FILE]) = Some (SFile [])"
  "tree_get sample_tree (sample_directory @ [GENERATION_MANIFEST_FILE]) = Some (SFile ''g1'')"
  "tree_get sample_tree (sample_directory @ [GENERATION_SOURCE_DIRECTORY]) = Some SDir"
  "tree_get sample_tree (sample_directory @ [GENERATION_INDEX_DIRECTORY]) = Some SDir"
  "tree_get sample_tree (active_file sample_store) = None"
  "tree_get sample_tree (gs_root sample_store @ [''.tmpx'']) = None"
  "tree_get sample_tree (butlast (active_file sample_store)) = Some SDir"
  "butlast (active_file sample_store) \<noteq> gs_root sample_store @ [''.tmpx'']"
  "active_file sample_store \<noteq> gs_root sample_store @ [''.tmpx'']"
  "\<not> prefix (gs_root sample_store @ [''.tmpx'']) (active_file sample_store)"
  "\<not> prefix (active_file sample_store) (gs_root sample_store @ [''.tmpx''])"
  "\<not> prefix (active_file sample_store) (gs_root sample_store)"
  by code_simp+

lemma sample_admitted:
  "validate_generation_manifest sample_manifest sample_source = Ok ()"
  "snapshot_agrees (sample_snapshot d) sample_manifest" "index_agrees (sample_index d) sample_manifest"
  by (code_simp, simp_all add: snapshot_agrees_def index_agrees_def manifest_from_request_def sample_request_def
      sample_snapshot_def sample_index_def)

lemma sample_ids:
  "gb_source (pr_binding sample_request) = gs_source sample_store" "gs_source sample_store = sample_source"
  "gb_generation (pr_binding sample_request) = ''g1''" "pr_expected_active sample_request = None"
  by (simp_all add: sample_request_def sample_store_def)

lemma sample_inspection:
  "inspect_tree sample_env (gs_source sample_store) sample_tree sample_directory (Some ''g1'') =
     Ok (sample_manifest, sample_generation)"
  by (simp add: inspect_tree_def sample_lookups decode_file_def sample_env_def sample_ids sample_admitted opt_all_def
      MAX_GENERATION_MANIFEST_BYTES_def ok_or_def sample_generation_def Let_def)

lemma sample_inspect:
  "inspect_generation sample_env sample_store ''g1'' (sample_world stages) =
     (Ok (sample_manifest, sample_generation), sample_world stages)"
  by (simp add: inspect_generation_def inspect_generation_directory_def sbind_def unavailable_def sreturn_def
      next_fault_def sample_world_def sample_inspection)

lemma sample_steps:
  "publication_lock_acquire sample_env sample_store (sample_world []) = (Ok (), sample_world [])"
  "advance PreparingStage (sample_world []) = (Ok (), sample_world [PreparingStage])"
  "lease sample_env sample_store (sample_world [PreparingStage]) = (Ok None, sample_world [PreparingStage])"
  "s_present (generation_directory sample_store ''g1'') (sample_world [PreparingStage]) = (Ok True, sample_world [PreparingStage])"
  "lease_record sample_env sample_generation (sample_world [PreparingStage]) = (Ok sample_generation, sample_world [PreparingStage])"
  "advance ActivatingStage (sample_world [PreparingStage]) = (Ok (), sample_world [PreparingStage, ActivatingStage])"
  by code_simp+

lemma sample_activation:
  "activate_publication sample_env sample_store m (sample_world stages) = replace_manifest sample_env sample_store (active_file sample_store) m (sample_world stages)"
  by (simp add: activate_publication_def activate_steps_def sbind_def s_present_def sread_def scall_def next_fault_def
      sample_world_def sample_lookups sreturn_def)

lemma sample_replacement:
  "fst (replace_manifest sample_env sample_store (active_file sample_store) sample_manifest (sample_world stages)) = Ok ()"
  by (simp add: replace_manifest_def sbind_def stry_def sread_def scall_def next_fault_def sample_world_def
      sample_lookups sreturn_def swhen_def encoded_json_def s_create_temporary_def Let_def s_with_temporary_def
      sample_env_def sample_ids MAX_GENERATION_MANIFEST_BYTES_def s_put_def s_sync_def s_rename_def tree_get_put)

lemma sample_env_local: "local_inspection sample_env"
  unfolding local_inspection_def sample_env_def by (simp add: near_def)

theorem publish_activates_only_inspected_witness:
  "\<exists>out w'. publish sample_env sample_store sample_request (sample_world []) = (Ok out, w')
     \<and> po_disposition out = ActivatedExisting
     \<and> settled sample_env sample_store sample_request sample_tree out (sw_tree w')"
proof -
  let ?out = "\<lparr>po_disposition = ActivatedExisting, po_generation = sample_generation\<rparr>"
  obtain w where act: "activate_publication sample_env sample_store (manifest_from_request sample_request)
     (sample_world [PreparingStage, ActivatingStage]) = (Ok (), w)"
    using sample_replacement unfolding sample_activation by (metis prod.collapse)
  obtain w' where run: "publish sample_env sample_store sample_request (sample_world []) = (Ok ?out, w')"
    by (simp add: publish_def publish_changed_def publish_existing_def swhen_def report_stage_def
        sample_ids sample_steps sample_inspect act sbind_def [of "publication_lock_acquire sample_env sample_store"]
        sbind_def sreturn_def)
  from publish_activates_only_inspected [OF sample_env_local run] run
  show ?thesis by (auto simp: sample_world_def)
qed

end
