(* ===== verification/Utf8.thy ===== *)
theory Utf8
  imports RustStr
begin

text \<open>
  Well-formed UTF-8, the test behind \<open>OsStr::to_str\<close>, \<open>String::from_utf8\<close> and
  \<open>BufRead::read_line\<close>: the byte ranges of the Unicode standard's table of
  well-formed sequences, without surrogates and over-long forms.
\<close>

definition byte_in :: "char \<Rightarrow> nat \<Rightarrow> nat \<Rightarrow> bool" where
  "byte_in c a b \<longleftrightarrow> a \<le> of_char c \<and> of_char c \<le> b"

fun utf8_tail :: "nat \<Rightarrow> string \<Rightarrow> string option" where
  "utf8_tail 0 s = Some s"
| "utf8_tail (Suc n) [] = None"
| "utf8_tail (Suc n) (c # s) = (if byte_in c 128 191 then utf8_tail n s else None)"

fun utf8_step :: "char \<Rightarrow> string \<Rightarrow> string option" where
  "utf8_step b s =
     (let second = (\<lambda>lo hi n. case s of c # s' \<Rightarrow> if byte_in c lo hi then utf8_tail n s' else None | [] \<Rightarrow> None) in
      if byte_in b 0 127 then Some s
      else if byte_in b 194 223 then utf8_tail 1 s
      else if byte_in b 224 224 then second 160 191 1
      else if byte_in b 225 236 \<or> byte_in b 238 239 then utf8_tail 2 s
      else if byte_in b 237 237 then second 128 159 1
      else if byte_in b 240 240 then second 144 191 2
      else if byte_in b 241 243 then utf8_tail 3 s
      else if byte_in b 244 244 then second 128 143 2
      else None)"

fun utf8_within :: "nat \<Rightarrow> string \<Rightarrow> bool" where
  "utf8_within n [] = True"
| "utf8_within 0 (b # s) = False"
| "utf8_within (Suc n) (b # s) = (case utf8_step b s of Some s' \<Rightarrow> utf8_within n s' | None \<Rightarrow> False)"

definition utf8_valid :: "string \<Rightarrow> bool" where
  "utf8_valid s = utf8_within (length s) s"

lemma ascii_utf8: "list_all (\<lambda>c. of_char c < (128::nat)) s \<Longrightarrow> length s \<le> n \<Longrightarrow> utf8_within n s"
proof (induction s arbitrary: n)
  case (Cons c s)
  then obtain k where "n = Suc k" by (cases n) auto
  with Cons show ?case by (simp add: Let_def byte_in_def)
qed simp

end
