(* ===== verification/Recovery.thy ===== *)
theory Recovery
  imports GenerationStore Utf8
begin

text \<open>
  Startup recovery and bounded reclamation (\<open>crates/slipbox-sync/src/publication/recovery.rs\<close>)
  over the store's directory tree and fault schedule.  Listing a directory yields the
  names present when it is opened, in the environment's order.  Errors the source
  discards (\<open>Err(())\<close>) are \<open>PubStorageFailed\<close>.  The recursion of \<open>remove_tree\<close> is bounded by
  the depth of the tree, which no directory reaches.
\<close>

section \<open>Vocabulary\<close>

definition MAX_RECOVERY_DIRECTORY_ENTRIES :: nat where "MAX_RECOVERY_DIRECTORY_ENTRIES = 4096"
definition MAX_RECOVERY_TREE_ENTRIES :: nat where "MAX_RECOVERY_TREE_ENTRIES = 1000000"

datatype RecoveryDisposition = NoReadyGeneration | ReadyUnchanged | PublicationCompleted | RetainedRestored

datatype RecoveryNoticeKind =
    ActiveGenerationCorrupt | RetainedGenerationCorrupt | InterruptedPublication
  | CandidateGenerationCorrupt | IndexRebuildRequired | ConflictingPublications
  | StoragePressure | CleanupDeferred

datatype RecoveryAction = RetryImport | RebuildIndex | RefetchSource | FreeStorage | ReleaseReaders

record RecoveryNotice =
  rn_kind :: RecoveryNoticeKind
  rn_action :: RecoveryAction
  rn_generation :: "string option"
  rn_available_bytes :: "nat option"
  rn_required_bytes :: "nat option"

record RecoveryOutcome =
  ro_disposition :: RecoveryDisposition
  ro_ready :: "GenerationLease option"
  ro_reclaimed_generations :: nat
  ro_reclaimed_candidates :: nat
  ro_deferred_leased_generations :: nat
  ro_reclaimed_bytes :: nat
  ro_available_bytes :: "nat option"
  ro_notices :: "RecoveryNotice list"

record InspectedGeneration =
  ig_path :: path
  ig_manifest :: GenerationManifest
  ig_record :: GenerationRecord
  ig_staged :: bool

datatype InvalidReason = InvalidUnavailable | InvalidRebuildRequired

record InvalidGeneration =
  iv_generation :: "string option"
  iv_reason :: InvalidReason
  iv_staged :: bool
  iv_has_manifest :: bool

record GenerationScan =
  gc_regular :: "(string, InspectedGeneration) btree"
  gc_staged :: "InspectedGeneration list"
  gc_invalid :: "InvalidGeneration list"

datatype PointerState = PointerMissing | PointerCorrupt | PointerManifest GenerationManifest

abbreviation generation_of :: "GenerationManifest \<Rightarrow> string" where
  "generation_of m \<equiv> gb_generation (gm_binding m)"

definition recovery_notice :: "RecoveryNoticeKind \<Rightarrow> RecoveryAction \<Rightarrow> string option \<Rightarrow> RecoveryNotice" where
  "recovery_notice kind action generation =
     \<lparr>rn_kind = kind, rn_action = action, rn_generation = generation, rn_available_bytes = None, rn_required_bytes = None\<rparr>"

section \<open>Pointers\<close>

definition read_pointer :: "store_env \<Rightarrow> GenerationStore \<Rightarrow> path \<Rightarrow> PointerState sio" where
  "read_pointer env st p =
     sbind (stry (s_present p)) (\<lambda>present. case present of
       Ok False \<Rightarrow> sreturn PointerMissing
     | Ok True \<Rightarrow>
         sbind (stry (read_json (en_decode env) p)) (\<lambda>r. sreturn (case r of
           Ok m \<Rightarrow> if validate_generation_manifest m (gs_source st) = Ok () then PointerManifest m else PointerCorrupt
         | _ \<Rightarrow> PointerCorrupt))
     | _ \<Rightarrow> sreturn PointerCorrupt)"

fun pointer_generation :: "PointerState \<Rightarrow> string option" where
  "pointer_generation (PointerManifest m) = Some (generation_of m)"
| "pointer_generation _ = None"

fun pointer_record ::
  "PointerState \<Rightarrow> (string, InspectedGeneration) btree \<Rightarrow> (GenerationManifest \<times> GenerationRecord) option" where
  "pointer_record (PointerManifest m) regular =
     (case bt_get regular (generation_of m) of
        Some i \<Rightarrow> if ig_manifest i = m then Some (ig_manifest i, ig_record i) else None
      | None \<Rightarrow> None)"
| "pointer_record _ regular = None"

definition retained_problem ::
  "(GenerationManifest \<times> GenerationRecord) option \<Rightarrow> PointerState \<Rightarrow>
   (GenerationManifest \<times> GenerationRecord) option \<Rightarrow> string option option" where
  "retained_problem active retained retained_record =
     (if retained_record \<noteq> None then None
      else case retained of
        PointerCorrupt \<Rightarrow> Some None
      | PointerManifest m \<Rightarrow> Some (Some (generation_of m))
      | PointerMissing \<Rightarrow>
          (case active of
             Some (m, _) \<Rightarrow> map_option Some (gm_expected_active m)
           | None \<Rightarrow> None))"

section \<open>Scanning the generations\<close>

primrec sfold :: "('a \<Rightarrow> 's \<Rightarrow> 's sio) \<Rightarrow> 'a list \<Rightarrow> 's \<Rightarrow> 's sio" where
  "sfold f [] s = sreturn s"
| "sfold f (x # xs) s = sbind (f x s) (sfold f xs)"

definition read_dir :: "store_env \<Rightarrow> PublicationError \<Rightarrow> path \<Rightarrow> string list sio" where
  "read_dir env e p = sread e (\<lambda>t. if tree_get t p = Some SDir then Ok (en_order env (tree_children t p)) else Err e)"

text \<open>The identity a directory name stands for.\<close>

definition admitted_generation :: "string \<Rightarrow> string option" where
  "admitted_generation name =
     (case generation_parse name of
        Ok g \<Rightarrow> if generation_id_is_admitted g then Some g else None
      | _ \<Rightarrow> None)"

definition add_invalid :: "InvalidGeneration \<Rightarrow> GenerationScan \<Rightarrow> GenerationScan" where
  "add_invalid i scan = scan\<lparr>gc_invalid := gc_invalid scan @ [i]\<rparr>"

definition unnamed_invalid :: InvalidGeneration where
  "unnamed_invalid = \<lparr>iv_generation = None, iv_reason = InvalidUnavailable, iv_staged = False, iv_has_manifest = False\<rparr>"

definition add_inspected :: "string option \<Rightarrow> InspectedGeneration \<Rightarrow> GenerationScan \<Rightarrow> GenerationScan" where
  "add_inspected generation i scan =
     (if ig_staged i then scan\<lparr>gc_staged := gc_staged scan @ [i]\<rparr>
      else case generation of
        Some g \<Rightarrow> scan\<lparr>gc_regular := bt_insert g i (gc_regular scan)\<rparr>
      | None \<Rightarrow> scan)"

definition scan_entry :: "store_env \<Rightarrow> GenerationStore \<Rightarrow> nat \<times> string \<Rightarrow> GenerationScan \<Rightarrow> GenerationScan sio" where
  "scan_entry env st entry scan =
     (case entry of (index, name) \<Rightarrow>
        if MAX_RECOVERY_DIRECTORY_ENTRIES \<le> index then sfail StoreUnavailable
        else
          sbind (scall StoreUnavailable (sreturn ())) (\<lambda>_.
          let p = generations_dir st @ [name];
              staged = prefix GENERATION_STAGE_PREFIX name;
              generation = (if staged then None else admitted_generation name) in
          if \<not> utf8_valid name \<or> \<not> staged \<and> generation = None then sreturn (add_invalid unnamed_invalid scan)
          else
            sbind (inspect_generation_directory env st p generation) (\<lambda>r. case r of
              Ok (m, record) \<Rightarrow>
                sreturn (add_inspected generation
                  \<lparr>ig_path = p, ig_manifest = m, ig_record = record, ig_staged = staged\<rparr> scan)
            | Err e \<Rightarrow>
                sbind (stry (s_present (p @ [GENERATION_MANIFEST_FILE]))) (\<lambda>present.
                sreturn (add_invalid
                  \<lparr>iv_generation = generation,
                   iv_reason = (case e of InsUnavailable \<Rightarrow> InvalidUnavailable | InsRebuildRequired \<Rightarrow> InvalidRebuildRequired),
                   iv_staged = staged, iv_has_manifest = (present = Ok True)\<rparr> scan))
            | Panic \<Rightarrow> sreturn scan)))"

definition scan_generations :: "store_env \<Rightarrow> GenerationStore \<Rightarrow> GenerationScan sio" where
  "scan_generations env st =
     sbind (read_dir env StoreUnavailable (generations_dir st)) (\<lambda>names.
       sfold (scan_entry env st) (enumerate 0 names) \<lparr>gc_regular = [], gc_staged = [], gc_invalid = []\<rparr>)"


section \<open>Pending publications\<close>

definition promote_if_staged :: "store_env \<Rightarrow> GenerationStore \<Rightarrow> InspectedGeneration \<Rightarrow> InspectedGeneration sio" where
  "promote_if_staged env st candidate =
     (if \<not> ig_staged candidate then sreturn candidate
      else
        let g = generation_of (ig_manifest candidate); destination = generation_directory st g in
        sbind (s_present destination) (\<lambda>present.
        sbind (swhen present GenerationOccupied) (\<lambda>_.
        sbind (s_rename (ig_path candidate) destination) (\<lambda>_.
        sbind s_sync (\<lambda>_.
        sbind (inspect_generation env st g) (\<lambda>(m, record).
        sbind (swhen (m \<noteq> ig_manifest candidate) StoreUnavailable) (\<lambda>_.
        sreturn \<lparr>ig_path = destination, ig_manifest = m, ig_record = record, ig_staged = False\<rparr>)))))))"

fun select_loop ::
  "string option \<Rightarrow> string option \<Rightarrow> InspectedGeneration list \<Rightarrow>
   (string, InspectedGeneration) btree \<Rightarrow> bool \<Rightarrow> RecoveryNotice list \<Rightarrow>
   (string, InspectedGeneration) btree \<times> bool \<times> RecoveryNotice list" where
  "select_loop expected retained [] selected conflicting notices = (selected, conflicting, notices)"
| "select_loop expected retained (c # cs) selected conflicting notices =
     (let g = generation_of (ig_manifest c) in
      if Some g = expected \<or> Some g = retained \<or> gm_expected_active (ig_manifest c) \<noteq> expected
      then select_loop expected retained cs selected conflicting notices
      else case bt_get selected g of
        Some existing \<Rightarrow>
          if ig_manifest existing \<noteq> ig_manifest c
          then select_loop expected retained cs selected True
                 (notices @ [recovery_notice ConflictingPublications RetryImport (Some g)])
          else if \<not> ig_staged existing then select_loop expected retained cs selected conflicting notices
          else select_loop expected retained cs (bt_insert g c selected) conflicting notices
      | None \<Rightarrow> select_loop expected retained cs (bt_insert g c selected) conflicting notices)"

definition select_pending ::
  "GenerationScan \<Rightarrow> string option \<Rightarrow> PointerState \<Rightarrow> RecoveryNotice list \<Rightarrow>
   InspectedGeneration list \<times> RecoveryNotice list" where
  "select_pending scan expected retained notices =
     (case select_loop expected (pointer_generation retained) (map snd (gc_regular scan) @ gc_staged scan) [] False notices of
        (selected, conflicting, notices) \<Rightarrow> (if conflicting then [] else map snd selected, notices))"

section \<open>Reports\<close>

definition invalid_reason :: "GenerationScan \<Rightarrow> string \<Rightarrow> InvalidReason option" where
  "invalid_reason scan g = map_option iv_reason (find (\<lambda>i. iv_generation i = Some g) (gc_invalid scan))"

fun notice_kind_for_invalid :: "InvalidReason \<Rightarrow> RecoveryNoticeKind" where
  "notice_kind_for_invalid InvalidUnavailable = ActiveGenerationCorrupt"
| "notice_kind_for_invalid InvalidRebuildRequired = IndexRebuildRequired"

definition report_active_failure :: "PointerState \<Rightarrow> GenerationScan \<Rightarrow> RecoveryNotice list \<Rightarrow> RecoveryNotice list" where
  "report_active_failure active scan notices = (case active of
     PointerMissing \<Rightarrow> notices
   | PointerCorrupt \<Rightarrow> notices @ [recovery_notice ActiveGenerationCorrupt RefetchSource None]
   | PointerManifest m \<Rightarrow>
       let kind = (case invalid_reason scan (generation_of m) of
                     Some r \<Rightarrow> notice_kind_for_invalid r | None \<Rightarrow> ActiveGenerationCorrupt) in
       notices @ [recovery_notice kind (if kind = IndexRebuildRequired then RebuildIndex else RefetchSource)
                    (Some (generation_of m))])"

definition report_retained_failure :: "PointerState \<Rightarrow> GenerationScan \<Rightarrow> RecoveryNotice list \<Rightarrow> RecoveryNotice list" where
  "report_retained_failure retained scan notices = (case retained of
     PointerMissing \<Rightarrow> notices
   | PointerCorrupt \<Rightarrow> notices @ [recovery_notice RetainedGenerationCorrupt RefetchSource None]
   | PointerManifest m \<Rightarrow>
       if pointer_record retained (gc_regular scan) = None
       then notices @ [recovery_notice RetainedGenerationCorrupt RefetchSource (Some (generation_of m))]
       else notices)"

definition invalid_notice :: "InvalidGeneration \<Rightarrow> RecoveryNotice" where
  "invalid_notice i =
     (let kind = (if iv_reason i = InvalidRebuildRequired then IndexRebuildRequired
                  else if iv_staged i \<and> \<not> iv_has_manifest i then InterruptedPublication
                  else CandidateGenerationCorrupt) in
      recovery_notice kind (if kind = IndexRebuildRequired then RebuildIndex else RetryImport) (iv_generation i))"

definition report_invalid_candidates ::
  "GenerationScan \<Rightarrow> PointerState \<Rightarrow> PointerState \<Rightarrow> RecoveryNotice list \<Rightarrow> RecoveryNotice list" where
  "report_invalid_candidates scan active retained notices =
     notices @ map invalid_notice
       (filter (\<lambda>i. iv_generation i = None \<or>
           iv_generation i \<noteq> pointer_generation active \<and> iv_generation i \<noteq> pointer_generation retained)
         (gc_invalid scan))"

section \<open>Reclaiming\<close>

definition sat_add :: "nat \<Rightarrow> nat \<Rightarrow> nat" where
  "sat_add a b = nat (min (int a + int b) 18446744073709551615)"

definition s_unlink :: "path \<Rightarrow> unit sio" where
  "s_unlink p = scall PubStorageFailed (\<lambda>w.
     case tree_get (sw_tree w) p of
       None \<Rightarrow> (Err PubStorageFailed, w)
     | Some SDir \<Rightarrow> (Err PubStorageFailed, w)
     | Some _ \<Rightarrow> (Ok (), w\<lparr>sw_tree := tree_remove p (sw_tree w)\<rparr>))"

definition s_remove_dir :: "path \<Rightarrow> unit sio" where
  "s_remove_dir p = scall PubStorageFailed (\<lambda>w.
     if tree_get (sw_tree w) p = Some SDir \<and> tree_children (sw_tree w) p = []
     then (Ok (), w\<lparr>sw_tree := tree_remove p (sw_tree w)\<rparr>) else (Err PubStorageFailed, w))"

text \<open>The result is the number of bytes freed and the entries visited so far.\<close>

primrec remove_tree :: "nat \<Rightarrow> store_env \<Rightarrow> path \<Rightarrow> nat \<Rightarrow> (nat \<times> nat) sio" where
  "remove_tree 0 env p visited = sfail PubStorageFailed"
| "remove_tree (Suc n) env p visited =
     (if MAX_RECOVERY_TREE_ENTRIES < Suc visited then sfail PubStorageFailed
      else
        sbind (sread PubStorageFailed (\<lambda>t. ok_or PubStorageFailed (tree_get t p))) (\<lambda>metadata. case metadata of
          SDir \<Rightarrow>
            sbind (read_dir env PubStorageFailed p) (\<lambda>names.
            sbind (sfold (\<lambda>name (bytes, visited).
                     sbind (scall PubStorageFailed (sreturn ())) (\<lambda>_.
                     sbind (remove_tree n env (p @ [name]) visited) (\<lambda>(more, visited).
                     sreturn (sat_add bytes more, visited)))) names (0, Suc visited)) (\<lambda>result.
            sbind (s_remove_dir p) (\<lambda>_. sreturn result)))
        | SFile content \<Rightarrow> sbind (s_unlink p) (\<lambda>_. sreturn (length content, Suc visited))
        | SLink \<Rightarrow> sbind (s_unlink p) (\<lambda>_. sreturn (en_link_length env p, Suc visited))))"

definition tree_depth :: "tree \<Rightarrow> nat" where
  "tree_depth t = foldr (\<lambda>e n. max (length (fst e)) n) t 0"

record CleanupCounts =
  cc_generations :: nat
  cc_candidates :: nat
  cc_deferred :: nat
  cc_bytes :: nat

type_synonym cleanup = "CleanupCounts \<times> RecoveryNotice list"

definition cleanup_notice :: "RecoveryNotice \<Rightarrow> cleanup \<Rightarrow> cleanup" where
  "cleanup_notice n c = (fst c, snd c @ [n])"

definition reclaim_entry :: "store_env \<Rightarrow> path \<Rightarrow> bool \<Rightarrow> cleanup \<Rightarrow> cleanup sio" where
  "reclaim_entry env p is_generation c w =
     sbind (stry (remove_tree (Suc (tree_depth (sw_tree w))) env p 0)) (\<lambda>r. sreturn (case r of
       Ok (bytes, _) \<Rightarrow>
         ((if is_generation then (fst c)\<lparr>cc_generations := Suc (cc_generations (fst c))\<rparr>
           else (fst c)\<lparr>cc_candidates := Suc (cc_candidates (fst c))\<rparr>)
             \<lparr>cc_bytes := sat_add (cc_bytes (fst c)) bytes\<rparr>, snd c)
     | _ \<Rightarrow> cleanup_notice (recovery_notice CleanupDeferred FreeStorage None) c)) w"

text \<open>The reader locks this process holds itself, by its leases, refuse as others' do.\<close>

definition generation_is_leased :: "store_env \<Rightarrow> path set \<Rightarrow> path \<Rightarrow> bool sio" where
  "generation_is_leased env own directory =
     (let p = directory @ [GENERATION_READER_LOCK_FILE] in
      sbind (sread PubStorageFailed (\<lambda>t. Ok (tree_get t p))) (\<lambda>metadata. case metadata of
        Some (SFile _) \<Rightarrow>
          sbind (scall PubStorageFailed (sreturn ())) (\<lambda>_.
          sbind (scall PubStorageFailed (sreturn (en_locks env p \<noteq> Free \<or> p \<in> own))) (\<lambda>held.
          if held then sreturn True
          else sbind (scall PubStorageFailed (sreturn ())) (\<lambda>_. sreturn False)))
      | _ \<Rightarrow> sreturn False))"

definition bounded_entries :: "store_env \<Rightarrow> path \<Rightarrow> string list sio" where
  "bounded_entries env p =
     sbind (read_dir env StoreUnavailable p) (\<lambda>names.
     sfold (\<lambda>(index, name) entries.
        if MAX_RECOVERY_DIRECTORY_ENTRIES \<le> index then sfail StoreUnavailable
        else sbind (scall StoreUnavailable (sreturn ())) (\<lambda>_. sreturn (entries @ [name])))
       (enumerate 0 names) [])"

definition reclaim_generation ::
  "store_env \<Rightarrow> GenerationStore \<Rightarrow> path set \<Rightarrow> string list \<Rightarrow> string \<Rightarrow> cleanup \<Rightarrow> cleanup sio" where
  "reclaim_generation env st own preserve name c =
     (let p = generations_dir st @ [name];
          generation = (if utf8_valid name then admitted_generation name else None) in
      if utf8_valid name \<and> prefix GENERATION_STAGE_PREFIX name then reclaim_entry env p False c
      else case generation of
        None \<Rightarrow> reclaim_entry env p True c
      | Some g \<Rightarrow>
          if g \<in> set preserve then sreturn c
          else
            sbind (stry (generation_is_leased env own p)) (\<lambda>leased. case leased of
              Ok True \<Rightarrow>
                sreturn ((fst c)\<lparr>cc_deferred := Suc (cc_deferred (fst c))\<rparr>,
                   snd c @ [recovery_notice CleanupDeferred ReleaseReaders (Some g)])
            | Ok False \<Rightarrow> reclaim_entry env p True c
            | _ \<Rightarrow> sreturn (cleanup_notice (recovery_notice CleanupDeferred FreeStorage (Some g)) c)))"

text \<open>Entries of a directory, or none and a notice.\<close>

definition entries_or_notice :: "store_env \<Rightarrow> path \<Rightarrow> cleanup \<Rightarrow> (string list \<times> cleanup) sio" where
  "entries_or_notice env p c =
     sbind (stry (bounded_entries env p)) (\<lambda>r. sreturn (case r of
       Ok names \<Rightarrow> (names, c)
     | _ \<Rightarrow> ([], cleanup_notice (recovery_notice CleanupDeferred FreeStorage None) c)))"

definition reclaim ::
  "store_env \<Rightarrow> GenerationStore \<Rightarrow> path set \<Rightarrow> string list \<Rightarrow> RecoveryNotice list \<Rightarrow> cleanup sio" where
  "reclaim env st own preserve notices =
     sbind (entries_or_notice env (generations_dir st)
        (\<lparr>cc_generations = 0, cc_candidates = 0, cc_deferred = 0, cc_bytes = 0\<rparr>, notices)) (\<lambda>(names, c).
     sbind (sfold (reclaim_generation env st own preserve) names c) (\<lambda>c.
     sbind (entries_or_notice env (candidates_root st) c) (\<lambda>(names, c).
     let c = (if names \<noteq> [] \<and> \<not> list_ex (\<lambda>n. rn_kind n = InterruptedPublication) (snd c)
              then cleanup_notice (recovery_notice InterruptedPublication RetryImport None) c else c) in
     sbind (sfold (\<lambda>name. reclaim_entry env (candidates_root st @ [name]) False) names c) (\<lambda>c.
     sbind (stry s_sync) (\<lambda>a.
     sbind (if a = Ok () then stry s_sync else sreturn a) (\<lambda>b.
     sreturn (if b = Ok () then c else cleanup_notice (recovery_notice CleanupDeferred FreeStorage None) c)))))))"


section \<open>Recovery\<close>

type_synonym found = "(GenerationManifest \<times> GenerationRecord) option"

text \<open>A missing retained generation is supplied from the active manifest's predecessor.\<close>

definition predecessor :: "GenerationScan \<Rightarrow> found \<Rightarrow> InspectedGeneration option" where
  "predecessor scan active_record =
     (case active_record of
        Some (m, _) \<Rightarrow> (case gm_expected_active m of Some g \<Rightarrow> bt_get (gc_regular scan) g | None \<Rightarrow> None)
      | None \<Rightarrow> None)"

definition supply_retained ::
  "store_env \<Rightarrow> GenerationStore \<Rightarrow> GenerationScan \<Rightarrow> found \<Rightarrow> PointerState \<Rightarrow> found \<Rightarrow> (PointerState \<times> found) sio" where
  "supply_retained env st scan active_record retained retained_record =
     (case (if retained_record = None then predecessor scan active_record else None) of
        Some i \<Rightarrow>
          sbind (replace_manifest env st (retained_file st) (ig_manifest i)) (\<lambda>_.
          sreturn (PointerManifest (ig_manifest i), Some (ig_manifest i, ig_record i)))
      | None \<Rightarrow> sreturn (retained, retained_record))"

definition lease_found :: "store_env \<Rightarrow> found \<Rightarrow> GenerationLease option sio" where
  "lease_found env r = (case r of
     None \<Rightarrow> sreturn None
   | Some (_, record) \<Rightarrow> sbind (lease_record env record) (\<lambda>l. sreturn (Some l)))"

definition is_manifest :: "PointerState \<Rightarrow> bool" where
  "is_manifest p = (case p of PointerManifest _ \<Rightarrow> True | _ \<Rightarrow> False)"

text \<open>The regular generations, the lease, the disposition and the notices so far.\<close>

type_synonym progress =
  "GenerationScan \<times> GenerationLease option \<times> RecoveryDisposition \<times> RecoveryNotice list"

definition complete_publication ::
  "store_env \<Rightarrow> GenerationStore \<Rightarrow> GenerationScan \<Rightarrow> PointerState \<Rightarrow> found \<Rightarrow> PointerState \<Rightarrow> found \<Rightarrow>
   GenerationLease option \<Rightarrow> progress sio" where
  "complete_publication env st scan active active_record retained retained_record ready =
     (if \<not> (is_manifest active \<or> active = PointerMissing \<and> retained_record = None)
      then sreturn (scan, ready, ReadyUnchanged, [])
      else case select_pending scan (pointer_generation active) retained [] of
        ([], notices) \<Rightarrow> sreturn (scan, ready, ReadyUnchanged, notices)
      | ([candidate], notices) \<Rightarrow>
          sbind (promote_if_staged env st candidate) (\<lambda>candidate.
          sbind (lease_record env (ig_record candidate)) (\<lambda>candidate_lease.
          sbind (if active_record \<noteq> None then activate env st (ig_manifest candidate)
                 else activate_recovered env st (ig_manifest candidate)) (\<lambda>_.
          sreturn (scan\<lparr>gc_regular := bt_insert (generation_of (ig_manifest candidate)) candidate (gc_regular scan)\<rparr>,
             Some candidate_lease, PublicationCompleted, notices))))
      | (_, notices) \<Rightarrow>
          sreturn (scan, ready, ReadyUnchanged,
            notices @ [recovery_notice ConflictingPublications RetryImport None]))"

definition restore_retained ::
  "store_env \<Rightarrow> GenerationStore \<Rightarrow> PointerState \<Rightarrow> found \<Rightarrow> PointerState \<Rightarrow> found \<Rightarrow> progress \<Rightarrow> progress sio" where
  "restore_retained env st active active_record retained retained_record p =
     (case p of (scan, ready, disposition, notices) \<Rightarrow>
        if ready = None \<and> disposition \<noteq> PublicationCompleted then
          let notices = report_active_failure active scan notices in
          (case retained_record of
             Some (m, record) \<Rightarrow>
               sbind (lease_record env record) (\<lambda>l.
               sbind (activate_recovered env st m) (\<lambda>_.
               sreturn (scan, Some l, RetainedRestored, notices)))
           | None \<Rightarrow> sreturn (scan, ready, NoReadyGeneration, report_retained_failure retained scan notices))
        else if (\<not> is_manifest active \<or> active_record = None) \<and> disposition = PublicationCompleted
        then sreturn (scan, ready, disposition, report_active_failure active scan notices)
        else sreturn (scan, ready, disposition, notices))"

definition pointer_names_of :: "PointerState \<Rightarrow> string list" where
  "pointer_names_of p = (case pointer_generation p of None \<Rightarrow> [] | Some g \<Rightarrow> [g])"

text \<open>The generations that reclamation must leave.\<close>

definition preserved ::
  "GenerationScan \<Rightarrow> PointerState \<Rightarrow> PointerState \<Rightarrow> PointerState \<Rightarrow> GenerationLease option \<Rightarrow>
   string option option \<Rightarrow> string list" where
  "preserved scan active active_after retained_after ready problem =
     pointer_names_of active_after @ pointer_names_of retained_after @ pointer_names_of active @
     (if \<not> is_manifest active \<or> ready = None \<or> problem \<noteq> None then map fst (gc_regular scan) else [])"

definition own_locks :: "GenerationLease option \<Rightarrow> path set" where
  "own_locks ready = (case ready of Some l \<Rightarrow> {gr_reader_lock l} | None \<Rightarrow> {})"

definition ready_generation :: "GenerationLease option \<Rightarrow> string option" where
  "ready_generation ready = map_option (gb_generation \<circ> gr_binding) ready"

text \<open>Free space is asked after the reclamation.\<close>

definition available_space :: "store_env \<Rightarrow> nat option sio" where
  "available_space env =
     sbind (stry (sread PubStorageFailed (\<lambda>t. ok_or PubStorageFailed (en_available env t)))) (\<lambda>r.
     sreturn (case r of Ok n \<Rightarrow> Some n | _ \<Rightarrow> None))"

definition pressure_notices :: "nat \<Rightarrow> GenerationLease option \<Rightarrow> nat option \<Rightarrow> RecoveryNotice list" where
  "pressure_notices minimum ready available = (case available of
     None \<Rightarrow> [recovery_notice CleanupDeferred FreeStorage (ready_generation ready)]
   | Some n \<Rightarrow>
       if n < minimum
       then [\<lparr>rn_kind = StoragePressure, rn_action = FreeStorage, rn_generation = ready_generation ready,
              rn_available_bytes = Some n, rn_required_bytes = Some minimum\<rparr>]
       else [])"

definition clean_up ::
  "store_env \<Rightarrow> GenerationStore \<Rightarrow> nat \<Rightarrow> PointerState \<Rightarrow> string option option \<Rightarrow> progress \<Rightarrow> RecoveryOutcome sio" where
  "clean_up env st minimum active problem p =
     (case p of (scan, ready, disposition, notices) \<Rightarrow>
        sbind (read_pointer env st (active_file st)) (\<lambda>active_after.
        sbind (read_pointer env st (retained_file st)) (\<lambda>retained_after.
        sbind (reclaim env st (own_locks ready) (preserved scan active active_after retained_after ready problem) notices)
          (\<lambda>(counts, notices).
        sbind (available_space env) (\<lambda>available.
        sreturn
          \<lparr>ro_disposition = disposition, ro_ready = ready, ro_reclaimed_generations = cc_generations counts,
           ro_reclaimed_candidates = cc_candidates counts, ro_deferred_leased_generations = cc_deferred counts,
           ro_reclaimed_bytes = cc_bytes counts, ro_available_bytes = available,
           ro_notices = notices @ pressure_notices minimum ready available\<rparr>)))))"

text \<open>The reports between the activation and the reclamation.\<close>

definition report_rest ::
  "PointerState \<Rightarrow> PointerState \<Rightarrow> string option option \<Rightarrow> progress \<Rightarrow> progress" where
  "report_rest active retained problem p =
     (case p of (scan, ready, disposition, notices) \<Rightarrow>
        (scan, ready, disposition, report_invalid_candidates scan active retained
           (case problem of
              Some g \<Rightarrow> if ready \<noteq> None
                then notices @ [recovery_notice RetainedGenerationCorrupt RetryImport g] else notices
            | None \<Rightarrow> notices)))"

definition recover_pointers ::
  "store_env \<Rightarrow> GenerationStore \<Rightarrow> nat \<Rightarrow> GenerationScan \<Rightarrow> PointerState \<Rightarrow> PointerState \<Rightarrow> RecoveryOutcome sio" where
  "recover_pointers env st minimum scan active retained =
     (let active_record = pointer_record active (gc_regular scan) in
      sbind (supply_retained env st scan active_record retained (pointer_record retained (gc_regular scan)))
        (\<lambda>(retained, retained_record).
      let problem = retained_problem active_record retained retained_record in
      sbind (lease_found env active_record) (\<lambda>ready.
      sbind (complete_publication env st scan active active_record retained retained_record ready) (\<lambda>p.
      sbind (restore_retained env st active active_record retained retained_record p) (\<lambda>p.
      clean_up env st minimum active problem (report_rest active retained problem p))))))"

definition recover :: "store_env \<Rightarrow> GenerationStore \<Rightarrow> nat \<Rightarrow> RecoveryOutcome sio" where
  "recover env st minimum =
     sbind (publication_lock_acquire env st) (\<lambda>_.
     sbind (recovery_lock_exclusive env st) (\<lambda>_.
     sbind (scan_generations env st) (\<lambda>scan.
     sbind (read_pointer env st (active_file st)) (\<lambda>active.
     sbind (read_pointer env st (retained_file st)) (\<lambda>retained.
     recover_pointers env st minimum scan active retained)))))"

end
