(* ===== verification/RecoveryProps.thy ===== *)
theory RecoveryProps
  imports Recovery PublicationProps
begin

text \<open>
  Recovery under every schedule of faults: what it serves is inspected and named by the
  active pointer when it returns, and a generation another process reads is untouched.
\<close>

section \<open>What the scan found\<close>

definition inspects :: "store_env \<Rightarrow> GenerationStore \<Rightarrow> tree \<Rightarrow> GenerationManifest \<Rightarrow> GenerationRecord \<Rightarrow> bool" where
  "inspects env st t m rec \<longleftrightarrow>
     inspect_tree env (gs_source st) t (generation_directory st (generation_of m)) (Some (generation_of m)) = Ok (m, rec)"

definition regular_ok :: "store_env \<Rightarrow> GenerationStore \<Rightarrow> tree \<Rightarrow> string \<times> InspectedGeneration \<Rightarrow> bool" where
  "regular_ok env st t e \<longleftrightarrow> fst e = generation_of (ig_manifest (snd e)) \<and> \<not> ig_staged (snd e)
     \<and> inspects env st t (ig_manifest (snd e)) (ig_record (snd e))"

definition staged_ok :: "GenerationStore \<Rightarrow> InspectedGeneration \<Rightarrow> bool" where
  "staged_ok st i \<longleftrightarrow> ig_staged i \<and> (\<exists>n. ig_path i = generations_dir st @ [GENERATION_STAGE_PREFIX @ n])"

definition scan_ok :: "store_env \<Rightarrow> GenerationStore \<Rightarrow> tree \<Rightarrow> GenerationScan \<Rightarrow> bool" where
  "scan_ok env st t scan \<longleftrightarrow>
     (\<forall>e \<in> set (gc_regular scan). regular_ok env st t e) \<and> (\<forall>i \<in> set (gc_staged scan). staged_ok st i)"

lemma inspect_tree_Ok:
  assumes "inspect_tree env source t d ex = Ok (m, rec)"
  shows "ex = Some g \<Longrightarrow> generation_of m = g" "gr_binding rec = gm_binding m"
    "gr_reader_lock rec = d @ [GENERATION_READER_LOCK_FILE]"
    "\<exists>b. tree_get t (d @ [GENERATION_READER_LOCK_FILE]) = Some (SFile b)"
  using assms
  by (auto simp: inspect_tree_def opt_all_def generation_record_def
      split: if_splits option.splits snode.splits outcome.splits StageIndexError.splits)

lemma inspects_near:
  assumes "local_inspection env" and "beside st t t'"
  shows "inspects env st t' m rec = inspects env st t m rec"
proof -
  have "tree_get t' q = tree_get t q" if "near (generation_directory st (generation_of m)) q" for q
    using generation_near [OF that assms(2)] .
  from inspect_tree_near [OF assms(1) this] show ?thesis by (simp add: inspects_def)
qed

lemma set_bt_insert: "set (bt_insert k v m) \<subseteq> insert (k, v) (set m)"
  by (induction k v m rule: bt_insert.induct) auto

lemma sfold_triple:
  assumes "\<And>x s. x \<in> set xs \<Longrightarrow> triple (P s) (f x s) P E"
  shows "triple (P s) (sfold f xs s) P E"
  using assms
proof (induction xs arbitrary: s)
  case Nil
  show ?case by (simp add: triple_def sreturn_def)
next
  case (Cons x xs)
  then show ?case by (auto intro!: triple_bind)
qed

lemma keeps_sfold [keeps_intros]: "(\<And>x s. keeps_tree (f x s)) \<Longrightarrow> keeps_tree (sfold f xs s)"
  by (induction xs arbitrary: s) (simp_all add: keeps_intros)

lemma keeps_read_dir [keeps_intros]: "keeps_tree (read_dir env e p)"
  unfolding read_dir_def by (intro keeps_intros)

lemma inspect_directory_triple:
  "triple (on_tree ((=) t0)) (inspect_generation_directory env st d ex)
     (\<lambda>r. on_tree (\<lambda>t. t = t0 \<and> (\<forall>y. r = Ok y \<longrightarrow> inspect_tree env (gs_source st) t0 d ex = Ok y))) E"
  by (auto simp: triple_def on_tree_def inspect_generation_directory_def split: prod.splits dest: next_fault_tree)

text \<open>A statement that does not look at the world at all.\<close>

lemma triple_pure:
  "(A \<Longrightarrow> triple (on_tree P) m Q E) \<Longrightarrow> triple (on_tree (\<lambda>t. P t \<and> A)) m Q E"
  by (cases A) (auto simp: triple_def on_tree_def)

lemma admitted_generation_eq: "admitted_generation name = Some g \<Longrightarrow> g = name"
  by (auto simp: admitted_generation_def generation_parse_def Let_def split: if_splits)

lemma scan_entry_triple:
  "triple (on_tree (\<lambda>t. t = t0 \<and> scan_ok env st t0 scan)) (scan_entry env st e scan)
     (\<lambda>scan. on_tree (\<lambda>t. t = t0 \<and> scan_ok env st t0 scan)) (on_tree ((=) t0))"
proof (rule triple_pure)
  assume ok: "scan_ok env st t0 scan"
  obtain index name where e: "e = (index, name)" by (cases e)
  let ?P = "\<lambda>scan. on_tree (\<lambda>t. t = t0 \<and> scan_ok env st t0 scan)"
  let ?g = "if prefix GENERATION_STAGE_PREFIX name then None else admitted_generation name"
  have invalid: "scan_ok env st t0 (add_invalid i scan)" for i
    using ok by (simp add: scan_ok_def add_invalid_def)
  have found: "scan_ok env st t0 (add_inspected ?g
      \<lparr>ig_path = generations_dir st @ [name], ig_manifest = m, ig_record = rec, ig_staged = prefix GENERATION_STAGE_PREFIX name\<rparr> scan)"
    if "inspect_tree env (gs_source st) t0 (generations_dir st @ [name]) ?g = Ok (m, rec)"
      "prefix GENERATION_STAGE_PREFIX name \<or> ?g \<noteq> None" for m rec
  proof (cases "prefix GENERATION_STAGE_PREFIX name")
    case True
    with ok show ?thesis by (auto simp: scan_ok_def add_inspected_def staged_ok_def prefix_def)
  next
    case False
    with that(2) have g: "admitted_generation name = Some name" using admitted_generation_eq by fastforce
    with that(1) False have "generation_of m = name" using inspect_tree_Ok(1) by fastforce
    with that(1) False g ok show ?thesis
      using set_bt_insert [of name _ "gc_regular scan"]
      by (fastforce simp: scan_ok_def add_inspected_def regular_ok_def inspects_def generation_directory_def)
  qed
  have eq: "(\<lambda>t. t = t0) = (=) t0" by auto
  have inspect: "triple (on_tree ((=) t0))
      (sbind (inspect_generation_directory env st (generations_dir st @ [name]) ?g) (\<lambda>r. case r of
          Ok (m, record) \<Rightarrow>
            sreturn (add_inspected ?g \<lparr>ig_path = generations_dir st @ [name], ig_manifest = m, ig_record = record,
              ig_staged = prefix GENERATION_STAGE_PREFIX name\<rparr> scan)
        | Err e \<Rightarrow>
            sbind (stry (s_present ((generations_dir st @ [name]) @ [GENERATION_MANIFEST_FILE]))) (\<lambda>present.
            sreturn (add_invalid \<lparr>iv_generation = ?g,
               iv_reason = (case e of InsUnavailable \<Rightarrow> InvalidUnavailable | InsRebuildRequired \<Rightarrow> InvalidRebuildRequired),
               iv_staged = prefix GENERATION_STAGE_PREFIX name, iv_has_manifest = (present = Ok True)\<rparr> scan))
        | Panic \<Rightarrow> sreturn scan)) ?P (on_tree ((=) t0))"
    if name: "prefix GENERATION_STAGE_PREFIX name \<or> ?g \<noteq> None"
  proof (rule triple_bind [OF inspect_directory_triple], rule triple_pure)
    fix r :: "(GenerationManifest \<times> GenerationRecord, GenerationInspectionError) outcome"
    assume r: "\<forall>y. r = Ok y \<longrightarrow> inspect_tree env (gs_source st) t0 (generations_dir st @ [name]) ?g = Ok y"
    have keep: "triple (on_tree ((=) t0)) (sreturn s) ?P (on_tree ((=) t0))" if "scan_ok env st t0 s" for s
      using that by (auto simp: triple_def sreturn_def on_tree_def)
    have seq: "triple (on_tree ((=) t0)) (sbind (stry (s_present p)) (\<lambda>present. sreturn (add_invalid (i present) scan)))
        ?P (on_tree ((=) t0))" for p and i :: "(bool, PublicationError) outcome \<Rightarrow> InvalidGeneration"
      by (rule triple_bind [OF keeps_tree_triple [OF keeps_try [OF keeps_present]] keep [OF invalid]])
    show "triple (on_tree (\<lambda>t. t = t0)) (case r of
          Ok (m, record) \<Rightarrow>
            sreturn (add_inspected ?g \<lparr>ig_path = generations_dir st @ [name], ig_manifest = m, ig_record = record,
              ig_staged = prefix GENERATION_STAGE_PREFIX name\<rparr> scan)
        | Err e \<Rightarrow>
            sbind (stry (s_present ((generations_dir st @ [name]) @ [GENERATION_MANIFEST_FILE]))) (\<lambda>present.
            sreturn (add_invalid \<lparr>iv_generation = ?g,
               iv_reason = (case e of InsUnavailable \<Rightarrow> InvalidUnavailable | InsRebuildRequired \<Rightarrow> InvalidRebuildRequired),
               iv_staged = prefix GENERATION_STAGE_PREFIX name, iv_has_manifest = (present = Ok True)\<rparr> scan))
        | Panic \<Rightarrow> sreturn scan) ?P (on_tree ((=) t0))"
    proof (cases r)
      case (Ok y)
      obtain m rec where y: "y = (m, rec)" by (cases y)
      show ?thesis unfolding eq Ok y outcome.case prod.case
        by (rule keep, rule found [OF _ name]) (use r Ok y in simp)
    next
      case (Err x)
      show ?thesis unfolding eq Err outcome.case by (rule seq)
    next
      case Panic
      show ?thesis unfolding eq Panic outcome.case by (rule keep [OF ok])
    qed
  qed
  have rest: "triple (on_tree ((=) t0)) (if \<not> utf8_valid name \<or> \<not> prefix GENERATION_STAGE_PREFIX name \<and> ?g = None
      then sreturn (add_invalid unnamed_invalid scan) else x) ?P (on_tree ((=) t0))"
    if "prefix GENERATION_STAGE_PREFIX name \<or> ?g \<noteq> None \<Longrightarrow> triple (on_tree ((=) t0)) x ?P (on_tree ((=) t0))" for x
    using that invalid by (auto simp: triple_def [of _ "sreturn _"] sreturn_def on_tree_def)
  show "triple (on_tree (\<lambda>t. t = t0)) (scan_entry env st e scan) ?P (on_tree ((=) t0))"
  proof (cases "MAX_RECOVERY_DIRECTORY_ENTRIES \<le> index")
    case True
    then show ?thesis by (auto simp: scan_entry_def e triple_def sfail_def on_tree_def)
  next
    case False
    have call: "triple (on_tree ((=) t0)) (scall StoreUnavailable (sreturn ())) (\<lambda>_. on_tree ((=) t0)) (on_tree ((=) t0))"
      by (rule keeps_tree_triple) (intro keeps_intros)
    show ?thesis
      unfolding scan_entry_def e prod.case Let_def eq
      using False triple_bind [OF call rest [OF inspect]] by simp
  qed
qed


lemma scan_triple:
  "triple (on_tree ((=) t0)) (scan_generations env st)
     (\<lambda>scan. on_tree (\<lambda>t. t = t0 \<and> scan_ok env st t0 scan)) (on_tree ((=) t0))"
  unfolding scan_generations_def
proof (rule triple_bind [OF keeps_tree_triple [OF keeps_read_dir]])
  fix names
  let ?empty = "\<lparr>gc_regular = [], gc_staged = [], gc_invalid = []\<rparr> :: GenerationScan"
  have "triple (on_tree (\<lambda>t. t = t0 \<and> scan_ok env st t0 ?empty)) (sfold (scan_entry env st) (enumerate 0 names) ?empty)
     (\<lambda>scan. on_tree (\<lambda>t. t = t0 \<and> scan_ok env st t0 scan)) (on_tree ((=) t0))"
    by (rule sfold_triple) (rule scan_entry_triple)
  then show "triple (on_tree ((=) t0)) (sfold (scan_entry env st) (enumerate 0 names) ?empty)
     (\<lambda>scan. on_tree (\<lambda>t. t = t0 \<and> scan_ok env st t0 scan)) (on_tree ((=) t0))"
    by (rule triple_conseq) (auto simp: on_tree_def scan_ok_def)
qed

section \<open>What is served, what is spared\<close>

definition pointed :: "store_env \<Rightarrow> GenerationStore \<Rightarrow> GenerationManifest \<Rightarrow> tree \<Rightarrow> bool" where
  "pointed env st m t \<longleftrightarrow> (\<exists>bytes. tree_get t (active_file st) = Some (SFile bytes)
     \<and> (bytes = en_encode env m \<or> en_decode env bytes = Some m))"

definition serves :: "store_env \<Rightarrow> GenerationStore \<Rightarrow> tree \<Rightarrow> GenerationRecord \<Rightarrow> bool" where
  "serves env st t l \<longleftrightarrow> (\<exists>m. pointed env st m t \<and> inspects env st t m l)"

text \<open>A generation another process holds a reader lock of, under a name that is not a staging name.\<close>

definition read_elsewhere :: "store_env \<Rightarrow> GenerationStore \<Rightarrow> tree \<Rightarrow> string \<Rightarrow> bool" where
  "read_elsewhere env st t g \<longleftrightarrow> admitted_generation g = Some g \<and> \<not> prefix GENERATION_STAGE_PREFIX g
     \<and> en_locks env (generation_directory st g @ [GENERATION_READER_LOCK_FILE]) \<noteq> Free
     \<and> tree_get t (generation_directory st g) \<noteq> None
     \<and> (\<exists>b. tree_get t (generation_directory st g @ [GENERATION_READER_LOCK_FILE]) = Some (SFile b))"

definition spared :: "store_env \<Rightarrow> GenerationStore \<Rightarrow> tree \<Rightarrow> tree \<Rightarrow> bool" where
  "spared env st t0 t \<longleftrightarrow> (\<forall>g q. read_elsewhere env st t0 g \<longrightarrow> prefix (generation_directory st g) q \<longrightarrow>
     tree_get t q = tree_get t0 q)"

lemma spared_refl [simp]: "spared env st t t"
  by (simp add: spared_def)

lemma spared_beside: "spared env st t0 t \<Longrightarrow> beside st t t' \<Longrightarrow> spared env st t0 t'"
  unfolding spared_def
proof (intro allI impI)
  fix g q
  assume old: "\<forall>g q. read_elsewhere env st t0 g \<longrightarrow> prefix (generation_directory st g) q \<longrightarrow> tree_get t q = tree_get t0 q"
    and b: "beside st t t'" and g: "read_elsewhere env st t0 g" "prefix (generation_directory st g) q"
  from g(2) have "near (generation_directory st g) q" by (simp add: near_def)
  from generation_near [OF this b] old g show "tree_get t' q = tree_get t0 q" by simp
qed

lemma pointed_same: "pointed env st m t \<Longrightarrow> tree_get t' (active_file st) = tree_get t (active_file st) \<Longrightarrow> pointed env st m t'"
  by (simp add: pointed_def)

lemma serves_beside:
  "local_inspection env \<Longrightarrow> serves env st t l \<Longrightarrow> beside st t t' \<Longrightarrow>
   tree_get t' (active_file st) = tree_get t (active_file st) \<Longrightarrow> serves env st t' l"
  unfolding serves_def using inspects_near [of env st t t'] pointed_same [of env st _ t t'] by blast

section \<open>Pointers\<close>

text \<open>A pointer read as a manifest decodes to it; for the active pointer that is what it names.\<close>

definition pointer_ok :: "store_env \<Rightarrow> path \<Rightarrow> tree \<Rightarrow> PointerState \<Rightarrow> bool" where
  "pointer_ok env p t s \<longleftrightarrow> (\<forall>m. s = PointerManifest m \<longrightarrow> decode_file (en_decode env) t p = Ok m)"

lemma read_pointer_triple:
  "triple (on_tree ((=) t0)) (read_pointer env st p) (\<lambda>s. on_tree (\<lambda>t. t = t0 \<and> pointer_ok env p t0 s)) E"
proof -
  have "read_pointer env st p w = (r, w') \<Longrightarrow>
     \<exists>s. r = Ok s \<and> sw_tree w' = sw_tree w \<and> pointer_ok env p (sw_tree w) s" for w r w'
    by (auto simp: read_pointer_def stry_def s_present_def sread_def scall_def read_json_def sbind_def sreturn_def
        pointer_ok_def split: prod.splits outcome.splits bool.splits if_splits dest!: next_fault_tree)
  then show ?thesis
    unfolding triple_def on_tree_def by (fastforce split: prod.splits outcome.splits)
qed

lemma pointer_record_cases:
  assumes "pointer_record s regular = Some (m, rec)"
  obtains i where "s = PointerManifest m" "(generation_of m, i) \<in> set regular" "ig_manifest i = m" "ig_record i = rec"
  using assms by (cases s) (auto simp: bt_get_def split: option.splits if_splits dest!: map_of_SomeD)

lemma pointer_record_inspects:
  "scan_ok env st t scan \<Longrightarrow> pointer_record s (gc_regular scan) = Some (m, rec) \<Longrightarrow> inspects env st t m rec"
  by (erule pointer_record_cases) (auto simp: scan_ok_def regular_ok_def)

lemma active_pointed:
  "pointer_ok env (active_file st) t (PointerManifest m) \<Longrightarrow> pointed env st m t"
  by (auto simp: pointer_ok_def decode_file_def pointed_def ok_or_def split: option.splits snode.splits if_splits)


section \<open>Supplying, completing, restoring\<close>

definition found_ok :: "store_env \<Rightarrow> GenerationStore \<Rightarrow> tree \<Rightarrow> found \<Rightarrow> bool" where
  "found_ok env st t r \<longleftrightarrow> (\<forall>m rec. r = Some (m, rec) \<longrightarrow> inspects env st t m rec)"

text \<open>Only the retained pointer has been replaced so far.\<close>

definition retold :: "GenerationStore \<Rightarrow> tree \<Rightarrow> tree \<Rightarrow> bool" where
  "retold st t0 t \<longleftrightarrow> beside st t0 t \<and> tree_get t (active_file st) = tree_get t0 (active_file st)"

lemma retold_refl [simp]: "retold st t t"
  by (simp add: retold_def)

lemma retold_spared: "retold st t0 t \<Longrightarrow> spared env st t0 t"
  using spared_beside [of env st t0 t0 t] by (simp add: retold_def)

lemma predecessor_inspects:
  "scan_ok env st t scan \<Longrightarrow> predecessor scan a = Some i \<Longrightarrow> inspects env st t (ig_manifest i) (ig_record i)"
  by (auto simp: predecessor_def scan_ok_def regular_ok_def bt_get_def split: option.splits prod.splits dest!: map_of_SomeD)

lemma supply_triple:
  assumes scan: "scan_ok env st t0 scan" and rr: "found_ok env st t0 retained_record"
  shows "triple (on_tree ((=) t0)) (supply_retained env st scan active_record retained retained_record)
     (\<lambda>(_, r). on_tree (\<lambda>t. retold st t0 t \<and> found_ok env st t0 r)) (on_tree (spared env st t0))"
proof (cases "if retained_record = None then predecessor scan active_record else None")
  case None
  with rr show ?thesis by (auto simp: supply_retained_def triple_def sreturn_def on_tree_def)
next
  case (Some i)
  then have "found_ok env st t0 (Some (ig_manifest i, ig_record i))"
    using predecessor_inspects [OF scan] by (auto simp: found_ok_def split: if_splits)
  then have ret: "triple (on_tree (retold st t0)) (sreturn (PointerManifest (ig_manifest i), Some (ig_manifest i, ig_record i)))
     (\<lambda>(_, r). on_tree (\<lambda>t. retold st t0 t \<and> found_ok env st t0 r)) (on_tree (spared env st t0))"
    by (simp add: triple_def sreturn_def on_tree_def)
  have rep: "triple (on_tree ((=) t0)) (replace_manifest env st (retained_file st) (ig_manifest i))
     (\<lambda>_. on_tree (retold st t0)) (on_tree (spared env st t0))"
    by (rule triple_conseq [OF replace_retained_triple [where ?t1.0 = t0]])
      (auto simp: on_tree_def retold_def intro: retold_spared [unfolded retold_def])
  show ?thesis
    unfolding supply_retained_def Some option.case by (rule triple_bind [OF rep ret])
qed

lemma snd_bt_insert: "snd ` set (bt_insert k v m) \<subseteq> insert v (snd ` set m)"
  using set_bt_insert [of k v m] by fastforce

lemma select_loop_set:
  "select_loop ex ret cs selected conf ns = (sel, conf', ns') \<Longrightarrow> snd ` set sel \<subseteq> snd ` set selected \<union> set cs"
proof (induction cs arbitrary: selected conf ns)
  case (Cons c cs)
  let ?g = "generation_of (ig_manifest c)"
  have more: "snd ` set sel \<subseteq> snd ` set selected \<union> set (c # cs)"
    if "select_loop ex ret cs selected conf1 ns1 = (sel, conf', ns')" for conf1 ns1
    using Cons.IH [OF that] by auto
  have add: "snd ` set sel \<subseteq> snd ` set selected \<union> set (c # cs)"
    if "select_loop ex ret cs (bt_insert ?g c selected) conf1 ns1 = (sel, conf', ns')" for conf1 ns1
    using Cons.IH [OF that] snd_bt_insert [of ?g c selected] by auto
  show ?case
    using Cons.prems more add by (simp add: Let_def split: if_splits option.splits)
qed simp

lemma select_pending_set:
  "select_pending scan ex ret ns = (cs, ns') \<Longrightarrow> i \<in> set cs \<Longrightarrow>
   i \<in> snd ` set (gc_regular scan) \<or> i \<in> set (gc_staged scan)"
  by (auto simp: select_pending_def split: prod.splits if_splits dest!: select_loop_set) force

text \<open>A candidate of the scan.\<close>

definition candidate_ok :: "store_env \<Rightarrow> GenerationStore \<Rightarrow> tree \<Rightarrow> InspectedGeneration \<Rightarrow> bool" where
  "candidate_ok env st t i \<longleftrightarrow> (if ig_staged i then staged_ok st i else inspects env st t (ig_manifest i) (ig_record i))"

lemma pending_candidate_ok:
  assumes "scan_ok env st t scan" and "select_pending scan ex ret ns = (cs, ns')" and "i \<in> set cs"
  shows "candidate_ok env st t i"
  using select_pending_set [OF assms(2,3)] assms(1)
  by (auto simp: scan_ok_def candidate_ok_def regular_ok_def staged_ok_def)

lemma staged_not_read:
  "read_elsewhere env st t g \<Longrightarrow> prefix (generations_dir st @ [GENERATION_STAGE_PREFIX @ n]) q \<Longrightarrow>
   \<not> prefix (generation_directory st g) q"
  by (auto simp: read_elsewhere_def generation_directory_def prefix_def)

lemma other_not_read:
  "tree_get t (generation_directory st g') = None \<Longrightarrow> read_elsewhere env st t g \<Longrightarrow>
   prefix (generation_directory st g') q \<Longrightarrow> \<not> prefix (generation_directory st g) q"
  by (auto simp: read_elsewhere_def generation_directory_def prefix_def)

lemma spared_rename:
  assumes t: "spared env st t0 t" and free: "tree_get t0 (generation_directory st g') = None"
    and np: "\<not> prefix p (generation_directory st g')" "\<not> prefix (generation_directory st g') p"
    and p: "p = generations_dir st @ [GENERATION_STAGE_PREFIX @ n]"
  shows "spared env st t0 (tree_rename p (generation_directory st g') t)"
  unfolding spared_def
proof (intro allI impI)
  fix g q assume g: "read_elsewhere env st t0 g" and q: "prefix (generation_directory st g) q"
  have "\<not> prefix p q" using staged_not_read [OF g] p q by blast
  moreover have "\<not> prefix (generation_directory st g') q" using other_not_read [OF free g] q by blast
  ultimately show "tree_get (tree_rename p (generation_directory st g') t) q = tree_get t0 q"
    using t g q by (simp add: tree_get_rename [OF np] spared_def)
qed


text \<open>A promoted candidate is inspected in the place it was moved to.\<close>

lemma inspect_here_triple:
  "triple (on_tree P) (inspect_generation env st g)
     (\<lambda>(m, rec). on_tree (\<lambda>t. P t \<and> inspects env st t m rec)) (on_tree P)"
proof (rule triple_conseq [OF inspect_triple])
  fix x :: "GenerationManifest \<times> GenerationRecord" and w
  obtain m rec where x: "x = (m, rec)" by (cases x)
  assume "(case x of (m, rec) \<Rightarrow> on_tree (\<lambda>t. P t \<and>
      inspect_tree env (gs_source st) t (generation_directory st g) (Some g) = Ok (m, rec))) w"
  then have a: "P (sw_tree w)" "inspect_tree env (gs_source st) (sw_tree w) (generation_directory st g) (Some g) = Ok (m, rec)"
    by (simp_all add: x on_tree_def)
  moreover have "generation_of m = g" using inspect_tree_Ok(1) [OF a(2)] by simp
  ultimately show "(case x of (m, rec) \<Rightarrow> on_tree (\<lambda>t. P t \<and> inspects env st t m rec)) w"
    by (simp add: x on_tree_def inspects_def)
qed

lemma triple_guard: "(\<not> c \<Longrightarrow> triple (on_tree P) m R (on_tree P)) \<Longrightarrow> triple (on_tree P) (sbind (swhen c e) (\<lambda>_. m)) R (on_tree P)"
  by (cases c) (simp_all add: swhen_def triple_def sbind_def sfail_def on_tree_def sreturn_def)

lemma promote_triple:
  assumes c: "candidate_ok env st t0 i" and env: "local_inspection env"
  shows "triple (on_tree (retold st t0)) (promote_if_staged env st i)
     (\<lambda>i. on_tree (\<lambda>t. spared env st t0 t \<and> inspects env st t (ig_manifest i) (ig_record i)))
     (on_tree (spared env st t0))"
proof (cases "ig_staged i")
  case False
  then have "retold st t0 t \<Longrightarrow> inspects env st t (ig_manifest i) (ig_record i)" for t
    using c inspects_near [OF env, of st t0 t] by (simp add: candidate_ok_def retold_def)
  with False show ?thesis
    by (auto simp: promote_if_staged_def triple_def sreturn_def on_tree_def intro: retold_spared)
next
  case True
  let ?g = "generation_of (ig_manifest i)"
  let ?D = "generation_directory st ?g"
  let ?S = "spared env st t0"
  from c True obtain n where p: "ig_path i = generations_dir st @ [GENERATION_STAGE_PREFIX @ n]"
    by (auto simp: candidate_ok_def staged_ok_def)
  have last: "triple (on_tree ?S) (sbind (inspect_generation env st ?g) (\<lambda>(m, record).
        sbind (swhen (m \<noteq> ig_manifest i) StoreUnavailable) (\<lambda>_.
        sreturn \<lparr>ig_path = ?D, ig_manifest = m, ig_record = record, ig_staged = False\<rparr>)))
     (\<lambda>i. on_tree (\<lambda>t. ?S t \<and> inspects env st t (ig_manifest i) (ig_record i))) (on_tree ?S)"
  proof (rule triple_bind [OF inspect_here_triple])
    fix x :: "GenerationManifest \<times> GenerationRecord"
    obtain m rec where x: "x = (m, rec)" by (cases x)
    show "triple (case x of (m, rec) \<Rightarrow> on_tree (\<lambda>t. ?S t \<and> inspects env st t m rec))
       (case x of (m, record) \<Rightarrow> sbind (swhen (m \<noteq> ig_manifest i) StoreUnavailable) (\<lambda>_.
        sreturn \<lparr>ig_path = ?D, ig_manifest = m, ig_record = record, ig_staged = False\<rparr>))
       (\<lambda>i. on_tree (\<lambda>t. ?S t \<and> inspects env st t (ig_manifest i) (ig_record i))) (on_tree ?S)"
      unfolding x prod.case
      by (cases "m = ig_manifest i")
        (simp_all add: swhen_def triple_def sbind_def sfail_def sreturn_def on_tree_def)
  qed
  have moved: "triple (on_tree ?S) (s_rename (ig_path i) ?D) (\<lambda>_. on_tree ?S) (on_tree ?S)"
    if "tree_get t0 ?D = None"
    by (rule rename_triple) (use spared_rename [OF _ that _ _ p] in simp)
  show ?thesis
  proof (rule triple_each_tree)
    fix t1 assume t1: "retold st t0 t1"
    have D: "tree_get t1 ?D = tree_get t0 ?D"
      using generation_near [of st ?g ?D t0 t1] t1 by (simp add: near_def retold_def)
    have present: "triple (on_tree ((=) t1)) (s_present ?D)
        (\<lambda>b. on_tree (\<lambda>t. ?S t \<and> b = (tree_get t1 ?D \<noteq> None))) (on_tree ?S)"
      by (rule triple_conseq [OF present_triple]) (use retold_spared [OF t1] in \<open>auto simp: on_tree_def\<close>)
    have work: "triple (on_tree (\<lambda>t. ?S t \<and> b = (tree_get t1 ?D \<noteq> None))) (sbind (swhen b GenerationOccupied) (\<lambda>_.
        sbind (s_rename (ig_path i) ?D) (\<lambda>_.
        sbind s_sync (\<lambda>_.
        sbind (inspect_generation env st ?g) (\<lambda>(m, record).
        sbind (swhen (m \<noteq> ig_manifest i) StoreUnavailable) (\<lambda>_.
        sreturn \<lparr>ig_path = ?D, ig_manifest = m, ig_record = record, ig_staged = False\<rparr>))))))
       (\<lambda>i. on_tree (\<lambda>t. ?S t \<and> inspects env st t (ig_manifest i) (ig_record i))) (on_tree ?S)" for b
    proof (rule triple_pure)
      assume b: "b = (tree_get t1 ?D \<noteq> None)"
      show "triple (on_tree ?S) (sbind (swhen b GenerationOccupied) (\<lambda>_.
        sbind (s_rename (ig_path i) ?D) (\<lambda>_.
        sbind s_sync (\<lambda>_.
        sbind (inspect_generation env st ?g) (\<lambda>(m, record).
        sbind (swhen (m \<noteq> ig_manifest i) StoreUnavailable) (\<lambda>_.
        sreturn \<lparr>ig_path = ?D, ig_manifest = m, ig_record = record, ig_staged = False\<rparr>))))))
       (\<lambda>i. on_tree (\<lambda>t. ?S t \<and> inspects env st t (ig_manifest i) (ig_record i))) (on_tree ?S)"
      proof (rule triple_guard)
        assume "\<not> b"
        with b D have "tree_get t0 ?D = None" by simp
        from triple_bind [OF moved [OF this] triple_seq [OF keeps_sync last]]
        show "triple (on_tree ?S) (sbind (s_rename (ig_path i) ?D) (\<lambda>_.
          sbind s_sync (\<lambda>_.
          sbind (inspect_generation env st ?g) (\<lambda>(m, record).
          sbind (swhen (m \<noteq> ig_manifest i) StoreUnavailable) (\<lambda>_.
          sreturn \<lparr>ig_path = ?D, ig_manifest = m, ig_record = record, ig_staged = False\<rparr>)))))
         (\<lambda>i. on_tree (\<lambda>t. ?S t \<and> inspects env st t (ig_manifest i) (ig_record i))) (on_tree ?S)" .
      qed
    qed
    show "triple (on_tree ((=) t1)) (promote_if_staged env st i)
     (\<lambda>i. on_tree (\<lambda>t. ?S t \<and> inspects env st t (ig_manifest i) (ig_record i))) (on_tree ?S)"
      using triple_bind [OF present work] True by (simp add: promote_if_staged_def Let_def)
  qed
qed

text \<open>The lease is the record; activating what is inspected serves it.\<close>

lemma activation_triple:
  assumes env: "local_inspection env" and act: "m' = replace_manifest env st (active_file st) m \<or> m' = activate env st m"
  shows "triple (on_tree (\<lambda>t. spared env st t0 t \<and> inspects env st t m rec)) m'
     (\<lambda>_. on_tree (\<lambda>t. spared env st t0 t \<and> serves env st t rec)) (on_tree (spared env st t0))"
proof (rule triple_each_tree)
  fix t1 assume t1: "spared env st t0 t1 \<and> inspects env st t1 m rec"
  have "triple (on_tree ((=) t1)) m'
     (\<lambda>_. on_tree (\<lambda>t. beside st t1 t \<and> tree_get t (active_file st) = Some (SFile (en_encode env m))))
     (on_tree (\<lambda>t. beside st t1 t \<and> tree_get t (active_file st) = tree_get t1 (active_file st)))"
    using act replace_active_triple [of t1 env st m] activate_triple [OF keeps_return, of t1 env st m]
    by (auto simp: activate_def)
  then show "triple (on_tree ((=) t1)) m'
     (\<lambda>_. on_tree (\<lambda>t. spared env st t0 t \<and> serves env st t rec)) (on_tree (spared env st t0))"
  proof (rule triple_conseq)
    fix w assume "on_tree (\<lambda>t. beside st t1 t \<and> tree_get t (active_file st) = Some (SFile (en_encode env m))) w"
    then have b: "beside st t1 (sw_tree w)" "pointed env st m (sw_tree w)" by (simp_all add: on_tree_def pointed_def)
    then show "on_tree (\<lambda>t. spared env st t0 t \<and> serves env st t rec) w"
      using t1 spared_beside [OF _ b(1)] inspects_near [OF env b(1)] by (auto simp: on_tree_def serves_def)
  next
    fix w assume "on_tree (\<lambda>t. beside st t1 t \<and> tree_get t (active_file st) = tree_get t1 (active_file st)) w"
    then show "on_tree (spared env st t0) w"
      using t1 spared_beside by (auto simp: on_tree_def)
  qed
qed


lemma lease_found_triple:
  "triple (on_tree P) (lease_found env r) (\<lambda>ready. on_tree (\<lambda>t. P t \<and> ready = map_option snd r)) (on_tree P)"
proof (cases r)
  case None
  then show ?thesis by (simp add: lease_found_def triple_def sreturn_def on_tree_def)
next
  case (Some x)
  obtain m rec where x: "x = (m, rec)" by (cases x)
  have "triple (on_tree (\<lambda>t. P t \<and> l = rec)) (sreturn (Some l))
      (\<lambda>ready. on_tree (\<lambda>t. P t \<and> ready = map_option snd r)) (on_tree P)" for l
    by (simp add: triple_def sreturn_def on_tree_def Some x)
  from triple_bind [OF lease_record_triple this] show ?thesis
    by (simp add: lease_found_def Some x)
qed

definition serves_all :: "store_env \<Rightarrow> GenerationStore \<Rightarrow> tree \<Rightarrow> GenerationLease option \<Rightarrow> bool" where
  "serves_all env st t ready \<longleftrightarrow> (\<forall>l. ready = Some l \<longrightarrow> serves env st t l)"

lemma leased_activation_triple:
  assumes env: "local_inspection env" and act: "m' = replace_manifest env st (active_file st) m \<or> m' = activate env st m"
    and R: "\<And>l t. spared env st t0 t \<Longrightarrow> serves env st t l \<Longrightarrow> R (f l) t"
  shows "triple (on_tree (\<lambda>t. spared env st t0 t \<and> inspects env st t m rec))
     (sbind (lease_record env rec) (\<lambda>l. sbind m' (\<lambda>_. sreturn (f l))))
     (\<lambda>r. on_tree (R r)) (on_tree (spared env st t0))"
proof -
  let ?P = "\<lambda>t. spared env st t0 t \<and> inspects env st t m rec"
  have lease: "triple (on_tree ?P) (lease_record env rec) (\<lambda>l. on_tree (\<lambda>t. ?P t \<and> l = rec)) (on_tree (spared env st t0))"
    by (rule triple_conseq [OF lease_record_triple [where P = ?P]]) (auto simp: on_tree_def)
  have rest: "triple (on_tree (\<lambda>t. ?P t \<and> l = rec)) (sbind m' (\<lambda>_. sreturn (f l))) (\<lambda>r. on_tree (R r)) (on_tree (spared env st t0))" for l
  proof (rule triple_pure)
    assume l: "l = rec"
    show "triple (on_tree ?P) (sbind m' (\<lambda>_. sreturn (f l))) (\<lambda>r. on_tree (R r)) (on_tree (spared env st t0))"
      by (rule triple_bind [OF activation_triple [OF env act]]) (use R l in \<open>simp add: triple_def sreturn_def on_tree_def\<close>)
  qed
  show ?thesis by (rule triple_bind [OF lease rest])
qed

text \<open>After the completion: either nothing new was activated, or the new generation is served.\<close>

definition completed_ok ::
  "store_env \<Rightarrow> GenerationStore \<Rightarrow> tree \<Rightarrow> GenerationLease option \<Rightarrow> progress \<Rightarrow> tree \<Rightarrow> bool" where
  "completed_ok env st t0 ready p t \<longleftrightarrow> (case p of (scan, ready', disposition, notices) \<Rightarrow>
     spared env st t0 t \<and> serves_all env st t ready' \<and>
     (disposition \<noteq> PublicationCompleted \<longrightarrow> retold st t0 t \<and> ready' = ready))"

lemma serves_all_retold:
  "local_inspection env \<Longrightarrow> serves_all env st t0 ready \<Longrightarrow> retold st t0 t \<Longrightarrow> serves_all env st t ready"
  using serves_beside [of env st t0 _ t] by (simp add: serves_all_def retold_def)

lemma complete_triple:
  assumes env: "local_inspection env" and scan: "scan_ok env st t0 scan" and ready: "serves_all env st t0 ready"
  shows "triple (on_tree (retold st t0))
     (complete_publication env st scan active active_record retained retained_record ready)
     (\<lambda>p. on_tree (completed_ok env st t0 ready p)) (on_tree (spared env st t0))"
proof -
  let ?R = "\<lambda>p. on_tree (completed_ok env st t0 ready p)"
  have stay: "triple (on_tree (retold st t0)) (sreturn (scan, ready, ReadyUnchanged, ns)) ?R (on_tree (spared env st t0))" for ns
    using serves_all_retold [OF env ready] retold_spared
    by (simp add: triple_def sreturn_def on_tree_def completed_ok_def)
  show ?thesis
  proof (cases "is_manifest active \<or> active = PointerMissing \<and> retained_record = None")
    case False
    with stay show ?thesis by (simp add: complete_publication_def)
  next
    case True
    obtain cs ns where sel: "select_pending scan (pointer_generation active) retained [] = (cs, ns)" by force
    consider "cs = []" | c where "cs = [c]" | a b r where "cs = a # b # r"
      by (cases cs rule: remdups_adj.cases) auto
    then show ?thesis
    proof cases
      case 2
      let ?new = "\<lambda>i l. (scan\<lparr>gc_regular := bt_insert (generation_of (ig_manifest i)) i (gc_regular scan)\<rparr>,
             Some l, PublicationCompleted, ns)"
      have c: "candidate_ok env st t0 c" by (rule pending_candidate_ok [OF scan sel]) (simp add: 2)
      have act: "triple (on_tree (\<lambda>t. spared env st t0 t \<and> inspects env st t (ig_manifest i) (ig_record i)))
         (sbind (lease_record env (ig_record i)) (\<lambda>l.
          sbind (if active_record \<noteq> None then activate env st (ig_manifest i)
                 else activate_recovered env st (ig_manifest i)) (\<lambda>_. sreturn (?new i l))))
         ?R (on_tree (spared env st t0))" for i
        by (rule leased_activation_triple [OF env, where R = "completed_ok env st t0 ready"])
          (auto simp: activate_recovered_def completed_ok_def serves_all_def)
      from triple_bind [OF promote_triple [OF c env] act] show ?thesis
        using True by (simp add: complete_publication_def sel 2)
    qed (use True stay in \<open>simp_all add: complete_publication_def sel\<close>)
  qed
qed

lemma restore_triple:
  assumes env: "local_inspection env" and rr: "found_ok env st t0 retained_record"
  shows "triple (on_tree (completed_ok env st t0 ready p))
     (restore_retained env st active active_record retained retained_record p)
     (\<lambda>(scan, ready, disposition, notices). on_tree (\<lambda>t. spared env st t0 t \<and> serves_all env st t ready))
     (on_tree (spared env st t0))"
proof -
  obtain scan ready' d ns where p: "p = (scan, ready', d, ns)" by (cases p)
  let ?R = "\<lambda>(scan, ready, disposition, notices). on_tree (\<lambda>t. spared env st t0 t \<and> serves_all env st t ready)"
  have stay: "triple (on_tree (completed_ok env st t0 ready p)) (sreturn (scan, ready', d', ns')) ?R (on_tree (spared env st t0))"
    for d' :: RecoveryDisposition and ns' :: "RecoveryNotice list"
    by (simp add: triple_def sreturn_def on_tree_def completed_ok_def p)
  show ?thesis
  proof (cases "ready' = None \<and> d \<noteq> PublicationCompleted")
    case False
    then have "\<exists>d' ns'. restore_retained env st active active_record retained retained_record p = sreturn (scan, ready', d', ns')"
      by (auto simp: restore_retained_def p)
    with stay show ?thesis by auto
  next
    case True
    show ?thesis
    proof (cases retained_record)
      case None
      with stay True show ?thesis by (simp add: restore_retained_def p Let_def)
    next
      case (Some x)
      obtain m rec where x: "x = (m, rec)" by (cases x)
      have "inspects env st t0 m rec" using rr Some x by (simp add: found_ok_def)
      then have here: "completed_ok env st t0 ready p t \<Longrightarrow> spared env st t0 t \<and> inspects env st t m rec" for t
        using True inspects_near [OF env, of st t0 t] by (simp add: completed_ok_def p retold_def)
      have "triple (on_tree (\<lambda>t. spared env st t0 t \<and> inspects env st t m rec))
         (sbind (lease_record env rec) (\<lambda>l. sbind (activate_recovered env st m) (\<lambda>_.
            sreturn (scan, Some l, RetainedRestored, report_active_failure active scan ns))))
         (\<lambda>r. on_tree (\<lambda>t. case r of (scan, ready, disposition, notices) \<Rightarrow> spared env st t0 t \<and> serves_all env st t ready))
         (on_tree (spared env st t0))"
        by (rule leased_activation_triple [OF env, where R = "\<lambda>r t. case r of (scan, ready, disposition, notices) \<Rightarrow>
              spared env st t0 t \<and> serves_all env st t ready"])
          (auto simp: activate_recovered_def serves_all_def)
      then have "triple (on_tree (completed_ok env st t0 ready p))
         (sbind (lease_record env rec) (\<lambda>l. sbind (activate_recovered env st m) (\<lambda>_.
            sreturn (scan, Some l, RetainedRestored, report_active_failure active scan ns)))) ?R
         (on_tree (spared env st t0))"
        by (rule triple_conseq) (use here in \<open>auto simp: on_tree_def\<close>)
      with True show ?thesis by (simp add: restore_retained_def p Some x Let_def)
    qed
  qed
qed


section \<open>Reclamation\<close>

lemma within_sfold: "(\<And>x s. x \<in> set xs \<Longrightarrow> within Z (f x s)) \<Longrightarrow> within Z (sfold f xs s)"
proof (induction xs arbitrary: s)
  case (Cons x xs)
  then show ?case unfolding sfold.simps by (intro within_bind) simp_all
qed (simp add: within_keeps keeps_return)

lemma within_remove_node:
  assumes "closed_below Z" and "Z p"
  shows "within Z (s_unlink p)" "within Z (s_remove_dir p)"
proof -
  have "\<not> Z q \<Longrightarrow> \<not> prefix p q" for q using assms by (auto simp: closed_below_def)
  then have "within Z (\<lambda>w. (Ok (), w\<lparr>sw_tree := tree_remove p (sw_tree w)\<rparr>))"
    by (auto simp: within_def tree_get_remove)
  then show "within Z (s_unlink p)" "within Z (s_remove_dir p)"
    unfolding s_unlink_def s_remove_dir_def
    by (intro within_call; simp add: within_def split: option.split snode.split)+
qed

lemma within_remove_tree:
  assumes Z: "closed_below Z"
  shows "Z p \<Longrightarrow> within Z (remove_tree n env p visited)"
proof (induction n arbitrary: p visited)
  case 0
  show ?case by (simp add: within_keeps keeps_fail)
next
  case (Suc n)
  have below: "Z (p @ [c])" for c using Z Suc.prems unfolding closed_below_def by auto
  have step: "within Z (sbind (scall PubStorageFailed (sreturn ())) (\<lambda>_.
       sbind (remove_tree n env (p @ [name]) v) (\<lambda>(more, v). sreturn (sat_add bytes more, v))))" for name v bytes
    by (intro within_bind Suc.IH below) (auto intro: within_keeps keeps_intros)
  have entries: "within Z (sfold (\<lambda>name (bytes, visited). sbind (scall PubStorageFailed (sreturn ())) (\<lambda>_.
       sbind (remove_tree n env (p @ [name]) visited) (\<lambda>(more, visited). sreturn (sat_add bytes more, visited)))) names s)" for names s
    by (rule within_sfold) (simp add: step split: prod.split)
  have metadata: "within Z (case node of
          SDir \<Rightarrow>
            sbind (read_dir env PubStorageFailed p) (\<lambda>names.
            sbind (sfold (\<lambda>name (bytes, visited). sbind (scall PubStorageFailed (sreturn ())) (\<lambda>_.
                     sbind (remove_tree n env (p @ [name]) visited) (\<lambda>(more, visited).
                     sreturn (sat_add bytes more, visited)))) names (0, Suc visited)) (\<lambda>result.
            sbind (s_remove_dir p) (\<lambda>_. sreturn result)))
        | SFile content \<Rightarrow> sbind (s_unlink p) (\<lambda>_. sreturn (length content, Suc visited))
        | SLink \<Rightarrow> sbind (s_unlink p) (\<lambda>_. sreturn (en_link_length env p, Suc visited)))" for node
    by (cases node; simp only: snode.case;
        intro within_bind entries within_remove_node [OF Z Suc.prems]; intro within_keeps keeps_intros)
  have read: "within Z (sread PubStorageFailed (\<lambda>t. ok_or PubStorageFailed (tree_get t p)))"
    by (intro within_keeps keeps_intros)
  show ?case
    unfolding remove_tree.simps
    using within_bind [OF read metadata] by (simp add: within_keeps keeps_fail)
qed

lemma within_reclaim_entry:
  assumes Z: "closed_below Z" "Z p"
  shows "within Z (reclaim_entry env p g c)"
  unfolding within_def
proof (intro allI impI)
  fix w q assume q: "\<not> Z q"
  have "within Z (sbind (stry (remove_tree n env p 0)) (\<lambda>r. sreturn (f r)))" for n and f :: "_ \<Rightarrow> cleanup"
  proof (rule within_bind)
    show "within Z (stry (remove_tree n env p 0))"
      using within_remove_tree [OF Z(1,2), of n env 0] by (simp add: within_def stry_def split_beta)
  qed (intro within_keeps keeps_intros)
  with q show "tree_get (sw_tree (snd (reclaim_entry env p g c w))) q = tree_get (sw_tree w) q"
    unfolding reclaim_entry_def within_def by blast
qed

text \<open>The generations that reclamation must leave, and their surroundings.\<close>

definition sheltered :: "store_env \<Rightarrow> GenerationStore \<Rightarrow> path set \<Rightarrow> tree \<Rightarrow> string \<Rightarrow> bool" where
  "sheltered env st own t g \<longleftrightarrow> admitted_generation g = Some g \<and> \<not> prefix GENERATION_STAGE_PREFIX g
     \<and> (en_locks env (generation_directory st g @ [GENERATION_READER_LOCK_FILE]) \<noteq> Free
        \<or> generation_directory st g @ [GENERATION_READER_LOCK_FILE] \<in> own)
     \<and> (\<exists>b. tree_get t (generation_directory st g @ [GENERATION_READER_LOCK_FILE]) = Some (SFile b))"

definition covered :: "store_env \<Rightarrow> GenerationStore \<Rightarrow> path set \<Rightarrow> tree \<Rightarrow> path \<Rightarrow> bool" where
  "covered env st own t q \<longleftrightarrow> q = active_file st \<or> (\<exists>g. sheltered env st own t g \<and> near (generation_directory st g) q)"

definition agrees :: "store_env \<Rightarrow> GenerationStore \<Rightarrow> path set \<Rightarrow> tree \<Rightarrow> tree \<Rightarrow> bool" where
  "agrees env st own t1 t \<longleftrightarrow> (\<forall>q. covered env st own t1 q \<longrightarrow> tree_get t q = tree_get t1 q)"

lemma generation_char_ascii: "generation_char c \<Longrightarrow> of_char c < (128::nat)"
  by (auto simp: generation_char_def is_ascii_alphanumeric_def is_ascii_digit_def is_ascii_upper_def is_ascii_lower_def)

lemma admitted_utf8: "admitted_generation g = Some g \<Longrightarrow> utf8_valid g"
  unfolding utf8_valid_def
  by (rule ascii_utf8)
    (auto simp: admitted_generation_def generation_parse_def Let_def list_all_iff
      intro: generation_char_ascii split: if_splits)

lemma keeps_leased [keeps_intros]: "keeps_tree (generation_is_leased env own d)"
  unfolding generation_is_leased_def Let_def
  by (intro keeps_intros) (simp add: keeps_intros split: option.split snode.split)

lemma sbind_Ok_iff: "sbind m f w = (Ok y, w') \<longleftrightarrow> (\<exists>x w1. m w = (Ok x, w1) \<and> f x w1 = (Ok y, w'))"
  by (auto simp: sbind_def split: prod.splits outcome.splits)

lemma scall_Ok: "scall e m w = (Ok y, w') \<Longrightarrow> \<exists>w1. sw_tree w1 = sw_tree w \<and> m w1 = (Ok y, w')"
  by (auto simp: scall_def split: prod.splits if_splits dest: next_fault_tree)

lemma leased_False:
  "generation_is_leased env own d w = (Ok False, w') \<Longrightarrow>
   tree_get (sw_tree w) (d @ [GENERATION_READER_LOCK_FILE]) = Some (SFile b) \<Longrightarrow>
   en_locks env (d @ [GENERATION_READER_LOCK_FILE]) = Free \<and> d @ [GENERATION_READER_LOCK_FILE] \<notin> own"
  by (auto simp: generation_is_leased_def Let_def sbind_Ok_iff sread_def sreturn_def split: if_splits dest!: scall_Ok)

lemma sheltered_leased:
  assumes g: "sheltered env st own t1 g"
  shows "triple (on_tree (agrees env st own t1)) (stry (generation_is_leased env own (generation_directory st g)))
     (\<lambda>r. on_tree (\<lambda>t. agrees env st own t1 t \<and> r \<noteq> Ok False)) (on_tree (agrees env st own t1))"
proof -
  let ?p = "generation_directory st g @ [GENERATION_READER_LOCK_FILE]"
  have lock: "covered env st own t1 ?p" using g by (auto simp: covered_def near_def)
  have lockfile: "\<exists>b. tree_get t ?p = Some (SFile b)" if "agrees env st own t1 t" for t
    using that g lock by (auto simp: agrees_def sheltered_def)
  have "sw_tree (snd (generation_is_leased env own (generation_directory st g) w)) = sw_tree w \<and>
     fst (generation_is_leased env own (generation_directory st g) w) \<noteq> Ok False"
    if "agrees env st own t1 (sw_tree w)" for w
  proof
    show "sw_tree (snd (generation_is_leased env own (generation_directory st g) w)) = sw_tree w"
      using keeps_leased [of env own "generation_directory st g"] by (simp add: keeps_tree_def)
    show "fst (generation_is_leased env own (generation_directory st g) w) \<noteq> Ok False"
      using lockfile [OF that] g leased_False [of env own "generation_directory st g" w]
      by (cases "generation_is_leased env own (generation_directory st g) w") (auto simp: sheltered_def)
  qed
  then show ?thesis
    by (simp add: triple_def on_tree_def stry_def split_beta)
qed

lemma closed_prefix: "closed_below (prefix p)"
  unfolding closed_below_def using prefix_order.trans by blast

lemma within_agrees:
  "within Z m \<Longrightarrow> (\<And>q. covered env st own t1 q \<Longrightarrow> \<not> Z q) \<Longrightarrow>
   triple (on_tree (agrees env st own t1)) m (\<lambda>_. on_tree (agrees env st own t1)) (on_tree (agrees env st own t1))"
  unfolding agrees_def by (rule within_triple)

lemma not_covered_generation:
  assumes "\<not> sheltered env st own t1 name" and "prefix (generations_dir st @ [name]) q"
  shows "\<not> covered env st own t1 q"
proof
  assume "covered env st own t1 q"
  moreover have "q \<noteq> active_file st"
    using assms(2) store_names by (auto simp: generations_dir_def active_file_def prefix_def)
  ultimately obtain g where g: "sheltered env st own t1 g" "near (generations_dir st @ [g]) q"
    unfolding covered_def generation_directory_def by blast
  with assms(2) have "g = name"
    by (auto simp: near_def prefix_def append_eq_append_conv2 append_eq_Cons_conv Cons_eq_append_conv)
  with g assms(1) show False by simp
qed

lemma not_covered_candidate: "prefix (candidates_root st @ [name]) q \<Longrightarrow> \<not> covered env st own t1 q"
  using store_names
  by (auto simp: covered_def near_def candidates_root_def generation_directory_def generations_dir_def active_file_def
      prefix_def append_eq_append_conv2 append_eq_Cons_conv Cons_eq_append_conv)


lemma reclaim_generation_triple:
  "triple (on_tree (agrees env st own t1)) (reclaim_generation env st own preserve name c)
     (\<lambda>_. on_tree (agrees env st own t1)) (on_tree (agrees env st own t1))"
proof (cases "sheltered env st own t1 name")
  case False
  let ?Z = "prefix (generations_dir st @ [name])"
  have entry: "within ?Z (reclaim_entry env (generations_dir st @ [name]) g c)" for g c
    by (rule within_reclaim_entry [OF closed_prefix]) simp
  have leased: "within ?Z (case r of
        Ok True \<Rightarrow> sreturn ((fst c)\<lparr>cc_deferred := Suc (cc_deferred (fst c))\<rparr>,
             snd c @ [recovery_notice CleanupDeferred ReleaseReaders (Some g)])
      | Ok False \<Rightarrow> reclaim_entry env (generations_dir st @ [name]) True c
      | _ \<Rightarrow> sreturn (cleanup_notice (recovery_notice CleanupDeferred FreeStorage (Some g)) c))"
    for r :: "(bool, PublicationError) outcome" and g
    by (auto simp: entry within_keeps keeps_return split: outcome.split bool.split)
  have "within ?Z (reclaim_generation env st own preserve name c)"
    unfolding reclaim_generation_def Let_def
    by (auto simp: entry within_keeps keeps_return keeps_try [OF keeps_leased] intro!: within_bind [OF _ leased]
        split: option.split)
  then show ?thesis
    by (rule within_agrees) (use not_covered_generation [OF False] in blast)
next
  case True
  let ?P = "agrees env st own t1"
  have adm: "admitted_generation name = Some name" "utf8_valid name" "\<not> prefix GENERATION_STAGE_PREFIX name"
    using True admitted_utf8 by (auto simp: sheltered_def)
  have skip: "triple (on_tree ?P) (sreturn x) (\<lambda>_. on_tree ?P) (on_tree ?P)" for x :: cleanup
    by (simp add: triple_def sreturn_def)
  have "triple (on_tree (\<lambda>t. ?P t \<and> r \<noteq> Ok False)) (case r of
        Ok True \<Rightarrow> sreturn ((fst c)\<lparr>cc_deferred := Suc (cc_deferred (fst c))\<rparr>,
             snd c @ [recovery_notice CleanupDeferred ReleaseReaders (Some name)])
      | Ok False \<Rightarrow> reclaim_entry env (generations_dir st @ [name]) True c
      | _ \<Rightarrow> sreturn (cleanup_notice (recovery_notice CleanupDeferred FreeStorage (Some name)) c))
      (\<lambda>_. on_tree ?P) (on_tree ?P)" for r :: "(bool, PublicationError) outcome"
    by (rule triple_pure) (use skip in \<open>auto split: outcome.split bool.split\<close>)
  from triple_bind [OF sheltered_leased [OF True, unfolded generation_directory_def] this] skip
  show ?thesis
    by (simp add: reclaim_generation_def adm Let_def)
qed

lemma keeps_entries [keeps_intros]: "keeps_tree (entries_or_notice env p c)"
  unfolding entries_or_notice_def bounded_entries_def
  by (intro keeps_intros) (auto intro!: keeps_intros split: prod.split)

lemma reclaim_triple:
  "triple (on_tree (agrees env st own t1)) (reclaim env st own preserve notices)
     (\<lambda>_. on_tree (agrees env st own t1)) (on_tree (agrees env st own t1))"
proof -
  let ?P = "agrees env st own t1"
  have generations: "triple (on_tree ?P) (sfold (reclaim_generation env st own preserve) names c)
      (\<lambda>_. on_tree ?P) (on_tree ?P)" for names c
    by (rule sfold_triple [where P = "\<lambda>_. on_tree ?P"]) (rule reclaim_generation_triple)
  have candidates: "triple (on_tree ?P) (sfold (\<lambda>name. reclaim_entry env (candidates_root st @ [name]) False) names c)
      (\<lambda>_. on_tree ?P) (on_tree ?P)" for names c
  proof (rule sfold_triple [where P = "\<lambda>_. on_tree ?P"])
    fix name c
    show "triple (on_tree ?P) (reclaim_entry env (candidates_root st @ [name]) False c) (\<lambda>_. on_tree ?P) (on_tree ?P)"
      by (rule within_agrees [OF within_reclaim_entry [OF closed_prefix]]) (auto dest: not_covered_candidate)
  qed
  have finish: "triple (on_tree ?P) (sbind (stry s_sync) (\<lambda>a.
     sbind (if a = Ok () then stry s_sync else sreturn a) (\<lambda>b.
     sreturn (if b = Ok () then c else cleanup_notice (recovery_notice CleanupDeferred FreeStorage None) c))))
     (\<lambda>_. on_tree ?P) (on_tree ?P)" for c
    by (rule keeps_tree_triple) (intro keeps_intros)
  show ?thesis
    unfolding reclaim_def Let_def
    by (rule triple_seq [OF keeps_entries], simp only: split_beta,
        rule triple_bind [OF generations], rule triple_seq [OF keeps_entries], simp only: split_beta,
        rule triple_bind [OF candidates finish])
qed

lemma keeps_pointer [keeps_intros]: "keeps_tree (read_pointer env st p)"
  unfolding read_pointer_def
  by (intro keeps_intros) (auto intro!: keeps_intros split: outcome.split bool.split)

lemma keeps_space [keeps_intros]: "keeps_tree (available_space env)"
  unfolding available_space_def by (intro keeps_intros)

text \<open>The record of a generation names its own directory's lock.\<close>

lemma serves_sheltered:
  assumes "serves env st t l" and g: "g = gb_generation (gr_binding l)"
    and "admitted_generation g = Some g" and "\<not> prefix GENERATION_STAGE_PREFIX g"
  shows "sheltered env st (own_locks (Some l)) t g"
proof -
  from assms(1) obtain m where m: "inspect_tree env (gs_source st) t (generation_directory st (generation_of m))
      (Some (generation_of m)) = Ok (m, l)"
    unfolding serves_def inspects_def by blast
  with g have "generation_of m = g" using inspect_tree_Ok(2) [OF m] by simp
  with inspect_tree_Ok(3,4) [OF m] assms(3,4) show ?thesis
    by (simp add: sheltered_def own_locks_def)
qed

lemma serves_agrees:
  assumes env: "local_inspection env" and s: "serves env st t1 l" and g: "g = gb_generation (gr_binding l)"
    and sh: "sheltered env st own t1 g" and a: "agrees env st own t1 t"
  shows "serves env st t l"
proof -
  from s obtain m where p: "pointed env st m t1" and m: "inspect_tree env (gs_source st) t1
      (generation_directory st (generation_of m)) (Some (generation_of m)) = Ok (m, l)"
    unfolding serves_def inspects_def by blast
  have gm: "generation_of m = g" using inspect_tree_Ok(2) [OF m] g by simp
  have "near (generation_directory st (generation_of m)) q \<Longrightarrow> tree_get t1 q = tree_get t q" for q
    using a sh by (auto simp: agrees_def covered_def gm)
  from inspect_tree_near [OF env this] m have "inspects env st t m l" by (simp add: inspects_def)
  moreover have "pointed env st m t"
    by (rule pointed_same [OF p]) (use a in \<open>simp add: agrees_def covered_def\<close>)
  ultimately show ?thesis unfolding serves_def by blast
qed

lemma spared_agrees:
  assumes "spared env st t0 t1" and a: "agrees env st own t1 t"
  shows "spared env st t0 t"
  unfolding spared_def
proof (intro allI impI)
  fix g q assume g: "read_elsewhere env st t0 g" and q: "prefix (generation_directory st g) q"
  let ?p = "generation_directory st g @ [GENERATION_READER_LOCK_FILE]"
  have same: "prefix (generation_directory st g) r \<Longrightarrow> tree_get t1 r = tree_get t0 r" for r
    using assms(1) g by (simp add: spared_def)
  then have "tree_get t1 ?p = tree_get t0 ?p" by simp
  with g have "sheltered env st own t1 g" by (auto simp: sheltered_def read_elsewhere_def)
  with a q have "tree_get t q = tree_get t1 q" by (auto simp: agrees_def covered_def near_def)
  with same [OF q] show "tree_get t q = tree_get t0 q" by simp
qed

text \<open>What is served after the reclamation, for a generation whose name is not a staging name.\<close>

definition plainly_named :: "GenerationLease option \<Rightarrow> bool" where
  "plainly_named ready \<longleftrightarrow> (\<forall>l. ready = Some l \<longrightarrow>
     admitted_generation (gb_generation (gr_binding l)) = Some (gb_generation (gr_binding l))
     \<and> \<not> prefix GENERATION_STAGE_PREFIX (gb_generation (gr_binding l)))"

definition recovered_ok :: "store_env \<Rightarrow> GenerationStore \<Rightarrow> tree \<Rightarrow> RecoveryOutcome \<Rightarrow> tree \<Rightarrow> bool" where
  "recovered_ok env st t0 out t \<longleftrightarrow> spared env st t0 t
     \<and> (plainly_named (ro_ready out) \<longrightarrow> serves_all env st t (ro_ready out))"

lemma clean_up_triple:
  assumes env: "local_inspection env" and p: "p = (scan, ready, d, ns)"
  shows "triple (on_tree (\<lambda>t. spared env st t0 t \<and> serves_all env st t ready)) (clean_up env st minimum active problem p)
     (\<lambda>out. on_tree (recovered_ok env st t0 out)) (on_tree (spared env st t0))"
proof (rule triple_each_tree)
  fix t1 assume t1: "spared env st t0 t1 \<and> serves_all env st t1 ready"
  let ?P = "agrees env st (own_locks ready) t1"
  have sp: "?P t \<Longrightarrow> spared env st t0 t" for t using spared_agrees t1 by blast
  have sv: "?P t \<Longrightarrow> plainly_named ready \<Longrightarrow> serves_all env st t ready" for t
    using t1 serves_sheltered serves_agrees [OF env] unfolding serves_all_def plainly_named_def by blast
  have seq: "keeps_tree (available_space env)" by (rule keeps_space)
  have "triple (on_tree ?P) (clean_up env st minimum active problem p) (\<lambda>out. on_tree (\<lambda>t. ?P t \<and> ro_ready out = ready)) (on_tree ?P)"
    unfolding clean_up_def p prod.case
    by (rule triple_seq [OF keeps_pointer], rule triple_seq [OF keeps_pointer], rule triple_bind [OF reclaim_triple],
        simp only: split_beta, rule triple_seq [OF keeps_space])
      (simp add: triple_def sreturn_def on_tree_def)
  then show "triple (on_tree ((=) t1)) (clean_up env st minimum active problem p)
     (\<lambda>out. on_tree (recovered_ok env st t0 out)) (on_tree (spared env st t0))"
    by (rule triple_conseq) (use sp sv in \<open>auto simp: on_tree_def recovered_ok_def agrees_def\<close>)
qed


lemma recover_pointers_triple:
  assumes env: "local_inspection env" and scan: "scan_ok env st t0 scan"
    and active: "pointer_ok env (active_file st) t0 active"
  shows "triple (on_tree ((=) t0)) (recover_pointers env st minimum scan active retained)
     (\<lambda>out. on_tree (recovered_ok env st t0 out)) (on_tree (spared env st t0))"
proof -
  let ?S = "spared env st t0"
  let ?E = "on_tree ?S"
  let ?R = "\<lambda>out. on_tree (recovered_ok env st t0 out)"
  let ?a = "pointer_record active (gc_regular scan)"
  have found: "found_ok env st t0 (pointer_record s (gc_regular scan))" for s
    using pointer_record_inspects [OF scan] by (simp add: found_ok_def)
  have ready: "serves_all env st t0 (map_option snd ?a)"
  proof (cases ?a)
    case (Some x)
    obtain m rec where x: "x = (m, rec)" by (cases x)
    then have s: "pointer_record active (gc_regular scan) = Some (m, rec)" using Some by simp
    then have "active = PointerManifest m" by (rule pointer_record_cases)
    then have "pointed env st m t0" using active active_pointed by blast
    with pointer_record_inspects [OF scan s] show ?thesis by (auto simp: serves_all_def serves_def s)
  qed (simp add: serves_all_def)
  have leased: "triple (on_tree (retold st t0)) (lease_found env ?a)
     (\<lambda>ready. on_tree (\<lambda>t. retold st t0 t \<and> ready = map_option snd ?a)) ?E"
    by (rule triple_conseq [OF lease_found_triple [where P = "retold st t0"]]) (auto simp: on_tree_def intro: retold_spared)
  have rest: "triple (on_tree (\<lambda>t. retold st t0 t \<and> ready = map_option snd ?a))
     (sbind (complete_publication env st scan active ?a retained rr ready) (\<lambda>p.
      sbind (restore_retained env st active ?a retained rr p) (\<lambda>p.
      clean_up env st minimum active problem (report_rest active retained problem p)))) ?R ?E"
    if rr: "found_ok env st t0 rr" for retained rr ready problem
  proof (rule triple_pure)
    assume r: "ready = map_option snd ?a"
    have clean: "triple (case p of (scan, ready, d, ns) \<Rightarrow> on_tree (\<lambda>t. ?S t \<and> serves_all env st t ready))
       (clean_up env st minimum active problem (report_rest active retained problem p)) ?R ?E" for p
    proof -
      obtain scan' ready' d ns where p: "p = (scan', ready', d, ns)" by (cases p)
      obtain ns' where "report_rest active retained problem p = (scan', ready', d, ns')"
        by (simp add: report_rest_def p)
      from clean_up_triple [OF env this] show ?thesis by (simp add: p)
    qed
    show "triple (on_tree (retold st t0)) (sbind (complete_publication env st scan active ?a retained rr ready) (\<lambda>p.
      sbind (restore_retained env st active ?a retained rr p) (\<lambda>p.
      clean_up env st minimum active problem (report_rest active retained problem p)))) ?R ?E"
      by (rule triple_bind [OF complete_triple [OF env scan ready [folded r]]
            triple_bind [OF restore_triple [OF env rr] clean]])
  qed
  have supplied: "triple (case x of (_, r) \<Rightarrow> on_tree (\<lambda>t. retold st t0 t \<and> found_ok env st t0 r))
     (case x of (retained, rr) \<Rightarrow> let problem = retained_problem ?a retained rr in
      sbind (lease_found env ?a) (\<lambda>ready.
      sbind (complete_publication env st scan active ?a retained rr ready) (\<lambda>p.
      sbind (restore_retained env st active ?a retained rr p) (\<lambda>p.
      clean_up env st minimum active problem (report_rest active retained problem p))))) ?R ?E" for x
  proof -
    obtain ret rr where x: "x = (ret, rr)" by (cases x)
    show ?thesis
      unfolding x prod.case Let_def
      by (rule triple_pure) (rule triple_bind [OF leased rest])
  qed
  show ?thesis
    unfolding recover_pointers_def Let_def
    by (rule triple_bind [OF supply_triple [OF scan found]]) (use supplied in \<open>simp add: Let_def\<close>)
qed

lemma recover_triple:
  assumes env: "local_inspection env"
  shows "triple (on_tree ((=) t0)) (recover env st minimum)
     (\<lambda>out. on_tree (recovered_ok env st t0 out)) (on_tree (spared env st t0))"
proof -
  let ?S = "spared env st t0"
  let ?E = "on_tree ?S"
  let ?R = "\<lambda>out. on_tree (recovered_ok env st t0 out)"
  have lock: "triple (on_tree ((=) t0)) m (\<lambda>_. on_tree ((=) t0)) ?E" if "keeps_tree m" for m :: "unit sio"
    by (rule triple_conseq [OF keeps_tree_triple [OF that, where P = "(=) t0"]]) (auto simp: on_tree_def)
  have scan: "triple (on_tree ((=) t0)) (scan_generations env st)
     (\<lambda>scan. on_tree (\<lambda>t. t = t0 \<and> scan_ok env st t0 scan)) ?E"
    by (rule triple_conseq [OF scan_triple]) (auto simp: on_tree_def)
  have eq: "(\<lambda>t. t = t0) = (=) t0" by auto
  have read: "triple (on_tree (\<lambda>t. t = t0 \<and> scan_ok env st t0 scan))
     (sbind (read_pointer env st (active_file st)) (\<lambda>active.
      sbind (read_pointer env st (retained_file st)) (\<lambda>retained.
      recover_pointers env st minimum scan active retained))) ?R ?E" for scan
  proof (rule triple_pure)
    assume scan: "scan_ok env st t0 scan"
    have second: "triple (on_tree (\<lambda>t. t = t0 \<and> pointer_ok env (active_file st) t0 active))
       (sbind (read_pointer env st (retained_file st)) (\<lambda>retained.
        recover_pointers env st minimum scan active retained)) ?R ?E" for active
    proof (rule triple_pure)
      assume a: "pointer_ok env (active_file st) t0 active"
      have third: "triple (on_tree (\<lambda>t. t = t0 \<and> pointer_ok env (retained_file st) t0 retained))
         (recover_pointers env st minimum scan active retained) ?R ?E" for retained
        by (rule triple_pure) (unfold eq, rule recover_pointers_triple [OF env scan a])
      show "triple (on_tree (\<lambda>t. t = t0)) (sbind (read_pointer env st (retained_file st)) (\<lambda>retained.
        recover_pointers env st minimum scan active retained)) ?R ?E"
        unfolding eq by (rule triple_bind [OF read_pointer_triple third])
    qed
    show "triple (on_tree (\<lambda>t. t = t0)) (sbind (read_pointer env st (active_file st)) (\<lambda>active.
      sbind (read_pointer env st (retained_file st)) (\<lambda>retained.
      recover_pointers env st minimum scan active retained))) ?R ?E"
      unfolding eq by (rule triple_bind [OF read_pointer_triple second])
  qed
  show ?thesis
    unfolding recover_def
    by (rule triple_bind [OF lock [OF keeps_locks(1)] triple_bind [OF lock [OF keeps_locks(3)] triple_bind [OF scan read]]])
qed

text \<open>C3. Recovery under every schedule of faults spares, even when it ends in an error, the
  generations whose reader lock another process holds and whose admitted name does not begin
  with the staging prefix; and when it returns a ready generation whose name is admitted and
  does not begin with the staging prefix either, the active pointer in the final tree names
  that generation and inspecting it there succeeds, so reclamation has not touched what
  recovery serves.  Directories with the staging prefix are reclaimed whatever they hold.\<close>

theorem recover_serves_and_spares:
  "local_inspection env \<Longrightarrow> recover env st minimum w = (res, w') \<Longrightarrow>
   spared env st (sw_tree w) (sw_tree w') \<and>
   (\<forall>out. res = Ok out \<longrightarrow> plainly_named (ro_ready out) \<longrightarrow> serves_all env st (sw_tree w') (ro_ready out))"
  using recover_triple [of env "sw_tree w" st minimum]
  by (cases res) (auto simp: triple_def on_tree_def recovered_ok_def split: prod.splits)

definition sample_reader :: store_env where
  "sample_reader = sample_env\<lparr>en_locks := \<lambda>p. if p = sample_directory @ [GENERATION_READER_LOCK_FILE] then SharedByOthers else Free\<rparr>"

text \<open>The store of the example with its generation active and read by another process.\<close>

definition served_world :: store_world where
  "served_world = (sample_world [])\<lparr>sw_tree := (active_file sample_store, SFile ''g1'') # sample_tree\<rparr>"

lemma served_lookups:
  "tree_get (sw_tree served_world) sample_directory = Some SDir" "canonical (sw_tree served_world) sample_directory"
  "tree_get (sw_tree served_world) (sample_directory @ [GENERATION_READER_LOCK_FILE]) = Some (SFile [])"
  "tree_get (sw_tree served_world) (sample_directory @ [GENERATION_MANIFEST_FILE]) = Some (SFile ''g1'')"
  "tree_get (sw_tree served_world) (sample_directory @ [GENERATION_SOURCE_DIRECTORY]) = Some SDir"
  "tree_get (sw_tree served_world) (sample_directory @ [GENERATION_INDEX_DIRECTORY]) = Some SDir"
  "tree_get (sw_tree served_world) (active_file sample_store) = Some (SFile ''g1'')"
  "tree_get (sw_tree served_world) (retained_file sample_store) = None"
  "tree_get (sw_tree served_world) (generations_dir sample_store) = Some SDir"
  "tree_get (sw_tree served_world) (candidates_root sample_store) = None"
  "tree_children (sw_tree served_world) (generations_dir sample_store) = [''g1'']"
  by code_simp+

lemma served_world_calm: "sw_faults served_world = []"
  by (simp add: served_world_def sample_world_def)

lemma served_inspection:
  "inspect_tree sample_reader (gs_source sample_store) (sw_tree served_world) sample_directory (Some ''g1'') =
     Ok (sample_manifest, sample_generation)"
  by (simp add: inspect_tree_def served_lookups sample_lookups(3) decode_file_def sample_reader_def sample_env_def sample_ids sample_admitted opt_all_def
      MAX_GENERATION_MANIFEST_BYTES_def ok_or_def sample_generation_def Let_def)

lemma served_locks:
  "publication_lock_acquire sample_reader sample_store served_world = (Ok (), served_world)"
  "recovery_lock_exclusive sample_reader sample_store served_world = (Ok (), served_world)"
  "lease_record sample_reader sample_generation served_world = (Ok sample_generation, served_world)"
  by code_simp+

lemma served_names:
  "generations_dir sample_store @ [''g1''] = sample_directory"
  "admitted_generation ''g1'' = Some ''g1''" "\<not> prefix GENERATION_STAGE_PREFIX ''g1''" "utf8_valid ''g1''"
  "generation_of sample_manifest = ''g1''"
  by code_simp+

lemma served_env:
  "en_order sample_reader = (\<lambda>ns. ns)" "en_decode sample_reader ''g1'' = Some sample_manifest"
  "en_available sample_reader = (\<lambda>_. None)" "gs_source sample_store = sample_source"
  by (simp_all add: sample_reader_def sample_env_def sample_store_def)

lemma served_inspect:
  "inspect_generation_directory sample_reader sample_store sample_directory (Some ''g1'') served_world =
     (Ok (Ok (sample_manifest, sample_generation)), served_world)"
  by (simp add: inspect_generation_directory_def sbind_def unavailable_def sreturn_def
      next_fault_def served_world_calm served_inspection)

lemmas served_steps = sbind_def sread_def scall_def stry_def sreturn_def next_fault_def served_world_calm

lemma served_scan:
  "scan_generations sample_reader sample_store served_world =
     (Ok \<lparr>gc_regular = [(''g1'', \<lparr>ig_path = sample_directory, ig_manifest = sample_manifest,
            ig_record = sample_generation, ig_staged = False\<rparr>)], gc_staged = [], gc_invalid = []\<rparr>, served_world)"
  by (simp add: scan_generations_def read_dir_def served_steps served_lookups Let_def
      served_env scan_entry_def MAX_RECOVERY_DIRECTORY_ENTRIES_def served_names served_inspect add_inspected_def)

lemma served_pointers:
  "read_pointer sample_reader sample_store (active_file sample_store) served_world = (Ok (PointerManifest sample_manifest), served_world)"
  "read_pointer sample_reader sample_store (retained_file sample_store) served_world = (Ok PointerMissing, served_world)"
  by (simp_all add: read_pointer_def served_steps s_present_def served_lookups read_json_def decode_file_def served_env sample_admitted
       MAX_GENERATION_MANIFEST_BYTES_def ok_or_def)

lemma served_reclaim:
  "\<exists>c. reclaim sample_reader sample_store own [''g1'', ''g1''] notices served_world = (Ok c, served_world)"
  by (simp add: reclaim_def entries_or_notice_def bounded_entries_def read_dir_def served_steps served_lookups Let_def
      served_env MAX_RECOVERY_DIRECTORY_ENTRIES_def reclaim_generation_def served_names s_sync_def cleanup_notice_def)

lemma served_recover:
  "\<exists>out. recover sample_reader sample_store 0 served_world = (Ok out, served_world) \<and> ro_ready out = Some sample_generation"
proof -
  obtain c where c: "reclaim sample_reader sample_store {gr_reader_lock sample_generation} [''g1'', ''g1''] [] served_world = (Ok c, served_world)"
    using served_reclaim by blast
  have none: "gm_expected_active sample_manifest = None" by (simp add: manifest_from_request_def sample_request_def)
  let ?i = "\<lparr>ig_path = sample_directory, ig_manifest = sample_manifest, ig_record = sample_generation, ig_staged = False\<rparr>"
  have found: "bt_get [(''g1'', ?i)] ''g1'' = Some ?i" by (simp add: bt_get_def)
  have rec: "pointer_record (PointerManifest sample_manifest) [(''g1'', ?i)] = Some (sample_manifest, sample_generation)"
    by (simp add: sample_ids found)
  have bare: "supply_retained sample_reader sample_store \<lparr>gc_regular = [(''g1'', ?i)], gc_staged = [], gc_invalid = []\<rparr>
      (Some (sample_manifest, sample_generation)) PointerMissing None served_world = (Ok (PointerMissing, None), served_world)"
    by (simp add: supply_retained_def predecessor_def none sreturn_def)
  have settled: "complete_publication sample_reader sample_store \<lparr>gc_regular = [(''g1'', ?i)], gc_staged = [], gc_invalid = []\<rparr>
      (PointerManifest sample_manifest) (Some (sample_manifest, sample_generation)) PointerMissing None (Some sample_generation) served_world =
      (Ok (\<lparr>gc_regular = [(''g1'', ?i)], gc_staged = [], gc_invalid = []\<rparr>, Some sample_generation, ReadyUnchanged, []), served_world)"
    by (simp add: complete_publication_def is_manifest_def select_pending_def sreturn_def)
  have space: "available_space sample_reader served_world = (Ok None, served_world)"
    by (simp add: available_space_def sbind_def stry_def sreturn_def sread_def scall_def next_fault_def served_world_calm served_env ok_or_def)
  have clean: "\<exists>out. clean_up sample_reader sample_store 0 (PointerManifest sample_manifest) None
      (\<lparr>gc_regular = [(''g1'', ?i)], gc_staged = [], gc_invalid = []\<rparr>, Some sample_generation, ReadyUnchanged, []) served_world =
      (Ok out, served_world) \<and> ro_ready out = Some sample_generation"
    by (cases c) (simp add: clean_up_def sbind_def served_pointers preserved_def pointer_names_of_def sample_ids is_manifest_def own_locks_def
        c space sreturn_def)
  show ?thesis
    using clean
    by (simp add: recover_def sbind_def served_locks served_scan served_pointers recover_pointers_def rec bare
       retained_problem_def none lease_found_def sreturn_def settled restore_retained_def report_rest_def report_invalid_candidates_def 
       is_manifest_def Let_def del: pointer_record.simps(1))
qed

theorem recover_serves_and_spares_witness:
  "\<exists>out w'. recover sample_reader sample_store 0 served_world = (Ok out, w')
     \<and> ro_ready out = Some sample_generation
     \<and> serves_all sample_reader sample_store (sw_tree w') (Some sample_generation)
     \<and> read_elsewhere sample_reader sample_store (sw_tree served_world) ''g1''
     \<and> spared sample_reader sample_store (sw_tree served_world) (sw_tree w')"
proof -
  obtain out where run: "recover sample_reader sample_store 0 served_world = (Ok out, served_world)"
    and ready: "ro_ready out = Some sample_generation" using served_recover by blast
  have env: "local_inspection sample_reader"
    using sample_env_local by (simp add: local_inspection_def sample_reader_def)
  have "gb_generation (gr_binding sample_generation) = ''g1''" by code_simp
  then have named: "plainly_named (ro_ready out)"
    by (simp add: plainly_named_def ready served_names)
  have "read_elsewhere sample_reader sample_store (sw_tree served_world) ''g1''"
    by (simp add: read_elsewhere_def served_names served_lookups) (simp add: sample_reader_def)
  with recover_serves_and_spares [OF env run] run ready named show ?thesis by auto
qed

section \<open>Staging names\<close>

text \<open>A generation identity may begin with the prefix of staging directories: it parses and
  a publication admits it, but recovery removes the directory of that name whatever the
  pointers name and whoever reads it.\<close>

lemma staging_named_generation_is_reclaimed:
  "generation_parse ''.generation-stage-1'' = Ok ''.generation-stage-1''
   \<and> generation_id_is_admitted ''.generation-stage-1''
   \<and> (\<forall>env st own preserve c. reclaim_generation env st own preserve ''.generation-stage-1'' c =
        reclaim_entry env (generation_directory st ''.generation-stage-1'') False c)"
proof (intro conjI allI)
  have "utf8_valid ''.generation-stage-1''" "prefix GENERATION_STAGE_PREFIX ''.generation-stage-1''"
    by code_simp+
  then show "reclaim_generation env st own preserve ''.generation-stage-1'' c =
      reclaim_entry env (generation_directory st ''.generation-stage-1'') False c" for env st own preserve c
    by (simp add: reclaim_generation_def generation_directory_def Let_def)
qed code_simp+

end
