(* ===== verification/Validation.thy ===== *)
theory Validation
  imports RustStrFacts RustPath
begin

text \<open>
  The request limits and the field validators of
  \<open>crates/slipbox-core/src/validation.rs\<close> that every record of the core shares.  A
  validator returns the message of the first thing it finds wrong, or nothing.
\<close>

section \<open>Combining validators\<close>

text \<open>\<open>Option::or_else\<close> and \<open>bool::then\<close>: the validators are chains of these.\<close>

fun or_else :: "'a option \<Rightarrow> 'a option \<Rightarrow> 'a option" where
  "or_else (Some e) y = Some e"
| "or_else None y = y"

definition error_if :: "bool \<Rightarrow> string \<Rightarrow> string option" where
  "error_if c message = (if c then Some message else None)"

lemma or_else_None_iff [simp]: "or_else x y = None \<longleftrightarrow> x = None \<and> y = None"
  by (cases x) auto

lemma error_if_None_iff [simp]: "error_if c m = None \<longleftrightarrow> \<not> c"
  by (simp add: error_if_def)

text \<open>
  The loops over \<open>enumerate()\<close> that keep the keys already passed in a vector
  \<open>seen\<close> and return at the first entry that is wrong.
\<close>

fun scan_seen :: "(nat \<Rightarrow> 'a \<Rightarrow> 'k list \<Rightarrow> string option) \<Rightarrow> ('a \<Rightarrow> 'k) \<Rightarrow> nat \<Rightarrow> 'k list \<Rightarrow> 'a list \<Rightarrow> string option" where
  "scan_seen check key i seen [] = None"
| "scan_seen check key i seen (x # xs) =
     or_else (check i x seen) (scan_seen check key (Suc i) (seen @ [key x]) xs)"

text \<open>The loop passes exactly when every entry passes with the keys before it.\<close>

lemma scan_seen_None_iff:
  "scan_seen check key i seen xs = None \<longleftrightarrow>
     (\<forall>k < length xs. check (i + k) (xs ! k) (seen @ map key (take k xs)) = None)"
proof (induction xs arbitrary: i seen)
  case (Cons x xs)
  have "(\<forall>k < length (x # xs). check (i + k) ((x # xs) ! k) (seen @ map key (take k (x # xs))) = None)
      \<longleftrightarrow> check i x seen = None \<and>
        (\<forall>k < length xs. check (Suc i + k) (xs ! k) ((seen @ [key x]) @ map key (take k xs)) = None)"
    by (auto simp: less_Suc_eq_0_disj)
  with Cons.IH show ?case by simp
qed simp

lemma scan_seen_entry:
  "scan_seen check key i seen xs = None \<Longrightarrow> x \<in> set xs \<Longrightarrow> \<exists>j earlier. check j x earlier = None"
  by (metis in_set_conv_nth scan_seen_None_iff)

lemma scan_seen_distinct:
  assumes "scan_seen check key i seen xs = None"
    and "\<And>j x earlier. check j x earlier = None \<Longrightarrow> key x \<notin> set earlier"
  shows "distinct (map key xs)" "set seen \<inter> key ` set xs = {}"
proof -
  have "distinct (map key xs) \<and> set seen \<inter> key ` set xs = {}"
    using assms(1)
  proof (induction xs arbitrary: i seen)
    case (Cons x xs)
    then have "distinct (map key xs) \<and> set (seen @ [key x]) \<inter> key ` set xs = {}"
      and "check i x seen = None"
      by (metis or_else_None_iff scan_seen.simps(2))+
    with assms(2) show ?case by auto
  qed simp
  then show "distinct (map key xs)" "set seen \<inter> key ` set xs = {}" by simp_all
qed

lemma scan_seen_None:
  assumes "\<And>j x earlier. key x \<notin> set earlier \<Longrightarrow> ok x \<Longrightarrow> check j x earlier = None"
  shows "distinct (map key xs) \<Longrightarrow> set seen \<inter> key ` set xs = {} \<Longrightarrow> list_all ok xs \<Longrightarrow>
    scan_seen check key i seen xs = None"
  by (induction xs arbitrary: i seen) (auto intro!: assms)

text \<open>\<open>iter().enumerate().find_map(...)\<close>: the first entry with a message.\<close>

fun find_message :: "(nat \<Rightarrow> 'a \<Rightarrow> string option) \<Rightarrow> nat \<Rightarrow> 'a list \<Rightarrow> string option" where
  "find_message check i [] = None"
| "find_message check i (x # xs) = or_else (check i x) (find_message check (Suc i) xs)"

lemma find_message_None_iff [simp]:
  "find_message (\<lambda>j x. map_option (message j) (check x)) i xs = None \<longleftrightarrow> (\<forall>x \<in> set xs. check x = None)"
  by (induction xs arbitrary: i) auto

section \<open>Limits\<close>

definition default_search_limit :: nat where "default_search_limit = 50"
definition default_backlink_limit :: nat where "default_backlink_limit = 200"
definition default_artifact_overwrite :: bool where "default_artifact_overwrite = True"
definition default_review_overwrite :: bool where "default_review_overwrite = True"
definition default_audit_limit :: nat where "default_audit_limit = 200"
definition default_tag_limit :: nat where "default_tag_limit = 200"
definition default_agenda_limit :: nat where "default_agenda_limit = 200"
definition default_ref_limit :: nat where "default_ref_limit = 50"
definition default_graph_max_title_length :: nat where "default_graph_max_title_length = 100"
definition default_heading_level :: nat where "default_heading_level = 1"

section \<open>Text fields and identifiers\<close>

definition validate_required_text_field :: "string \<Rightarrow> string \<Rightarrow> string option" where
  "validate_required_text_field v field = error_if (trim v = []) (field @ '' must not be empty'')"

definition validate_positive_position :: "nat \<Rightarrow> string \<Rightarrow> string option" where
  "validate_positive_position v field =
     error_if (v = 0) (field @ '' must be a positive 1-based position'')"

text \<open>The body the identifier validators below have in common, one per field name.\<close>

definition validate_id_field :: "string \<Rightarrow> string \<Rightarrow> string option" where
  "validate_id_field v field =
     or_else (validate_required_text_field v field)
       (error_if (trim v \<noteq> v) (field @ '' must not have leading or trailing whitespace''))"

lemma required_text_None_iff [simp]: "validate_required_text_field v field = None \<longleftrightarrow> trim v \<noteq> []"
  by (simp add: validate_required_text_field_def)

lemma id_field_None_iff [simp]: "validate_id_field v field = None \<longleftrightarrow> trim v = v \<and> v \<noteq> []"
  by (auto simp: validate_id_field_def)

definition validate_artifact_id_field :: "string \<Rightarrow> string option" where
  "validate_artifact_id_field v = validate_id_field v ''artifact_id''"

definition validate_workflow_id_field :: "string \<Rightarrow> string option" where
  "validate_workflow_id_field v = validate_id_field v ''workflow_id''"

definition validate_workflow_input_id_field :: "string \<Rightarrow> string option" where
  "validate_workflow_input_id_field v = validate_id_field v ''input_id''"

definition validate_workflow_step_id_field :: "string \<Rightarrow> string option" where
  "validate_workflow_step_id_field v = validate_id_field v ''step_id''"

definition validate_review_id_field :: "string \<Rightarrow> string option" where
  "validate_review_id_field v = validate_id_field v ''review_id''"

definition validate_optional_review_id_field :: "string option \<Rightarrow> string \<Rightarrow> string option" where
  "validate_optional_review_id_field v field = Option.bind v (\<lambda>review_id. validate_id_field review_id field)"

definition validate_review_finding_id_field :: "string \<Rightarrow> string option" where
  "validate_review_finding_id_field v = validate_id_field v ''finding_id''"

definition validate_review_routine_id_field :: "string \<Rightarrow> string option" where
  "validate_review_routine_id_field v = validate_id_field v ''routine_id''"

definition validate_workbench_pack_id_field :: "string \<Rightarrow> string option" where
  "validate_workbench_pack_id_field v = validate_id_field v ''pack_id''"

definition validate_report_profile_id_field :: "string \<Rightarrow> string option" where
  "validate_report_profile_id_field v = validate_id_field v ''profile_id''"

definition validate_optional_report_profile_id_field :: "string option \<Rightarrow> string \<Rightarrow> string option" where
  "validate_optional_report_profile_id_field v field =
     Option.bind v (\<lambda>profile_id. validate_id_field profile_id field)"

definition validate_optional_text_field :: "string option \<Rightarrow> string \<Rightarrow> string option" where
  "validate_optional_text_field v field = Option.bind v (\<lambda>s. validate_required_text_field s field)"

lemmas id_field_defs =
  validate_artifact_id_field_def validate_workflow_id_field_def validate_workflow_input_id_field_def
  validate_workflow_step_id_field_def validate_review_id_field_def validate_review_finding_id_field_def
  validate_review_routine_id_field_def validate_workbench_pack_id_field_def
  validate_report_profile_id_field_def

definition validate_review_node_key_set :: "string list \<Rightarrow> string \<Rightarrow> nat \<Rightarrow> string option" where
  "validate_review_node_key_set node_keys field minimum_len =
     or_else
       (error_if (length node_keys < minimum_len)
          (field @ '' must include at least '' @ show_nat minimum_len @ '' node keys''))
       (scan_seen (\<lambda>index node_key seen.
            or_else
              (map_option (\<lambda>e. field @ '' entry '' @ show_nat index @ '' is invalid: '' @ e)
                (validate_required_text_field node_key field))
              (error_if (node_key \<in> set seen)
                (field @ '' entry '' @ show_nat index @ '' is duplicate: '' @ node_key)))
          (\<lambda>k. k) 0 [] node_keys)"

section \<open>Files of a structural write\<close>


definition validate_structural_write_file_path_field :: "string \<Rightarrow> string \<Rightarrow> string option" where
  "validate_structural_write_file_path_field v field =
     (if trim v = [] then Some (field @ '' must not be empty'')
      else if trim v \<noteq> v then Some (field @ '' must not have leading or trailing whitespace'')
      else if prefix ''/'' v \<or> prefix [CHR 0x5C] v then Some (field @ '' must be relative to the slipbox root'')
      else if CHR 0x5C \<in> set v then Some (field @ '' must use forward slashes'')
      else if \<not> suffix ''.org'' v then Some (field @ '' must target an .org file'')
      else if list_ex (\<lambda>c. c = [] \<or> c = ''.'' \<or> c = ''..'') (split_on is_slash v)
      then Some (field @ '' must be a normalized relative path'')
      else None)"

definition validate_structural_write_file_paths :: "string list \<Rightarrow> string \<Rightarrow> string option" where
  "validate_structural_write_file_paths paths field =
     scan_seen (\<lambda>index p seen.
         or_else
           (map_option (\<lambda>e. field @ '' entry '' @ show_nat index @ '' is invalid: '' @ e)
              (validate_structural_write_file_path_field p field))
           (error_if (p \<in> set seen) (field @ '' entry '' @ show_nat index @ '' is duplicate: '' @ p)))
       (\<lambda>p. p) 0 [] paths"

lemma structural_write_file_paths_None:
  assumes "validate_structural_write_file_paths paths field = None"
  shows "distinct paths" "p \<in> set paths \<Longrightarrow> validate_structural_write_file_path_field p field = None"
proof -
  note ok = assms [unfolded validate_structural_write_file_paths_def]
  show "distinct paths" using scan_seen_distinct(1) [OF ok] by simp
  show "p \<in> set paths \<Longrightarrow> validate_structural_write_file_path_field p field = None"
    using scan_seen_entry [OF ok] by auto
qed

end
