(* ===== verification/Exploration.thy ===== *)
theory Exploration
  imports Validation CoreModel
begin

text \<open>
  Relations between notes and the exploration of one or two of them:
  \<open>relations.rs\<close> and \<open>exploration.rs\<close> of \<open>crates/slipbox-core/src\<close>.  The records
  with a \<open>limit\<close> clamp it; the engine only ever uses the clamped value.
\<close>

section \<open>Relations (relations.rs)\<close>

datatype GraphTitleShortening = Truncate | Wrap

record GraphParams =
  gp_root_node_key :: "string option"
  gp_max_distance :: "nat option"
  gp_include_orphans :: bool
  gp_hidden_link_types :: "string list"
  gp_max_title_length :: nat
  gp_shorten_titles :: "GraphTitleShortening option"
  gp_node_url_prefix :: "string option"

fun push_link_types :: "string list \<Rightarrow> string list \<Rightarrow> string list" where
  "push_link_types types [] = types"
| "push_link_types types (link_type # rest) =
     (let normalized = lower_str (trim link_type) in
      if normalized \<noteq> [] \<and> \<not> list_ex (\<lambda>candidate. candidate = normalized) types
      then push_link_types (types @ [normalized]) rest
      else push_link_types types rest)"

definition normalized_hidden_link_types :: "GraphParams \<Rightarrow> string list" where
  "normalized_hidden_link_types g = push_link_types [] (gp_hidden_link_types g)"

definition normalized_max_title_length :: "GraphParams \<Rightarrow> nat" where
  "normalized_max_title_length g = clamp 8 500 (gp_max_title_length g)"

text \<open>Requests that carry a text and a limit, or a node and a limit.\<close>

record SearchOccurrencesParams =
  sop_query :: string
  sop_limit :: nat

definition occurrences_limit :: "SearchOccurrencesParams \<Rightarrow> nat" where
  "occurrences_limit r = clamp 1 1000 (sop_limit r)"

record OccurrenceRecord =
  oc_file_path :: string
  oc_row :: nat
  oc_col :: nat
  oc_preview :: string
  oc_matched_text :: string
  oc_owning_anchor :: "AnchorRecord option"

record SearchTagsParams =
  stp_query :: string
  stp_limit :: nat

definition tags_limit :: "SearchTagsParams \<Rightarrow> nat" where
  "tags_limit r = clamp 1 1000 (stp_limit r)"

record BacklinksParams =
  blp_node_key :: string
  blp_limit :: nat
  blp_unique :: bool

definition backlinks_limit :: "BacklinksParams \<Rightarrow> nat" where
  "backlinks_limit r = clamp 1 1000 (blp_limit r)"

record BridgeEvidenceRecord =
  be_node_key :: string
  be_explicit_id :: "string option"
  be_title :: string

datatype PlanningField = Scheduled | Deadline

record PlanningRelationRecord =
  plr_source_field :: PlanningField
  plr_candidate_field :: PlanningField
  plr_date :: string

datatype ExplorationExplanation =
    BacklinkExplained
  | ForwardLinkExplained
  | SharedReference (shared_reference: string)
  | UnlinkedReferenceText (unlinked_text: string)
  | TimeNeighbor "PlanningRelationRecord list"
  | TaskNeighbor "string option" "PlanningRelationRecord list"
  | BridgeCandidate "string list" "BridgeEvidenceRecord list"
  | DormantSharedReference "string list" int "BridgeEvidenceRecord list"
  | UnresolvedSharedReference "string list" string
  | WeaklyIntegratedSharedReference "string list" nat "BridgeEvidenceRecord list"

record BacklinkRecord =
  blr_source_note :: NodeRecord
  blr_source_anchor :: "AnchorRecord option"
  blr_row :: nat
  blr_col :: nat
  blr_preview :: string
  blr_explanation :: ExplorationExplanation

record ForwardLinksParams =
  flp_node_key :: string
  flp_limit :: nat
  flp_unique :: bool

definition forward_links_limit :: "ForwardLinksParams \<Rightarrow> nat" where
  "forward_links_limit r = clamp 1 1000 (flp_limit r)"

record ForwardLinkRecord =
  flr_destination_note :: NodeRecord
  flr_row :: nat
  flr_col :: nat
  flr_preview :: string
  flr_explanation :: ExplorationExplanation

datatype DirectedRelationDirection = Incoming | Outgoing | Bidirectional

record DirectedRelationRecord =
  dr_node :: NodeRecord
  dr_direction :: DirectedRelationDirection
  dr_preview :: string

record DirectedRelationsParams =
  drp_node_key :: string
  drp_limit :: nat
  drp_after :: "string option"

definition directed_limit :: "DirectedRelationsParams \<Rightarrow> nat" where
  "directed_limit r = clamp 1 1000 (drp_limit r)"

definition normalized_after :: "DirectedRelationsParams \<Rightarrow> string option" where
  "normalized_after r =
     Option.bind (map_option trim (drp_after r)) (\<lambda>v. if v \<noteq> [] then Some v else None)"

record DirectedRelationsResult =
  drr_relations :: "DirectedRelationRecord list"
  drr_total :: nat
  drr_incoming_total :: nat
  drr_outgoing_total :: nat
  drr_has_more :: bool
  drr_next_position :: "string option"

record ReflinksParams =
  rlp_node_key :: string
  rlp_limit :: nat

definition reflinks_limit :: "ReflinksParams \<Rightarrow> nat" where
  "reflinks_limit r = clamp 1 1000 (rlp_limit r)"

record ReflinkRecord =
  rlr_source_anchor :: AnchorRecord
  rlr_row :: nat
  rlr_col :: nat
  rlr_preview :: string
  rlr_matched_reference :: string
  rlr_explanation :: ExplorationExplanation

record UnlinkedReferencesParams =
  ulp_node_key :: string
  ulp_limit :: nat

definition unlinked_references_limit :: "UnlinkedReferencesParams \<Rightarrow> nat" where
  "unlinked_references_limit r = clamp 1 1000 (ulp_limit r)"

record UnlinkedReferenceRecord =
  ulr_source_note :: NodeRecord
  ulr_source_anchor :: AnchorRecord
  ulr_row :: nat
  ulr_col :: nat
  ulr_preview :: string
  ulr_matched_text :: string
  ulr_explanation :: ExplorationExplanation

record AgendaParams =
  agp_start :: string
  agp_end :: string
  agp_limit :: nat

definition agenda_limit :: "AgendaParams \<Rightarrow> nat" where
  "agenda_limit r = clamp 1 500 (agp_limit r)"

record SearchRefsParams =
  srp_query :: string
  srp_limit :: nat

definition refs_limit :: "SearchRefsParams \<Rightarrow> nat" where
  "refs_limit r = clamp 1 200 (srp_limit r)"

section \<open>Exploring one note (exploration.rs)\<close>

datatype ExplorationLens =
  LensStructure | LensRefs | LensTime | LensTasks | LensBridges | LensDormant | LensUnresolved

datatype ExplorationSectionKind =
    SectionBacklinks | SectionForwardLinks | SectionReflinks | SectionUnlinkedReferences
  | SectionTimeNeighbors | SectionTaskNeighbors | SectionBridgeCandidates | SectionDormantNotes
  | SectionUnresolvedTasks | SectionWeaklyIntegratedNotes

record ExploreParams =
  ex_node_key :: string
  ex_lens :: ExplorationLens
  ex_limit :: nat
  ex_unique :: bool

definition explore_limit :: "ExploreParams \<Rightarrow> nat" where
  "explore_limit p = clamp 1 1000 (ex_limit p)"

definition explore_validation_error :: "ExploreParams \<Rightarrow> string option" where
  "explore_validation_error p =
     (if ex_unique p \<and> ex_lens p \<noteq> LensStructure
      then Some ''explore unique is only supported for the structure lens'' else None)"

record AnchorExplorationRecord =
  aer_anchor :: AnchorRecord
  aer_explanation :: ExplorationExplanation

datatype ExplorationEntry =
    EntryBacklink BacklinkRecord
  | EntryForwardLink ForwardLinkRecord
  | EntryReflink ReflinkRecord
  | EntryUnlinkedReference UnlinkedReferenceRecord
  | EntryAnchor AnchorExplorationRecord

record ExplorationSection =
  es_kind :: ExplorationSectionKind
  es_entries :: "ExplorationEntry list"

record ExploreResult =
  er_lens :: ExplorationLens
  er_sections :: "ExplorationSection list"

section \<open>Comparing two notes\<close>

record CompareNotesParams =
  cn_left_node_key :: string
  cn_right_node_key :: string
  cn_limit :: nat

definition compare_limit :: "CompareNotesParams \<Rightarrow> nat" where
  "compare_limit p = clamp 1 1000 (cn_limit p)"

datatype NoteComparisonSectionKind =
    SharedRefs | SharedPlanningDates | LeftOnlyRefs | RightOnlyRefs | SharedBacklinks
  | SharedForwardLinks | ContrastingTaskStates | PlanningTensions | IndirectConnectors

datatype NoteComparisonGroup = GroupAll | GroupOverlap | GroupDivergence | GroupTension

fun group_includes :: "NoteComparisonGroup \<Rightarrow> NoteComparisonSectionKind \<Rightarrow> bool" where
  "group_includes GroupAll kind = True"
| "group_includes GroupOverlap kind =
     (kind \<in> {SharedRefs, SharedPlanningDates, SharedBacklinks, SharedForwardLinks})"
| "group_includes GroupDivergence kind = (kind \<in> {LeftOnlyRefs, RightOnlyRefs})"
| "group_includes GroupTension kind =
     (kind \<in> {ContrastingTaskStates, PlanningTensions, IndirectConnectors})"

datatype ComparisonConnectorDirection = LeftToRight | RightToLeft | BothWays

datatype NoteComparisonExplanation =
    ExplainSharedReference | ExplainSharedPlanningDate | ExplainLeftOnlyReference
  | ExplainRightOnlyReference | ExplainSharedBacklink | ExplainSharedForwardLink
  | ExplainContrastingTaskState | ExplainPlanningTension
  | ExplainIndirectConnector ComparisonConnectorDirection

record ComparisonPlanningRecord =
  cpr_date :: string
  cpr_left_field :: PlanningField
  cpr_right_field :: PlanningField
  cpr_explanation :: NoteComparisonExplanation

text \<open>The records of the reference, node and task-state entries are the constructors' arguments.\<close>

datatype NoteComparisonEntry =
    ComparisonReference string NoteComparisonExplanation
  | ComparisonNode NodeRecord NoteComparisonExplanation
  | ComparisonPlanningRelation ComparisonPlanningRecord
  | ComparisonTaskState string string NoteComparisonExplanation

record NoteComparisonSection =
  ncs_kind :: NoteComparisonSectionKind
  ncs_entries :: "NoteComparisonEntry list"

record NoteComparisonResult =
  nc_left_note :: NodeRecord
  nc_right_note :: NodeRecord
  nc_sections :: "NoteComparisonSection list"

definition filtered_to_group :: "NoteComparisonResult \<Rightarrow> NoteComparisonGroup \<Rightarrow> NoteComparisonResult" where
  "filtered_to_group r g =
     (if g = GroupAll then r
      else r\<lparr>nc_sections := filter (\<lambda>s. group_includes g (ncs_kind s)) (nc_sections r)\<rparr>)"

text \<open>Filtering twice keeps what both groups include; the three proper groups split every result.\<close>

lemma filtered_sections:
  "nc_sections (filtered_to_group r g) =
     filter (\<lambda>s. group_includes g (ncs_kind s)) (nc_sections r)"
  by (simp add: filtered_to_group_def)

lemma filtered_idem [simp]:
  "filtered_to_group (filtered_to_group r g) g = filtered_to_group r g"
  by (simp add: filtered_to_group_def)

lemma groups_disjoint:
  "g \<noteq> GroupAll \<Longrightarrow> h \<noteq> GroupAll \<Longrightarrow> group_includes g kind \<Longrightarrow> group_includes h kind \<Longrightarrow> g = h"
  by (cases g; cases h; cases kind) simp_all

lemma groups_cover:
  "\<exists>g. g \<noteq> GroupAll \<and> group_includes g kind"
  by (cases kind) (auto intro: exI [of _ GroupOverlap] exI [of _ GroupDivergence] exI [of _ GroupTension])

lemma push_link_types_clean:
  "distinct types \<Longrightarrow> list_all (\<lambda>t. t \<noteq> [] \<and> lower_str t = t) types \<Longrightarrow>
   distinct (push_link_types types xs) \<and> list_all (\<lambda>t. t \<noteq> [] \<and> lower_str t = t) (push_link_types types xs)"
  by (induction types xs rule: push_link_types.induct) (auto simp: Let_def list_ex_iff lower_str_idem)

end
