(* ===== verification/Artifacts.thy ===== *)
theory Artifacts
  imports Exploration
begin

text \<open>
  Saved explorations and corpus audits: \<open>artifacts.rs\<close> and \<open>audit.rs\<close> of
  \<open>crates/slipbox-core/src\<close>.  A trail is a history of saved views with a cursor
  into it, and possibly one view that is not part of the history.
\<close>

section \<open>Saved views\<close>

datatype ExplorationArtifactKind = KindLensView | KindComparison | KindTrail

record ExplorationArtifactMetadata =
  eam_artifact_id :: string
  eam_title :: string
  eam_summary :: "string option"

definition artifact_metadata_error :: "ExplorationArtifactMetadata \<Rightarrow> string option" where
  "artifact_metadata_error m =
     or_else (validate_artifact_id_field (eam_artifact_id m))
    (or_else (validate_required_text_field (eam_title m) ''title'')
             (validate_optional_text_field (eam_summary m) ''summary''))"

record SavedLensViewArtifact =
  lv_root_node_key :: string
  lv_current_node_key :: string
  lv_lens :: ExplorationLens
  lv_limit :: nat
  lv_unique :: bool
  lv_frozen_context :: bool

definition lens_view_limit :: "SavedLensViewArtifact \<Rightarrow> nat" where
  "lens_view_limit a = clamp 1 1000 (lv_limit a)"

definition explore_params :: "SavedLensViewArtifact \<Rightarrow> ExploreParams" where
  "explore_params a =
     \<lparr>ex_node_key = lv_current_node_key a, ex_lens = lv_lens a,
      ex_limit = lens_view_limit a, ex_unique = lv_unique a\<rparr>"

definition lens_view_error :: "SavedLensViewArtifact \<Rightarrow> string option" where
  "lens_view_error a =
     or_else (validate_required_text_field (lv_root_node_key a) ''root_node_key'')
    (or_else (validate_required_text_field (lv_current_node_key a) ''current_node_key'')
    (or_else (error_if (\<not> lv_frozen_context a \<and> trim (lv_root_node_key a) \<noteq> trim (lv_current_node_key a))
                ''non-frozen lens-view artifacts must use current_node_key as root_node_key'')
             (explore_validation_error (explore_params a))))"

record SavedComparisonArtifact =
  cm_root_node_key :: string
  cm_left_node_key :: string
  cm_right_node_key :: string
  cm_active_lens :: ExplorationLens
  cm_structure_unique :: bool
  cm_comparison_group :: NoteComparisonGroup
  cm_limit :: nat
  cm_frozen_context :: bool

definition saved_comparison_limit :: "SavedComparisonArtifact \<Rightarrow> nat" where
  "saved_comparison_limit a = clamp 1 1000 (cm_limit a)"

definition compare_notes_params :: "SavedComparisonArtifact \<Rightarrow> CompareNotesParams" where
  "compare_notes_params a =
     \<lparr>cn_left_node_key = cm_left_node_key a, cn_right_node_key = cm_right_node_key a,
      cn_limit = saved_comparison_limit a\<rparr>"

definition comparison_error :: "SavedComparisonArtifact \<Rightarrow> string option" where
  "comparison_error a =
     or_else (validate_required_text_field (cm_root_node_key a) ''root_node_key'')
    (or_else (validate_required_text_field (cm_left_node_key a) ''left_node_key'')
    (or_else (validate_required_text_field (cm_right_node_key a) ''right_node_key'')
    (or_else (error_if (\<not> cm_frozen_context a \<and> trim (cm_root_node_key a) \<noteq> trim (cm_left_node_key a))
                ''non-frozen comparison artifacts must use left_node_key as root_node_key'')
    (or_else (error_if (trim (cm_left_node_key a) = trim (cm_right_node_key a))
                ''left_node_key and right_node_key must differ'')
             (error_if (cm_structure_unique a \<and> cm_active_lens a \<noteq> LensStructure)
                ''comparison structure_unique is only supported for the structure lens'')))))"

section \<open>Trails\<close>

datatype SavedTrailStep =
    TrailLensView SavedLensViewArtifact
  | TrailComparison SavedComparisonArtifact

fun trail_step_error :: "SavedTrailStep \<Rightarrow> string option" where
  "trail_step_error (TrailLensView a) = lens_view_error a"
| "trail_step_error (TrailComparison a) = comparison_error a"

record SavedTrailArtifact =
  ta_steps :: "SavedTrailStep list"
  ta_cursor :: nat
  ta_detached_step :: "SavedTrailStep option"

definition trail_error :: "SavedTrailArtifact \<Rightarrow> string option" where
  "trail_error a =
     (if ta_steps a = [] then Some ''trail artifacts must contain at least one step''
      else if length (ta_steps a) \<le> ta_cursor a then Some ''trail cursor must point to an existing step''
      else
        or_else
          (find_message (\<lambda>index step. map_option
               (\<lambda>e. ''trail step '' @ show_nat index @ '' is invalid: '' @ e) (trail_step_error step))
             0 (ta_steps a))
       (or_else
          (Option.bind (ta_detached_step a) (\<lambda>step. map_option
             (\<lambda>e. ''detached trail step is invalid: '' @ e) (trail_step_error step)))
          (Option.bind (ta_detached_step a) (\<lambda>step. error_if (list_ex (\<lambda>existing. existing = step) (ta_steps a))
             ''detached trail step must not duplicate any recorded trail step''))))"

datatype ExplorationArtifactPayload =
    PayloadLensView SavedLensViewArtifact
  | PayloadComparison SavedComparisonArtifact
  | PayloadTrail SavedTrailArtifact

fun artifact_payload_kind :: "ExplorationArtifactPayload \<Rightarrow> ExplorationArtifactKind" where
  "artifact_payload_kind (PayloadLensView a) = KindLensView"
| "artifact_payload_kind (PayloadComparison a) = KindComparison"
| "artifact_payload_kind (PayloadTrail a) = KindTrail"

fun artifact_payload_error :: "ExplorationArtifactPayload \<Rightarrow> string option" where
  "artifact_payload_error (PayloadLensView a) = lens_view_error a"
| "artifact_payload_error (PayloadComparison a) = comparison_error a"
| "artifact_payload_error (PayloadTrail a) = trail_error a"

record SavedExplorationArtifact =
  sea_metadata :: ExplorationArtifactMetadata
  sea_payload :: ExplorationArtifactPayload

definition live_lens_view ::
  "ExplorationArtifactMetadata \<Rightarrow> string \<Rightarrow> ExplorationLens \<Rightarrow> nat \<Rightarrow> bool \<Rightarrow> SavedExplorationArtifact" where
  "live_lens_view metadata focus_node_key lens limit unique =
     \<lparr>sea_metadata = metadata,
      sea_payload = PayloadLensView
        \<lparr>lv_root_node_key = focus_node_key, lv_current_node_key = focus_node_key, lv_lens = lens,
         lv_limit = limit, lv_unique = unique, lv_frozen_context = False\<rparr>\<rparr>"

definition live_comparison ::
  "ExplorationArtifactMetadata \<Rightarrow> string \<Rightarrow> string \<Rightarrow> NoteComparisonGroup \<Rightarrow> nat \<Rightarrow> SavedExplorationArtifact" where
  "live_comparison metadata left_node_key right_node_key g limit =
     \<lparr>sea_metadata = metadata,
      sea_payload = PayloadComparison
        \<lparr>cm_root_node_key = left_node_key, cm_left_node_key = left_node_key,
         cm_right_node_key = right_node_key, cm_active_lens = LensStructure, cm_structure_unique = False,
         cm_comparison_group = g, cm_limit = limit, cm_frozen_context = False\<rparr>\<rparr>"

definition artifact_error :: "SavedExplorationArtifact \<Rightarrow> string option" where
  "artifact_error a = or_else (artifact_metadata_error (sea_metadata a)) (artifact_payload_error (sea_payload a))"

record ExplorationArtifactSummary =
  eas_metadata :: ExplorationArtifactMetadata
  eas_kind :: ExplorationArtifactKind

definition artifact_summary :: "SavedExplorationArtifact \<Rightarrow> ExplorationArtifactSummary" where
  "artifact_summary a = \<lparr>eas_metadata = sea_metadata a, eas_kind = artifact_payload_kind (sea_payload a)\<rparr>"

text \<open>What running a saved artifact gives back: the artifact with its result beside it.\<close>

datatype TrailReplayStepResult =
    ReplayLensView SavedLensViewArtifact NodeRecord NodeRecord ExploreResult
  | ReplayComparison SavedComparisonArtifact NodeRecord NoteComparisonResult

record TrailReplayResult =
  trr_steps :: "TrailReplayStepResult list"
  trr_cursor :: nat
  trr_detached_step :: "TrailReplayStepResult option"

datatype ExecutedExplorationArtifactPayload =
    ExecutedLensView SavedLensViewArtifact NodeRecord NodeRecord ExploreResult
  | ExecutedComparison SavedComparisonArtifact NodeRecord NoteComparisonResult
  | ExecutedTrail SavedTrailArtifact TrailReplayResult

fun executed_kind :: "ExecutedExplorationArtifactPayload \<Rightarrow> ExplorationArtifactKind" where
  "executed_kind (ExecutedLensView a root current r) = KindLensView"
| "executed_kind (ExecutedComparison a root r) = KindComparison"
| "executed_kind (ExecutedTrail a r) = KindTrail"

record ExecutedExplorationArtifact =
  xa_metadata :: ExplorationArtifactMetadata
  xa_payload :: ExecutedExplorationArtifactPayload

section \<open>Corpus audits (audit.rs)\<close>

datatype CorpusAuditKind = DanglingLinks | DuplicateTitles | OrphanNotes | WeaklyIntegratedNotes

record CorpusAuditParams =
  cap_audit :: CorpusAuditKind
  cap_limit :: nat

definition audit_limit :: "CorpusAuditParams \<Rightarrow> nat" where
  "audit_limit p = clamp 1 500 (cap_limit p)"

record DanglingLinkAuditRecord =
  dl_source :: AnchorRecord
  dl_missing_explicit_id :: string
  dl_line :: nat
  dl_column :: nat
  dl_preview :: string

record DuplicateTitleAuditRecord =
  dt_title :: string
  dt_notes :: "NodeRecord list"

record NoteConnectivityAuditRecord =
  nca_node :: NodeRecord
  nca_reference_count :: nat
  nca_backlink_count :: nat
  nca_forward_link_count :: nat

datatype CorpusAuditEntry =
    DanglingLink DanglingLinkAuditRecord
  | DuplicateTitle DuplicateTitleAuditRecord
  | OrphanNote NoteConnectivityAuditRecord
  | WeaklyIntegratedNote NoteConnectivityAuditRecord

fun audit_entry_kind :: "CorpusAuditEntry \<Rightarrow> CorpusAuditKind" where
  "audit_entry_kind (DanglingLink r) = DanglingLinks"
| "audit_entry_kind (DuplicateTitle r) = DuplicateTitles"
| "audit_entry_kind (OrphanNote r) = OrphanNotes"
| "audit_entry_kind (WeaklyIntegratedNote r) = WeaklyIntegratedNotes"

fun audit_entry_error :: "CorpusAuditEntry \<Rightarrow> string option" where
  "audit_entry_error (DanglingLink r) =
     or_else (validate_required_text_field (nd_node_key (dl_source r)) ''source.node_key'')
    (or_else (validate_required_text_field (dl_missing_explicit_id r) ''missing_explicit_id'')
             (validate_required_text_field (dl_preview r) ''preview''))"
| "audit_entry_error (DuplicateTitle r) =
     or_else (validate_required_text_field (dt_title r) ''title'')
             (error_if (length (dt_notes r) < 2) ''duplicate-title findings must include at least two notes'')"
| "audit_entry_error (OrphanNote r) = validate_required_text_field (nd_node_key (nca_node r)) ''note.node_key''"
| "audit_entry_error (WeaklyIntegratedNote r) =
     validate_required_text_field (nd_node_key (nca_node r)) ''note.node_key''"

record CorpusAuditResult =
  car_audit :: CorpusAuditKind
  car_entries :: "CorpusAuditEntry list"

datatype CorpusAuditReportLine =
    AuditLine CorpusAuditKind
  | AuditEntryLine CorpusAuditEntry

definition audit_report_lines :: "CorpusAuditResult \<Rightarrow> CorpusAuditReportLine list" where
  "audit_report_lines r = AuditLine (car_audit r) # map AuditEntryLine (car_entries r)"

section \<open>Facts\<close>

text \<open>
  A comparison that passes still passes once reopened as a live comparison of the
  same two notes; a trail that passes has its cursor on a step, and its steps pass.
\<close>

lemma trail_error_None:
  "trail_error a = None \<Longrightarrow> ta_cursor a < length (ta_steps a) \<and>
     (\<forall>step \<in> set (ta_steps a). trail_step_error step = None) \<and>
     (\<forall>d. ta_detached_step a = Some d \<longrightarrow> trail_step_error d = None \<and> d \<notin> set (ta_steps a))"
  by (auto simp: trail_error_def list_ex_iff Option.bind_eq_None_conv split: if_splits)

lemma live_lens_view_error:
  "artifact_error (live_lens_view metadata focus lens limit unique) = None \<longleftrightarrow>
     artifact_metadata_error metadata = None \<and> trim focus \<noteq> [] \<and> (unique \<longrightarrow> lens = LensStructure)"
  by (auto simp: artifact_error_def live_lens_view_def lens_view_error_def explore_params_def
      explore_validation_error_def)

lemma live_comparison_error:
  "artifact_error (live_comparison metadata left right g limit) = None \<longleftrightarrow>
     artifact_metadata_error metadata = None \<and> trim left \<noteq> [] \<and> trim right \<noteq> [] \<and> trim left \<noteq> trim right"
  by (auto simp: artifact_error_def live_comparison_def comparison_error_def)

end
