(* ===== verification/StructuralWrite.thy ===== *)
theory StructuralWrite
  imports Validation CoreModel WritePath
begin

text \<open>
  What the daemon reports of a structural write, \<open>crates/slipbox-core/src/write.rs\<close>:
  the files it changed and removed, the note it produced, the rewrites of links, and
  the validators a report must pass before it is sent.
\<close>

section \<open>Requests\<close>

record AppendHeadingParams =
  ahp_file_path :: string
  ahp_title :: string
  ahp_heading :: string
  ahp_level :: nat

definition normalized_level :: "AppendHeadingParams \<Rightarrow> nat" where
  "normalized_level p = clamp 1 32 (ahp_level p)"

record RefileRegionParams =
  rrp_file_path :: string
  rrp_start :: nat
  rrp_end :: nat
  rrp_target_node_key :: string

definition normalized_range :: "RefileRegionParams \<Rightarrow> nat \<times> nat" where
  "normalized_range p =
     (let start = max (rrp_start p) 1; finish = max (rrp_end p) 1 in
      if start \<le> finish then (start, finish) else (finish, start))"

section \<open>Operations and files\<close>

datatype StructuralWriteOperationKind =
  RefileSubtree | RefileRegion | ExtractSubtree | PromoteFile | DemoteFile

definition requires_result :: "StructuralWriteOperationKind \<Rightarrow> bool" where
  "requires_result k \<longleftrightarrow> k \<noteq> RefileRegion"

definition permits_removed_files :: "StructuralWriteOperationKind \<Rightarrow> bool" where
  "permits_removed_files k \<longleftrightarrow> k = RefileSubtree \<or> k = RefileRegion"

fun write_operation_label :: "StructuralWriteOperationKind \<Rightarrow> string" where
  "write_operation_label RefileSubtree = ''refile-subtree''"
| "write_operation_label RefileRegion = ''refile-region''"
| "write_operation_label ExtractSubtree = ''extract-subtree''"
| "write_operation_label PromoteFile = ''promote-file''"
| "write_operation_label DemoteFile = ''demote-file''"

datatype StructuralWriteIndexRefreshStatus = Refreshed | Pending

record StructuralWriteAffectedFiles =
  af_changed_files :: "string list"
  af_removed_files :: "string list"

definition affected_files_error :: "StructuralWriteAffectedFiles \<Rightarrow> string option" where
  "affected_files_error f =
     (if af_changed_files f = [] then Some ''structural writes must include at least one changed file''
      else
        or_else (validate_structural_write_file_paths (af_changed_files f) ''changed_files'')
       (or_else (validate_structural_write_file_paths (af_removed_files f) ''removed_files'')
                (map_option (\<lambda>p. ''structural write file '' @ p @ '' cannot be both changed and removed'')
                  (find (\<lambda>changed. list_ex (\<lambda>removed. removed = changed) (af_removed_files f))
                    (af_changed_files f)))))"

definition validate_structural_write_operation_files ::
  "StructuralWriteOperationKind \<Rightarrow> StructuralWriteAffectedFiles \<Rightarrow> string option" where
  "validate_structural_write_operation_files operation f =
     error_if (\<not> permits_removed_files operation \<and> af_removed_files f \<noteq> [])
       (write_operation_label operation @ '' structural writes must not include removed files'')"

section \<open>Results\<close>

datatype StructuralWriteResult = WrittenNode NodeRecord | WrittenAnchor AnchorRecord

fun written_file_path :: "StructuralWriteResult \<Rightarrow> string" where
  "written_file_path (WrittenNode n) = nd_file_path n"
| "written_file_path (WrittenAnchor a) = nd_file_path a"

definition validate_structural_write_result_node :: "NodeRecord \<Rightarrow> string option" where
  "validate_structural_write_result_node n =
     or_else (validate_required_text_field (nd_node_key n) ''node.node_key'')
    (or_else (validate_structural_write_file_path_field (nd_file_path n) ''node.file_path'')
    (or_else (validate_required_text_field (nd_title n) ''node.title'')
             (error_if (nd_kind n = HeadingNode \<and> nd_explicit_id n = None)
               ''structural write result nodes must be file notes or headings with explicit IDs'')))"

definition validate_structural_write_result_anchor :: "AnchorRecord \<Rightarrow> string option" where
  "validate_structural_write_result_anchor a =
     or_else (validate_required_text_field (nd_node_key a) ''anchor.node_key'')
    (or_else (validate_structural_write_file_path_field (nd_file_path a) ''anchor.file_path'')
             (validate_required_text_field (nd_title a) ''anchor.title''))"

fun write_result_error :: "StructuralWriteResult \<Rightarrow> string option" where
  "write_result_error (WrittenNode n) = validate_structural_write_result_node n"
| "write_result_error (WrittenAnchor a) = validate_structural_write_result_anchor a"

text \<open>The same table serves reports and previews, with the two messages of each.\<close>

definition result_requirement :: "string \<Rightarrow> string \<Rightarrow> StructuralWriteOperationKind \<Rightarrow> bool \<Rightarrow> string option" where
  "result_requirement missing superfluous operation present =
     (case (requires_result operation, present) of
        (True, False) \<Rightarrow> Some (write_operation_label operation @ missing)
      | (False, True) \<Rightarrow> Some (write_operation_label operation @ superfluous)
      | _ \<Rightarrow> None)"

definition validate_structural_write_result_requirement ::
  "StructuralWriteOperationKind \<Rightarrow> StructuralWriteResult option \<Rightarrow> string option" where
  "validate_structural_write_result_requirement operation r =
     result_requirement '' structural write reports must include a resulting node or anchor''
       '' structural write reports must not include a resulting node or anchor'' operation (r \<noteq> None)"

definition validate_structural_write_result_file :: "string \<Rightarrow> StructuralWriteAffectedFiles \<Rightarrow> string option" where
  "validate_structural_write_result_file file_path f =
     error_if (\<not> list_ex (\<lambda>changed. changed = file_path) (af_changed_files f))
       (''structural write result file '' @ file_path @ '' must be in changed_files'')"

datatype StructuralWritePreviewResult =
  ExistingNode string | ExistingAnchor string | PreviewFile string

fun preview_file_path :: "StructuralWritePreviewResult \<Rightarrow> string option" where
  "preview_file_path (ExistingNode k) = None"
| "preview_file_path (ExistingAnchor k) = None"
| "preview_file_path (PreviewFile p) = Some p"

fun preview_result_error :: "StructuralWritePreviewResult \<Rightarrow> string option" where
  "preview_result_error (ExistingNode k) = validate_required_text_field k ''node_key''"
| "preview_result_error (ExistingAnchor k) = validate_required_text_field k ''node_key''"
| "preview_result_error (PreviewFile p) = validate_structural_write_file_path_field p ''file_path''"

definition validate_structural_write_preview_result_requirement ::
  "StructuralWriteOperationKind \<Rightarrow> StructuralWritePreviewResult option \<Rightarrow> string option" where
  "validate_structural_write_preview_result_requirement operation r =
     result_requirement '' structural write previews must include an expected result''
       '' structural write previews must not include an expected result'' operation (r \<noteq> None)"

section \<open>Reports and previews\<close>

record StructuralWriteReport =
  swr_operation :: StructuralWriteOperationKind
  swr_affected_files :: StructuralWriteAffectedFiles
  swr_index_refresh :: StructuralWriteIndexRefreshStatus
  swr_result :: "StructuralWriteResult option"

definition write_report_error :: "StructuralWriteReport \<Rightarrow> string option" where
  "write_report_error r =
     or_else (affected_files_error (swr_affected_files r))
    (or_else (validate_structural_write_operation_files (swr_operation r) (swr_affected_files r))
    (or_else (error_if (swr_index_refresh r \<noteq> Refreshed)
               ''structural write reports must be returned after index refresh'')
    (or_else (validate_structural_write_result_requirement (swr_operation r) (swr_result r))
    (or_else (Option.bind (swr_result r) write_result_error)
             (Option.bind (swr_result r) (\<lambda>x.
               validate_structural_write_result_file (written_file_path x) (swr_affected_files r)))))))"

record StructuralWritePreview =
  swp_operation :: StructuralWriteOperationKind
  swp_affected_files :: StructuralWriteAffectedFiles
  swp_result :: "StructuralWritePreviewResult option"

definition write_preview_error :: "StructuralWritePreview \<Rightarrow> string option" where
  "write_preview_error r =
     or_else (affected_files_error (swp_affected_files r))
    (or_else (validate_structural_write_operation_files (swp_operation r) (swp_affected_files r))
    (or_else (validate_structural_write_preview_result_requirement (swp_operation r) (swp_result r))
    (or_else (Option.bind (swp_result r) preview_result_error)
             (Option.bind (Option.bind (swp_result r) preview_file_path) (\<lambda>p.
               validate_structural_write_result_file p (swp_affected_files r))))))"

section \<open>Rewrites of slipbox links\<close>

record SlipboxLinkRewritePreviewEntry =
  rpe_line :: nat
  rpe_column :: nat
  rpe_preview :: string
  rpe_link_text :: string
  rpe_title_or_alias :: string
  rpe_description :: string
  rpe_target :: NodeRecord
  rpe_target_explicit_id :: "string option"
  rpe_replacement :: "string option"

definition rewrite_entry_error :: "SlipboxLinkRewritePreviewEntry \<Rightarrow> string option" where
  "rewrite_entry_error e =
     or_else (validate_positive_position (rpe_line e) ''line'')
    (or_else (validate_positive_position (rpe_column e) ''column'')
    (or_else (validate_required_text_field (rpe_preview e) ''preview'')
    (or_else (validate_required_text_field (rpe_link_text e) ''link_text'')
    (or_else (validate_required_text_field (rpe_title_or_alias e) ''title_or_alias'')
    (or_else (validate_required_text_field (rpe_description e) ''description'')
    (or_else (map_option (\<lambda>m. ''target is invalid: '' @ m) (validate_structural_write_result_node (rpe_target e)))
    (or_else (Option.bind (rpe_target_explicit_id e) (\<lambda>i. validate_required_text_field i ''target_explicit_id''))
             (Option.bind (rpe_replacement e) (\<lambda>r. validate_required_text_field r ''replacement'')))))))))"

record SlipboxLinkRewritePreview =
  lrp_file_path :: string
  lrp_rewrites :: "SlipboxLinkRewritePreviewEntry list"

definition rewrite_preview_error :: "SlipboxLinkRewritePreview \<Rightarrow> string option" where
  "rewrite_preview_error p =
     or_else (validate_structural_write_file_path_field (lrp_file_path p) ''file_path'')
       (find_message (\<lambda>index e. map_option
           (\<lambda>m. ''link rewrite preview entry '' @ show_nat index @ '' is invalid: '' @ m) (rewrite_entry_error e))
         0 (lrp_rewrites p))"

definition rewrite_apply_error :: "SlipboxLinkRewritePreview \<Rightarrow> string option" where
  "rewrite_apply_error expected =
     or_else (rewrite_preview_error expected)
       (error_if (lrp_rewrites expected = []) ''link rewrite apply requires at least one previewed rewrite'')"

record SlipboxLinkRewriteAppliedEntry =
  rae_line :: nat
  rae_column :: nat
  rae_title_or_alias :: string
  rae_target_node_key :: string
  rae_target_explicit_id :: string
  rae_replacement :: string

definition applied_entry_error :: "SlipboxLinkRewriteAppliedEntry \<Rightarrow> string option" where
  "applied_entry_error e =
     or_else (validate_positive_position (rae_line e) ''line'')
    (or_else (validate_positive_position (rae_column e) ''column'')
    (or_else (validate_required_text_field (rae_title_or_alias e) ''title_or_alias'')
    (or_else (validate_required_text_field (rae_target_node_key e) ''target_node_key'')
    (or_else (validate_required_text_field (rae_target_explicit_id e) ''target_explicit_id'')
             (validate_required_text_field (rae_replacement e) ''replacement'')))))"

record SlipboxLinkRewriteApplication =
  lra_file_path :: string
  lra_rewrites :: "SlipboxLinkRewriteAppliedEntry list"
  lra_affected_files :: StructuralWriteAffectedFiles
  lra_index_refresh :: StructuralWriteIndexRefreshStatus

definition rewrite_application_error :: "SlipboxLinkRewriteApplication \<Rightarrow> string option" where
  "rewrite_application_error a =
     or_else (validate_structural_write_file_path_field (lra_file_path a) ''file_path'')
    (or_else (error_if (lra_rewrites a = []) ''link rewrite applications must include at least one rewrite'')
    (or_else (find_message (\<lambda>index e. map_option
                 (\<lambda>m. ''link rewrite application entry '' @ show_nat index @ '' is invalid: '' @ m)
                 (applied_entry_error e)) 0 (lra_rewrites a))
    (or_else (affected_files_error (lra_affected_files a))
             (error_if (lra_index_refresh a \<noteq> Refreshed)
               ''link rewrite applications must be returned after index refresh''))))"

section \<open>A validated path is one the writer normalizes to itself\<close>


lemma join_split: "join_str [d] (split_on (\<lambda>c. c = d) s) = s"
proof (induction s)
  case (Cons c s)
  obtain w ws where split: "split_on (\<lambda>c. c = d) s = w # ws"
    by (cases "split_on (\<lambda>c. c = d) s") simp_all
  with Cons.IH show ?case by (cases ws) simp_all
qed simp

lemma normal_parts_of_names: "normal_parts (map NormalComp names) = Ok names"
  by (induction names) simp_all

lemma structural_path_None_iff:
  "validate_structural_write_file_path_field p field = None \<longleftrightarrow>
     p \<noteq> [] \<and> trim p = p \<and> \<not> prefix ''/'' p \<and> \<not> prefix [CHR 0x5C] p \<and> CHR 0x5C \<notin> set p \<and>
     suffix ''.org'' p \<and> list_all (\<lambda>c. c \<noteq> [] \<and> c \<noteq> ''.'' \<and> c \<noteq> ''..'') (split_on is_slash p)"
proof -
  have "list_ex (\<lambda>c. c = [] \<or> c = ''.'' \<or> c = ''..'') xs \<longleftrightarrow> \<not> list_all (\<lambda>c. c \<noteq> [] \<and> c \<noteq> ''.'' \<and> c \<noteq> ''..'') xs" for xs
    by (induction xs) auto
  then show ?thesis
    by (cases "trim p = p") (simp_all add: validate_structural_write_file_path_field_def)
qed

lemma validated_path_components:
  assumes "validate_structural_write_file_path_field p field = None"
  shows "components p = map NormalComp (split_on is_slash p)"
    and "list_all (\<lambda>c. c \<noteq> [] \<and> c \<noteq> ''.'' \<and> c \<noteq> ''..'') (split_on is_slash p)"
    and "\<not> prefix ''/'' p" and "CHR 0x5C \<notin> set p" and "suffix ''.org'' p" and "p \<noteq> []"
proof -
  show names: "list_all (\<lambda>c. c \<noteq> [] \<and> c \<noteq> ''.'' \<and> c \<noteq> ''..'') (split_on is_slash p)"
    and rest: "\<not> prefix ''/'' p" "CHR 0x5C \<notin> set p" "suffix ''.org'' p" "p \<noteq> []"
    using assms unfolding structural_path_None_iff by (fast | fastforce)+
  have parts: "filter (\<lambda>c. c \<noteq> [] \<and> c \<noteq> ''.'') (split_on is_slash p) = split_on is_slash p"
    using names by (auto simp: list_all_iff filter_id_conv)
  have same: "map component_of_part (split_on is_slash p) = map NormalComp (split_on is_slash p)"
    using names by (auto simp: list_all_iff component_of_part_def)
  have "hd (split_on is_slash p) \<noteq> ''.''"
    using names split_on_not_Nil [of is_slash p] by (auto simp: list_all_iff dest: hd_in_set)
  with rest(1) parts same show "components p = map NormalComp (split_on is_slash p)"
    by (simp add: components_def Let_def)
qed

lemma validated_path_normal:
  assumes "validate_structural_write_file_path_field p field = None"
  shows "normalize_relative_org_path p = Ok p"
proof -
  note facts = validated_path_components [OF assms]
  have "join_str ''/'' (split_on is_slash p) = p"
    using join_split [of "CHR ''/''" p] by (simp add: is_slash_def [abs_def])
  with facts show ?thesis
    by (simp add: normalize_relative_org_path_def normal_parts_of_names forward_slashes_id Let_def)
qed

lemma affected_files_None:
  assumes "affected_files_error f = None"
  shows "distinct (af_changed_files f @ af_removed_files f)"
    and "p \<in> set (af_changed_files f @ af_removed_files f) \<Longrightarrow> normalize_relative_org_path p = Ok p"
proof -
  have c: "validate_structural_write_file_paths (af_changed_files f) ''changed_files'' = None"
    and r: "validate_structural_write_file_paths (af_removed_files f) ''removed_files'' = None"
    and apart: "set (af_changed_files f) \<inter> set (af_removed_files f) = {}"
    using assms by (auto simp: affected_files_error_def find_None_iff list_ex_iff split: if_splits)
  show "distinct (af_changed_files f @ af_removed_files f)"
    using structural_write_file_paths_None(1) [OF c] structural_write_file_paths_None(1) [OF r] apart by simp
  show "p \<in> set (af_changed_files f @ af_removed_files f) \<Longrightarrow> normalize_relative_org_path p = Ok p"
    using structural_write_file_paths_None(2) [OF c] structural_write_file_paths_None(2) [OF r]
      validated_path_normal by auto
qed

section \<open>Properties\<close>

text \<open>C34.
  A structural-write report that passes its validator names each file once, no file
  both as changed and as removed, every one by a path the writer's own normalization
  leaves unchanged; only refiling removes files; and the report carries a result, whose
  file is among the changed ones, exactly when the operation produces one.
\<close>

theorem write_report_names_normal_files:
  assumes "write_report_error r = None"
  shows "distinct (af_changed_files (swr_affected_files r) @ af_removed_files (swr_affected_files r)) \<and>
    (\<forall>p \<in> set (af_changed_files (swr_affected_files r) @ af_removed_files (swr_affected_files r)).
       normalize_relative_org_path p = Ok p) \<and>
    (af_removed_files (swr_affected_files r) \<noteq> [] \<longrightarrow> swr_operation r \<in> {RefileSubtree, RefileRegion}) \<and>
    (case swr_result r of None \<Rightarrow> swr_operation r = RefileRegion
     | Some x \<Rightarrow> swr_operation r \<noteq> RefileRegion \<and>
         written_file_path x \<in> set (af_changed_files (swr_affected_files r)))"
proof (intro conjI)
  have files: "affected_files_error (swr_affected_files r) = None"
    and removed: "validate_structural_write_operation_files (swr_operation r) (swr_affected_files r) = None"
    and required: "validate_structural_write_result_requirement (swr_operation r) (swr_result r) = None"
    and placed: "Option.bind (swr_result r) (\<lambda>x.
        validate_structural_write_result_file (written_file_path x) (swr_affected_files r)) = None"
    using assms by (simp_all add: write_report_error_def)
  show "distinct (af_changed_files (swr_affected_files r) @ af_removed_files (swr_affected_files r))"
    by (rule affected_files_None(1) [OF files])
  show "\<forall>p \<in> set (af_changed_files (swr_affected_files r) @ af_removed_files (swr_affected_files r)).
       normalize_relative_org_path p = Ok p"
    using affected_files_None(2) [OF files] by blast
  show "af_removed_files (swr_affected_files r) \<noteq> [] \<longrightarrow> swr_operation r \<in> {RefileSubtree, RefileRegion}"
    using removed by (auto simp: validate_structural_write_operation_files_def permits_removed_files_def)
  show "case swr_result r of None \<Rightarrow> swr_operation r = RefileRegion
     | Some x \<Rightarrow> swr_operation r \<noteq> RefileRegion \<and>
         written_file_path x \<in> set (af_changed_files (swr_affected_files r))"
    using required placed
    by (auto simp: validate_structural_write_result_requirement_def result_requirement_def
        requires_result_def validate_structural_write_result_file_def list_ex_iff
        split: option.splits bool.splits)
qed


definition sample_written :: AnchorRecord where
  "sample_written =
     \<lparr>nd_node_key = ''file:a.org'', nd_explicit_id = None, nd_file_path = ''a.org'', nd_title = ''A'',
      nd_outline_path = [], nd_aliases = [], nd_tags = [], nd_refs = [], nd_todo_keyword = None,
      nd_scheduled_for = None, nd_deadline_for = None, nd_closed_at = None, nd_glossary = False,
      nd_glossary_status = None, nd_sr_due = None, nd_sr_ease = None, nd_sr_interval = None,
      nd_sr_reps = None, nd_sr_last = None, nd_level = 0, nd_line = 1, nd_kind = FileNode,
      nd_file_mtime_ns = 0, nd_backlink_count = 0, nd_forward_link_count = 0\<rparr>"

definition sample_write_report :: StructuralWriteReport where
  "sample_write_report =
     \<lparr>swr_operation = RefileSubtree,
      swr_affected_files = \<lparr>af_changed_files = [''a.org''], af_removed_files = [''d/b.org'']\<rparr>,
      swr_index_refresh = Refreshed, swr_result = Some (WrittenNode sample_written)\<rparr>"

lemma sample_write_report_passes: "write_report_error sample_write_report = None"
  by code_simp

theorem write_report_names_normal_files_witness:
  "normalize_relative_org_path ''d/b.org'' = Ok ''d/b.org'' \<and>
   written_file_path (WrittenNode sample_written) \<in> {''a.org''}"
  using write_report_names_normal_files [OF sample_write_report_passes]
  by (simp add: sample_write_report_def)

end
