(* ===== verification/Workflow.thy ===== *)
theory Workflow
  imports Artifacts
begin

text \<open>
  Workflows: \<open>crates/slipbox-core/src/workflow.rs\<close> and the reference checks of
  \<open>validation.rs\<close>.  A workflow declares inputs and runs steps in order; a step may
  refer to inputs and to earlier steps by identifier, and validation decides whether
  every such reference can be resolved before anything is run.
\<close>

section \<open>Metadata, inputs, compatibility\<close>

record WorkflowMetadata =
  wm_workflow_id :: string
  wm_title :: string
  wm_summary :: "string option"

definition workflow_metadata_error :: "WorkflowMetadata \<Rightarrow> string option" where
  "workflow_metadata_error m =
     or_else (validate_workflow_id_field (wm_workflow_id m))
    (or_else (validate_required_text_field (wm_title m) ''title'')
             (validate_optional_text_field (wm_summary m) ''summary''))"

record WorkflowSummary =
  ws_metadata :: WorkflowMetadata
  ws_step_count :: nat

datatype WorkflowInputKind = NoteTarget | FocusTarget

fun input_kind_label :: "WorkflowInputKind \<Rightarrow> string" where
  "input_kind_label NoteTarget = ''note-target''"
| "input_kind_label FocusTarget = ''focus-target''"

record WorkflowInputSpec =
  wi_input_id :: string
  wi_title :: string
  wi_summary :: "string option"
  wi_kind :: WorkflowInputKind

definition input_spec_error :: "WorkflowInputSpec \<Rightarrow> string option" where
  "input_spec_error i =
     or_else (validate_workflow_input_id_field (wi_input_id i))
    (or_else (validate_required_text_field (wi_title i) ''title'')
             (validate_optional_text_field (wi_summary i) ''summary''))"

datatype WorkflowResolveTarget =
    TargetId string
  | TargetTitle string
  | TargetReference string
  | TargetNodeKey string
  | TargetInput string

fun resolve_target_error :: "WorkflowResolveTarget \<Rightarrow> string option" where
  "resolve_target_error (TargetId i) = validate_required_text_field i ''id''"
| "resolve_target_error (TargetTitle t) = validate_required_text_field t ''title''"
| "resolve_target_error (TargetReference r) = validate_required_text_field r ''reference''"
| "resolve_target_error (TargetNodeKey k) = validate_required_text_field k ''node_key''"
| "resolve_target_error (TargetInput i) = validate_workflow_input_id_field i"

record WorkflowInputAssignment =
  ia_input_id :: string
  ia_target :: WorkflowResolveTarget

fun assigned_target_error :: "WorkflowResolveTarget \<Rightarrow> string option" where
  "assigned_target_error (TargetInput i) =
     Some ''workflow input assignments cannot reference another workflow input''"
| "assigned_target_error (TargetId i) = validate_required_text_field i ''id''"
| "assigned_target_error (TargetTitle t) = validate_required_text_field t ''title''"
| "assigned_target_error (TargetReference r) = validate_required_text_field r ''reference''"
| "assigned_target_error (TargetNodeKey k) = validate_required_text_field k ''node_key''"

definition input_assignment_error :: "WorkflowInputAssignment \<Rightarrow> string option" where
  "input_assignment_error a =
     or_else (validate_workflow_input_id_field (ia_input_id a)) (assigned_target_error (ia_target a))"

definition WORKFLOW_SPEC_COMPATIBILITY_VERSION :: nat where
  "WORKFLOW_SPEC_COMPATIBILITY_VERSION = 1"

record WorkflowSpecCompatibility =
  wc_version :: nat

definition default_compatibility :: WorkflowSpecCompatibility where
  "default_compatibility = \<lparr>wc_version = WORKFLOW_SPEC_COMPATIBILITY_VERSION\<rparr>"

definition compatibility_error :: "WorkflowSpecCompatibility \<Rightarrow> string option" where
  "compatibility_error c =
     (if wc_version c = 0 then Some ''workflow spec compatibility version must be greater than zero''
      else error_if (WORKFLOW_SPEC_COMPATIBILITY_VERSION < wc_version c)
        (''unsupported workflow spec compatibility version '' @ show_nat (wc_version c) @
         ''; supported version is '' @ show_nat WORKFLOW_SPEC_COMPATIBILITY_VERSION))"

section \<open>Steps\<close>

datatype WorkflowStepKind = KindResolve | KindExplore | KindCompare | KindArtifactRun | KindArtifactSave

fun step_kind_label :: "WorkflowStepKind \<Rightarrow> string" where
  "step_kind_label KindResolve = ''resolve''"
| "step_kind_label KindExplore = ''explore''"
| "step_kind_label KindCompare = ''compare''"
| "step_kind_label KindArtifactRun = ''artifact-run''"
| "step_kind_label KindArtifactSave = ''artifact-save''"

text \<open>\<open>WorkflowStepRef\<close> is the identifier it holds.\<close>

definition step_ref_error :: "string \<Rightarrow> string option" where
  "step_ref_error step_id = validate_workflow_step_id_field step_id"

datatype WorkflowExploreFocus =
    FocusNodeKey string
  | FocusInput string
  | FocusResolvedStep string

fun explore_focus_error :: "WorkflowExploreFocus \<Rightarrow> string option" where
  "explore_focus_error (FocusNodeKey k) = validate_required_text_field k ''node_key''"
| "explore_focus_error (FocusInput i) = validate_workflow_input_id_field i"
| "explore_focus_error (FocusResolvedStep s) = validate_workflow_step_id_field s"

datatype WorkflowArtifactSaveSource = SaveExploreStep string | SaveCompareStep string

fun save_source_error :: "WorkflowArtifactSaveSource \<Rightarrow> string option" where
  "save_source_error (SaveExploreStep s) = validate_workflow_step_id_field s"
| "save_source_error (SaveCompareStep s) = validate_workflow_step_id_field s"

text \<open>Arguments in the order of the source's fields.\<close>

datatype WorkflowStepPayload =
    StepResolve WorkflowResolveTarget
  | StepExplore WorkflowExploreFocus ExplorationLens nat bool
  | StepCompare string string NoteComparisonGroup nat
  | StepArtifactRun string
  | StepArtifactSave WorkflowArtifactSaveSource ExplorationArtifactMetadata bool

fun step_payload_kind :: "WorkflowStepPayload \<Rightarrow> WorkflowStepKind" where
  "step_payload_kind (StepResolve target) = KindResolve"
| "step_payload_kind (StepExplore focus lens limit unique) = KindExplore"
| "step_payload_kind (StepCompare left right g limit) = KindCompare"
| "step_payload_kind (StepArtifactRun artifact_id) = KindArtifactRun"
| "step_payload_kind (StepArtifactSave source metadata overwrite) = KindArtifactSave"

fun step_payload_error :: "WorkflowStepPayload \<Rightarrow> string option" where
  "step_payload_error (StepResolve target) = resolve_target_error target"
| "step_payload_error (StepExplore focus lens limit unique) =
     or_else (explore_focus_error focus)
       (explore_validation_error
          \<lparr>ex_node_key = ''__workflow_focus__'', ex_lens = lens, ex_limit = limit, ex_unique = unique\<rparr>)"
| "step_payload_error (StepCompare left right g limit) =
     or_else (step_ref_error left)
    (or_else (step_ref_error right)
       (error_if (left = right) ''compare left and right must reference distinct resolve steps''))"
| "step_payload_error (StepArtifactRun artifact_id) = validate_artifact_id_field artifact_id"
| "step_payload_error (StepArtifactSave source metadata overwrite) =
     or_else (save_source_error source) (artifact_metadata_error metadata)"

record WorkflowStepSpec =
  wst_step_id :: string
  wst_payload :: WorkflowStepPayload

definition step_kind :: "WorkflowStepSpec \<Rightarrow> WorkflowStepKind" where
  "step_kind s = step_payload_kind (wst_payload s)"

definition step_spec_error :: "WorkflowStepSpec \<Rightarrow> string option" where
  "step_spec_error s =
     or_else (validate_workflow_step_id_field (wst_step_id s)) (step_payload_error (wst_payload s))"

section \<open>References to inputs and earlier steps\<close>

text \<open>Both lookups are \<open>iter().find_map(...)\<close> over pairs: the first pair with the key.\<close>

definition workflow_step_kind_for_reference ::
  "(string \<times> WorkflowStepKind) list \<Rightarrow> string \<Rightarrow> WorkflowStepKind option" where
  "workflow_step_kind_for_reference seen step_id = map_of seen step_id"

definition validate_workflow_step_reference ::
  "(string \<times> WorkflowStepKind) list \<Rightarrow> string \<Rightarrow> WorkflowStepKind \<Rightarrow> string \<Rightarrow> string option" where
  "validate_workflow_step_reference seen step_id expected field =
     (case workflow_step_kind_for_reference seen step_id of
        Some kind \<Rightarrow>
          if kind = expected then None
          else Some (field @ '' must reference a '' @ step_kind_label expected @ '' step, not '' @ step_kind_label kind)
      | None \<Rightarrow> Some (field @ '' must reference an earlier '' @ step_kind_label expected @ '' step''))"

definition workflow_input_kind_for_reference ::
  "(string \<times> WorkflowInputKind) list \<Rightarrow> string \<Rightarrow> WorkflowInputKind option" where
  "workflow_input_kind_for_reference inputs input_id = map_of inputs input_id"

definition validate_workflow_input_reference_kind ::
  "(string \<times> WorkflowInputKind) list \<Rightarrow> string \<Rightarrow> WorkflowInputKind \<Rightarrow> string \<Rightarrow> string option" where
  "validate_workflow_input_reference_kind inputs input_id required_kind role =
     (case workflow_input_kind_for_reference inputs input_id of
        None \<Rightarrow> Some (role @ '' must reference a declared workflow input'')
      | Some kind \<Rightarrow>
          if kind \<noteq> required_kind
          then Some (role @ '' must reference a declared '' @ input_kind_label required_kind @ '' input'')
          else None)"

fun validate_workflow_step_references ::
  "WorkflowStepPayload \<Rightarrow> (string \<times> WorkflowStepKind) list \<Rightarrow> (string \<times> WorkflowInputKind) list \<Rightarrow> string option" where
  "validate_workflow_step_references (StepResolve target) seen inputs =
     (case target of
        TargetInput input_id \<Rightarrow>
          error_if (workflow_input_kind_for_reference inputs input_id = None)
            ''target must reference a declared workflow input''
      | _ \<Rightarrow> None)"
| "validate_workflow_step_references (StepArtifactRun artifact_id) seen inputs = None"
| "validate_workflow_step_references (StepExplore focus lens limit unique) seen inputs =
     (case focus of
        FocusNodeKey k \<Rightarrow> None
      | FocusInput input_id \<Rightarrow> validate_workflow_input_reference_kind inputs input_id FocusTarget ''focus''
      | FocusResolvedStep step_id \<Rightarrow> validate_workflow_step_reference seen step_id KindResolve ''focus'')"
| "validate_workflow_step_references (StepCompare left right g limit) seen inputs =
     or_else (validate_workflow_step_reference seen left KindResolve ''left'')
             (validate_workflow_step_reference seen right KindResolve ''right'')"
| "validate_workflow_step_references (StepArtifactSave source metadata overwrite) seen inputs =
     (case source of
        SaveExploreStep step_id \<Rightarrow> validate_workflow_step_reference seen step_id KindExplore ''source''
      | SaveCompareStep step_id \<Rightarrow> validate_workflow_step_reference seen step_id KindCompare ''source'')"

section \<open>Specifications\<close>

record WorkflowSpec =
  wf_metadata :: WorkflowMetadata
  wf_compatibility :: WorkflowSpecCompatibility
  wf_inputs :: "WorkflowInputSpec list"
  wf_steps :: "WorkflowStepSpec list"

definition input_pair :: "WorkflowInputSpec \<Rightarrow> string \<times> WorkflowInputKind" where
  "input_pair i = (wi_input_id i, wi_kind i)"

definition step_pair :: "WorkflowStepSpec \<Rightarrow> string \<times> WorkflowStepKind" where
  "step_pair s = (wst_step_id s, step_kind s)"

definition workflow_inputs_error :: "WorkflowInputSpec list \<Rightarrow> string option" where
  "workflow_inputs_error inputs =
     scan_seen (\<lambda>index input seen.
         or_else
           (map_option (\<lambda>e. ''workflow input '' @ show_nat index @ '' is invalid: '' @ e) (input_spec_error input))
           (error_if (list_ex (\<lambda>(input_id, _). input_id = wi_input_id input) seen)
             (''workflow input '' @ show_nat index @ '' reuses duplicate input_id '' @ wi_input_id input)))
       input_pair 0 [] inputs"

definition workflow_steps_error :: "WorkflowInputSpec list \<Rightarrow> WorkflowStepSpec list \<Rightarrow> string option" where
  "workflow_steps_error inputs steps =
     scan_seen (\<lambda>index step seen.
         or_else
           (map_option (\<lambda>e. ''workflow step '' @ show_nat index @ '' is invalid: '' @ e) (step_spec_error step))
        (or_else
           (error_if (list_ex (\<lambda>(step_id, _). step_id = wst_step_id step) seen)
             (''workflow step '' @ show_nat index @ '' reuses duplicate step_id '' @ wst_step_id step))
           (map_option (\<lambda>e. ''workflow step '' @ show_nat index @ '' is invalid: '' @ e)
             (validate_workflow_step_references (wst_payload step) seen (map input_pair inputs)))))
       step_pair 0 [] steps"

definition workflow_error :: "WorkflowSpec \<Rightarrow> string option" where
  "workflow_error w =
     or_else (compatibility_error (wf_compatibility w))
    (or_else (workflow_metadata_error (wf_metadata w))
    (or_else (workflow_inputs_error (wf_inputs w))
    (or_else (error_if (wf_steps w = []) ''workflows must contain at least one step'')
             (workflow_steps_error (wf_inputs w) (wf_steps w)))))"

definition input_assignments_error :: "WorkflowSpec \<Rightarrow> WorkflowInputAssignment list \<Rightarrow> string option" where
  "input_assignments_error w inputs =
     or_else
       (scan_seen (\<lambda>index input seen.
            or_else
              (map_option (\<lambda>e. ''workflow input assignment '' @ show_nat index @ '' is invalid: '' @ e)
                (input_assignment_error input))
           (or_else
              (error_if (list_ex (\<lambda>input_id. input_id = ia_input_id input) seen)
                (''workflow input assignment '' @ show_nat index @ '' reuses duplicate input_id '' @ ia_input_id input))
              (error_if (\<not> list_ex (\<lambda>declared. wi_input_id declared = ia_input_id input) (wf_inputs w))
                (''workflow input assignment '' @ show_nat index @ '' references unknown input_id '' @ ia_input_id input))))
          ia_input_id 0 [] inputs)
       (map_option (\<lambda>input. ''workflow input '' @ wi_input_id input @ '' must be assigned'')
         (find (\<lambda>input. wi_input_id input \<notin> set (map ia_input_id inputs)) (wf_inputs w)))"

definition workflow_summary :: "WorkflowSpec \<Rightarrow> WorkflowSummary" where
  "workflow_summary w = \<lparr>ws_metadata = wf_metadata w, ws_step_count = length (wf_steps w)\<rparr>"

section \<open>The built-in workflows\<close>

definition BUILT_IN_WORKFLOW_CONTEXT_SWEEP_ID :: string where
  "BUILT_IN_WORKFLOW_CONTEXT_SWEEP_ID = ''workflow/builtin/context-sweep''"
definition BUILT_IN_WORKFLOW_UNRESOLVED_SWEEP_ID :: string where
  "BUILT_IN_WORKFLOW_UNRESOLVED_SWEEP_ID = ''workflow/builtin/unresolved-sweep''"
definition BUILT_IN_WORKFLOW_PERIODIC_REVIEW_ID :: string where
  "BUILT_IN_WORKFLOW_PERIODIC_REVIEW_ID = ''workflow/builtin/periodic-review''"
definition BUILT_IN_WORKFLOW_WEAK_INTEGRATION_REVIEW_ID :: string where
  "BUILT_IN_WORKFLOW_WEAK_INTEGRATION_REVIEW_ID = ''workflow/builtin/weak-integration-review''"
definition BUILT_IN_WORKFLOW_COMPARISON_TENSION_ID :: string where
  "BUILT_IN_WORKFLOW_COMPARISON_TENSION_ID = ''workflow/builtin/comparison-tension-review''"

definition built_in_context_sweep_workflow :: WorkflowSpec where
  "built_in_context_sweep_workflow =
     \<lparr>wf_metadata =
        \<lparr>wm_workflow_id = BUILT_IN_WORKFLOW_CONTEXT_SWEEP_ID, wm_title = ''Context Sweep'',
         wm_summary = Some ''Resolve a focus note and gather structural, reference, and dormant context.''\<rparr>,
      wf_compatibility = default_compatibility,
      wf_inputs =
        [\<lparr>wi_input_id = ''focus'', wi_title = ''Focus target'',
          wi_summary = Some ''Note or anchor target to inspect'', wi_kind = FocusTarget\<rparr>],
      wf_steps =
        [\<lparr>wst_step_id = ''resolve-focus'', wst_payload = StepResolve (TargetInput ''focus'')\<rparr>,
         \<lparr>wst_step_id = ''explore-structure'',
          wst_payload = StepExplore (FocusResolvedStep ''resolve-focus'') LensStructure 25 False\<rparr>,
         \<lparr>wst_step_id = ''explore-refs'', wst_payload = StepExplore (FocusInput ''focus'') LensRefs 25 False\<rparr>,
         \<lparr>wst_step_id = ''explore-dormant'',
          wst_payload = StepExplore (FocusResolvedStep ''resolve-focus'') LensDormant 25 False\<rparr>]\<rparr>"

definition built_in_unresolved_sweep_workflow :: WorkflowSpec where
  "built_in_unresolved_sweep_workflow =
     \<lparr>wf_metadata =
        \<lparr>wm_workflow_id = BUILT_IN_WORKFLOW_UNRESOLVED_SWEEP_ID, wm_title = ''Unresolved Sweep'',
         wm_summary = Some ''Resolve a focus note and sweep unresolved, task, and time context around it.''\<rparr>,
      wf_compatibility = default_compatibility,
      wf_inputs =
        [\<lparr>wi_input_id = ''focus'', wi_title = ''Focus target'',
          wi_summary = Some ''Note or anchor target to audit for unresolved pressure'', wi_kind = FocusTarget\<rparr>],
      wf_steps =
        [\<lparr>wst_step_id = ''resolve-focus'', wst_payload = StepResolve (TargetInput ''focus'')\<rparr>,
         \<lparr>wst_step_id = ''explore-unresolved'',
          wst_payload = StepExplore (FocusResolvedStep ''resolve-focus'') LensUnresolved 25 False\<rparr>,
         \<lparr>wst_step_id = ''explore-tasks'', wst_payload = StepExplore (FocusInput ''focus'') LensTasks 25 False\<rparr>,
         \<lparr>wst_step_id = ''explore-time'', wst_payload = StepExplore (FocusInput ''focus'') LensTime 25 False\<rparr>]\<rparr>"

definition built_in_periodic_review_workflow :: WorkflowSpec where
  "built_in_periodic_review_workflow =
     \<lparr>wf_metadata =
        \<lparr>wm_workflow_id = BUILT_IN_WORKFLOW_PERIODIC_REVIEW_ID, wm_title = ''Periodic Review'',
         wm_summary = Some ''Run a recurring review around a focus target across unresolved work, planning, references, and dormant context.''\<rparr>,
      wf_compatibility = default_compatibility,
      wf_inputs =
        [\<lparr>wi_input_id = ''focus'', wi_title = ''Review focus'',
          wi_summary = Some ''Note or anchor target anchoring the recurring review'', wi_kind = FocusTarget\<rparr>],
      wf_steps =
        [\<lparr>wst_step_id = ''resolve-focus'', wst_payload = StepResolve (TargetInput ''focus'')\<rparr>,
         \<lparr>wst_step_id = ''review-unresolved'',
          wst_payload = StepExplore (FocusResolvedStep ''resolve-focus'') LensUnresolved 50 False\<rparr>,
         \<lparr>wst_step_id = ''review-time'', wst_payload = StepExplore (FocusInput ''focus'') LensTime 50 False\<rparr>,
         \<lparr>wst_step_id = ''review-tasks'', wst_payload = StepExplore (FocusInput ''focus'') LensTasks 50 False\<rparr>,
         \<lparr>wst_step_id = ''review-refs'', wst_payload = StepExplore (FocusInput ''focus'') LensRefs 50 False\<rparr>,
         \<lparr>wst_step_id = ''review-dormant'',
          wst_payload = StepExplore (FocusResolvedStep ''resolve-focus'') LensDormant 50 False\<rparr>]\<rparr>"

definition built_in_weak_integration_review_workflow :: WorkflowSpec where
  "built_in_weak_integration_review_workflow =
     \<lparr>wf_metadata =
        \<lparr>wm_workflow_id = BUILT_IN_WORKFLOW_WEAK_INTEGRATION_REVIEW_ID, wm_title = ''Weak Integration Review'',
         wm_summary = Some ''Review weakly integrated, dormant, and bridgeable material around a focus note.''\<rparr>,
      wf_compatibility = default_compatibility,
      wf_inputs =
        [\<lparr>wi_input_id = ''focus'', wi_title = ''Integration focus'',
          wi_summary = Some ''Note or anchor target whose surrounding integration should be reviewed'',
          wi_kind = FocusTarget\<rparr>],
      wf_steps =
        [\<lparr>wst_step_id = ''resolve-focus'', wst_payload = StepResolve (TargetInput ''focus'')\<rparr>,
         \<lparr>wst_step_id = ''review-weak-integration'',
          wst_payload = StepExplore (FocusResolvedStep ''resolve-focus'') LensUnresolved 50 False\<rparr>,
         \<lparr>wst_step_id = ''review-dormant'',
          wst_payload = StepExplore (FocusResolvedStep ''resolve-focus'') LensDormant 50 False\<rparr>,
         \<lparr>wst_step_id = ''review-bridges'',
          wst_payload = StepExplore (FocusResolvedStep ''resolve-focus'') LensBridges 50 False\<rparr>]\<rparr>"

definition built_in_comparison_tension_workflow :: WorkflowSpec where
  "built_in_comparison_tension_workflow =
     \<lparr>wf_metadata =
        \<lparr>wm_workflow_id = BUILT_IN_WORKFLOW_COMPARISON_TENSION_ID, wm_title = ''Comparison Tension Review'',
         wm_summary = Some ''Resolve two notes and review both tension and overlap together.''\<rparr>,
      wf_compatibility = default_compatibility,
      wf_inputs =
        [\<lparr>wi_input_id = ''left'', wi_title = ''Left note'', wi_summary = Some ''First exact note target'',
          wi_kind = NoteTarget\<rparr>,
         \<lparr>wi_input_id = ''right'', wi_title = ''Right note'', wi_summary = Some ''Second exact note target'',
          wi_kind = NoteTarget\<rparr>],
      wf_steps =
        [\<lparr>wst_step_id = ''resolve-left'', wst_payload = StepResolve (TargetInput ''left'')\<rparr>,
         \<lparr>wst_step_id = ''resolve-right'', wst_payload = StepResolve (TargetInput ''right'')\<rparr>,
         \<lparr>wst_step_id = ''compare-tension'',
          wst_payload = StepCompare ''resolve-left'' ''resolve-right'' GroupTension 25\<rparr>,
         \<lparr>wst_step_id = ''compare-overlap'',
          wst_payload = StepCompare ''resolve-left'' ''resolve-right'' GroupOverlap 25\<rparr>]\<rparr>"

definition built_in_workflows :: "WorkflowSpec list" where
  "built_in_workflows =
     [built_in_context_sweep_workflow, built_in_unresolved_sweep_workflow, built_in_periodic_review_workflow,
      built_in_weak_integration_review_workflow, built_in_comparison_tension_workflow]"

definition built_in_workflow :: "string \<Rightarrow> WorkflowSpec option" where
  "built_in_workflow workflow_id = find (\<lambda>w. wm_workflow_id (wf_metadata w) = workflow_id) built_in_workflows"

definition built_in_workflow_summaries :: "WorkflowSummary list" where
  "built_in_workflow_summaries = map workflow_summary built_in_workflows"

section \<open>Reports of a run\<close>

datatype WorkflowStepReportPayload =
    ReportResolve NodeRecord
  | ReportExplore string ExploreResult
  | ReportCompare NodeRecord NodeRecord NoteComparisonResult
  | ReportArtifactRun ExecutedExplorationArtifact
  | ReportArtifactSave ExplorationArtifactSummary

fun step_report_kind :: "WorkflowStepReportPayload \<Rightarrow> WorkflowStepKind" where
  "step_report_kind (ReportResolve n) = KindResolve"
| "step_report_kind (ReportExplore k r) = KindExplore"
| "step_report_kind (ReportCompare l r c) = KindCompare"
| "step_report_kind (ReportArtifactRun a) = KindArtifactRun"
| "step_report_kind (ReportArtifactSave a) = KindArtifactSave"

record WorkflowStepReport =
  wsr_step_id :: string
  wsr_payload :: WorkflowStepReportPayload

fun step_report_payload_error :: "WorkflowStepReportPayload \<Rightarrow> string option" where
  "step_report_payload_error (ReportResolve n) = validate_required_text_field (nd_node_key n) ''node_key''"
| "step_report_payload_error (ReportExplore focus_node_key r) =
     validate_required_text_field focus_node_key ''focus_node_key''"
| "step_report_payload_error (ReportCompare l r c) =
     or_else (validate_required_text_field (nd_node_key l) ''left_node_key'')
             (validate_required_text_field (nd_node_key r) ''right_node_key'')"
| "step_report_payload_error (ReportArtifactRun a) = artifact_metadata_error (xa_metadata a)"
| "step_report_payload_error (ReportArtifactSave a) = artifact_metadata_error (eas_metadata a)"

definition step_report_error :: "WorkflowStepReport \<Rightarrow> string option" where
  "step_report_error r =
     or_else (validate_workflow_step_id_field (wsr_step_id r)) (step_report_payload_error (wsr_payload r))"

record WorkflowExecutionResult =
  wx_workflow :: WorkflowSummary
  wx_steps :: "WorkflowStepReport list"

datatype WorkflowReportLine =
    WorkflowLine WorkflowSummary
  | WorkflowStepLine WorkflowStepReport

definition workflow_report_lines :: "WorkflowExecutionResult \<Rightarrow> WorkflowReportLine list" where
  "workflow_report_lines r = WorkflowLine (wx_workflow r) # map WorkflowStepLine (wx_steps r)"

datatype WorkflowCatalogIssueKind =
    IssueDirectory | IssueIo | IssueMalformedJson | IssueUnsupportedVersion | IssueInvalidSpec | IssueInvalidPack
  | IssueInvalidReviewRoutine | IssueInvalidReportProfile | IssueDuplicateWorkflowId
  | IssueDuplicateReviewRoutineId | IssueDuplicateReportProfileId

fun catalog_issue_label :: "WorkflowCatalogIssueKind \<Rightarrow> string" where
  "catalog_issue_label IssueDirectory = ''directory''"
| "catalog_issue_label IssueIo = ''io''"
| "catalog_issue_label IssueMalformedJson = ''malformed-json''"
| "catalog_issue_label IssueUnsupportedVersion = ''unsupported-version''"
| "catalog_issue_label IssueInvalidSpec = ''invalid-spec''"
| "catalog_issue_label IssueInvalidPack = ''invalid-pack''"
| "catalog_issue_label IssueInvalidReviewRoutine = ''invalid-review-routine''"
| "catalog_issue_label IssueInvalidReportProfile = ''invalid-report-profile''"
| "catalog_issue_label IssueDuplicateWorkflowId = ''duplicate-workflow-id''"
| "catalog_issue_label IssueDuplicateReviewRoutineId = ''duplicate-review-routine-id''"
| "catalog_issue_label IssueDuplicateReportProfileId = ''duplicate-report-profile-id''"

end
