(* ===== verification/Rpc.thy ===== *)
theory Rpc
  imports RustStrFacts Utf8
begin

text \<open>
  The JSON-RPC layer of \<open>crates/slipbox-rpc/src/lib.rs\<close>: error objects, responses, and
  the framing of messages on a byte stream.  A JSON value is a type parameter, and its
  printer and parser (\<open>serde_json\<close>) are parameters of the framing functions.
\<close>

section \<open>Error objects\<close>

datatype JsonRpcErrorKind =
    RpcParseError | RpcInvalidParams | RpcMethodNotFound | RpcNotFound | RpcConflict | RpcPathDenied
  | RpcStaleRequest | RpcInternal

record 'v JsonRpcErrorData =
  jd_kind :: JsonRpcErrorKind
  jd_details :: "'v option"

definition error_data :: "JsonRpcErrorKind \<Rightarrow> 'v JsonRpcErrorData" where
  "error_data kind = \<lparr>jd_kind = kind, jd_details = None\<rparr>"

definition error_data_with_details :: "JsonRpcErrorKind \<Rightarrow> 'v \<Rightarrow> 'v JsonRpcErrorData" where
  "error_data_with_details kind details = \<lparr>jd_kind = kind, jd_details = Some details\<rparr>"

record 'v JsonRpcErrorObject =
  je_code :: int
  je_message :: string
  je_data :: "'v JsonRpcErrorData option"

definition rpc_error_object :: "int \<Rightarrow> JsonRpcErrorKind \<Rightarrow> string \<Rightarrow> 'v JsonRpcErrorObject" where
  "rpc_error_object c kind message = \<lparr>je_code = c, je_message = message, je_data = Some (error_data kind)\<rparr>"

definition parse_error :: "string \<Rightarrow> 'v JsonRpcErrorObject" where
  "parse_error message = rpc_error_object (- 32700) RpcParseError message"

definition invalid_request :: "string \<Rightarrow> 'v JsonRpcErrorObject" where
  "invalid_request message = rpc_error_object (- 32600) RpcInvalidParams message"

definition method_not_found :: "string \<Rightarrow> 'v JsonRpcErrorObject" where
  "method_not_found message = rpc_error_object (- 32601) RpcMethodNotFound message"

definition internal_error :: "string \<Rightarrow> 'v JsonRpcErrorObject" where
  "internal_error message = rpc_error_object (- 32603) RpcInternal message"

definition with_kind :: "JsonRpcErrorKind \<Rightarrow> 'v JsonRpcErrorObject \<Rightarrow> 'v JsonRpcErrorObject" where
  "with_kind kind e = e\<lparr>je_data := Some (error_data kind)\<rparr>"

definition with_data :: "'v JsonRpcErrorData \<Rightarrow> 'v JsonRpcErrorObject \<Rightarrow> 'v JsonRpcErrorObject" where
  "with_data d e = e\<lparr>je_data := Some d\<rparr>"

definition not_found :: "string \<Rightarrow> 'v JsonRpcErrorObject" where
  "not_found message = with_kind RpcNotFound (invalid_request message)"

definition conflict :: "string \<Rightarrow> 'v JsonRpcErrorObject" where
  "conflict message = with_kind RpcConflict (invalid_request message)"

definition path_denied :: "string \<Rightarrow> 'v JsonRpcErrorObject" where
  "path_denied message = with_kind RpcPathDenied (invalid_request message)"

definition stale_request :: "string \<Rightarrow> 'v JsonRpcErrorObject" where
  "stale_request message = with_kind RpcStaleRequest (invalid_request message)"

section \<open>Requests and responses\<close>

record 'v JsonRpcRequest =
  jq_jsonrpc :: string
  jq_id :: "'v option"
  jq_method :: string
  jq_params :: 'v

definition rpc_request :: "'v \<Rightarrow> string \<Rightarrow> 'v \<Rightarrow> 'v JsonRpcRequest" where
  "rpc_request i m params = \<lparr>jq_jsonrpc = ''2.0'', jq_id = Some i, jq_method = m, jq_params = params\<rparr>"

record 'v JsonRpcResponse =
  jr_jsonrpc :: string
  jr_id :: 'v
  jr_result :: "'v option"
  jr_error :: "'v JsonRpcErrorObject option"

definition rpc_success :: "'v \<Rightarrow> 'v \<Rightarrow> 'v JsonRpcResponse" where
  "rpc_success i r = \<lparr>jr_jsonrpc = ''2.0'', jr_id = i, jr_result = Some r, jr_error = None\<rparr>"

definition rpc_failure :: "'v \<Rightarrow> 'v JsonRpcErrorObject \<Rightarrow> 'v JsonRpcResponse" where
  "rpc_failure i e = \<lparr>jr_jsonrpc = ''2.0'', jr_id = i, jr_result = None, jr_error = Some e\<rparr>"

section \<open>Framing\<close>

text \<open>
  \<open>BufRead::read_line\<close> on the rest of the stream: the bytes up to and including the
  next line feed, or what is left; they must be valid UTF-8.
\<close>

fun take_line :: "string \<Rightarrow> string \<times> string" where
  "take_line [] = ([], [])"
| "take_line (c # s) = (if c = NL then ([c], s) else (case take_line s of (l, rest) \<Rightarrow> (c # l, rest)))"

lemma take_line_append: "take_line s = (l, rest) \<Longrightarrow> l @ rest = s"
  by (induction s arbitrary: l) (auto split: if_splits prod.splits)

lemma take_line_rest: "take_line s = (l, rest) \<Longrightarrow> l \<noteq> [] \<Longrightarrow> length rest < length s"
  using take_line_append [of s l rest] by auto

datatype FrameError =
    HeaderUnreadable | InvalidHeaderLine string | InvalidContentLength string | MissingContentLength
  | BodyTruncated | InvalidBody

text \<open>\<open>trim_end_matches(['\r', '\n'])\<close>.\<close>

definition trim_line_end :: "string \<Rightarrow> string" where
  "trim_line_end s = rev (dropWhile (\<lambda>c. c = CR \<or> c = NL) (rev s))"

text \<open>One header line that is neither the end of the stream nor the empty line.\<close>

definition header_line :: "string \<Rightarrow> nat option \<Rightarrow> (nat option, FrameError) outcome" where
  "header_line line content_length =
     (case split_once '':'' (trim_line_end line) of
        None \<Rightarrow> Err (InvalidHeaderLine (trim_line_end line))
      | Some (name, v) \<Rightarrow>
          if eq_ignore_case name ''content-length''
          then (case parse_usize (trim v) of
                  None \<Rightarrow> Err (InvalidContentLength (trim v))
                | Some n \<Rightarrow> Ok (Some n))
          else Ok content_length)"

text \<open>
  The loop over the headers, with what is left of the stream: \<open>None\<close> when the stream ends
  there, or the announced length.  A line that is refused has been consumed.
\<close>

function read_headers :: "nat option \<Rightarrow> string \<Rightarrow> (nat option option, FrameError) outcome \<times> string" where
  "read_headers content_length s =
     (case take_line s of (line, rest) \<Rightarrow>
        if \<not> utf8_valid line then (Err HeaderUnreadable, rest)
        else if line = [] then (Ok None, rest)
        else if line = [CR, NL] then (Ok (Some content_length), rest)
        else (case header_line line content_length of
            Ok content_length \<Rightarrow> read_headers content_length rest
          | Err e \<Rightarrow> (Err e, rest)
          | Panic \<Rightarrow> (Panic, rest)))"
  by pat_completeness auto
termination
  by (relation "measure (\<lambda>(_, s). length s)") (auto dest: take_line_rest [OF sym])

declare read_headers.simps [simp del]

text \<open>
  \<open>vec![0; n]\<close> panics when the bytes exceed \<open>isize::MAX\<close>.  Running out of memory below
  that bound is not modelled.  \<open>read_exact\<close> on a stream that is too short consumes it.
\<close>

definition ISIZE_MAX :: int where "ISIZE_MAX = 9223372036854775807"

definition read_body ::
  "(string \<Rightarrow> 'm option) \<Rightarrow> nat \<Rightarrow> string \<Rightarrow> ('m option, FrameError) outcome \<times> string" where
  "read_body decode n s =
     (if ISIZE_MAX < int n then (Panic, s)
      else if length s < n then (Err BodyTruncated, [])
      else (case decode (take n s) of
          None \<Rightarrow> (Err InvalidBody, drop n s)
        | Some message \<Rightarrow> (Ok (Some message), drop n s)))"

definition read_framed_message ::
  "(string \<Rightarrow> 'm option) \<Rightarrow> string \<Rightarrow> ('m option, FrameError) outcome \<times> string" where
  "read_framed_message decode s =
     (case read_headers None s of
        (Ok None, rest) \<Rightarrow> (Ok None, rest)
      | (Ok (Some None), rest) \<Rightarrow> (Err MissingContentLength, rest)
      | (Ok (Some (Some n)), rest) \<Rightarrow> read_body decode n rest
      | (Err e, rest) \<Rightarrow> (Err e, rest)
      | (Panic, rest) \<Rightarrow> (Panic, rest))"

definition write_framed_message :: "('m \<Rightarrow> string) \<Rightarrow> 'm \<Rightarrow> string" where
  "write_framed_message encode message =
     (let body = encode message in
      ''Content-Length: '' @ show_nat (length body) @ [CR, NL, CR, NL] @ body)"

text \<open>Every answer but the end of the stream takes at least a byte of it.\<close>

lemma read_headers_consumes:
  "read_headers content_length s = (r, rest) \<Longrightarrow> length rest \<le> length s \<and> (r \<noteq> Ok None \<longrightarrow> length rest < length s)"
proof (induction content_length s rule: read_headers.induct)
  case (1 content_length s)
  obtain line left where line: "take_line s = (line, left)" by fastforce
  then have len: "length s = length line + length left"
    using take_line_append by fastforce
  have step: "(if \<not> utf8_valid line then (Err HeaderUnreadable, left)
        else if line = [] then (Ok None, left)
        else if line = [CR, NL] then (Ok (Some content_length), left)
        else (case header_line line content_length of
            Ok content_length \<Rightarrow> read_headers content_length left
          | Err e \<Rightarrow> (Err e, left)
          | Panic \<Rightarrow> (Panic, left))) = (r, rest)"
    using "1.prems" by (simp add: read_headers.simps [of content_length s] line)
  have empty: "utf8_valid []" by (simp add: utf8_valid_def)
  show ?case
  proof (cases "utf8_valid line \<and> line \<noteq> [] \<and> line \<noteq> [CR, NL]")
    case True
    then have smaller: "length left < length s" using len by simp
    show ?thesis
    proof (cases "header_line line content_length")
      case (Ok content)
      with True step have "read_headers content left = (r, rest)" by simp
      with "1.IH" [OF line [symmetric] _ _ _ Ok] True smaller show ?thesis by fastforce
    qed (use True step smaller in auto)
  next
    case False
    then show ?thesis
      using step len empty by (auto split: if_splits)
  qed
qed

lemma read_framed_consumes:
  "read_framed_message decode s = (r, rest) \<Longrightarrow> r \<noteq> Ok None \<Longrightarrow> length rest < length s"
  using read_headers_consumes [of None s]
  by (fastforce simp: read_framed_message_def read_body_def
      split: prod.splits outcome.splits option.splits if_splits)

end
