(* ===== verification/WorkflowRun.thy ===== *)
theory WorkflowRun
  imports Workflow Rpc
begin

text \<open>
  Running a workflow: \<open>execute_workflow_spec\<close> of
  \<open>crates/slipbox-engine/src/handlers/query/assets/workflows.rs\<close>, with the target
  resolution of \<open>assets/common.rs\<close>.  The queries that read or write the server's
  state are parameters (\<open>engine\<close>), each of which may change the state and may fail.
\<close>

section \<open>The queries a run calls\<close>

type_synonym 'v failure = "'v JsonRpcErrorObject"
type_synonym ('a, 'v, 's) query = "'s \<Rightarrow> ('a, 'v failure) outcome \<times> 's"

definition q_return :: "'a \<Rightarrow> ('a, 'v, 's) query" where
  "q_return x s = (Ok x, s)"

definition q_fail :: "'v failure \<Rightarrow> ('a, 'v, 's) query" where
  "q_fail e s = (Err e, s)"

definition q_bind :: "('a, 'v, 's) query \<Rightarrow> ('a \<Rightarrow> ('b, 'v, 's) query) \<Rightarrow> ('b, 'v, 's) query" where
  "q_bind m f s =
     (case m s of (Ok x, s') \<Rightarrow> f x s' | (Err e, s') \<Rightarrow> (Err e, s') | (Panic, s') \<Rightarrow> (Panic, s'))"

definition q_map_err :: "('v failure \<Rightarrow> 'v failure) \<Rightarrow> ('a, 'v, 's) query \<Rightarrow> ('a, 'v, 's) query" where
  "q_map_err f m s = (case m s of (r, s') \<Rightarrow> (map_err f r, s'))"

text \<open>
  The database lookups fail with an error whose text the caller replaces by its own
  context; \<open>known_note\<close> and \<open>known_note_for_node_or_anchor\<close> are methods of the server state.
\<close>

record ('v, 's) engine =
  eg_node_from_id :: "string \<Rightarrow> 's \<Rightarrow> (NodeRecord option, unit) outcome \<times> 's"
  eg_nodes_from_title :: "string \<Rightarrow> 's \<Rightarrow> (NodeRecord list, unit) outcome \<times> 's"
  eg_node_from_ref :: "string \<Rightarrow> 's \<Rightarrow> (NodeRecord option, unit) outcome \<times> 's"
  eg_anchor_by_key :: "string \<Rightarrow> 's \<Rightarrow> (AnchorRecord option, unit) outcome \<times> 's"
  eg_known_note :: "string \<Rightarrow> string \<Rightarrow> (NodeRecord, 'v, 's) query"
  eg_known_note_or_anchor :: "string \<Rightarrow> string \<Rightarrow> (NodeRecord, 'v, 's) query"
  eg_explore :: "ExploreParams \<Rightarrow> (ExploreResult, 'v, 's) query"
  eg_compare :: "CompareNotesParams \<Rightarrow> (NoteComparisonResult, 'v, 's) query"
  eg_run_artifact :: "string \<Rightarrow> (ExecutedExplorationArtifact option, 'v, 's) query"
  eg_save_artifact :: "SavedExplorationArtifact \<Rightarrow> bool \<Rightarrow> (ExplorationArtifactSummary, 'v, 's) query"

section \<open>Resolving targets (assets/common.rs)\<close>

definition workflow_lens_accepts_anchor_focus :: "ExplorationLens \<Rightarrow> bool" where
  "workflow_lens_accepts_anchor_focus lens \<longleftrightarrow> lens \<in> {LensRefs, LensTime, LensTasks}"

definition lookup_failed :: "string \<Rightarrow> 'v failure" where
  "lookup_failed description = internal_error (''failed to resolve '' @ description)"

definition unknown_target :: "string \<Rightarrow> string \<Rightarrow> 'v failure" where
  "unknown_target description wanted = invalid_request (''unknown '' @ description @ '': '' @ wanted)"

definition ambiguous_title :: "string \<Rightarrow> 'v failure" where
  "ambiguous_title title = invalid_request (''multiple nodes match '' @ title)"

definition unknown_artifact :: "string \<Rightarrow> 'v failure" where
  "unknown_artifact artifact_id = invalid_request (''unknown exploration artifact: '' @ artifact_id)"

text \<open>\<open>map_err(|error| internal_error(error.context(...)))\<close>: the outermost context is the message.\<close>

definition lookup :: "('s \<Rightarrow> ('a, unit) outcome \<times> 's) \<Rightarrow> string \<Rightarrow> ('a, 'v, 's) query" where
  "lookup m description s =
     (case m s of (r, s') \<Rightarrow> (map_err (\<lambda>_. lookup_failed description) r, s'))"

definition known_or :: "string \<Rightarrow> string \<Rightarrow> 'a option \<Rightarrow> ('a, 'v, 's) query" where
  "known_or description wanted found =
     (case found of
        Some x \<Rightarrow> q_return x
      | None \<Rightarrow> q_fail (unknown_target description wanted))"

definition resolve_workflow_note_target ::
  "('v, 's) engine \<Rightarrow> WorkflowResolveTarget \<Rightarrow> string \<Rightarrow> (NodeRecord, 'v, 's) query" where
  "resolve_workflow_note_target g target description =
     (case target of
        TargetId i \<Rightarrow> q_bind (lookup (eg_node_from_id g i) description) (known_or description i)
      | TargetTitle title \<Rightarrow>
          q_bind (lookup (eg_nodes_from_title g title) description) (\<lambda>matches.
            if 1 < length matches then q_fail (ambiguous_title title)
            else known_or description title (case matches of [] \<Rightarrow> None | n # _ \<Rightarrow> Some n))
      | TargetReference reference \<Rightarrow>
          q_bind (lookup (eg_node_from_ref g reference) description) (known_or description reference)
      | TargetNodeKey node_key \<Rightarrow> eg_known_note g node_key description
      | TargetInput _ \<Rightarrow>
          q_fail (internal_error ''workflow input reference reached runtime resolution unexpectedly''))"

definition resolve_workflow_note_target_from_focus ::
  "('v, 's) engine \<Rightarrow> WorkflowResolveTarget \<Rightarrow> string \<Rightarrow> (NodeRecord, 'v, 's) query" where
  "resolve_workflow_note_target_from_focus g target description =
     (case target of
        TargetNodeKey node_key \<Rightarrow> eg_known_note_or_anchor g node_key description
      | TargetInput _ \<Rightarrow>
          q_fail (internal_error ''workflow input reference reached runtime note resolution unexpectedly'')
      | _ \<Rightarrow> resolve_workflow_note_target g target description)"

definition resolve_workflow_focus_target ::
  "('v, 's) engine \<Rightarrow> WorkflowResolveTarget \<Rightarrow> ExplorationLens \<Rightarrow> string \<Rightarrow> (string, 'v, 's) query" where
  "resolve_workflow_focus_target g target lens description =
     (case target of
        TargetNodeKey node_key \<Rightarrow>
          if workflow_lens_accepts_anchor_focus lens then
            q_bind (lookup (eg_anchor_by_key g node_key) description) (\<lambda>anchor.
              if anchor \<noteq> None then q_return node_key
              else q_bind (eg_known_note g node_key description) (\<lambda>n. q_return (nd_node_key n)))
          else q_bind (eg_known_note_or_anchor g node_key description) (\<lambda>n. q_return (nd_node_key n))
      | TargetInput _ \<Rightarrow>
          q_fail (internal_error ''workflow input reference reached runtime focus resolution unexpectedly'')
      | _ \<Rightarrow> q_bind (resolve_workflow_note_target g target description) (\<lambda>n. q_return (nd_node_key n)))"

section \<open>Results of the steps\<close>

datatype WorkflowStepState =
    DoneResolve NodeRecord
  | DoneExplore string ExplorationLens nat bool ExploreResult
  | DoneCompare NodeRecord NodeRecord NoteComparisonGroup nat NoteComparisonResult
  | DoneArtifactRun ExecutedExplorationArtifact
  | DoneArtifactSave ExplorationArtifactSummary

fun state_payload :: "WorkflowStepState \<Rightarrow> WorkflowStepReportPayload" where
  "state_payload (DoneResolve n) = ReportResolve n"
| "state_payload (DoneExplore focus_node_key lens limit unique r) = ReportExplore focus_node_key r"
| "state_payload (DoneCompare left_node right_node g limit r) = ReportCompare left_node right_node r"
| "state_payload (DoneArtifactRun a) = ReportArtifactRun a"
| "state_payload (DoneArtifactSave a) = ReportArtifactSave a"

definition step_report :: "WorkflowStepState \<Rightarrow> string \<Rightarrow> WorkflowStepReport" where
  "step_report st step_id = \<lparr>wsr_step_id = step_id, wsr_payload = state_payload st\<rparr>"

definition state_kind :: "WorkflowStepState \<Rightarrow> WorkflowStepKind" where
  "state_kind st = step_report_kind (state_payload st)"

definition with_step_context :: "string \<Rightarrow> 'v failure \<Rightarrow> 'v failure" where
  "with_step_context step_id e = e\<lparr>je_message := ''workflow step '' @ step_id @ '' failed: '' @ je_message e\<rparr>"

section \<open>Running\<close>

text \<open>
  The three hash maps: the declared kinds and the assigned targets, where a later entry
  of a key would replace an earlier one, and the states of the steps already run.
\<close>

record run_inputs =
  ri_kinds :: "string \<Rightarrow> WorkflowInputKind option"
  ri_targets :: "string \<Rightarrow> WorkflowResolveTarget option"

definition run_inputs_of :: "WorkflowSpec \<Rightarrow> WorkflowInputAssignment list \<Rightarrow> run_inputs" where
  "run_inputs_of w inputs =
     \<lparr>ri_kinds = map_of (rev (map input_pair (wf_inputs w))),
      ri_targets = map_of (rev (map (\<lambda>a. (ia_input_id a, ia_target a)) inputs))\<rparr>"

definition run_resolve ::
  "('v, 's) engine \<Rightarrow> run_inputs \<Rightarrow> WorkflowResolveTarget \<Rightarrow> (WorkflowStepState, 'v, 's) query" where
  "run_resolve g ri target =
     q_bind
       (case target of
          TargetInput input_id \<Rightarrow>
            (case ri_targets ri input_id of
               None \<Rightarrow> q_fail (invalid_request (''workflow input '' @ input_id @ '' must be assigned''))
             | Some assigned \<Rightarrow>
                 (case ri_kinds ri input_id of
                    Some NoteTarget \<Rightarrow> resolve_workflow_note_target g assigned ''workflow note target''
                  | Some FocusTarget \<Rightarrow>
                      resolve_workflow_note_target_from_focus g assigned ''workflow focus target''
                  | None \<Rightarrow> q_fail (invalid_request (''workflow input '' @ input_id @ '' must be declared''))))
        | _ \<Rightarrow> resolve_workflow_note_target g target ''workflow note target'')
       (\<lambda>n. q_return (DoneResolve n))"

definition run_focus ::
  "('v, 's) engine \<Rightarrow> run_inputs \<Rightarrow> (string \<Rightarrow> WorkflowStepState option) \<Rightarrow> WorkflowExploreFocus \<Rightarrow>
   ExplorationLens \<Rightarrow> (string, 'v, 's) query" where
  "run_focus g ri steps focus lens =
     (case focus of
        FocusNodeKey node_key \<Rightarrow> q_return node_key
      | FocusInput input_id \<Rightarrow>
          if ri_kinds ri input_id \<noteq> Some FocusTarget
          then q_fail (invalid_request
            (''workflow input '' @ input_id @ '' must be declared as a focus-target input''))
          else (case ri_targets ri input_id of
              None \<Rightarrow> q_fail (invalid_request (''workflow input '' @ input_id @ '' must be assigned''))
            | Some assigned \<Rightarrow> resolve_workflow_focus_target g assigned lens ''workflow focus target'')
      | FocusResolvedStep step_id \<Rightarrow>
          (case steps step_id of
             Some (DoneResolve n) \<Rightarrow> q_return (nd_node_key n)
           | Some other \<Rightarrow> q_fail (invalid_request
               (''expected resolve focus source, got '' @ step_kind_label (state_kind other)))
           | None \<Rightarrow> q_fail (invalid_request (''references unknown focus step '' @ step_id))))"

definition run_explore ::
  "('v, 's) engine \<Rightarrow> run_inputs \<Rightarrow> (string \<Rightarrow> WorkflowStepState option) \<Rightarrow> WorkflowExploreFocus \<Rightarrow>
   ExplorationLens \<Rightarrow> nat \<Rightarrow> bool \<Rightarrow> (WorkflowStepState, 'v, 's) query" where
  "run_explore g ri steps focus lens limit unique =
     q_bind (run_focus g ri steps focus lens) (\<lambda>focus_node_key.
     q_bind (eg_explore g \<lparr>ex_node_key = focus_node_key, ex_lens = lens, ex_limit = limit, ex_unique = unique\<rparr>)
       (\<lambda>r. q_return (DoneExplore focus_node_key lens limit unique r)))"

definition compared_node ::
  "(string \<Rightarrow> WorkflowStepState option) \<Rightarrow> string \<Rightarrow> string \<Rightarrow> (NodeRecord, 'v, 's) query" where
  "compared_node steps side step_id =
     (case steps step_id of
        Some (DoneResolve n) \<Rightarrow> q_return n
      | _ \<Rightarrow> q_fail (invalid_request (''references invalid '' @ side @ '' resolve step '' @ step_id)))"

definition run_compare ::
  "('v, 's) engine \<Rightarrow> (string \<Rightarrow> WorkflowStepState option) \<Rightarrow> string \<Rightarrow> string \<Rightarrow> NoteComparisonGroup \<Rightarrow> nat \<Rightarrow>
   (WorkflowStepState, 'v, 's) query" where
  "run_compare g steps left right grp limit =
     q_bind (compared_node steps ''left'' left) (\<lambda>left_node.
     q_bind (compared_node steps ''right'' right) (\<lambda>right_node.
     q_bind (eg_compare g \<lparr>cn_left_node_key = nd_node_key left_node, cn_right_node_key = nd_node_key right_node,
                          cn_limit = limit\<rparr>)
       (\<lambda>r. q_return (DoneCompare left_node right_node grp limit r))))"

definition artifact_to_save ::
  "(string \<Rightarrow> WorkflowStepState option) \<Rightarrow> WorkflowArtifactSaveSource \<Rightarrow> ExplorationArtifactMetadata \<Rightarrow>
   (SavedExplorationArtifact, 'v, 's) query" where
  "artifact_to_save steps source metadata =
     (case source of
        SaveExploreStep step_id \<Rightarrow>
          (case steps step_id of
             Some (DoneExplore focus_node_key lens limit unique r) \<Rightarrow>
               q_return (live_lens_view metadata focus_node_key lens limit unique)
           | _ \<Rightarrow> q_fail (invalid_request (''references invalid explore source '' @ step_id)))
      | SaveCompareStep step_id \<Rightarrow>
          (case steps step_id of
             Some (DoneCompare left_node right_node g limit r) \<Rightarrow>
               q_return (live_comparison metadata (nd_node_key left_node) (nd_node_key right_node) g limit)
           | _ \<Rightarrow> q_fail (invalid_request (''references invalid compare source '' @ step_id))))"

fun run_step ::
  "('v, 's) engine \<Rightarrow> run_inputs \<Rightarrow> (string \<Rightarrow> WorkflowStepState option) \<Rightarrow> WorkflowStepPayload \<Rightarrow>
   (WorkflowStepState, 'v, 's) query" where
  "run_step g ri steps (StepResolve target) = run_resolve g ri target"
| "run_step g ri steps (StepExplore focus lens limit unique) = run_explore g ri steps focus lens limit unique"
| "run_step g ri steps (StepCompare left right grp limit) = run_compare g steps left right grp limit"
| "run_step g ri steps (StepArtifactRun artifact_id) =
     q_bind (eg_run_artifact g artifact_id) (\<lambda>artifact. case artifact of
       None \<Rightarrow> q_fail (unknown_artifact artifact_id)
     | Some a \<Rightarrow> q_return (DoneArtifactRun a))"
| "run_step g ri steps (StepArtifactSave source metadata overwrite) =
     q_bind (artifact_to_save steps source metadata) (\<lambda>artifact.
     q_bind (eg_save_artifact g artifact overwrite) (\<lambda>summary. q_return (DoneArtifactSave summary)))"

primrec run_steps ::
  "('v, 's) engine \<Rightarrow> run_inputs \<Rightarrow> WorkflowStepSpec list \<Rightarrow> (string \<Rightarrow> WorkflowStepState option) \<Rightarrow>
   WorkflowStepReport list \<Rightarrow> (WorkflowStepReport list, 'v, 's) query" where
  "run_steps g ri [] steps reports = q_return reports"
| "run_steps g ri (step # rest) steps reports =
     q_bind (q_map_err (with_step_context (wst_step_id step)) (run_step g ri steps (wst_payload step))) (\<lambda>st.
       run_steps g ri rest (steps(wst_step_id step \<mapsto> st)) (reports @ [step_report st (wst_step_id step)]))"

definition execute_workflow_spec ::
  "('v, 's) engine \<Rightarrow> WorkflowSpec \<Rightarrow> WorkflowInputAssignment list \<Rightarrow> (WorkflowExecutionResult, 'v, 's) query" where
  "execute_workflow_spec g w inputs =
     (case workflow_error w of Some message \<Rightarrow> q_fail (invalid_request message)
      | None \<Rightarrow>
          (case input_assignments_error w inputs of Some message \<Rightarrow> q_fail (invalid_request message)
           | None \<Rightarrow>
               q_bind (run_steps g (run_inputs_of w inputs) (wf_steps w) Map.empty []) (\<lambda>reports.
                 q_return \<lparr>wx_workflow = workflow_summary w, wx_steps = reports\<rparr>)))"

end
