(* ===== verification/WorkflowProps.thy ===== *)
theory WorkflowProps
  imports WorkflowRun
begin

text \<open>
  What validation of a workflow is worth when it is run: every reference of a validated
  workflow resolves, so a run fails only where a query of the engine fails or a lookup
  does not find the note it was asked for, and the error names the step.
\<close>

section \<open>Faults and results of a query\<close>

text \<open>A fault is an error or, as \<open>None\<close>, a panic.\<close>

definition results :: "('s \<Rightarrow> ('a, 'e) outcome \<times> 's) \<Rightarrow> 'a set" where
  "results q = {x. \<exists>s. fst (q s) = Ok x}"

definition faults :: "('s \<Rightarrow> ('a, 'e) outcome \<times> 's) \<Rightarrow> 'e option set" where
  "faults q = {f. \<exists>s. fst (q s) = (case f of None \<Rightarrow> Panic | Some e \<Rightarrow> Err e)}"

lemma faults_return [simp]: "faults (q_return x) = {}"
  by (auto simp: faults_def q_return_def split: option.splits)

lemma results_return [simp]: "results (q_return x) = {x}"
  by (auto simp: results_def q_return_def)

lemma faults_fail [simp]: "faults (q_fail e) = {Some e}"
  by (auto simp: faults_def q_fail_def split: option.splits)

lemma results_fail [simp]: "results (q_fail e) = {}"
  by (auto simp: results_def q_fail_def)

lemma faults_bind: "faults (q_bind m f) \<subseteq> faults m \<union> (\<Union>x \<in> results m. faults (f x))"
proof
  fix e assume "e \<in> faults (q_bind m f)"
  then obtain s where run: "fst (q_bind m f s) = (case e of None \<Rightarrow> Panic | Some e \<Rightarrow> Err e)"
    by (auto simp: faults_def)
  obtain r s' where m: "m s = (r, s')" by fastforce
  have first: "r = (case e of None \<Rightarrow> Panic | Some e \<Rightarrow> Err e) \<Longrightarrow> e \<in> faults m"
    using m unfolding faults_def by (metis (mono_tags, lifting) fst_conv mem_Collect_eq)
  show "e \<in> faults m \<union> (\<Union>x \<in> results m. faults (f x))"
  proof (cases r)
    case (Ok x)
    with m run have "e \<in> faults (f x)" by (auto simp: q_bind_def faults_def)
    moreover from Ok m have "x \<in> results m"
      unfolding results_def by (metis (mono_tags, lifting) fst_conv mem_Collect_eq)
    ultimately show ?thesis by blast
  next
    case (Err a)
    with m run first show ?thesis by (cases e) (auto simp: q_bind_def)
  next
    case Panic
    with m run first show ?thesis by (cases e) (auto simp: q_bind_def)
  qed
qed

lemma results_bind: "results (q_bind m f) \<subseteq> (\<Union>x \<in> results m. results (f x))"
proof
  fix y assume "y \<in> results (q_bind m f)"
  then obtain s where run: "fst (q_bind m f s) = Ok y" by (auto simp: results_def)
  obtain r s' where m: "m s = (r, s')" by fastforce
  with run obtain x where x: "r = Ok x" and then_y: "fst (f x s') = Ok y"
    by (cases r) (auto simp: q_bind_def)
  have "x \<in> results m" "y \<in> results (f x)"
    using m x then_y unfolding results_def by (metis (mono_tags, lifting) fst_conv mem_Collect_eq)+
  then show "y \<in> (\<Union>x \<in> results m. results (f x))" by blast
qed

lemma faults_bind_le:
  "faults m \<subseteq> F \<Longrightarrow> (\<And>x. x \<in> results m \<Longrightarrow> faults (f x) \<subseteq> F) \<Longrightarrow> faults (q_bind m f) \<subseteq> F"
  using faults_bind [of m f] by blast

lemma faults_map_err: "faults (q_map_err h m) \<subseteq> map_option h ` faults m"
proof
  fix e assume "e \<in> faults (q_map_err h m)"
  then obtain s where run: "fst (q_map_err h m s) = (case e of None \<Rightarrow> Panic | Some e \<Rightarrow> Err e)"
    by (auto simp: faults_def)
  obtain r s' where m: "m s = (r, s')" by fastforce
  from run m have "map_err h r = (case e of None \<Rightarrow> Panic | Some e \<Rightarrow> Err e)" by (simp add: q_map_err_def)
  then obtain e' where "r = (case e' of None \<Rightarrow> Panic | Some e \<Rightarrow> Err e)" "e = map_option h e'"
  proof (cases r)
    case (Err a)
    with \<open>map_err h r = _\<close> that [of "Some a"] show thesis by (cases e) auto
  next
    case Panic
    with \<open>map_err h r = _\<close> that [of None] show thesis by (cases e) auto
  qed (cases e; simp)
  moreover from this(1) m have "e' \<in> faults m"
    unfolding faults_def by (metis (mono_tags, lifting) fst_conv mem_Collect_eq)
  ultimately show "e \<in> map_option h ` faults m" by blast
qed

lemma results_map_err [simp]: "results (q_map_err h m) = results m"
proof -
  have "fst (q_map_err h m s) = Ok x \<longleftrightarrow> fst (m s) = Ok x" for s x
    by (cases "m s") (simp add: q_map_err_def outcome_simps)
  then show ?thesis by (simp add: results_def)
qed

section \<open>What the engine may answer\<close>

text \<open>The faults of the queries that are run as they are, and the faults of looking a note up.\<close>

definition engine_faults :: "('v, 's) engine \<Rightarrow> 'v failure option set" where
  "engine_faults g =
     (\<Union>k d. faults (eg_known_note g k d) \<union> faults (eg_known_note_or_anchor g k d)) \<union>
     (\<Union>p. faults (eg_explore g p)) \<union> (\<Union>p. faults (eg_compare g p)) \<union>
     (\<Union>i. faults (eg_run_artifact g i)) \<union> (\<Union>a w. faults (eg_save_artifact g a w))"

definition lookup_panics :: "('v, 's) engine \<Rightarrow> bool" where
  "lookup_panics g \<longleftrightarrow>
     (\<exists>i. None \<in> faults (eg_node_from_id g i)) \<or> (\<exists>i. None \<in> faults (eg_nodes_from_title g i)) \<or>
     (\<exists>i. None \<in> faults (eg_node_from_ref g i)) \<or> (\<exists>i. None \<in> faults (eg_anchor_by_key g i))"

definition lookup_faults :: "('v, 's) engine \<Rightarrow> 'v failure option set" where
  "lookup_faults g =
     {f. f = None \<and> lookup_panics g} \<union> range (\<lambda>d. Some (lookup_failed d)) \<union>
     range (\<lambda>(d, t). Some (unknown_target d t)) \<union> range (\<lambda>t. Some (ambiguous_title t))"

text \<open>An artifact that a step runs may be gone.\<close>

definition artifact_faults :: "'v failure option set" where
  "artifact_faults = range (\<lambda>i. Some (unknown_artifact i))"

abbreviation query_faults :: "('v, 's) engine \<Rightarrow> 'v failure option set" where
  "query_faults g \<equiv> engine_faults g \<union> lookup_faults g \<union> artifact_faults"

lemma lookup_fault_intros:
  "lookup_panics g \<Longrightarrow> None \<in> lookup_faults g"
  "Some (lookup_failed d) \<in> lookup_faults g"
  "Some (unknown_target d t) \<in> lookup_faults g"
  "Some (ambiguous_title t) \<in> lookup_faults g"
  by (auto simp: lookup_faults_def)

lemma lookup_faults_le:
  fixes g :: "('v, 's) engine"
  assumes panics: "None \<in> faults m \<Longrightarrow> lookup_panics g"
  shows "faults (lookup m d) \<subseteq> lookup_faults g"
proof (rule subsetI)
  fix e :: "'v failure option"
  assume "e \<in> faults (lookup m d)"
  then obtain s where run: "fst (lookup m d s) = (case e of None \<Rightarrow> Panic | Some e \<Rightarrow> Err e)"
    unfolding faults_def by blast
  obtain r s' where m: "m s = (r, s')" by fastforce
  from run m have e: "map_err (\<lambda>_. lookup_failed d) r = (case e of None \<Rightarrow> Panic | Some e \<Rightarrow> Err e)"
    by (simp add: lookup_def)
  show "e \<in> lookup_faults g"
  proof (cases r)
    case Panic
    then have "None \<in> faults m"
      using m unfolding faults_def by (metis (mono_tags, lifting) fst_conv mem_Collect_eq option.case(1))
    moreover from Panic e have "e = None" by (cases e) simp_all
    ultimately show ?thesis using panics lookup_fault_intros(1) by blast
  next
    case (Err a)
    with e have "e = Some (lookup_failed d)" by (cases e) simp_all
    then show ?thesis by (simp add: lookup_fault_intros(2))
  next
    case (Ok x)
    with e show ?thesis by (cases e) simp_all
  qed
qed

lemma db_faults_le:
  "faults (lookup (eg_node_from_id g i) d) \<subseteq> lookup_faults g"
  "faults (lookup (eg_nodes_from_title g i) d) \<subseteq> lookup_faults g"
  "faults (lookup (eg_node_from_ref g i) d) \<subseteq> lookup_faults g"
  "faults (lookup (eg_anchor_by_key g i) d) \<subseteq> lookup_faults g"
  by (rule lookup_faults_le; auto simp: lookup_panics_def)+

lemma known_or_faults: "faults (known_or d i found) \<subseteq> lookup_faults g"
  by (cases found) (simp_all add: known_or_def lookup_fault_intros)

lemma engine_faults_le:
  "faults (eg_known_note g k d) \<subseteq> engine_faults g"
  "faults (eg_known_note_or_anchor g k d) \<subseteq> engine_faults g"
  "faults (eg_explore g p) \<subseteq> engine_faults g"
  "faults (eg_compare g c) \<subseteq> engine_faults g"
  "faults (eg_run_artifact g i) \<subseteq> engine_faults g"
  "faults (eg_save_artifact g a w) \<subseteq> engine_faults g"
  by (auto simp: engine_faults_def)

lemma note_target_faults:
  assumes "\<And>i. target \<noteq> TargetInput i"
  shows "faults (resolve_workflow_note_target g target d) \<subseteq> engine_faults g \<union> lookup_faults g"
proof (cases target)
  case (TargetTitle title)
  have "faults (if 1 < length matches then q_fail (ambiguous_title title)
      else known_or d title (case matches of [] \<Rightarrow> None | n # _ \<Rightarrow> Some n)) \<subseteq> lookup_faults g" for matches
    using known_or_faults [of d title "case matches of [] \<Rightarrow> None | n # _ \<Rightarrow> Some n" g]
    by (cases "1 < length matches") (simp_all add: lookup_fault_intros)
  then have "faults (resolve_workflow_note_target g target d) \<subseteq> lookup_faults g"
    unfolding resolve_workflow_note_target_def TargetTitle WorkflowResolveTarget.case
    by (intro faults_bind_le db_faults_le)
  then show ?thesis by blast
next
  case (TargetId i)
  have "faults (resolve_workflow_note_target g target d) \<subseteq> lookup_faults g"
    unfolding resolve_workflow_note_target_def TargetId WorkflowResolveTarget.case
    by (intro faults_bind_le db_faults_le known_or_faults)
  then show ?thesis by blast
next
  case (TargetReference r)
  have "faults (resolve_workflow_note_target g target d) \<subseteq> lookup_faults g"
    unfolding resolve_workflow_note_target_def TargetReference WorkflowResolveTarget.case
    by (intro faults_bind_le db_faults_le known_or_faults)
  then show ?thesis by blast
next
  case (TargetNodeKey k)
  then show ?thesis using engine_faults_le(1) [of g k d] by (auto simp: resolve_workflow_note_target_def)
qed (use assms in blast)

lemma focus_note_faults:
  assumes "\<And>i. target \<noteq> TargetInput i"
  shows "faults (resolve_workflow_note_target_from_focus g target d) \<subseteq> engine_faults g \<union> lookup_faults g"
proof (cases target)
  case (TargetInput i)
  with assms show ?thesis by blast
next
  case (TargetNodeKey k)
  then show ?thesis
    using engine_faults_le(2) [of g k d] by (simp add: resolve_workflow_note_target_from_focus_def le_supI1)
qed (use note_target_faults [OF assms, of g d] in \<open>simp_all add: resolve_workflow_note_target_from_focus_def\<close>)

lemma faults_bind_return: "faults (q_bind m (\<lambda>x. q_return (h x))) \<subseteq> faults m"
  by (rule faults_bind_le) simp_all

lemma focus_target_faults:
  assumes "\<And>i. target \<noteq> TargetInput i"
  shows "faults (resolve_workflow_focus_target g target lens d) \<subseteq> engine_faults g \<union> lookup_faults g"
proof (cases target)
  case (TargetNodeKey k)
  have "faults (q_bind (eg_known_note g k d) (\<lambda>n. q_return (nd_node_key n))) \<subseteq> engine_faults g"
    "faults (q_bind (eg_known_note_or_anchor g k d) (\<lambda>n. q_return (nd_node_key n))) \<subseteq> engine_faults g"
    by (rule subset_trans [OF faults_bind_return engine_faults_le(1)],
        rule subset_trans [OF faults_bind_return engine_faults_le(2)])
  moreover have "faults (q_bind (lookup (eg_anchor_by_key g k) d) (\<lambda>anchor.
      if anchor \<noteq> None then q_return k
      else q_bind (eg_known_note g k d) (\<lambda>n. q_return (nd_node_key n)))) \<subseteq> engine_faults g \<union> lookup_faults g"
    by (rule faults_bind_le) (use db_faults_le(4) [of g k d] calculation(1) in auto)
  ultimately show ?thesis by (auto simp: resolve_workflow_focus_target_def TargetNodeKey)
next
  case (TargetInput i)
  with assms show ?thesis by blast
qed (use note_target_faults [OF assms, of g d] in
  \<open>simp_all add: resolve_workflow_focus_target_def subset_trans [OF faults_bind_return]\<close>)


section \<open>References of a validated step\<close>

lemma step_reference_None:
  "validate_workflow_step_reference seen step_id expected field = None \<longleftrightarrow> map_of seen step_id = Some expected"
  by (auto simp: validate_workflow_step_reference_def workflow_step_kind_for_reference_def split: option.splits if_splits)

lemma input_reference_None:
  "validate_workflow_input_reference_kind inputs input_id kind role = None \<longleftrightarrow> map_of inputs input_id = Some kind"
  by (auto simp: validate_workflow_input_reference_kind_def workflow_input_kind_for_reference_def
      split: option.splits if_splits)

text \<open>Every declared input has its kind and a target that is not itself an input.\<close>

definition inputs_assigned :: "run_inputs \<Rightarrow> (string \<times> WorkflowInputKind) list \<Rightarrow> bool" where
  "inputs_assigned ri inputs \<longleftrightarrow>
     (\<forall>i k. map_of inputs i = Some k \<longrightarrow>
        ri_kinds ri i = Some k \<and> (\<exists>t. ri_targets ri i = Some t \<and> (\<forall>j. t \<noteq> TargetInput j)))"

text \<open>Every step seen by the validator has run and left a state of its kind.\<close>

definition steps_done :: "(string \<Rightarrow> WorkflowStepState option) \<Rightarrow> (string \<times> WorkflowStepKind) list \<Rightarrow> bool" where
  "steps_done steps seen \<longleftrightarrow>
     (\<forall>i k. map_of seen i = Some k \<longrightarrow> (\<exists>st. steps i = Some st \<and> state_kind st = k))"

lemma state_kinds:
  "state_kind st = KindResolve \<Longrightarrow> \<exists>n. st = DoneResolve n"
  "state_kind st = KindExplore \<Longrightarrow> \<exists>f l m u r. st = DoneExplore f l m u r"
  "state_kind st = KindCompare \<Longrightarrow> \<exists>a b c m r. st = DoneCompare a b c m r"
  by (cases st; simp add: state_kind_def)+

lemma done_resolve:
  "steps_done steps seen \<Longrightarrow> map_of seen i = Some KindResolve \<Longrightarrow> \<exists>n. steps i = Some (DoneResolve n)"
  unfolding steps_done_def using state_kinds(1) by blast

lemma done_explore:
  "steps_done steps seen \<Longrightarrow> map_of seen i = Some KindExplore \<Longrightarrow> \<exists>f l m u r. steps i = Some (DoneExplore f l m u r)"
  unfolding steps_done_def using state_kinds(2) by blast

lemma done_compare:
  "steps_done steps seen \<Longrightarrow> map_of seen i = Some KindCompare \<Longrightarrow> \<exists>a b c m r. steps i = Some (DoneCompare a b c m r)"
  unfolding steps_done_def using state_kinds(3) by blast

lemma run_resolve_faults:
  assumes ok: "inputs_assigned ri inputs"
    and refs: "validate_workflow_step_references (StepResolve target) seen inputs = None"
  shows "faults (run_resolve g ri target) \<subseteq> engine_faults g \<union> lookup_faults g"
proof (cases "\<exists>i. target = TargetInput i")
  case True
  then obtain i where target: "target = TargetInput i" by blast
  with refs obtain k where "map_of inputs i = Some k"
    by (auto simp: workflow_input_kind_for_reference_def)
  with ok obtain t where t: "ri_kinds ri i = Some k" "ri_targets ri i = Some t" "\<And>j. t \<noteq> TargetInput j"
    unfolding inputs_assigned_def by blast
  show ?thesis
    unfolding run_resolve_def
    by (rule subset_trans [OF faults_bind_return])
      (use t note_target_faults [OF t(3)] focus_note_faults [OF t(3)] in
        \<open>cases k; simp add: target\<close>)
next
  case False
  then have direct: "\<And>i. target \<noteq> TargetInput i" by blast
  show ?thesis
    unfolding run_resolve_def
    by (rule subset_trans [OF faults_bind_return])
      (use direct note_target_faults [OF direct] in \<open>cases target; simp\<close>)
qed

lemma run_focus_faults:
  assumes ok: "inputs_assigned ri inputs" and ran: "steps_done steps seen"
    and refs: "validate_workflow_step_references (StepExplore focus lens limit unique) seen inputs = None"
  shows "faults (run_focus g ri steps focus lens) \<subseteq> engine_faults g \<union> lookup_faults g"
proof (cases focus)
  case (FocusNodeKey k)
  then show ?thesis by (simp add: run_focus_def)
next
  case (FocusInput i)
  with refs have "map_of inputs i = Some FocusTarget" by (simp add: input_reference_None)
  with ok obtain t where t: "ri_kinds ri i = Some FocusTarget" "ri_targets ri i = Some t" "\<And>j. t \<noteq> TargetInput j"
    unfolding inputs_assigned_def by blast
  then show ?thesis using focus_target_faults [OF t(3)] by (simp add: run_focus_def FocusInput)
next
  case (FocusResolvedStep i)
  with refs have "map_of seen i = Some KindResolve" by (simp add: step_reference_None)
  from done_resolve [OF ran this] obtain n where "steps i = Some (DoneResolve n)" by blast
  then show ?thesis by (simp add: run_focus_def FocusResolvedStep)
qed

lemma compared_node_ok:
  "steps_done steps seen \<Longrightarrow> map_of seen i = Some KindResolve \<Longrightarrow> faults (compared_node steps side i) = {}"
  by (drule (1) done_resolve) (clarsimp simp: compared_node_def)

lemma artifact_to_save_ok:
  assumes ran: "steps_done steps seen"
    and refs: "validate_workflow_step_references (StepArtifactSave source metadata overwrite) seen inputs = None"
  shows "faults (artifact_to_save steps source metadata) = {}"
proof (cases source)
  case (SaveExploreStep i)
  with refs have "map_of seen i = Some KindExplore" by (simp add: step_reference_None)
  from done_explore [OF ran this] obtain f l m u r where "steps i = Some (DoneExplore f l m u r)" by blast
  then show ?thesis by (simp add: artifact_to_save_def SaveExploreStep)
next
  case (SaveCompareStep i)
  with refs have "map_of seen i = Some KindCompare" by (simp add: step_reference_None)
  from done_compare [OF ran this] obtain a b c m r where "steps i = Some (DoneCompare a b c m r)" by blast
  then show ?thesis by (simp add: artifact_to_save_def SaveCompareStep)
qed


section \<open>A step whose references hold\<close>

lemma step_faults:
  assumes ok: "inputs_assigned ri inputs" and ran: "steps_done steps seen"
    and refs: "validate_workflow_step_references payload seen inputs = None"
  shows "faults (run_step g ri steps payload) \<subseteq> query_faults g"
proof (cases payload)
  case (StepResolve target)
  then show ?thesis
    using run_resolve_faults [OF ok, of target seen g] refs by auto
next
  case (StepExplore focus lens limit unique)
  have "faults (run_focus g ri steps focus lens) \<subseteq> query_faults g"
    using run_focus_faults [OF ok ran, of focus lens limit unique g] refs StepExplore by auto
  moreover have "faults (eg_explore g p) \<subseteq> query_faults g" for p
    using engine_faults_le(3) [of g p] by blast
  ultimately show ?thesis
    unfolding StepExplore run_step.simps run_explore_def by (intro faults_bind_le) simp_all
next
  case (StepCompare left right grp limit)
  then have "map_of seen left = Some KindResolve" "map_of seen right = Some KindResolve"
    using refs by (simp_all add: step_reference_None)
  then have "faults (compared_node steps ''left'' left) \<subseteq> query_faults g"
    "faults (compared_node steps ''right'' right) \<subseteq> query_faults g"
    using compared_node_ok [OF ran] by blast+
  moreover have "faults (eg_compare g p) \<subseteq> query_faults g" for p
    using engine_faults_le(4) [of g p] by blast
  ultimately show ?thesis
    unfolding StepCompare run_step.simps run_compare_def by (intro faults_bind_le) simp_all
next
  case (StepArtifactRun i)
  have "faults (case a of None \<Rightarrow> q_fail (unknown_artifact i) | Some a \<Rightarrow> q_return (DoneArtifactRun a)) \<subseteq> query_faults g" for a
    by (cases a) (simp_all add: artifact_faults_def)
  moreover have "faults (eg_run_artifact g i) \<subseteq> query_faults g"
    using engine_faults_le(5) by blast
  ultimately show ?thesis
    unfolding StepArtifactRun run_step.simps by (intro faults_bind_le)
next
  case (StepArtifactSave source metadata overwrite)
  have "faults (artifact_to_save steps source metadata) \<subseteq> query_faults g"
    using artifact_to_save_ok [OF ran, of source metadata overwrite] refs StepArtifactSave by blast
  moreover have "faults (eg_save_artifact g a overwrite) \<subseteq> query_faults g" for a
    using engine_faults_le(6) [of g a overwrite] by blast
  ultimately show ?thesis
    unfolding StepArtifactSave run_step.simps by (intro faults_bind_le) simp_all
qed

lemma results_bind_kind:
  "st \<in> results (q_bind m f) \<Longrightarrow> (\<And>x. st \<in> results (f x) \<Longrightarrow> state_kind st = k) \<Longrightarrow> state_kind st = k"
  using results_bind [of m f] by blast

lemma step_result_kind:
  assumes "st \<in> results (run_step g ri steps payload)"
  shows "state_kind st = step_payload_kind payload"
proof (cases payload)
  case (StepResolve target)
  show ?thesis
    using assms unfolding StepResolve run_step.simps run_resolve_def
    by (rule results_bind_kind) (simp add: state_kind_def)
next
  case (StepExplore focus lens limit unique)
  show ?thesis
    using assms unfolding StepExplore run_step.simps run_explore_def
    by (elim results_bind_kind) (simp add: state_kind_def)
next
  case (StepCompare left right grp limit)
  show ?thesis
    using assms unfolding StepCompare run_step.simps run_compare_def
    by (elim results_bind_kind) (simp add: state_kind_def)
next
  case (StepArtifactRun i)
  show ?thesis
    using assms unfolding StepArtifactRun run_step.simps
    by (elim results_bind_kind) (auto simp: state_kind_def split: option.splits)
next
  case (StepArtifactSave source metadata overwrite)
  show ?thesis
    using assms unfolding StepArtifactSave run_step.simps
    by (elim results_bind_kind) (simp add: state_kind_def)
qed


section \<open>A whole run\<close>

lemma dup_None: "error_if (list_ex (\<lambda>(i, _). i = x) seen) m = None \<longleftrightarrow> map_of seen x = None"
  by (simp add: list_ex_iff map_of_eq_None_iff) force

lemma steps_done_snoc:
  assumes "steps_done steps seen" and "map_of seen i = None" and "state_kind st = k"
  shows "steps_done (steps(i \<mapsto> st)) (seen @ [(i, k)])"
  using assms by (auto simp: steps_done_def map_add_def split: option.splits)

abbreviation step_check ::
  "(string \<times> WorkflowInputKind) list \<Rightarrow> nat \<Rightarrow> WorkflowStepSpec \<Rightarrow> (string \<times> WorkflowStepKind) list \<Rightarrow> string option" where
  "step_check inputs \<equiv> \<lambda>index step seen.
     or_else
       (map_option (\<lambda>e. ''workflow step '' @ show_nat index @ '' is invalid: '' @ e) (step_spec_error step))
    (or_else
       (error_if (list_ex (\<lambda>(step_id, _). step_id = wst_step_id step) seen)
         (''workflow step '' @ show_nat index @ '' reuses duplicate step_id '' @ wst_step_id step))
       (map_option (\<lambda>e. ''workflow step '' @ show_nat index @ '' is invalid: '' @ e)
         (validate_workflow_step_references (wst_payload step) seen inputs)))"

definition run_like :: "WorkflowStepSpec list \<Rightarrow> WorkflowStepReport list \<Rightarrow> bool" where
  "run_like steps reports \<longleftrightarrow>
     map wsr_step_id reports = map wst_step_id steps \<and>
     map (\<lambda>r. step_report_kind (wsr_payload r)) reports = map step_kind steps"

lemma run_steps_sound:
  assumes ok: "inputs_assigned ri inputs"
  shows "scan_seen (step_check inputs) step_pair i seen rest = None \<Longrightarrow> steps_done steps seen \<Longrightarrow>
    faults (run_steps g ri rest steps reports) \<subseteq>
      (\<Union>step \<in> set rest. map_option (with_step_context (wst_step_id step)) ` query_faults g) \<and>
    (\<forall>out \<in> results (run_steps g ri rest steps reports). \<exists>new. out = reports @ new \<and> run_like rest new)"
proof (induction rest arbitrary: i seen steps reports)
  case Nil
  then show ?case by (simp add: run_like_def)
next
  case (Cons step rest)
  let ?id = "wst_step_id step"
  let ?ctx = "with_step_context ?id"
  let ?run = "q_map_err ?ctx (run_step g ri steps (wst_payload step))"
  let ?next = "\<lambda>st. run_steps g ri rest (steps(?id \<mapsto> st)) (reports @ [step_report st ?id])"
  have fresh: "map_of seen ?id = None"
    and refs: "validate_workflow_step_references (wst_payload step) seen inputs = None"
    and more: "scan_seen (step_check inputs) step_pair (Suc i) (seen @ [step_pair step]) rest = None"
    using Cons.prems(1) by (simp_all only: scan_seen.simps or_else_None_iff dup_None option.map_disc_iff)
  have here: "faults ?run \<subseteq> map_option ?ctx ` query_faults g"
    using faults_map_err [of ?ctx] step_faults [OF ok Cons.prems(2) refs, of g] by blast
  have kind: "state_kind st = step_kind step" if "st \<in> results ?run" for st
    using step_result_kind that by (simp add: step_kind_def)
  note IH = Cons.IH [OF more]
  have later: "faults (?next st) \<subseteq> (\<Union>step \<in> set rest. map_option (with_step_context (wst_step_id step)) ` query_faults g) \<and>
      (\<forall>out \<in> results (?next st). \<exists>new. out = (reports @ [step_report st ?id]) @ new \<and> run_like rest new)"
    if "st \<in> results ?run" for st
  proof (rule IH)
    show "steps_done (steps(?id \<mapsto> st)) (seen @ [step_pair step])"
      using steps_done_snoc [OF Cons.prems(2) fresh kind [OF that]] by (simp add: step_pair_def)
  qed
  have "faults (q_bind ?run ?next) \<subseteq>
      (\<Union>step \<in> set (step # rest). map_option (with_step_context (wst_step_id step)) ` query_faults g)"
    using here later by (intro faults_bind_le) auto
  moreover have "\<exists>new. out = reports @ new \<and> run_like (step # rest) new" if "out \<in> results (q_bind ?run ?next)" for out
  proof -
    from that obtain st where st: "st \<in> results ?run" "out \<in> results (?next st)"
      using results_bind [of ?run ?next] by blast
    then obtain new where "out = (reports @ [step_report st ?id]) @ new" "run_like rest new"
      using later by blast
    moreover from st(1) have "run_like (step # rest) (step_report st ?id # new)" if "run_like rest new" for new
      using kind [OF st(1)] that by (simp add: run_like_def step_report_def state_kind_def)
    ultimately show ?thesis by auto
  qed
  ultimately show ?case by simp
qed

abbreviation input_check :: "nat \<Rightarrow> WorkflowInputSpec \<Rightarrow> (string \<times> WorkflowInputKind) list \<Rightarrow> string option" where
  "input_check \<equiv> \<lambda>index input seen.
     or_else
       (map_option (\<lambda>e. ''workflow input '' @ show_nat index @ '' is invalid: '' @ e) (input_spec_error input))
       (error_if (list_ex (\<lambda>(input_id, _). input_id = wi_input_id input) seen)
         (''workflow input '' @ show_nat index @ '' reuses duplicate input_id '' @ wi_input_id input))"

lemma inputs_scan_distinct:
  "scan_seen input_check input_pair k seen xs = None \<Longrightarrow>
     distinct (map wi_input_id xs) \<and> fst ` set seen \<inter> wi_input_id ` set xs = {}"
proof (induction xs arbitrary: k seen)
  case (Cons x xs)
  then have fresh: "map_of seen (wi_input_id x) = None"
    and rest: "scan_seen input_check input_pair (Suc k) (seen @ [input_pair x]) xs = None"
    by (simp_all only: scan_seen.simps or_else_None_iff dup_None)
  from Cons.IH [OF rest] fresh show ?case by (auto simp: input_pair_def map_of_eq_None_iff)
qed simp

lemma run_inputs_ok:
  assumes valid: "workflow_inputs_error (wf_inputs w) = None"
    and assigned: "input_assignments_error w inputs = None"
  shows "inputs_assigned (run_inputs_of w inputs) (map input_pair (wf_inputs w))"
proof -
  have scan: "distinct (map ia_input_id inputs)"
    and fine: "\<And>a. a \<in> set inputs \<Longrightarrow> input_assignment_error a = None"
    and all: "\<And>i. i \<in> set (wf_inputs w) \<Longrightarrow> wi_input_id i \<in> ia_input_id ` set inputs"
  proof -
    note parts = assigned [unfolded input_assignments_error_def or_else_None_iff]
    show "distinct (map ia_input_id inputs)"
      by (rule scan_seen_distinct(1) [OF conjunct1 [OF parts]]) (auto simp: list_ex_iff)
    show "\<And>a. a \<in> set inputs \<Longrightarrow> input_assignment_error a = None"
      using scan_seen_entry [OF conjunct1 [OF parts]] by fastforce
    show "\<And>i. i \<in> set (wf_inputs w) \<Longrightarrow> wi_input_id i \<in> ia_input_id ` set inputs"
      using conjunct2 [OF parts] by (auto simp: find_None_iff)
  qed
  have names: "distinct (map wi_input_id (wf_inputs w))"
    by (rule inputs_scan_distinct [THEN conjunct1]) (rule valid [unfolded workflow_inputs_error_def])
  have same: "map_of (rev (map input_pair (wf_inputs w))) = map_of (map input_pair (wf_inputs w))"
    using names by (subst map_of_inject_set) (simp_all add: input_pair_def comp_def rev_map [symmetric])
  show ?thesis
    unfolding inputs_assigned_def
  proof (intro allI impI)
    fix i k assume k: "map_of (map input_pair (wf_inputs w)) i = Some k"
    then obtain spec where spec: "spec \<in> set (wf_inputs w)" "i = wi_input_id spec"
      using map_of_SomeD [OF k] by (auto simp: input_pair_def)
    with all [OF spec(1)] obtain a where a: "a \<in> set inputs" "ia_input_id a = i" by auto
    have "map_of (rev (map (\<lambda>a. (ia_input_id a, ia_target a)) inputs)) i = Some (ia_target a)"
      using scan a by (intro map_of_is_SomeI) (auto simp: comp_def rev_map [symmetric])
    moreover have "ia_target a \<noteq> TargetInput j" for j
      using fine [OF a(1)] by (auto simp: input_assignment_error_def)
    ultimately show "ri_kinds (run_inputs_of w inputs) i = Some k \<and>
        (\<exists>t. ri_targets (run_inputs_of w inputs) i = Some t \<and> (\<forall>j. t \<noteq> TargetInput j))"
      using k same by (simp add: run_inputs_of_def)
  qed
qed

section \<open>Properties\<close>

lemma execute_workflow_sound:
  assumes "workflow_error w = None" and "input_assignments_error w inputs = None"
  shows "faults (execute_workflow_spec g w inputs) \<subseteq>
      (\<Union>step \<in> set (wf_steps w). map_option (with_step_context (wst_step_id step)) ` query_faults g) \<and>
    (\<forall>r \<in> results (execute_workflow_spec g w inputs).
       map wsr_step_id (wx_steps r) = map wst_step_id (wf_steps w) \<and>
       map (\<lambda>s. step_report_kind (wsr_payload s)) (wx_steps r) = map step_kind (wf_steps w))"
proof -
  have inputs: "workflow_inputs_error (wf_inputs w) = None"
    and steps: "workflow_steps_error (wf_inputs w) (wf_steps w) = None"
    using assms(1) by (simp_all add: workflow_error_def)
  have none: "steps_done Map.empty []" by (simp add: steps_done_def)
  note sound = run_steps_sound [OF run_inputs_ok [OF inputs assms(2)] steps [unfolded workflow_steps_error_def] none,
      of g "[]"]
  let ?finish = "\<lambda>reports. q_return \<lparr>wx_workflow = workflow_summary w, wx_steps = reports\<rparr>"
  have run: "execute_workflow_spec g w inputs = q_bind (run_steps g (run_inputs_of w inputs) (wf_steps w) Map.empty []) ?finish"
    using assms by (simp add: execute_workflow_spec_def)
  show ?thesis
  proof (intro conjI ballI)
    show "faults (execute_workflow_spec g w inputs) \<subseteq>
        (\<Union>step \<in> set (wf_steps w). map_option (with_step_context (wst_step_id step)) ` query_faults g)"
      unfolding run by (rule faults_bind_le [OF conjunct1 [OF sound]]) simp
    fix r assume "r \<in> results (execute_workflow_spec g w inputs)"
    then obtain reports where "reports \<in> results (run_steps g (run_inputs_of w inputs) (wf_steps w) Map.empty [])"
      and r: "r = \<lparr>wx_workflow = workflow_summary w, wx_steps = reports\<rparr>"
      unfolding run using results_bind by fastforce
    with sound have "run_like (wf_steps w) reports" by auto
    with r show "map wsr_step_id (wx_steps r) = map wst_step_id (wf_steps w)"
      "map (\<lambda>s. step_report_kind (wsr_payload s)) (wx_steps r) = map step_kind (wf_steps w)"
      by (simp_all add: run_like_def)
  qed
qed

text \<open>C9.
  A workflow that passes validation, run with input assignments that pass theirs, never
  fails on a reference: whatever the engine's queries do, the run's only faults are those
  of a query, of a lookup that fails or does not find exactly one note, or of an artifact
  that is gone, each wrapped with the step it happened in; and a run that succeeds
  reports every step once, in order, with the kind the specification gave it.
\<close>

theorem validated_workflow_never_misses_reference:
  assumes "workflow_error w = None" and "input_assignments_error w inputs = None"
  shows "faults (execute_workflow_spec g w inputs) \<subseteq>
      (\<Union>step \<in> set (wf_steps w). map_option (with_step_context (wst_step_id step)) ` query_faults g) \<and>
    (\<forall>r \<in> results (execute_workflow_spec g w inputs).
       map wsr_step_id (wx_steps r) = map wst_step_id (wf_steps w) \<and>
       map (\<lambda>s. step_report_kind (wsr_payload s)) (wx_steps r) = map step_kind (wf_steps w))"
  using assms by (rule execute_workflow_sound)



text \<open>
  The witness: the built-in comparison workflow over an engine that knows no note.
\<close>

definition sample_engine :: "(string, nat) engine" where
  "sample_engine =
     \<lparr>eg_node_from_id = (\<lambda>i s. (Ok None, s)), eg_nodes_from_title = (\<lambda>t s. (Ok [], s)),
      eg_node_from_ref = (\<lambda>r s. (Ok None, s)), eg_anchor_by_key = (\<lambda>k s. (Ok None, s)),
      eg_known_note = (\<lambda>k d s. (Err (not_found k), s)), eg_known_note_or_anchor = (\<lambda>k d s. (Err (not_found k), s)),
      eg_explore = (\<lambda>p s. (Ok \<lparr>er_lens = ex_lens p, er_sections = []\<rparr>, s)),
      eg_compare = (\<lambda>p s. (Err (not_found (cn_left_node_key p)), s)),
      eg_run_artifact = (\<lambda>i s. (Ok None, s)),
      eg_save_artifact = (\<lambda>a w s. (Ok (artifact_summary a), Suc s))\<rparr>"

definition sample_assignments :: "WorkflowInputAssignment list" where
  "sample_assignments =
     [\<lparr>ia_input_id = ''right'', ia_target = TargetTitle ''Rust''\<rparr>,
      \<lparr>ia_input_id = ''left'', ia_target = TargetId ''id-1''\<rparr>]"

lemma built_in_workflows_validate: "list_all (\<lambda>w. workflow_error w = None) built_in_workflows"
  by code_simp

lemma sample_assignments_pass:
  "input_assignments_error built_in_comparison_tension_workflow sample_assignments = None"
  by code_simp

theorem validated_workflow_never_misses_reference_witness:
  "faults (execute_workflow_spec sample_engine built_in_comparison_tension_workflow sample_assignments) \<subseteq>
     (\<Union>step \<in> set (wf_steps built_in_comparison_tension_workflow).
        map_option (with_step_context (wst_step_id step)) ` query_faults sample_engine)"
proof -
  have "workflow_error built_in_comparison_tension_workflow = None"
    using built_in_workflows_validate by (simp add: built_in_workflows_def)
  from validated_workflow_never_misses_reference [OF this sample_assignments_pass]
  show ?thesis by (rule conjunct1)
qed

end
