(* ===== verification/Review.thy ===== *)
theory Review
  imports Workflow OrderedMap StructuralWrite
begin

text \<open>
  Saved reviews: \<open>crates/slipbox-core/src/review.rs\<close> and its validators in
  \<open>validation.rs\<close>.  A review keeps the findings of an audit or the step reports of a
  workflow, each with a status; two reviews of the same source can be compared, and
  a finding can offer a remediation.
\<close>

section \<open>Runs, findings, statuses\<close>

datatype ReviewRunKind = AuditReview | WorkflowReview

record ReviewRunMetadata =
  rm_review_id :: string
  rm_title :: string
  rm_summary :: "string option"

definition review_metadata_error :: "ReviewRunMetadata \<Rightarrow> string option" where
  "review_metadata_error m =
     or_else (validate_review_id_field (rm_review_id m))
    (or_else (validate_required_text_field (rm_title m) ''title'')
             (validate_optional_text_field (rm_summary m) ''summary''))"

text \<open>Arguments in the order of the source's fields.\<close>

datatype ReviewRunPayload =
    AuditRun CorpusAuditKind nat
  | WorkflowRun WorkflowSummary "WorkflowInputAssignment list" "string list"

fun review_payload_kind :: "ReviewRunPayload \<Rightarrow> ReviewRunKind" where
  "review_payload_kind (AuditRun audit limit) = AuditReview"
| "review_payload_kind (WorkflowRun workflow inputs step_ids) = WorkflowReview"

definition validate_workflow_review_source :: "WorkflowSummary \<Rightarrow> string list \<Rightarrow> string option" where
  "validate_workflow_review_source workflow step_ids =
     (if ws_step_count workflow = 0 then Some ''workflow review source must contain at least one step''
      else if length step_ids \<noteq> ws_step_count workflow
      then Some ''workflow review source step_ids must match workflow step_count''
      else scan_seen (\<lambda>index step_id seen.
          or_else
            (map_option (\<lambda>e. ''workflow review source step_id '' @ show_nat index @ '' is invalid: '' @ e)
              (validate_workflow_step_id_field step_id))
            (error_if (step_id \<in> set seen)
              (''workflow review source step_id '' @ show_nat index @ '' reuses duplicate step_id '' @ step_id)))
        (\<lambda>step_id. step_id) 0 [] step_ids)"

definition validate_workflow_review_inputs :: "WorkflowInputAssignment list \<Rightarrow> string option" where
  "validate_workflow_review_inputs inputs =
     scan_seen (\<lambda>index input seen.
         or_else
           (map_option (\<lambda>e. ''workflow review input '' @ show_nat index @ '' is invalid: '' @ e)
             (input_assignment_error input))
           (error_if (ia_input_id input \<in> set seen)
             (''workflow review input '' @ show_nat index @ '' reuses duplicate input_id '' @ ia_input_id input)))
       ia_input_id 0 [] inputs"

fun review_payload_error :: "ReviewRunPayload \<Rightarrow> string option" where
  "review_payload_error (AuditRun audit limit) = None"
| "review_payload_error (WorkflowRun workflow inputs step_ids) =
     or_else (workflow_metadata_error (ws_metadata workflow))
    (or_else (validate_workflow_review_inputs inputs)
             (validate_workflow_review_source workflow step_ids))"

datatype ReviewFindingKind = AuditFinding | WorkflowStepFinding

datatype ReviewFindingStatus = StatusOpen | StatusReviewed | StatusDismissed | StatusAccepted

definition can_transition_to :: "ReviewFindingStatus \<Rightarrow> ReviewFindingStatus \<Rightarrow> bool" where
  "can_transition_to now later \<longleftrightarrow> now \<noteq> later"

fun finding_status_label :: "ReviewFindingStatus \<Rightarrow> string" where
  "finding_status_label StatusOpen = ''open''"
| "finding_status_label StatusReviewed = ''reviewed''"
| "finding_status_label StatusDismissed = ''dismissed''"
| "finding_status_label StatusAccepted = ''accepted''"

datatype ReviewFindingPayload =
    AuditPayload CorpusAuditEntry
  | WorkflowStepPayload WorkflowStepReport

fun finding_payload_kind :: "ReviewFindingPayload \<Rightarrow> ReviewFindingKind" where
  "finding_payload_kind (AuditPayload entry) = AuditFinding"
| "finding_payload_kind (WorkflowStepPayload step) = WorkflowStepFinding"

fun finding_payload_error :: "ReviewFindingPayload \<Rightarrow> string option" where
  "finding_payload_error (AuditPayload entry) = audit_entry_error entry"
| "finding_payload_error (WorkflowStepPayload step) = step_report_error step"

record ReviewFinding =
  rf_finding_id :: string
  rf_status :: ReviewFindingStatus
  rf_payload :: ReviewFindingPayload

definition finding_kind :: "ReviewFinding \<Rightarrow> ReviewFindingKind" where
  "finding_kind f = finding_payload_kind (rf_payload f)"

definition finding_error :: "ReviewFinding \<Rightarrow> string option" where
  "finding_error f =
     or_else (validate_review_finding_id_field (rf_finding_id f)) (finding_payload_error (rf_payload f))"

record ReviewFindingStatusCounts =
  sc_open :: nat
  sc_reviewed :: nat
  sc_dismissed :: nat
  sc_accepted :: nat

definition no_counts :: ReviewFindingStatusCounts where
  "no_counts = \<lparr>sc_open = 0, sc_reviewed = 0, sc_dismissed = 0, sc_accepted = 0\<rparr>"

definition count_finding :: "ReviewFindingStatusCounts \<Rightarrow> ReviewFinding \<Rightarrow> ReviewFindingStatusCounts" where
  "count_finding counts f =
     (case rf_status f of
        StatusOpen \<Rightarrow> counts\<lparr>sc_open := sc_open counts + 1\<rparr>
      | StatusReviewed \<Rightarrow> counts\<lparr>sc_reviewed := sc_reviewed counts + 1\<rparr>
      | StatusDismissed \<Rightarrow> counts\<lparr>sc_dismissed := sc_dismissed counts + 1\<rparr>
      | StatusAccepted \<Rightarrow> counts\<lparr>sc_accepted := sc_accepted counts + 1\<rparr>)"

definition counts_from_findings :: "ReviewFinding list \<Rightarrow> ReviewFindingStatusCounts" where
  "counts_from_findings findings = foldl count_finding no_counts findings"

record ReviewFindingStatusTransition =
  st_review_id :: string
  st_finding_id :: string
  st_from_status :: ReviewFindingStatus
  st_to_status :: ReviewFindingStatus

definition status_transition_error :: "ReviewFindingStatusTransition \<Rightarrow> string option" where
  "status_transition_error t =
     or_else (validate_review_id_field (st_review_id t))
    (or_else (validate_review_finding_id_field (st_finding_id t))
             (error_if (\<not> can_transition_to (st_from_status t) (st_to_status t))
               ''review finding status transition must change status''))"

section \<open>Remediation previews\<close>

datatype AuditRemediationConfidence = ConfidenceHigh | ConfidenceMedium | ConfidenceLow

record DanglingLinkPreview =
  dp_source :: AnchorRecord
  dp_missing_explicit_id :: string
  dp_file_path :: string
  dp_line :: nat
  dp_column :: nat
  dp_preview :: string
  dp_suggestion :: string
  dp_confidence :: AuditRemediationConfidence
  dp_reason :: string

record DuplicateTitlePreview =
  tp_title :: string
  tp_notes :: "NodeRecord list"
  tp_suggestion :: string
  tp_confidence :: AuditRemediationConfidence
  tp_reason :: string

datatype AuditRemediationPreviewPayload =
    DanglingLinkRemedy DanglingLinkPreview
  | DuplicateTitleRemedy DuplicateTitlePreview

record DanglingLinkIdentity =
  di_source_node_key :: string
  di_missing_explicit_id :: string
  di_file_path :: string
  di_line :: nat
  di_column :: nat
  di_preview :: string

text \<open>\<open>DuplicateTitle { title, node_keys }\<close>.\<close>

datatype AuditRemediationPreviewIdentity =
    DanglingLinkId DanglingLinkIdentity
  | DuplicateTitleId string "string list"

definition dangling_identity_error :: "DanglingLinkIdentity \<Rightarrow> string option" where
  "dangling_identity_error d =
     or_else (validate_required_text_field (di_source_node_key d) ''source_node_key'')
    (or_else (validate_required_text_field (di_missing_explicit_id d) ''missing_explicit_id'')
    (or_else (validate_structural_write_file_path_field (di_file_path d) ''file_path'')
    (or_else (validate_positive_position (di_line d) ''line'')
    (or_else (validate_positive_position (di_column d) ''column'')
             (validate_required_text_field (di_preview d) ''preview'')))))"

fun preview_identity_error :: "AuditRemediationPreviewIdentity \<Rightarrow> string option" where
  "preview_identity_error (DanglingLinkId d) = dangling_identity_error d"
| "preview_identity_error (DuplicateTitleId title node_keys) =
     or_else (validate_required_text_field title ''title'')
             (validate_review_node_key_set node_keys ''node_keys'' 2)"

text \<open>
  \<open>UnlinkDanglingLink\<close>, the only action: the fields of the identity and the
  replacement text.
\<close>

record AuditRemediationApplyAction = DanglingLinkIdentity +
  ua_replacement_text :: string

definition unlinked_link :: "AuditRemediationApplyAction \<Rightarrow> DanglingLinkIdentity" where
  "unlinked_link a = DanglingLinkIdentity.truncate a"

definition apply_action_error :: "AuditRemediationApplyAction \<Rightarrow> string option" where
  "apply_action_error a =
     or_else (dangling_identity_error (unlinked_link a))
    (or_else (validate_required_text_field (ua_replacement_text a) ''replacement_text'')
             (error_if (list_ex (\<lambda>c. c = NL \<or> c = CR) (ua_replacement_text a))
               ''replacement_text must be a single line''))"

definition action_preview_identity :: "AuditRemediationApplyAction \<Rightarrow> AuditRemediationPreviewIdentity" where
  "action_preview_identity a = DanglingLinkId (unlinked_link a)"

definition affected_file :: "AuditRemediationApplyAction \<Rightarrow> string" where
  "affected_file a = di_file_path a"

fun preview_identity_of :: "AuditRemediationPreviewPayload \<Rightarrow> AuditRemediationPreviewIdentity" where
  "preview_identity_of (DanglingLinkRemedy p) =
     DanglingLinkId
       \<lparr>di_source_node_key = nd_node_key (dp_source p), di_missing_explicit_id = dp_missing_explicit_id p,
        di_file_path = dp_file_path p, di_line = dp_line p, di_column = dp_column p, di_preview = dp_preview p\<rparr>"
| "preview_identity_of (DuplicateTitleRemedy p) =
     DuplicateTitleId (tp_title p) (map nd_node_key (tp_notes p))"

record ReviewFindingRemediationPreview =
  rp_review_id :: string
  rp_finding_id :: string
  rp_status :: ReviewFindingStatus
  rp_preview_identity :: AuditRemediationPreviewIdentity
  rp_payload :: AuditRemediationPreviewPayload

text \<open>\<open>debug\<close> is the formatting of a string by \<open>{:?}\<close>, which quotes and escapes it.\<close>

fun remediation_payload ::
  "(string \<Rightarrow> string) \<Rightarrow> ReviewFindingPayload \<Rightarrow> (AuditRemediationPreviewPayload, string) outcome" where
  "remediation_payload debug (AuditPayload (DanglingLink r)) =
     Ok (DanglingLinkRemedy
       \<lparr>dp_source = dl_source r, dp_missing_explicit_id = dl_missing_explicit_id r,
        dp_file_path = nd_file_path (dl_source r), dp_line = dl_line r, dp_column = dl_column r,
        dp_preview = dl_preview r,
        dp_suggestion = ''Inspect the link to id:'' @ dl_missing_explicit_id r @
          '' and either restore/create that target or update the link to an existing note ID.'',
        dp_confidence = ConfidenceMedium,
        dp_reason = ''Indexed link evidence points to missing explicit ID '' @ dl_missing_explicit_id r @
          '' from '' @ nd_file_path (dl_source r) @ '':'' @ show_nat (dl_line r) @ '':'' @
          show_nat (dl_column r) @ ''.''\<rparr>)"
| "remediation_payload debug (AuditPayload (DuplicateTitle r)) =
     Ok (DuplicateTitleRemedy
       \<lparr>tp_title = dt_title r, tp_notes = dt_notes r,
        tp_suggestion =
          ''Disambiguate one or more duplicate titles so exact-title resolution is no longer ambiguous.'',
        tp_confidence = ConfidenceHigh,
        tp_reason = ''Indexed title evidence found '' @ show_nat (length (dt_notes r)) @
          '' notes with the title '' @ debug (dt_title r) @ ''.''\<rparr>)"
| "remediation_payload debug (AuditPayload (OrphanNote r)) =
     Err ''review finding has no remediation preview for orphan-note evidence''"
| "remediation_payload debug (AuditPayload (WeaklyIntegratedNote r)) =
     Err ''review finding has no remediation preview for weakly-integrated-note evidence''"
| "remediation_payload debug (WorkflowStepPayload step) =
     Err ''review finding has no remediation preview for workflow-step evidence''"

definition from_review_finding ::
  "(string \<Rightarrow> string) \<Rightarrow> string \<Rightarrow> ReviewFinding \<Rightarrow> (ReviewFindingRemediationPreview, string) outcome" where
  "from_review_finding debug review_id f =
     map_out (\<lambda>payload.
         \<lparr>rp_review_id = review_id, rp_finding_id = rf_finding_id f, rp_status = rf_status f,
          rp_preview_identity = preview_identity_of payload, rp_payload = payload\<rparr>)
       (remediation_payload debug (rf_payload f))"

section \<open>The link in a preview\<close>

definition org_id_link_target_and_label :: "string \<Rightarrow> (string \<times> string option) option" where
  "org_id_link_target_and_label link =
     (case strip_prefix_str ''[['' link of
        None \<Rightarrow> None
      | Some rest \<Rightarrow>
          (case strip_suffix_str '']]'' rest of
             None \<Rightarrow> None
           | Some inner \<Rightarrow>
               (case (case split_once ''][''  inner of
                        None \<Rightarrow> (inner, None)
                      | Some (target, label) \<Rightarrow> (target, Some label)) of
                  (target, label) \<Rightarrow>
                    map_option (\<lambda>i. (trim i, label)) (strip_prefix_str ''id:'' (trim target)))))"

text \<open>\<open>char_indices().nth(n)\<close>: the offset of the n-th character.\<close>

definition byte_index_for_column :: "string \<Rightarrow> nat \<Rightarrow> nat option" where
  "byte_index_for_column line column =
     (if column = 0 then None
      else if column = 1 then Some 0
      else get_opt (filter (\<lambda>i. \<not> is_cont (line ! i)) [0..<length line]) (column - 1))"

definition org_link_at_preview_column :: "string \<Rightarrow> nat \<Rightarrow> string option" where
  "org_link_at_preview_column preview column =
     (case byte_index_for_column preview column of
        None \<Rightarrow> None
      | Some link_start \<Rightarrow>
          (case str_get_from preview link_start of
             None \<Rightarrow> None
           | Some rest \<Rightarrow>
               if \<not> prefix ''[['' rest then None
               else (case find_sub '']]'' rest of
                       None \<Rightarrow> None
                     | Some i \<Rightarrow> str_get_to rest (i + 2))))"

lemma find_sub_bound: "find_sub p s = Some i \<Longrightarrow> i + length p \<le> length s"
  by (induction s arbitrary: i) (auto split: if_splits dest: prefix_length_le)

text \<open>The loop goes on behind the closing brackets of a link to another target.\<close>

function first_link_from :: "string \<Rightarrow> string \<Rightarrow> nat \<Rightarrow> string option" where
  "first_link_from preview target search_start =
     (case str_get_from preview search_start of
        None \<Rightarrow> None
      | Some rest \<Rightarrow>
          (case find_sub ''[['' rest of
             None \<Rightarrow> None
           | Some relative_start \<Rightarrow>
               (case str_get_from preview (search_start + relative_start) of
                  None \<Rightarrow> None
                | Some tail \<Rightarrow>
                    (case find_sub '']]'' tail of
                       None \<Rightarrow> None
                     | Some i \<Rightarrow>
                         (case str_get_to tail (i + 2) of
                            None \<Rightarrow> None
                          | Some link \<Rightarrow>
                              if (case org_id_link_target_and_label link of
                                    Some (candidate, label) \<Rightarrow> candidate = target
                                  | None \<Rightarrow> False)
                              then Some link
                              else first_link_from preview target (search_start + relative_start + (i + 2)))))))"
  by pat_completeness auto
termination
  by (relation "measure (\<lambda>(preview, target, search_start). length preview - search_start)")
    (auto simp: str_get_from_def split: if_splits dest!: find_sub_bound)

declare first_link_from.simps [simp del]

definition first_org_id_link_for_target :: "string \<Rightarrow> string \<Rightarrow> string option" where
  "first_org_id_link_for_target preview target = first_link_from preview target 0"

definition NO_REPLACEMENT :: string where
  "NO_REPLACEMENT = ''failed to derive unlink-dangling-link replacement text from preview''"

definition replacement_text_from_dangling_preview :: "string \<Rightarrow> nat \<Rightarrow> string \<Rightarrow> (string, string) outcome" where
  "replacement_text_from_dangling_preview preview column missing_explicit_id =
     bind_out (ok_or NO_REPLACEMENT
         (or_else (org_link_at_preview_column preview column)
                  (first_org_id_link_for_target preview missing_explicit_id)))
       (\<lambda>link. bind_out (ok_or NO_REPLACEMENT (org_id_link_target_and_label link))
         (\<lambda>(target, label).
            if target \<noteq> missing_explicit_id
            then Err (''preview link target '' @ target @ '' does not match missing id '' @ missing_explicit_id)
            else Ok (case label of Some l \<Rightarrow> l | None \<Rightarrow> target)))"

definition default_apply_action ::
  "ReviewFindingRemediationPreview \<Rightarrow> string option \<Rightarrow> (AuditRemediationApplyAction, string) outcome" where
  "default_apply_action p replacement_text =
     (case rp_payload p of
        DanglingLinkRemedy d \<Rightarrow>
          map_out (\<lambda>text.
              \<lparr>di_source_node_key = nd_node_key (dp_source d), di_missing_explicit_id = dp_missing_explicit_id d,
               di_file_path = dp_file_path d, di_line = dp_line d, di_column = dp_column d,
               di_preview = dp_preview d, ua_replacement_text = text\<rparr>)
            (case replacement_text of
               None \<Rightarrow> replacement_text_from_dangling_preview (dp_preview d) (dp_column d) (dp_missing_explicit_id d)
             | Some v \<Rightarrow> Ok v)
      | DuplicateTitleRemedy d \<Rightarrow>
          Err ''review remediation apply currently supports only unlink-dangling-link findings'')"

section \<open>Applying a remediation\<close>

record ReviewFindingRemediationApplyParams =
  ra_review_id :: string
  ra_finding_id :: string
  ra_expected_preview :: AuditRemediationPreviewIdentity
  ra_action :: AuditRemediationApplyAction

definition remediation_apply_error :: "ReviewFindingRemediationApplyParams \<Rightarrow> string option" where
  "remediation_apply_error p =
     or_else (validate_review_id_field (ra_review_id p))
    (or_else (validate_review_finding_id_field (ra_finding_id p))
    (or_else (preview_identity_error (ra_expected_preview p))
    (or_else (apply_action_error (ra_action p))
             (error_if (action_preview_identity (ra_action p) \<noteq> ra_expected_preview p)
               ''remediation action must match the expected preview identity''))))"

record ReviewFindingRemediationApplication =
  rx_review_id :: string
  rx_finding_id :: string
  rx_preview_identity :: AuditRemediationPreviewIdentity
  rx_action :: AuditRemediationApplyAction
  rx_affected_files :: StructuralWriteAffectedFiles
  rx_index_refresh :: StructuralWriteIndexRefreshStatus

definition remediation_application_error :: "ReviewFindingRemediationApplication \<Rightarrow> string option" where
  "remediation_application_error a =
     or_else (validate_review_id_field (rx_review_id a))
    (or_else (validate_review_finding_id_field (rx_finding_id a))
    (or_else (preview_identity_error (rx_preview_identity a))
    (or_else (apply_action_error (rx_action a))
    (or_else (error_if (action_preview_identity (rx_action a) \<noteq> rx_preview_identity a)
               ''remediation application action must match the preview identity'')
    (or_else (affected_files_error (rx_affected_files a))
    (or_else (error_if (affected_file (rx_action a) \<notin> set (af_changed_files (rx_affected_files a)))
               (''remediation application affected files must include changed file '' @
                affected_file (rx_action a)))
    (or_else (error_if (af_removed_files (rx_affected_files a) \<noteq> [])
               ''remediation applications must not remove files for supported actions'')
             (error_if (rx_index_refresh a \<noteq> Refreshed)
               ''remediation applications must be returned after index refresh''))))))))"

section \<open>Validation of a run\<close>

record ReviewRun =
  rr_metadata :: ReviewRunMetadata
  rr_payload :: ReviewRunPayload
  rr_findings :: "ReviewFinding list"

definition review_kind :: "ReviewRun \<Rightarrow> ReviewRunKind" where
  "review_kind r = review_payload_kind (rr_payload r)"

fun matches_run :: "ReviewRunPayload \<Rightarrow> ReviewFindingPayload \<Rightarrow> string option" where
  "matches_run (AuditRun audit limit) (AuditPayload entry) =
     error_if (audit_entry_kind entry \<noteq> audit) ''audit review findings must match review audit kind''"
| "matches_run (WorkflowRun workflow inputs step_ids) (WorkflowStepPayload step) =
     error_if (wsr_step_id step \<notin> set step_ids) ''workflow-step findings must reference a source workflow step''"
| "matches_run (AuditRun audit limit) (WorkflowStepPayload step) =
     Some ''audit review runs cannot contain workflow-step findings''"
| "matches_run (WorkflowRun workflow inputs step_ids) (AuditPayload entry) =
     Some ''workflow review runs cannot contain audit findings''"

definition validate_review_finding_matches_run :: "ReviewRunPayload \<Rightarrow> ReviewFinding \<Rightarrow> string option" where
  "validate_review_finding_matches_run payload f = matches_run payload (rf_payload f)"

text \<open>The loop over the findings keeps their ids and the ids of the workflow steps they report.\<close>

fun step_id_of :: "ReviewFindingPayload \<Rightarrow> string option" where
  "step_id_of (AuditPayload entry) = None"
| "step_id_of (WorkflowStepPayload step) = Some (wsr_step_id step)"

fun findings_error ::
  "ReviewRunPayload \<Rightarrow> nat \<Rightarrow> string list \<Rightarrow> string list \<Rightarrow> ReviewFinding list \<Rightarrow> string option" where
  "findings_error payload index seen seen_steps [] = None"
| "findings_error payload index seen seen_steps (f # fs) =
     or_else
       (map_option (\<lambda>e. ''review finding '' @ show_nat index @ '' is invalid: '' @ e) (finding_error f))
    (or_else
       (error_if (rf_finding_id f \<in> set seen)
         (''review finding '' @ show_nat index @ '' reuses duplicate finding_id '' @ rf_finding_id f))
    (or_else
       (map_option (\<lambda>e. ''review finding '' @ show_nat index @ '' is invalid: '' @ e)
         (validate_review_finding_matches_run payload f))
       (case step_id_of (rf_payload f) of
          Some step_id \<Rightarrow>
            or_else
              (error_if (step_id \<in> set seen_steps)
                (''review finding '' @ show_nat index @ '' reuses duplicate workflow step_id '' @ step_id))
              (findings_error payload (Suc index) (seen @ [rf_finding_id f]) (seen_steps @ [step_id]) fs)
        | None \<Rightarrow> findings_error payload (Suc index) (seen @ [rf_finding_id f]) seen_steps fs)))"

definition review_error :: "ReviewRun \<Rightarrow> string option" where
  "review_error r =
     or_else (review_metadata_error (rr_metadata r))
    (or_else (review_payload_error (rr_payload r))
             (findings_error (rr_payload r) 0 [] [] (rr_findings r)))"

record ReviewRunSummary =
  rs_metadata :: ReviewRunMetadata
  rs_kind :: ReviewRunKind
  rs_finding_count :: nat
  rs_status_counts :: ReviewFindingStatusCounts

definition review_summary :: "ReviewRun \<Rightarrow> ReviewRunSummary" where
  "review_summary r =
     \<lparr>rs_metadata = rr_metadata r, rs_kind = review_kind r, rs_finding_count = length (rr_findings r),
      rs_status_counts = counts_from_findings (rr_findings r)\<rparr>"

section \<open>The difference of two runs\<close>

record ReviewFindingPair =
  fp_finding_id :: string
  fp_base :: ReviewFinding
  fp_target :: ReviewFinding

record ReviewFindingStatusDiff =
  fd_finding_id :: string
  fd_from_status :: ReviewFindingStatus
  fd_to_status :: ReviewFindingStatus
  fd_base :: ReviewFinding
  fd_target :: ReviewFinding

record ReviewRunDiff =
  df_base_review :: ReviewRunSummary
  df_target_review :: ReviewRunSummary
  df_added :: "ReviewFinding list"
  df_removed :: "ReviewFinding list"
  df_unchanged :: "ReviewFindingPair list"
  df_content_changed :: "ReviewFindingPair list"
  df_status_changed :: "ReviewFindingStatusDiff list"

datatype ReviewRunDiffBucket = BucketAdded | BucketRemoved | BucketUnchanged | BucketContentChanged | BucketStatusChanged

fun diff_bucket_label :: "ReviewRunDiffBucket \<Rightarrow> string" where
  "diff_bucket_label BucketAdded = ''added''"
| "diff_bucket_label BucketRemoved = ''removed''"
| "diff_bucket_label BucketUnchanged = ''unchanged''"
| "diff_bucket_label BucketContentChanged = ''content-changed''"
| "diff_bucket_label BucketStatusChanged = ''status-changed''"

text \<open>The name of a variant, as its derived \<open>Debug\<close> writes it.\<close>

fun audit_kind_debug :: "CorpusAuditKind \<Rightarrow> string" where
  "audit_kind_debug DanglingLinks = ''DanglingLinks''"
| "audit_kind_debug DuplicateTitles = ''DuplicateTitles''"
| "audit_kind_debug OrphanNotes = ''OrphanNotes''"
| "audit_kind_debug WeaklyIntegratedNotes = ''WeaklyIntegratedNotes''"

fun validate_review_diff_compatibility :: "ReviewRunPayload \<Rightarrow> ReviewRunPayload \<Rightarrow> (unit, string) outcome" where
  "validate_review_diff_compatibility (AuditRun base_audit base_limit) (AuditRun target_audit target_limit) =
     (if base_audit \<noteq> target_audit
      then Err (''cannot diff audit reviews with different audit kinds: '' @ audit_kind_debug base_audit @
                '' vs '' @ audit_kind_debug target_audit)
      else if base_limit \<noteq> target_limit
      then Err (''cannot diff audit reviews with different limits: '' @ show_nat base_limit @
                '' vs '' @ show_nat target_limit)
      else Ok ())"
| "validate_review_diff_compatibility (WorkflowRun base_workflow base_inputs base_step_ids)
     (WorkflowRun target_workflow target_inputs target_step_ids) =
     (if wm_workflow_id (ws_metadata base_workflow) \<noteq> wm_workflow_id (ws_metadata target_workflow)
      then Err (''cannot diff workflow reviews with different workflow IDs: '' @
                wm_workflow_id (ws_metadata base_workflow) @ '' vs '' @
                wm_workflow_id (ws_metadata target_workflow))
      else if ws_step_count base_workflow \<noteq> ws_step_count target_workflow
      then Err (''cannot diff workflow reviews with different step counts: '' @
                show_nat (ws_step_count base_workflow) @ '' vs '' @ show_nat (ws_step_count target_workflow))
      else if base_inputs \<noteq> target_inputs
      then Err ''cannot diff workflow reviews with different inputs''
      else if base_step_ids \<noteq> target_step_ids
      then Err ''cannot diff workflow reviews with different source step IDs''
      else Ok ())"
| "validate_review_diff_compatibility (AuditRun a l) (WorkflowRun w i s) =
     Err ''cannot diff review runs with different kinds''"
| "validate_review_diff_compatibility (WorkflowRun w i s) (AuditRun a l) =
     Err ''cannot diff review runs with different kinds''"

text \<open>Collecting into a \<open>BTreeMap\<close>: a later finding with the same id replaces the earlier.\<close>

definition findings_by_id :: "ReviewFinding list \<Rightarrow> (string, ReviewFinding) btree" where
  "findings_by_id findings = fold (\<lambda>f. bt_insert (rf_finding_id f) f) findings []"

record diff_buckets =
  bk_added :: "ReviewFinding list"
  bk_unchanged :: "ReviewFindingPair list"
  bk_content_changed :: "ReviewFindingPair list"
  bk_status_changed :: "ReviewFindingStatusDiff list"

definition no_buckets :: diff_buckets where
  "no_buckets = \<lparr>bk_added = [], bk_unchanged = [], bk_content_changed = [], bk_status_changed = []\<rparr>"

definition place_finding ::
  "(string, ReviewFinding) btree \<Rightarrow> diff_buckets \<Rightarrow> string \<times> ReviewFinding \<Rightarrow> diff_buckets" where
  "place_finding base_findings buckets = (\<lambda>(finding_id, target_finding).
     case bt_get base_findings finding_id of
       Some base_finding \<Rightarrow>
         if base_finding = target_finding
         then buckets\<lparr>bk_unchanged := bk_unchanged buckets @
                [\<lparr>fp_finding_id = finding_id, fp_base = base_finding, fp_target = target_finding\<rparr>]\<rparr>
         else if rf_status base_finding \<noteq> rf_status target_finding
         then buckets\<lparr>bk_status_changed := bk_status_changed buckets @
                [\<lparr>fd_finding_id = finding_id, fd_from_status = rf_status base_finding,
                  fd_to_status = rf_status target_finding, fd_base = base_finding, fd_target = target_finding\<rparr>]\<rparr>
         else buckets\<lparr>bk_content_changed := bk_content_changed buckets @
                [\<lparr>fp_finding_id = finding_id, fp_base = base_finding, fp_target = target_finding\<rparr>]\<rparr>
     | None \<Rightarrow> buckets\<lparr>bk_added := bk_added buckets @ [target_finding]\<rparr>)"

definition diff_between :: "ReviewRun \<Rightarrow> ReviewRun \<Rightarrow> (ReviewRunDiff, string) outcome" where
  "diff_between base target =
     (case review_error base of
        Some e \<Rightarrow> Err (''base review run is invalid: '' @ e)
      | None \<Rightarrow>
     (case review_error target of
        Some e \<Rightarrow> Err (''target review run is invalid: '' @ e)
      | None \<Rightarrow>
          bind_out (validate_review_diff_compatibility (rr_payload base) (rr_payload target)) (\<lambda>_.
            let base_findings = findings_by_id (rr_findings base);
                target_findings = findings_by_id (rr_findings target);
                buckets = foldl (place_finding base_findings) no_buckets target_findings
            in Ok \<lparr>df_base_review = review_summary base, df_target_review = review_summary target,
                   df_added = bk_added buckets,
                   df_removed = map snd (filter (\<lambda>(finding_id, f). bt_get target_findings finding_id = None)
                                          base_findings),
                   df_unchanged = bk_unchanged buckets, df_content_changed = bk_content_changed buckets,
                   df_status_changed = bk_status_changed buckets\<rparr>)))"

section \<open>Requests\<close>

definition review_id_params_error :: "string \<Rightarrow> string option" where
  "review_id_params_error review_id = validate_review_id_field review_id"

definition review_diff_params_error :: "string \<Rightarrow> string \<Rightarrow> string option" where
  "review_diff_params_error base_review_id target_review_id =
     or_else (validate_review_id_field base_review_id) (validate_review_id_field target_review_id)"

definition remediation_preview_params_error :: "string \<Rightarrow> string \<Rightarrow> string option" where
  "remediation_preview_params_error review_id finding_id =
     or_else (validate_review_id_field review_id) (validate_review_finding_id_field finding_id)"

definition save_review_error :: "ReviewRun \<Rightarrow> string option" where
  "save_review_error review = review_error review"

record MarkReviewFindingParams =
  mf_review_id :: string
  mf_finding_id :: string
  mf_status :: ReviewFindingStatus

definition mark_finding_error :: "MarkReviewFindingParams \<Rightarrow> string option" where
  "mark_finding_error p =
     or_else (validate_review_id_field (mf_review_id p)) (validate_review_finding_id_field (mf_finding_id p))"

record SaveCorpusAuditReviewParams =
  sa_audit :: CorpusAuditKind
  sa_limit :: nat
  sa_review_id :: "string option"
  sa_title :: "string option"
  sa_summary :: "string option"
  sa_overwrite :: bool

definition audit_params :: "SaveCorpusAuditReviewParams \<Rightarrow> CorpusAuditParams" where
  "audit_params p = \<lparr>cap_audit = sa_audit p, cap_limit = sa_limit p\<rparr>"

definition save_audit_review_error :: "SaveCorpusAuditReviewParams \<Rightarrow> string option" where
  "save_audit_review_error p =
     or_else (Option.bind (sa_review_id p) validate_review_id_field)
    (or_else (validate_optional_text_field (sa_title p) ''title'')
             (validate_optional_text_field (sa_summary p) ''summary''))"

record SaveWorkflowReviewParams =
  sw_workflow_id :: string
  sw_inputs :: "WorkflowInputAssignment list"
  sw_review_id :: "string option"
  sw_title :: "string option"
  sw_summary :: "string option"
  sw_overwrite :: bool

text \<open>The loop over assignments that several requests share.\<close>

definition assignments_error :: "WorkflowInputAssignment list \<Rightarrow> string option" where
  "assignments_error inputs =
     scan_seen (\<lambda>index input seen.
         or_else
           (map_option (\<lambda>e. ''workflow input assignment '' @ show_nat index @ '' is invalid: '' @ e)
             (input_assignment_error input))
           (error_if (ia_input_id input \<in> set seen)
             (''workflow input assignment '' @ show_nat index @ '' reuses duplicate input_id '' @
              ia_input_id input)))
       ia_input_id 0 [] inputs"

definition save_workflow_review_error :: "SaveWorkflowReviewParams \<Rightarrow> string option" where
  "save_workflow_review_error p =
     or_else (validate_workflow_id_field (sw_workflow_id p))
    (or_else (assignments_error (sw_inputs p))
    (or_else (Option.bind (sw_review_id p) validate_review_id_field)
    (or_else (validate_optional_text_field (sw_title p) ''title'')
             (validate_optional_text_field (sw_summary p) ''summary''))))"

end
