(* ===== verification/ReviewProps.thy ===== *)
theory ReviewProps
  imports Review
begin

text \<open>
  Facts about reviews: a validated run has distinct findings, its two maps hold exactly
  its findings, and the difference of two runs sorts every finding of either into
  exactly one bucket.
\<close>

section \<open>Validated runs\<close>

lemma findings_error_distinct:
  "findings_error payload index seen seen_steps fs = None \<Longrightarrow>
   distinct (map rf_finding_id fs) \<and> set seen \<inter> rf_finding_id ` set fs = {}"
proof (induction fs arbitrary: index seen seen_steps)
  case (Cons f fs)
  obtain steps' where "findings_error payload (Suc index) (seen @ [rf_finding_id f]) steps' fs = None"
    using Cons.prems by (cases "step_id_of (rf_payload f)") auto
  note rest = Cons.IH [OF this]
  have "rf_finding_id f \<notin> set seen" using Cons.prems by simp
  with rest show ?case by auto
qed simp

lemma review_error_distinct:
  "review_error r = None \<Longrightarrow> distinct (map rf_finding_id (rr_findings r))"
  by (auto simp: review_error_def dest: findings_error_distinct)

lemma findings_by_id_put_all:
  "findings_by_id fs = bt.put_all (map (\<lambda>f. (rf_finding_id f, f)) fs) []"
proof -
  have "fold (\<lambda>f. bt_insert (rf_finding_id f) f) fs m = bt.put_all (map (\<lambda>f. (rf_finding_id f, f)) fs) m" for m
    by (induction fs arbitrary: m) auto
  then show ?thesis by (simp add: findings_by_id_def)
qed

lemma findings_by_id_well: "bt_well (findings_by_id fs)"
  unfolding findings_by_id_put_all by (rule bt.well_put_all) (simp_all add: list_all_iff)

lemma findings_by_id_get:
  assumes "distinct (map rf_finding_id fs)"
  shows "bt_get (findings_by_id fs) i = Some f \<longleftrightarrow> f \<in> set fs \<and> rf_finding_id f = i"
proof -
  let ?kvs = "map (\<lambda>f. (rf_finding_id f, f)) fs"
  have keys: "distinct (map fst ?kvs)" using assms by (simp add: o_def)
  have get: "bt_get (findings_by_id fs) k = Some v" if "(k, v) \<in> set ?kvs" for k v
    unfolding findings_by_id_put_all by (rule bt.get_put_all [OF bt_well_Nil _ keys that]) (simp add: list_all_iff)
  have other: "bt_get (findings_by_id fs) k = None" if "k \<notin> fst ` set ?kvs" for k
    unfolding findings_by_id_put_all
    by (subst bt.get_put_all_other [OF bt_well_Nil _ that]) (simp_all add: list_all_iff bt_get_def)
  show ?thesis
  proof (cases "i \<in> fst ` set ?kvs")
    case True
    then obtain v where v: "v \<in> set fs" "i = rf_finding_id v" by auto
    then have "bt_get (findings_by_id fs) i = Some v" by (intro get) auto
    with v show ?thesis
      using assms by (auto simp: distinct_map dest: inj_onD)
  next
    case False
    with other [OF False] show ?thesis by force
  qed
qed

lemma findings_by_id_pairs:
  assumes "distinct (map rf_finding_id fs)"
  shows "(i, f) \<in> set (findings_by_id fs) \<longleftrightarrow> f \<in> set fs \<and> rf_finding_id f = i"
  using findings_by_id_get [OF assms] bt_get_in [OF findings_by_id_well] by metis

lemma findings_by_id_None:
  assumes "distinct (map rf_finding_id fs)"
  shows "bt_get (findings_by_id fs) i = None \<longleftrightarrow> i \<notin> rf_finding_id ` set fs"
  using findings_by_id_get [OF assms, of i] by (metis (no_types, lifting) image_iff not_None_eq)

section \<open>The buckets\<close>

lemma place_findings:
  "set (bk_added (foldl (place_finding B) bk m)) =
     set (bk_added bk) \<union> {t. \<exists>i. (i, t) \<in> set m \<and> bt_get B i = None}"
  "set (bk_unchanged (foldl (place_finding B) bk m)) =
     set (bk_unchanged bk) \<union>
       {\<lparr>fp_finding_id = i, fp_base = t, fp_target = t\<rparr> | i t. (i, t) \<in> set m \<and> bt_get B i = Some t}"
  "set (bk_content_changed (foldl (place_finding B) bk m)) =
     set (bk_content_changed bk) \<union>
       {\<lparr>fp_finding_id = i, fp_base = b, fp_target = t\<rparr> | i b t.
          (i, t) \<in> set m \<and> bt_get B i = Some b \<and> b \<noteq> t \<and> rf_status b = rf_status t}"
  "set (bk_status_changed (foldl (place_finding B) bk m)) =
     set (bk_status_changed bk) \<union>
       {\<lparr>fd_finding_id = i, fd_from_status = rf_status b, fd_to_status = rf_status t, fd_base = b, fd_target = t\<rparr>
          | i b t. (i, t) \<in> set m \<and> bt_get B i = Some b \<and> rf_status b \<noteq> rf_status t}"
  by (induction m arbitrary: bk) (auto simp: place_finding_def split: option.splits if_splits)

lemma place_finding_counts:
  "length (bk_added (foldl (place_finding B) bk m)) + length (bk_unchanged (foldl (place_finding B) bk m)) +
   length (bk_content_changed (foldl (place_finding B) bk m)) +
   length (bk_status_changed (foldl (place_finding B) bk m)) =
   length (bk_added bk) + length (bk_unchanged bk) + length (bk_content_changed bk) +
   length (bk_status_changed bk) + length m"
  by (induction m arbitrary: bk) (auto simp: place_finding_def split: option.splits if_splits prod.splits)

lemma findings_by_id_length:
  assumes "distinct (map rf_finding_id fs)"
  shows "length (findings_by_id fs) = length fs"
proof -
  have "set (findings_by_id fs) = (\<lambda>f. (rf_finding_id f, f)) ` set fs"
    using findings_by_id_pairs [OF assms] by auto
  moreover have "distinct (findings_by_id fs)"
    using bt_well_distinct [OF findings_by_id_well] by (simp add: distinct_map)
  moreover have "distinct fs" using assms by (simp add: distinct_map)
  moreover have "inj_on (\<lambda>f. (rf_finding_id f, f)) (set fs)" by (auto intro: inj_onI)
  ultimately show ?thesis
    by (metis card_image distinct_card)
qed

text \<open>What a successful difference was computed from.\<close>

lemma diff_between_OkD:
  assumes "diff_between base target = Ok d"
  shows "review_error base = None" "review_error target = None"
    and "df_removed d = map snd (filter (\<lambda>(i, f). bt_get (findings_by_id (rr_findings target)) i = None)
           (findings_by_id (rr_findings base)))"
    and "(let bk = foldl (place_finding (findings_by_id (rr_findings base))) no_buckets
             (findings_by_id (rr_findings target))
          in df_added d = bk_added bk \<and> df_unchanged d = bk_unchanged bk \<and>
             df_content_changed d = bk_content_changed bk \<and> df_status_changed d = bk_status_changed bk)"
proof -
  show base: "review_error base = None"
    using assms by (cases "review_error base") (simp_all add: diff_between_def)
  show target: "review_error target = None"
    using assms base by (cases "review_error target") (simp_all add: diff_between_def)
  have compatible: "validate_review_diff_compatibility (rr_payload base) (rr_payload target) = Ok ()"
    using assms base target
    by (cases "validate_review_diff_compatibility (rr_payload base) (rr_payload target)")
      (simp_all add: diff_between_def)
  from assms base target compatible
  show "df_removed d = map snd (filter (\<lambda>(i, f). bt_get (findings_by_id (rr_findings target)) i = None)
           (findings_by_id (rr_findings base)))"
    and "(let bk = foldl (place_finding (findings_by_id (rr_findings base))) no_buckets
             (findings_by_id (rr_findings target))
          in df_added d = bk_added bk \<and> df_unchanged d = bk_unchanged bk \<and>
             df_content_changed d = bk_content_changed bk \<and> df_status_changed d = bk_status_changed bk)"
    by (auto simp: diff_between_def Let_def)
qed

text \<open>C13.
  The difference of two review runs is exact: the added findings are those of the target
  whose id the base does not have, the removed ones those of the base whose id the target
  does not have, and a finding both have under one id is unchanged when the two are
  equal, status-changed when the statuses differ and content-changed otherwise.  No
  finding is listed twice or lost: the buckets together are as long as the runs.\<close>

theorem review_diff_partitions:
  assumes "diff_between base target = Ok d"
  shows "set (df_added d) =
      {t \<in> set (rr_findings target). rf_finding_id t \<notin> rf_finding_id ` set (rr_findings base)} \<and>
    set (df_removed d) =
      {b \<in> set (rr_findings base). rf_finding_id b \<notin> rf_finding_id ` set (rr_findings target)} \<and>
    set (df_unchanged d) =
      {\<lparr>fp_finding_id = rf_finding_id f, fp_base = f, fp_target = f\<rparr> | f.
         f \<in> set (rr_findings base) \<and> f \<in> set (rr_findings target)} \<and>
    set (df_content_changed d) =
      {\<lparr>fp_finding_id = rf_finding_id b, fp_base = b, fp_target = t\<rparr> | b t.
         b \<in> set (rr_findings base) \<and> t \<in> set (rr_findings target) \<and> rf_finding_id b = rf_finding_id t \<and>
         b \<noteq> t \<and> rf_status b = rf_status t} \<and>
    set (df_status_changed d) =
      {\<lparr>fd_finding_id = rf_finding_id b, fd_from_status = rf_status b, fd_to_status = rf_status t,
        fd_base = b, fd_target = t\<rparr> | b t.
         b \<in> set (rr_findings base) \<and> t \<in> set (rr_findings target) \<and> rf_finding_id b = rf_finding_id t \<and>
         rf_status b \<noteq> rf_status t} \<and>
    length (df_added d) + length (df_unchanged d) + length (df_content_changed d) + length (df_status_changed d) =
      length (rr_findings target)"
proof -
  note parts = diff_between_OkD [OF assms]
  note base = review_error_distinct [OF parts(1)]
  note target = review_error_distinct [OF parts(2)]
  let ?bk = "foldl (place_finding (findings_by_id (rr_findings base))) no_buckets
    (findings_by_id (rr_findings target))"
  have buckets: "df_added d = bk_added ?bk" "df_unchanged d = bk_unchanged ?bk"
    "df_content_changed d = bk_content_changed ?bk" "df_status_changed d = bk_status_changed ?bk"
    using parts(4) by (simp_all add: Let_def)
  note facts = place_findings findings_by_id_pairs [OF target] findings_by_id_get [OF base]
    findings_by_id_None [OF base]
  have empty: "bk_added no_buckets = []" "bk_unchanged no_buckets = []" "bk_content_changed no_buckets = []"
    "bk_status_changed no_buckets = []" by (simp_all add: no_buckets_def)
  have added: "set (df_added d) =
      {t \<in> set (rr_findings target). rf_finding_id t \<notin> rf_finding_id ` set (rr_findings base)}"
    unfolding buckets facts empty by auto
  have removed: "set (df_removed d) =
      {b \<in> set (rr_findings base). rf_finding_id b \<notin> rf_finding_id ` set (rr_findings target)}"
  proof -
    have "df_removed d = map snd (filter (\<lambda>p. fst p \<notin> rf_finding_id ` set (rr_findings target))
        (findings_by_id (rr_findings base)))"
      unfolding parts(3) findings_by_id_None [OF target] by (simp add: case_prod_beta')
    then have "b \<in> set (df_removed d) \<longleftrightarrow>
        (\<exists>i. (i, b) \<in> set (findings_by_id (rr_findings base)) \<and> i \<notin> rf_finding_id ` set (rr_findings target))" for b
      by (simp add: image_iff Bex_def)
    then show ?thesis by (auto simp: findings_by_id_pairs [OF base])
  qed
  have unchanged: "set (df_unchanged d) =
      {\<lparr>fp_finding_id = rf_finding_id f, fp_base = f, fp_target = f\<rparr> | f.
         f \<in> set (rr_findings base) \<and> f \<in> set (rr_findings target)}"
    unfolding buckets facts empty by auto
  have content: "set (df_content_changed d) =
      {\<lparr>fp_finding_id = rf_finding_id b, fp_base = b, fp_target = t\<rparr> | b t.
         b \<in> set (rr_findings base) \<and> t \<in> set (rr_findings target) \<and> rf_finding_id b = rf_finding_id t \<and>
         b \<noteq> t \<and> rf_status b = rf_status t}"
    unfolding buckets facts empty by auto
  have status: "set (df_status_changed d) =
      {\<lparr>fd_finding_id = rf_finding_id b, fd_from_status = rf_status b, fd_to_status = rf_status t,
        fd_base = b, fd_target = t\<rparr> | b t.
         b \<in> set (rr_findings base) \<and> t \<in> set (rr_findings target) \<and> rf_finding_id b = rf_finding_id t \<and>
         rf_status b \<noteq> rf_status t}"
    unfolding buckets facts empty by auto
  have counts: "length (df_added d) + length (df_unchanged d) + length (df_content_changed d) +
      length (df_status_changed d) = length (rr_findings target)"
    unfolding buckets using place_finding_counts [of "findings_by_id (rr_findings base)" no_buckets]
    by (simp add: empty findings_by_id_length [OF target])
  show ?thesis by (intro conjI added removed unchanged content status counts)
qed

text \<open>A review of the orphan notes, and a later one in which one note was dealt with and another appeared.\<close>

definition orphan_finding :: "string \<Rightarrow> ReviewFindingStatus \<Rightarrow> ReviewFinding" where
  "orphan_finding finding_id status =
     \<lparr>rf_finding_id = finding_id, rf_status = status,
      rf_payload = AuditPayload (OrphanNote
        \<lparr>nca_node = sample_written, nca_reference_count = 0, nca_backlink_count = 0, nca_forward_link_count = 0\<rparr>)\<rparr>"

definition orphan_review :: "string \<Rightarrow> ReviewFinding list \<Rightarrow> ReviewRun" where
  "orphan_review review_id findings =
     \<lparr>rr_metadata = \<lparr>rm_review_id = review_id, rm_title = ''Orphans'', rm_summary = None\<rparr>,
      rr_payload = AuditRun OrphanNotes 200, rr_findings = findings\<rparr>"

definition sample_base :: ReviewRun where
  "sample_base = orphan_review ''r1'' [orphan_finding ''b'' StatusOpen, orphan_finding ''a'' StatusOpen]"

definition sample_target :: ReviewRun where
  "sample_target = orphan_review ''r2'' [orphan_finding ''c'' StatusOpen, orphan_finding ''b'' StatusReviewed]"

lemma sample_reviews_valid: "review_error sample_base = None" "review_error sample_target = None"
  by code_simp+

lemma sample_diff_runs: "is_ok (diff_between sample_base sample_target)"
  by (simp add: diff_between_def sample_reviews_valid, simp add: sample_base_def sample_target_def
    orphan_review_def is_ok_def Let_def)

theorem review_diff_partitions_witness:
  "\<exists>d. diff_between sample_base sample_target = Ok d \<and>
     set (df_added d) = {orphan_finding ''c'' StatusOpen} \<and>
     set (df_removed d) = {orphan_finding ''a'' StatusOpen}"
proof -
  obtain d where d: "diff_between sample_base sample_target = Ok d"
    using sample_diff_runs by (cases "diff_between sample_base sample_target") (simp_all add: is_ok_def)
  have base: "set (rr_findings sample_base) = {orphan_finding ''b'' StatusOpen, orphan_finding ''a'' StatusOpen}"
    and target: "set (rr_findings sample_target) =
      {orphan_finding ''c'' StatusOpen, orphan_finding ''b'' StatusReviewed}"
    by (auto simp: sample_base_def sample_target_def orphan_review_def)
  have ids: "rf_finding_id (orphan_finding i s) = i" for i s by (simp add: orphan_finding_def)
  from review_diff_partitions [OF d]
  have "set (df_added d) = {t \<in> set (rr_findings sample_target).
          rf_finding_id t \<notin> rf_finding_id ` set (rr_findings sample_base)} \<and>
        set (df_removed d) = {b \<in> set (rr_findings sample_base).
          rf_finding_id b \<notin> rf_finding_id ` set (rr_findings sample_target)}"
    by (elim conjE) (intro conjI)
  with d show ?thesis unfolding base target
    by (intro exI [of _ d]) (auto simp: ids)
qed

end
