(* ===== verification/Reports.thy ===== *)
theory Reports
  imports Review
begin

text \<open>
  Report profiles: \<open>crates/slipbox-core/src/reports.rs\<close> and their validators in
  \<open>validation.rs\<close>.  A profile selects which lines of a routine's report are shown.
\<close>

section \<open>Subjects, modes and line kinds\<close>

record ReportProfileMetadata =
  pm_profile_id :: string
  pm_title :: string
  pm_summary :: "string option"

definition profile_metadata_error :: "ReportProfileMetadata \<Rightarrow> string option" where
  "profile_metadata_error m =
     or_else (validate_report_profile_id_field (pm_profile_id m))
    (or_else (validate_required_text_field (pm_title m) ''title'')
             (validate_optional_text_field (pm_summary m) ''summary''))"

datatype ReportProfileSubject = SubjectReview | SubjectRoutine | SubjectAudit | SubjectWorkflow | SubjectDiff

fun subject_label :: "ReportProfileSubject \<Rightarrow> string" where
  "subject_label SubjectReview = ''review''"
| "subject_label SubjectRoutine = ''routine''"
| "subject_label SubjectAudit = ''audit''"
| "subject_label SubjectWorkflow = ''workflow''"
| "subject_label SubjectDiff = ''diff''"

datatype ReportProfileMode = ModeSummary | ModeDetail

datatype ReportJsonlLineKind =
    LineWorkflow | LineStep | LineAudit | LineEntry | LineReview | LineFinding | LineRoutine | LineDiff
  | LineAdded | LineRemoved | LineUnchanged | LineContentChanged | LineStatusChanged
  | LineUnsupported string

fun supports_line_kind :: "ReportProfileSubject \<Rightarrow> ReportJsonlLineKind \<Rightarrow> bool" where
  "supports_line_kind SubjectWorkflow k \<longleftrightarrow> k = LineWorkflow \<or> k = LineStep"
| "supports_line_kind SubjectAudit k \<longleftrightarrow> k = LineAudit \<or> k = LineEntry"
| "supports_line_kind SubjectReview k \<longleftrightarrow> k = LineReview \<or> k = LineFinding"
| "supports_line_kind SubjectRoutine k \<longleftrightarrow>
     k = LineRoutine \<or> k = LineStep \<or> k = LineReview \<or> k = LineFinding"
| "supports_line_kind SubjectDiff k \<longleftrightarrow>
     k = LineDiff \<or> k = LineAdded \<or> k = LineRemoved \<or> k = LineUnchanged \<or> k = LineContentChanged \<or>
     k = LineStatusChanged"

fun line_kind_label :: "ReportJsonlLineKind \<Rightarrow> string" where
  "line_kind_label LineWorkflow = ''workflow''"
| "line_kind_label LineStep = ''step''"
| "line_kind_label LineAudit = ''audit''"
| "line_kind_label LineEntry = ''entry''"
| "line_kind_label LineReview = ''review''"
| "line_kind_label LineFinding = ''finding''"
| "line_kind_label LineRoutine = ''routine''"
| "line_kind_label LineDiff = ''diff''"
| "line_kind_label LineAdded = ''added''"
| "line_kind_label LineRemoved = ''removed''"
| "line_kind_label LineUnchanged = ''unchanged''"
| "line_kind_label LineContentChanged = ''content-changed''"
| "line_kind_label LineStatusChanged = ''status-changed''"
| "line_kind_label (LineUnsupported v) = v"

definition line_kind_from_label :: "string \<Rightarrow> ReportJsonlLineKind" where
  "line_kind_from_label v =
     (if v = ''workflow'' then LineWorkflow
      else if v = ''step'' then LineStep
      else if v = ''audit'' then LineAudit
      else if v = ''entry'' then LineEntry
      else if v = ''review'' then LineReview
      else if v = ''finding'' then LineFinding
      else if v = ''routine'' then LineRoutine
      else if v = ''diff'' then LineDiff
      else if v = ''added'' then LineAdded
      else if v = ''removed'' then LineRemoved
      else if v = ''unchanged'' then LineUnchanged
      else if v = ''content-changed'' then LineContentChanged
      else if v = ''status-changed'' then LineStatusChanged
      else LineUnsupported v)"

definition line_is_supported :: "ReportJsonlLineKind \<Rightarrow> bool" where
  "line_is_supported k = (case k of LineUnsupported v \<Rightarrow> False | _ \<Rightarrow> True)"

definition is_detail_line :: "ReportJsonlLineKind \<Rightarrow> bool" where
  "is_detail_line k \<longleftrightarrow> k \<in> {LineStep, LineEntry, LineFinding, LineAdded, LineRemoved, LineUnchanged,
     LineContentChanged, LineStatusChanged}"

section \<open>Profiles\<close>

record ReportProfileSpec =
  ps_metadata :: ReportProfileMetadata
  ps_subjects :: "ReportProfileSubject list"
  ps_mode :: ReportProfileMode
  ps_status_filters :: "ReviewFindingStatus list option"
  ps_diff_buckets :: "ReviewRunDiffBucket list option"
  ps_jsonl_line_kinds :: "ReportJsonlLineKind list option"

definition supports_status_filters :: "ReportProfileSubject \<Rightarrow> bool" where
  "supports_status_filters subject \<longleftrightarrow> subject \<in> {SubjectReview, SubjectRoutine, SubjectDiff}"

definition validate_report_profile_subjects :: "ReportProfileSubject list \<Rightarrow> string option" where
  "validate_report_profile_subjects subjects =
     or_else (error_if (subjects = []) ''report profiles must select at least one subject'')
       (scan_seen (\<lambda>index subject seen.
            error_if (subject \<in> set seen)
              (''report profile subject '' @ show_nat index @ '' is duplicate: '' @ subject_label subject))
          (\<lambda>subject. subject) 0 [] subjects)"

definition validate_report_profile_status_filters :: "ReportProfileSpec \<Rightarrow> string option" where
  "validate_report_profile_status_filters p =
     (case ps_status_filters p of
        None \<Rightarrow> None
      | Some filters \<Rightarrow>
          or_else (error_if (filters = []) ''report profile status_filters must not be empty when present'')
         (or_else (error_if (\<not> list_ex supports_status_filters (ps_subjects p))
                    ''report profile status_filters require a review, routine, or diff subject'')
            (scan_seen (\<lambda>index status seen.
                 error_if (status \<in> set seen)
                   (''report profile status_filters entry '' @ show_nat index @ '' is duplicate: '' @
                    finding_status_label status))
               (\<lambda>status. status) 0 [] filters)))"

definition validate_report_profile_diff_buckets :: "ReportProfileSpec \<Rightarrow> string option" where
  "validate_report_profile_diff_buckets p =
     (case ps_diff_buckets p of
        None \<Rightarrow> None
      | Some buckets \<Rightarrow>
          or_else (error_if (buckets = []) ''report profile diff_buckets must not be empty when present'')
         (or_else (error_if (SubjectDiff \<notin> set (ps_subjects p))
                    ''report profile diff_buckets require a diff subject'')
            (scan_seen (\<lambda>index bucket seen.
                 error_if (bucket \<in> set seen)
                   (''report profile diff_buckets entry '' @ show_nat index @ '' is duplicate: '' @
                    diff_bucket_label bucket))
               (\<lambda>bucket. bucket) 0 [] buckets)))"

definition jsonl_entry_error ::
  "ReportProfileSpec \<Rightarrow> nat \<Rightarrow> ReportJsonlLineKind \<Rightarrow> string list \<Rightarrow> string option" where
  "jsonl_entry_error p index k seen =
     or_else (error_if (trim (line_kind_label k) = [])
       (''report profile jsonl_line_kinds entry '' @ show_nat index @ '' must not be empty''))
    (or_else (error_if (\<not> line_is_supported k)
       (''report profile jsonl_line_kinds entry '' @ show_nat index @ '' is unsupported: '' @ line_kind_label k))
    (or_else (error_if (line_kind_label k \<in> set seen)
       (''report profile jsonl_line_kinds entry '' @ show_nat index @ '' is duplicate: '' @ line_kind_label k))
    (or_else (error_if (ps_mode p = ModeSummary \<and> is_detail_line k)
       (''report profile summary mode cannot select detail JSONL line kind: '' @ line_kind_label k))
       (error_if (\<not> list_ex (\<lambda>subject. supports_line_kind subject k) (ps_subjects p))
         (''report profile jsonl_line_kinds entry '' @ show_nat index @
          '' is not supported by selected subjects: '' @ line_kind_label k)))))"

definition validate_report_profile_jsonl_line_kinds :: "ReportProfileSpec \<Rightarrow> string option" where
  "validate_report_profile_jsonl_line_kinds p =
     (case ps_jsonl_line_kinds p of
        None \<Rightarrow> None
      | Some kinds \<Rightarrow>
          or_else (error_if (kinds = []) ''report profile jsonl_line_kinds must not be empty when present'')
            (scan_seen (jsonl_entry_error p) line_kind_label 0 [] kinds))"

definition profile_error :: "ReportProfileSpec \<Rightarrow> string option" where
  "profile_error p =
     or_else (profile_metadata_error (ps_metadata p))
    (or_else (validate_report_profile_subjects (ps_subjects p))
    (or_else (validate_report_profile_status_filters p)
    (or_else (validate_report_profile_diff_buckets p)
             (validate_report_profile_jsonl_line_kinds p))))"

definition profile_catalog_error :: "ReportProfileSpec list \<Rightarrow> string option" where
  "profile_catalog_error profiles =
     scan_seen (\<lambda>index p seen.
         or_else
           (map_option (\<lambda>e. ''report profile '' @ show_nat index @ '' is invalid: '' @ e) (profile_error p))
           (error_if (pm_profile_id (ps_metadata p) \<in> set seen)
             (''report profile '' @ show_nat index @ '' reuses duplicate profile_id '' @
              pm_profile_id (ps_metadata p))))
       (\<lambda>p. pm_profile_id (ps_metadata p)) 0 [] profiles"

section \<open>Labels\<close>

text \<open>A supported kind is read back from its label.\<close>

lemma line_kind_label_roundtrip: "line_is_supported k \<Longrightarrow> line_kind_from_label (line_kind_label k) = k"
  by (cases k) (simp_all add: line_kind_from_label_def line_is_supported_def)

lemma line_kind_label_inj:
  "line_is_supported j \<Longrightarrow> line_is_supported k \<Longrightarrow> line_kind_label j = line_kind_label k \<Longrightarrow> j = k"
  by (metis line_kind_label_roundtrip)

lemma line_kind_from_label_label: "line_kind_label (line_kind_from_label v) = v"
  by (simp add: line_kind_from_label_def)

end
