(* ===== verification/Routine.thy ===== *)
theory Routine
  imports Reports
begin

text \<open>
  Review routines: \<open>crates/slipbox-core/src/routine.rs\<close> and their validators in
  \<open>validation.rs\<close>.  A routine names a source (an audit or a workflow), says whether the
  result is saved as a review and compared with an earlier one, and which report
  profiles are applied.
\<close>

section \<open>Specifications\<close>

record ReviewRoutineMetadata =
  rtm_routine_id :: string
  rtm_title :: string
  rtm_summary :: "string option"

definition routine_metadata_error :: "ReviewRoutineMetadata \<Rightarrow> string option" where
  "routine_metadata_error m =
     or_else (validate_review_routine_id_field (rtm_routine_id m))
    (or_else (validate_required_text_field (rtm_title m) ''title'')
             (validate_optional_text_field (rtm_summary m) ''summary''))"

datatype ReviewRoutineSourceKind = SourceKindAudit | SourceKindWorkflow | SourceKindUnsupported

fun source_kind_label :: "ReviewRoutineSourceKind \<Rightarrow> string" where
  "source_kind_label SourceKindAudit = ''audit''"
| "source_kind_label SourceKindWorkflow = ''workflow''"
| "source_kind_label SourceKindUnsupported = ''unsupported''"

datatype ReviewRoutineSource =
    RoutineAudit CorpusAuditKind nat
  | RoutineWorkflow string
  | RoutineUnsupported

fun routine_source_kind :: "ReviewRoutineSource \<Rightarrow> ReviewRoutineSourceKind" where
  "routine_source_kind (RoutineAudit audit limit) = SourceKindAudit"
| "routine_source_kind (RoutineWorkflow workflow_id) = SourceKindWorkflow"
| "routine_source_kind RoutineUnsupported = SourceKindUnsupported"

fun routine_source_error :: "ReviewRoutineSource \<Rightarrow> string option" where
  "routine_source_error (RoutineAudit audit limit) = None"
| "routine_source_error (RoutineWorkflow workflow_id) = validate_workflow_id_field workflow_id"
| "routine_source_error RoutineUnsupported = Some ''review routine source kind is unsupported''"

definition default_review_routine_save_review_enabled :: bool where
  "default_review_routine_save_review_enabled = True"

record ReviewRoutineSaveReviewPolicy =
  sp_enabled :: bool
  sp_review_id :: "string option"
  sp_title :: "string option"
  sp_summary :: "string option"
  sp_overwrite :: bool

definition default_save_review :: ReviewRoutineSaveReviewPolicy where
  "default_save_review =
     \<lparr>sp_enabled = default_review_routine_save_review_enabled, sp_review_id = None, sp_title = None,
      sp_summary = None, sp_overwrite = False\<rparr>"

definition save_policy_error :: "ReviewRoutineSaveReviewPolicy \<Rightarrow> string option" where
  "save_policy_error p =
     or_else (validate_optional_review_id_field (sp_review_id p) ''review_id'')
    (or_else (validate_optional_text_field (sp_title p) ''title'')
    (or_else (validate_optional_text_field (sp_summary p) ''summary'')
      (error_if (\<not> sp_enabled p \<and>
          (sp_review_id p \<noteq> None \<or> sp_title p \<noteq> None \<or> sp_summary p \<noteq> None \<or> sp_overwrite p))
        ''disabled save_review policy cannot set review_id, title, summary, or overwrite'')))"

datatype ReviewRoutineCompareTarget = LatestCompatibleReview | UnsupportedTarget

fun compare_target_label :: "ReviewRoutineCompareTarget \<Rightarrow> string" where
  "compare_target_label LatestCompatibleReview = ''latest-compatible-review''"
| "compare_target_label UnsupportedTarget = ''unsupported''"

record ReviewRoutineComparePolicy =
  cp_target :: ReviewRoutineCompareTarget
  cp_report_profile_id :: "string option"

definition compare_policy_error :: "ReviewRoutineComparePolicy \<Rightarrow> string option" where
  "compare_policy_error p =
     or_else (error_if (cp_target p = UnsupportedTarget) ''review routine compare target is unsupported'')
             (validate_optional_report_profile_id_field (cp_report_profile_id p) ''report_profile_id'')"

record ReviewRoutineSpec =
  rt_metadata :: ReviewRoutineMetadata
  rt_source :: ReviewRoutineSource
  rt_inputs :: "WorkflowInputSpec list"
  rt_save_review :: ReviewRoutineSaveReviewPolicy
  rt_compare :: "ReviewRoutineComparePolicy option"
  rt_report_profile_ids :: "string list"

definition validate_review_routine_inputs :: "ReviewRoutineSpec \<Rightarrow> string option" where
  "validate_review_routine_inputs r =
     or_else
       (error_if ((case rt_source r of RoutineAudit audit limit \<Rightarrow> True | _ \<Rightarrow> False) \<and> rt_inputs r \<noteq> [])
         ''audit review routines cannot declare workflow inputs'')
       (scan_seen (\<lambda>index input seen.
            or_else
              (map_option (\<lambda>e. ''review routine input '' @ show_nat index @ '' is invalid: '' @ e)
                (input_spec_error input))
              (error_if (wi_input_id input \<in> set seen)
                (''review routine input '' @ show_nat index @ '' reuses duplicate input_id '' @ wi_input_id input)))
          wi_input_id 0 [] (rt_inputs r))"

definition validate_review_routine_compare_policy :: "ReviewRoutineSpec \<Rightarrow> string option" where
  "validate_review_routine_compare_policy r =
     (case rt_compare r of
        None \<Rightarrow> None
      | Some policy \<Rightarrow>
          if \<not> sp_enabled (rt_save_review r)
          then Some ''review routine compare policy requires save_review to be enabled''
          else compare_policy_error policy)"

definition validate_review_routine_report_profiles :: "string list \<Rightarrow> string option" where
  "validate_review_routine_report_profiles report_profile_ids =
     scan_seen (\<lambda>index profile_id seen.
         or_else
           (map_option (\<lambda>e. ''review routine report_profile_ids entry '' @ show_nat index @ '' is invalid: '' @ e)
             (validate_report_profile_id_field profile_id))
           (error_if (profile_id \<in> set seen)
             (''review routine report_profile_ids entry '' @ show_nat index @ '' is duplicate: '' @ profile_id)))
       (\<lambda>profile_id. profile_id) 0 [] report_profile_ids"

definition routine_error :: "ReviewRoutineSpec \<Rightarrow> string option" where
  "routine_error r =
     or_else (routine_metadata_error (rt_metadata r))
    (or_else (routine_source_error (rt_source r))
    (or_else (validate_review_routine_inputs r)
    (or_else (save_policy_error (rt_save_review r))
    (or_else (validate_review_routine_compare_policy r)
             (validate_review_routine_report_profiles (rt_report_profile_ids r))))))"

definition routine_catalog_error :: "ReviewRoutineSpec list \<Rightarrow> string option" where
  "routine_catalog_error routines =
     scan_seen (\<lambda>index r seen.
         or_else
           (map_option (\<lambda>e. ''review routine '' @ show_nat index @ '' is invalid: '' @ e) (routine_error r))
           (error_if (rtm_routine_id (rt_metadata r) \<in> set seen)
             (''review routine '' @ show_nat index @ '' reuses duplicate routine_id '' @
              rtm_routine_id (rt_metadata r))))
       (\<lambda>r. rtm_routine_id (rt_metadata r)) 0 [] routines"

record ReviewRoutineSummary =
  rts_metadata :: ReviewRoutineMetadata
  rts_source_kind :: ReviewRoutineSourceKind
  rts_input_count :: nat
  rts_report_profile_count :: nat

definition routine_summary :: "ReviewRoutineSpec \<Rightarrow> ReviewRoutineSummary" where
  "routine_summary r =
     \<lparr>rts_metadata = rt_metadata r, rts_source_kind = routine_source_kind (rt_source r),
      rts_input_count = length (rt_inputs r), rts_report_profile_count = length (rt_report_profile_ids r)\<rparr>"

section \<open>The built-in routines\<close>

definition BUILT_IN_REVIEW_ROUTINE_CONTEXT_SWEEP_ID :: string where
  "BUILT_IN_REVIEW_ROUTINE_CONTEXT_SWEEP_ID = ''routine/builtin/context-sweep-review''"
definition BUILT_IN_REVIEW_ROUTINE_DUPLICATE_TITLE_ID :: string where
  "BUILT_IN_REVIEW_ROUTINE_DUPLICATE_TITLE_ID = ''routine/builtin/duplicate-title-review''"

definition built_in_context_sweep_review_routine :: ReviewRoutineSpec where
  "built_in_context_sweep_review_routine =
     \<lparr>rt_metadata =
        \<lparr>rtm_routine_id = BUILT_IN_REVIEW_ROUTINE_CONTEXT_SWEEP_ID, rtm_title = ''Context Sweep Review'',
         rtm_summary = Some ''Run the built-in context sweep workflow as a durable review routine.''\<rparr>,
      rt_source = RoutineWorkflow BUILT_IN_WORKFLOW_CONTEXT_SWEEP_ID,
      rt_inputs =
        [\<lparr>wi_input_id = ''focus'', wi_title = ''Focus target'',
          wi_summary = Some ''Note or anchor target to review for contextual pressure'',
          wi_kind = FocusTarget\<rparr>],
      rt_save_review = default_save_review, rt_compare = None, rt_report_profile_ids = []\<rparr>"

definition built_in_duplicate_title_review_routine :: ReviewRoutineSpec where
  "built_in_duplicate_title_review_routine =
     \<lparr>rt_metadata =
        \<lparr>rtm_routine_id = BUILT_IN_REVIEW_ROUTINE_DUPLICATE_TITLE_ID, rtm_title = ''Duplicate Title Review'',
         rtm_summary = Some ''Run the duplicate-title audit as a durable review routine.''\<rparr>,
      rt_source = RoutineAudit DuplicateTitles 200,
      rt_inputs = [], rt_save_review = default_save_review, rt_compare = None, rt_report_profile_ids = []\<rparr>"

definition built_in_review_routines :: "ReviewRoutineSpec list" where
  "built_in_review_routines = [built_in_context_sweep_review_routine, built_in_duplicate_title_review_routine]"

definition built_in_review_routine :: "string \<Rightarrow> ReviewRoutineSpec option" where
  "built_in_review_routine routine_id = find (\<lambda>r. rtm_routine_id (rt_metadata r) = routine_id) built_in_review_routines"

definition built_in_review_routine_summaries :: "ReviewRoutineSummary list" where
  "built_in_review_routine_summaries = map routine_summary built_in_review_routines"

section \<open>Requests and results\<close>

definition routine_id_params_error :: "string \<Rightarrow> string option" where
  "routine_id_params_error routine_id = validate_review_routine_id_field routine_id"

definition run_review_routine_error :: "string \<Rightarrow> WorkflowInputAssignment list \<Rightarrow> string option" where
  "run_review_routine_error routine_id inputs =
     or_else (validate_review_routine_id_field routine_id) (assignments_error inputs)"

datatype ReviewRoutineSourceExecutionResult =
    AuditExecuted CorpusAuditResult
  | WorkflowExecuted WorkflowExecutionResult

datatype ReviewRoutineReportLine =
    RLRoutine ReviewRoutineSummary
  | RLWorkflow WorkflowSummary
  | RLStep WorkflowStepReport
  | RLAudit CorpusAuditKind
  | RLEntry CorpusAuditEntry
  | RLReview ReviewRunSummary
  | RLFinding ReviewFinding
  | RLDiff ReviewRunSummary ReviewRunSummary
  | RLAdded ReviewFinding
  | RLRemoved ReviewFinding
  | RLUnchanged ReviewFindingPair
  | RLContentChanged ReviewFindingPair
  | RLStatusChanged ReviewFindingStatusDiff

fun report_line_kind :: "ReviewRoutineReportLine \<Rightarrow> ReportJsonlLineKind" where
  "report_line_kind (RLRoutine r) = LineRoutine"
| "report_line_kind (RLWorkflow w) = LineWorkflow"
| "report_line_kind (RLStep s) = LineStep"
| "report_line_kind (RLAudit a) = LineAudit"
| "report_line_kind (RLEntry e) = LineEntry"
| "report_line_kind (RLReview r) = LineReview"
| "report_line_kind (RLFinding f) = LineFinding"
| "report_line_kind (RLDiff b t) = LineDiff"
| "report_line_kind (RLAdded f) = LineAdded"
| "report_line_kind (RLRemoved f) = LineRemoved"
| "report_line_kind (RLUnchanged p) = LineUnchanged"
| "report_line_kind (RLContentChanged p) = LineContentChanged"
| "report_line_kind (RLStatusChanged c) = LineStatusChanged"

fun report_line_subject :: "ReviewRoutineReportLine \<Rightarrow> ReportProfileSubject" where
  "report_line_subject (RLRoutine r) = SubjectRoutine"
| "report_line_subject (RLWorkflow w) = SubjectWorkflow"
| "report_line_subject (RLStep s) = SubjectWorkflow"
| "report_line_subject (RLAudit a) = SubjectAudit"
| "report_line_subject (RLEntry e) = SubjectAudit"
| "report_line_subject (RLReview r) = SubjectReview"
| "report_line_subject (RLFinding f) = SubjectReview"
| "report_line_subject (RLDiff b t) = SubjectDiff"
| "report_line_subject (RLAdded f) = SubjectDiff"
| "report_line_subject (RLRemoved f) = SubjectDiff"
| "report_line_subject (RLUnchanged p) = SubjectDiff"
| "report_line_subject (RLContentChanged p) = SubjectDiff"
| "report_line_subject (RLStatusChanged c) = SubjectDiff"

text \<open>A line is supported by the subject it belongs to.\<close>

lemma subject_supports_line: "supports_line_kind (report_line_subject line) (report_line_kind line)"
  by (cases line) simp_all

record AppliedReportProfile =
  ap_profile :: ReportProfileSpec
  ap_lines :: "ReviewRoutineReportLine list"

record ReviewRoutineCompareResult =
  rcr_target :: ReviewRoutineCompareTarget
  rcr_base_review :: "ReviewRunSummary option"
  rcr_diff :: "ReviewRunDiff option"
  rcr_report :: "AppliedReportProfile option"

record ReviewRoutineExecutionResult =
  re_routine :: ReviewRoutineSummary
  re_source :: ReviewRoutineSourceExecutionResult
  re_saved_review :: "ReviewRunSummary option"
  re_compare :: "ReviewRoutineCompareResult option"
  re_reports :: "AppliedReportProfile list"

lemma built_in_routines_validate: "list_all (\<lambda>r. routine_error r = None) built_in_review_routines"
  by code_simp

end
