(* ===== verification/Packs.thy ===== *)
theory Packs
  imports Routine
begin

text \<open>
  Workbench packs: \<open>crates/slipbox-core/src/packs.rs\<close> and \<open>validate_workbench_pack_*\<close>
  of \<open>validation.rs\<close>.  A pack bundles workflows, routines and report profiles; its
  validation lists every issue instead of stopping at the first.
\<close>

section \<open>Manifests\<close>

definition WORKBENCH_PACK_MANIFEST_VERSION :: nat where
  "WORKBENCH_PACK_MANIFEST_VERSION = 1"

record WorkbenchPackCompatibility =
  pc_version :: nat

definition default_pack_compatibility :: WorkbenchPackCompatibility where
  "default_pack_compatibility = \<lparr>pc_version = WORKBENCH_PACK_MANIFEST_VERSION\<rparr>"

definition pack_compatibility_error :: "WorkbenchPackCompatibility \<Rightarrow> string option" where
  "pack_compatibility_error c =
     (if pc_version c = 0 then Some ''workbench pack compatibility version must be greater than zero''
      else error_if (WORKBENCH_PACK_MANIFEST_VERSION < pc_version c)
        (''unsupported workbench pack compatibility version '' @ show_nat (pc_version c) @
         ''; supported version is '' @ show_nat WORKBENCH_PACK_MANIFEST_VERSION))"

record WorkbenchPackMetadata =
  km_pack_id :: string
  km_title :: string
  km_summary :: "string option"

definition pack_metadata_error :: "WorkbenchPackMetadata \<Rightarrow> string option" where
  "pack_metadata_error m =
     or_else (validate_workbench_pack_id_field (km_pack_id m))
    (or_else (validate_required_text_field (km_title m) ''title'')
             (validate_optional_text_field (km_summary m) ''summary''))"

datatype WorkbenchPackIssueKind =
    PackInvalidMetadata | PackUnsupportedVersion | PackEmpty | PackInvalidWorkflow | PackInvalidRoutine
  | PackInvalidProfile | PackDuplicateWorkflow | PackDuplicateRoutine | PackDuplicateProfile
  | PackDuplicateRoutineReference | PackMissingWorkflow | PackMissingRoutine | PackMissingProfile
  | PackInvalidRoutineReference

fun pack_issue_label :: "WorkbenchPackIssueKind \<Rightarrow> string" where
  "pack_issue_label PackInvalidMetadata = ''invalid-metadata''"
| "pack_issue_label PackUnsupportedVersion = ''unsupported-version''"
| "pack_issue_label PackEmpty = ''empty-pack''"
| "pack_issue_label PackInvalidWorkflow = ''invalid-workflow''"
| "pack_issue_label PackInvalidRoutine = ''invalid-review-routine''"
| "pack_issue_label PackInvalidProfile = ''invalid-report-profile''"
| "pack_issue_label PackDuplicateWorkflow = ''duplicate-workflow-id''"
| "pack_issue_label PackDuplicateRoutine = ''duplicate-review-routine-id''"
| "pack_issue_label PackDuplicateProfile = ''duplicate-report-profile-id''"
| "pack_issue_label PackDuplicateRoutineReference = ''duplicate-review-routine-reference''"
| "pack_issue_label PackMissingWorkflow = ''missing-workflow-reference''"
| "pack_issue_label PackMissingRoutine = ''missing-review-routine-reference''"
| "pack_issue_label PackMissingProfile = ''missing-report-profile-reference''"
| "pack_issue_label PackInvalidRoutineReference = ''invalid-review-routine-reference''"

record WorkbenchPackIssue =
  pi_kind :: WorkbenchPackIssueKind
  pi_asset_id :: "string option"
  pi_message :: string

definition workbench_pack_issue :: "WorkbenchPackIssueKind \<Rightarrow> string \<Rightarrow> string \<Rightarrow> WorkbenchPackIssue" where
  "workbench_pack_issue kind asset_id message =
     \<lparr>pi_kind = kind, pi_asset_id = Some asset_id, pi_message = message\<rparr>"

record WorkbenchPackManifest =
  pk_metadata :: WorkbenchPackMetadata
  pk_compatibility :: WorkbenchPackCompatibility
  pk_workflows :: "WorkflowSpec list"
  pk_review_routines :: "ReviewRoutineSpec list"
  pk_report_profiles :: "ReportProfileSpec list"
  pk_entrypoint_routine_ids :: "string list"

record WorkbenchPackSummary =
  pks_metadata :: WorkbenchPackMetadata
  pks_compatibility :: WorkbenchPackCompatibility
  pks_workflow_count :: nat
  pks_review_routine_count :: nat
  pks_report_profile_count :: nat
  pks_entrypoint_routine_ids :: "string list"

definition pack_summary :: "WorkbenchPackManifest \<Rightarrow> WorkbenchPackSummary" where
  "pack_summary m =
     \<lparr>pks_metadata = pk_metadata m, pks_compatibility = pk_compatibility m,
      pks_workflow_count = length (pk_workflows m),
      pks_review_routine_count = length (pk_review_routines m),
      pks_report_profile_count = length (pk_report_profiles m),
      pks_entrypoint_routine_ids = pk_entrypoint_routine_ids m\<rparr>"

section \<open>Issues of a manifest\<close>

abbreviation workflow_id_of :: "WorkflowSpec \<Rightarrow> string" where
  "workflow_id_of w \<equiv> wm_workflow_id (wf_metadata w)"
abbreviation routine_id_of :: "ReviewRoutineSpec \<Rightarrow> string" where
  "routine_id_of r \<equiv> rtm_routine_id (rt_metadata r)"
abbreviation profile_id_of :: "ReportProfileSpec \<Rightarrow> string" where
  "profile_id_of p \<equiv> pm_profile_id (ps_metadata p)"

definition issue_if :: "bool \<Rightarrow> 'i \<Rightarrow> 'i list" where
  "issue_if c i = (if c then [i] else [])"

definition issue_of :: "(string \<Rightarrow> 'i) \<Rightarrow> string option \<Rightarrow> 'i list" where
  "issue_of f e = (case e of None \<Rightarrow> [] | Some message \<Rightarrow> [f message])"

lemma issue_if_Nil [simp]: "issue_if c i = [] \<longleftrightarrow> \<not> c"
  by (simp add: issue_if_def)

lemma issue_of_Nil [simp]: "issue_of f e = [] \<longleftrightarrow> e = None"
  by (simp add: issue_of_def split: option.splits)

definition built_in_workflow_id :: "string \<Rightarrow> bool" where
  "built_in_workflow_id i \<longleftrightarrow> list_ex (\<lambda>w. workflow_id_of w = i) built_in_workflows"

definition built_in_routine_id :: "string \<Rightarrow> bool" where
  "built_in_routine_id i \<longleftrightarrow> list_ex (\<lambda>r. routine_id_of r = i) built_in_review_routines"

text \<open>The loops pass the index and the ids already seen.\<close>

fun pack_workflow_issues :: "nat \<Rightarrow> string list \<Rightarrow> WorkflowSpec list \<Rightarrow> WorkbenchPackIssue list" where
  "pack_workflow_issues index seen [] = []"
| "pack_workflow_issues index seen (w # ws) =
     issue_of (\<lambda>e. workbench_pack_issue PackInvalidWorkflow (workflow_id_of w)
         (''workbench pack workflow '' @ show_nat index @ '' is invalid: '' @ e)) (workflow_error w) @
     issue_if (built_in_workflow_id (workflow_id_of w))
       (workbench_pack_issue PackDuplicateWorkflow (workflow_id_of w)
         (''workbench pack workflow '' @ show_nat index @ '' collides with built-in workflow_id '' @
          workflow_id_of w)) @
     issue_if (workflow_id_of w \<in> set seen)
       (workbench_pack_issue PackDuplicateWorkflow (workflow_id_of w)
         (''workbench pack workflow '' @ show_nat index @ '' reuses duplicate workflow_id '' @
          workflow_id_of w)) @
     pack_workflow_issues (Suc index) (seen @ [workflow_id_of w]) ws"

text \<open>\<open>workflow_inputs\<close>: the built-in workflows, then the pack's valid ones under other ids.\<close>

definition pack_workflow_inputs :: "WorkflowSpec list \<Rightarrow> (string \<times> WorkflowInputSpec list) list" where
  "pack_workflow_inputs ws =
     map (\<lambda>w. (workflow_id_of w, wf_inputs w)) built_in_workflows @
     map (\<lambda>w. (workflow_id_of w, wf_inputs w))
       (filter (\<lambda>w. workflow_error w = None \<and> \<not> built_in_workflow_id (workflow_id_of w)) ws)"

fun pack_profile_issues :: "nat \<Rightarrow> string list \<Rightarrow> ReportProfileSpec list \<Rightarrow> WorkbenchPackIssue list" where
  "pack_profile_issues index seen [] = []"
| "pack_profile_issues index seen (p # ps) =
     issue_of (\<lambda>e. workbench_pack_issue PackInvalidProfile (profile_id_of p)
         (''workbench pack report profile '' @ show_nat index @ '' is invalid: '' @ e)) (profile_error p) @
     issue_if (profile_id_of p \<in> set seen)
       (workbench_pack_issue PackDuplicateProfile (profile_id_of p)
         (''workbench pack report profile '' @ show_nat index @ '' reuses duplicate profile_id '' @
          profile_id_of p)) @
     pack_profile_issues (Suc index) (seen @ [profile_id_of p]) ps"

section \<open>References of a routine\<close>

definition input_not_accepted :: "ReviewRoutineSpec \<Rightarrow> WorkflowInputSpec \<Rightarrow> string" where
  "input_not_accepted r input =
     ''review routine '' @ routine_id_of r @ '' declares input_id '' @ wi_input_id input @
     '' that referenced workflow does not accept''"

definition input_kind_differs ::
  "ReviewRoutineSpec \<Rightarrow> WorkflowInputSpec \<Rightarrow> WorkflowInputSpec \<Rightarrow> string" where
  "input_kind_differs r input workflow_input =
     ''review routine '' @ routine_id_of r @ '' declares input_id '' @ wi_input_id input @ '' as '' @
     input_kind_label (wi_kind input) @ '', but referenced workflow requires '' @
     input_kind_label (wi_kind workflow_input)"

definition input_missing :: "ReviewRoutineSpec \<Rightarrow> WorkflowInputSpec \<Rightarrow> string" where
  "input_missing r workflow_input =
     ''review routine '' @ routine_id_of r @ '' is missing input_id '' @ wi_input_id workflow_input @
     '' required by referenced workflow''"

definition missing_workflow :: "ReviewRoutineSpec \<Rightarrow> string \<Rightarrow> string" where
  "missing_workflow r workflow_id =
     ''review routine '' @ routine_id_of r @ '' references missing workflow_id '' @ workflow_id"

definition missing_profile :: "string \<Rightarrow> string \<Rightarrow> string" where
  "missing_profile routine_id profile_id =
     ''review routine '' @ routine_id @ '' references missing profile_id '' @ profile_id"

fun first_error :: "('a \<Rightarrow> string option) \<Rightarrow> 'a list \<Rightarrow> string option" where
  "first_error f [] = None"
| "first_error f (x # xs) = or_else (f x) (first_error f xs)"

lemma first_error_None [simp]: "first_error f xs = None \<longleftrightarrow> (\<forall>x \<in> set xs. f x = None)"
  by (induction xs) auto

definition validate_workbench_pack_routine_inputs ::
  "ReviewRoutineSpec \<Rightarrow> WorkflowInputSpec list \<Rightarrow> string option" where
  "validate_workbench_pack_routine_inputs r workflow_inputs =
     or_else
       (first_error (\<lambda>input.
            case find (\<lambda>i. wi_input_id i = wi_input_id input) workflow_inputs of
              None \<Rightarrow> Some (input_not_accepted r input)
            | Some workflow_input \<Rightarrow>
                if wi_kind workflow_input \<noteq> wi_kind input
                then Some (input_kind_differs r input workflow_input) else None)
          (rt_inputs r))
       (map_option (input_missing r)
         (find (\<lambda>i. \<not> list_ex (\<lambda>input. wi_input_id input = wi_input_id i) (rt_inputs r)) workflow_inputs))"

definition validate_workbench_pack_report_profile_reference ::
  "string \<Rightarrow> string \<Rightarrow> string list \<Rightarrow> WorkbenchPackIssue list" where
  "validate_workbench_pack_report_profile_reference routine_id profile_id report_profile_ids =
     issue_if (profile_id \<notin> set report_profile_ids)
       (workbench_pack_issue PackMissingProfile routine_id (missing_profile routine_id profile_id))"

definition validate_workbench_pack_routine_references ::
  "ReviewRoutineSpec \<Rightarrow> (string \<times> WorkflowInputSpec list) list \<Rightarrow> string list \<Rightarrow> WorkbenchPackIssue list" where
  "validate_workbench_pack_routine_references r workflow_inputs report_profile_ids =
     (case rt_source r of
        RoutineWorkflow workflow_id \<Rightarrow>
          (case map_of workflow_inputs workflow_id of
             Some inputs \<Rightarrow>
               issue_of (workbench_pack_issue PackInvalidRoutineReference (routine_id_of r))
                 (validate_workbench_pack_routine_inputs r inputs)
           | None \<Rightarrow> [workbench_pack_issue PackMissingWorkflow (routine_id_of r) (missing_workflow r workflow_id)])
      | _ \<Rightarrow> []) @
     (case rt_compare r of
        Some policy \<Rightarrow>
          (case cp_report_profile_id policy of
             Some profile_id \<Rightarrow>
               validate_workbench_pack_report_profile_reference (routine_id_of r) profile_id report_profile_ids
           | None \<Rightarrow> [])
      | None \<Rightarrow> []) @
     concat (map (\<lambda>profile_id.
         validate_workbench_pack_report_profile_reference (routine_id_of r) profile_id report_profile_ids)
       (rt_report_profile_ids r))"

fun pack_routine_issues ::
  "(string \<times> WorkflowInputSpec list) list \<Rightarrow> string list \<Rightarrow> nat \<Rightarrow> string list \<Rightarrow> ReviewRoutineSpec list \<Rightarrow>
   WorkbenchPackIssue list" where
  "pack_routine_issues workflow_inputs report_profile_ids index seen [] = []"
| "pack_routine_issues workflow_inputs report_profile_ids index seen (r # rs) =
     issue_of (\<lambda>e. workbench_pack_issue PackInvalidRoutine (routine_id_of r)
         (''workbench pack review routine '' @ show_nat index @ '' is invalid: '' @ e)) (routine_error r) @
     issue_if (built_in_routine_id (routine_id_of r))
       (workbench_pack_issue PackDuplicateRoutine (routine_id_of r)
         (''workbench pack review routine '' @ show_nat index @ '' collides with built-in routine_id '' @
          routine_id_of r)) @
     issue_if (routine_id_of r \<in> set seen)
       (workbench_pack_issue PackDuplicateRoutine (routine_id_of r)
         (''workbench pack review routine '' @ show_nat index @ '' reuses duplicate routine_id '' @
          routine_id_of r)) @
     validate_workbench_pack_routine_references r workflow_inputs report_profile_ids @
     pack_routine_issues workflow_inputs report_profile_ids (Suc index) (seen @ [routine_id_of r]) rs"

text \<open>An entry point that is not an id at all is reported and not remembered.\<close>

fun entrypoint_issues :: "string list \<Rightarrow> nat \<Rightarrow> string list \<Rightarrow> string list \<Rightarrow> WorkbenchPackIssue list" where
  "entrypoint_issues routine_ids index seen [] = []"
| "entrypoint_issues routine_ids index seen (i # rest) =
     (case validate_review_routine_id_field i of
        Some e \<Rightarrow>
          workbench_pack_issue PackInvalidRoutineReference i
            (''workbench pack entrypoint_routine_ids entry '' @ show_nat index @ '' is invalid: '' @ e) #
          entrypoint_issues routine_ids (Suc index) seen rest
      | None \<Rightarrow>
          issue_if (i \<in> set seen)
            (workbench_pack_issue PackDuplicateRoutineReference i
              (''workbench pack entrypoint_routine_ids entry '' @ show_nat index @ '' is duplicate: '' @ i)) @
          issue_if (i \<notin> set routine_ids)
            (workbench_pack_issue PackMissingRoutine i
              (''workbench pack entrypoint_routine_ids entry '' @ show_nat index @
               '' references missing routine_id '' @ i)) @
          entrypoint_issues routine_ids (Suc index) (seen @ [i]) rest)"

definition validate_workbench_pack_entrypoint_routine_references ::
  "string list \<Rightarrow> string list \<Rightarrow> WorkbenchPackIssue list" where
  "validate_workbench_pack_entrypoint_routine_references entrypoint_routine_ids routine_ids =
     entrypoint_issues routine_ids 0 [] entrypoint_routine_ids"

definition validate_workbench_pack_manifest :: "WorkbenchPackManifest \<Rightarrow> WorkbenchPackIssue list" where
  "validate_workbench_pack_manifest m =
     issue_of (workbench_pack_issue PackInvalidMetadata (km_pack_id (pk_metadata m)))
       (pack_metadata_error (pk_metadata m)) @
     issue_of (workbench_pack_issue PackUnsupportedVersion (km_pack_id (pk_metadata m)))
       (pack_compatibility_error (pk_compatibility m)) @
     issue_if (pk_workflows m = [] \<and> pk_review_routines m = [] \<and> pk_report_profiles m = [])
       (workbench_pack_issue PackEmpty (km_pack_id (pk_metadata m))
         ''workbench packs must contain at least one workflow, review routine, or report profile'') @
     pack_workflow_issues 0 [] (pk_workflows m) @
     pack_profile_issues 0 [] (pk_report_profiles m) @
     pack_routine_issues (pack_workflow_inputs (pk_workflows m)) (map profile_id_of (pk_report_profiles m)) 0 []
       (pk_review_routines m) @
     validate_workbench_pack_entrypoint_routine_references (pk_entrypoint_routine_ids m)
       (map routine_id_of (pk_review_routines m))"

definition pack_error :: "WorkbenchPackManifest \<Rightarrow> string option" where
  "pack_error m = (case validate_workbench_pack_manifest m of [] \<Rightarrow> None | i # _ \<Rightarrow> Some (pi_message i))"

definition pack_id_params_error :: "string \<Rightarrow> string option" where
  "pack_id_params_error pack_id = validate_workbench_pack_id_field pack_id"

record ImportWorkbenchPackParams =
  ip_pack :: WorkbenchPackManifest
  ip_overwrite :: bool

definition import_pack_error :: "ImportWorkbenchPackParams \<Rightarrow> string option" where
  "import_pack_error p = pack_error (ip_pack p)"

section \<open>Packs without issues\<close>

lemma pack_workflows_clean:
  "pack_workflow_issues index seen ws = [] \<longleftrightarrow>
     list_all (\<lambda>w. workflow_error w = None \<and> \<not> built_in_workflow_id (workflow_id_of w)) ws \<and>
     distinct (map workflow_id_of ws) \<and> set seen \<inter> workflow_id_of ` set ws = {}"
  by (induction ws arbitrary: index seen) auto

lemma pack_profiles_clean:
  "pack_profile_issues index seen ps = [] \<longleftrightarrow>
     list_all (\<lambda>p. profile_error p = None) ps \<and>
     distinct (map profile_id_of ps) \<and> set seen \<inter> profile_id_of ` set ps = {}"
  by (induction ps arbitrary: index seen) auto

lemma pack_routines_clean:
  "pack_routine_issues inputs profiles index seen rs = [] \<longleftrightarrow>
     list_all (\<lambda>r. routine_error r = None \<and> \<not> built_in_routine_id (routine_id_of r) \<and>
       validate_workbench_pack_routine_references r inputs profiles = []) rs \<and>
     distinct (map routine_id_of rs) \<and> set seen \<inter> routine_id_of ` set rs = {}"
  by (induction rs arbitrary: index seen) auto

end
