(* ===== verification/Catalog.thy ===== *)
theory Catalog
  imports Packs RustPath "HOL-Library.Char_ord" "HOL-Library.List_Lexorder" "HOL-Library.Product_Lexorder"
begin

text \<open>
  The catalog of assets: \<open>crates/slipbox-engine/src/workflows.rs\<close>.  It starts from the
  built-in workflows and routines, adds the specifications found in the configured
  directories and then the assets of the imported packs; an asset that is invalid, that
  reuses an id, or whose references do not resolve becomes an issue instead.
\<close>

section \<open>State\<close>

record WorkflowCatalogIssue =
  ci_path :: string
  ci_kind :: WorkflowCatalogIssueKind
  ci_pack_id :: "string option"
  ci_workflow_id :: "string option"
  ci_routine_id :: "string option"
  ci_profile_id :: "string option"
  ci_message :: string

text \<open>
  \<open>WorkflowCatalog\<close> with the three maps from an id to where the asset came from, which
  exist only while the catalog is built.
\<close>

record WorkflowCatalog =
  ct_workflows :: "WorkflowSpec list"
  ct_review_routines :: "ReviewRoutineSpec list"
  ct_report_profiles :: "ReportProfileSpec list"
  ct_issues :: "WorkflowCatalogIssue list"
  ct_workflow_sources :: "string \<Rightarrow> string option"
  ct_routine_sources :: "string \<Rightarrow> string option"
  ct_profile_sources :: "string \<Rightarrow> string option"

definition catalog_summaries :: "WorkflowCatalog \<Rightarrow> WorkflowSummary list" where
  "catalog_summaries c = map workflow_summary (ct_workflows c)"

definition catalog_workflow :: "WorkflowCatalog \<Rightarrow> string \<Rightarrow> WorkflowSpec option" where
  "catalog_workflow c workflow_id = find (\<lambda>w. workflow_id_of w = workflow_id) (ct_workflows c)"

definition catalog_review_routine :: "WorkflowCatalog \<Rightarrow> string \<Rightarrow> ReviewRoutineSpec option" where
  "catalog_review_routine c routine_id = find (\<lambda>r. routine_id_of r = routine_id) (ct_review_routines c)"

definition catalog_routine_summaries :: "WorkflowCatalog \<Rightarrow> ReviewRoutineSummary list" where
  "catalog_routine_summaries c = map routine_summary (ct_review_routines c)"

definition catalog_report_profile :: "WorkflowCatalog \<Rightarrow> string \<Rightarrow> ReportProfileSpec option" where
  "catalog_report_profile c profile_id = find (\<lambda>p. profile_id_of p = profile_id) (ct_report_profiles c)"

section \<open>Issues\<close>

definition base_catalog_issue :: "string \<Rightarrow> WorkflowCatalogIssueKind \<Rightarrow> string \<Rightarrow> WorkflowCatalogIssue" where
  "base_catalog_issue path kind message =
     \<lparr>ci_path = path, ci_kind = kind, ci_pack_id = None, ci_workflow_id = None, ci_routine_id = None,
      ci_profile_id = None, ci_message = message\<rparr>"

definition workflow_catalog_issue ::
  "string \<Rightarrow> WorkflowCatalogIssueKind \<Rightarrow> string option \<Rightarrow> string \<Rightarrow> WorkflowCatalogIssue" where
  "workflow_catalog_issue path kind workflow_id message =
     (base_catalog_issue path kind message)\<lparr>ci_workflow_id := workflow_id\<rparr>"

definition pack_source :: "WorkbenchPackManifest \<Rightarrow> string" where
  "pack_source pack = ''workbench pack '' @ km_pack_id (pk_metadata pack)"

definition pack_catalog_issue ::
  "WorkbenchPackManifest \<Rightarrow> WorkflowCatalogIssueKind \<Rightarrow> string option \<Rightarrow> string option \<Rightarrow> string option \<Rightarrow>
   string \<Rightarrow> WorkflowCatalogIssue" where
  "pack_catalog_issue pack kind workflow_id routine_id profile_id message =
     \<lparr>ci_path = pack_source pack, ci_kind = kind, ci_pack_id = Some (km_pack_id (pk_metadata pack)),
      ci_workflow_id = workflow_id, ci_routine_id = routine_id, ci_profile_id = profile_id,
      ci_message = message\<rparr>"

definition duplicate_message :: "string \<Rightarrow> string \<Rightarrow> string" where
  "duplicate_message asset existing_source =
     (if existing_source = ''built-in workflow'' then asset @ '' collides with built-in workflow''
      else asset @ '' collides with '' @ existing_source)"

definition push_issue :: "WorkflowCatalogIssue \<Rightarrow> WorkflowCatalog \<Rightarrow> WorkflowCatalog" where
  "push_issue i c = c\<lparr>ct_issues := ct_issues c @ [i]\<rparr>"

section \<open>Adding an asset\<close>

definition workflow_issue ::
  "WorkbenchPackManifest option \<Rightarrow> string \<Rightarrow> WorkflowCatalogIssueKind \<Rightarrow> string \<Rightarrow> string \<Rightarrow> WorkflowCatalogIssue" where
  "workflow_issue pack source kind workflow_id message =
     (case pack of
        Some p \<Rightarrow> pack_catalog_issue p kind (Some workflow_id) None None message
      | None \<Rightarrow> workflow_catalog_issue source kind (Some workflow_id) message)"

definition add_workflow ::
  "WorkflowSpec \<Rightarrow> string \<Rightarrow> WorkbenchPackManifest option \<Rightarrow> WorkflowCatalog \<Rightarrow> WorkflowCatalog" where
  "add_workflow w source pack c =
     (case workflow_error w of
        Some message \<Rightarrow> push_issue (workflow_issue pack source IssueInvalidSpec (workflow_id_of w) message) c
      | None \<Rightarrow>
          (case ct_workflow_sources c (workflow_id_of w) of
             Some existing_source \<Rightarrow>
               push_issue (workflow_issue pack source IssueDuplicateWorkflowId (workflow_id_of w)
                 (duplicate_message ''workflow_id'' existing_source)) c
           | None \<Rightarrow>
               c\<lparr>ct_workflow_sources := (ct_workflow_sources c)(workflow_id_of w \<mapsto>
                   (case pack of Some p \<Rightarrow> pack_source p | None \<Rightarrow> ''discovered workflow from '' @ source)),
                 ct_workflows := ct_workflows c @ [w]\<rparr>))"

definition add_report_profile :: "ReportProfileSpec \<Rightarrow> WorkbenchPackManifest \<Rightarrow> WorkflowCatalog \<Rightarrow> WorkflowCatalog" where
  "add_report_profile p pack c =
     (case profile_error p of
        Some message \<Rightarrow>
          push_issue (pack_catalog_issue pack IssueInvalidReportProfile None None (Some (profile_id_of p)) message) c
      | None \<Rightarrow>
          (case ct_profile_sources c (profile_id_of p) of
             Some existing_source \<Rightarrow>
               push_issue (pack_catalog_issue pack IssueDuplicateReportProfileId None None (Some (profile_id_of p))
                 (duplicate_message ''profile_id'' existing_source)) c
           | None \<Rightarrow>
               c\<lparr>ct_profile_sources := (ct_profile_sources c)(profile_id_of p \<mapsto> pack_source pack),
                 ct_report_profiles := ct_report_profiles c @ [p]\<rparr>))"

definition validate_review_routine_workflow_inputs ::
  "ReviewRoutineSpec \<Rightarrow> WorkflowInputSpec list \<Rightarrow> string option" where
  "validate_review_routine_workflow_inputs r workflow_inputs =
     or_else
       (first_error (\<lambda>input.
            case find (\<lambda>i. wi_input_id i = wi_input_id input) workflow_inputs of
              Some workflow_input \<Rightarrow>
                if wi_kind workflow_input = wi_kind input then None
                else Some (input_kind_differs r input workflow_input)
            | None \<Rightarrow> Some (input_not_accepted r input))
          (rt_inputs r))
       (first_error (\<lambda>i.
            error_if (\<not> list_ex (\<lambda>input. wi_input_id input = wi_input_id i) (rt_inputs r)) (input_missing r i))
          workflow_inputs)"

definition validate_review_routine_catalog_references ::
  "ReviewRoutineSpec \<Rightarrow> WorkflowSpec list \<Rightarrow> ReportProfileSpec list \<Rightarrow> string option" where
  "validate_review_routine_catalog_references r workflows report_profiles =
     or_else
       (case rt_source r of
          RoutineWorkflow workflow_id \<Rightarrow>
            (case find (\<lambda>w. workflow_id_of w = workflow_id) workflows of
               None \<Rightarrow> Some (missing_workflow r workflow_id)
             | Some w \<Rightarrow> validate_review_routine_workflow_inputs r (wf_inputs w))
        | _ \<Rightarrow> None)
    (or_else
       (case rt_compare r of
          Some policy \<Rightarrow>
            (case cp_report_profile_id policy of
               Some profile_id \<Rightarrow>
                 error_if (\<not> list_ex (\<lambda>p. profile_id_of p = profile_id) report_profiles)
                   (missing_profile (routine_id_of r) profile_id)
             | None \<Rightarrow> None)
        | None \<Rightarrow> None)
       (first_error (\<lambda>profile_id.
            error_if (\<not> list_ex (\<lambda>p. profile_id_of p = profile_id) report_profiles)
              (missing_profile (routine_id_of r) profile_id))
          (rt_report_profile_ids r)))"

definition add_review_routine :: "ReviewRoutineSpec \<Rightarrow> WorkbenchPackManifest \<Rightarrow> WorkflowCatalog \<Rightarrow> WorkflowCatalog" where
  "add_review_routine r pack c =
     (case or_else (routine_error r)
             (validate_review_routine_catalog_references r (ct_workflows c) (ct_report_profiles c)) of
        Some message \<Rightarrow>
          push_issue (pack_catalog_issue pack IssueInvalidReviewRoutine None (Some (routine_id_of r)) None message) c
      | None \<Rightarrow>
          (case ct_routine_sources c (routine_id_of r) of
             Some existing_source \<Rightarrow>
               push_issue (pack_catalog_issue pack IssueDuplicateReviewRoutineId None (Some (routine_id_of r)) None
                 (duplicate_message ''routine_id'' existing_source)) c
           | None \<Rightarrow>
               c\<lparr>ct_routine_sources := (ct_routine_sources c)(routine_id_of r \<mapsto> pack_source pack),
                 ct_review_routines := ct_review_routines c @ [r]\<rparr>))"

definition collect_assets_from_pack :: "WorkbenchPackManifest \<Rightarrow> WorkflowCatalog \<Rightarrow> WorkflowCatalog" where
  "collect_assets_from_pack pack c =
     (case pack_metadata_error (pk_metadata pack) of
        Some message \<Rightarrow> push_issue (pack_catalog_issue pack IssueInvalidPack None None None message) c
      | None \<Rightarrow>
          (case pack_compatibility_error (pk_compatibility pack) of
             Some message \<Rightarrow> push_issue (pack_catalog_issue pack IssueUnsupportedVersion None None None message) c
           | None \<Rightarrow>
               fold (\<lambda>r. add_review_routine r pack) (pk_review_routines pack)
                 (fold (\<lambda>p. add_report_profile p pack) (pk_report_profiles pack)
                   (fold (\<lambda>w. add_workflow w (pack_source pack) (Some pack)) (pk_workflows pack) c))))"

section \<open>Directories\<close>

text \<open>
  What the file system and the JSON reader answer; a failure carries its text.
  \<open>fd_read_dir\<close> gives the names of the entries, in the order of the system.
\<close>

record WorkflowSpecCompatibilityEnvelope =
  ve_workflow_id :: "string option"
  ve_compatibility :: WorkflowSpecCompatibility

record 'b spec_files =
  fd_exists :: "string \<Rightarrow> bool"
  fd_is_dir :: "string \<Rightarrow> bool"
  fd_read_dir :: "string \<Rightarrow> string + (string + string) list"
  fd_is_file :: "string \<Rightarrow> bool"
  fd_read :: "string \<Rightarrow> string + 'b"
  fd_envelope :: "'b \<Rightarrow> string + WorkflowSpecCompatibilityEnvelope"
  fd_spec :: "'b \<Rightarrow> string + WorkflowSpec"

definition path_join :: "string \<Rightarrow> string \<Rightarrow> string" where
  "path_join base p =
     (if prefix ''/'' p then p
      else if base = [] \<or> suffix ''/'' base then base @ p
      else base @ ''/'' @ p)"

definition load_workflow_spec_from_file :: "'b spec_files \<Rightarrow> string \<Rightarrow> WorkflowCatalog \<Rightarrow> WorkflowCatalog" where
  "load_workflow_spec_from_file fd path c =
     (case fd_read fd path of
        Inl e \<Rightarrow> push_issue (base_catalog_issue path IssueIo (''failed to read workflow spec JSON: '' @ e)) c
      | Inr bytes \<Rightarrow>
          (case fd_envelope fd bytes of
             Inl e \<Rightarrow> push_issue (workflow_catalog_issue path IssueMalformedJson None
                       (''failed to parse workflow spec JSON: '' @ e)) c
           | Inr envelope \<Rightarrow>
               (case compatibility_error (ve_compatibility envelope) of
                  Some message \<Rightarrow>
                    push_issue (workflow_catalog_issue path
                      (if WORKFLOW_SPEC_COMPATIBILITY_VERSION < wc_version (ve_compatibility envelope)
                       then IssueUnsupportedVersion else IssueInvalidSpec)
                      (ve_workflow_id envelope) message) c
                | None \<Rightarrow>
                    (case fd_spec fd bytes of
                       Inl e \<Rightarrow> push_issue (workflow_catalog_issue path IssueMalformedJson (ve_workflow_id envelope)
                                 (''failed to parse workflow spec JSON: '' @ e)) c
                     | Inr w \<Rightarrow> add_workflow w path None c))))"

definition spec_entry :: "'b spec_files \<Rightarrow> string \<Rightarrow> string \<Rightarrow> bool" where
  "spec_entry fd directory name \<longleftrightarrow>
     fd_is_file fd (path_join directory name) \<and>
     (case extension name of Some e \<Rightarrow> eq_ignore_case e ''json'' | None \<Rightarrow> False)"

text \<open>
  The entries that cannot be read are reported as the listing goes on, before any file
  is loaded; paths below one directory are ordered as their names are.
\<close>

definition entry_name :: "string + string \<Rightarrow> string list" where
  "entry_name entry = (case entry of Inl e \<Rightarrow> [] | Inr name \<Rightarrow> [name])"

definition entry_issue :: "string \<Rightarrow> string + string \<Rightarrow> WorkflowCatalogIssue list" where
  "entry_issue directory entry =
     (case entry of
        Inl e \<Rightarrow> [base_catalog_issue directory IssueIo (''failed to read workflow directory entry: '' @ e)]
      | Inr name \<Rightarrow> [])"

definition collect_workflows_from_directory :: "'b spec_files \<Rightarrow> string \<Rightarrow> WorkflowCatalog \<Rightarrow> WorkflowCatalog" where
  "collect_workflows_from_directory fd directory c =
     (if \<not> fd_exists fd directory
      then push_issue (base_catalog_issue directory IssueDirectory
             ''configured workflow directory does not exist'') c
      else if \<not> fd_is_dir fd directory
      then push_issue (base_catalog_issue directory IssueDirectory
             ''configured workflow directory is not a directory'') c
      else (case fd_read_dir fd directory of
          Inl e \<Rightarrow> push_issue (base_catalog_issue directory IssueIo
                    (''failed to read workflow directory: '' @ e)) c
        | Inr entries \<Rightarrow>
            fold (\<lambda>name. load_workflow_spec_from_file fd (path_join directory name))
              (sort (filter (spec_entry fd directory) (concat (map entry_name entries))))
              (fold push_issue (concat (map (entry_issue directory) entries)) c)))"

section \<open>The whole catalog\<close>

definition initial_catalog :: WorkflowCatalog where
  "initial_catalog =
     \<lparr>ct_workflows = built_in_workflows, ct_review_routines = built_in_review_routines,
      ct_report_profiles = [], ct_issues = [],
      ct_workflow_sources = (\<lambda>i. if built_in_workflow_id i then Some ''built-in workflow'' else None),
      ct_routine_sources = (\<lambda>i. if built_in_routine_id i then Some ''built-in routine'' else None),
      ct_profile_sources = (\<lambda>i. None)\<rparr>"

definition pack_order :: "WorkbenchPackManifest \<Rightarrow> string \<times> string" where
  "pack_order pack = (km_pack_id (pk_metadata pack), km_title (pk_metadata pack))"

definition discover_workflow_catalog ::
  "'b spec_files \<Rightarrow> string \<Rightarrow> string list \<Rightarrow> WorkbenchPackManifest list \<Rightarrow> WorkflowCatalog" where
  "discover_workflow_catalog fd root workflow_dirs packs =
     fold collect_assets_from_pack (sort_key pack_order packs)
       (fold (\<lambda>directory. collect_workflows_from_directory fd (path_join root directory)) workflow_dirs
         initial_catalog)"

end
