(* ===== verification/RoutineRun.thy ===== *)
theory RoutineRun
  imports Catalog WorkflowRun "HOL-Library.Word"
begin

unbundle bit_operations_syntax

text \<open>
  Saving reviews and running review routines: the handlers of
  \<open>crates/slipbox-engine/src/handlers/query/reviews.rs\<close>,
  \<open>assets/routines.rs\<close>, the review part of \<open>assets/workflows.rs\<close> and the helpers of
  \<open>assets/common.rs\<close>.  The database is a parameter; reading the parameters of a request
  from JSON and writing the result to it is left out.
\<close>

section \<open>The database\<close>

text \<open>\<open>rg_encode_inputs\<close> is \<open>serde_json::to_vec\<close> on a list of assignments; its error is a text.\<close>

record ('v, 's) review_engine =
  rg_queries :: "('v, 's) engine"
  rg_review_run :: "string \<Rightarrow> 's \<Rightarrow> (ReviewRun option, unit) outcome \<times> 's"
  rg_reviews_newest_first :: "'s \<Rightarrow> (ReviewRun list, unit) outcome \<times> 's"
  rg_save_review_run :: "ReviewRun \<Rightarrow> 's \<Rightarrow> (unit, unit) outcome \<times> 's"
  rg_save_review_run_if_absent :: "ReviewRun \<Rightarrow> 's \<Rightarrow> (bool, unit) outcome \<times> 's"
  rg_delete_review_run :: "string \<Rightarrow> 's \<Rightarrow> (bool, unit) outcome \<times> 's"
  rg_audit_dangling_links :: "nat \<Rightarrow> 's \<Rightarrow> (DanglingLinkAuditRecord list, unit) outcome \<times> 's"
  rg_audit_duplicate_titles :: "nat \<Rightarrow> 's \<Rightarrow> (DuplicateTitleAuditRecord list, unit) outcome \<times> 's"
  rg_audit_orphan_notes :: "nat \<Rightarrow> 's \<Rightarrow> (NoteConnectivityAuditRecord list, unit) outcome \<times> 's"
  rg_audit_weakly_integrated_notes :: "nat \<Rightarrow> 's \<Rightarrow> (NoteConnectivityAuditRecord list, unit) outcome \<times> 's"
  rg_encode_inputs :: "WorkflowInputAssignment list \<Rightarrow> string + 8 word list"

definition db_query :: "string \<Rightarrow> ('s \<Rightarrow> ('a, unit) outcome \<times> 's) \<Rightarrow> ('a, 'v, 's) query" where
  "db_query context m s = (case m s of (r, s') \<Rightarrow> (map_err (\<lambda>_. internal_error context) r, s'))"

definition refuse_if :: "string option \<Rightarrow> (unit, 'v, 's) query" where
  "refuse_if e = (case e of Some message \<Rightarrow> q_fail (invalid_request message) | None \<Rightarrow> q_return ())"

definition existing_review :: "string \<Rightarrow> 'v failure" where
  "existing_review review_id = invalid_request (''review run already exists: '' @ review_id)"

definition save_review_run_with_policy ::
  "('v, 's) review_engine \<Rightarrow> ReviewRun \<Rightarrow> bool \<Rightarrow> (ReviewRunSummary, 'v, 's) query" where
  "save_review_run_with_policy g review overwrite =
     (if overwrite then
        q_bind (db_query ''failed to save review run'' (rg_save_review_run g review))
          (\<lambda>_. q_return (review_summary review))
      else
        q_bind (db_query ''failed to save review run without overwrite'' (rg_save_review_run_if_absent g review))
          (\<lambda>saved. if saved then q_return (review_summary review)
             else q_fail (existing_review (rm_review_id (rr_metadata review)))))"

definition reject_existing_review_run :: "('v, 's) review_engine \<Rightarrow> string \<Rightarrow> (unit, 'v, 's) query" where
  "reject_existing_review_run g review_id =
     q_bind (db_query ''failed to load review run'' (rg_review_run g review_id)) (\<lambda>found.
       if found \<noteq> None then q_fail (existing_review review_id) else q_return ())"

definition known_review_run :: "('v, 's) review_engine \<Rightarrow> string \<Rightarrow> (ReviewRun, 'v, 's) query" where
  "known_review_run g review_id =
     q_bind (db_query ''failed to load review run'' (rg_review_run g review_id)) (\<lambda>found.
       case found of Some review \<Rightarrow> q_return review
       | None \<Rightarrow> q_fail (invalid_request (''unknown review run: '' @ review_id)))"

section \<open>Reviews of an audit\<close>

fun render_audit_kind :: "CorpusAuditKind \<Rightarrow> string" where
  "render_audit_kind DanglingLinks = ''dangling-links''"
| "render_audit_kind DuplicateTitles = ''duplicate-titles''"
| "render_audit_kind OrphanNotes = ''orphan-notes''"
| "render_audit_kind WeaklyIntegratedNotes = ''weakly-integrated-notes''"

fun title_for_audit_kind :: "CorpusAuditKind \<Rightarrow> string" where
  "title_for_audit_kind DanglingLinks = ''Dangling Links''"
| "title_for_audit_kind DuplicateTitles = ''Duplicate Titles''"
| "title_for_audit_kind OrphanNotes = ''Orphan Notes''"
| "title_for_audit_kind WeaklyIntegratedNotes = ''Weakly Integrated Notes''"

definition generated_audit_review_id :: "CorpusAuditParams \<Rightarrow> string" where
  "generated_audit_review_id p =
     ''review/audit/'' @ render_audit_kind (cap_audit p) @ ''/limit-'' @ show_nat (audit_limit p)"

fun audit_finding_id :: "CorpusAuditEntry \<Rightarrow> string" where
  "audit_finding_id (DanglingLink r) =
     ''audit/dangling-links/'' @ nd_node_key (dl_source r) @ ''/'' @ dl_missing_explicit_id r @ ''/'' @
     show_nat (dl_line r) @ ''/'' @ show_nat (dl_column r)"
| "audit_finding_id (DuplicateTitle r) =
     ''audit/duplicate-titles/'' @ join_str '','' (sort (map nd_node_key (dt_notes r)))"
| "audit_finding_id (OrphanNote r) = ''audit/orphan-notes/'' @ nd_node_key (nca_node r)"
| "audit_finding_id (WeaklyIntegratedNote r) = ''audit/weakly-integrated-notes/'' @ nd_node_key (nca_node r)"

definition open_finding :: "string \<Rightarrow> ReviewFindingPayload \<Rightarrow> ReviewFinding" where
  "open_finding finding_id payload = \<lparr>rf_finding_id = finding_id, rf_status = StatusOpen, rf_payload = payload\<rparr>"

definition audit_review :: "SaveCorpusAuditReviewParams \<Rightarrow> CorpusAuditResult \<Rightarrow> ReviewRun" where
  "audit_review p r =
     \<lparr>rr_metadata =
        \<lparr>rm_review_id = (case sa_review_id p of Some i \<Rightarrow> i | None \<Rightarrow> generated_audit_review_id (audit_params p)),
         rm_title = (case sa_title p of Some t \<Rightarrow> t | None \<Rightarrow> title_for_audit_kind (car_audit r) @ '' Review''),
         rm_summary = or_else (sa_summary p)
           (Some (show_nat (length (car_entries r)) @ '' findings from '' @ render_audit_kind (car_audit r) @
                  '' audit with limit '' @ show_nat (audit_limit (audit_params p))))\<rparr>,
      rr_payload = AuditRun (car_audit r) (audit_limit (audit_params p)),
      rr_findings = map (\<lambda>entry. open_finding (audit_finding_id entry) (AuditPayload entry)) (car_entries r)\<rparr>"

definition checked_review :: "ReviewRun \<Rightarrow> (ReviewRun, 'v, 's) query" where
  "checked_review review = q_bind (refuse_if (review_error review)) (\<lambda>_. q_return review)"

definition review_from_audit_result ::
  "SaveCorpusAuditReviewParams \<Rightarrow> CorpusAuditResult \<Rightarrow> (ReviewRun, 'v, 's) query" where
  "review_from_audit_result p r = checked_review (audit_review p r)"

definition execute_corpus_audit_query ::
  "('v, 's) review_engine \<Rightarrow> CorpusAuditParams \<Rightarrow> (CorpusAuditResult, 'v, 's) query" where
  "execute_corpus_audit_query g p =
     q_bind
       (case cap_audit p of
          DanglingLinks \<Rightarrow>
            q_bind (db_query ''failed to query dangling link audit'' (rg_audit_dangling_links g (audit_limit p)))
              (\<lambda>rs. q_return (map DanglingLink rs))
        | DuplicateTitles \<Rightarrow>
            q_bind (db_query ''failed to query duplicate title audit'' (rg_audit_duplicate_titles g (audit_limit p)))
              (\<lambda>rs. q_return (map DuplicateTitle rs))
        | OrphanNotes \<Rightarrow>
            q_bind (db_query ''failed to query orphan note audit'' (rg_audit_orphan_notes g (audit_limit p)))
              (\<lambda>rs. q_return (map OrphanNote rs))
        | WeaklyIntegratedNotes \<Rightarrow>
            q_bind (db_query ''failed to query weakly integrated note audit''
                (rg_audit_weakly_integrated_notes g (audit_limit p)))
              (\<lambda>rs. q_return (map WeaklyIntegratedNote rs)))
       (\<lambda>entries. q_return \<lparr>car_audit = cap_audit p, car_entries = entries\<rparr>)"

definition save_corpus_audit_review ::
  "('v, 's) review_engine \<Rightarrow> SaveCorpusAuditReviewParams \<Rightarrow> (CorpusAuditResult \<times> ReviewRunSummary, 'v, 's) query" where
  "save_corpus_audit_review g p =
     q_bind (refuse_if (save_audit_review_error p)) (\<lambda>_.
     q_bind (execute_corpus_audit_query g (audit_params p)) (\<lambda>r.
     q_bind (review_from_audit_result p r) (\<lambda>review.
     q_bind (save_review_run_with_policy g review (sa_overwrite p)) (\<lambda>summary. q_return (r, summary)))))"

section \<open>Stored reviews\<close>

definition save_review_run ::
  "('v, 's) review_engine \<Rightarrow> ReviewRun \<Rightarrow> bool \<Rightarrow> (ReviewRunSummary, 'v, 's) query" where
  "save_review_run g review overwrite =
     q_bind (refuse_if (save_review_error review)) (\<lambda>_. save_review_run_with_policy g review overwrite)"

definition review_run :: "('v, 's) review_engine \<Rightarrow> string \<Rightarrow> (ReviewRun, 'v, 's) query" where
  "review_run g review_id =
     q_bind (refuse_if (review_id_params_error review_id)) (\<lambda>_. known_review_run g review_id)"

definition diff_review_runs :: "('v, 's) review_engine \<Rightarrow> string \<Rightarrow> string \<Rightarrow> (ReviewRunDiff, 'v, 's) query" where
  "diff_review_runs g base_id target_id =
     q_bind (refuse_if (review_diff_params_error base_id target_id)) (\<lambda>_.
     q_bind (known_review_run g base_id) (\<lambda>base.
     q_bind (known_review_run g target_id) (\<lambda>target s.
       (map_err invalid_request (diff_between base target), s))))"

definition unknown_finding :: "string \<Rightarrow> string \<Rightarrow> 'v failure" where
  "unknown_finding finding_id review_id =
     invalid_request (''unknown review finding '' @ finding_id @ '' in review run '' @ review_id)"

definition known_finding :: "string \<Rightarrow> string \<Rightarrow> ReviewRun \<Rightarrow> (ReviewFinding, 'v, 's) query" where
  "known_finding review_id finding_id review =
     (case find (\<lambda>f. rf_finding_id f = finding_id) (rr_findings review) of
        Some f \<Rightarrow> q_return f
      | None \<Rightarrow> q_fail (unknown_finding finding_id review_id))"

definition review_finding_remediation_preview ::
  "(string \<Rightarrow> string) \<Rightarrow> ('v, 's) review_engine \<Rightarrow> string \<Rightarrow> string \<Rightarrow>
   (ReviewFindingRemediationPreview, 'v, 's) query" where
  "review_finding_remediation_preview debug g review_id finding_id =
     q_bind (refuse_if (remediation_preview_params_error review_id finding_id)) (\<lambda>_.
     q_bind (known_review_run g review_id) (\<lambda>review.
     q_bind (known_finding review_id finding_id review) (\<lambda>f s.
       (map_err invalid_request (from_review_finding debug review_id f), s))))"

definition delete_review_run :: "('v, 's) review_engine \<Rightarrow> string \<Rightarrow> (string, 'v, 's) query" where
  "delete_review_run g review_id =
     q_bind (refuse_if (review_id_params_error review_id)) (\<lambda>_.
     q_bind (db_query ''failed to delete review run'' (rg_delete_review_run g review_id)) (\<lambda>deleted.
       if deleted then q_return review_id
       else q_fail (invalid_request (''unknown review run: '' @ review_id))))"

text \<open>\<open>iter_mut().find(...)\<close> changes the first finding with the id.\<close>

fun set_status :: "string \<Rightarrow> ReviewFindingStatus \<Rightarrow> ReviewFinding list \<Rightarrow> ReviewFinding list" where
  "set_status finding_id status [] = []"
| "set_status finding_id status (f # fs) =
     (if rf_finding_id f = finding_id then f\<lparr>rf_status := status\<rparr> # fs
      else f # set_status finding_id status fs)"

definition mark_review_finding ::
  "('v, 's) review_engine \<Rightarrow> MarkReviewFindingParams \<Rightarrow> (ReviewFindingStatusTransition, 'v, 's) query" where
  "mark_review_finding g p =
     q_bind (refuse_if (mark_finding_error p)) (\<lambda>_.
     q_bind (known_review_run g (mf_review_id p)) (\<lambda>review.
     q_bind (known_finding (mf_review_id p) (mf_finding_id p) review) (\<lambda>f.
       let transition = \<lparr>st_review_id = mf_review_id p, st_finding_id = mf_finding_id p,
                         st_from_status = rf_status f, st_to_status = mf_status p\<rparr> in
       q_bind (refuse_if (status_transition_error transition)) (\<lambda>_.
       q_bind (db_query ''failed to save review run'' (rg_save_review_run g
           (review\<lparr>rr_findings := set_status (mf_finding_id p) (mf_status p) (rr_findings review)\<rparr>)))
         (\<lambda>_. q_return transition)))))"

section \<open>Reviews of a workflow\<close>

text \<open>64-bit FNV-1a over the bytes, in sixteen hexadecimal digits.\<close>

definition fnv_step :: "64 word \<Rightarrow> 8 word \<Rightarrow> 64 word" where
  "fnv_step hash byte = (hash XOR ucast byte) * 0x100000001b3"

definition hex_digit_of :: "nat \<Rightarrow> char" where
  "hex_digit_of n = (if n < 10 then char_of (48 + n) else char_of (87 + n))"

fun hex_padded :: "nat \<Rightarrow> nat \<Rightarrow> string" where
  "hex_padded 0 n = []"
| "hex_padded (Suc width) n = hex_padded width (n div 16) @ [hex_digit_of (n mod 16)]"

definition fingerprint :: "8 word list \<Rightarrow> string" where
  "fingerprint bytes = hex_padded 16 (unat (foldl fnv_step 0xcbf29ce484222325 bytes))"

definition stable_json_fingerprint ::
  "('v, 's) review_engine \<Rightarrow> WorkflowInputAssignment list \<Rightarrow> (string, 'v, 's) query" where
  "stable_json_fingerprint g inputs =
     (case rg_encode_inputs g inputs of
        Inl e \<Rightarrow> q_fail (internal_error (''failed to serialize review source: '' @ e))
      | Inr bytes \<Rightarrow> q_return (fingerprint bytes))"

text \<open>Shared by workflows and routines: \<open>review/<id>\<close>, with a fingerprint of the sorted inputs if there are any.\<close>

definition generated_review_id ::
  "('v, 's) review_engine \<Rightarrow> string \<Rightarrow> WorkflowInputAssignment list \<Rightarrow> (string, 'v, 's) query" where
  "generated_review_id g asset_id inputs =
     (if inputs = [] then q_return (''review/'' @ asset_id)
      else q_bind (stable_json_fingerprint g (sort_key ia_input_id inputs))
        (\<lambda>print. q_return (''review/'' @ asset_id @ ''/inputs-'' @ print)))"

definition intended_workflow_review_id ::
  "('v, 's) review_engine \<Rightarrow> SaveWorkflowReviewParams \<Rightarrow> (string, 'v, 's) query" where
  "intended_workflow_review_id g p =
     (case sw_review_id p of Some i \<Rightarrow> q_return i | None \<Rightarrow> generated_review_id g (sw_workflow_id p) (sw_inputs p))"

definition workflow_review :: "SaveWorkflowReviewParams \<Rightarrow> WorkflowExecutionResult \<Rightarrow> string \<Rightarrow> ReviewRun" where
  "workflow_review p r review_id =
     \<lparr>rr_metadata =
        \<lparr>rm_review_id = review_id,
         rm_title = (case sw_title p of Some t \<Rightarrow> t
                     | None \<Rightarrow> wm_title (ws_metadata (wx_workflow r)) @ '' Review''),
         rm_summary = or_else (sw_summary p)
           (Some (show_nat (length (wx_steps r)) @ '' step findings from workflow '' @
                  wm_workflow_id (ws_metadata (wx_workflow r))))\<rparr>,
      rr_payload = WorkflowRun (wx_workflow r) (sw_inputs p) (map wsr_step_id (wx_steps r)),
      rr_findings = map (\<lambda>step. open_finding (''workflow-step/'' @ wsr_step_id step) (WorkflowStepPayload step))
        (wx_steps r)\<rparr>"

definition review_from_workflow_result ::
  "SaveWorkflowReviewParams \<Rightarrow> WorkflowExecutionResult \<Rightarrow> string \<Rightarrow> (ReviewRun, 'v, 's) query" where
  "review_from_workflow_result p r review_id = checked_review (workflow_review p r review_id)"

definition unknown_workflow :: "string \<Rightarrow> 'v failure" where
  "unknown_workflow workflow_id = invalid_request (''unknown workflow: '' @ workflow_id)"

definition save_workflow_review ::
  "('v, 's) review_engine \<Rightarrow> WorkflowCatalog \<Rightarrow> SaveWorkflowReviewParams \<Rightarrow>
   (WorkflowExecutionResult \<times> ReviewRunSummary, 'v, 's) query" where
  "save_workflow_review g c p =
     q_bind (refuse_if (save_workflow_review_error p)) (\<lambda>_.
     q_bind (intended_workflow_review_id g p) (\<lambda>review_id.
       case catalog_workflow c (sw_workflow_id p) of
         None \<Rightarrow> q_fail (unknown_workflow (sw_workflow_id p))
       | Some w \<Rightarrow>
           q_bind (if sw_overwrite p then q_return () else reject_existing_review_run g review_id) (\<lambda>_.
           q_bind (execute_workflow_spec (rg_queries g) w (sw_inputs p)) (\<lambda>r.
           q_bind (review_from_workflow_result p r review_id) (\<lambda>review.
           q_bind (save_review_run_with_policy g review (sw_overwrite p)) (\<lambda>summary. q_return (r, summary)))))))"

section \<open>Routines\<close>

definition intended_routine_review_id ::
  "('v, 's) review_engine \<Rightarrow> ReviewRoutineSpec \<Rightarrow> WorkflowInputAssignment list \<Rightarrow> (string, 'v, 's) query" where
  "intended_routine_review_id g r inputs =
     (case sp_review_id (rt_save_review r) of Some i \<Rightarrow> q_return i
      | None \<Rightarrow> generated_review_id g (routine_id_of r) inputs)"

definition validate_review_routine_input_assignments ::
  "ReviewRoutineSpec \<Rightarrow> WorkflowInputAssignment list \<Rightarrow> string option" where
  "validate_review_routine_input_assignments r inputs =
     or_else
       (scan_seen (\<lambda>index input seen.
            or_else
              (map_option (\<lambda>e. ''workflow input assignment '' @ show_nat index @ '' is invalid: '' @ e)
                (input_assignment_error input))
           (or_else
              (error_if (list_ex (\<lambda>input_id. input_id = ia_input_id input) seen)
                (''workflow input assignment '' @ show_nat index @ '' reuses duplicate input_id '' @ ia_input_id input))
              (error_if (\<not> list_ex (\<lambda>declared. wi_input_id declared = ia_input_id input) (rt_inputs r))
                (''workflow input assignment '' @ show_nat index @ '' references unknown input_id '' @ ia_input_id input))))
          ia_input_id 0 [] inputs)
       (map_option (\<lambda>input. ''workflow input '' @ wi_input_id input @ '' must be assigned'')
         (find (\<lambda>input. wi_input_id input \<notin> set (map ia_input_id inputs)) (rt_inputs r)))"

definition review_from_routine_source_result ::
  "ReviewRoutineSpec \<Rightarrow> WorkflowInputAssignment list \<Rightarrow> ReviewRoutineSourceExecutionResult \<Rightarrow> string \<Rightarrow>
   (ReviewRun, 'v, 's) query" where
  "review_from_routine_source_result r inputs source review_id =
     (case source of
        AuditExecuted res \<Rightarrow>
          review_from_audit_result
            \<lparr>sa_audit = car_audit res,
             sa_limit = (case rt_source r of RoutineAudit audit limit \<Rightarrow> limit | _ \<Rightarrow> 0),
             sa_review_id = Some review_id, sa_title = sp_title (rt_save_review r),
             sa_summary = sp_summary (rt_save_review r), sa_overwrite = sp_overwrite (rt_save_review r)\<rparr> res
      | WorkflowExecuted res \<Rightarrow>
          review_from_workflow_result
            \<lparr>sw_workflow_id = wm_workflow_id (ws_metadata (wx_workflow res)), sw_inputs = inputs,
             sw_review_id = Some review_id, sw_title = sp_title (rt_save_review r),
             sw_summary = sp_summary (rt_save_review r), sw_overwrite = sp_overwrite (rt_save_review r)\<rparr> res review_id)"

definition latest_compatible_review_run ::
  "('v, 's) review_engine \<Rightarrow> ReviewRun \<Rightarrow> (ReviewRun option, 'v, 's) query" where
  "latest_compatible_review_run g target =
     q_bind (db_query ''failed to list review runs'' (rg_reviews_newest_first g)) (\<lambda>reviews.
       q_return (find (\<lambda>review. is_ok (diff_between review target)) reviews))"

section \<open>Report profiles applied\<close>

fun report_line_status :: "ReviewRoutineReportLine \<Rightarrow> ReviewFindingStatus option" where
  "report_line_status (RLFinding f) = Some (rf_status f)"
| "report_line_status (RLAdded f) = Some (rf_status f)"
| "report_line_status (RLRemoved f) = Some (rf_status f)"
| "report_line_status (RLUnchanged p) = Some (rf_status (fp_target p))"
| "report_line_status (RLContentChanged p) = Some (rf_status (fp_target p))"
| "report_line_status (RLStatusChanged c) = Some (fd_to_status c)"
| "report_line_status _ = None"

fun report_line_bucket :: "ReviewRoutineReportLine \<Rightarrow> ReviewRunDiffBucket option" where
  "report_line_bucket (RLAdded f) = Some BucketAdded"
| "report_line_bucket (RLRemoved f) = Some BucketRemoved"
| "report_line_bucket (RLUnchanged p) = Some BucketUnchanged"
| "report_line_bucket (RLContentChanged p) = Some BucketContentChanged"
| "report_line_bucket (RLStatusChanged c) = Some BucketStatusChanged"
| "report_line_bucket _ = None"

text \<open>\<open>if let Some(xs) = filter && let Some(x) = value && !xs.contains(x) { return false; }\<close>\<close>

definition passes_filter :: "'a list option \<Rightarrow> 'a option \<Rightarrow> bool" where
  "passes_filter chosen v = (case (chosen, v) of (Some xs, Some x) \<Rightarrow> x \<in> set xs | _ \<Rightarrow> True)"

definition report_line_matches_profile :: "ReportProfileSpec \<Rightarrow> ReviewRoutineReportLine \<Rightarrow> bool" where
  "report_line_matches_profile p line \<longleftrightarrow>
     list_ex (\<lambda>subject. supports_line_kind subject (report_line_kind line)) (ps_subjects p) \<and>
     \<not> (ps_mode p = ModeSummary \<and> is_detail_line (report_line_kind line)) \<and>
     passes_filter (ps_jsonl_line_kinds p) (Some (report_line_kind line)) \<and>
     passes_filter (ps_status_filters p) (report_line_status line) \<and>
     passes_filter (ps_diff_buckets p) (report_line_bucket line)"

definition candidate_lines ::
  "ReviewRoutineSpec \<Rightarrow> ReviewRoutineSourceExecutionResult \<Rightarrow> ReviewRun option \<Rightarrow> ReviewRunDiff option \<Rightarrow>
   ReviewRoutineReportLine list" where
  "candidate_lines r source review diff =
     RLRoutine (routine_summary r) #
     (case source of
        AuditExecuted res \<Rightarrow> RLAudit (car_audit res) # map RLEntry (car_entries res)
      | WorkflowExecuted res \<Rightarrow> RLWorkflow (wx_workflow res) # map RLStep (wx_steps res)) @
     (case review of None \<Rightarrow> []
      | Some run \<Rightarrow> RLReview (review_summary run) # map RLFinding (rr_findings run)) @
     (case diff of None \<Rightarrow> []
      | Some d \<Rightarrow> RLDiff (df_base_review d) (df_target_review d) # map RLAdded (df_added d) @
          map RLRemoved (df_removed d) @ map RLUnchanged (df_unchanged d) @
          map RLContentChanged (df_content_changed d) @ map RLStatusChanged (df_status_changed d))"

definition apply_report_profile ::
  "ReportProfileSpec \<Rightarrow> ReviewRoutineSpec \<Rightarrow> ReviewRoutineSourceExecutionResult \<Rightarrow> ReviewRun option \<Rightarrow>
   ReviewRunDiff option \<Rightarrow> AppliedReportProfile" where
  "apply_report_profile p r source review diff =
     \<lparr>ap_profile = p, ap_lines = filter (report_line_matches_profile p) (candidate_lines r source review diff)\<rparr>"

section \<open>Running a routine\<close>

definition run_source ::
  "('v, 's) review_engine \<Rightarrow> WorkflowCatalog \<Rightarrow> ReviewRoutineSpec \<Rightarrow> WorkflowInputAssignment list \<Rightarrow>
   (ReviewRoutineSourceExecutionResult, 'v, 's) query" where
  "run_source g c r inputs =
     (case rt_source r of
        RoutineAudit audit limit \<Rightarrow>
          q_bind (execute_corpus_audit_query g \<lparr>cap_audit = audit, cap_limit = limit\<rparr>) (\<lambda>res. q_return (AuditExecuted res))
      | RoutineWorkflow workflow_id \<Rightarrow>
          (case catalog_workflow c workflow_id of
             None \<Rightarrow> q_fail (unknown_workflow workflow_id)
           | Some w \<Rightarrow> q_bind (execute_workflow_spec (rg_queries g) w inputs) (\<lambda>res. q_return (WorkflowExecuted res)))
      | RoutineUnsupported \<Rightarrow> q_fail (invalid_request ''review routine source kind is unsupported''))"

definition compare_run ::
  "('v, 's) review_engine \<Rightarrow> ReviewRoutineSpec \<Rightarrow> ReviewRun option \<Rightarrow> (ReviewRunDiff option, 'v, 's) query" where
  "compare_run g r review =
     (if rt_compare r = None then q_return None
      else case review of
        None \<Rightarrow> q_fail (invalid_request ''review routine compare policy requires save_review to be enabled'')
      | Some run \<Rightarrow>
          q_bind (latest_compatible_review_run g run) (\<lambda>base.
            case base of
              None \<Rightarrow> q_return None
            | Some b \<Rightarrow> (\<lambda>s. (map_err invalid_request (map_out Some (diff_between b run)), s))))"

definition compare_result ::
  "WorkflowCatalog \<Rightarrow> ReviewRoutineSpec \<Rightarrow> ReviewRoutineSourceExecutionResult \<Rightarrow> ReviewRun option \<Rightarrow>
   ReviewRunDiff option \<Rightarrow> ReviewRoutineCompareResult option" where
  "compare_result c r source review diff =
     map_option (\<lambda>policy.
         \<lparr>rcr_target = cp_target policy, rcr_base_review = map_option df_base_review diff, rcr_diff = diff,
          rcr_report = map_option (\<lambda>p. apply_report_profile p r source review diff)
            (Option.bind (cp_report_profile_id policy) (catalog_report_profile c))\<rparr>)
       (rt_compare r)"

definition unknown_profile :: "string \<Rightarrow> 'v failure" where
  "unknown_profile profile_id = invalid_request (''unknown report profile: '' @ profile_id)"

text \<open>\<open>map(...).collect::<Result<Vec<_>, _>>()\<close>\<close>

fun apply_profiles ::
  "WorkflowCatalog \<Rightarrow> (ReportProfileSpec \<Rightarrow> AppliedReportProfile) \<Rightarrow> string list \<Rightarrow>
   (AppliedReportProfile list, 'v, 's) query" where
  "apply_profiles c apply_one [] = q_return []"
| "apply_profiles c apply_one (i # ids) =
     (case catalog_report_profile c i of
        None \<Rightarrow> q_fail (unknown_profile i)
      | Some p \<Rightarrow> q_bind (apply_profiles c apply_one ids) (\<lambda>rest. q_return (apply_one p # rest)))"

definition execute_review_routine ::
  "('v, 's) review_engine \<Rightarrow> WorkflowCatalog \<Rightarrow> ReviewRoutineSpec \<Rightarrow> WorkflowInputAssignment list \<Rightarrow>
   (ReviewRoutineExecutionResult, 'v, 's) query" where
  "execute_review_routine g c r inputs =
     q_bind (refuse_if (routine_error r)) (\<lambda>_.
     q_bind (refuse_if (validate_review_routine_input_assignments r inputs)) (\<lambda>_.
     q_bind (if sp_enabled (rt_save_review r)
             then q_bind (intended_routine_review_id g r inputs) (\<lambda>i. q_return (Some i)) else q_return None)
       (\<lambda>review_id.
     q_bind (case review_id of
               Some i \<Rightarrow> if sp_overwrite (rt_save_review r) then q_return () else reject_existing_review_run g i
             | None \<Rightarrow> q_return ()) (\<lambda>_.
     q_bind (run_source g c r inputs) (\<lambda>source.
     q_bind (case review_id of
               Some i \<Rightarrow> q_bind (review_from_routine_source_result r inputs source i) (\<lambda>review. q_return (Some review))
             | None \<Rightarrow> q_return None) (\<lambda>review.
     q_bind (compare_run g r review) (\<lambda>diff.
     q_bind (case review of
               Some run \<Rightarrow> q_bind (save_review_run_with_policy g run (sp_overwrite (rt_save_review r)))
                  (\<lambda>summary. q_return (Some summary))
             | None \<Rightarrow> q_return None) (\<lambda>saved.
     q_bind (apply_profiles c (\<lambda>p. apply_report_profile p r source review diff) (rt_report_profile_ids r)) (\<lambda>reports.
       q_return \<lparr>re_routine = routine_summary r, re_source = source, re_saved_review = saved,
                 re_compare = compare_result c r source review diff, re_reports = reports\<rparr>)))))))))"

definition run_review_routine ::
  "('v, 's) review_engine \<Rightarrow> WorkflowCatalog \<Rightarrow> string \<Rightarrow> WorkflowInputAssignment list \<Rightarrow>
   (ReviewRoutineExecutionResult, 'v, 's) query" where
  "run_review_routine g c routine_id inputs =
     q_bind (refuse_if (run_review_routine_error routine_id inputs)) (\<lambda>_.
       case catalog_review_routine c routine_id of
         None \<Rightarrow> q_fail (invalid_request (''unknown review routine: '' @ routine_id))
       | Some r \<Rightarrow> execute_review_routine g c r inputs)"

end
