(* ===== verification/CatalogProps.thy ===== *)
theory CatalogProps
  imports Catalog WorkflowProps
begin

text \<open>
  Facts about the catalog: the three collections share one way of taking an asset in, ids
  never repeat, and what is in the catalog is valid and closed under reference.
\<close>

section \<open>Taking assets in\<close>

text \<open>
  The contract of the three \<open>add_*\<close> functions: an asset is taken in when its id has no
  source yet and it is acceptable, and otherwise nothing but the issues changes.
\<close>

locale registry =
  fixes items :: "'c \<Rightarrow> 'a list"
    and sources :: "'c \<Rightarrow> string \<Rightarrow> string option"
    and key :: "'a \<Rightarrow> string"
    and add :: "'a \<Rightarrow> 'c \<Rightarrow> 'c"
    and accepts :: "'c \<Rightarrow> 'a \<Rightarrow> bool"
    and issues :: "'c \<Rightarrow> 'i list"
  assumes taken: "accepts c x \<Longrightarrow> sources c (key x) = None \<Longrightarrow>
      items (add x c) = items c @ [x] \<and> (\<exists>src. sources (add x c) = (sources c)(key x \<mapsto> src)) \<and>
      issues (add x c) = issues c"
    and refused: "\<not> (accepts c x \<and> sources c (key x) = None) \<Longrightarrow>
      items (add x c) = items c \<and> sources (add x c) = sources c \<and> (\<exists>i. issues (add x c) = issues c @ [i])"
    and steady: "accepts (add x c) = accepts c"
begin

definition registered :: "'c \<Rightarrow> bool" where
  "registered c \<longleftrightarrow> distinct (map key (items c)) \<and> (\<forall>i. sources c i = None \<longleftrightarrow> i \<notin> key ` set (items c))"

lemma add_cases:
  obtains (new) src where "accepts c x" "sources c (key x) = None" "items (add x c) = items c @ [x]"
      "sources (add x c) = (sources c)(key x \<mapsto> src)" "issues (add x c) = issues c"
  | (old) i where "\<not> (accepts c x \<and> sources c (key x) = None)" "items (add x c) = items c"
      "sources (add x c) = sources c" "issues (add x c) = issues c @ [i]"
  using taken refused by blast

lemma add_registered: "registered c \<Longrightarrow> registered (add x c)"
  by (rule add_cases [of c x]) (auto simp: registered_def)

lemma add_items: "set (items (add x c)) \<subseteq> insert x (set (items c))" "\<exists>xs. items (add x c) = items c @ xs"
  by (rule add_cases [of c x]; auto)+

lemma add_accepted: "y \<in> set (items (add x c)) \<Longrightarrow> y \<notin> set (items c) \<Longrightarrow> y = x \<and> accepts c x"
  by (rule add_cases [of c x]) auto

text \<open>Adding a list reports nothing exactly when every entry is acceptable under a new id.\<close>

lemma add_issues: "length (issues c) \<le> length (issues (fold add xs c))"
proof (induction xs arbitrary: c)
  case (Cons x xs)
  have "length (issues c) \<le> length (issues (add x c))" by (rule add_cases [of c x]) auto
  with Cons.IH [of "add x c"] show ?case by simp
qed simp

lemma fold_clean:
  "registered c \<Longrightarrow> issues (fold add xs c) = issues c \<longleftrightarrow>
     list_all (accepts c) xs \<and> distinct (map key xs) \<and> key ` set xs \<inter> key ` set (items c) = {}"
proof (induction xs arbitrary: c)
  case (Cons x xs)
  have registered: "sources c i = None \<longleftrightarrow> i \<notin> key ` set (items c)" for i
    using Cons.prems by (simp add: registered_def)
  show ?case
  proof (rule add_cases [of c x])
    fix src
    assume new: "accepts c x" "sources c (key x) = None" "items (add x c) = items c @ [x]"
      "sources (add x c) = (sources c)(key x \<mapsto> src)" "issues (add x c) = issues c"
    from Cons.IH [OF add_registered [OF Cons.prems], of x] new registered show ?thesis
      by (auto simp: steady)
  next
    fix i
    assume old: "\<not> (accepts c x \<and> sources c (key x) = None)" "items (add x c) = items c"
      "sources (add x c) = sources c" "issues (add x c) = issues c @ [i]"
    have "issues (fold add xs (add x c)) \<noteq> issues c"
      using add_issues [of "add x c" xs] old(4) by auto
    with old(1) registered show ?thesis by auto
  qed
qed simp

lemma fold_items:
  "registered c \<Longrightarrow> list_all (accepts c) xs \<Longrightarrow> distinct (map key xs) \<Longrightarrow>
   key ` set xs \<inter> key ` set (items c) = {} \<Longrightarrow> items (fold add xs c) = items c @ xs"
proof (induction xs arbitrary: c)
  case (Cons x xs)
  then have "sources c (key x) = None" by (auto simp: registered_def)
  with Cons.prems taken have "items (add x c) = items c @ [x]" by simp
  with Cons.IH [OF add_registered [OF Cons.prems(1)], of x] Cons.prems show ?case by (auto simp: steady)
qed simp

lemma fold_registered: "registered c \<Longrightarrow> registered (fold add xs c)"
  by (induction xs arbitrary: c) (simp_all add: add_registered)

lemma lookup_extended:
  "find (\<lambda>x. key x = i) xs = Some x \<Longrightarrow> find (\<lambda>x. key x = i) (xs @ ys) = Some x"
  by (induction xs) auto

end


definition acceptable_routine :: "WorkflowCatalog \<Rightarrow> ReviewRoutineSpec \<Rightarrow> bool" where
  "acceptable_routine c r \<longleftrightarrow> routine_error r = None \<and>
     validate_review_routine_catalog_references r (ct_workflows c) (ct_report_profiles c) = None"

interpretation wf: registry ct_workflows ct_workflow_sources workflow_id_of
    "\<lambda>w. add_workflow w source pack" "\<lambda>c w. workflow_error w = None" ct_issues for source pack
  by unfold_locales (auto simp: add_workflow_def push_issue_def split: option.splits)

interpretation rp: registry ct_report_profiles ct_profile_sources profile_id_of
    "\<lambda>p. add_report_profile p pack" "\<lambda>c p. profile_error p = None" ct_issues for pack
  by unfold_locales (auto simp: add_report_profile_def push_issue_def split: option.splits)

interpretation rt: registry ct_review_routines ct_routine_sources routine_id_of
    "\<lambda>r. add_review_routine r pack" acceptable_routine ct_issues for pack
  by unfold_locales
    (auto simp: add_review_routine_def acceptable_routine_def push_issue_def fun_eq_iff split: option.splits)

text \<open>What one kind of asset leaves alone.\<close>

lemma add_elsewhere [simp]:
  "ct_review_routines (add_workflow w source pack c) = ct_review_routines c"
  "ct_report_profiles (add_workflow w source pack c) = ct_report_profiles c"
  "ct_routine_sources (add_workflow w source pack c) = ct_routine_sources c"
  "ct_profile_sources (add_workflow w source pack c) = ct_profile_sources c"
  "ct_workflows (add_report_profile p pk c) = ct_workflows c"
  "ct_review_routines (add_report_profile p pk c) = ct_review_routines c"
  "ct_workflow_sources (add_report_profile p pk c) = ct_workflow_sources c"
  "ct_routine_sources (add_report_profile p pk c) = ct_routine_sources c"
  "ct_workflows (add_review_routine r pk c) = ct_workflows c"
  "ct_report_profiles (add_review_routine r pk c) = ct_report_profiles c"
  "ct_workflow_sources (add_review_routine r pk c) = ct_workflow_sources c"
  "ct_profile_sources (add_review_routine r pk c) = ct_profile_sources c"
  by (simp_all add: add_workflow_def add_report_profile_def add_review_routine_def push_issue_def
      split: option.splits)

lemma push_issue_simps [simp]:
  "ct_workflows (push_issue i c) = ct_workflows c" "ct_review_routines (push_issue i c) = ct_review_routines c"
  "ct_report_profiles (push_issue i c) = ct_report_profiles c"
  "ct_workflow_sources (push_issue i c) = ct_workflow_sources c"
  "ct_routine_sources (push_issue i c) = ct_routine_sources c"
  "ct_profile_sources (push_issue i c) = ct_profile_sources c"
  by (simp_all add: push_issue_def)

section \<open>References\<close>

lemma references_extended:
  assumes "validate_review_routine_catalog_references r ws ps = None"
  shows "validate_review_routine_catalog_references r (ws @ ws') (ps @ ps') = None"
proof -
  have "find (\<lambda>w. workflow_id_of w = i) ws = Some w \<Longrightarrow> find (\<lambda>w. workflow_id_of w = i) (ws @ ws') = Some w" for i w
    by (rule wf.lookup_extended)
  with assms show ?thesis
    unfolding validate_review_routine_catalog_references_def
    by (auto split: ReviewRoutineSource.splits option.splits)
qed

definition closed_catalog :: "WorkflowCatalog \<Rightarrow> bool" where
  "closed_catalog c \<longleftrightarrow>
     wf.registered c \<and> rp.registered c \<and> rt.registered c \<and>
     list_all (\<lambda>w. workflow_error w = None) (ct_workflows c) \<and>
     list_all (\<lambda>p. profile_error p = None) (ct_report_profiles c) \<and>
     list_all (acceptable_routine c) (ct_review_routines c)"

section \<open>The catalog stays closed\<close>

lemma acceptable_routine_extended:
  assumes "acceptable_routine c r" and "\<exists>ws. ct_workflows c' = ct_workflows c @ ws"
    and "\<exists>ps. ct_report_profiles c' = ct_report_profiles c @ ps"
  shows "acceptable_routine c' r"
  using assms references_extended by (auto simp: acceptable_routine_def)

lemma closed_add_workflow:
  assumes "closed_catalog c" shows "closed_catalog (add_workflow w source pack c)"
proof -
  have "wf.registered (add_workflow w source pack c)"
    using assms wf.add_registered by (simp add: closed_catalog_def)
  moreover have "rp.registered (add_workflow w source pack c)" "rt.registered (add_workflow w source pack c)"
    using assms by (simp_all add: closed_catalog_def rp.registered_def rt.registered_def)
  moreover have "list_all (\<lambda>w. workflow_error w = None) (ct_workflows (add_workflow w source pack c))"
    using assms wf.add_accepted [of _ w source pack c] by (auto simp: closed_catalog_def list_all_iff)
  moreover have "list_all (\<lambda>p. profile_error p = None) (ct_report_profiles (add_workflow w source pack c))"
    using assms by (simp add: closed_catalog_def)
  moreover have "list_all (acceptable_routine (add_workflow w source pack c))
      (ct_review_routines (add_workflow w source pack c))"
    using assms acceptable_routine_extended [OF _ wf.add_items(2)]
    by (auto simp: closed_catalog_def list_all_iff)
  ultimately show ?thesis by (simp add: closed_catalog_def)
qed

lemma closed_add_report_profile:
  assumes "closed_catalog c" shows "closed_catalog (add_report_profile p pack c)"
proof -
  have "rp.registered (add_report_profile p pack c)"
    using assms rp.add_registered by (simp add: closed_catalog_def)
  moreover have "wf.registered (add_report_profile p pack c)" "rt.registered (add_report_profile p pack c)"
    using assms by (simp_all add: closed_catalog_def wf.registered_def rt.registered_def)
  moreover have "list_all (\<lambda>p. profile_error p = None) (ct_report_profiles (add_report_profile p pack c))"
    using assms rp.add_accepted [of _ p pack c] by (auto simp: closed_catalog_def list_all_iff)
  moreover have "list_all (\<lambda>w. workflow_error w = None) (ct_workflows (add_report_profile p pack c))"
    using assms by (simp add: closed_catalog_def)
  moreover have "list_all (acceptable_routine (add_report_profile p pack c))
      (ct_review_routines (add_report_profile p pack c))"
    using assms acceptable_routine_extended [OF _ _ rp.add_items(2)]
    by (auto simp: closed_catalog_def list_all_iff)
  ultimately show ?thesis by (simp add: closed_catalog_def)
qed

lemma closed_add_review_routine:
  assumes "closed_catalog c" shows "closed_catalog (add_review_routine r pack c)"
proof -
  have "rt.registered (add_review_routine r pack c)"
    using assms rt.add_registered by (simp add: closed_catalog_def)
  moreover have "wf.registered (add_review_routine r pack c)" "rp.registered (add_review_routine r pack c)"
    using assms by (simp_all add: closed_catalog_def wf.registered_def rp.registered_def)
  moreover have "list_all (acceptable_routine c) (ct_review_routines (add_review_routine r pack c))"
    using assms rt.add_accepted [of _ r pack c] by (auto simp: closed_catalog_def list_all_iff)
  moreover have "acceptable_routine (add_review_routine r pack c) = acceptable_routine c"
    by (simp add: fun_eq_iff acceptable_routine_def)
  ultimately show ?thesis using assms by (simp add: closed_catalog_def)
qed

lemma closed_push_issue: "closed_catalog c \<Longrightarrow> closed_catalog (push_issue i c)"
  by (simp add: closed_catalog_def wf.registered_def rp.registered_def rt.registered_def
      acceptable_routine_def [abs_def])

lemma closed_fold: "(\<And>x c. closed_catalog c \<Longrightarrow> closed_catalog (f x c)) \<Longrightarrow> closed_catalog c \<Longrightarrow> closed_catalog (fold f xs c)"
  by (induction xs arbitrary: c) auto

lemmas closed_intros = closed_add_workflow closed_add_report_profile closed_add_review_routine
  closed_push_issue closed_fold

lemma closed_collect_pack: "closed_catalog c \<Longrightarrow> closed_catalog (collect_assets_from_pack pack c)"
  by (auto simp: collect_assets_from_pack_def intro!: closed_intros split: option.splits)

lemma closed_load_file: "closed_catalog c \<Longrightarrow> closed_catalog (load_workflow_spec_from_file fd path c)"
  unfolding load_workflow_spec_from_file_def
  by (intro closed_intros | simp split: sum.splits option.splits | intro conjI impI allI)+

lemma closed_collect_directory:
  "closed_catalog c \<Longrightarrow> closed_catalog (collect_workflows_from_directory fd directory c)"
  unfolding collect_workflows_from_directory_def
  by (auto intro!: closed_intros closed_load_file split: sum.splits)

lemma built_in_ids:
  "map workflow_id_of built_in_workflows =
    [''workflow/builtin/context-sweep'', ''workflow/builtin/unresolved-sweep'', ''workflow/builtin/periodic-review'',
     ''workflow/builtin/weak-integration-review'', ''workflow/builtin/comparison-tension-review'']"
  "map routine_id_of built_in_review_routines =
    [''routine/builtin/context-sweep-review'', ''routine/builtin/duplicate-title-review'']"
  by code_simp+

lemma built_in_distinct:
  "distinct (map workflow_id_of built_in_workflows)" "distinct (map routine_id_of built_in_review_routines)"
  unfolding built_in_ids by code_simp+

lemma built_in_acceptable: "list_all (acceptable_routine initial_catalog) built_in_review_routines"
proof -
  have "list_all (\<lambda>r. validate_review_routine_catalog_references r built_in_workflows [] = None)
      built_in_review_routines"
    by code_simp
  with built_in_routines_validate show ?thesis
    by (simp add: list_all_iff acceptable_routine_def initial_catalog_def)
qed

lemma built_in_id_iff:
  "built_in_workflow_id i \<longleftrightarrow> i \<in> workflow_id_of ` set built_in_workflows"
  "built_in_routine_id i \<longleftrightarrow> i \<in> routine_id_of ` set built_in_review_routines"
  by (auto simp: built_in_workflow_id_def built_in_routine_id_def list_ex_iff)

lemma closed_initial: "closed_catalog initial_catalog"
  using built_in_acceptable built_in_distinct built_in_workflows_validate
  by (simp add: closed_catalog_def wf.registered_def rp.registered_def rt.registered_def built_in_id_iff
      initial_catalog_def [THEN arg_cong, of ct_workflows] initial_catalog_def)

lemma closed_discover: "closed_catalog (discover_workflow_catalog fd root workflow_dirs packs)"
  unfolding discover_workflow_catalog_def
  by (intro closed_fold closed_collect_pack closed_collect_directory closed_initial)

section \<open>The two checks of a routine's inputs\<close>

lemma find_first_error: "map_option f (find P xs) = first_error (\<lambda>x. error_if (P x) (f x)) xs"
  by (induction xs) (simp_all add: error_if_def)

text \<open>The check of an imported pack and that of the catalog are the same function.\<close>

lemma routine_inputs_checks_agree:
  "validate_workbench_pack_routine_inputs r inputs = validate_review_routine_workflow_inputs r inputs"
proof -
  have check: "(\<lambda>input. case find (\<lambda>i. wi_input_id i = wi_input_id input) inputs of
         None \<Rightarrow> Some (input_not_accepted r input)
       | Some i \<Rightarrow> if wi_kind i \<noteq> wi_kind input then Some (input_kind_differs r input i) else None) =
     (\<lambda>input. case find (\<lambda>i. wi_input_id i = wi_input_id input) inputs of
         Some i \<Rightarrow> if wi_kind i = wi_kind input then None else Some (input_kind_differs r input i)
       | None \<Rightarrow> Some (input_not_accepted r input))"
    by (rule ext) (simp split: option.split)
  show ?thesis
    by (simp only: validate_workbench_pack_routine_inputs_def validate_review_routine_workflow_inputs_def
        find_first_error check)
qed

lemma find_Some_key: "find (\<lambda>x. key x = i) xs = Some x \<Longrightarrow> x \<in> set xs \<and> key x = i"
  by (auto simp: find_Some_iff)

lemma find_None_key: "find (\<lambda>x. key x = i) xs = None \<longleftrightarrow> i \<notin> key ` set xs"
  by (auto simp: find_None_iff)

text \<open>A routine that passes declares exactly the inputs of its workflow, with their kinds.\<close>

lemma routine_inputs_exact:
  assumes ok: "validate_review_routine_workflow_inputs r inputs = None"
    and distinct: "distinct (map wi_input_id inputs)"
  shows "set (map input_pair (rt_inputs r)) = set (map input_pair inputs)"
proof -
  have declared: "\<exists>i \<in> set inputs. input_pair i = input_pair j" if "j \<in> set (rt_inputs r)" for j
  proof -
    from ok that obtain i where "find (\<lambda>i. wi_input_id i = wi_input_id j) inputs = Some i"
      and kind: "wi_kind i = wi_kind j"
      by (fastforce simp: validate_review_routine_workflow_inputs_def split: option.splits if_splits)
    then show ?thesis using find_Some_key [of wi_input_id] by (fastforce simp: input_pair_def)
  qed
  moreover have "\<exists>j \<in> set (rt_inputs r). input_pair i = input_pair j" if i: "i \<in> set inputs" for i
  proof -
    from ok i obtain j where j: "j \<in> set (rt_inputs r)" "wi_input_id j = wi_input_id i"
      by (auto simp: validate_review_routine_workflow_inputs_def list_ex_iff)
    with declared obtain i' where i': "i' \<in> set inputs" "input_pair i' = input_pair j" by blast
    with j i distinct have "i' = i"
      by (auto simp: input_pair_def distinct_map dest: inj_onD)
    with i' j show ?thesis by auto
  qed
  ultimately show ?thesis
    unfolding set_map by (intro subset_antisym image_subsetI) (metis imageI)+
qed

section \<open>What a catalog promises\<close>

lemma catalog_references:
  assumes closed: "closed_catalog c" and r: "r \<in> set (ct_review_routines c)"
  shows "routine_error r = None"
    and "rt_source r = RoutineWorkflow i \<Longrightarrow> \<exists>w. catalog_workflow c i = Some w \<and> workflow_error w = None \<and>
           set (map input_pair (rt_inputs r)) = set (map input_pair (wf_inputs w))"
    and "i \<in> set (rt_report_profile_ids r) \<Longrightarrow> catalog_report_profile c i \<noteq> None"
    and "rt_compare r = Some policy \<Longrightarrow> cp_report_profile_id policy = Some i \<Longrightarrow> catalog_report_profile c i \<noteq> None"
proof -
  have ok: "routine_error r = None"
    "validate_review_routine_catalog_references r (ct_workflows c) (ct_report_profiles c) = None"
    using closed r by (auto simp: closed_catalog_def list_all_iff acceptable_routine_def)
  show "routine_error r = None" by (rule ok(1))
  note references = ok(2) [unfolded validate_review_routine_catalog_references_def or_else_None_iff]
  show "\<exists>w. catalog_workflow c i = Some w \<and> workflow_error w = None \<and>
      set (map input_pair (rt_inputs r)) = set (map input_pair (wf_inputs w))"
    if source: "rt_source r = RoutineWorkflow i"
  proof -
    have "(case catalog_workflow c i of None \<Rightarrow> Some (missing_workflow r i)
        | Some w \<Rightarrow> validate_review_routine_workflow_inputs r (wf_inputs w)) = None"
      using references [THEN conjunct1] source by (simp only: ReviewRoutineSource.case catalog_workflow_def)
    then obtain w where w: "catalog_workflow c i = Some w"
      and inputs: "validate_review_routine_workflow_inputs r (wf_inputs w) = None"
      by (cases "catalog_workflow c i") (simp_all only: option.case option.distinct)
    from w have "w \<in> set (ct_workflows c)"
      unfolding catalog_workflow_def by (rule find_Some_key [THEN conjunct1])
    with closed have valid: "workflow_error w = None" by (auto simp: closed_catalog_def list_all_iff)
    then have "workflow_inputs_error (wf_inputs w) = None" by (simp add: workflow_error_def)
    then have "distinct (map wi_input_id (wf_inputs w))"
      unfolding workflow_inputs_error_def by (rule inputs_scan_distinct [THEN conjunct1])
    from routine_inputs_exact [OF inputs this] w valid show ?thesis by blast
  qed
  show "catalog_report_profile c i \<noteq> None" if "i \<in> set (rt_report_profile_ids r)"
    using references [THEN conjunct2, THEN conjunct2] that
    by (auto simp: catalog_report_profile_def find_None_key list_ex_iff)
  show "catalog_report_profile c i \<noteq> None" if "rt_compare r = Some policy" "cp_report_profile_id policy = Some i"
    using references [THEN conjunct2, THEN conjunct1] that
    by (auto simp: catalog_report_profile_def find_None_key list_ex_iff)
qed

text \<open>C8.
  Whatever the configured directories and the imported packs hold, the catalog built from
  them is closed: no two workflows, routines or report profiles share an id, each of them
  passes its own validation, a routine's workflow is in the catalog and declares exactly
  the routine's inputs with the same kinds, and every report profile a routine names is in
  the catalog.\<close>

theorem discovered_catalog_is_closed:
  assumes "c = discover_workflow_catalog fd root workflow_dirs packs"
  shows "distinct (map workflow_id_of (ct_workflows c)) \<and>
    distinct (map routine_id_of (ct_review_routines c)) \<and>
    distinct (map profile_id_of (ct_report_profiles c)) \<and>
    (\<forall>w \<in> set (ct_workflows c). workflow_error w = None) \<and>
    (\<forall>p \<in> set (ct_report_profiles c). profile_error p = None) \<and>
    (\<forall>r \<in> set (ct_review_routines c). routine_error r = None \<and>
       (\<forall>i. rt_source r = RoutineWorkflow i \<longrightarrow>
          (\<exists>w. catalog_workflow c i = Some w \<and>
             set (map input_pair (rt_inputs r)) = set (map input_pair (wf_inputs w)))) \<and>
       (\<forall>i \<in> set (rt_report_profile_ids r). catalog_report_profile c i \<noteq> None) \<and>
       (\<forall>policy i. rt_compare r = Some policy \<longrightarrow> cp_report_profile_id policy = Some i \<longrightarrow>
          catalog_report_profile c i \<noteq> None))"
proof -
  have closed: "closed_catalog c" using assms closed_discover by simp
  then have "distinct (map workflow_id_of (ct_workflows c))" "distinct (map routine_id_of (ct_review_routines c))"
    "distinct (map profile_id_of (ct_report_profiles c))"
    "\<forall>w \<in> set (ct_workflows c). workflow_error w = None"
    "\<forall>p \<in> set (ct_report_profiles c). profile_error p = None"
    by (auto simp: closed_catalog_def wf.registered_def rp.registered_def rt.registered_def list_all_iff)
  with catalog_references [OF closed] show ?thesis by blast
qed

section \<open>Validating a pack and cataloguing it\<close>

lemma map_of_find: "map_of (map (\<lambda>x. (key x, f x)) xs) i = map_option f (find (\<lambda>x. key x = i) xs)"
  by (induction xs) auto

lemma pack_references_agree:
  "validate_workbench_pack_routine_references r (map (\<lambda>w. (workflow_id_of w, wf_inputs w)) ws)
     (map profile_id_of ps) = [] \<longleftrightarrow>
   validate_review_routine_catalog_references r ws ps = None"
proof -
  have profile: "validate_workbench_pack_report_profile_reference (routine_id_of r) i (map profile_id_of ps) = [] \<longleftrightarrow>
      list_ex (\<lambda>p. profile_id_of p = i) ps" for i
    by (auto simp: validate_workbench_pack_report_profile_reference_def list_ex_iff)
  have source: "(case rt_source r of
        RoutineWorkflow i \<Rightarrow>
          (case map_of (map (\<lambda>w. (workflow_id_of w, wf_inputs w)) ws) i of
             Some inputs \<Rightarrow> issue_of (workbench_pack_issue PackInvalidRoutineReference (routine_id_of r))
               (validate_workbench_pack_routine_inputs r inputs)
           | None \<Rightarrow> [workbench_pack_issue PackMissingWorkflow (routine_id_of r) (missing_workflow r i)])
      | _ \<Rightarrow> []) = [] \<longleftrightarrow>
    (case rt_source r of
        RoutineWorkflow i \<Rightarrow>
          (case find (\<lambda>w. workflow_id_of w = i) ws of
             None \<Rightarrow> Some (missing_workflow r i)
           | Some w \<Rightarrow> validate_review_routine_workflow_inputs r (wf_inputs w))
      | _ \<Rightarrow> None) = None"
    by (simp add: map_of_find routine_inputs_checks_agree split: ReviewRoutineSource.split option.split)
  have compared: "(case rt_compare r of
        Some policy \<Rightarrow>
          (case cp_report_profile_id policy of
             Some i \<Rightarrow> validate_workbench_pack_report_profile_reference (routine_id_of r) i (map profile_id_of ps)
           | None \<Rightarrow> [])
      | None \<Rightarrow> []) = [] \<longleftrightarrow>
    (case rt_compare r of
        Some policy \<Rightarrow>
          (case cp_report_profile_id policy of
             Some i \<Rightarrow> error_if (\<not> list_ex (\<lambda>p. profile_id_of p = i) ps) (missing_profile (routine_id_of r) i)
           | None \<Rightarrow> None)
      | None \<Rightarrow> None) = None"
    by (simp add: profile split: option.split)
  show ?thesis
    unfolding validate_workbench_pack_routine_references_def validate_review_routine_catalog_references_def
      append_is_Nil_conv or_else_None_iff source compared
    by (simp add: profile)
qed

lemma pack_workflow_inputs_all:
  "list_all (\<lambda>w. workflow_error w = None \<and> \<not> built_in_workflow_id (workflow_id_of w)) ws \<Longrightarrow>
   pack_workflow_inputs ws = map (\<lambda>w. (workflow_id_of w, wf_inputs w)) (built_in_workflows @ ws)"
  unfolding pack_workflow_inputs_def map_append by (simp add: list_all_iff filter_id_conv)

lemma initial_simps:
  "ct_workflows initial_catalog = built_in_workflows" "ct_review_routines initial_catalog = built_in_review_routines"
  "ct_report_profiles initial_catalog = []" "ct_issues initial_catalog = []"
  by (simp_all add: initial_catalog_def)

lemma initial_registered:
  "wf.registered initial_catalog" "rp.registered initial_catalog" "rt.registered initial_catalog"
  using closed_initial by (simp_all add: closed_catalog_def)

lemma fold_workflows_elsewhere [simp]:
  "ct_review_routines (fold (\<lambda>w. add_workflow w s k) ws c) = ct_review_routines c"
  "ct_report_profiles (fold (\<lambda>w. add_workflow w s k) ws c) = ct_report_profiles c"
  "ct_routine_sources (fold (\<lambda>w. add_workflow w s k) ws c) = ct_routine_sources c"
  "ct_profile_sources (fold (\<lambda>w. add_workflow w s k) ws c) = ct_profile_sources c"
  by (induction ws arbitrary: c) simp_all

lemma fold_profiles_elsewhere [simp]:
  "ct_workflows (fold (\<lambda>p. add_report_profile p pk) ps c) = ct_workflows c"
  "ct_review_routines (fold (\<lambda>p. add_report_profile p pk) ps c) = ct_review_routines c"
  "ct_routine_sources (fold (\<lambda>p. add_report_profile p pk) ps c) = ct_routine_sources c"
  by (induction ps arbitrary: c) simp_all

lemma fold_routines_elsewhere [simp]:
  "ct_workflows (fold (\<lambda>r. add_review_routine r pk) rs c) = ct_workflows c"
  "ct_report_profiles (fold (\<lambda>r. add_review_routine r pk) rs c) = ct_report_profiles c"
  by (induction rs arbitrary: c) simp_all

text \<open>The three lists of a pack, taken in one after the other without an issue.\<close>

lemma collect_lists_clean:
  fixes m :: WorkbenchPackManifest
  defines "c1 \<equiv> fold (\<lambda>w. add_workflow w (pack_source m) (Some m)) (pk_workflows m) initial_catalog"
  defines "c2 \<equiv> fold (\<lambda>p. add_report_profile p m) (pk_report_profiles m) c1"
  defines "c3 \<equiv> fold (\<lambda>r. add_review_routine r m) (pk_review_routines m) c2"
  shows "ct_issues c3 = [] \<longleftrightarrow>
      pack_workflow_issues 0 [] (pk_workflows m) = [] \<and> pack_profile_issues 0 [] (pk_report_profiles m) = [] \<and>
      pack_routine_issues (pack_workflow_inputs (pk_workflows m)) (map profile_id_of (pk_report_profiles m)) 0 []
        (pk_review_routines m) = []"
    and "ct_issues c3 = [] \<Longrightarrow> ct_workflows c3 = built_in_workflows @ pk_workflows m \<and>
      ct_report_profiles c3 = pk_report_profiles m \<and>
      ct_review_routines c3 = built_in_review_routines @ pk_review_routines m"
proof -
  have grows: "length (ct_issues c1) \<le> length (ct_issues c2)" "length (ct_issues c2) \<le> length (ct_issues c3)"
    unfolding c3_def c2_def by (rule rp.add_issues rt.add_issues)+
  then have split: "ct_issues c3 = [] \<longleftrightarrow>
      ct_issues c1 = ct_issues initial_catalog \<and> ct_issues c2 = ct_issues c1 \<and> ct_issues c3 = ct_issues c2"
    by (auto simp: initial_simps)
  have registered: "rp.registered c1" "rt.registered c2"
    using initial_registered by (simp_all add: c2_def c1_def rp.registered_def rt.registered_def)
  have workflows: "ct_issues c1 = ct_issues initial_catalog \<longleftrightarrow> pack_workflow_issues 0 [] (pk_workflows m) = []"
    unfolding c1_def wf.fold_clean [OF initial_registered(1)] pack_workflows_clean
    by (auto simp: initial_simps list_all_iff built_in_id_iff)
  have "ct_report_profiles c1 = []" by (simp add: c1_def initial_simps)
  then have profiles: "ct_issues c2 = ct_issues c1 \<longleftrightarrow> pack_profile_issues 0 [] (pk_report_profiles m) = []"
    unfolding c2_def rp.fold_clean [OF registered(1)] pack_profiles_clean by simp
  have taken: "ct_workflows c1 = built_in_workflows @ pk_workflows m" if "ct_issues c1 = ct_issues initial_catalog"
    using that wf.fold_items [OF initial_registered(1)] wf.fold_clean [OF initial_registered(1)]
    unfolding c1_def by (simp add: initial_simps)
  have taken': "ct_report_profiles c2 = pk_report_profiles m" if "ct_issues c2 = ct_issues c1"
    using that rp.fold_items [OF registered(1)] rp.fold_clean [OF registered(1)] \<open>ct_report_profiles c1 = []\<close>
    unfolding c2_def by simp
  have kept: "ct_workflows c2 = ct_workflows c1" "ct_review_routines c2 = built_in_review_routines"
    "ct_workflows c3 = ct_workflows c1" "ct_report_profiles c3 = ct_report_profiles c2"
    by (simp_all add: c3_def c2_def c1_def initial_simps)
  have routines: "ct_issues c3 = ct_issues c2 \<longleftrightarrow>
      pack_routine_issues (pack_workflow_inputs (pk_workflows m)) (map profile_id_of (pk_report_profiles m)) 0 []
        (pk_review_routines m) = []"
    if first: "ct_issues c1 = ct_issues initial_catalog" "ct_issues c2 = ct_issues c1"
  proof -
    have "list_all (\<lambda>w. workflow_error w = None \<and> \<not> built_in_workflow_id (workflow_id_of w)) (pk_workflows m)"
      using first(1) workflows pack_workflows_clean by blast
    note inputs = pack_workflow_inputs_all [OF this]
    show ?thesis
      unfolding c3_def rt.fold_clean [OF registered(2)] pack_routines_clean inputs pack_references_agree
      using taken [OF first(1)] taken' [OF first(2)] kept
      by (auto simp: list_all_iff acceptable_routine_def built_in_id_iff)
  qed
  show "ct_issues c3 = [] \<longleftrightarrow>
      pack_workflow_issues 0 [] (pk_workflows m) = [] \<and> pack_profile_issues 0 [] (pk_report_profiles m) = [] \<and>
      pack_routine_issues (pack_workflow_inputs (pk_workflows m)) (map profile_id_of (pk_report_profiles m)) 0 []
        (pk_review_routines m) = []"
    using split workflows profiles routines by blast
  show "ct_workflows c3 = built_in_workflows @ pk_workflows m \<and> ct_report_profiles c3 = pk_report_profiles m \<and>
      ct_review_routines c3 = built_in_review_routines @ pk_review_routines m" if "ct_issues c3 = []"
    using that split taken taken' kept rt.fold_items [OF registered(2)] rt.fold_clean [OF registered(2)]
    unfolding c3_def by auto
qed

lemma entrypoints_clean:
  "entrypoint_issues routine_ids index seen ids = [] \<longleftrightarrow>
     list_all (\<lambda>i. validate_review_routine_id_field i = None \<and> i \<in> set routine_ids) ids \<and>
     distinct ids \<and> set seen \<inter> set ids = {}"
  by (induction ids arbitrary: index seen) (auto split: option.split)

text \<open>The ids of valid routines need no further check.\<close>

lemma entrypoints_of_valid_routines:
  assumes "list_all (\<lambda>r. routine_error r = None) rs"
  shows "validate_workbench_pack_entrypoint_routine_references ids (map routine_id_of rs) = [] \<longleftrightarrow>
     distinct ids \<and> set ids \<subseteq> routine_id_of ` set rs"
proof -
  have "validate_review_routine_id_field i = None" if "i \<in> routine_id_of ` set rs" for i
    using that assms by (auto simp: list_all_iff routine_error_def or_else_None_iff routine_metadata_error_def)
  then show ?thesis
    unfolding validate_workbench_pack_entrypoint_routine_references_def entrypoints_clean
    by (auto simp: list_all_iff)
qed

lemma validated_pack_routines:
  assumes "validate_workbench_pack_manifest m = []"
  shows "ct_review_routines (discover_workflow_catalog fd root [] [m]) = built_in_review_routines @ pk_review_routines m"
proof -
  from assms have "pack_metadata_error (pk_metadata m) = None" "pack_compatibility_error (pk_compatibility m) = None"
    by (simp_all add: validate_workbench_pack_manifest_def)
  with assms collect_lists_clean [of m] show ?thesis
    by (simp add: validate_workbench_pack_manifest_def discover_workflow_catalog_def collect_assets_from_pack_def)
qed

text \<open>C11.
  Validating a pack and cataloguing it agree: the import check of a pack finds no issue
  exactly when a catalog built from this pack alone reports none, the pack has an asset,
  and its entry points are distinct ids of its own routines.  A catalog without issues
  holds the built-in assets and all of the pack's, in their order.\<close>

theorem pack_validation_matches_catalog:
  assumes "c = discover_workflow_catalog fd root [] [m]"
  shows "(validate_workbench_pack_manifest m = [] \<longleftrightarrow>
      ct_issues c = [] \<and>
      (pk_workflows m \<noteq> [] \<or> pk_review_routines m \<noteq> [] \<or> pk_report_profiles m \<noteq> []) \<and>
      distinct (pk_entrypoint_routine_ids m) \<and>
      set (pk_entrypoint_routine_ids m) \<subseteq> routine_id_of ` set (pk_review_routines m)) \<and>
    (ct_issues c = [] \<longrightarrow> ct_workflows c = built_in_workflows @ pk_workflows m \<and>
       ct_report_profiles c = pk_report_profiles m \<and>
       ct_review_routines c = built_in_review_routines @ pk_review_routines m)"
proof (cases "pack_metadata_error (pk_metadata m) = None \<and> pack_compatibility_error (pk_compatibility m) = None")
  case True
  then have c: "c = fold (\<lambda>r. add_review_routine r m) (pk_review_routines m)
      (fold (\<lambda>p. add_report_profile p m) (pk_report_profiles m)
        (fold (\<lambda>w. add_workflow w (pack_source m) (Some m)) (pk_workflows m) initial_catalog))"
    using assms by (simp add: discover_workflow_catalog_def collect_assets_from_pack_def)
  note lists = collect_lists_clean [of m, folded c]
  show ?thesis
  proof (cases "ct_issues c = []")
    case clean: True
    have "closed_catalog c" using assms closed_discover by simp
    with lists(2) [OF clean] have "list_all (\<lambda>r. routine_error r = None) (pk_review_routines m)"
      using catalog_references(1) [of c] by (auto simp: list_all_iff)
    note entries = entrypoints_of_valid_routines [OF this, of "pk_entrypoint_routine_ids m"]
    show ?thesis
      using True clean lists(1) lists(2) [OF clean] entries
      by (simp add: validate_workbench_pack_manifest_def)
  next
    case False
    with lists(1) show ?thesis by (auto simp: validate_workbench_pack_manifest_def)
  qed
next
  case False
  then have "ct_issues c \<noteq> []"
    using assms by (auto simp: discover_workflow_catalog_def collect_assets_from_pack_def push_issue_def
        split: option.splits)
  with False show ?thesis by (auto simp: validate_workbench_pack_manifest_def)
qed

section \<open>Witnesses\<close>

text \<open>A pack with a workflow, a profile and a routine that uses both, and a disk with nothing on it.\<close>

definition sample_pack :: WorkbenchPackManifest where
  "sample_pack =
     \<lparr>pk_metadata = \<lparr>km_pack_id = ''p'', km_title = ''P'', km_summary = None\<rparr>,
      pk_compatibility = default_pack_compatibility,
      pk_workflows = [built_in_comparison_tension_workflow
        \<lparr>wf_metadata := \<lparr>wm_workflow_id = ''w'', wm_title = ''W'', wm_summary = None\<rparr>\<rparr>],
      pk_review_routines = [\<lparr>rt_metadata = \<lparr>rtm_routine_id = ''r'', rtm_title = ''R'', rtm_summary = None\<rparr>,
        rt_source = RoutineWorkflow ''w'', rt_inputs = wf_inputs built_in_comparison_tension_workflow,
        rt_save_review = default_save_review, rt_compare = None, rt_report_profile_ids = [''f'']\<rparr>],
      pk_report_profiles = [\<lparr>ps_metadata = \<lparr>pm_profile_id = ''f'', pm_title = ''F'', pm_summary = None\<rparr>,
        ps_subjects = [SubjectRoutine], ps_mode = ModeDetail, ps_status_filters = None, ps_diff_buckets = None,
        ps_jsonl_line_kinds = Some [LineRoutine, LineStep]\<rparr>],
      pk_entrypoint_routine_ids = [''r'']\<rparr>"

definition no_files :: "unit spec_files" where
  "no_files =
     \<lparr>fd_exists = (\<lambda>p. False), fd_is_dir = (\<lambda>p. False), fd_read_dir = (\<lambda>p. Inl ''no directory''),
      fd_is_file = (\<lambda>p. False), fd_read = (\<lambda>p. Inl ''no file''), fd_envelope = (\<lambda>b. Inl ''no JSON''),
      fd_spec = (\<lambda>b. Inl ''no JSON'')\<rparr>"

lemma sample_pack_valid: "validate_workbench_pack_manifest sample_pack = []"
  by code_simp

theorem pack_validation_matches_catalog_witness:
  "ct_issues (discover_workflow_catalog no_files ''/n'' [] [sample_pack]) = [] \<and>
   ct_workflows (discover_workflow_catalog no_files ''/n'' [] [sample_pack]) =
     built_in_workflows @ pk_workflows sample_pack \<and>
   validate_workbench_pack_manifest (sample_pack\<lparr>pk_entrypoint_routine_ids := [''x'']\<rparr>) \<noteq> []"
proof -
  have "ct_issues (discover_workflow_catalog no_files ''/n'' [] [sample_pack]) = [] \<and>
      ct_workflows (discover_workflow_catalog no_files ''/n'' [] [sample_pack]) =
        built_in_workflows @ pk_workflows sample_pack"
    using pack_validation_matches_catalog [OF refl, of sample_pack no_files "''/n''"] sample_pack_valid by blast
  moreover have "validate_workbench_pack_manifest (sample_pack\<lparr>pk_entrypoint_routine_ids := [''x'']\<rparr>) \<noteq> []"
    using pack_validation_matches_catalog [OF refl, of "sample_pack\<lparr>pk_entrypoint_routine_ids := [''x'']\<rparr>" no_files "''/n''"]
    by (simp add: sample_pack_def)
  ultimately show ?thesis by blast
qed

theorem discovered_catalog_is_closed_witness:
  "distinct (map workflow_id_of (ct_workflows (discover_workflow_catalog no_files ''/n'' [''d''] [sample_pack]))) \<and>
   distinct (map routine_id_of (ct_review_routines (discover_workflow_catalog no_files ''/n'' [''d''] [sample_pack])))"
  using discovered_catalog_is_closed [OF refl, of no_files "''/n''" "[''d'']" "[sample_pack]"] by blast

end
