(* ===== verification/RoutineProps.thy ===== *)
theory RoutineProps
  imports RoutineRun CatalogProps
begin

text \<open>
  Running a routine of the catalog: what the catalog promises about references is enough
  for a run to fail only where the database, a query or the review itself fails.
\<close>

section \<open>Faults of the parts\<close>

lemma refuse_if_faults: "faults (refuse_if e) = {Some (invalid_request m) | m. e = Some m}"
  by (cases e) (simp_all add: refuse_if_def)

lemma refuse_if_results: "results (refuse_if e) = (if e = None then {()} else {})"
  by (cases e) (simp_all add: refuse_if_def)

lemma results_bindD: "y \<in> results (q_bind m f) \<Longrightarrow> \<exists>x \<in> results m. y \<in> results (f x)"
  by (drule subsetD [OF results_bind]) simp

text \<open>What the database may answer, with the contexts the handlers put on it.\<close>

definition db_faults :: "('s \<Rightarrow> ('a, unit) outcome \<times> 's) \<Rightarrow> 'v failure option set" where
  "db_faults m = (\<Union>context. faults (db_query context m))"

definition store_faults :: "('v, 's) review_engine \<Rightarrow> 'v failure option set" where
  "store_faults g =
     \<Union> ({db_faults (rg_reviews_newest_first g),
         {Some (internal_error (''failed to serialize review source: '' @ e)) | e.
            \<exists>inputs. rg_encode_inputs g inputs = Inl e}} \<union>
        range (\<lambda>i. db_faults (rg_review_run g i)) \<union>
        range (\<lambda>review. db_faults (rg_save_review_run g review)) \<union>
        range (\<lambda>review. db_faults (rg_save_review_run_if_absent g review)) \<union>
        range (\<lambda>n. db_faults (rg_audit_dangling_links g n)) \<union>
        range (\<lambda>n. db_faults (rg_audit_duplicate_titles g n)) \<union>
        range (\<lambda>n. db_faults (rg_audit_orphan_notes g n)) \<union>
        range (\<lambda>n. db_faults (rg_audit_weakly_integrated_notes g n)))"

definition existing_faults :: "'v failure option set" where
  "existing_faults = range (\<lambda>i. Some (existing_review i))"

definition invalid_review_faults :: "'v failure option set" where
  "invalid_review_faults = {Some (invalid_request m) | m. \<exists>review. review_error review = Some m}"

definition step_faults :: "('v, 's) engine \<Rightarrow> WorkflowSpec list \<Rightarrow> 'v failure option set" where
  "step_faults g ws = (\<Union>w \<in> set ws. \<Union>step \<in> set (wf_steps w).
     map_option (with_step_context (wst_step_id step)) ` query_faults g)"

lemma store_call_faults_le: "faults (db_query context m) \<subseteq> db_faults m"
  by (auto simp: db_faults_def)

lemma store_faultsI: "m \<in> S \<Longrightarrow> faults q \<subseteq> m \<Longrightarrow> faults q \<subseteq> \<Union> S"
  by blast

lemma store_faults_le:
  "faults (db_query context (rg_review_run g i)) \<subseteq> store_faults g"
  "faults (db_query context (rg_reviews_newest_first g)) \<subseteq> store_faults g"
  "faults (db_query context (rg_save_review_run g review)) \<subseteq> store_faults g"
  "faults (db_query context (rg_save_review_run_if_absent g review)) \<subseteq> store_faults g"
  "faults (db_query context (rg_audit_dangling_links g n)) \<subseteq> store_faults g"
  "faults (db_query context (rg_audit_duplicate_titles g n)) \<subseteq> store_faults g"
  "faults (db_query context (rg_audit_orphan_notes g n)) \<subseteq> store_faults g"
  "faults (db_query context (rg_audit_weakly_integrated_notes g n)) \<subseteq> store_faults g"
  unfolding store_faults_def by (rule store_faultsI [OF _ store_call_faults_le], simp)+

lemma fingerprint_faults: "faults (stable_json_fingerprint g inputs) \<subseteq> store_faults g"
  unfolding stable_json_fingerprint_def store_faults_def
  by (cases "rg_encode_inputs g inputs") (auto intro: exI [of _ inputs])

lemma review_id_faults: "faults (intended_routine_review_id g r inputs) \<subseteq> store_faults g"
  unfolding intended_routine_review_id_def generated_review_id_def
  by (auto split: option.splits dest!: subsetD [OF faults_bind] subsetD [OF fingerprint_faults])

lemma policy_faults: "faults (save_review_run_with_policy g review overwrite) \<subseteq> store_faults g \<union> existing_faults"
  unfolding save_review_run_with_policy_def existing_faults_def
  by (auto simp del: faults_fail simp: faults_fail dest!: subsetD [OF faults_bind] subsetD [OF store_faults_le(3)]
      subsetD [OF store_faults_le(4)] split: if_splits)

lemma reject_faults: "faults (reject_existing_review_run g i) \<subseteq> store_faults g \<union> existing_faults"
  unfolding reject_existing_review_run_def existing_faults_def
  by (auto dest!: subsetD [OF faults_bind] subsetD [OF store_faults_le(1)] split: if_splits)

lemma checked_review_faults: "faults (checked_review review) \<subseteq> invalid_review_faults"
  unfolding checked_review_def invalid_review_faults_def
  by (auto simp: refuse_if_faults dest!: subsetD [OF faults_bind]) blast

lemma audit_faults: "faults (execute_corpus_audit_query g p) \<subseteq> store_faults g"
  unfolding execute_corpus_audit_query_def
  by (auto dest!: subsetD [OF faults_bind] dest: subsetD [OF store_faults_le(5)] subsetD [OF store_faults_le(6)]
      subsetD [OF store_faults_le(7)] subsetD [OF store_faults_le(8)] split: CorpusAuditKind.splits)

lemma source_result_faults: "faults (review_from_routine_source_result r inputs source i) \<subseteq> invalid_review_faults"
  unfolding review_from_routine_source_result_def review_from_audit_result_def review_from_workflow_result_def
  using checked_review_faults by (cases source) auto

section \<open>Assignments\<close>

text \<open>What a routine accepts as assignments, its workflow accepts.\<close>

lemma assignments_carry_over:
  assumes "validate_review_routine_input_assignments r inputs = None"
    and same: "set (map input_pair (rt_inputs r)) = set (map input_pair (wf_inputs w))"
  shows "input_assignments_error w inputs = None"
proof -
  have "wi_input_id ` set (rt_inputs r) = fst ` set (map input_pair (rt_inputs r))"
    by (auto simp: input_pair_def image_iff)
  also have "\<dots> = wi_input_id ` set (wf_inputs w)"
    unfolding same by (auto simp: input_pair_def image_iff)
  finally have ids: "wi_input_id ` set (rt_inputs r) = wi_input_id ` set (wf_inputs w)" .
  then have declared: "list_ex (\<lambda>d. wi_input_id d = i) (rt_inputs r) = list_ex (\<lambda>d. wi_input_id d = i) (wf_inputs w)" for i
    by (auto simp: list_ex_iff image_iff set_eq_iff) metis+
  have assigned: "find (\<lambda>input. wi_input_id input \<notin> set (map ia_input_id inputs)) (wf_inputs w) = None"
    if "find (\<lambda>input. wi_input_id input \<notin> set (map ia_input_id inputs)) (rt_inputs r) = None"
    using that ids by (auto simp: find_None_iff) (metis image_iff)
  from assms(1) assigned show ?thesis
    unfolding validate_review_routine_input_assignments_def input_assignments_error_def declared
      or_else_None_iff option.map_disc_iff by blast
qed

section \<open>A routine of a closed catalog\<close>

lemma run_source_faults:
  assumes closed: "closed_catalog c" and r: "r \<in> set (ct_review_routines c)"
    and inputs: "validate_review_routine_input_assignments r inputs = None"
  shows "faults (run_source g c r inputs) \<subseteq> store_faults g \<union> step_faults (rg_queries g) (ct_workflows c)"
proof (cases "rt_source r")
  case (RoutineAudit audit limit)
  have "faults (run_source g c r inputs) \<subseteq> store_faults g"
    unfolding run_source_def RoutineAudit by (simp, rule faults_bind_le [OF audit_faults], simp)
  then show ?thesis by blast
next
  case (RoutineWorkflow i)
  from catalog_references(2) [OF closed r RoutineWorkflow] obtain w where w: "catalog_workflow c i = Some w"
    and valid: "workflow_error w = None"
    and same: "set (map input_pair (rt_inputs r)) = set (map input_pair (wf_inputs w))" by blast
  have listed: "w \<in> set (ct_workflows c)"
    using w unfolding catalog_workflow_def by (rule find_Some_key [THEN conjunct1])
  note sound = execute_workflow_sound [OF valid assignments_carry_over [OF inputs same], of "rg_queries g", THEN conjunct1]
  have "faults (run_source g c r inputs) \<subseteq> step_faults (rg_queries g) (ct_workflows c)"
    unfolding run_source_def RoutineWorkflow ReviewRoutineSource.case w option.case
  proof (rule faults_bind_le)
    show "faults (execute_workflow_spec (rg_queries g) w inputs) \<subseteq> step_faults (rg_queries g) (ct_workflows c)"
      using sound listed unfolding step_faults_def by (rule subset_trans [OF _ UN_upper])
  qed simp
  then show ?thesis by blast
next
  case RoutineUnsupported
  with catalog_references(1) [OF closed r] show ?thesis by (simp add: routine_error_def)
qed

lemma apply_profiles_found:
  assumes "\<And>i. i \<in> set ids \<Longrightarrow> catalog_report_profile c i \<noteq> None"
  shows "faults (apply_profiles c apply_one ids) = {}"
    and "results (apply_profiles c apply_one ids) = {map (\<lambda>i. apply_one (the (catalog_report_profile c i))) ids}"
proof -
  have run: "apply_profiles c apply_one ids = q_return (map (\<lambda>i. apply_one (the (catalog_report_profile c i))) ids)"
    using assms
  proof (induction ids)
    case (Cons i ids)
    then obtain p where p: "catalog_report_profile c i = Some p" by fastforce
    note rest = Cons.IH [OF Cons.prems, OF list.set_intros(2)]
    show ?case by (simp add: p rest q_bind_def q_return_def fun_eq_iff)
  qed simp
  show "faults (apply_profiles c apply_one ids) = {}"
    and "results (apply_profiles c apply_one ids) = {map (\<lambda>i. apply_one (the (catalog_report_profile c i))) ids}"
    unfolding run by simp_all
qed

lemma compare_run_faults:
  assumes "rt_compare r \<noteq> None \<Longrightarrow> review \<noteq> None"
  shows "faults (compare_run g r review) \<subseteq> store_faults g"
proof (cases "rt_compare r = None")
  case False
  with assms obtain run where run: "review = Some run" by blast
  have latest: "faults (latest_compatible_review_run g run) \<subseteq> store_faults g"
    unfolding latest_compatible_review_run_def by (rule faults_bind_le [OF store_faults_le(2)]) simp
  have compatible: "is_ok (diff_between b run)" if "Some b \<in> results (latest_compatible_review_run g run)" for b
    using that unfolding latest_compatible_review_run_def
    by (auto dest!: results_bindD simp: find_Some_iff find_Some_iff2)
  show ?thesis
    unfolding compare_run_def run using False
  proof (simp, intro faults_bind_le [OF latest])
    fix base assume base: "base \<in> results (latest_compatible_review_run g run)"
    show "faults (case base of None \<Rightarrow> q_return None
        | Some b \<Rightarrow> \<lambda>s. (map_err invalid_request (map_out Some (diff_between b run)), s)) \<subseteq> store_faults g"
    proof (cases base)
      case (Some b)
      with base compatible obtain d where d: "diff_between b run = Ok d"
        by (cases "diff_between b run") (force simp: is_ok_def)+
      show ?thesis unfolding Some option.case d by (auto simp: faults_def split: option.splits)
    qed simp
  qed
qed (simp add: compare_run_def)

lemma review_step_results:
  "x \<in> results (case i of Some i \<Rightarrow> q_bind (m i) (\<lambda>y. q_return (Some y)) | None \<Rightarrow> q_return None) \<Longrightarrow>
   x = None \<longleftrightarrow> i = None"
  by (cases i) (auto dest!: results_bindD)

lemma review_id_results:
  "x \<in> results (if enabled then q_bind m (\<lambda>i. q_return (Some i)) else q_return None) \<Longrightarrow> x = None \<longleftrightarrow> \<not> enabled"
  by (auto dest!: results_bindD split: if_splits)

lemma catalogued_profile: "catalog_report_profile c i \<noteq> None \<Longrightarrow> profile_id_of (the (catalog_report_profile c i)) = i"
proof -
  assume "catalog_report_profile c i \<noteq> None"
  then obtain p where p: "catalog_report_profile c i = Some p" by blast
  then show ?thesis using find_Some_key [OF p [unfolded catalog_report_profile_def], THEN conjunct2] by simp
qed

lemma option_step_faults:
  "(\<And>i. faults (m i) \<subseteq> F) \<Longrightarrow>
   faults (case x of Some i \<Rightarrow> q_bind (m i) (\<lambda>y. q_return (Some y)) | None \<Rightarrow> q_return None) \<subseteq> F"
  by (cases x) (simp_all add: faults_bind_le)

lemma enabled_faults:
  "faults m \<subseteq> F \<Longrightarrow> faults (if enabled then q_bind m (\<lambda>i. q_return (Some i)) else q_return None) \<subseteq> F"
  by (cases enabled) (simp_all add: faults_bind_le)

lemma execute_routine_faults:
  assumes closed: "closed_catalog c" and r: "r \<in> set (ct_review_routines c)"
  shows "faults (execute_review_routine g c r inputs) \<subseteq>
      {Some (invalid_request m) | m. validate_review_routine_input_assignments r inputs = Some m} \<union>
      store_faults g \<union> existing_faults \<union> invalid_review_faults \<union> step_faults (rg_queries g) (ct_workflows c)"
    (is "_ \<subseteq> ?F")
proof -
  note valid = catalog_references(1) [OF closed r]
  have compare: "rt_compare r \<noteq> None \<Longrightarrow> sp_enabled (rt_save_review r)"
    using valid by (auto simp: routine_error_def validate_review_routine_compare_policy_def split: if_splits)
  show ?thesis
    unfolding execute_review_routine_def
  proof (intro faults_bind_le)
    show "faults (refuse_if (routine_error r)) \<subseteq> ?F" using valid by (simp add: refuse_if_faults)
    show "faults (refuse_if (validate_review_routine_input_assignments r inputs)) \<subseteq> ?F"
      by (auto simp: refuse_if_faults)
    show "faults (if sp_enabled (rt_save_review r)
        then q_bind (intended_routine_review_id g r inputs) (\<lambda>i. q_return (Some i)) else q_return None) \<subseteq> ?F"
      using review_id_faults by (intro enabled_faults) blast
    fix u and checked and review_id source review diff saved reports
    assume ids: "review_id \<in> results (if sp_enabled (rt_save_review r)
        then q_bind (intended_routine_review_id g r inputs) (\<lambda>i. q_return (Some i)) else q_return None)"
      and checked: "checked \<in> results (refuse_if (validate_review_routine_input_assignments r inputs))"
    have passed: "validate_review_routine_input_assignments r inputs = None"
      using checked by (auto simp: refuse_if_results split: if_splits)
    show "faults (case review_id of Some i \<Rightarrow> if sp_overwrite (rt_save_review r) then q_return ()
        else reject_existing_review_run g i | None \<Rightarrow> q_return ()) \<subseteq> ?F"
      using reject_faults [of g] by (cases review_id) (simp_all, blast)
    show "faults (run_source g c r inputs) \<subseteq> ?F"
      using run_source_faults [OF closed r passed] by blast
    show "faults (case review_id of
        Some i \<Rightarrow> q_bind (review_from_routine_source_result r inputs source i) (\<lambda>review. q_return (Some review))
      | None \<Rightarrow> q_return None) \<subseteq> ?F"
      using source_result_faults by (intro option_step_faults) blast
    show "faults (case review of
        Some run \<Rightarrow> q_bind (save_review_run_with_policy g run (sp_overwrite (rt_save_review r)))
          (\<lambda>summary. q_return (Some summary))
      | None \<Rightarrow> q_return None) \<subseteq> ?F"
      using policy_faults by (intro option_step_faults) blast
    show "faults (apply_profiles c (\<lambda>p. apply_report_profile p r source review diff) (rt_report_profile_ids r)) \<subseteq> ?F"
      using apply_profiles_found(1) catalog_references(3) [OF closed r] by fastforce
    assume "review \<in> results (case review_id of
        Some i \<Rightarrow> q_bind (review_from_routine_source_result r inputs source i) (\<lambda>review. q_return (Some review))
      | None \<Rightarrow> q_return None)"
    with compare review_id_results [OF ids] review_step_results have "rt_compare r \<noteq> None \<Longrightarrow> review \<noteq> None" by blast
    then show "faults (compare_run g r review) \<subseteq> ?F" using compare_run_faults by blast
  qed simp
qed

lemma execute_routine_results:
  fixes g :: "('v, 's) review_engine"
  assumes closed: "closed_catalog c" and r: "r \<in> set (ct_review_routines c)"
    and res: "res \<in> results (execute_review_routine g c r inputs)"
  shows "map (\<lambda>a. profile_id_of (ap_profile a)) (re_reports res) = rt_report_profile_ids r"
    and "re_saved_review res \<noteq> None \<longleftrightarrow> sp_enabled (rt_save_review r)"
    and "re_compare res \<noteq> None \<longleftrightarrow> rt_compare r \<noteq> None"
    and "\<forall>a \<in> set (re_reports res). \<forall>line \<in> set (ap_lines a). report_line_matches_profile (ap_profile a) line"
proof -
  from res obtain review_id source review diff saved reports
    where ids: "review_id \<in> results (if sp_enabled (rt_save_review r)
        then q_bind (intended_routine_review_id g r inputs) (\<lambda>i. q_return (Some i)) else q_return None)"
      and review: "review \<in> results (case review_id of
        Some i \<Rightarrow> q_bind (review_from_routine_source_result r inputs source i :: (ReviewRun, 'v, 's) query)
          (\<lambda>review. q_return (Some review))
      | None \<Rightarrow> q_return None)"
      and saved: "saved \<in> results (case review of
        Some run \<Rightarrow> q_bind (save_review_run_with_policy g run (sp_overwrite (rt_save_review r)))
          (\<lambda>summary. q_return (Some summary))
      | None \<Rightarrow> q_return None)"
      and reports: "reports \<in> results (apply_profiles c (\<lambda>p. apply_report_profile p r source review diff)
        (rt_report_profile_ids r) :: (AppliedReportProfile list, 'v, 's) query)"
      and made: "res = \<lparr>re_routine = routine_summary r, re_source = source, re_saved_review = saved,
         re_compare = compare_result c r source review diff, re_reports = reports\<rparr>"
    unfolding execute_review_routine_def
    by (elim results_bindD [elim_format] bexE) (rule that, assumption+, simp)
  have reports: "reports = map (\<lambda>i. apply_report_profile (the (catalog_report_profile c i)) r source review diff)
      (rt_report_profile_ids r)"
    using reports apply_profiles_found(2) catalog_references(3) [OF closed r] by fastforce
  have "map (\<lambda>a. profile_id_of (ap_profile a)) reports = map (\<lambda>i. i) (rt_report_profile_ids r)"
    unfolding reports map_map o_def apply_report_profile_def AppliedReportProfile.simps
    using catalogued_profile catalog_references(3) [OF closed r] by (intro map_cong) auto
  with made show "map (\<lambda>a. profile_id_of (ap_profile a)) (re_reports res) = rt_report_profile_ids r" by simp
  show "re_saved_review res \<noteq> None \<longleftrightarrow> sp_enabled (rt_save_review r)"
    using review_step_results [OF saved] review_step_results [OF review] review_id_results [OF ids] made by simp
  show "re_compare res \<noteq> None \<longleftrightarrow> rt_compare r \<noteq> None" using made by (simp add: compare_result_def)
  show "\<forall>a \<in> set (re_reports res). \<forall>line \<in> set (ap_lines a). report_line_matches_profile (ap_profile a) line"
    using made reports by (auto simp: apply_report_profile_def)
qed

section \<open>The trace of a successful run\<close>

text \<open>
  What a successful run did to the database, call by call.  The review it records holds one
  open finding per entry or step of the source, in order, under the identity, title and
  summary the routine fixes.
\<close>

definition review_records ::
  "ReviewRoutineSpec \<Rightarrow> WorkflowInputAssignment list \<Rightarrow> ReviewRoutineSourceExecutionResult \<Rightarrow> ReviewRun \<Rightarrow> bool" where
  "review_records r inputs source run \<longleftrightarrow>
     review_error run = None \<and>
     (sp_review_id (rt_save_review r) \<in> {None, Some (rm_review_id (rr_metadata run))}) \<and>
     (sp_title (rt_save_review r) \<in> {None, Some (rm_title (rr_metadata run))}) \<and>
     (sp_summary (rt_save_review r) \<in> {None, rm_summary (rr_metadata run)}) \<and>
     (case source of
        AuditExecuted a \<Rightarrow>
          (\<exists>limit. rr_payload run = AuditRun (car_audit a) limit) \<and>
          map rf_payload (rr_findings run) = map AuditPayload (car_entries a)
      | WorkflowExecuted w \<Rightarrow>
          rr_payload run = WorkflowRun (wx_workflow w) inputs (map wsr_step_id (wx_steps w)) \<and>
          map rf_payload (rr_findings run) = map WorkflowStepPayload (wx_steps w)) \<and>
     set (map rf_status (rr_findings run)) \<subseteq> {StatusOpen}"

text \<open>Without overwriting, the review was looked for before the source ran, and was not there.\<close>

definition looked_up :: "('v, 's) review_engine \<Rightarrow> bool \<Rightarrow> string \<Rightarrow> 's \<Rightarrow> 's \<Rightarrow> bool" where
  "looked_up g overwrite i s s' \<longleftrightarrow> (if overwrite then s' = s else rg_review_run g i s = (Ok None, s'))"

text \<open>The comparison is with the newest stored review that can be compared.\<close>

definition compared ::
  "('v, 's) review_engine \<Rightarrow> bool \<Rightarrow> ReviewRun \<Rightarrow> ReviewRunDiff option \<Rightarrow> 's \<Rightarrow> 's \<Rightarrow> bool" where
  "compared g asked run diff s s' \<longleftrightarrow>
     (if asked then \<exists>reviews. rg_reviews_newest_first g s = (Ok reviews, s') \<and>
        (case filter (\<lambda>base. is_ok (diff_between base run)) reviews of
           [] \<Rightarrow> diff = None | base # _ \<Rightarrow> \<exists>d. diff = Some d \<and> diff_between base run = Ok d)
      else diff = None \<and> s' = s)"

definition stored :: "('v, 's) review_engine \<Rightarrow> bool \<Rightarrow> ReviewRun \<Rightarrow> 's \<Rightarrow> 's \<Rightarrow> bool" where
  "stored g overwrite run s s' \<longleftrightarrow>
     (if overwrite then rg_save_review_run g run s = (Ok (), s')
      else rg_save_review_run_if_absent g run s = (Ok True, s'))"

definition comparison_reported :: "ReviewRoutineSpec \<Rightarrow> ReviewRunDiff option \<Rightarrow> ReviewRoutineCompareResult option \<Rightarrow> bool" where
  "comparison_reported r diff compare \<longleftrightarrow>
     (case rt_compare r of None \<Rightarrow> compare = None
      | Some policy \<Rightarrow> \<exists>x. compare = Some x \<and> rcr_target x = cp_target policy \<and> rcr_diff x = diff \<and>
          rcr_base_review x = map_option df_base_review diff)"

definition recorded_run ::
  "('v, 's) review_engine \<Rightarrow> WorkflowCatalog \<Rightarrow> ReviewRoutineSpec \<Rightarrow> WorkflowInputAssignment list \<Rightarrow>
   's \<Rightarrow> ReviewRoutineExecutionResult \<Rightarrow> 's \<Rightarrow> bool" where
  "recorded_run g c r inputs s res s' \<longleftrightarrow>
     (if sp_enabled (rt_save_review r) then
        \<exists>run diff s0 s1 s2.
          looked_up g (sp_overwrite (rt_save_review r)) (rm_review_id (rr_metadata run)) s s0 \<and>
          run_source g c r inputs s0 = (Ok (re_source res), s1) \<and>
          review_records r inputs (re_source res) run \<and>
          compared g (rt_compare r \<noteq> None) run diff s1 s2 \<and>
          stored g (sp_overwrite (rt_save_review r)) run s2 s' \<and>
          re_saved_review res = Some (review_summary run) \<and>
          comparison_reported r diff (re_compare res)
      else run_source g c r inputs s = (Ok (re_source res), s') \<and>
        re_saved_review res = None \<and> re_compare res = None)"

lemma q_bind_okD: "q_bind m f s = (Ok y, s') \<Longrightarrow> \<exists>x t. m s = (Ok x, t) \<and> f x t = (Ok y, s')"
  by (cases "m s") (auto simp: q_bind_def split: outcome.splits)

lemma refuse_if_okD: "refuse_if e s = (Ok u, t) \<Longrightarrow> t = s"
  by (cases e) (simp_all add: refuse_if_def q_return_def q_fail_def)

lemma db_query_okD: "db_query context m s = (Ok x, t) \<Longrightarrow> m s = (Ok x, t)"
  by (cases "m s"; cases "fst (m s)") (simp_all add: db_query_def)

lemma review_id_state: "intended_routine_review_id g r inputs s = (Ok i, t) \<Longrightarrow>
    t = s \<and> sp_review_id (rt_save_review r) \<in> {None, Some i}"
  unfolding intended_routine_review_id_def generated_review_id_def stable_json_fingerprint_def
  by (auto simp: q_return_def q_fail_def q_bind_def split: option.splits if_splits sum.splits outcome.splits)

lemma reject_state:
  "reject_existing_review_run g i s = (Ok u, t) \<Longrightarrow> rg_review_run g i s = (Ok None, t)"
  unfolding reject_existing_review_run_def
  by (drule q_bind_okD) (auto dest!: db_query_okD simp: q_return_def q_fail_def split: if_splits)

lemma checked_review_state: "checked_review review s = (Ok x, t) \<Longrightarrow> t = s \<and> x = review \<and> review_error review = None"
  unfolding checked_review_def
  by (cases "review_error review") (simp_all add: refuse_if_def q_bind_def q_return_def q_fail_def)

lemma audit_review_records:
  assumes "review_error (audit_review p res) = None"
    and "sa_review_id p = Some i" "sa_title p = sp_title (rt_save_review r)" "sa_summary p = sp_summary (rt_save_review r)"
    and "sp_review_id (rt_save_review r) \<in> {None, Some i}"
  shows "rm_review_id (rr_metadata (audit_review p res)) = i \<and>
    review_records r inputs (AuditExecuted res) (audit_review p res)"
  using assms unfolding review_records_def
  by (cases "sp_title (rt_save_review r)"; cases "sp_summary (rt_save_review r)")
    (auto simp: audit_review_def open_finding_def o_def)

lemma workflow_review_records:
  assumes "review_error (workflow_review p res i) = None"
    and "sw_inputs p = inputs" "sw_title p = sp_title (rt_save_review r)" "sw_summary p = sp_summary (rt_save_review r)"
    and "sp_review_id (rt_save_review r) \<in> {None, Some i}"
  shows "rm_review_id (rr_metadata (workflow_review p res i)) = i \<and>
    review_records r inputs (WorkflowExecuted res) (workflow_review p res i)"
  using assms unfolding review_records_def
  by (cases "sp_title (rt_save_review r)"; cases "sp_summary (rt_save_review r)")
    (auto simp: workflow_review_def open_finding_def o_def)

lemma source_result_state:
  assumes run: "review_from_routine_source_result r inputs source i s = (Ok run, t)"
    and i: "sp_review_id (rt_save_review r) \<in> {None, Some i}"
  shows "t = s \<and> rm_review_id (rr_metadata run) = i \<and> review_records r inputs source run"
proof (cases source)
  case (AuditExecuted res)
  note checked = checked_review_state [OF run [unfolded review_from_routine_source_result_def AuditExecuted
      ReviewRoutineSourceExecutionResult.case review_from_audit_result_def]]
  from checked show ?thesis
    unfolding AuditExecuted by (elim conjE) (simp add: audit_review_records [OF _ _ _ _ i])
next
  case (WorkflowExecuted res)
  note checked = checked_review_state [OF run [unfolded review_from_routine_source_result_def WorkflowExecuted
      ReviewRoutineSourceExecutionResult.case review_from_workflow_result_def]]
  from checked show ?thesis
    unfolding WorkflowExecuted by (elim conjE) (simp add: workflow_review_records [OF _ _ _ _ i])
qed

lemma find_filter: "find P xs = (case filter P xs of [] \<Rightarrow> None | x # _ \<Rightarrow> Some x)"
  by (induction xs) simp_all

lemma compare_state:
  fixes g :: "('v, 's) review_engine"
  shows "compare_run g r (Some run) s = (Ok diff, t) \<Longrightarrow> compared g (rt_compare r \<noteq> None) run diff s t"
proof (cases "rt_compare r")
  case None
  then show "compare_run g r (Some run) s = (Ok diff, t) \<Longrightarrow> ?thesis"
    by (simp add: compare_run_def compared_def q_return_def)
next
  case (Some policy)
  assume run: "compare_run g r (Some run) s = (Ok diff, t)"
  have unfolded: "compare_run g r (Some run) = q_bind (latest_compatible_review_run g run) (\<lambda>base.
      case base of None \<Rightarrow> q_return None
      | Some b \<Rightarrow> (\<lambda>s. (map_err invalid_request (map_out Some (diff_between b run)), s)))"
    unfolding compare_run_def Some by simp
  obtain base u where latest: "latest_compatible_review_run g run s = (Ok base, u)"
    and rest: "((case base of None \<Rightarrow> q_return None
        | Some b \<Rightarrow> (\<lambda>s. (map_err invalid_request (map_out Some (diff_between b run)), s)))
          :: (ReviewRunDiff option, 'v, 's) query) u = (Ok diff, t)"
    using q_bind_okD [OF run [unfolded unfolded]] by blast
  from latest obtain reviews where newest: "rg_reviews_newest_first g s = (Ok reviews, u)"
    and base: "base = find (\<lambda>review. is_ok (diff_between review run)) reviews"
    by (auto simp: latest_compatible_review_run_def q_return_def dest!: q_bind_okD db_query_okD)
  show ?thesis
    using rest newest Some unfolding base find_filter compared_def
    by (cases "filter (\<lambda>review. is_ok (diff_between review run)) reviews")
      (auto simp: q_return_def outcome_simps)
qed

lemma policy_state:
  "save_review_run_with_policy g run overwrite s = (Ok x, t) \<Longrightarrow> x = review_summary run \<and> stored g overwrite run s t"
  unfolding save_review_run_with_policy_def stored_def
  by (auto dest!: q_bind_okD db_query_okD simp: q_return_def q_fail_def split: if_splits)

lemma profiles_state: "apply_profiles c apply_one ids s = (Ok x, t) \<Longrightarrow> t = s"
proof (induction ids arbitrary: x t)
  case (Cons i ids)
  then show ?case by (cases "catalog_report_profile c i") (auto simp: q_return_def q_fail_def dest!: q_bind_okD)
qed (simp add: q_return_def)

lemma compare_result_reported: "comparison_reported r diff (compare_result c r source review diff)"
  by (simp add: comparison_reported_def compare_result_def split: option.split)

lemma execute_routine_recorded:
  fixes g :: "('v, 's) review_engine"
  assumes valid: "routine_error r = None" and run: "execute_review_routine g c r inputs s = (Ok res, s')"
  shows "recorded_run g c r inputs s res s'"
proof -
  from run obtain a b review_id d source review diff saved reports u0 u1 s0 t0 s1 t1 s2 t2 t3
    where a: "(refuse_if (routine_error r) :: (unit, 'v, 's) query) s = (Ok a, u0)"
      and b: "(refuse_if (validate_review_routine_input_assignments r inputs) :: (unit, 'v, 's) query) u0 = (Ok b, u1)"
      and ids: "(if sp_enabled (rt_save_review r)
        then q_bind (intended_routine_review_id g r inputs) (\<lambda>i. q_return (Some i)) else q_return None) u1 = (Ok review_id, s0)"
      and absent: "(case review_id of
          Some i \<Rightarrow> if sp_overwrite (rt_save_review r) then q_return () else reject_existing_review_run g i
        | None \<Rightarrow> q_return ()) s0 = (Ok d, t0)"
      and source: "run_source g c r inputs t0 = (Ok source, s1)"
      and review: "(case review_id of
          Some i \<Rightarrow> q_bind (review_from_routine_source_result r inputs source i :: (ReviewRun, 'v, 's) query)
            (\<lambda>review. q_return (Some review))
        | None \<Rightarrow> q_return None) s1 = (Ok review, t1)"
      and diff: "compare_run g r review t1 = (Ok diff, s2)"
      and saved: "(case review of
          Some run \<Rightarrow> q_bind (save_review_run_with_policy g run (sp_overwrite (rt_save_review r)))
            (\<lambda>summary. q_return (Some summary))
        | None \<Rightarrow> q_return None) s2 = (Ok saved, t2)"
      and reports: "(apply_profiles c (\<lambda>p. apply_report_profile p r source review diff) (rt_report_profile_ids r)
          :: (AppliedReportProfile list, 'v, 's) query) t2 = (Ok reports, t3)"
      and last: "(q_return \<lparr>re_routine = routine_summary r, re_source = source, re_saved_review = saved,
         re_compare = compare_result c r source review diff, re_reports = reports\<rparr>
          :: (ReviewRoutineExecutionResult, 'v, 's) query) t3 = (Ok res, s')"
    unfolding execute_review_routine_def
    by (elim q_bind_okD [elim_format] exE conjE)
      (rule that, assumption+)
  from last have made: "res = \<lparr>re_routine = routine_summary r, re_source = source, re_saved_review = saved,
      re_compare = compare_result c r source review diff, re_reports = reports\<rparr>" and "t3 = s'"
    by (simp_all add: q_return_def)
  have u: "u1 = s" "t2 = s'" using refuse_if_okD [OF a] refuse_if_okD [OF b] profiles_state [OF reports] \<open>t3 = s'\<close> by simp_all
  have compare: "rt_compare r \<noteq> None \<Longrightarrow> sp_enabled (rt_save_review r)"
    using valid by (auto simp: routine_error_def validate_review_routine_compare_policy_def split: if_splits)
  show ?thesis
  proof (cases "sp_enabled (rt_save_review r)")
    case False
    with ids have "review_id = None" "s0 = s" by (simp_all add: u q_return_def)
    with absent review have "review = None" "t0 = s" "t1 = s1" by (simp_all add: q_return_def)
    moreover have none: "rt_compare r = None" using False compare by blast
    ultimately have "saved = None" "s2 = s1" "t2 = s1"
      using diff saved by (simp_all add: compare_run_def q_return_def)
    with none False made source u \<open>t0 = s\<close> show ?thesis
      by (simp add: recorded_run_def compare_result_def)
  next
    case True
    with ids u have "q_bind (intended_routine_review_id g r inputs) (\<lambda>i. q_return (Some i)) s = (Ok review_id, s0)" by simp
    from q_bind_okD [OF this] obtain i v where intended: "intended_routine_review_id g r inputs s = (Ok i, v)"
      and "review_id = Some i" and "s0 = v" by (auto simp: q_return_def)
    with review_id_state [OF intended]
    have i: "review_id = Some i" and known: "sp_review_id (rt_save_review r) \<in> {None, Some i}" and s0: "s0 = s" by simp_all
    have looked: "looked_up g (sp_overwrite (rt_save_review r)) i s t0"
      using absent unfolding looked_up_def i s0 by (auto simp: q_return_def split: if_splits dest: reject_state)
    from review obtain rv where rv: "review = Some rv"
      and built: "(review_from_routine_source_result r inputs source i :: (ReviewRun, 'v, 's) query) s1 = (Ok rv, t1)"
      by (auto simp: i q_return_def dest!: q_bind_okD)
    note records = source_result_state [OF built known]
    have cmp: "compared g (rt_compare r \<noteq> None) rv diff s1 s2"
      using compare_state [OF diff [unfolded rv]] records by simp
    from saved have kept: "saved = Some (review_summary rv)" "stored g (sp_overwrite (rt_save_review r)) rv s2 s'"
      by (auto simp: rv u q_return_def dest!: q_bind_okD policy_state)
    show ?thesis
      unfolding recorded_run_def made ReviewRoutineExecutionResult.simps
      unfolding if_P [OF True]
      by (rule exI [of _ rv], rule exI [of _ diff], rule exI [of _ t0], rule exI [of _ s1], rule exI [of _ s2])
        (use looked source records cmp kept compare_result_reported in simp)
  qed
qed

section \<open>Property\<close>

text \<open>C7.
  A routine that a discovered catalog offers runs as its specification says.  It fails
  only when its assignments are refused, when the database or the encoding of the inputs
  fails, when the review exists and may not be overwritten, when the review that was
  built is itself invalid, or when a query of a workflow step fails: never because its
  workflow or a report profile is unknown, because it cannot be compared, or because the
  workflow refuses the assignments.  A run that succeeds applied exactly the profiles the
  routine names, in order, each showing only lines it selects.  Call by call: when saving is
  enabled the review was looked for first unless it may be overwritten, the source ran, the
  review built from the source's result (one open finding per entry or step, with the
  identity, title and summary the routine fixes) was compared, exactly when the routine has
  a compare policy, with the newest stored review it can be compared with, and the last
  thing done to the database is storing that review; when saving is disabled nothing but
  the source ran.\<close>

theorem catalogued_routine_runs:
  assumes "c = discover_workflow_catalog fd root workflow_dirs packs"
    and "catalog_review_routine c routine_id = Some r"
  shows "faults (execute_review_routine g c r inputs) \<subseteq>
      {Some (invalid_request m) | m. validate_review_routine_input_assignments r inputs = Some m} \<union>
      store_faults g \<union> existing_faults \<union> invalid_review_faults \<union> step_faults (rg_queries g) (ct_workflows c) \<and>
    (\<forall>res \<in> results (execute_review_routine g c r inputs).
       map (\<lambda>a. profile_id_of (ap_profile a)) (re_reports res) = rt_report_profile_ids r \<and>
       (re_saved_review res \<noteq> None \<longleftrightarrow> sp_enabled (rt_save_review r)) \<and>
       (re_compare res \<noteq> None \<longleftrightarrow> rt_compare r \<noteq> None) \<and>
       (\<forall>a \<in> set (re_reports res). \<forall>line \<in> set (ap_lines a). report_line_matches_profile (ap_profile a) line)) \<and>
    (\<forall>s res s'. execute_review_routine g c r inputs s = (Ok res, s') \<longrightarrow> recorded_run g c r inputs s res s')"
proof -
  have closed: "closed_catalog c" using assms(1) closed_discover by simp
  have listed: "r \<in> set (ct_review_routines c)"
    using assms(2) unfolding catalog_review_routine_def by (rule find_Some_key [THEN conjunct1])
  show ?thesis
    using execute_routine_faults [OF closed listed] execute_routine_results [OF closed listed]
      execute_routine_recorded [OF catalog_references(1) [OF closed listed]]
    by (intro conjI ballI allI impI) blast+
qed

text \<open>The witness: a pack's routine over duplicate titles that is saved and compared, with a
  database that holds one earlier review of that audit and counts what it stores.\<close>

definition earlier_review :: ReviewRun where
  "earlier_review =
     \<lparr>rr_metadata = \<lparr>rm_review_id = ''review/earlier'', rm_title = ''Earlier'', rm_summary = None\<rparr>,
      rr_payload = AuditRun DuplicateTitles 200, rr_findings = []\<rparr>"

definition sample_review_engine :: "(string, nat) review_engine" where
  "sample_review_engine =
     \<lparr>rg_queries = sample_engine, rg_review_run = (\<lambda>i s. (Ok None, s)),
      rg_reviews_newest_first = (\<lambda>s. (Ok [earlier_review], s)), rg_save_review_run = (\<lambda>review s. (Ok (), Suc s)),
      rg_save_review_run_if_absent = (\<lambda>review s. (Ok True, Suc s)), rg_delete_review_run = (\<lambda>i s. (Ok False, s)),
      rg_audit_dangling_links = (\<lambda>n s. (Ok [], s)), rg_audit_duplicate_titles = (\<lambda>n s. (Ok [], s)),
      rg_audit_orphan_notes = (\<lambda>n s. (Ok [], s)), rg_audit_weakly_integrated_notes = (\<lambda>n s. (Ok [], s)),
      rg_encode_inputs = (\<lambda>inputs. Inr [])\<rparr>"

definition comparing_routine :: ReviewRoutineSpec where
  "comparing_routine =
     \<lparr>rt_metadata = \<lparr>rtm_routine_id = ''r'', rtm_title = ''R'', rtm_summary = None\<rparr>,
      rt_source = RoutineAudit DuplicateTitles 200, rt_inputs = [], rt_save_review = default_save_review,
      rt_compare = Some \<lparr>cp_target = LatestCompatibleReview, cp_report_profile_id = None\<rparr>,
      rt_report_profile_ids = []\<rparr>"

definition comparing_pack :: WorkbenchPackManifest where
  "comparing_pack =
     \<lparr>pk_metadata = \<lparr>km_pack_id = ''p'', km_title = ''P'', km_summary = None\<rparr>,
      pk_compatibility = default_pack_compatibility, pk_workflows = [], pk_review_routines = [comparing_routine],
      pk_report_profiles = [], pk_entrypoint_routine_ids = [''r'']\<rparr>"

lemma comparing_routine_found:
  "catalog_review_routine (discover_workflow_catalog no_files ''/n'' [] [comparing_pack]) ''r'' = Some comparing_routine"
proof -
  have "validate_workbench_pack_manifest comparing_pack = []" by code_simp
  then have "ct_review_routines (discover_workflow_catalog no_files ''/n'' [] [comparing_pack]) =
      built_in_review_routines @ pk_review_routines comparing_pack"
    by (rule validated_pack_routines)
  moreover have "find (\<lambda>r. routine_id_of r = ''r'') (built_in_review_routines @ pk_review_routines comparing_pack) =
      Some comparing_routine"
    by code_simp
  ultimately show ?thesis by (simp add: catalog_review_routine_def)
qed

lemma comparing_run:
  "case execute_review_routine sample_review_engine c comparing_routine [] 0 of
     (Ok res, s') \<Rightarrow> s' = 1 \<and>
       map_option (\<lambda>x. rm_review_id (rs_metadata x)) (re_saved_review res) = Some ''review/r'' \<and>
       map_option (\<lambda>x. rm_review_id (rs_metadata x)) (Option.bind (re_compare res) rcr_base_review) =
         Some ''review/earlier''
   | _ \<Rightarrow> False"
  by code_simp

theorem catalogued_routine_runs_witness:
  "\<exists>res. execute_review_routine sample_review_engine (discover_workflow_catalog no_files ''/n'' [] [comparing_pack])
       comparing_routine [] 0 = (Ok res, 1) \<and>
     recorded_run sample_review_engine (discover_workflow_catalog no_files ''/n'' [] [comparing_pack])
       comparing_routine [] 0 res 1"
proof -
  obtain res where run: "execute_review_routine sample_review_engine
      (discover_workflow_catalog no_files ''/n'' [] [comparing_pack]) comparing_routine [] 0 = (Ok res, 1)"
    using comparing_run [of "discover_workflow_catalog no_files ''/n'' [] [comparing_pack]"]
    by (auto split: prod.splits outcome.splits)
  with catalogued_routine_runs [OF refl comparing_routine_found, of sample_review_engine "[]", THEN conjunct2, THEN conjunct2]
  show ?thesis by blast
qed

end
