(* ===== verification/Operations.thy ===== *)
theory Operations
  imports Rpc
begin

text \<open>
  The classification of every JSON-RPC method by family, mutation and freshness, from
  \<open>crates/slipbox-rpc/src/operations.rs\<close>, and the methods of the handler table of
  \<open>crates/slipbox-engine/src/operations.rs\<close>.  The classification is one table in the
  source; here it is the concatenation of seven consecutive parts.
\<close>

datatype OperationFamily =
    FamSystem | FamDiagnostics | FamFiles | FamNotes | FamRelations | FamExploration | FamReviews
  | FamAssets | FamGlossary | FamCapture | FamStructuralEdit | FamLinkRewrite

datatype OperationMutation = ReadOnly | DerivedIndex | DurableState | OrgContent

datatype FreshnessBehavior =
    ReportsState | ReadsDerivedIndex | ReadsSourceFiles | RefreshesRootIndex | RefreshesOneFile
  | RefreshesAffectedFiles

record OperationDescriptor =
  op_method :: string
  op_family :: OperationFamily
  op_mutation :: OperationMutation
  op_freshness :: FreshnessBehavior
  op_description :: string

text \<open>The macro \<open>descriptor!\<close>.\<close>

definition descriptor ::
  "string \<Rightarrow> OperationFamily \<Rightarrow> OperationMutation \<Rightarrow> FreshnessBehavior \<Rightarrow> string \<Rightarrow> OperationDescriptor" where
  "descriptor m family mutation freshness description =
     \<lparr>op_method = m, op_family = family, op_mutation = mutation, op_freshness = freshness,
      op_description = description\<rparr>"

definition DESCRIPTORS_SYSTEM :: "OperationDescriptor list" where
  "DESCRIPTORS_SYSTEM =
    [descriptor ''slipbox/ping'' FamSystem ReadOnly ReportsState
       ''Check daemon liveness and root identity.'',
     descriptor ''slipbox/status'' FamSystem ReadOnly ReportsState
       ''Return daemon root, database path, and index counts.'',
     descriptor ''slipbox/index'' FamSystem DerivedIndex RefreshesRootIndex
       ''Refresh the derived index from root discovery.'',
     descriptor ''slipbox/indexFile'' FamFiles DerivedIndex RefreshesOneFile
       ''Refresh one file in the derived index without pruning unrelated files.'',
     descriptor ''slipbox/indexedFiles'' FamFiles ReadOnly ReadsDerivedIndex
       ''List files currently represented in the derived index.'',
     descriptor ''slipbox/searchFiles'' FamFiles ReadOnly ReadsDerivedIndex
       ''Search indexed file records.'',
     descriptor ''slipbox/diagnoseFile'' FamDiagnostics ReadOnly ReportsState
       ''Explain discovery and index state for one file.'',
     descriptor ''slipbox/diagnoseNode'' FamDiagnostics ReadOnly ReportsState
       ''Explain indexed source-location state for one node.'',
     descriptor ''slipbox/diagnoseIndex'' FamDiagnostics ReadOnly ReportsState
       ''Report drift between root discovery and the derived index.'']"

definition DESCRIPTORS_NOTES :: "OperationDescriptor list" where
  "DESCRIPTORS_NOTES =
    [descriptor ''slipbox/searchNodes'' FamNotes ReadOnly ReadsDerivedIndex
       ''Search indexed note records.'',
     descriptor ''slipbox/listNotes'' FamNotes ReadOnly ReadsDerivedIndex
       ''List indexed notes in bounded filing-order pages.'',
     descriptor ''slipbox/searchNodeContent'' FamNotes ReadOnly ReadsDerivedIndex
       ''Search indexed note content and return a highlighted excerpt per hit.'',
     descriptor ''slipbox/searchCorpus'' FamNotes ReadOnly ReadsDerivedIndex
       ''Search note and glossary entities in bounded ranked pages.'',
     descriptor ''slipbox/randomNode'' FamNotes ReadOnly ReadsDerivedIndex
       ''Return one random indexed note.'',
     descriptor ''slipbox/nodeFromId'' FamNotes ReadOnly ReadsDerivedIndex
       ''Resolve a note by exact Org ID.'',
     descriptor ''slipbox/nodeFromKey'' FamNotes ReadOnly ReadsDerivedIndex
       ''Resolve a note by exact slipbox key.'',
     descriptor ''slipbox/nodeFromTitleOrAlias'' FamNotes ReadOnly ReadsDerivedIndex
       ''Resolve notes by exact title or alias.'',
     descriptor ''slipbox/nodeAtPoint'' FamNotes ReadOnly ReadsDerivedIndex
       ''Resolve the indexed note at a source position.'',
     descriptor ''slipbox/anchorAtPoint'' FamNotes ReadOnly ReadsDerivedIndex
       ''Resolve the indexed anchor at a source position.'',
     descriptor ''slipbox/anchorFromKey'' FamNotes ReadOnly ReadsDerivedIndex
       ''Resolve an indexed anchor by exact slipbox key.'',
     descriptor ''slipbox/readFileSource'' FamFiles ReadOnly ReadsSourceFiles
       ''Read a bounded slice from an eligible source file.'',
     descriptor ''slipbox/readNodeSource'' FamNotes ReadOnly ReadsSourceFiles
       ''Read a bounded slice for an indexed source anchor.'',
     descriptor ''slipbox/resolveDocumentLink'' FamNotes ReadOnly ReadsDerivedIndex
       ''Resolve a document link against its indexed source anchor.'',
     descriptor ''slipbox/noteContext'' FamNotes ReadOnly ReadsSourceFiles
       ''Read a source slice and immediate relation context for an indexed note.'']"

definition DESCRIPTORS_RELATIONS :: "OperationDescriptor list" where
  "DESCRIPTORS_RELATIONS =
    [descriptor ''slipbox/searchOccurrences'' FamRelations ReadOnly ReadsDerivedIndex
       ''Search raw indexed text occurrences.'',
     descriptor ''slipbox/searchTags'' FamRelations ReadOnly ReadsDerivedIndex
       ''Search indexed Org tags.'',
     descriptor ''slipbox/searchRefs'' FamRelations ReadOnly ReadsDerivedIndex
       ''Search indexed reference strings.'',
     descriptor ''slipbox/nodeFromRef'' FamRelations ReadOnly ReadsDerivedIndex
       ''Resolve the note owning an exact indexed reference.'',
     descriptor ''slipbox/backlinks'' FamRelations ReadOnly ReadsDerivedIndex
       ''Return incoming links for an indexed note.'',
     descriptor ''slipbox/forwardLinks'' FamRelations ReadOnly ReadsDerivedIndex
       ''Return outgoing links for an indexed note.'',
     descriptor ''slipbox/directedRelations'' FamRelations ReadOnly ReadsDerivedIndex
       ''Page the distinct directed neighbors of an indexed note.'',
     descriptor ''slipbox/reflinks'' FamRelations ReadOnly ReadsDerivedIndex
       ''Return links to indexed references.'',
     descriptor ''slipbox/unlinkedReferences'' FamRelations ReadOnly ReadsDerivedIndex
       ''Find mention candidates for indexed references.'',
     descriptor ''slipbox/agenda'' FamRelations ReadOnly ReadsDerivedIndex
       ''Query indexed planning entries.'',
     descriptor ''slipbox/graphDot'' FamRelations ReadOnly ReadsDerivedIndex
       ''Render the indexed relation graph as DOT.'']"

definition DESCRIPTORS_REVIEWS :: "OperationDescriptor list" where
  "DESCRIPTORS_REVIEWS =
    [descriptor ''slipbox/explore'' FamExploration ReadOnly ReadsDerivedIndex
       ''Run a live exploration lens.'',
     descriptor ''slipbox/compareNotes'' FamExploration ReadOnly ReadsDerivedIndex
       ''Compare two indexed notes.'',
     descriptor ''slipbox/saveExplorationArtifact'' FamExploration DurableState ReadsDerivedIndex
       ''Persist an exploration artifact record.'',
     descriptor ''slipbox/explorationArtifact'' FamExploration ReadOnly ReadsDerivedIndex
       ''Read one persisted exploration artifact.'',
     descriptor ''slipbox/listExplorationArtifacts'' FamExploration ReadOnly ReadsDerivedIndex
       ''List persisted exploration artifacts.'',
     descriptor ''slipbox/deleteExplorationArtifact'' FamExploration DurableState ReadsDerivedIndex
       ''Delete one persisted exploration artifact.'',
     descriptor ''slipbox/executeExplorationArtifact'' FamExploration ReadOnly ReadsDerivedIndex
       ''Execute one persisted exploration artifact.'',
     descriptor ''slipbox/corpusAudit'' FamReviews ReadOnly ReadsDerivedIndex
       ''Run a read-only corpus audit.'',
     descriptor ''slipbox/saveReviewRun'' FamReviews DurableState ReadsDerivedIndex
       ''Persist a review run.'',
     descriptor ''slipbox/reviewRun'' FamReviews ReadOnly ReadsDerivedIndex
       ''Read one persisted review run.'',
     descriptor ''slipbox/diffReviewRuns'' FamReviews ReadOnly ReadsDerivedIndex
       ''Diff two persisted review runs.'',
     descriptor ''slipbox/reviewFindingRemediationPreview'' FamReviews ReadOnly ReadsDerivedIndex
       ''Preview remediation for one review finding.'',
     descriptor ''slipbox/reviewFindingRemediationApply'' FamReviews OrgContent RefreshesAffectedFiles
       ''Apply remediation for one review finding and refresh affected files.'',
     descriptor ''slipbox/listReviewRuns'' FamReviews ReadOnly ReadsDerivedIndex
       ''List persisted review runs.'',
     descriptor ''slipbox/deleteReviewRun'' FamReviews DurableState ReadsDerivedIndex
       ''Delete one persisted review run.'',
     descriptor ''slipbox/markReviewFinding'' FamReviews DurableState ReadsDerivedIndex
       ''Mark the state of one persisted review finding.'',
     descriptor ''slipbox/saveCorpusAuditReview'' FamReviews DurableState ReadsDerivedIndex
       ''Run an audit and persist its review record.'']"

definition DESCRIPTORS_ASSETS :: "OperationDescriptor list" where
  "DESCRIPTORS_ASSETS =
    [descriptor ''slipbox/listWorkflows'' FamAssets ReadOnly ReportsState
       ''List discovered workflows.'',
     descriptor ''slipbox/workflow'' FamAssets ReadOnly ReportsState
       ''Read one discovered workflow.'',
     descriptor ''slipbox/runWorkflow'' FamAssets DurableState ReadsDerivedIndex
       ''Run one workflow without persisting a review.'',
     descriptor ''slipbox/saveWorkflowReview'' FamAssets DurableState ReadsDerivedIndex
       ''Run one workflow and persist its review record.'',
     descriptor ''slipbox/listReviewRoutines'' FamAssets ReadOnly ReportsState
       ''List discovered review routines.'',
     descriptor ''slipbox/reviewRoutine'' FamAssets ReadOnly ReportsState
       ''Read one discovered review routine.'',
     descriptor ''slipbox/runReviewRoutine'' FamAssets DurableState ReadsDerivedIndex
       ''Run one review routine.'',
     descriptor ''slipbox/importWorkbenchPack'' FamAssets DurableState ReportsState
       ''Import a durable workbench pack.'',
     descriptor ''slipbox/workbenchPack'' FamAssets ReadOnly ReportsState
       ''Read one durable workbench pack.'',
     descriptor ''slipbox/validateWorkbenchPack'' FamAssets ReadOnly ReportsState
       ''Validate a workbench pack payload.'',
     descriptor ''slipbox/exportWorkbenchPack'' FamAssets ReadOnly ReportsState
       ''Export one durable workbench pack.'',
     descriptor ''slipbox/listWorkbenchPacks'' FamAssets ReadOnly ReportsState
       ''List durable workbench packs.'',
     descriptor ''slipbox/deleteWorkbenchPack'' FamAssets DurableState ReportsState
       ''Delete one durable workbench pack.'']"

definition DESCRIPTORS_CAPTURE :: "OperationDescriptor list" where
  "DESCRIPTORS_CAPTURE =
    [descriptor ''slipbox/listGlossaryTerms'' FamGlossary ReadOnly ReadsDerivedIndex
       ''List indexed glossary terms.'',
     descriptor ''slipbox/searchGlossary'' FamGlossary ReadOnly ReadsDerivedIndex
       ''Search indexed glossary terms.'',
     descriptor ''slipbox/glossaryDue'' FamGlossary ReadOnly ReadsDerivedIndex
       ''List glossary terms due for review.'',
     descriptor ''slipbox/glossaryTerm'' FamGlossary ReadOnly ReadsDerivedIndex
       ''Resolve one glossary term by slipbox key.'',
     descriptor ''slipbox/gradeTerm'' FamGlossary OrgContent RefreshesAffectedFiles
       ''Grade a glossary term, rewrite its review drawer, and refresh it.'',
     descriptor ''slipbox/markGlossaryTerm'' FamGlossary OrgContent RefreshesAffectedFiles
       ''Mark a note as a glossary term and refresh it.'',
     descriptor ''slipbox/captureNode'' FamCapture OrgContent RefreshesAffectedFiles
       ''Create a file note and refresh its index record.'',
     descriptor ''slipbox/captureTemplate'' FamCapture OrgContent RefreshesAffectedFiles
       ''Capture from a template and refresh the affected index record.'',
     descriptor ''slipbox/captureTemplatePreview'' FamCapture ReadOnly ReportsState
       ''Preview a template capture without writing files.'',
     descriptor ''slipbox/ensureFileNode'' FamCapture OrgContent RefreshesAffectedFiles
       ''Ensure a file-level note exists and refresh it.'',
     descriptor ''slipbox/appendHeading'' FamCapture OrgContent RefreshesAffectedFiles
       ''Append a heading to a file and refresh it.'',
     descriptor ''slipbox/appendHeadingToNode'' FamCapture OrgContent RefreshesAffectedFiles
       ''Append a heading below a resolved note and refresh it.'',
     descriptor ''slipbox/appendHeadingAtOutlinePath'' FamCapture OrgContent RefreshesAffectedFiles
       ''Append a heading at an outline path and refresh it.'',
     descriptor ''slipbox/ensureNodeId'' FamCapture OrgContent RefreshesAffectedFiles
       ''Ensure an anchor has an Org ID and refresh it.'',
     descriptor ''slipbox/updateNodeMetadata'' FamCapture OrgContent RefreshesAffectedFiles
       ''Update note metadata and refresh the affected file.'']"

definition DESCRIPTORS_EDITS :: "OperationDescriptor list" where
  "DESCRIPTORS_EDITS =
    [descriptor ''slipbox/refileSubtree'' FamStructuralEdit OrgContent RefreshesAffectedFiles
       ''Move a subtree to another target and refresh affected files.'',
     descriptor ''slipbox/refileRegion'' FamStructuralEdit OrgContent RefreshesAffectedFiles
       ''Refile a source region and refresh affected files.'',
     descriptor ''slipbox/extractSubtree'' FamStructuralEdit OrgContent RefreshesAffectedFiles
       ''Extract a subtree into a target file and refresh affected files.'',
     descriptor ''slipbox/promoteEntireFile'' FamStructuralEdit OrgContent RefreshesAffectedFiles
       ''Promote every heading in a file and refresh it.'',
     descriptor ''slipbox/demoteEntireFile'' FamStructuralEdit OrgContent RefreshesAffectedFiles
       ''Demote every heading in a file and refresh it.'',
     descriptor ''slipbox/slipboxLinkRewritePreview'' FamLinkRewrite ReadOnly ReadsDerivedIndex
       ''Preview a slipbox link rewrite without writing files.'',
     descriptor ''slipbox/slipboxLinkRewriteApply'' FamLinkRewrite OrgContent RefreshesAffectedFiles
       ''Apply a slipbox link rewrite and refresh affected files.'']"

definition DESCRIPTORS :: "OperationDescriptor list" where
  "DESCRIPTORS =
     DESCRIPTORS_SYSTEM @ DESCRIPTORS_NOTES @ DESCRIPTORS_RELATIONS @ DESCRIPTORS_REVIEWS @
      DESCRIPTORS_ASSETS @ DESCRIPTORS_CAPTURE @ DESCRIPTORS_EDITS"

definition operation_descriptor_by_method :: "string \<Rightarrow> OperationDescriptor option" where
  "operation_descriptor_by_method m = find (\<lambda>d. op_method d = m) DESCRIPTORS"

definition is_read_only :: "string \<Rightarrow> bool" where
  "is_read_only m =
     (case operation_descriptor_by_method m of None \<Rightarrow> False | Some d \<Rightarrow> op_mutation d = ReadOnly)"

text \<open>The methods of the handler table, in its order; the handlers are parameters of the daemon.\<close>

definition OPERATIONS :: "string list" where
  "OPERATIONS =
    [''slipbox/ping'',
     ''slipbox/status'',
     ''slipbox/index'',
     ''slipbox/indexFile'',
     ''slipbox/indexedFiles'',
     ''slipbox/searchFiles'',
     ''slipbox/diagnoseFile'',
     ''slipbox/diagnoseNode'',
     ''slipbox/diagnoseIndex'',
     ''slipbox/searchNodes'',
     ''slipbox/listNotes'',
     ''slipbox/searchNodeContent'',
     ''slipbox/searchCorpus'',
     ''slipbox/randomNode'',
     ''slipbox/nodeFromId'',
     ''slipbox/nodeFromKey'',
     ''slipbox/nodeFromTitleOrAlias'',
     ''slipbox/nodeAtPoint'',
     ''slipbox/anchorAtPoint'',
     ''slipbox/anchorFromKey'',
     ''slipbox/readFileSource'',
     ''slipbox/readNodeSource'',
     ''slipbox/resolveDocumentLink'',
     ''slipbox/noteContext'',
     ''slipbox/searchOccurrences'',
     ''slipbox/searchTags'',
     ''slipbox/searchRefs'',
     ''slipbox/nodeFromRef'',
     ''slipbox/backlinks'',
     ''slipbox/forwardLinks'',
     ''slipbox/directedRelations'',
     ''slipbox/reflinks'',
     ''slipbox/unlinkedReferences'',
     ''slipbox/agenda'',
     ''slipbox/graphDot'',
     ''slipbox/explore'',
     ''slipbox/compareNotes'',
     ''slipbox/saveExplorationArtifact'',
     ''slipbox/explorationArtifact'',
     ''slipbox/listExplorationArtifacts'',
     ''slipbox/deleteExplorationArtifact'',
     ''slipbox/executeExplorationArtifact'',
     ''slipbox/corpusAudit'',
     ''slipbox/saveReviewRun'',
     ''slipbox/reviewRun'',
     ''slipbox/diffReviewRuns'',
     ''slipbox/reviewFindingRemediationPreview'',
     ''slipbox/reviewFindingRemediationApply'',
     ''slipbox/listReviewRuns'',
     ''slipbox/deleteReviewRun'',
     ''slipbox/markReviewFinding'',
     ''slipbox/saveCorpusAuditReview'',
     ''slipbox/listWorkflows'',
     ''slipbox/workflow'',
     ''slipbox/runWorkflow'',
     ''slipbox/saveWorkflowReview'',
     ''slipbox/listReviewRoutines'',
     ''slipbox/reviewRoutine'',
     ''slipbox/runReviewRoutine'',
     ''slipbox/importWorkbenchPack'',
     ''slipbox/workbenchPack'',
     ''slipbox/validateWorkbenchPack'',
     ''slipbox/exportWorkbenchPack'',
     ''slipbox/listWorkbenchPacks'',
     ''slipbox/deleteWorkbenchPack'',
     ''slipbox/listGlossaryTerms'',
     ''slipbox/searchGlossary'',
     ''slipbox/glossaryDue'',
     ''slipbox/glossaryTerm'',
     ''slipbox/gradeTerm'',
     ''slipbox/markGlossaryTerm'',
     ''slipbox/captureNode'',
     ''slipbox/captureTemplate'',
     ''slipbox/captureTemplatePreview'',
     ''slipbox/ensureFileNode'',
     ''slipbox/appendHeading'',
     ''slipbox/appendHeadingToNode'',
     ''slipbox/appendHeadingAtOutlinePath'',
     ''slipbox/ensureNodeId'',
     ''slipbox/updateNodeMetadata'',
     ''slipbox/refileSubtree'',
     ''slipbox/refileRegion'',
     ''slipbox/extractSubtree'',
     ''slipbox/promoteEntireFile'',
     ''slipbox/demoteEntireFile'',
     ''slipbox/slipboxLinkRewritePreview'',
     ''slipbox/slipboxLinkRewriteApply'']"

end
