(* ===== verification/Daemon.thy ===== *)
theory Daemon
  imports Operations
begin

text \<open>
  The daemon: its request loop on standard input and output (\<open>src/server.rs\<close>), the
  dispatch of one request (\<open>crates/slipbox-engine/src/dispatch.rs\<close>, \<open>service.rs\<close>) and
  the guard of a read-only session.  The handlers, the JSON codec, and whether a write
  to standard output succeeds are parameters.
\<close>

section \<open>Dispatching a request\<close>

text \<open>\<open>SlipboxService::invoke_value\<close>: the table finds the handler, which may change the state.\<close>

type_synonym ('v, 's) handlers = "string \<Rightarrow> 'v \<Rightarrow> 's \<Rightarrow> ('v, 'v JsonRpcErrorObject) outcome \<times> 's"

definition invoke_value ::
  "('v, 's) handlers \<Rightarrow> string \<Rightarrow> 'v \<Rightarrow> 's \<Rightarrow> ('v, 'v JsonRpcErrorObject) outcome \<times> 's" where
  "invoke_value handler m params st =
     (if m \<in> set OPERATIONS then handler m params st
      else (Err (method_not_found (''unsupported method: '' @ m)), st))"

definition read_only_guard :: "string \<Rightarrow> bool \<Rightarrow> (unit, 'v JsonRpcErrorObject) outcome" where
  "read_only_guard m read_only =
     (if read_only \<and> \<not> is_read_only m
      then Err (invalid_request (''method '' @ m @ '' is not available on a read-only slipbox session''))
      else Ok ())"

text \<open>A handler that panics takes the daemon down: the response is then \<open>None\<close>.\<close>

definition handle_request ::
  "('v, 's) handlers \<Rightarrow> 'v \<Rightarrow> bool \<Rightarrow> 'v JsonRpcRequest \<Rightarrow> 's \<Rightarrow> 'v JsonRpcResponse option \<times> 's" where
  "handle_request handler null read_only request st =
     (let i = (case jq_id request of Some i \<Rightarrow> i | None \<Rightarrow> null) in
      case (case read_only_guard (jq_method request) read_only of
              Ok _ \<Rightarrow> invoke_value handler (jq_method request) (jq_params request) st
            | Err e \<Rightarrow> (Err e, st)
            | Panic \<Rightarrow> (Panic, st)) of
        (Ok r, st') \<Rightarrow> (Some (rpc_success i r), st')
      | (Err e, st') \<Rightarrow> (Some (rpc_failure i e), st')
      | (Panic, st') \<Rightarrow> (None, st'))"

section \<open>The request loop\<close>

text \<open>The text an error shows, its outermost context.\<close>

fun frame_error_message :: "FrameError \<Rightarrow> string" where
  "frame_error_message HeaderUnreadable = ''failed to read framing header''"
| "frame_error_message (InvalidHeaderLine line) = ''invalid header line: '' @ line"
| "frame_error_message (InvalidContentLength v) = ''invalid content length: '' @ v"
| "frame_error_message MissingContentLength = ''missing Content-Length header''"
| "frame_error_message BodyTruncated = ''failed to read framed body''"
| "frame_error_message InvalidBody = ''invalid framed JSON body''"

record ('v, 's) daemon =
  dm_handler :: "('v, 's) handlers"
  dm_decode :: "string \<Rightarrow> 'v JsonRpcRequest option"
  dm_null :: 'v
  dm_accepts :: "nat \<Rightarrow> bool"

text \<open>
  How the loop ends: at the end of the stream, because standard output failed, or by a
  panic; with the responses written so far and the state.  \<open>dm_accepts d n\<close> says
  whether the write of response number \<open>n\<close> succeeds.
\<close>

datatype loop_end = StreamEnded | OutputFailed | Crashed

function serve ::
  "('v, 's) daemon \<Rightarrow> bool \<Rightarrow> string \<Rightarrow> 's \<Rightarrow> 'v JsonRpcResponse list \<Rightarrow>
   loop_end \<times> 'v JsonRpcResponse list \<times> 's" where
  "serve d read_only s st sent =
     (case read_framed_message (dm_decode d) s of
        (Ok None, rest) \<Rightarrow> (StreamEnded, sent, st)
      | (Panic, rest) \<Rightarrow> (Crashed, sent, st)
      | (Ok (Some request), rest) \<Rightarrow>
          (case handle_request (dm_handler d) (dm_null d) read_only request st of
             (None, st') \<Rightarrow> (Crashed, sent, st')
           | (Some response, st') \<Rightarrow>
               if dm_accepts d (length sent) then serve d read_only rest st' (sent @ [response])
               else (OutputFailed, sent, st'))
      | (Err e, rest) \<Rightarrow>
          if dm_accepts d (length sent)
          then serve d read_only rest st
                 (sent @ [rpc_failure (dm_null d) (parse_error (frame_error_message e))])
          else (OutputFailed, sent, st))"
  by pat_completeness auto
termination
  by (relation "measure (\<lambda>(_, _, s, _). length s)") (auto dest: read_framed_consumes [OF sym])

declare serve.simps [simp del]

section \<open>Facts\<close>

lemma find_op_Some: "operation_descriptor_by_method m = Some x \<Longrightarrow> x \<in> set DESCRIPTORS \<and> op_method x = m"
  by (auto simp: operation_descriptor_by_method_def find_Some_iff)

lemma is_read_only_descriptor:
  "is_read_only m \<Longrightarrow> \<exists>x \<in> set DESCRIPTORS. op_method x = m \<and> op_mutation x = ReadOnly"
  by (auto simp: is_read_only_def dest: find_op_Some split: option.splits)

lemma handle_request_keeps:
  assumes quiet: "\<And>x params st. x \<in> set DESCRIPTORS \<Longrightarrow> op_mutation x = ReadOnly \<Longrightarrow>
      durable (snd (handler (op_method x) params st)) = durable st"
  shows "durable (snd (handle_request handler null True request st)) = durable st"
proof (cases "is_read_only (jq_method request)")
  case True
  then obtain x where "x \<in> set DESCRIPTORS" "op_method x = jq_method request" "op_mutation x = ReadOnly"
    by (auto dest: is_read_only_descriptor)
  then have "durable (snd (invoke_value handler (jq_method request) (jq_params request) st)) = durable st"
    using quiet [of x] by (simp add: invoke_value_def)
  with True show ?thesis
    by (auto simp: handle_request_def read_only_guard_def Let_def split: prod.splits outcome.splits)
qed (simp add: handle_request_def read_only_guard_def Let_def)

lemma response_id:
  "handle_request handler null read_only request st = (Some response, st') \<Longrightarrow>
   jr_id response = (case jq_id request of Some i \<Rightarrow> i | None \<Rightarrow> null)"
  by (auto simp: handle_request_def Let_def rpc_success_def rpc_failure_def
      split: prod.splits outcome.splits)

section \<open>Frames on the wire\<close>

lemma take_line_line: "NL \<notin> set line \<Longrightarrow> take_line (line @ NL # s) = (line @ [NL], s)"
  by (induction line) auto

lemma header_ascii: "list_all (\<lambda>c. of_char c < (128::nat)) s \<Longrightarrow> utf8_valid s"
  unfolding utf8_valid_def by (rule ascii_utf8) simp_all

lemma digit_ascii: "is_ascii_digit c \<Longrightarrow> of_char c < (128::nat) \<and> c \<noteq> NL \<and> c \<noteq> CR \<and> is_ascii c \<and> \<not> is_ascii_ws c"
  by (auto simp: is_ascii_digit_def is_ascii_def is_ascii_ws_def)

lemma trim_line_end_snoc: "c \<noteq> CR \<Longrightarrow> c \<noteq> NL \<Longrightarrow> trim_line_end ((s @ [c]) @ [CR, NL]) = s @ [c]"
  by (simp add: trim_line_end_def)

lemma show_nat_solid: "trim (show_nat n) = show_nat n"
proof (rule trim_solid_ascii)
  have "hd (show_nat n) \<in> set (show_nat n)" "last (show_nat n) \<in> set (show_nat n)"
    using show_nat_nonempty [of n] by simp_all
  then have "is_ascii_digit (hd (show_nat n))" "is_ascii_digit (last (show_nat n))"
    by (blast dest: show_nat_set)+
  then show "is_ascii (hd (show_nat n))" "\<not> is_ascii_ws (hd (show_nat n))"
    "is_ascii (last (show_nat n))" "\<not> is_ascii_ws (last (show_nat n))"
    by (simp_all add: digit_ascii)
qed (simp add: show_nat_nonempty)

lemma length_header:
  assumes "int n < 18446744073709551616"
  shows "header_line (''Content-Length: '' @ show_nat n @ [CR, NL]) content_length = Ok (Some n)"
proof -
  obtain s c where sc: "show_nat n = s @ [c]"
    using show_nat_nonempty [of n] by (cases "show_nat n" rule: rev_cases) simp_all
  then have "is_ascii_digit c" using show_nat_set [of c n] by simp
  then have "trim_line_end (((''Content-Length: '' @ s) @ [c]) @ [CR, NL]) = (''Content-Length: '' @ s) @ [c]"
    by (intro trim_line_end_snoc) (simp_all add: digit_ascii)
  then have line: "trim_line_end (''Content-Length: '' @ show_nat n @ [CR, NL]) = ''Content-Length: '' @ show_nat n"
    unfolding sc by (simp only: append_assoc)
  have cut: "split_once '':'' (''Content-Length'' @ CHR '':'' # SP # show_nat n) = Some (''Content-Length'', SP # show_nat n)"
    by (rule split_once_char) simp
  have "trim (SP # show_nat n) = trim (show_nat n)"
    by (simp add: trim_def trim_start_ws is_ascii_def is_ascii_ws_def)
  then have number: "trim (SP # show_nat n) = show_nat n" by (simp only: show_nat_solid)
  have name: "eq_ignore_case ''Content-Length'' ''content-length''" by code_simp
  have shape: "''Content-Length: '' @ show_nat n = ''Content-Length'' @ CHR '':'' # SP # show_nat n" by simp
  show ?thesis
    unfolding header_line_def line shape cut option.case prod.case number
    using name by (simp only: parse_usize_show_nat [OF assms] option.case if_True)
qed

lemma length_line_read:
  assumes "int n < 18446744073709551616"
  shows "read_headers content_length (''Content-Length: '' @ show_nat n @ [CR, NL] @ s) = read_headers (Some n) s"
proof -
  let ?line = "''Content-Length: '' @ show_nat n @ [CR]"
  have digits: "c \<in> set (show_nat n) \<Longrightarrow> of_char c < (128::nat) \<and> c \<noteq> NL" for c
    using show_nat_set digit_ascii by blast
  have plain: "NL \<notin> set ?line" and ascii: "utf8_valid (?line @ [NL])"
    using digits by (auto intro!: header_ascii simp: list_all_iff)
  have first: "take_line (''Content-Length: '' @ show_nat n @ [CR, NL] @ s) = (?line @ [NL], s)"
    using take_line_line [OF plain, of s] by simp
  have header: "header_line (?line @ [NL]) content_length = Ok (Some n)"
    using length_header [OF assms, of content_length] by simp
  show ?thesis
    unfolding read_headers.simps [of content_length "''Content-Length: '' @ show_nat n @ [CR, NL] @ s"] first prod.case
    using ascii header by simp
qed

lemma blank_line_read: "read_headers content_length ([CR, NL] @ s) = (Ok (Some content_length), s)"
  using header_ascii [of "[CR, NL]"] by (subst read_headers.simps) simp

lemma stream_end_read: "read_headers content_length [] = (Ok None, [])"
  by (subst read_headers.simps) (simp add: utf8_valid_def)

lemma framed_message_read:
  assumes codec: "decode (encode message) = Some message" and small: "int (length (encode message)) \<le> ISIZE_MAX"
  shows "read_framed_message decode (write_framed_message encode message @ rest) = (Ok (Some message), rest)"
proof -
  let ?n = "length (encode message)"
  have "read_headers None (''Content-Length: '' @ show_nat ?n @ [CR, NL] @ [CR, NL] @ encode message @ rest)
      = (Ok (Some (Some ?n)), encode message @ rest)"
    by (subst length_line_read) (use small in \<open>simp_all add: ISIZE_MAX_def blank_line_read del: append_Cons\<close>)
  then have "read_headers None (write_framed_message encode message @ rest) = (Ok (Some (Some ?n)), encode message @ rest)"
    by (simp add: write_framed_message_def Let_def)
  with codec small show ?thesis
    by (simp add: read_framed_message_def read_body_def)
qed

end
