(* ===== verification/DaemonProps.thy ===== *)
theory DaemonProps
  imports Daemon
begin

text \<open>
  What the daemon's loop guarantees: a read-only session leaves the durable state alone,
  framed requests are answered once each and in order, the loop ends with its input, and
  what a malformed header does to it.
\<close>

section \<open>The table of handlers is the classification\<close>

lemma operations_classified: "OPERATIONS = map op_method DESCRIPTORS"
  by (simp add: OPERATIONS_def DESCRIPTORS_def DESCRIPTORS_SYSTEM_def DESCRIPTORS_NOTES_def
      DESCRIPTORS_RELATIONS_def DESCRIPTORS_REVIEWS_def DESCRIPTORS_ASSETS_def DESCRIPTORS_CAPTURE_def
      DESCRIPTORS_EDITS_def descriptor_def)

lemma operations_distinct: "distinct OPERATIONS"
proof -
  have "distinct (map (drop 8) OPERATIONS)" by (simp add: OPERATIONS_def)
  then show ?thesis by (simp add: distinct_map)
qed

lemma find_distinct_key:
  "distinct (map f xs) \<Longrightarrow> x \<in> set xs \<Longrightarrow> find (\<lambda>y. f y = f x) xs = Some x"
  by (induction xs) auto

text \<open>Every method the daemon handles has exactly its own classification.\<close>

lemma descriptor_of_operation:
  "x \<in> set DESCRIPTORS \<Longrightarrow> operation_descriptor_by_method (op_method x) = Some x"
  unfolding operation_descriptor_by_method_def
  by (rule find_distinct_key) (use operations_distinct in \<open>simp_all add: operations_classified\<close>)


section \<open>One round of the loop\<close>

lemma serve_end:
  "read_framed_message (dm_decode d) s = (Ok None, rest) \<Longrightarrow> serve d ro s st sent = (StreamEnded, sent, st)"
  by (simp add: serve.simps [of d ro s])

lemma serve_request:
  assumes "read_framed_message (dm_decode d) s = (Ok (Some request), rest)"
    and "handle_request (dm_handler d) (dm_null d) ro request st = (Some response, st')"
    and "dm_accepts d (length sent)"
  shows "serve d ro s st sent = serve d ro rest st' (sent @ [response])"
  using assms by (simp add: serve.simps [of d ro s])

section \<open>Properties\<close>

text \<open>C21.
  In a read-only session no request of any stream, well-formed or not, changes the durable
  state: if the handlers of the methods classified as read-only leave it alone, then so
  does the whole session, whatever the other handlers would do.
\<close>

theorem read_only_session_is_durable:
  fixes d :: "('v, 's) daemon" and durable :: "'s \<Rightarrow> 't"
  assumes quiet: "\<And>x params st. x \<in> set DESCRIPTORS \<Longrightarrow> op_mutation x = ReadOnly \<Longrightarrow>
      durable (snd (dm_handler d (op_method x) params st)) = durable st"
  shows "durable (snd (snd (serve d True s st sent))) = durable st"
proof (induction "length s" arbitrary: s st sent rule: less_induct)
  case less
  obtain r rest where read: "read_framed_message (dm_decode d) s = (r, rest)" by fastforce
  note unfolded = serve.simps [of d True s st sent, unfolded read]
  show ?case
  proof (cases r)
    case (Ok x)
    show ?thesis
    proof (cases x)
      case None
      with Ok unfolded show ?thesis by simp
    next
      case (Some request)
      obtain response st' where handled:
        "handle_request (dm_handler d) (dm_null d) True request st = (response, st')" by fastforce
      then have same: "durable st' = durable st"
        using handle_request_keeps [where durable = durable and handler = "dm_handler d", OF quiet,
            where null = "dm_null d" and request = request and st = st] by simp
      have "length rest < length s"
        using read_framed_consumes [OF read] Ok Some by simp
      with less Ok Some handled unfolded same show ?thesis
        by (cases response) simp_all
    qed
  next
    case (Err e)
    then have "length rest < length s" using read_framed_consumes [OF read] by simp
    with less Err unfolded show ?thesis by simp
  next
    case Panic
    with unfolded show ?thesis by simp
  qed
qed

text \<open>
  The witness: a state of two counters, where only methods not classified as read-only
  touch the first; the stream asks for a capture and then stops in the middle of a header.
\<close>

definition sample_daemon :: "(string, nat \<times> nat) daemon" where
  "sample_daemon =
     \<lparr>dm_handler = (\<lambda>m params st. (Ok params, if is_read_only m then (fst st, Suc (snd st)) else (Suc (fst st), snd st))),
      dm_decode = (\<lambda>body. if body = [] then None else Some (rpc_request ''1'' body ''{}'')),
      dm_null = ''null'', dm_accepts = (\<lambda>n. True)\<rparr>"

theorem read_only_session_is_durable_witness:
  "fst (snd (snd (serve sample_daemon True ''Content-Length: 4'' (7, 0) []))) = (7 :: nat)"
proof -
  have "fst (snd (snd (serve sample_daemon True ''Content-Length: 4'' (7, 0) []))) = fst (7 :: nat, 0 :: nat)"
  proof (rule read_only_session_is_durable [where durable = fst])
    fix x and params :: string and st :: "nat \<times> nat"
    assume "x \<in> set DESCRIPTORS" "op_mutation x = ReadOnly"
    then have "is_read_only (op_method x)" by (simp add: is_read_only_def descriptor_of_operation)
    then show "fst (snd (dm_handler sample_daemon (op_method x) params st)) = fst st"
      by (simp add: sample_daemon_def)
  qed
  then show ?thesis by simp
qed

text \<open>The specification of a session: each request handled in turn, its response kept.\<close>

fun answers :: "('v, 's) daemon \<Rightarrow> bool \<Rightarrow> 'v JsonRpcRequest list \<Rightarrow> 's \<Rightarrow> 'v JsonRpcResponse list \<times> 's" where
  "answers d ro [] st = ([], st)"
| "answers d ro (request # requests) st =
     (case handle_request (dm_handler d) (dm_null d) ro request st of
        (Some response, st') \<Rightarrow> (case answers d ro requests st' of (rs, st'') \<Rightarrow> (response # rs, st''))
      | (None, st') \<Rightarrow> ([], st'))"

lemma serve_framed:
  assumes codec: "\<And>request. request \<in> set requests \<Longrightarrow> dm_decode d (encode request) = Some request"
    and small: "\<And>request. request \<in> set requests \<Longrightarrow> int (length (encode request)) \<le> ISIZE_MAX"
    and written: "\<And>n. dm_accepts d n"
    and calm: "\<And>request st. fst (handle_request (dm_handler d) (dm_null d) ro request st) \<noteq> None"
  shows "serve d ro (concat (map (write_framed_message encode) requests) @ rest) st sent =
           serve d ro rest (snd (answers d ro requests st)) (sent @ fst (answers d ro requests st)) \<and>
         length (fst (answers d ro requests st)) = length requests"
  using codec small
proof (induction requests arbitrary: st sent)
  case (Cons request requests)
  let ?rest = "concat (map (write_framed_message encode) requests) @ rest"
  obtain response st' where handled:
    "handle_request (dm_handler d) (dm_null d) ro request st = (Some response, st')"
    using calm [of request st] by (cases "handle_request (dm_handler d) (dm_null d) ro request st") auto
  have "read_framed_message (dm_decode d) (write_framed_message encode request @ ?rest) = (Ok (Some request), ?rest)"
    by (rule framed_message_read) (use Cons.prems in simp_all)
  note step = serve_request [OF this handled written]
  have "serve d ro ?rest st' (sent @ [response]) =
      serve d ro rest (snd (answers d ro requests st')) ((sent @ [response]) @ fst (answers d ro requests st')) \<and>
      length (fst (answers d ro requests st')) = length requests"
    by (rule Cons.IH) (use Cons.prems in simp_all)
  moreover obtain rs st'' where "answers d ro requests st' = (rs, st'')" by fastforce
  ultimately show ?case using step handled by simp
qed simp

text \<open>C14.
  A stream of framed requests is answered request by request: the responses written are
  those of the handlers run in the order of the stream, one per request, and the loop
  then ends with the stream.
\<close>

theorem framed_requests_answered_in_order:
  assumes codec: "\<And>request. request \<in> set requests \<Longrightarrow> dm_decode d (encode request) = Some request"
    and small: "\<And>request. request \<in> set requests \<Longrightarrow> int (length (encode request)) \<le> ISIZE_MAX"
    and written: "\<And>n. dm_accepts d n"
    and calm: "\<And>request st. fst (handle_request (dm_handler d) (dm_null d) ro request st) \<noteq> None"
  shows "serve d ro (concat (map (write_framed_message encode) requests)) st sent =
           (StreamEnded, sent @ fst (answers d ro requests st), snd (answers d ro requests st)) \<and>
         length (fst (answers d ro requests st)) = length requests"
proof -
  have "read_framed_message (dm_decode d) [] = (Ok None, [])"
    by (simp add: read_framed_message_def read_headers.simps utf8_valid_def)
  with serve_framed [OF codec small written calm, of requests "[]" st sent] show ?thesis
    by (simp add: serve_end)
qed

definition sample_requests :: "string JsonRpcRequest list" where
  "sample_requests = [rpc_request ''1'' ''slipbox/ping'' ''{}'', rpc_request ''1'' ''slipbox/pong'' ''{}'']"

lemma sample_calm:
  "fst (handle_request (dm_handler sample_daemon) (dm_null sample_daemon) True request st) \<noteq> None"
  by (auto simp: handle_request_def read_only_guard_def invoke_value_def sample_daemon_def Let_def)

theorem framed_requests_answered_in_order_witness:
  "fst (serve sample_daemon True (concat (map (write_framed_message jq_method) sample_requests)) (0, 0) [])
     = StreamEnded \<and>
   length (fst (snd (serve sample_daemon True (concat (map (write_framed_message jq_method) sample_requests)) (0, 0) [])))
     = 2"
proof -
  have "serve sample_daemon True (concat (map (write_framed_message jq_method) sample_requests)) (0, 0) [] =
      (StreamEnded, [] @ fst (answers sample_daemon True sample_requests (0, 0)),
       snd (answers sample_daemon True sample_requests (0, 0))) \<and>
      length (fst (answers sample_daemon True sample_requests (0, 0))) = length sample_requests"
    by (rule framed_requests_answered_in_order)
      (use sample_calm in \<open>auto simp: sample_requests_def sample_daemon_def rpc_request_def ISIZE_MAX_def\<close>)
  then show ?thesis by (simp add: sample_requests_def)
qed

text \<open>C35.
  Two ways a peer's header ends the daemon, after any number of framed requests it has
  answered.  When the next header block is one \<open>Content-Length\<close> line announcing more than
  \<open>isize::MAX\<close> bytes but less than \<open>2 ^ 64\<close>, the loop crashes instead of answering with a
  parse error.  When the stream stops right after such a complete line (announcing any
  number below \<open>2 ^ 64\<close>), the loop ends as at a clean end of input, although a message had
  begun.  Other malformed headers are answered with a parse error and not covered here.
\<close>

theorem header_ends_daemon:
  assumes codec: "\<And>request. request \<in> set requests \<Longrightarrow> dm_decode d (encode request) = Some request"
    and small: "\<And>request. request \<in> set requests \<Longrightarrow> int (length (encode request)) \<le> ISIZE_MAX"
    and written: "\<And>n. dm_accepts d n"
    and calm: "\<And>request st. fst (handle_request (dm_handler d) (dm_null d) ro request st) \<noteq> None"
    and announced: "int n < 18446744073709551616"
  shows "(ISIZE_MAX < int n \<longrightarrow>
           serve d ro (concat (map (write_framed_message encode) requests) @
               ''Content-Length: '' @ show_nat n @ [CR, NL] @ [CR, NL] @ body) st sent =
             (Crashed, sent @ fst (answers d ro requests st), snd (answers d ro requests st))) \<and>
         serve d ro (concat (map (write_framed_message encode) requests) @
             ''Content-Length: '' @ show_nat n @ [CR, NL]) st sent =
           (StreamEnded, sent @ fst (answers d ro requests st), snd (answers d ro requests st))"
proof
  have framed: "serve d ro (concat (map (write_framed_message encode) requests) @ rest) st sent =
      serve d ro rest (snd (answers d ro requests st)) (sent @ fst (answers d ro requests st))" for rest
    using serve_framed [OF codec small written calm, of requests rest st sent] by simp
  note line = length_line_read [OF announced, of None]
  show "ISIZE_MAX < int n \<longrightarrow>
      serve d ro (concat (map (write_framed_message encode) requests) @
          ''Content-Length: '' @ show_nat n @ [CR, NL] @ [CR, NL] @ body) st sent =
        (Crashed, sent @ fst (answers d ro requests st), snd (answers d ro requests st))"
    by (subst framed, subst serve.simps)
      (simp only: read_framed_message_def line blank_line_read read_body_def, simp)
  have "read_headers None (''Content-Length: '' @ show_nat n @ [CR, NL]) = (Ok None, [])"
    using line [of "[]"] by (simp add: stream_end_read)
  then show "serve d ro (concat (map (write_framed_message encode) requests) @
          ''Content-Length: '' @ show_nat n @ [CR, NL]) st sent =
        (StreamEnded, sent @ fst (answers d ro requests st), snd (answers d ro requests st))"
    by (subst framed) (simp_all add: serve_end read_framed_message_def)
qed

theorem header_ends_daemon_witness:
  "fst (serve sample_daemon True (concat (map (write_framed_message jq_method) sample_requests) @
     ''Content-Length: '' @ show_nat 9223372036854775808 @ [CR, NL] @ [CR, NL] @ ''{}'') (0, 0) []) = Crashed"
proof -
  have "(ISIZE_MAX < int 9223372036854775808 \<longrightarrow>
      serve sample_daemon True (concat (map (write_framed_message jq_method) sample_requests) @
        ''Content-Length: '' @ show_nat 9223372036854775808 @ [CR, NL] @ [CR, NL] @ ''{}'') (0, 0) [] =
      (Crashed, [] @ fst (answers sample_daemon True sample_requests (0, 0)), snd (answers sample_daemon True sample_requests (0, 0)))) \<and>
      serve sample_daemon True (concat (map (write_framed_message jq_method) sample_requests) @
        ''Content-Length: '' @ show_nat 9223372036854775808 @ [CR, NL]) (0, 0) [] =
      (StreamEnded, [] @ fst (answers sample_daemon True sample_requests (0, 0)), snd (answers sample_daemon True sample_requests (0, 0)))"
    by (rule header_ends_daemon)
      (use sample_calm in \<open>auto simp: sample_requests_def sample_daemon_def rpc_request_def ISIZE_MAX_def\<close>)
  then show ?thesis by (simp add: ISIZE_MAX_def)
qed

end
