(* ===== verification/Remediation.thy ===== *)
theory Remediation
  imports Review Rpc Transaction
begin

text \<open>
  Applying a remediation to a file: \<open>apply_unlink_dangling_link\<close> of
  \<open>crates/slipbox-engine/src/handlers/query/reviews.rs\<close>.  The link to a missing note is
  replaced by its label, after the file has been read again and compared with what the
  preview showed.
\<close>

section \<open>Lines of a text\<close>

text \<open>\<open>split_inclusive('\n')\<close>: every piece but perhaps the last ends with the newline.\<close>

fun split_inclusive :: "string \<Rightarrow> string list" where
  "split_inclusive [] = []"
| "split_inclusive (c # s) =
     (if c = NL then [c] # split_inclusive s
      else case split_inclusive s of [] \<Rightarrow> [[c]] | seg # segs \<Rightarrow> (c # seg) # segs)"

definition segment_end :: "string \<Rightarrow> nat \<Rightarrow> string \<Rightarrow> nat" where
  "segment_end content line_start seg =
     (let line_end = line_start + length seg in
      if suffix [NL] seg then
        (if line_start < line_end - 1 \<and> content ! (line_end - 2) = CR then line_end - 2 else line_end - 1)
      else line_end)"

fun line_bounds_from :: "string \<Rightarrow> nat \<Rightarrow> nat \<Rightarrow> nat \<Rightarrow> string list \<Rightarrow> (nat \<times> nat) option" where
  "line_bounds_from content line_number index line_start [] = None"
| "line_bounds_from content line_number index line_start (seg # segs) =
     (if as_u32 (as_u32 index + 1) = line_number
      then Some (line_start, segment_end content line_start seg)
      else line_bounds_from content line_number (Suc index) (line_start + length seg) segs)"

definition line_bounds :: "string \<Rightarrow> nat \<Rightarrow> (nat \<times> nat) option" where
  "line_bounds content line_number =
     (if line_number = 0 then None else line_bounds_from content line_number 0 0 (split_inclusive content))"

text \<open>\<open>&s[a..b]\<close> and \<open>replace_range(a..b, t)\<close>, which panic off a character boundary.\<close>

definition slice_range :: "string \<Rightarrow> nat \<Rightarrow> nat \<Rightarrow> (string, 'e) outcome" where
  "slice_range s a b =
     (if a \<le> b \<and> is_boundary s a \<and> is_boundary s b then Ok (take (b - a) (drop a s)) else Panic)"

definition replace_range :: "string \<Rightarrow> nat \<Rightarrow> nat \<Rightarrow> string \<Rightarrow> (string, 'e) outcome" where
  "replace_range s a b t =
     (if a \<le> b \<and> is_boundary s a \<and> is_boundary s b then Ok (take a s @ t @ drop b s) else Panic)"

section \<open>The link\<close>

text \<open>Unlike the function of the same name in \<open>review.rs\<close>, an empty id is no link.\<close>

definition applied_link_target_and_label :: "string \<Rightarrow> (string \<times> string option) option" where
  "applied_link_target_and_label link =
     (case org_id_link_target_and_label link of
        Some (target, label) \<Rightarrow> if target \<noteq> [] then Some (target, label) else None
      | None \<Rightarrow> None)"

text \<open>\<open>shown\<close> is how the path is displayed.\<close>

definition place :: "string \<Rightarrow> nat \<Rightarrow> nat \<Rightarrow> string" where
  "place shown line column = shown @ '':'' @ show_nat line @ '':'' @ show_nat column"

definition refused :: "string \<Rightarrow> 'v JsonRpcErrorObject" where
  "refused message = invalid_request message"

text \<open>The new content, or why the file is not what the preview was made from.\<close>

definition unlinked_content ::
  "string \<Rightarrow> string \<Rightarrow> nat \<Rightarrow> nat \<Rightarrow> string \<Rightarrow> string \<Rightarrow> string \<Rightarrow> (string, 'v JsonRpcErrorObject) outcome" where
  "unlinked_content shown content line column expected_preview missing_explicit_id replacement_text =
     bind_out (ok_or (refused (''remediation action line '' @ show_nat line @ '' is outside '' @ shown))
         (line_bounds content line)) (\<lambda>(line_start, line_end).
     bind_out (slice_range content line_start line_end) (\<lambda>line_text.
       if trim line_text \<noteq> expected_preview
       then Err (refused (''remediation action no longer matches file contents at '' @ place shown line column))
       else
     bind_out (ok_or (refused (''remediation action column '' @ show_nat column @ '' is outside '' @ shown @ '':'' @
             show_nat line))
         (byte_index_for_column line_text column)) (\<lambda>link_start.
     bind_out (slice_from line_text link_start) (\<lambda>rest.
       if \<not> prefix ''[['' rest
       then Err (refused (''remediation action no longer points at an Org link at '' @ place shown line column))
       else
     bind_out (ok_or (refused (''remediation action found an unterminated Org link at '' @ place shown line column))
         (find_sub '']]'' rest)) (\<lambda>i.
     bind_out (slice_range line_text link_start (link_start + i + 2)) (\<lambda>link.
     bind_out (ok_or (refused (''remediation action no longer points at an id link at '' @ place shown line column))
         (applied_link_target_and_label link)) (\<lambda>(destination_id, label).
       if destination_id \<noteq> missing_explicit_id
       then Err (refused (''remediation action expected missing id '' @ missing_explicit_id @ '' but found '' @
              destination_id))
       else
         let expected_replacement = (case label of Some l \<Rightarrow> l | None \<Rightarrow> destination_id) in
         if replacement_text \<noteq> expected_replacement
         then Err (refused (''unlink-dangling-link replacement_text must match the current link label: '' @
                expected_replacement))
         else replace_range content (line_start + link_start) (line_start + (link_start + i + 2))
                replacement_text)))))))"

text \<open>\<open>io_text\<close> is the text of the error of a failed read.\<close>

definition apply_unlink_dangling_link ::
  "string \<Rightarrow> (WriteError \<Rightarrow> string) \<Rightarrow> nat \<Rightarrow> path \<Rightarrow> nat \<Rightarrow> nat \<Rightarrow> string \<Rightarrow> string \<Rightarrow> string \<Rightarrow>
   world \<Rightarrow> (unit, 'v JsonRpcErrorObject) outcome \<times> world" where
  "apply_unlink_dangling_link shown io_text pid path line column expected_preview missing_explicit_id
     replacement_text w =
     (case sys_read path w of
        (Err e, w1) \<Rightarrow> (Err (internal_error (''failed to read remediation target: '' @ io_text e)), w1)
      | (Panic, w1) \<Rightarrow> (Panic, w1)
      | (Ok content, w1) \<Rightarrow>
          (case unlinked_content shown content line column expected_preview missing_explicit_id
                  replacement_text of
             Err e \<Rightarrow> (Err e, w1)
           | Panic \<Rightarrow> (Panic, w1)
           | Ok content' \<Rightarrow>
               (case write_one pid path content' w1 of (r, w2) \<Rightarrow>
                  (map_err (\<lambda>_. internal_error ''failed to write remediation target'') r, w2))))"

end
