(* ===== verification/RemediationProps.thy ===== *)
theory RemediationProps
  imports Remediation TransactionProps
begin

text \<open>
  What an applied remediation does to the file: the one link it names gives way to its
  label, on the line and at the column the preview showed, and nothing else changes.
\<close>

section \<open>Lines\<close>

lemma concat_split_inclusive [simp]: "concat (split_inclusive s) = s"
proof (induction s)
  case (Cons c s)
  then show ?case by (cases "split_inclusive s") auto
qed simp

lemma split_inclusive_segment:
  "seg \<in> set (split_inclusive s) \<Longrightarrow> seg \<noteq> [] \<and> NL \<notin> set (butlast seg)"
proof (induction s arbitrary: seg)
  case (Cons c s)
  show ?case
  proof (cases "split_inclusive s")
    case Nil
    with Cons.prems show ?thesis by (auto split: if_splits)
  next
    case (Cons p ps)
    with Cons.IH [of p] Cons.IH [of seg] Cons.prems show ?thesis by (auto split: if_splits)
  qed
qed simp

lemma split_inclusive_before:
  "split_inclusive s = pre @ seg # post \<Longrightarrow>
     count_list (concat pre) NL = length pre \<and> (concat pre \<noteq> [] \<longrightarrow> last (concat pre) = NL)"
proof (induction s arbitrary: pre)
  case (Cons c s)
  show ?case
  proof (cases pre)
    case pre: (Cons p ps)
    show ?thesis
    proof (cases "c = NL")
      case True
      with Cons.prems pre have "p = [NL]" "split_inclusive s = ps @ seg # post" by simp_all
      with Cons.IH [of ps] pre show ?thesis by auto
    next
      case False
      with Cons.prems pre obtain q where "p = c # q" "split_inclusive s = (q # ps) @ seg # post"
        by (auto split: list.splits)
      moreover from this have "q \<noteq> []" using split_inclusive_segment [of q s] by simp
      ultimately show ?thesis using Cons.IH [of "q # ps"] pre False by (auto split: if_splits)
    qed
  qed simp
qed simp

lemma line_bounds_from_Some:
  "line_bounds_from content n index start segs = Some (a, b) \<Longrightarrow>
     \<exists>pre seg post. segs = pre @ seg # post \<and> as_u32 (as_u32 (index + length pre) + 1) = n \<and>
       a = start + length (concat pre) \<and> b = segment_end content a seg"
proof (induction content n index start segs rule: line_bounds_from.induct)
  case (2 content n index start seg segs)
  show ?case
  proof (cases "as_u32 (as_u32 index + 1) = n")
    case True
    with "2.prems" show ?thesis by (intro exI [of _ "[]"] exI [of _ seg] exI [of _ segs]) auto
  next
    case False
    with "2.prems" "2.IH" obtain pre seg' post where "segs = pre @ seg' # post"
        "as_u32 (as_u32 (Suc index + length pre) + 1) = n" "a = start + length seg + length (concat pre)"
        "b = segment_end content a seg'"
      by auto
    then show ?thesis by (intro exI [of _ "seg # pre"]) auto
  qed
qed simp

text \<open>A line of a text, without what ends it, and the part of the text above it.\<close>

lemma line_bounds_cut:
  assumes "line_bounds content n = Some (a, b)"
  obtains prior line later where "content = prior @ line @ later" "a = length prior" "b = a + length line"
    "NL \<notin> set line" "prior = [] \<or> last prior = NL" "as_u32 (count_list prior NL + 1) = n" "n \<noteq> 0"
proof -
  from assms obtain pre seg post where cut: "split_inclusive content = pre @ seg # post"
      and n: "as_u32 (as_u32 (length pre) + 1) = n" "n \<noteq> 0"
      and a: "a = length (concat pre)" and b: "b = segment_end content a seg"
    by (auto simp: line_bounds_def dest!: line_bounds_from_Some split: if_splits)
  have content: "content = concat pre @ seg @ concat post"
    using concat_split_inclusive [of content] by (simp add: cut)
  have seg: "seg \<noteq> []" "NL \<notin> set (butlast seg)"
    using split_inclusive_segment [of seg content] by (simp_all add: cut)
  have "\<exists>k \<le> length seg. b = a + k \<and> NL \<notin> set (take k seg)"
  proof (cases "suffix [NL] seg")
    case True
    then have "NL \<notin> set (take k seg)" if "k \<le> length seg - 1" for k
      using seg(2) set_take_subset_set_take [OF that, of seg] by (auto simp: butlast_conv_take)
    moreover have "b = a + (length seg - 2) \<or> b = a + (length seg - 1)"
      using True length_greater_0_conv [THEN iffD2, OF seg(1)] unfolding b segment_end_def Let_def
      by (simp, linarith)
    ultimately show ?thesis by (metis diff_le_mono2 diff_le_self one_le_numeral order_refl)
  next
    case False
    then have "NL \<notin> set seg"
      using seg by (metis append_butlast_last_id rotate1.simps(2) set_ConsD set_rotate1 suffixI)
    with False show ?thesis by (auto simp: b segment_end_def Let_def)
  qed
  then obtain k where k: "k \<le> length seg" "b = a + k" "NL \<notin> set (take k seg)" by blast
  show thesis
  proof (rule that [of "concat pre" "take k seg" "drop k seg @ concat post"])
    show "content = concat pre @ take k seg @ drop k seg @ concat post" using content by simp
    show "as_u32 (count_list (concat pre) NL + 1) = n"
      using n split_inclusive_before [OF cut] by (simp add: as_u32_def zmod_int mod_simps)
  qed (use a k n split_inclusive_before [OF cut] in auto)
qed

section \<open>Columns\<close>

lemma chars_before: "i \<le> length s \<Longrightarrow>
    char_count (take i s) = length (filter (\<lambda>j. \<not> is_cont (s ! j)) [0..<i])"
  by (induction i) (auto simp: char_count_def take_Suc_conv_app_nth)

lemma byte_index_Some:
  assumes "byte_index_for_column s column = Some i"
  shows "i \<le> length s \<and> char_count (take i s) + 1 = column"
proof (cases "column = 1")
  case False
  define js where "js = filter (\<lambda>j. \<not> is_cont (s ! j)) [0..<length s]"
  have k: "column - 1 < length js" "js ! (column - 1) = i" and "column \<noteq> 0"
    using assms False by (auto simp: byte_index_for_column_def js_def split: if_splits)
  then have "i \<in> set js" using nth_mem by blast
  then have i: "i < length s" "\<not> is_cont (s ! i)" by (auto simp: js_def)
  then have "[0..<length s] = [0..<i] @ i # [Suc i..<length s]"
    by (metis upt_add_eq_append le_add_diff_inverse less_imp_le_nat upt_conv_Cons zero_le)
  then have js: "js = filter (\<lambda>j. \<not> is_cont (s ! j)) [0..<i] @ i # filter (\<lambda>j. \<not> is_cont (s ! j)) [Suc i..<length s]"
    using i by (simp add: js_def)
  let ?m = "length (filter (\<lambda>j. \<not> is_cont (s ! j)) [0..<i])"
  have "js ! ?m = i" "?m < length js" by (simp_all add: js nth_append)
  moreover have "distinct js" by (simp add: js_def)
  ultimately have "?m = column - 1" using k nth_eq_iff_index_eq by metis
  with i chars_before [of i s] \<open>column \<noteq> 0\<close> show ?thesis by simp
qed (use assms in \<open>simp add: byte_index_for_column_def char_count_def\<close>)

section \<open>The link\<close>

lemma slice_range_Ok [outcome_simps]:
  "slice_range s a b = Ok t \<longleftrightarrow> a \<le> b \<and> is_boundary s a \<and> is_boundary s b \<and> t = take (b - a) (drop a s)"
  by (auto simp: slice_range_def)

lemma slice_from_Ok: "slice_from s a = Ok t \<longleftrightarrow> is_boundary s a \<and> t = drop a s"
  by (auto simp: slice_from_def)

lemma replace_range_Ok [outcome_simps]:
  "replace_range s a b t = Ok u \<longleftrightarrow>
     a \<le> b \<and> is_boundary s a \<and> is_boundary s b \<and> u = take a s @ t @ drop b s"
  by (auto simp: replace_range_def)

text \<open>The steps that an accepted change has passed.\<close>

lemma unlinked_content_steps:
  assumes "unlinked_content shown content line column preview missing replacement = Ok new_content"
  obtains a b i j label where "line_bounds content line = Some (a, b)"
    "byte_index_for_column (take (b - a) (drop a content)) column = Some i"
    "find_sub '']]'' (drop i (take (b - a) (drop a content))) = Some j"
    "applied_link_target_and_label (take (j + 2) (drop i (take (b - a) (drop a content)))) =
       Some (missing, label)"
    "replacement = (case label of Some l \<Rightarrow> l | None \<Rightarrow> missing)"
    "trim (take (b - a) (drop a content)) = preview"
    "new_content = take (a + i) content @ replacement @ drop (a + (i + j + 2)) content"
  using assms
  by (auto simp: unlinked_content_def outcome_simps slice_from_Ok Let_def split: if_splits)

text \<open>The texts around a link that an accepted change replaces.\<close>

definition link_replaced ::
  "nat \<Rightarrow> nat \<Rightarrow> string \<Rightarrow> string \<Rightarrow> string \<Rightarrow> string \<Rightarrow> string \<Rightarrow> bool" where
  "link_replaced line column preview missing replacement before new_content \<longleftrightarrow>
     (\<exists>prior left link right later label.
        before = prior @ left @ link @ right @ later \<and>
        new_content = prior @ left @ replacement @ right @ later \<and>
        (prior = [] \<or> last prior = NL) \<and> NL \<notin> set (left @ link @ right) \<and>
        as_u32 (count_list prior NL + 1) = line \<and> char_count left + 1 = column \<and>
        trim (left @ link @ right) = preview \<and>
        applied_link_target_and_label link = Some (missing, label) \<and>
        replacement = (case label of Some l \<Rightarrow> l | None \<Rightarrow> missing))"

lemma unlinked_content_Ok:
  assumes "unlinked_content shown content line column preview missing replacement = Ok new_content"
  shows "link_replaced line column preview missing replacement content new_content"
proof -
  from assms obtain a b i j label where
      bounds: "line_bounds content line = Some (a, b)" and
      i: "byte_index_for_column (take (b - a) (drop a content)) column = Some i" and
      j: "find_sub '']]'' (drop i (take (b - a) (drop a content))) = Some j" and
      link: "applied_link_target_and_label (take (j + 2) (drop i (take (b - a) (drop a content)))) =
        Some (missing, label)" and
      replacement: "replacement = (case label of Some l \<Rightarrow> l | None \<Rightarrow> missing)" and
      preview: "trim (take (b - a) (drop a content)) = preview" and
      result: "new_content = take (a + i) content @ replacement @ drop (a + (i + j + 2)) content"
    by (rule unlinked_content_steps)
  from bounds obtain prior row later where content: "content = prior @ row @ later"
      and ab: "a = length prior" "b = a + length row" and nl: "NL \<notin> set row"
      and prior: "prior = [] \<or> last prior = NL" "as_u32 (count_list prior NL + 1) = line"
    by (rule line_bounds_cut)
  have row: "take (b - a) (drop a content) = row" by (simp add: content ab)
  have ij: "i \<le> length row" "char_count (take i row) + 1 = column" "i + (j + 2) \<le> length row"
    using byte_index_Some [OF i] find_sub_bound [OF j] by (auto simp: row)
  let ?left = "take i row" and ?link = "take (j + 2) (drop i row)" and ?right = "drop (i + (j + 2)) row"
  have parts: "row = ?left @ ?link @ ?right"
    by (metis append_take_drop_id drop_drop add.commute)
  have "content = prior @ ?left @ ?link @ ?right @ later" using content parts by (metis append.assoc)
  moreover have "new_content = prior @ ?left @ replacement @ ?right @ later"
    using ij by (simp add: result content ab add.assoc)
  moreover have "NL \<notin> set (?left @ ?link @ ?right)" "trim (?left @ ?link @ ?right) = preview"
    using nl preview unfolding parts [symmetric] row by simp_all
  ultimately show ?thesis
    unfolding link_replaced_def using prior ij(2) link replacement unfolding row by blast
qed

text \<open>C12. When a remediation is applied, the file held, on the line and at the column the
  preview named, a link to the missing note on a line that reads as the preview showed;
  afterwards it holds the same text with that one link replaced by its label, under the
  permissions it had, and every other path is as before, directories created on the way
  apart.\<close>

theorem remediation_replaces_one_link:
  assumes "apply_unlink_dangling_link shown io_text pid path line column preview missing replacement w =
      ((Ok (), w') :: (unit, 'v JsonRpcErrorObject) outcome \<times> world)"
    and "\<not> temporary path"
  shows "(\<exists>content mode new_content. w_fs w path = Some (FileEntry content mode) \<and>
      link_replaced line column preview missing replacement content new_content \<and>
      w_fs w' path = Some (FileEntry new_content mode)) \<and>
    (\<forall>p. p \<noteq> path \<longrightarrow> w_fs w' p = w_fs w p \<or> w_fs w p = None \<and> w_fs w' p = Some DirEntry)"
proof -
  obtain content w1 w2 new_content where
      read: "sys_read path w = (Ok content, w1)" and
      new: "unlinked_content shown content line column preview missing replacement =
        (Ok new_content :: (string, 'v JsonRpcErrorObject) outcome)" and
      commit: "write_one pid path new_content w1 = (Ok (), w')"
    using assms(1) unfolding apply_unlink_dangling_link_def
    by (auto simp: map_err_Ok_iff split: prod.splits outcome.splits)
  have same: "w_fs w1 = w_fs w" and held: "\<exists>mode. w_fs w path = Some (FileEntry content mode)"
    using read unfolding sys_read_def by (auto elim!: may_fail_cases split: option.splits entry.splits)
  then obtain mode where mode: "w_fs w path = Some (FileEntry content mode)" by blast
  let ?t = "tx_write path new_content tx_new"
  have "proper ?t" using assms(2) by (simp add: proper_def tx_write_def tx_new_def)
  from commit_done [OF commit [unfolded write_one_def] this]
  have "w_fs w' path = Some (FileEntry new_content mode)"
    and "\<forall>p. p \<noteq> path \<longrightarrow> w_fs w' p = w_fs w p \<or> w_fs w p = None \<and> w_fs w' p = Some DirEntry"
    by (auto simp: tx_write_def tx_new_def in_place_def target_mode_def same mode)
  with mode unlinked_content_Ok [OF new] show ?thesis by blast
qed

text \<open>A note whose second line has a link to a note that is gone.\<close>

definition linking_world :: world where
  "linking_world = \<lparr>w_fs = [[''r''] \<mapsto> DirEntry,
       [''r'', ''a.org''] \<mapsto> FileEntry (''* A'' @ [NL] @ ''see [[id:x][the note]].'' @ [NL]) 384],
     w_faults = [], w_counter = 0, w_default_mode = 420\<rparr>"

definition unlink_sample :: "(unit, unit JsonRpcErrorObject) outcome \<times> world" where
  "unlink_sample = apply_unlink_dangling_link ''/r/a.org'' (\<lambda>e. []) 7 [''r'', ''a.org''] 2 5
     ''see [[id:x][the note]].'' ''x'' ''the note'' linking_world"

lemma unlink_runs: "fst unlink_sample = Ok ()"
  by code_simp

lemma unlink_result: "w_fs (snd unlink_sample) [''r'', ''a.org''] =
    Some (FileEntry (''* A'' @ [NL] @ ''see the note.'' @ [NL]) 384)"
  by code_simp

theorem remediation_replaces_one_link_witness:
  "link_replaced 2 5 ''see [[id:x][the note]].'' ''x'' ''the note''
     (''* A'' @ [NL] @ ''see [[id:x][the note]].'' @ [NL]) (''* A'' @ [NL] @ ''see the note.'' @ [NL])"
proof -
  have run: "apply_unlink_dangling_link ''/r/a.org'' (\<lambda>e. []) 7 [''r'', ''a.org''] 2 5
      ''see [[id:x][the note]].'' ''x'' ''the note'' linking_world =
      ((Ok (), snd unlink_sample) :: (unit, unit JsonRpcErrorObject) outcome \<times> world)"
    using unlink_runs unfolding unlink_sample_def [symmetric] by (simp add: prod_eq_iff)
  have before: "w_fs linking_world [''r'', ''a.org''] =
      Some (FileEntry (''* A'' @ [NL] @ ''see [[id:x][the note]].'' @ [NL]) 384)"
    by (simp add: linking_world_def)
  have "\<not> temporary [''r'', ''a.org'']" by (simp add: temporary_def suffix_def)
  from remediation_replaces_one_link [OF run this]
  show ?thesis unfolding before unlink_result by (simp only: option.inject entry.inject) blast
qed

end
