(* ===== verification/Spec2Isabelle.thy ===== *)
theory Spec2Isabelle
  imports IndexProps Discovery Glossary TransactionProps WritePath Metadata Rewrite Capture
    SourceProps OrderedMap RefreshProps PublicationProps RecoveryProps
    Artifacts StructuralWrite WorkflowProps ReviewProps RoutineProps DaemonProps
    RemediationProps
begin

text \<open>
  \<^bold>\<open>A model of org-slipbox.\<close>

  org-slipbox keeps a directory of Org files as a network of notes.  A daemon, written in
  Rust, indexes the files, answers JSON-RPC requests of editors and of a web page, and
  edits the files on their behalf; further crates import a Git repository as a read-only
  source and publish it in generations.  The crates (below \<open>src/crates\<close>) and what the
  theories of this development model of them:

  \<^bold>\<open>Ground.\<close>  \<open>Prelude\<close> has the type \<open>outcome\<close> that a Rust result is translated into
  (\<open>Ok\<close>, \<open>Err\<close>, and \<open>Panic\<close> for an index out of range, a slice off a character boundary or
  a failed allocation), the integer casts, and the loops over numbered lines with the
  locales \<open>scan_invariant\<close> and \<open>source_scan\<close>.  \<open>RustStr\<close> and \<open>RustStrFacts\<close> have the
  operations of \<open>str\<close> over the bytes of a text, \<open>Utf8\<close> the test for well-formed UTF-8,
  \<open>RustPath\<close> the operations of \<open>Path\<close>, \<open>OrderedMap\<close> the maps and sets in key order, with the
  locale \<open>keyed_store\<close>.

  \<^bold>\<open>Indexer\<close> (\<open>slipbox-index\<close>).  \<open>OrgIndex\<close> has the line parsers, \<open>IndexScan\<close> the two passes
  over a source: \<open>scan_source\<close>, which yields nodes, links and searchable rows, and
  \<open>scan_source_outline\<close>, which yields the outline alone.  \<open>CoreModel\<close> and \<open>References\<close> have
  the records of \<open>slipbox-core\<close> they fill.  \<open>IndexFacts\<close> and \<open>IndexTrace\<close> prove invariants
  of the document loop through interpretations of the scan locales, \<open>IndexProps\<close> the
  properties: distinct keys, nodes, links and rows that trace back to their lines,
  agreement of the two passes, exclusion inherited from ancestors, and the two situations
  in which the code departs from that.  \<open>Discovery\<close> has the file policy and the platform
  policy, with the regular expressions as a parameter.

  \<^bold>\<open>Writer\<close> (\<open>slipbox-write\<close>).  \<open>FileSystem\<close> is the file system as a state with a schedule
  of faults, one consulted by every call that can fail, so that a statement over all
  schedules covers a failure or crash at any point; \<open>Transaction\<close> stages, commits, removes
  and drops as \<open>transaction.rs\<close> does.  \<open>TransactionFacts\<close> describes each call by what it may
  change and \<open>TransactionProps\<close> has the contract of a commit.  \<open>WritePath\<close> normalises paths
  and finds free names; \<open>WriteOutline\<close> and \<open>WriteProperties\<close> are the document model;
  \<open>Metadata\<close>, \<open>Rewrite\<close>, \<open>CaptureContent\<close> and \<open>Capture\<close> are the edits, each a read, a
  transformation of the document and a transaction.

  \<^bold>\<open>Core records\<close> (\<open>slipbox-core\<close>).  \<open>Glossary\<close> has the terms and their repetition schedule;
  \<open>Validation\<close> the limits and field validators; \<open>Exploration\<close>, \<open>Artifacts\<close>,
  \<open>StructuralWrite\<close>, \<open>Workflow\<close>, \<open>Review\<close>, \<open>Reports\<close>, \<open>Routine\<close> and \<open>Packs\<close> the records of
  those names with their validators and conversions.

  \<^bold>\<open>Engine\<close> (\<open>slipbox-engine\<close>).  \<open>WorkflowRun\<close> executes a workflow, \<open>RoutineRun\<close> a review
  routine and the handlers of saved reviews, \<open>Catalog\<close> discovers workflows, profiles and
  routines in directories and packs, \<open>Remediation\<close> applies a remediation to a file through a
  transaction of the writer.  \<open>WorkflowProps\<close> and \<open>RoutineProps\<close> compute the set of faults a
  run can have (\<open>faults\<close>) and its results (\<open>results\<close>); \<open>CatalogProps\<close> shows, through the
  locale \<open>registry\<close> interpreted on the three collections, that a catalog is closed under
  reference.  A routine uses what its catalog promises, and a workflow what its validation
  promises: these properties span \<open>Catalog\<close>, \<open>RoutineRun\<close>, \<open>WorkflowRun\<close> and \<open>Review\<close>.

  \<^bold>\<open>Daemon\<close> (\<open>src/server.rs\<close>, \<open>slipbox-rpc\<close>, dispatch of \<open>slipbox-engine\<close>).  \<open>Rpc\<close> frames
  messages, \<open>Operations\<close> classifies every method, \<open>Daemon\<close> is the request loop with the guard
  of a read-only session; \<open>DaemonProps\<close> has what a session keeps and answers.

  \<^bold>\<open>Sources\<close> (\<open>slipbox-core\<close>, \<open>slipbox-sync\<close>).  \<open>SourceIdentity\<close> has the identities and the
  configuration of a source.  \<open>Refresh\<close> is the coordinator of imports as a step relation
  over threads; one step is one critical section of a mutex, and the work of a leader is
  arbitrary.  \<open>StoreWorld\<close> is the directory tree of the generation store with its locks,
  faults and cancellations, with the judgements \<open>triple\<close>, \<open>keeps\<close> and \<open>within\<close> about calls;
  \<open>GenerationStore\<close> publishes a generation and \<open>Recovery\<close> restores one at startup and
  reclaims what nothing reads.  \<open>RefreshProps\<close>, \<open>PublicationProps\<close> and \<open>RecoveryProps\<close> hold
  for every interleaving and every schedule.

  \<^bold>\<open>Conventions.\<close>  Texts are byte sequences, so that lengths, offsets and slices are those
  of the code; operations on characters count the bytes that begin one.  Integers that the
  code casts or lets wrap are reduced modulo their width, as a release build does; the
  comments name the places where a debug build panics instead.  A path is a list of
  component names on a Unix host.

  \<^bold>\<open>Bounds.\<close>  \<open>first_free\<close> and the captures take the number of names to try; the search
  succeeds as soon as more numbers are tried than the file system has entries, and its
  \<open>i32\<close> counter wraps only past 2147483647 taken names.  \<open>remove_tree\<close> recurses once per
  level of the directory tree and is given a depth that no name of the tree reaches.  The temporary
  names of a transaction are tried sixteen times, as in the code.  All other loops end by
  a measure: the request loop on the length of the stream, the scans on the lines, the
  search for a link on the rest of the text.

  \<^bold>\<open>Parameters.\<close>  What is not under \<open>src\<close> or belongs to the host is an argument: the regular
  expression engine, the JSON codec, the text of \<open>Debug\<close> and of operating system errors, the
  random draws of identities, the decimal form of floating point numbers, the process
  identity, decryption of a source, and the order in which a directory is listed.  The
  queries over the SQLite index are arguments of the runs of workflows and routines, and the
  handlers are one of the daemon.  In \<open>StoreWorld\<close> a lock may be held by another process at
  any call, and this process's leases are passed on.

  \<^bold>\<open>Not modelled.\<close>  The SQLite store (\<open>slipbox-store\<close>) and the query handlers over it are SQL
  run by SQLite.  The Git client and the snapshots (\<open>slipbox-git\<close>) are calls of a Git library
  and of the host's directory interface.  The staging of an index, the persistence of the
  source catalog, the daemon client, the command line, the web page, the Android
  application with its Kotlin code and the Emacs client are transport, storage or user
  interface around the parts above.  Exhaustion of memory is not modelled, except for an
  announced message length that no allocation can meet.
\<close>

end
